(* ===== verification/Prelude.thy ===== *)
theory Prelude
  imports Main "HOL-Library.Word"
begin

text \<open>
  The shared vocabulary of the development: exceptions as values, the result type that every
  fallible operation returns, the query helpers the SQL statements are written with, and the
  generic list lemmas the component proofs rest on.
  An operation of the program that may raise returns \<open>exc + 'a\<close>: \<open>Inl e\<close> is the raised
  exception, \<open>Inr x\<close> the returned value.
\<close>

named_theorems query_simps "facts that evaluate or invert a query"
named_theorems service_defs "definitions unfolded to execute a service operation"

section \<open>Exceptions and results\<close>

text \<open>
  The exceptions the program raises or lets escape. \<open>AppError\<close> is the class of
  \<^verbatim>\<open>app/core/errors.py\<close>: HTTP status, machine readable code, message and response headers.
  The others are the Python, SQLAlchemy, pydantic, PyJWT, redis, FastAPI and Starlette exceptions
  the code names.
\<close>

datatype exc =
    AppError int string string "(string \<times> string) list option"
  | ValueError string
  | KeyError string
  | IndexError string
  | TypeError string
  | AttributeError string
  | OverflowError string
  | IntegrityError string
  | StaleDataError string
  | JSONDecodeError string
  | ValidationError string
  | InvalidAccessToken string
  | PyJWTError string
  | RedisError string
  | InvitationDeliveryError string
  | RequestValidationError string
  | HTTPException int "string option" "(string \<times> string) list option"

definition r_bind :: "exc + 'a \<Rightarrow> ('a \<Rightarrow> exc + 'b) \<Rightarrow> exc + 'b" where
  "r_bind m f = (case m of Inl e \<Rightarrow> Inl e | Inr x \<Rightarrow> f x)"

text \<open>\<open>require x e\<close> is the idiom \<open>if x is None: raise e\<close>; \<open>raise_if b e\<close> is \<open>if b: raise e\<close>.\<close>

definition require :: "'a option \<Rightarrow> exc \<Rightarrow> exc + 'a" where
  "require x e = (case x of None \<Rightarrow> Inl e | Some y \<Rightarrow> Inr y)"

definition raise_if :: "bool \<Rightarrow> exc \<Rightarrow> exc + unit" where
  "raise_if b e = (if b then Inl e else Inr ())"

section \<open>Queries\<close>

text \<open>
  A table is the list of its rows in insertion order. A \<open>SELECT\<close> is a list comprehension or a
  filter over the tables, \<open>session.scalar\<close> is the first row of the answer or \<open>None\<close>, and an
  \<open>UPDATE\<close> of the rows that satisfy a condition is \<open>update_where\<close>.
\<close>

definition scalar :: "'r list \<Rightarrow> 'r option" where
  "scalar rows = (case rows of [] \<Rightarrow> None | r # _ \<Rightarrow> Some r)"

definition update_where :: "('r \<Rightarrow> bool) \<Rightarrow> ('r \<Rightarrow> 'r) \<Rightarrow> 'r list \<Rightarrow> 'r list" where
  "update_where P f rows = map (\<lambda>r. if P r then f r else r) rows"

definition unique_on :: "('r \<Rightarrow> 'k) \<Rightarrow> 'r list \<Rightarrow> bool" where
  "unique_on k rows = distinct (map k rows)"

text \<open>A unique column that may be null (nulls never collide), and a foreign key that may be null.\<close>

definition unique_opt :: "('r \<Rightarrow> 'k option) \<Rightarrow> 'r list \<Rightarrow> bool" where
  "unique_opt k rows = unique_on k (filter (\<lambda>r. k r \<noteq> None) rows)"

definition fk :: "('r \<Rightarrow> 'k) \<Rightarrow> 'k set \<Rightarrow> 'r list \<Rightarrow> bool" where
  "fk k S rows = (\<forall>r \<in> set rows. k r \<in> S)"

definition fk_opt :: "('r \<Rightarrow> 'k option) \<Rightarrow> 'k set \<Rightarrow> 'r list \<Rightarrow> bool" where
  "fk_opt k S rows = (\<forall>r \<in> set rows. case k r of None \<Rightarrow> True | Some x \<Rightarrow> x \<in> S)"

section \<open>Lemmas on results\<close>

lemma r_bind_Inl [simp]: "r_bind (Inl e) f = Inl e"
  by (simp add: r_bind_def)

lemma r_bind_Inr [simp]: "r_bind (Inr x) f = f x"
  by (simp add: r_bind_def)

lemma r_bind_eq_Inr [simp]: "r_bind m f = Inr y \<longleftrightarrow> (\<exists>x. m = Inr x \<and> f x = Inr y)"
  by (cases m) simp_all

lemma r_bind_eq_Inl: "r_bind m f = Inl e \<longleftrightarrow> m = Inl e \<or> (\<exists>x. m = Inr x \<and> f x = Inl e)"
  by (cases m) simp_all

lemma require_simps [simp]:
  "require None e = Inl e" "require (Some y) e = Inr y"
  by (simp_all add: require_def)

lemma require_eq_Inr [simp]: "require x e = Inr y \<longleftrightarrow> x = Some y"
  by (cases x) simp_all

lemma require_eq_Inl [simp]: "require x e = Inl e' \<longleftrightarrow> x = None \<and> e' = e"
  by (cases x) auto

lemma raise_if_simps [simp]:
  "raise_if True e = Inl e" "raise_if False e = Inr ()"
  by (simp_all add: raise_if_def)

lemma raise_if_eq_Inr [simp]: "raise_if b e = Inr u \<longleftrightarrow> \<not> b"
  by (cases b) simp_all

lemma raise_if_eq_Inl [simp]: "raise_if b e = Inl e' \<longleftrightarrow> b \<and> e' = e"
  by (cases b) auto

text \<open>With this congruence a service operation is evaluated call by call, never inside a continuation.\<close>

lemma r_bind_weak_cong: "m = m' \<Longrightarrow> r_bind m f = r_bind m' f"
  by simp

declare Let_def [service_defs] update_where_def [service_defs]

section \<open>Lemmas on queries\<close>

lemma scalar_simps [simp]: "scalar [] = None" "scalar (r # rs) = Some r"
  by (simp_all add: scalar_def)

lemma scalar_eq_None [simp]: "scalar rs = None \<longleftrightarrow> rs = []"
  by (cases rs) simp_all

lemma scalar_SomeD: "scalar rs = Some r \<Longrightarrow> r \<in> set rs"
  by (cases rs) simp_all

lemma scalar_filter_SomeD: "scalar (filter P rs) = Some r \<Longrightarrow> r \<in> set rs \<and> P r"
  by (auto dest: scalar_SomeD)

lemma scalar_filter_eq_None [query_simps]:
  "scalar (filter P rs) = None \<longleftrightarrow> (\<forall>r \<in> set rs. \<not> P r)"
  by (simp add: filter_empty_conv)

lemma scalar_ex: "r \<in> set rs \<Longrightarrow> P r \<Longrightarrow> \<exists>r'. scalar (filter P rs) = Some r'"
  by (metis not_None_eq scalar_filter_eq_None)

lemma unique_onD: "unique_on k rs \<Longrightarrow> r \<in> set rs \<Longrightarrow> r' \<in> set rs \<Longrightarrow> k r = k r' \<Longrightarrow> r = r'"
  by (auto simp: unique_on_def distinct_map inj_on_def)

lemma scalar_filter_unique:
  assumes "unique_on k rs" and "r \<in> set rs" and "P r" and "\<And>r'. r' \<in> set rs \<Longrightarrow> P r' \<Longrightarrow> k r' = k r"
  shows "scalar (filter P rs) = Some r"
proof -
  obtain r' where r': "scalar (filter P rs) = Some r'"
    using scalar_ex [of r rs P] assms(2,3) by blast
  then have "r' \<in> set rs" "P r'" by (auto dest: scalar_filter_SomeD)
  with assms(4) have "k r' = k r" by blast
  with \<open>r' \<in> set rs\<close> assms(1,2) have "r' = r" by (simp add: unique_onD)
  with r' show ?thesis by simp
qed

section \<open>Lemmas on keyed row lists\<close>

lemma unique_on_Nil [simp]: "unique_on k []"
  by (simp add: unique_on_def)

lemma unique_on_append1 [simp]:
  "unique_on k (rs @ [r]) \<longleftrightarrow> unique_on k rs \<and> k r \<notin> k ` set rs"
  by (auto simp: unique_on_def)

lemma unique_on_filter: "unique_on k rs \<Longrightarrow> unique_on k (filter P rs)"
  by (simp add: unique_on_def distinct_map_filter)

lemma set_update_where:
  "r' \<in> set (update_where P f rs) \<longleftrightarrow> (\<exists>r \<in> set rs. r' = (if P r then f r else r))"
  by (auto simp: update_where_def)

lemma update_where_map [simp]: "(\<And>r. P r \<Longrightarrow> k (f r) = k r) \<Longrightarrow> map k (update_where P f rs) = map k rs"
  by (simp add: update_where_def)

lemma unique_on_update_where:
  "(\<And>r. P r \<Longrightarrow> k (f r) = k r) \<Longrightarrow> unique_on k (update_where P f rs) \<longleftrightarrow> unique_on k rs"
  by (simp add: unique_on_def)

lemma image_update_where:
  "(\<And>r. P r \<Longrightarrow> k (f r) = k r) \<Longrightarrow> k ` set (update_where P f rs) = k ` set rs"
  by (metis list.set_map update_where_map)

lemma filter_update_where_other:
  "(\<And>r. P r \<Longrightarrow> \<not> Q r \<and> \<not> Q (f r)) \<Longrightarrow> filter Q (update_where P f rs) = filter Q rs"
  by (induction rs) (auto simp: update_where_def)

lemma update_where_id: "(\<And>r. r \<in> set rs \<Longrightarrow> P r \<Longrightarrow> f r = r) \<Longrightarrow> update_where P f rs = rs"
  by (simp add: update_where_def map_idI)

lemma length_update_where [simp]: "length (update_where P f rs) = length rs"
  by (simp add: update_where_def)

lemma unique_opt_Nil [simp]: "unique_opt k []"
  by (simp add: unique_opt_def)

lemma unique_opt_append1 [simp]:
  "unique_opt k (rs @ [r]) \<longleftrightarrow> unique_opt k rs \<and> (k r = None \<or> k r \<notin> k ` set rs)"
  by (auto simp: unique_opt_def)

lemma unique_opt_filter: "unique_opt k rs \<Longrightarrow> unique_opt k (filter P rs)"
proof -
  have "filter (\<lambda>r. k r \<noteq> None) (filter P rs) = filter P (filter (\<lambda>r. k r \<noteq> None) rs)"
    by (simp add: conj_commute)
  then show "unique_opt k rs \<Longrightarrow> unique_opt k (filter P rs)"
    by (simp only: unique_opt_def unique_on_filter)
qed

lemma fk_simps [simp]:
  "fk k S []" "fk k S (rs @ [r]) \<longleftrightarrow> fk k S rs \<and> k r \<in> S"
  "fk_opt j S []" "fk_opt j S (rs @ [r]) \<longleftrightarrow> fk_opt j S rs \<and> (\<forall>x. j r = Some x \<longrightarrow> x \<in> S)"
  by (auto simp: fk_def fk_opt_def split: option.splits)

lemma fk_insert [simp]:
  "fk k S rs \<Longrightarrow> fk k (insert x S) rs" "fk_opt j S rs \<Longrightarrow> fk_opt j (insert x S) rs"
  by (auto simp: fk_def fk_opt_def split: option.splits)

lemma fk_filter [simp]:
  "fk k S rs \<Longrightarrow> fk k S (filter P rs)" "fk_opt j S rs \<Longrightarrow> fk_opt j S (filter P rs)"
  by (auto simp: fk_def fk_opt_def split: option.splits)

lemma fk_filter_remove [simp]:
  "fk k S rs \<Longrightarrow> fk k (S - {i}) (filter (\<lambda>r. k r \<noteq> i) rs)"
  by (auto simp: fk_def)

lemma fkD: "fk k S rs \<Longrightarrow> r \<in> set rs \<Longrightarrow> k r \<in> S"
  by (simp add: fk_def)

end
