(* ===== verification/Py_Text.thy ===== *)
theory Py_Text
  imports Prelude "HOL-Library.Char_ord" "HOL-Library.List_Lexorder"
begin

text \<open>
  What the program uses of Python's \<open>str\<close>, \<open>int\<close> and \<open>uuid\<close>. A \<open>str\<close> is a list of characters
  of code point below 256, which is also what an HTTP header holds after latin-1 decoding.
  An identifier (\<open>uuid.UUID\<close>) is a 128-bit word. The main results are the round trips of decimal
  integers and of identifiers through their text forms.
\<close>

type_synonym uuid = "128 word"

section \<open>Characters and strings\<close>

definition cp :: "char \<Rightarrow> nat" where
  "cp c = of_char c"

definition is_space :: "char \<Rightarrow> bool" where
  "is_space c = (cp c \<in> {9..13} \<union> {28..32} \<union> {133, 160})"

definition lower_char :: "char \<Rightarrow> char" where
  "lower_char c =
     (if 65 \<le> cp c \<and> cp c \<le> 90 \<or> 192 \<le> cp c \<and> cp c \<le> 222 \<and> cp c \<noteq> 215
      then char_of (cp c + 32) else c)"

definition py_lower :: "string \<Rightarrow> string" where
  "py_lower s = map lower_char s"

text \<open>
  \<open>str.upper\<close> maps the sharp s (code point 223) to two letters. The micro sign and the y with
  diaeresis have upper case forms outside the modelled range and are kept; the program only
  compares the result with ASCII names.
\<close>

definition upper_char :: "char \<Rightarrow> string" where
  "upper_char c =
     (if 97 \<le> cp c \<and> cp c \<le> 122 \<or> 224 \<le> cp c \<and> cp c \<le> 254 \<and> cp c \<noteq> 247
      then [char_of (cp c - 32)]
      else if cp c = 223 then ''SS'' else [c])"

definition py_upper :: "string \<Rightarrow> string" where
  "py_upper s = concat (map upper_char s)"

definition py_lstrip :: "string \<Rightarrow> string" where
  "py_lstrip s = dropWhile is_space s"

definition py_strip :: "string \<Rightarrow> string" where
  "py_strip s = rev (dropWhile is_space (rev (dropWhile is_space s)))"

definition startswith :: "string \<Rightarrow> string \<Rightarrow> bool" where
  "startswith s p = (take (length p) s = p)"

text \<open>\<open>s.split(sep)\<close> for a one-character separator; never empty.\<close>

fun py_split :: "char \<Rightarrow> string \<Rightarrow> string list" where
  "py_split sep [] = [[]]"
| "py_split sep (c # cs) =
     (if c = sep then [] # py_split sep cs
      else (case py_split sep cs of [] \<Rightarrow> [[c]] | w # ws \<Rightarrow> (c # w) # ws))"

text \<open>\<open>s.partition(sep)\<close> and \<open>s.rpartition(sep)\<close>: head, whether the separator occurred, tail.\<close>

definition py_partition :: "char \<Rightarrow> string \<Rightarrow> string \<times> bool \<times> string" where
  "py_partition sep s =
     (let h = takeWhile (\<lambda>c. c \<noteq> sep) s in
      if sep \<in> set s then (h, True, drop (Suc (length h)) s) else (s, False, []))"

definition py_rpartition :: "char \<Rightarrow> string \<Rightarrow> string \<times> bool \<times> string" where
  "py_rpartition sep s =
     (let t = rev (takeWhile (\<lambda>c. c \<noteq> sep) (rev s)) in
      if sep \<in> set s then (take (length s - Suc (length t)) s, True, t) else ([], False, s))"

text \<open>\<open>s.replace(old, new)\<close> for a non-empty \<open>old\<close>, scanning from the left.\<close>

function py_replace :: "string \<Rightarrow> string \<Rightarrow> string \<Rightarrow> string" where
  "py_replace old new s =
     (if old = [] \<or> s = [] then s
      else if startswith s old then new @ py_replace old new (drop (length old) s)
      else hd s # py_replace old new (tl s))"
  by pat_completeness auto
termination
  by (relation "measure (\<lambda>(old, new, s). length s)") auto

declare py_replace.simps [simp del]

section \<open>Integers and their text\<close>

definition digit_char :: "nat \<Rightarrow> char" where
  "digit_char n = (if n < 10 then char_of (48 + n) else char_of (87 + n))"

definition digit_val :: "nat \<Rightarrow> char \<Rightarrow> nat option" where
  "digit_val base c =
     (let v = (if 48 \<le> cp c \<and> cp c \<le> 57 then cp c - 48
               else if 97 \<le> cp c \<and> cp c \<le> 122 then cp c - 87
               else if 65 \<le> cp c \<and> cp c \<le> 90 then cp c - 55 else 36)
      in if v < base then Some v else None)"

function nat_str :: "nat \<Rightarrow> string" where
  "nat_str n = (if n < 10 then [digit_char n] else nat_str (n div 10) @ [digit_char (n mod 10)])"
  by pat_completeness auto
termination
  by (relation "measure id") auto

declare nat_str.simps [simp del]

definition int_str :: "int \<Rightarrow> string" where
  "int_str i = (if i < 0 then ''-'' @ nat_str (nat (- i)) else nat_str (nat i))"

text \<open>
  The digits of an \<open>int(...)\<close> literal: at least one digit, single underscores allowed between
  digits. The accumulator is the value read so far.
\<close>

fun digits_value :: "nat \<Rightarrow> nat \<Rightarrow> string \<Rightarrow> nat option" where
  "digits_value base acc [] = Some acc"
| "digits_value base acc (c # cs) =
     (if c = CHR ''_'' then
        (case cs of [] \<Rightarrow> None
         | c' # cs' \<Rightarrow>
            (case digit_val base c' of None \<Rightarrow> None
             | Some v \<Rightarrow> digits_value base (acc * base + v) cs'))
      else (case digit_val base c of None \<Rightarrow> None
            | Some v \<Rightarrow> digits_value base (acc * base + v) cs))"

definition digits_start :: "nat \<Rightarrow> string \<Rightarrow> nat option" where
  "digits_start base s =
     (case s of [] \<Rightarrow> None | c # _ \<Rightarrow> if c = CHR ''_'' then None else digits_value base 0 s)"

definition split_sign :: "string \<Rightarrow> bool \<times> string" where
  "split_sign s =
     (case s of [] \<Rightarrow> (False, [])
      | c # cs \<Rightarrow> if c = CHR ''-'' then (True, cs) else if c = CHR ''+'' then (False, cs) else (False, s))"

definition signed :: "bool \<Rightarrow> nat \<Rightarrow> int" where
  "signed neg n = (if neg then - int n else int n)"

text \<open>
  \<open>int(s)\<close>: surrounding white space, a sign, decimal digits; more than 4300 digits are refused
  (the interpreter's \<open>int_max_str_digits\<close>). \<open>None\<close> is \<open>ValueError\<close>.
\<close>

definition int_max_str_digits :: nat where
  "int_max_str_digits = 4300"

definition py_int :: "string \<Rightarrow> int option" where
  "py_int s =
     (let (neg, ds) = split_sign (py_strip s) in
      if int_max_str_digits < length (filter (\<lambda>c. c \<noteq> CHR ''_'') ds) then None
      else map_option (signed neg) (digits_start 10 ds))"

text \<open>\<open>int(s, 16)\<close>: as above with an optional \<open>0x\<close> prefix, which an underscore may follow.\<close>

definition hex_body :: "string \<Rightarrow> string" where
  "hex_body ds =
     (if startswith ds ''0x'' \<or> startswith ds ''0X''
      then (case drop 2 ds of [] \<Rightarrow> [] | c # cs \<Rightarrow> if c = CHR ''_'' then cs else c # cs)
      else ds)"

definition py_int16 :: "string \<Rightarrow> int option" where
  "py_int16 s =
     (let (neg, ds) = split_sign (py_strip s)
      in map_option (signed neg) (digits_start 16 (hex_body ds)))"

section \<open>Identifiers\<close>

fun hex_digits :: "nat \<Rightarrow> nat \<Rightarrow> string" where
  "hex_digits 0 k = []"
| "hex_digits (Suc n) k = hex_digits n (k div 16) @ [digit_char (k mod 16)]"

text \<open>\<open>str(u)\<close>: 32 lower case hexadecimal digits in groups of 8, 4, 4, 4 and 12.\<close>

definition uuid_str :: "uuid \<Rightarrow> string" where
  "uuid_str u =
     (let h = hex_digits 32 (unat u) in
      take 8 h @ ''-'' @ take 4 (drop 8 h) @ ''-'' @ take 4 (drop 12 h) @ ''-'' @
      take 4 (drop 16 h) @ ''-'' @ drop 20 h)"

definition strip_braces :: "string \<Rightarrow> string" where
  "strip_braces s =
     rev (dropWhile (\<lambda>c. c \<in> {CHR ''{'', CHR ''}''}) (rev (dropWhile (\<lambda>c. c \<in> {CHR ''{'', CHR ''}''}) s)))"

text \<open>
  \<open>uuid.UUID(s)\<close>: \<open>urn:\<close> and \<open>uuid:\<close> are removed, braces stripped, dashes removed; the rest
  must be 32 characters that \<open>int(_, 16)\<close> reads as a number in range. \<open>None\<close> is \<open>ValueError\<close>.
\<close>

definition parse_uuid :: "string \<Rightarrow> uuid option" where
  "parse_uuid s =
     (let h = filter (\<lambda>c. c \<noteq> CHR ''-'') (strip_braces (py_replace ''uuid:'' [] (py_replace ''urn:'' [] s))) in
      if length h \<noteq> 32 then None
      else (case py_int16 h of None \<Rightarrow> None
            | Some i \<Rightarrow> if 0 \<le> i \<and> i < 2 ^ 128 then Some (word_of_int i) else None))"

section \<open>Lemmas on characters\<close>

lemma cp_char_of [simp]: "n < 256 \<Longrightarrow> cp (char_of n) = n"
  by (simp add: cp_def)

lemma char_of_cp [simp]: "char_of (cp c) = c"
  by (simp add: cp_def)

lemma cp_eq_iff: "cp c = cp d \<longleftrightarrow> c = d"
  by (metis char_of_cp)

lemma cp_digit_char: "n < 16 \<Longrightarrow> cp (digit_char n) = (if n < 10 then 48 + n else 87 + n)"
  by (simp add: digit_char_def)

lemma cp_less [simp]: "cp c < 256"
  by (simp add: cp_def)

lemma lower_char_idem [simp]: "lower_char (lower_char c) = lower_char c"
  using cp_less [of c] by (simp add: lower_char_def)

lemma py_lower_idem [simp]: "py_lower (py_lower s) = py_lower s"
  by (simp add: py_lower_def comp_def)

lemma length_py_lower [simp]: "length (py_lower s) = length s"
  by (simp add: py_lower_def)

lemma is_space_digit [simp]: "n < 16 \<Longrightarrow> \<not> is_space (digit_char n)"
  by (simp add: is_space_def cp_digit_char)

lemma digit_val_digit_char [simp]:
  "n < base \<Longrightarrow> base \<le> 16 \<Longrightarrow> digit_val base (digit_char n) = Some n"
  by (auto simp: digit_val_def cp_digit_char Let_def)

lemma digit_char_neq:
  assumes "n < 16"
  shows "digit_char n \<noteq> CHR ''_''" "digit_char n \<noteq> CHR ''-''" "digit_char n \<noteq> CHR ''+''"
    "digit_char n \<noteq> CHR '':''" "digit_char n \<noteq> CHR ''{''" "digit_char n \<noteq> CHR ''}''"
    "digit_char n \<noteq> CHR '',''" "digit_char n \<noteq> CHR ''=''" "digit_char n \<noteq> CHR ''x''"
    "digit_char n \<noteq> CHR ''X''"
  using assms by (auto simp: cp_eq_iff [symmetric] cp_digit_char) (auto simp: cp_def)

lemma py_strip_id:
  assumes "s = [] \<or> \<not> is_space (hd s) \<and> \<not> is_space (last s)"
  shows "py_strip s = s"
proof -
  have "dropWhile is_space s = s" and "dropWhile is_space (rev s) = rev s"
    using assms by (auto simp: dropWhile_eq_self_iff hd_rev)
  then show ?thesis by (simp add: py_strip_def)
qed

lemma py_strip_no_space: "(\<And>c. c \<in> set s \<Longrightarrow> \<not> is_space c) \<Longrightarrow> py_strip s = s"
  by (rule py_strip_id) (metis hd_in_set last_in_set)

lemma is_space_lower_char [simp]: "is_space (lower_char c) = is_space c"
  using cp_less [of c] by (auto simp: lower_char_def is_space_def)

lemma dropWhile_space_lower: "dropWhile is_space (py_lower s) = py_lower (dropWhile is_space s)"
  by (induction s) (simp_all add: py_lower_def)

lemma py_strip_lower: "py_strip (py_lower s) = py_lower (py_strip s)"
  by (simp add: py_strip_def dropWhile_space_lower py_lower_def rev_map flip: dropWhile_map)
    (metis dropWhile_space_lower py_lower_def rev_map)

lemma dropWhile_idem [simp]: "dropWhile P (dropWhile P s) = dropWhile P s"
  by (induction s) simp_all

lemma dropWhile_snoc_keep: "\<not> P x \<Longrightarrow> dropWhile P (xs @ [x]) = dropWhile P xs @ [x]"
  by (induction xs) simp_all

lemma hd_py_strip: "py_strip s \<noteq> [] \<Longrightarrow> \<not> is_space (hd (py_strip s)) \<and> \<not> is_space (last (py_strip s))"
proof -
  assume ne: "py_strip s \<noteq> []"
  obtain t where t: "dropWhile is_space s = t" by simp
  with ne have "t \<noteq> []" by (auto simp: py_strip_def)
  with t have h: "\<not> is_space (hd t)" by (metis hd_dropWhile)
  obtain x xs where x: "t = x # xs" using \<open>t \<noteq> []\<close> by (cases t) auto
  with t h have p: "py_strip s = rev (dropWhile is_space (rev xs @ [x]))" by (simp add: py_strip_def)
  from p ne have l: "\<not> is_space (last (py_strip s))" by (metis hd_dropWhile last_rev rev_is_Nil_conv)
  from p x h have "hd (py_strip s) = x" by (simp add: dropWhile_snoc_keep)
  with l h x show ?thesis by simp
qed

lemma py_strip_idem [simp]: "py_strip (py_strip s) = py_strip s"
  by (rule py_strip_id) (metis hd_py_strip)

section \<open>Round trip of decimal integers\<close>

definition digit_str :: "nat \<Rightarrow> string \<Rightarrow> bool" where
  "digit_str base s = (\<forall>c \<in> set s. \<exists>n < base. c = digit_char n)"

lemma digits_value_append:
  assumes "\<forall>c \<in> set xs. c \<noteq> CHR ''_''" and "digits_value base acc xs = Some v"
  shows "digits_value base acc (xs @ ys) = digits_value base v ys"
  using assms by (induction xs arbitrary: acc) (auto split: option.splits)

lemma digit_strD: "digit_str base s \<Longrightarrow> base \<le> 16 \<Longrightarrow> c \<in> set s \<Longrightarrow> \<exists>n < 16. c = digit_char n"
  by (meson digit_str_def less_le_trans)

lemma digit_str_absent:
  assumes "digit_str base s" "base \<le> 16" "\<And>n. n < 16 \<Longrightarrow> digit_char n \<noteq> c"
  shows "c \<notin> set s"
  using digit_strD [OF assms(1,2), of c] assms(3) by auto

lemma digit_str_no_underscore: "digit_str base s \<Longrightarrow> base \<le> 16 \<Longrightarrow> \<forall>c \<in> set s. c \<noteq> CHR ''_''"
  using digit_str_absent [of base s "CHR ''_''"] digit_char_neq(1) by metis

lemma digit_str_no_space: "digit_str base s \<Longrightarrow> base \<le> 16 \<Longrightarrow> c \<in> set s \<Longrightarrow> \<not> is_space c"
  by (auto dest: digit_strD)

lemma digits_value_snoc:
  assumes "digit_str base xs" "base \<le> 16" "digits_value base acc xs = Some v" "n < base"
  shows "digits_value base acc (xs @ [digit_char n]) = Some (v * base + n)"
  using assms by (simp add: digits_value_append digit_str_no_underscore digit_char_neq)

lemma nat_str_nonempty [simp]: "nat_str n \<noteq> []"
  by (subst nat_str.simps) simp

lemma digit_str_nat_str: "digit_str 10 (nat_str n)"
proof (induction n rule: nat_str.induct)
  case (1 n)
  then show ?case
    by (subst nat_str.simps) (auto simp: digit_str_def intro: exI [of _ "n mod 10"])
qed

lemma digits_value_nat_str: "digits_value 10 0 (nat_str n) = Some n"
proof (induction n rule: nat_str.induct)
  case (1 n)
  show ?case
  proof (cases "n < 10")
    case True
    then show ?thesis by (subst nat_str.simps) (simp add: digit_char_neq)
  next
    case False
    with 1 have "digits_value 10 0 (nat_str (n div 10) @ [digit_char (n mod 10)]) = Some (n div 10 * 10 + n mod 10)"
      by (intro digits_value_snoc digit_str_nat_str) simp_all
    with False show ?thesis by (subst nat_str.simps) simp
  qed
qed

lemma digits_start_digit_str:
  "digit_str base s \<Longrightarrow> base \<le> 16 \<Longrightarrow> s \<noteq> [] \<Longrightarrow> digits_start base s = digits_value base 0 s"
  using digit_str_no_underscore [of base s] by (cases s) (simp_all add: digits_start_def)

lemma split_sign_digit_str:
  "digit_str base s \<Longrightarrow> base \<le> 16 \<Longrightarrow> split_sign s = (False, s)"
  using digit_str_absent [of base s "CHR ''-''"] digit_str_absent [of base s "CHR ''+''"] digit_char_neq
  by (cases s) (auto simp: split_sign_def)

lemma length_nat_str_le: "n < 10 ^ Suc k \<Longrightarrow> length (nat_str n) \<le> Suc k"
proof (induction k arbitrary: n)
  case 0
  then show ?case by (subst nat_str.simps) simp
next
  case (Suc k)
  then have "n div 10 < 10 ^ Suc k" by (simp add: less_mult_imp_div_less mult.commute)
  then have "length (nat_str (n div 10)) \<le> Suc k" by (rule Suc.IH)
  then show ?case by (subst nat_str.simps) simp
qed

lemma py_int_nat_str:
  assumes "n < 10 ^ k" "0 < k" "k \<le> int_max_str_digits"
  shows "py_int (nat_str n) = Some (int n)"
proof -
  have "length (filter (\<lambda>c. c \<noteq> CHR ''_'') (nat_str n)) \<le> length (nat_str n)"
    by (rule length_filter_le)
  moreover have "length (nat_str n) \<le> k"
    using length_nat_str_le [of n "k - 1"] assms by simp
  ultimately have "length (filter (\<lambda>c. c \<noteq> CHR ''_'') (nat_str n)) \<le> int_max_str_digits"
    using assms(3) by linarith
  moreover have "py_strip (nat_str n) = nat_str n"
    by (rule py_strip_no_space) (rule digit_str_no_space [OF digit_str_nat_str], simp)
  ultimately show ?thesis
    by (simp add: py_int_def split_sign_digit_str [OF digit_str_nat_str] signed_def
        digits_start_digit_str [OF digit_str_nat_str] digits_value_nat_str)
qed

lemma py_int_int_str:
  "0 \<le> i \<Longrightarrow> i < 10 ^ k \<Longrightarrow> 0 < k \<Longrightarrow> k \<le> int_max_str_digits \<Longrightarrow> py_int (int_str i) = Some i"
  using py_int_nat_str [of "nat i" k] by (simp add: int_str_def nat_less_iff)

section \<open>Round trip of identifiers\<close>

lemma length_hex_digits [simp]: "length (hex_digits n k) = n"
  by (induction n arbitrary: k) simp_all

lemma digit_str_hex_digits: "digit_str 16 (hex_digits n k)"
  by (induction n arbitrary: k) (auto simp: digit_str_def intro: exI [of _ "_ mod 16"])

lemma digits_value_hex_digits: "digits_value 16 0 (hex_digits n k) = Some (k mod 16 ^ n)"
proof (induction n arbitrary: k)
  case (Suc n)
  have "digits_value 16 0 (hex_digits n (k div 16) @ [digit_char (k mod 16)])
      = Some ((k div 16) mod 16 ^ n * 16 + k mod 16)"
    by (rule digits_value_snoc) (simp_all add: digit_str_hex_digits Suc)
  then show ?case by (simp add: mod_mult2_eq mult.commute)
qed simp

lemma take_drop_groups:
  "take 8 h @ take 4 (drop 8 h) @ take 4 (drop 12 h) @ take 4 (drop 16 h) @ drop 20 h = h"
proof -
  have "drop 8 h = take 4 (drop 8 h) @ take 4 (drop 12 h) @ take 4 (drop 16 h) @ drop 20 h"
    using append_take_drop_id [of 4 "drop 8 h"] append_take_drop_id [of 4 "drop 12 h"]
      append_take_drop_id [of 4 "drop 16 h"] by simp
  then show ?thesis by (metis append_take_drop_id)
qed

lemma set_uuid_str: "set (uuid_str u) \<subseteq> insert (CHR ''-'') (set (hex_digits 32 (unat u)))"
  by (auto simp: uuid_str_def Let_def dest: in_set_takeD in_set_dropD)

lemma filter_digit_str: "digit_str 16 s \<Longrightarrow> filter (\<lambda>c. c \<noteq> CHR ''-'') s = s"
  using digit_str_absent [of 16 s "CHR ''-''"] digit_char_neq(2) by (intro filter_True) auto

lemma digit_str_take: "digit_str b s \<Longrightarrow> digit_str b (take n s)"
  by (auto simp: digit_str_def dest: in_set_takeD)

lemma digit_str_drop: "digit_str b s \<Longrightarrow> digit_str b (drop n s)"
  by (auto simp: digit_str_def dest: in_set_dropD)

lemma filter_dashes_uuid_str: "filter (\<lambda>c. c \<noteq> CHR ''-'') (uuid_str u) = hex_digits 32 (unat u)"
  using digit_str_hex_digits [of 32 "unat u"]
  by (simp add: uuid_str_def Let_def filter_digit_str digit_str_take digit_str_drop take_drop_groups)

lemma py_replace_absent: "old \<noteq> [] \<Longrightarrow> last old \<notin> set s \<Longrightarrow> py_replace old new s = s"
proof (induction old new s rule: py_replace.induct)
  case (1 old new s)
  have no: "\<not> startswith s old" if "s \<noteq> []"
    using "1.prems" by (metis in_set_takeD last_in_set startswith_def)
  have "last old \<notin> set (tl s)" using "1.prems" by (cases s) auto
  with 1 no show ?case
    by (cases "s = []") (simp_all add: py_replace.simps [of old new] split: if_splits)
qed

lemma strip_braces_absent:
  assumes "CHR ''{'' \<notin> set s" "CHR ''}'' \<notin> set s"
  shows "strip_braces s = s"
proof -
  have id: "dropWhile (\<lambda>c. c \<in> {CHR ''{'', CHR ''}''}) t = t" if "set t = set s" for t
    using assms that by (cases t) auto
  show ?thesis by (simp only: strip_braces_def id set_rev rev_rev_ident)
qed

lemma uuid_str_absent:
  "CHR '':'' \<notin> set (uuid_str u)" "CHR ''{'' \<notin> set (uuid_str u)" "CHR ''}'' \<notin> set (uuid_str u)"
proof -
  have "CHR '':'' \<notin> set (hex_digits 32 (unat u))" "CHR ''{'' \<notin> set (hex_digits 32 (unat u))"
    "CHR ''}'' \<notin> set (hex_digits 32 (unat u))"
    by (rule digit_str_absent [OF digit_str_hex_digits order_refl], erule digit_char_neq)+
  then show "CHR '':'' \<notin> set (uuid_str u)" "CHR ''{'' \<notin> set (uuid_str u)" "CHR ''}'' \<notin> set (uuid_str u)"
    using set_uuid_str [of u] by auto
qed

lemma hex_body_digit_str:
  assumes "digit_str 16 s"
  shows "hex_body s = s"
proof -
  have "CHR ''x'' \<notin> set s" "CHR ''X'' \<notin> set s"
    by (rule digit_str_absent [OF assms order_refl], erule digit_char_neq)+
  moreover have "CHR ''x'' \<in> set s" if "startswith s ''0x''"
    using that in_set_takeD [of "CHR ''x''" "length ''0x''" s] by (simp add: startswith_def)
  moreover have "CHR ''X'' \<in> set s" if "startswith s ''0X''"
    using that in_set_takeD [of "CHR ''X''" "length ''0X''" s] by (simp add: startswith_def)
  ultimately have "\<not> startswith s ''0x''" "\<not> startswith s ''0X''" by blast+
  then show ?thesis by (simp add: hex_body_def)
qed

lemma parse_uuid_str [simp]: "parse_uuid (uuid_str u) = Some u"
proof -
  let ?h = "hex_digits 32 (unat u)"
  have "py_strip ?h = ?h"
    by (rule py_strip_no_space) (rule digit_str_no_space [OF digit_str_hex_digits], simp)
  moreover have "unat u < 16 ^ 32" using unsigned_less [of u] by simp
  ultimately have "py_int16 ?h = Some (uint u)"
    by (simp add: py_int16_def split_sign_digit_str [OF digit_str_hex_digits] signed_def
        hex_body_digit_str digit_str_hex_digits digits_start_digit_str digits_value_hex_digits
        flip: length_0_conv)
  moreover have "0 \<le> uint u \<and> uint u < 2 ^ 128" using uint_lt2p [of u] by simp
  ultimately show ?thesis
    by (simp add: parse_uuid_def py_replace_absent strip_braces_absent uuid_str_absent
        filter_dashes_uuid_str Let_def)
qed

lemma uuid_str_inject [simp]: "uuid_str u = uuid_str v \<longleftrightarrow> u = v"
  by (metis option.inject parse_uuid_str)

end
