(* ===== verification/Py_Datetime.thy ===== *)
theory Py_Datetime
  imports Prelude
begin

text \<open>
  What the program uses of Python's \<open>datetime\<close>: the proleptic Gregorian calendar of years 1 to
  9999, a value with its calendar fields and an optional UTC offset, its instant in microseconds,
  comparison, \<open>replace\<close>, \<open>astimezone(UTC)\<close>, \<open>fromtimestamp\<close> and addition of whole days.
  The main results are that day numbers and calendar dates determine each other and that
  \<open>astimezone(UTC)\<close> keeps the instant.
\<close>

section \<open>The calendar\<close>

definition is_leap :: "int \<Rightarrow> bool" where
  "is_leap y = (y mod 4 = 0 \<and> (y mod 100 \<noteq> 0 \<or> y mod 400 = 0))"

definition days_in_month :: "int \<Rightarrow> int \<Rightarrow> int" where
  "days_in_month y m =
     (if m = 2 then (if is_leap y then 29 else 28)
      else if m = 4 \<or> m = 6 \<or> m = 9 \<or> m = 11 then 30 else 31)"

definition days_before_year :: "int \<Rightarrow> int" where
  "days_before_year y = (let z = y - 1 in z * 365 + z div 4 - z div 100 + z div 400)"

definition days_before_month :: "int \<Rightarrow> int \<Rightarrow> int" where
  "days_before_month y m =
     (if m \<le> 1 then 0 else if m = 2 then 31
      else (if m = 3 then 59 else if m = 4 then 90 else if m = 5 then 120 else if m = 6 then 151
            else if m = 7 then 181 else if m = 8 then 212 else if m = 9 then 243
            else if m = 10 then 273 else if m = 11 then 304 else if m = 12 then 334 else 365)
           + (if is_leap y then 1 else 0))"

definition ymd2ord :: "int \<Rightarrow> int \<Rightarrow> int \<Rightarrow> int" where
  "ymd2ord y m d = days_before_year y + days_before_month y m + d"

text \<open>
  The inverse works as in the library: cycles of 400, 100, 4 years and 1 year, then a month
  estimate corrected downwards by at most one.
\<close>

definition ord2ymd :: "int \<Rightarrow> int \<times> int \<times> int" where
  "ord2ymd n =
     (let n0 = n - 1;
          n400 = n0 div 146097; r400 = n0 mod 146097;
          n100 = r400 div 36524; r100 = r400 mod 36524;
          n4 = r100 div 1461; r4 = r100 mod 1461;
          n1 = r4 div 365; r1 = r4 mod 365;
          y = n400 * 400 + 1 + n100 * 100 + n4 * 4 + n1
      in if n1 = 4 \<or> n100 = 4 then (y - 1, 12, 31)
         else let m0 = (r1 + 50) div 32;
                  m = (if days_before_month y m0 > r1 then m0 - 1 else m0)
              in (y, m, r1 - days_before_month y m + 1))"

section \<open>Date and time values\<close>

text \<open>\<open>tzinfo\<close> is the UTC offset in microseconds; \<open>None\<close> is a naive value.\<close>

record datetime =
  year :: int
  month :: int
  day :: int
  hour :: int
  minute :: int
  second :: int
  microsecond :: int
  tzinfo :: "int option"

definition valid_ymd :: "int \<Rightarrow> int \<Rightarrow> int \<Rightarrow> bool" where
  "valid_ymd y m d = (1 \<le> y \<and> y \<le> 9999 \<and> 1 \<le> m \<and> m \<le> 12 \<and> 1 \<le> d \<and> d \<le> days_in_month y m)"

definition valid_dt :: "datetime \<Rightarrow> bool" where
  "valid_dt t = (valid_ymd (year t) (month t) (day t) \<and> 0 \<le> hour t \<and> hour t \<le> 23 \<and>
     0 \<le> minute t \<and> minute t \<le> 59 \<and> 0 \<le> second t \<and> second t \<le> 59 \<and>
     0 \<le> microsecond t \<and> microsecond t \<le> 999999)"

abbreviation day_micros :: int where
  "day_micros \<equiv> 86400000000"

definition time_micros :: "datetime \<Rightarrow> int" where
  "time_micros t = ((hour t * 60 + minute t) * 60 + second t) * 1000000 + microsecond t"

text \<open>Microseconds of the wall clock, and of the instant (naive values are read as UTC).\<close>

definition wall_micros :: "datetime \<Rightarrow> int" where
  "wall_micros t = ymd2ord (year t) (month t) (day t) * day_micros + time_micros t"

definition instant :: "datetime \<Rightarrow> int" where
  "instant t = wall_micros t - (case tzinfo t of None \<Rightarrow> 0 | Some off \<Rightarrow> off)"

text \<open>The order of two aware values is the order of their instants.\<close>

definition dt_le :: "datetime \<Rightarrow> datetime \<Rightarrow> bool" where
  "dt_le a b = (instant a \<le> instant b)"

definition dt_lt :: "datetime \<Rightarrow> datetime \<Rightarrow> bool" where
  "dt_lt a b = (instant a < instant b)"

definition of_wall_micros :: "int \<Rightarrow> int option \<Rightarrow> exc + datetime" where
  "of_wall_micros us tz =
     (let n = us div day_micros; r = us mod day_micros; (y, m, d) = ord2ymd n in
      if n < 1 \<or> 3652059 < n then Inl (OverflowError ''date value out of range'')
      else Inr \<lparr>year = y, month = m, day = d, hour = r div 3600000000,
                 minute = r div 60000000 mod 60, second = r div 1000000 mod 60,
                 microsecond = r mod 1000000, tzinfo = tz\<rparr>)"

definition utc_offset :: int where
  "utc_offset = 0"

abbreviation is_utc :: "datetime \<Rightarrow> bool" where
  "is_utc t \<equiv> tzinfo t = Some utc_offset"

text \<open>\<open>t.replace(year=y, month=m, day=d)\<close> raises \<open>ValueError\<close> for a date that does not exist.\<close>

definition replace_ymd :: "datetime \<Rightarrow> int \<Rightarrow> int \<Rightarrow> int \<Rightarrow> exc + datetime" where
  "replace_ymd t y m d =
     (if valid_ymd y m d then Inr (t\<lparr>year := y, month := m, day := d\<rparr>)
      else Inl (ValueError ''date is out of range''))"

definition replace_tzinfo :: "datetime \<Rightarrow> int option \<Rightarrow> datetime" where
  "replace_tzinfo t tz = t\<lparr>tzinfo := tz\<rparr>"

text \<open>\<open>t.astimezone(UTC)\<close> of an aware value; a value already in UTC is returned as it is.\<close>

definition astimezone_utc :: "datetime \<Rightarrow> int \<Rightarrow> exc + datetime" where
  "astimezone_utc t off =
     (if off = utc_offset then Inr t else of_wall_micros (wall_micros t - off) (Some utc_offset))"

text \<open>\<open>t + timedelta(microseconds=us)\<close> keeps the offset.\<close>

definition add_micros :: "datetime \<Rightarrow> int \<Rightarrow> exc + datetime" where
  "add_micros t us = of_wall_micros (wall_micros t + us) (tzinfo t)"

definition add_days :: "datetime \<Rightarrow> int \<Rightarrow> exc + datetime" where
  "add_days t n = add_micros t (n * day_micros)"

text \<open>\<open>datetime.fromtimestamp(v, tz=UTC)\<close>, with \<open>v\<close> already rounded to microseconds.\<close>

definition epoch_micros :: int where
  "epoch_micros = ymd2ord 1970 1 1 * day_micros"

definition fromtimestamp_micros :: "int \<Rightarrow> exc + datetime" where
  "fromtimestamp_micros us = of_wall_micros (epoch_micros + us) (Some utc_offset)"

section \<open>Lemmas on the calendar\<close>

lemma mod_eqI: "(x::int) = k * q + r \<Longrightarrow> x mod k = r mod k"
  by simp

lemma days_in_month_bounds: "28 \<le> days_in_month y m \<and> days_in_month y m \<le> 31"
  by (simp add: days_in_month_def)

lemma month_cases:
  assumes "1 \<le> m" "m \<le> (12::int)"
  shows "m = 1 \<or> m = 2 \<or> m = 3 \<or> m = 4 \<or> m = 5 \<or> m = 6 \<or> m = 7 \<or> m = 8 \<or> m = 9 \<or> m = 10 \<or> m = 11 \<or> m = 12"
  using assms by presburger

lemma days_before_month_Suc:
  "1 \<le> m \<Longrightarrow> m \<le> 11 \<Longrightarrow> days_before_month y (m + 1) = days_before_month y m + days_in_month y m"
  using month_cases [of m] by (auto simp: days_before_month_def days_in_month_def)

lemma day_of_year_bounds:
  assumes "valid_ymd y m d"
  shows "1 \<le> days_before_month y m + d" "days_before_month y m + d \<le> 365 + (if is_leap y then 1 else 0)"
  using assms month_cases [of m] by (auto simp: valid_ymd_def days_before_month_def days_in_month_def)

text \<open>A year as its position in the 400, 100 and 4 year cycles.\<close>

lemma year_cycles:
  obtains a b c e where "y - 1 = 400 * a + 100 * b + 4 * c + (e::int)"
    "0 \<le> b" "b \<le> 3" "0 \<le> c" "c \<le> 24" "0 \<le> e" "e \<le> 3"
proof -
  let ?z = "y - 1"
  let ?r = "?z mod 400"
  have "?z = 400 * (?z div 400) + 100 * (?r div 100) + 4 * (?r mod 100 div 4) + ?r mod 100 mod 4" by simp
  moreover have "0 \<le> ?r" "?r < 400" by simp_all
  then have "0 \<le> ?r div 100" "?r div 100 \<le> 3" by linarith+
  moreover have "0 \<le> ?r mod 100 div 4" "?r mod 100 div 4 \<le> 24"
    by linarith+
  moreover have "0 \<le> ?r mod 100 mod 4" "?r mod 100 mod 4 \<le> 3" by simp_all
  ultimately show ?thesis by (rule that)
qed

lemma days_before_year_cycles:
  assumes "y - 1 = 400 * a + 100 * b + 4 * c + e" "0 \<le> b" "b \<le> 3" "0 \<le> c" "c \<le> 24" "0 \<le> e" "e \<le> 3"
  shows "days_before_year y = 146097 * a + 36524 * b + 1461 * c + 365 * e"
proof -
  have "(y - 1) div 4 = 100 * a + 25 * b + c" by (rule int_div_pos_eq [of _ _ _ e]) (use assms in auto)
  moreover have "(y - 1) div 100 = 4 * a + b"
    by (rule int_div_pos_eq [of _ _ _ "4 * c + e"]) (use assms in auto)
  moreover have "(y - 1) div 400 = a"
    by (rule int_div_pos_eq [of _ _ _ "100 * b + 4 * c + e"]) (use assms in auto)
  ultimately show ?thesis using assms(1) by (simp add: days_before_year_def Let_def)
qed

lemma is_leap_cycles:
  assumes "y - 1 = 400 * a + 100 * b + 4 * c + e" "0 \<le> b" "b \<le> 3" "0 \<le> c" "c \<le> 24" "0 \<le> e" "e \<le> 3"
  shows "is_leap y \<longleftrightarrow> e = 3 \<and> (c \<noteq> 24 \<or> b = 3)"
proof -
  have y: "y = 400 * a + 100 * b + 4 * c + e + 1" using assms(1) by simp
  have "y mod 4 = (e + 1) mod 4"
    by (rule mod_eqI [where q = "100 * a + 25 * b + c"]) (simp add: y)
  then have 4: "y mod 4 = (if e = 3 then 0 else e + 1)" using assms by (auto simp: mod_pos_pos_trivial)
  have "y mod 100 = (4 * c + e + 1) mod 100"
    by (rule mod_eqI [where q = "4 * a + b"]) (simp add: y)
  then have 100: "y mod 100 = (if c = 24 \<and> e = 3 then 0 else 4 * c + e + 1)"
    using assms by (auto simp: mod_pos_pos_trivial)
  have "y mod 400 = (100 * b + 4 * c + e + 1) mod 400"
    by (rule mod_eqI [where q = a]) (simp add: y)
  then have 400: "y mod 400 = (if b = 3 \<and> c = 24 \<and> e = 3 then 0 else 100 * b + 4 * c + e + 1)"
    using assms by (auto simp: mod_pos_pos_trivial)
  show ?thesis using assms unfolding is_leap_def 4 100 400 by (auto split: if_splits)
qed

lemma days_before_year_Suc:
  "days_before_year (y + 1) = days_before_year y + 365 + (if is_leap y then 1 else 0)"
proof -
  obtain a b c e where c: "y - 1 = 400 * a + 100 * b + 4 * c + e"
    "0 \<le> b" "b \<le> 3" "0 \<le> c" "c \<le> 24" "0 \<le> e" "e \<le> 3" by (rule year_cycles)
  note this_year = days_before_year_cycles [OF c] is_leap_cycles [OF c]
  consider "e < 3" | "e = 3" "c < 24" | "e = 3" "c = 24" "b < 3" | "e = 3" "c = 24" "b = 3"
    using c by linarith
  then show ?thesis
  proof cases
    case 1
    then show ?thesis using c this_year days_before_year_cycles [of "y + 1" a b c "e + 1"] by simp
  next
    case 2
    then show ?thesis using c this_year days_before_year_cycles [of "y + 1" a b "c + 1" 0] by simp
  next
    case 3
    then show ?thesis using c this_year days_before_year_cycles [of "y + 1" a "b + 1" 0 0] by simp
  next
    case 4
    then show ?thesis using c this_year days_before_year_cycles [of "y + 1" "a + 1" 0 0 0] by simp
  qed
qed

lemma month_estimate:
  assumes "valid_ymd y m d" and "r = days_before_month y m + d - 1" and "r \<le> 364"
  shows "(let m0 = (r + 50) div 32 in if days_before_month y m0 > r then m0 - 1 else m0) = m"
proof -
  have m: "1 \<le> m" "m \<le> 12" and d: "1 \<le> d" "d \<le> days_in_month y m"
    using assms(1) by (auto simp: valid_ymd_def)
  from month_cases [OF m] have "32 * m \<le> r + 50 \<and> r + 50 < 32 * m + 64 \<and> (m = 12 \<longrightarrow> r + 50 < 416)"
    using d assms(2,3)
    by (elim disjE; simp add: days_before_month_def days_in_month_def split: if_splits)
  then consider "(r + 50) div 32 = m" | "(r + 50) div 32 = m + 1" "m \<le> 11"
    using m by linarith
  then show ?thesis
  proof cases
    case 1
    then show ?thesis using assms(2) d by simp
  next
    case 2
    then show ?thesis
      using assms(2) m d by (simp add: days_before_month_Suc)
  qed
qed

lemma last_day_of_year:
  assumes "valid_ymd y m d" "days_before_month y m + d = 366"
  shows "m = 12 \<and> d = 31 \<and> is_leap y"
proof -
  have m: "1 \<le> m" "m \<le> 12" "d \<le> days_in_month y m" using assms(1) by (auto simp: valid_ymd_def)
  have "m = 12"
  proof (rule ccontr)
    assume "m \<noteq> 12"
    with m have "days_before_month y (m + 1) = days_before_month y m + days_in_month y m"
      by (simp add: days_before_month_Suc)
    moreover have "days_before_month y (m + 1) \<le> 335"
      using m \<open>m \<noteq> 12\<close> by (simp add: days_before_month_def) presburger
    ultimately show False using m assms(2) by linarith
  qed
  then show ?thesis using m assms(2) by (simp add: days_before_month_def days_in_month_def split: if_splits)
qed

section \<open>Day numbers and dates determine each other\<close>

lemma ymd2ord_ge_1: "valid_ymd y m d \<Longrightarrow> 1 \<le> ymd2ord y m d"
proof -
  assume v: "valid_ymd y m d"
  then have "0 \<le> (y - 1) div 400" and "(y - 1) div 100 \<le> (y - 1) div 4" "1 \<le> y"
    by (auto simp: valid_ymd_def pos_imp_zdiv_nonneg_iff zdiv_mono2)
  with day_of_year_bounds(1) [OF v] show ?thesis
    by (simp add: ymd2ord_def days_before_year_def Let_def)
qed

lemma ord2ymd_steps:
  assumes "(n - 1) div 146097 = a" "(n - 1) mod 146097 = s" "s div 36524 = b" "s mod 36524 = t"
    "t div 1461 = c" "t mod 1461 = u" "u div 365 = e" "u mod 365 = r"
    and "y = a * 400 + 1 + b * 100 + c * 4 + e"
  shows "ord2ymd n = (if e = 4 \<or> b = 4 then (y - 1, 12, 31)
     else let m0 = (r + 50) div 32; m = (if days_before_month y m0 > r then m0 - 1 else m0)
          in (y, m, r - days_before_month y m + 1))"
  unfolding ord2ymd_def Let_def assms ..

lemma ord2ymd_ymd2ord:
  assumes v: "valid_ymd y m d"
  shows "ord2ymd (ymd2ord y m d) = (y, m, d)"
proof -
  obtain a b c e where c: "y - 1 = 400 * a + 100 * b + 4 * c + e"
    "0 \<le> b" "b \<le> 3" "0 \<le> c" "c \<le> 24" "0 \<le> e" "e \<le> 3" by (rule year_cycles)
  define r where "r = days_before_month y m + d - 1"
  define n0 where "n0 = ymd2ord y m d - 1"
  have n0: "n0 = 146097 * a + 36524 * b + 1461 * c + 365 * e + r"
    using days_before_year_cycles [OF c] by (simp add: n0_def ymd2ord_def r_def)
  have r: "0 \<le> r" "r \<le> 365" "r = 365 \<Longrightarrow> e = 3 \<and> (c \<noteq> 24 \<or> b = 3) \<and> m = 12 \<and> d = 31"
    using day_of_year_bounds [OF v] last_day_of_year [OF v] is_leap_cycles [OF c]
    by (auto simp: r_def split: if_splits)
  define s where "s = 36524 * b + 1461 * c + 365 * e + r"
  have s: "0 \<le> s" "s \<le> 146096" using c r by (auto simp: s_def) 
  have q400: "n0 div 146097 = a" "n0 mod 146097 = s"
    using s n0 by (auto simp: s_def div_pos_geq intro!: int_div_pos_eq int_mod_pos_eq)
  show ?thesis
  proof (cases "s = 146096")
    case True
    with c r have "b = 3" "c = 24" "e = 3" "r = 365" by (auto simp: s_def)
    then have "y = 400 * a + 400" "m = 12" "d = 31" using c(1) r(3) by auto
    with ord2ymd_steps [OF q400 [unfolded n0_def True] _ _ _ _ _ _ refl, of 4 0 0 0 0 0]
    show ?thesis by simp
  next
    case False
    have t: "1461 * c + 365 * e + r < 36524"
    proof (rule ccontr)
      assume "\<not> ?thesis"
      then have "c = 24" "e = 3" "r = 365" using c r(1,2) by linarith+
      with r(3) False show False by (simp add: s_def)
    qed
    have q100: "s div 36524 = b" "s mod 36524 = 1461 * c + 365 * e + r"
      using t c r by (auto simp: s_def intro!: int_div_pos_eq int_mod_pos_eq)
    have q4: "(1461 * c + 365 * e + r) div 1461 = c" "(1461 * c + 365 * e + r) mod 1461 = 365 * e + r"
      using c r by (auto intro!: int_div_pos_eq int_mod_pos_eq)
    show ?thesis
    proof (cases "r = 365")
      case True
      with r(3) have "e = 3" "m = 12" "d = 31" by blast+
      with True have q1: "(365 * e + r) div 365 = 4" by simp
      have "ord2ymd (ymd2ord y m d) = (a * 400 + 1 + b * 100 + c * 4 + 4 - 1, 12, 31)"
        unfolding ord2ymd_steps [OF q400 [unfolded n0_def] q100 q4 q1 refl refl] by simp
      then show ?thesis using c(1) \<open>e = 3\<close> \<open>m = 12\<close> \<open>d = 31\<close> by simp
    next
      case False
      with r have q1: "(365 * e + r) div 365 = e" "(365 * e + r) mod 365 = r"
        by (auto intro!: int_div_pos_eq int_mod_pos_eq)
      have y: "a * 400 + 1 + b * 100 + c * 4 + e = y" using c by simp
      have "(let m0 = (r + 50) div 32 in if days_before_month y m0 > r then m0 - 1 else m0) = m"
        using r(2) False by (intro month_estimate [OF v r_def]) linarith
      moreover have "e \<noteq> 4" "b \<noteq> 4" using c by auto
      ultimately show ?thesis
        unfolding ord2ymd_steps [OF q400 [unfolded n0_def] q100 q4 q1 refl] y
        by (simp add: Let_def r_def)
    qed
  qed
qed

lemma next_day:
  assumes "valid_ymd y m d" "ymd2ord y m d < 3652059"
  shows "\<exists>y' m' d'. valid_ymd y' m' d' \<and> ymd2ord y' m' d' = ymd2ord y m d + 1"
proof -
  have v: "1 \<le> y" "y \<le> 9999" "1 \<le> m" "m \<le> 12" "1 \<le> d" "d \<le> days_in_month y m"
    using assms(1) by (auto simp: valid_ymd_def)
  consider "d < days_in_month y m" | "d = days_in_month y m" "m \<le> 11" | "d = days_in_month y m" "m = 12"
    using v by linarith
  then show ?thesis
  proof cases
    case 1
    with v have "valid_ymd y m (d + 1)" by (simp add: valid_ymd_def)
    then show ?thesis by (intro exI [of _ y] exI [of _ m] exI [of _ "d + 1"]) (simp add: ymd2ord_def)
  next
    case 2
    with v have "valid_ymd y (m + 1) 1"
      using days_in_month_bounds [of y "m + 1"] by (simp add: valid_ymd_def)
    then show ?thesis using v 2
      by (intro exI [of _ y] exI [of _ "m + 1"] exI [of _ 1]) (simp add: ymd2ord_def days_before_month_Suc)
  next
    case 3
    have "y \<noteq> 9999"
    proof
      assume "y = 9999"
      with 3 have "ymd2ord y m d = 3652059"
        by (simp add: ymd2ord_def days_before_year_def days_before_month_def days_in_month_def is_leap_def)
      with assms(2) show False by simp
    qed
    with v have "valid_ymd (y + 1) 1 1" by (simp add: valid_ymd_def days_in_month_def)
    then show ?thesis using 3
      by (intro exI [of _ "y + 1"] exI [of _ 1] exI [of _ 1])
        (simp add: ymd2ord_def days_before_year_Suc days_before_month_def days_in_month_def)
  qed
qed

lemma ymd2ord_surj:
  assumes "1 \<le> n" "n \<le> 3652059"
  shows "\<exists>y m d. valid_ymd y m d \<and> ymd2ord y m d = n"
  using assms
proof (induction n rule: int_ge_induct)
  case base
  have "valid_ymd 1 1 1 \<and> ymd2ord 1 1 1 = 1" by code_simp
  then show ?case by blast
next
  case (step i)
  then obtain y m d where "valid_ymd y m d" "ymd2ord y m d = i" by auto
  with next_day [of y m d] step.prems show ?case by auto
qed

lemma ymd2ord_ord2ymd:
  assumes "1 \<le> n" "n \<le> 3652059" "ord2ymd n = (y, m, d)"
  shows "ymd2ord y m d = n \<and> valid_ymd y m d"
proof -
  obtain y' m' d' where v: "valid_ymd y' m' d'" "ymd2ord y' m' d' = n"
    using ymd2ord_surj assms(1,2) by blast
  with ord2ymd_ymd2ord [of y' m' d'] assms(3) show ?thesis by auto
qed

lemma days_before_year_mono:
  assumes "y \<le> y'"
  shows "days_before_year y \<le> days_before_year y'"
  using assms
proof (induction y' rule: int_ge_induct)
  case (step i)
  then show ?case using days_before_year_Suc [of i] by (simp split: if_splits)
qed simp

lemma ymd2ord_le: "valid_ymd y m d \<Longrightarrow> ymd2ord y m d \<le> 3652059"
proof -
  assume v: "valid_ymd y m d"
  then have "days_before_year (y + 1) \<le> days_before_year 10000"
    by (intro days_before_year_mono) (auto simp: valid_ymd_def)
  moreover have "days_before_year 10000 = 3652059" by code_simp
  ultimately show ?thesis
    using day_of_year_bounds(2) [OF v] days_before_year_Suc [of y] by (simp add: ymd2ord_def)
qed

section \<open>Lemmas on date and time values\<close>

lemma time_micros_bounds: "valid_dt t \<Longrightarrow> 0 \<le> time_micros t \<and> time_micros t < day_micros"
  by (auto simp: valid_dt_def time_micros_def)

lemma wall_micros_div_mod:
  assumes "valid_dt t"
  shows "wall_micros t div day_micros = ymd2ord (year t) (month t) (day t)"
    and "wall_micros t mod day_micros = time_micros t"
  using time_micros_bounds [OF assms]
  by (auto simp: wall_micros_def intro!: int_div_pos_eq int_mod_pos_eq)

lemma time_micros_fields:
  assumes "valid_dt t"
  shows "time_micros t div 3600000000 = hour t" "time_micros t div 60000000 mod 60 = minute t"
    "time_micros t div 1000000 mod 60 = second t" "time_micros t mod 1000000 = microsecond t"
proof -
  note b = assms [unfolded valid_dt_def]
  have s: "time_micros t div 1000000 = (hour t * 60 + minute t) * 60 + second t"
    using b by (intro int_div_pos_eq [of _ _ _ "microsecond t"]) (auto simp: time_micros_def)
  have m: "time_micros t div 60000000 = hour t * 60 + minute t"
    using b by (intro int_div_pos_eq [of _ _ _ "second t * 1000000 + microsecond t"]) (auto simp: time_micros_def)
  show "time_micros t div 3600000000 = hour t"
    using b by (intro int_div_pos_eq [of _ _ _ "(minute t * 60 + second t) * 1000000 + microsecond t"])
      (auto simp: time_micros_def)
  show "time_micros t div 60000000 mod 60 = minute t" using b by (simp add: m)
  show "time_micros t div 1000000 mod 60 = second t"
    unfolding s using b by (intro int_mod_pos_eq [of _ _ "hour t * 60 + minute t"]) auto
  show "time_micros t mod 1000000 = microsecond t"
    using b by (intro int_mod_pos_eq [of _ _ "(hour t * 60 + minute t) * 60 + second t"]) (auto simp: time_micros_def)
qed

lemma of_wall_micros_wall_micros:
  assumes "valid_dt t"
  shows "of_wall_micros (wall_micros t) tz = Inr (t\<lparr>tzinfo := tz\<rparr>)"
proof -
  have v: "valid_ymd (year t) (month t) (day t)" using assms by (simp add: valid_dt_def)
  show ?thesis
    using ymd2ord_ge_1 [OF v] ymd2ord_le [OF v]
    by (simp add: of_wall_micros_def wall_micros_div_mod [OF assms] ord2ymd_ymd2ord [OF v]
        time_micros_fields [OF assms])
qed

lemma of_wall_micros_valid:
  assumes "of_wall_micros us tz = Inr t"
  shows "wall_micros t = us \<and> valid_dt t \<and> tzinfo t = tz"
proof -
  define r where "r = us mod day_micros"
  have r: "0 \<le> r" "r < day_micros" by (simp_all add: r_def)
  obtain y m d where ymd: "ord2ymd (us div day_micros) = (y, m, d)" by (metis prod_cases3)
  with assms have n: "1 \<le> us div day_micros" "us div day_micros \<le> 3652059"
    and t: "t = \<lparr>year = y, month = m, day = d, hour = r div 3600000000, minute = r div 60000000 mod 60,
      second = r div 1000000 mod 60, microsecond = r mod 1000000, tzinfo = tz\<rparr>"
    by (auto simp: of_wall_micros_def r_def Let_def split: if_splits)
  have v: "ymd2ord y m d = us div day_micros" "valid_ymd y m d" using ymd2ord_ord2ymd [OF n ymd] by auto
  have h: "0 \<le> r div 3600000000" "r div 3600000000 \<le> 23" using r by linarith+
  have "r div 60000000 div 60 = r div 3600000000" "r div 1000000 div 60 = r div 60000000"
    by (simp_all add: zdiv_zmult2_eq [symmetric])
  then have "(r div 3600000000 * 60 + r div 60000000 mod 60) * 60 + r div 1000000 mod 60 = r div 1000000"
    by (metis div_mult_mod_eq)
  then have "time_micros t = r" by (simp add: time_micros_def t)
  moreover have "wall_micros t = us div day_micros * day_micros + time_micros t"
    by (simp add: wall_micros_def t v)
  ultimately have "wall_micros t = us" by (simp only: r_def div_mult_mod_eq)
  moreover have mod60: "0 \<le> x mod 60 \<and> x mod 60 \<le> 59" for x :: int by simp
  have mod1e6: "0 \<le> x mod 1000000 \<and> x mod 1000000 \<le> 999999" for x :: int by simp
  have "valid_dt t" "tzinfo t = tz"
    unfolding valid_dt_def t datetime.simps using v(2) h mod60 mod1e6 by blast+
  ultimately show ?thesis by blast
qed

lemma wall_micros_bounds:
  assumes "valid_dt t"
  shows "0 < wall_micros t" "wall_micros t < 10 ^ 18"
proof -
  have v: "valid_ymd (year t) (month t) (day t)" using assms by (simp add: valid_dt_def)
  show "0 < wall_micros t" "wall_micros t < 10 ^ 18"
    using ymd2ord_ge_1 [OF v] ymd2ord_le [OF v] time_micros_bounds [OF assms] by (simp_all add: wall_micros_def)
qed

lemma instant_utc: "is_utc t \<Longrightarrow> instant t = wall_micros t"
  by (simp add: instant_def utc_offset_def)

lemma astimezone_utc_instant:
  assumes "astimezone_utc t off = Inr t'" "tzinfo t = Some off"
  shows "instant t' = instant t" "is_utc t'"
  using assms of_wall_micros_valid [of "wall_micros t - off" "Some utc_offset" t']
  by (auto simp: astimezone_utc_def instant_def utc_offset_def split: if_splits)

lemma add_micros_instant:
  "add_micros t us = Inr t' \<Longrightarrow> instant t' = instant t + us \<and> tzinfo t' = tzinfo t \<and> valid_dt t'"
  using of_wall_micros_valid [of "wall_micros t + us" "tzinfo t" t'] by (auto simp: add_micros_def instant_def)

end
