(* ===== verification/Py_Isoformat.thy ===== *)
theory Py_Isoformat
  imports Py_Text Py_Datetime
begin

text \<open>
  \<open>datetime.fromisoformat\<close> as CPython 3.12, the interpreter of the Dockerfile, implements it: dates of the calendar
  and of ISO weeks, with or without separators, any character between date and time, a fraction of a second
  of any length, and an offset of less than a day. It is the scanner of the interpreter, with what it lets
  pass beyond the standard. The main result is that a timestamp in the extended format is read as the time
  it was written for.
\<close>

section \<open>Digits\<close>

text \<open>Reading past the end gives the terminating null character.\<close>

definition char_at :: "string \<Rightarrow> nat \<Rightarrow> char" where
  "char_at s i = (if i < length s then s ! i else CHR 0x00)"

definition ascii_digit :: "char \<Rightarrow> bool" where
  "ascii_digit c = (48 \<le> cp c \<and> cp c \<le> 57)"

fun read_digits :: "nat \<Rightarrow> int \<Rightarrow> string \<Rightarrow> (int \<times> string) option" where
  "read_digits 0 acc s = Some (acc, s)"
| "read_digits (Suc n) acc [] = None"
| "read_digits (Suc n) acc (c # cs) = (if ascii_digit c then read_digits n (acc * 10 + (int (cp c) - 48)) cs else None)"

definition parse_digits :: "nat \<Rightarrow> string \<Rightarrow> (int \<times> string) option" where
  "parse_digits n s = read_digits n 0 s"

section \<open>Dates\<close>

text \<open>Where the date ends: \<open>_find_isoformat_datetime_separator\<close>, for a string of at least seven characters.\<close>

definition find_separator :: "string \<Rightarrow> nat option" where
  "find_separator s =
     (let n = length s in
      if n = 7 then Some 7
      else if char_at s 4 = CHR ''-'' then
        (if char_at s 5 = CHR ''W'' then
           (if 8 < n \<and> char_at s 8 = CHR ''-'' then
              (if n = 9 then None else if 10 < n \<and> ascii_digit (char_at s 10) then Some 8 else Some 10)
            else Some 8)
         else Some 10)
      else if char_at s 4 = CHR ''W'' then
        (let i = 7 + length (takeWhile ascii_digit (drop 7 s)) in
         if i < 9 then Some i else if even i then Some 7 else Some 8)
      else Some 8)"

text \<open>The Monday of week 1 is the one closest to the first of January; \<open>w\<close> is the weekday of the latter.\<close>

definition iso_to_ymd :: "int \<Rightarrow> int \<Rightarrow> int \<Rightarrow> (int \<times> int \<times> int) option" where
  "iso_to_ymd y week weekday =
     (let first = ymd2ord y 1 1; w = (first + 6) mod 7; monday = first - w + (if 3 < w then 7 else 0) in
      if y < 1 \<or> 9999 < y \<or> \<not> (1 \<le> week \<and> week \<le> 52 \<or> week = 53 \<and> (w = 3 \<or> w = 2 \<and> is_leap y)) \<or> weekday < 1 \<or> 7 < weekday
      then None else Some (ord2ymd (monday + (week - 1) * 7 + weekday - 1)))"

definition dash :: "bool \<Rightarrow> string \<Rightarrow> string option" where
  "dash uses_separator p = (if uses_separator then (if char_at p 0 = CHR ''-'' then Some (tl p) else None) else Some p)"

definition parse_isoformat_date :: "string \<Rightarrow> nat \<Rightarrow> (int \<times> int \<times> int) option" where
  "parse_isoformat_date s len =
     Option.bind (parse_digits 4 s) (\<lambda>(y, p).
     let uses_separator = (char_at p 0 = CHR ''-''); p = (if uses_separator then tl p else p) in
     if char_at p 0 = CHR ''W'' then
       Option.bind (parse_digits 2 (tl p)) (\<lambda>(week, p).
       if length s - length p < len then
         Option.bind (dash uses_separator p) (\<lambda>p.
         Option.bind (parse_digits 1 p) (\<lambda>(weekday, _).
         iso_to_ymd y week weekday))
       else iso_to_ymd y week 1)
     else
       Option.bind (parse_digits 2 p) (\<lambda>(m, p).
       Option.bind (dash uses_separator p) (\<lambda>p.
       Option.bind (parse_digits 2 p) (\<lambda>(d, _).
       Some (y, m, d)))))"

section \<open>Times\<close>

text \<open>
  A text \<open>p\<close> within the string, with \<open>rest\<close> behind it. The result has the fields, the microseconds and
  whether characters are left over.
\<close>

definition read_fraction :: "string \<Rightarrow> string \<Rightarrow> (int \<times> bool) option" where
  "read_fraction p rest =
     (let n = min 6 (length p) in
      map_option (\<lambda>(us, q). (us * 10 ^ (6 - n), dropWhile ascii_digit (q @ rest) \<noteq> [])) (parse_digits n p))"

primrec read_fields :: "nat \<Rightarrow> bool \<Rightarrow> string \<Rightarrow> string \<Rightarrow> (int list \<times> int \<times> bool) option" where
  "read_fields 0 sep p rest = map_option (\<lambda>(us, more). ([], us, more)) (read_fraction p rest)"
| "read_fields (Suc k) sep p rest =
     Option.bind (parse_digits 2 (p @ rest)) (\<lambda>(v, _).
     let c = char_at (p @ rest) 2;
         sep = (if k = 2 then c = CHR '':'' else sep) in
     if length p < 3 \<or> length p = 3 \<and> cp c < 128 then Some ([v], 0, c \<noteq> CHR 0x00)
     else if sep \<and> c = CHR '':'' then map_option (\<lambda>(vs, r). (v # vs, r)) (read_fields k sep (drop 3 p) rest)
     else if c = CHR ''.'' \<or> c = CHR '','' then map_option (\<lambda>r. ([v], r)) (read_fraction (drop 3 p) rest)
     else if \<not> sep then map_option (\<lambda>(vs, r). (v # vs, r)) (read_fields k sep (drop 2 p) rest)
     else None)"

definition time_field :: "int list \<Rightarrow> nat \<Rightarrow> int" where
  "time_field vs i = (if i < length vs then vs ! i else 0)"

definition tz_sign :: "char \<Rightarrow> bool" where
  "tz_sign c = (c = CHR ''+'' \<or> c = CHR ''-'' \<or> c = CHR ''Z'')"

definition parse_isoformat_time :: "string \<Rightarrow> (int list \<times> int \<times> int option) option" where
  "parse_isoformat_time t =
     (let timestr = takeWhile (\<lambda>c. \<not> tz_sign c) t; tzstr = dropWhile (\<lambda>c. \<not> tz_sign c) t in
      Option.bind (read_fields 3 True timestr tzstr) (\<lambda>(vs, us, more).
      case tzstr of
        [] \<Rightarrow> if more then None else Some (vs, us, None)
      | c # z \<Rightarrow>
          if c = CHR ''Z'' then (if z = [] then Some (vs, us, Some utc_offset) else None)
          else Option.bind (read_fields 3 True z []) (\<lambda>(ws, zus, more).
            let seconds = time_field ws 0 * 3600 + time_field ws 1 * 60 + time_field ws 2;
                offset = (if seconds = 0 then utc_offset else seconds * 1000000 + zus) in
            if more then None else Some (vs, us, Some (if c = CHR ''-'' then - offset else offset)))))"

definition fromisoformat :: "string \<Rightarrow> datetime option" where
  "fromisoformat s =
     (if length s < 7 then None
      else Option.bind (find_separator s) (\<lambda>n.
      Option.bind (parse_isoformat_date s n) (\<lambda>(y, m, d).
      Option.bind (if n < length s then parse_isoformat_time (drop (n + 1) s) else Some ([], 0, None)) (\<lambda>(vs, us, tz).
      let t = \<lparr>year = y, month = m, day = d, hour = time_field vs 0, minute = time_field vs 1, second = time_field vs 2, microsecond = us, tzinfo = tz\<rparr> in
      if valid_dt t \<and> (case tz of None \<Rightarrow> True | Some off \<Rightarrow> \<bar>off\<bar> < day_micros) then Some t else None))))"

section \<open>Writing\<close>

text \<open>
  \<open>datetime.isoformat()\<close>, with numbers of a fixed number of digits; the seconds of an offset are written
  when there are any.
\<close>

primrec dec :: "nat \<Rightarrow> int \<Rightarrow> string" where
  "dec 0 i = []"
| "dec (Suc n) i = dec n (i div 10) @ [digit_char (nat (i mod 10))]"

definition iso_date :: "datetime \<Rightarrow> string" where
  "iso_date t = dec 4 (year t) @ ''-'' @ dec 2 (month t) @ ''-'' @ dec 2 (day t)"

definition iso_hms :: "int \<Rightarrow> int \<Rightarrow> int \<Rightarrow> int \<Rightarrow> string" where
  "iso_hms h m s us = dec 2 h @ '':'' @ dec 2 m @ '':'' @ dec 2 s @ (if us = 0 then [] else ''.'' @ dec 6 us)"

definition iso_offset :: "int \<Rightarrow> string" where
  "iso_offset off =
     (let s = off div 1000000 in
      if off mod 60000000 = 0 then dec 2 (s div 3600) @ '':'' @ dec 2 (s div 60 mod 60)
      else iso_hms (s div 3600) (s div 60 mod 60) (s mod 60) (off mod 1000000))"

definition isoformat :: "datetime \<Rightarrow> string" where
  "isoformat t =
     iso_date t @ ''T'' @ iso_hms (hour t) (minute t) (second t) (microsecond t) @
     (case tzinfo t of None \<Rightarrow> [] | Some off \<Rightarrow> (if off < 0 then ''-'' else ''+'') @ iso_offset \<bar>off\<bar>)"

section \<open>What is written is read\<close>

lemma read_digits_add: "read_digits (n + m) acc s = Option.bind (read_digits n acc s) (\<lambda>(a, t). read_digits m a t)"
proof (induction n arbitrary: acc s)
  case (Suc n)
  then show ?case by (cases s) simp_all
qed simp

lemma ascii_digit_char: "n < 10 \<Longrightarrow> ascii_digit (digit_char n)" "n < 10 \<Longrightarrow> cp (digit_char n) = 48 + n"
  by (simp_all add: ascii_digit_def cp_digit_char)

lemma read_digits_dec:
  assumes "0 \<le> i" "i < 10 ^ n"
  shows "read_digits n acc (dec n i @ s) = Some (acc * 10 ^ n + i, s)"
  using assms
proof (induction n arbitrary: i s)
  case (Suc n)
  have "i div 10 < 10 ^ n" using Suc.prems by simp
  then have "read_digits n acc (dec n (i div 10) @ digit_char (nat (i mod 10)) # s) =
      Some (acc * 10 ^ n + i div 10, digit_char (nat (i mod 10)) # s)"
    using Suc.IH [of "i div 10"] Suc.prems by simp
  moreover have "nat (i mod 10) < 10" by simp
  ultimately show ?case
    using read_digits_add [of n 1 acc "dec (Suc n) i @ s"] ascii_digit_char [of "nat (i mod 10)"]
    by (simp add: algebra_simps)
qed simp

lemma parse_digits_dec: "0 \<le> i \<Longrightarrow> i < 10 ^ n \<Longrightarrow> parse_digits n (dec n i @ s) = Some (i, s)"
  using read_digits_dec [of i n 0 s] by (simp add: parse_digits_def)

lemma length_dec [simp]: "length (dec n i) = n"
  by (induction n arbitrary: i) simp_all

lemma set_dec: "c \<in> set (dec n i) \<Longrightarrow> ascii_digit c"
  by (induction n arbitrary: i) (auto simp: ascii_digit_char)

text \<open>A two-digit field followed by a colon, the last one, and one with a fraction.\<close>

lemma char_at_dec: "char_at (dec n i @ c # s) n = c" "char_at (dec n i) n = CHR 0x00"
  by (simp_all add: char_at_def nth_append)

lemma read_colon:
  assumes "0 \<le> i" "i < 100" "p \<noteq> []"
  shows "read_fields (Suc k) True (dec 2 i @ CHR '':'' # p) rest = map_option (\<lambda>(vs, r). (i # vs, r)) (read_fields k True p rest)"
  using assms parse_digits_dec [of i 2] by (simp add: char_at_dec Suc_le_eq Let_def numeral_3_eq_3 [symmetric])

lemma read_last:
  assumes "0 \<le> i" "i < 100"
  shows "read_fields (Suc k) sep (dec 2 i) rest = Some ([i], 0, char_at (dec 2 i @ rest) 2 \<noteq> CHR 0x00)"
  using assms parse_digits_dec [of i 2] by simp

lemma read_point:
  assumes "0 \<le> i" "i < 100" "0 \<le> us" "us < 1000000"
  shows "read_fields (Suc 0) True (dec 2 i @ CHR ''.'' # dec 6 us) rest = Some ([i], us, dropWhile ascii_digit rest \<noteq> [])"
  using assms parse_digits_dec [of i 2] parse_digits_dec [of us 6 "[]"]
  by (simp add: char_at_dec read_fraction_def)

lemma read_iso_hms:
  assumes "0 \<le> h" "h < 100" "0 \<le> m" "m < 100" "0 \<le> s" "s < 100" "0 \<le> us" "us < 1000000"
  shows "\<exists>more. read_fields 3 True (iso_hms h m s us) rest = Some ([h, m, s], us, more) \<and> (rest = [] \<longrightarrow> \<not> more)"
proof -
  have 3: "(3::nat) = Suc (Suc (Suc 0))" by simp
  note steps = read_colon [OF assms(1,2)] read_colon [OF assms(3,4)]
  have nonempty: "dec 2 i \<noteq> []" for i using length_dec [of 2 i] by force
  show ?thesis
  proof (cases "us = 0")
    case True
    then show ?thesis
      unfolding iso_hms_def 3 using read_last [OF assms(5,6)] by (simp add: steps nonempty char_at_dec del: read_fields.simps)
  next
    case False
    then show ?thesis
      unfolding iso_hms_def 3 using read_point [OF assms(5-8)] by (simp add: steps nonempty del: read_fields.simps)
  qed
qed

lemma length_iso_date [simp]: "length (iso_date t) = 10"
  by (simp add: iso_date_def)

lemma iso_hms_chars: "c \<in> set (iso_hms h m s us) \<Longrightarrow> ascii_digit c \<or> c = CHR '':'' \<or> c = CHR ''.''"
  by (auto simp: iso_hms_def dest: set_dec split: if_splits)

lemma tz_sign_iso_hms: "c \<in> set (iso_hms h m s us) \<Longrightarrow> \<not> tz_sign c"
  using iso_hms_chars [of c h m s us] by (auto simp: ascii_digit_def tz_sign_def cp_def)

lemma split_zone:
  "takeWhile (\<lambda>c. \<not> tz_sign c) (iso_hms h m s us) = iso_hms h m s us"
  "dropWhile (\<lambda>c. \<not> tz_sign c) (iso_hms h m s us) = []"
  "tz_sign c \<Longrightarrow> takeWhile (\<lambda>c. \<not> tz_sign c) (iso_hms h m s us @ c # z) = iso_hms h m s us"
  "tz_sign c \<Longrightarrow> dropWhile (\<lambda>c. \<not> tz_sign c) (iso_hms h m s us @ c # z) = c # z"
  by (simp_all add: takeWhile_append2 dropWhile_append2 tz_sign_iso_hms)

lemma find_separator_iso_date: "find_separator (iso_date t @ CHR ''T'' # z) = Some 10"
proof -
  let ?s = "iso_date t @ CHR ''T'' # z"
  have 4: "char_at ?s 4 = CHR ''-''" by (simp add: char_at_def iso_date_def nth_append)
  have "char_at ?s 5 = dec 2 (month t) ! 0" by (simp add: char_at_def iso_date_def nth_append)
  moreover have "ascii_digit (dec 2 (month t) ! 0)" by (rule set_dec, rule nth_mem) simp
  ultimately have "char_at ?s 5 \<noteq> CHR ''W''" by (auto simp: ascii_digit_def cp_def)
  then show ?thesis using 4 by (simp add: find_separator_def Let_def)
qed

lemma parse_iso_date:
  assumes "valid_dt t"
  shows "parse_isoformat_date (iso_date t @ CHR ''T'' # z) 10 = Some (year t, month t, day t)"
proof -
  have b: "0 \<le> year t" "year t < 10 ^ 4" "0 \<le> month t" "month t < 10 ^ 2" "0 \<le> day t" "day t < 10 ^ 2"
    using assms days_in_month_bounds [of "year t" "month t"] by (auto simp: valid_dt_def valid_ymd_def)
  have "ascii_digit (dec 2 (month t) ! 0)" by (rule set_dec, rule nth_mem) simp
  then have "char_at (dec 2 (month t) @ CHR ''-'' # dec 2 (day t) @ CHR ''T'' # z) 0 \<noteq> CHR ''W''"
    by (auto simp: char_at_def nth_append ascii_digit_def cp_def)
  then show ?thesis
    using parse_digits_dec [OF b(1,2)] parse_digits_dec [OF b(3,4)] parse_digits_dec [OF b(5,6)]
    by (simp add: parse_isoformat_date_def iso_date_def char_at_def dash_def)
qed

lemma read_hours_minutes:
  assumes "0 \<le> h" "h < 100" "0 \<le> m" "m < 100"
  shows "read_fields 3 True (dec 2 h @ CHR '':'' # dec 2 m) [] = Some ([h, m], 0, False)"
proof -
  have 3: "(3::nat) = Suc (Suc 1)" by simp
  have "dec 2 m \<noteq> []" using length_dec [of 2 m] by force
  then show ?thesis
    unfolding 3 One_nat_def using read_colon [OF assms(1,2), of "dec 2 m" "Suc (Suc 0)" "[]"] read_last [OF assms(3,4), of "Suc 0" True "[]"]
    by (simp add: char_at_dec del: read_fields.simps)
qed

lemma read_iso_offset:
  assumes "0 \<le> k" "k < day_micros"
  shows "\<exists>ws us. read_fields 3 True (iso_offset k) [] = Some (ws, us, False) \<and>
    time_field ws 0 * 3600 + time_field ws 1 * 60 + time_field ws 2 = k div 1000000 \<and> us = k mod 1000000"
proof -
  define s where "s = k div 1000000"
  have b: "0 \<le> s div 3600" "s div 3600 < 100" "0 \<le> s div 60 mod 60" "s div 60 mod 60 < 100" "0 \<le> s mod 60" "s mod 60 < 100"
    using assms by (simp_all add: s_def)
  have sum: "s div 3600 * 3600 + s div 60 mod 60 * 60 + s mod 60 = s"
  proof -
    have "s div 3600 = s div 60 div 60" using zdiv_zmult2_eq [of 60 s 60] by simp
    with div_mult_mod_eq [of "s div 60" 60] div_mult_mod_eq [of s 60] show ?thesis by linarith
  qed
  show ?thesis
  proof (cases "k mod 60000000 = 0")
    case True
    then obtain q where q: "k = 60000000 * q" by (auto simp: mod_eq_0_iff_dvd elim: dvdE)
    have "s = (60 * q * 1000000) div 1000000" "k mod 1000000 = (60 * q * 1000000) mod 1000000" by (simp_all add: s_def q)
    then have z: "s mod 60 = 0" "k mod 1000000 = 0" by (simp_all only: nonzero_mult_div_cancel_right mod_mult_self2_is_0) simp
    have "iso_offset k = dec 2 (s div 3600) @ CHR '':'' # dec 2 (s div 60 mod 60)"
      using True by (simp add: iso_offset_def Let_def s_def)
    then have "read_fields 3 True (iso_offset k) [] = Some ([s div 3600, s div 60 mod 60], 0, False)"
      using read_hours_minutes [OF b(1-4)] by simp
    then show ?thesis using z sum by (simp add: time_field_def s_def [symmetric])
  next
    case False
    have u: "0 \<le> k mod 1000000" "k mod 1000000 < 1000000" by simp_all
    have "iso_offset k = iso_hms (s div 3600) (s div 60 mod 60) (s mod 60) (k mod 1000000)"
      using False by (simp only: iso_offset_def Let_def s_def if_False)
    then have "read_fields 3 True (iso_offset k) [] = Some ([s div 3600, s div 60 mod 60, s mod 60], k mod 1000000, False)"
      using read_iso_hms [OF b u, of "[]"] by auto
    moreover have "time_field [s div 3600, s div 60 mod 60, s mod 60] 0 * 3600 + time_field [s div 3600, s div 60 mod 60, s mod 60] 1 * 60 +
        time_field [s div 3600, s div 60 mod 60, s mod 60] 2 = s"
      using sum by (simp add: time_field_def)
    ultimately show ?thesis unfolding s_def by blast
  qed
qed

text \<open>Offsets below one second, which no zone has, are the exception: the interpreter reads them as UTC.\<close>

definition readable_zone :: "int option \<Rightarrow> bool" where
  "readable_zone tz = (case tz of None \<Rightarrow> True | Some off \<Rightarrow> \<bar>off\<bar> < day_micros \<and> (off = 0 \<or> 1000000 \<le> \<bar>off\<bar>))"

lemma parse_iso_time:
  assumes "valid_dt t" "readable_zone (tzinfo t)"
  shows "parse_isoformat_time (iso_hms (hour t) (minute t) (second t) (microsecond t) @
    (case tzinfo t of None \<Rightarrow> [] | Some off \<Rightarrow> (if off < 0 then ''-'' else ''+'') @ iso_offset \<bar>off\<bar>)) =
    Some ([hour t, minute t, second t], microsecond t, tzinfo t)"
proof -
  have b: "0 \<le> hour t" "hour t < 100" "0 \<le> minute t" "minute t < 100" "0 \<le> second t" "second t < 100"
    "0 \<le> microsecond t" "microsecond t < 1000000"
    using assms(1) by (auto simp: valid_dt_def)
  note hms = read_iso_hms [OF b]
  show ?thesis
  proof (cases "tzinfo t")
    case None
    then show ?thesis using hms [of "[]"] by (auto simp: parse_isoformat_time_def Let_def split_zone simp del: read_fields.simps)
  next
    case (Some off)
    let ?c = "if off < 0 then CHR ''-'' else CHR ''+''"
    have sign: "tz_sign ?c" "?c \<noteq> CHR ''Z''" by (simp_all add: tz_sign_def)
    have bound: "0 \<le> \<bar>off\<bar>" "\<bar>off\<bar> < day_micros" using assms(2) Some by (simp_all add: readable_zone_def)
    obtain ws where ws: "read_fields 3 True (iso_offset \<bar>off\<bar>) [] = Some (ws, \<bar>off\<bar> mod 1000000, False)"
      "time_field ws 0 * 3600 + time_field ws 1 * 60 + time_field ws 2 = \<bar>off\<bar> div 1000000"
      using read_iso_offset [OF bound] by auto
    define a where "a = \<bar>off\<bar>"
    have a: "a div 1000000 = 0 \<Longrightarrow> a = utc_offset" "(if ?c = CHR ''-'' then - a else a) = off"
      using assms(2) Some by (auto simp: readable_zone_def utc_offset_def a_def)
    have sign_text: "(if off < 0 then ''-'' else ''+'') @ iso_offset \<bar>off\<bar> = ?c # iso_offset \<bar>off\<bar>" by simp
    obtain more where "read_fields 3 True (iso_hms (hour t) (minute t) (second t) (microsecond t)) (?c # iso_offset \<bar>off\<bar>) =
        Some ([hour t, minute t, second t], microsecond t, more)"
      using hms by blast
    then show ?thesis
      unfolding Some option.case sign_text parse_isoformat_time_def Let_def split_zone(3,4) [OF sign(1)]
      using sign ws [folded a_def] a by (auto simp: a_def [symmetric] simp del: read_fields.simps)
  qed
qed

theorem fromisoformat_isoformat:
  assumes "valid_dt t" "readable_zone (tzinfo t)"
  shows "fromisoformat (isoformat t) = Some t"
proof -
  define z where "z = iso_hms (hour t) (minute t) (second t) (microsecond t) @
    (case tzinfo t of None \<Rightarrow> [] | Some off \<Rightarrow> (if off < 0 then ''-'' else ''+'') @ iso_offset \<bar>off\<bar>)"
  have s: "isoformat t = iso_date t @ CHR ''T'' # z" by (simp add: isoformat_def z_def)
  have "case tzinfo t of None \<Rightarrow> True | Some off \<Rightarrow> \<bar>off\<bar> < day_micros"
    using assms(2) by (simp add: readable_zone_def split: option.splits)
  then show ?thesis
    using assms(1) parse_iso_time [OF assms, folded z_def]
    by (simp add: fromisoformat_def s find_separator_iso_date parse_iso_date [OF assms(1)] time_field_def Let_def valid_dt_def)
qed

lemma isoformat_no_Z: "CHR ''Z'' \<notin> set (isoformat t)"
proof -
  have "\<not> ascii_digit (CHR ''Z'')" by (simp add: ascii_digit_def cp_def)
  then have "CHR ''Z'' \<notin> set (dec n i)" "CHR ''Z'' \<notin> set (iso_hms h m s us)" for n i h m s us
    using set_dec [of "CHR ''Z''" n i] iso_hms_chars [of "CHR ''Z''" h m s us] by auto
  then show ?thesis
    by (simp add: isoformat_def iso_date_def iso_offset_def Let_def split: option.splits)
qed

lemma fromisoformat_valid: "fromisoformat s = Some t \<Longrightarrow> valid_dt t"
  by (auto simp: fromisoformat_def Let_def Option.bind_eq_Some_conv split: if_splits prod.splits)

lemma py_replace_last: "c \<notin> set s \<Longrightarrow> py_replace [c] new (s @ [c]) = s @ new"
proof (induction s)
  case Nil
  then show ?case by (simp add: py_replace.simps [of "[c]" new "[c]"] py_replace.simps [of "[c]" new "[]"] startswith_def)
next
  case (Cons b s)
  then show ?case by (auto simp: py_replace.simps [of "[c]" new "b # s @ [c]"] startswith_def)
qed

lemma isoformat_utc: "isoformat (t\<lparr>tzinfo := Some utc_offset\<rparr>) = isoformat (t\<lparr>tzinfo := None\<rparr>) @ ''+00:00''"
  by (simp add: isoformat_def iso_date_def iso_offset_def utc_offset_def) code_simp

end
