(* ===== verification/Py_Json.thy ===== *)
theory Py_Json
  imports Complex_Main Py_Isoformat
begin

text \<open>
  JSON values as the program handles them after \<open>json.loads\<close> (the \<open>Any\<close> of the webhook and job
  payloads), the third-party functions the program calls, the values the interpreter supplies to
  one request (identifiers, tokens, clock readings), and the settings object.
\<close>

section \<open>JSON values\<close>

text \<open>A dict is an association list in insertion order. A float is its exact rational value.\<close>

datatype json =
    JNull
  | JBool bool
  | JInt int
  | JFloat rat
  | JStr string
  | JList "json list"
  | JDict "(string \<times> json) list"

type_synonym dict = "(string \<times> json) list"

text \<open>\<open>d.get(k)\<close>; \<open>k in d\<close> is \<open>dict_get d k \<noteq> None\<close>.\<close>

definition dict_get :: "dict \<Rightarrow> string \<Rightarrow> json option" where
  "dict_get d k = map_of d k"

definition is_number :: "json \<Rightarrow> bool" where
  "is_number j = (case j of JInt _ \<Rightarrow> True | JFloat _ \<Rightarrow> True | JBool _ \<Rightarrow> True | _ \<Rightarrow> False)"

section \<open>Third-party and cryptographic functions\<close>

text \<open>
  Parameters of the model: SHA-256 and HMAC-SHA-256 in hexadecimal, the password hasher (salt and
  password to hash; verification, which may raise), the JWT library (claims and secret to token;
  token, secret and current time to claims, which may raise),
  \<open>repr\<close> of the values whose text the model does not spell out (floats, lists and dicts), and the
  value of a floating point literal.
\<close>

record ext =
  sha256_hex :: "string \<Rightarrow> string"
  hmac_sha256_hex :: "string \<Rightarrow> string \<Rightarrow> string"
  pw_hash :: "string \<Rightarrow> string \<Rightarrow> string"
  pw_verify :: "string \<Rightarrow> string \<Rightarrow> exc + bool"
  jwt_encode :: "dict \<Rightarrow> string \<Rightarrow> string"
  jwt_decode :: "string \<Rightarrow> string \<Rightarrow> datetime \<Rightarrow> exc + dict"
  py_repr :: "json \<Rightarrow> string"
  py_float :: "string \<Rightarrow> rat"

definition py_str :: "ext \<Rightarrow> json \<Rightarrow> string" where
  "py_str X j = (case j of
       JNull \<Rightarrow> ''None''
     | JBool b \<Rightarrow> (if b then ''True'' else ''False'')
     | JInt i \<Rightarrow> int_str i
     | JStr s \<Rightarrow> s
     | _ \<Rightarrow> py_repr X j)"

section \<open>What the interpreter supplies\<close>

text \<open>
  The environment of one request or job: the \<open>n\<close>-th result of \<open>uuid4()\<close>, of the token generator
  and of \<open>datetime.now(UTC)\<close>, the database's \<open>now()\<close>, which is fixed for a transaction, and whether
  the database answers the readiness check.
  \<open>later_*\<close> shifts a source when a callee draws after its caller has.
\<close>

record runtime =
  rt_uuid :: "nat \<Rightarrow> uuid"
  rt_token :: "nat \<Rightarrow> string"
  rt_clock :: "nat \<Rightarrow> datetime"
  rt_db_now :: datetime
  rt_db_up :: bool

definition later_uuid :: "nat \<Rightarrow> runtime \<Rightarrow> runtime" where
  "later_uuid k E = E\<lparr>rt_uuid := (\<lambda>n. rt_uuid E (n + k))\<rparr>"

definition later_clock :: "nat \<Rightarrow> runtime \<Rightarrow> runtime" where
  "later_clock k E = E\<lparr>rt_clock := (\<lambda>n. rt_clock E (n + k))\<rparr>"

lemma later_simps [simp]:
  "rt_uuid (later_uuid k E) n = rt_uuid E (n + k)" "rt_token (later_uuid k E) = rt_token E"
  "rt_clock (later_uuid k E) = rt_clock E" "rt_db_now (later_uuid k E) = rt_db_now E"
  "rt_clock (later_clock k E) n = rt_clock E (n + k)" "rt_token (later_clock k E) = rt_token E"
  "rt_uuid (later_clock k E) = rt_uuid E" "rt_db_now (later_clock k E) = rt_db_now E"
  by (simp_all add: later_uuid_def later_clock_def)

text \<open>The clock returns valid UTC values.\<close>

definition utc_clock :: "runtime \<Rightarrow> bool" where
  "utc_clock E = (\<forall>n. valid_dt (rt_clock E n) \<and> is_utc (rt_clock E n))"

end
