(* ===== verification/Models.thy ===== *)
theory Models
  imports Core
begin

text \<open>
  The database: the rows of the SQLAlchemy models under \<^verbatim>\<open>app/models\<close>, the database as a record of
  tables, and what a flush does to a table. An insert checks the primary key, the unique
  constraints and the foreign keys of its table and raises \<open>IntegrityError\<close> when one is violated;
  deleting an organization cascades. \<open>wf_db\<close> says that all constraints hold; every flush keeps it.
\<close>

section \<open>Rows\<close>

record user =
  usr_id :: uuid
  usr_email :: string
  usr_password_hash :: string
  usr_is_active :: bool
  usr_is_verified :: bool
  usr_created_at :: datetime
  usr_updated_at :: datetime

record refresh_token =
  rft_id :: uuid
  rft_user_id :: uuid
  rft_token_hash :: string
  rft_expires_at :: datetime
  rft_revoked_at :: "datetime option"
  rft_created_at :: datetime

record organization =
  org_id :: uuid
  org_name :: string
  org_slug :: string
  org_created_at :: datetime
  org_updated_at :: datetime

record membership =
  mem_id :: uuid
  mem_user_id :: uuid
  mem_organization_id :: uuid
  mem_role :: role
  mem_joined_at :: datetime

record invitation =
  inv_id :: uuid
  inv_organization_id :: uuid
  inv_email :: string
  inv_role :: role
  inv_token_hash :: string
  inv_expires_at :: datetime
  inv_accepted_at :: "datetime option"
  inv_created_by :: uuid
  inv_created_at :: datetime

record api_key =
  key_id :: uuid
  key_organization_id :: uuid
  key_name :: string
  key_hash :: string
  key_prefix :: string
  key_created_by :: uuid
  key_last_used_at :: "datetime option"
  key_created_at :: datetime
  key_revoked_at :: "datetime option"

record project =
  prj_id :: uuid
  prj_organization_id :: uuid
  prj_name :: string
  prj_description :: "string option"
  prj_status :: project_status
  prj_created_by :: uuid
  prj_created_at :: datetime
  prj_updated_at :: datetime

record subscription =
  sub_id :: uuid
  sub_organization_id :: uuid
  sub_plan :: plan
  sub_status :: subscription_status
  sub_external_customer_id :: "string option"
  sub_external_subscription_id :: "string option"
  sub_current_period_start :: datetime
  sub_current_period_end :: datetime
  sub_created_at :: datetime
  sub_updated_at :: datetime

record usage_event =
  use_id :: uuid
  use_organization_id :: uuid
  use_metric :: string
  use_quantity :: int
  use_created_at :: datetime

record webhook_event =
  whk_id :: uuid
  whk_provider :: string
  whk_external_event_id :: string
  whk_event_type :: string
  whk_payload :: dict
  whk_status :: webhook_status
  whk_received_at :: datetime
  whk_processed_at :: "datetime option"

record audit_log =
  aud_id :: uuid
  aud_organization_id :: uuid
  aud_actor_user_id :: "uuid option"
  aud_action :: string
  aud_resource_type :: string
  aud_resource_id :: string
  aud_details :: dict
  aud_ip_address :: "string option"
  aud_created_at :: datetime

record db =
  users :: "user list"
  refresh_tokens :: "refresh_token list"
  organizations :: "organization list"
  memberships :: "membership list"
  invitations :: "invitation list"
  api_keys :: "api_key list"
  projects :: "project list"
  subscriptions :: "subscription list"
  usage_events :: "usage_event list"
  webhook_events :: "webhook_event list"
  audit_logs :: "audit_log list"

definition empty_db :: db where
  "empty_db = \<lparr>users = [], refresh_tokens = [], organizations = [], memberships = [], invitations = [],
     api_keys = [], projects = [], subscriptions = [], usage_events = [], webhook_events = [], audit_logs = []\<rparr>"

section \<open>Flushes\<close>

definition user_ids :: "db \<Rightarrow> uuid set" where
  "user_ids d = usr_id ` set (users d)"

definition org_ids :: "db \<Rightarrow> uuid set" where
  "org_ids d = org_id ` set (organizations d)"

definition add_user :: "user \<Rightarrow> db \<Rightarrow> exc + db" where
  "add_user r d =
     (if usr_id r \<in> user_ids d \<or> usr_email r \<in> usr_email ` set (users d)
      then Inl (IntegrityError ''users'') else Inr (d\<lparr>users := users d @ [r]\<rparr>))"

definition add_refresh_token :: "refresh_token \<Rightarrow> db \<Rightarrow> exc + db" where
  "add_refresh_token r d =
     (if rft_id r \<in> rft_id ` set (refresh_tokens d) \<or> rft_token_hash r \<in> rft_token_hash ` set (refresh_tokens d)
         \<or> rft_user_id r \<notin> user_ids d
      then Inl (IntegrityError ''refresh_tokens'') else Inr (d\<lparr>refresh_tokens := refresh_tokens d @ [r]\<rparr>))"

definition add_organization :: "organization \<Rightarrow> db \<Rightarrow> exc + db" where
  "add_organization r d =
     (if org_id r \<in> org_ids d \<or> org_slug r \<in> org_slug ` set (organizations d)
      then Inl (IntegrityError ''organizations'') else Inr (d\<lparr>organizations := organizations d @ [r]\<rparr>))"

definition mem_pair :: "membership \<Rightarrow> uuid \<times> uuid" where
  "mem_pair m = (mem_user_id m, mem_organization_id m)"

definition add_membership :: "membership \<Rightarrow> db \<Rightarrow> exc + db" where
  "add_membership r d =
     (if mem_id r \<in> mem_id ` set (memberships d) \<or> mem_pair r \<in> mem_pair ` set (memberships d)
         \<or> mem_user_id r \<notin> user_ids d \<or> mem_organization_id r \<notin> org_ids d
      then Inl (IntegrityError ''memberships'') else Inr (d\<lparr>memberships := memberships d @ [r]\<rparr>))"

definition add_invitation :: "invitation \<Rightarrow> db \<Rightarrow> exc + db" where
  "add_invitation r d =
     (if inv_id r \<in> inv_id ` set (invitations d) \<or> inv_token_hash r \<in> inv_token_hash ` set (invitations d)
         \<or> inv_created_by r \<notin> user_ids d \<or> inv_organization_id r \<notin> org_ids d
      then Inl (IntegrityError ''invitations'') else Inr (d\<lparr>invitations := invitations d @ [r]\<rparr>))"

definition add_api_key :: "api_key \<Rightarrow> db \<Rightarrow> exc + db" where
  "add_api_key r d =
     (if key_id r \<in> key_id ` set (api_keys d) \<or> key_hash r \<in> key_hash ` set (api_keys d)
         \<or> key_created_by r \<notin> user_ids d \<or> key_organization_id r \<notin> org_ids d
      then Inl (IntegrityError ''api_keys'') else Inr (d\<lparr>api_keys := api_keys d @ [r]\<rparr>))"

definition add_project :: "project \<Rightarrow> db \<Rightarrow> exc + db" where
  "add_project r d =
     (if prj_id r \<in> prj_id ` set (projects d) \<or> prj_created_by r \<notin> user_ids d \<or> prj_organization_id r \<notin> org_ids d
      then Inl (IntegrityError ''projects'') else Inr (d\<lparr>projects := projects d @ [r]\<rparr>))"

definition add_subscription :: "subscription \<Rightarrow> db \<Rightarrow> exc + db" where
  "add_subscription r d =
     (if sub_id r \<in> sub_id ` set (subscriptions d)
         \<or> sub_organization_id r \<in> sub_organization_id ` set (subscriptions d)
         \<or> sub_external_subscription_id r \<noteq> None \<and>
            sub_external_subscription_id r \<in> sub_external_subscription_id ` set (subscriptions d)
         \<or> sub_organization_id r \<notin> org_ids d
      then Inl (IntegrityError ''subscriptions'') else Inr (d\<lparr>subscriptions := subscriptions d @ [r]\<rparr>))"

definition add_usage_event :: "usage_event \<Rightarrow> db \<Rightarrow> exc + db" where
  "add_usage_event r d =
     (if use_id r \<in> use_id ` set (usage_events d) \<or> use_organization_id r \<notin> org_ids d
      then Inl (IntegrityError ''usage_events'') else Inr (d\<lparr>usage_events := usage_events d @ [r]\<rparr>))"

definition whk_pair :: "webhook_event \<Rightarrow> string \<times> string" where
  "whk_pair w = (whk_provider w, whk_external_event_id w)"

definition add_webhook_event :: "webhook_event \<Rightarrow> db \<Rightarrow> exc + db" where
  "add_webhook_event r d =
     (if whk_id r \<in> whk_id ` set (webhook_events d) \<or> whk_pair r \<in> whk_pair ` set (webhook_events d)
      then Inl (IntegrityError ''webhook_events'') else Inr (d\<lparr>webhook_events := webhook_events d @ [r]\<rparr>))"

definition add_audit_log :: "audit_log \<Rightarrow> db \<Rightarrow> exc + db" where
  "add_audit_log r d =
     (if aud_id r \<in> aud_id ` set (audit_logs d) \<or> aud_organization_id r \<notin> org_ids d
         \<or> (case aud_actor_user_id r of None \<Rightarrow> False | Some u \<Rightarrow> u \<notin> user_ids d)
      then Inl (IntegrityError ''audit_logs'') else Inr (d\<lparr>audit_logs := audit_logs d @ [r]\<rparr>))"

text \<open>
  The flush of a loaded object that was modified: an \<open>UPDATE\<close> of the row with its primary key.
  Only the slug and the external subscription id are unique columns the program ever changes.
\<close>

definition save_row :: "('r \<Rightarrow> uuid) \<Rightarrow> 'r \<Rightarrow> 'r list \<Rightarrow> 'r list" where
  "save_row k r rs = update_where (\<lambda>x. k x = k r) (\<lambda>_. r) rs"

definition save_refresh_token :: "refresh_token \<Rightarrow> db \<Rightarrow> db" where
  "save_refresh_token r d = d\<lparr>refresh_tokens := save_row rft_id r (refresh_tokens d)\<rparr>"

definition save_organization :: "organization \<Rightarrow> db \<Rightarrow> exc + db" where
  "save_organization r d =
     (if \<exists>x \<in> set (organizations d). org_id x \<noteq> org_id r \<and> org_slug x = org_slug r
      then Inl (IntegrityError ''organizations'')
      else Inr (d\<lparr>organizations := save_row org_id r (organizations d)\<rparr>))"

definition save_membership :: "membership \<Rightarrow> db \<Rightarrow> db" where
  "save_membership r d = d\<lparr>memberships := save_row mem_id r (memberships d)\<rparr>"

definition save_invitation :: "invitation \<Rightarrow> db \<Rightarrow> db" where
  "save_invitation r d = d\<lparr>invitations := save_row inv_id r (invitations d)\<rparr>"

definition save_api_key :: "api_key \<Rightarrow> db \<Rightarrow> db" where
  "save_api_key r d = d\<lparr>api_keys := save_row key_id r (api_keys d)\<rparr>"

definition save_project :: "project \<Rightarrow> db \<Rightarrow> db" where
  "save_project r d = d\<lparr>projects := save_row prj_id r (projects d)\<rparr>"

definition save_subscription :: "subscription \<Rightarrow> db \<Rightarrow> exc + db" where
  "save_subscription r d =
     (if sub_external_subscription_id r \<noteq> None \<and>
         (\<exists>x \<in> set (subscriptions d). sub_id x \<noteq> sub_id r \<and>
            sub_external_subscription_id x = sub_external_subscription_id r)
      then Inl (IntegrityError ''subscriptions'')
      else Inr (d\<lparr>subscriptions := save_row sub_id r (subscriptions d)\<rparr>))"

definition save_webhook_event :: "webhook_event \<Rightarrow> db \<Rightarrow> db" where
  "save_webhook_event r d = d\<lparr>webhook_events := save_row whk_id r (webhook_events d)\<rparr>"

definition delete_membership_row :: "uuid \<Rightarrow> db \<Rightarrow> db" where
  "delete_membership_row i d = d\<lparr>memberships := filter (\<lambda>m. mem_id m \<noteq> i) (memberships d)\<rparr>"

definition delete_project_row :: "uuid \<Rightarrow> db \<Rightarrow> db" where
  "delete_project_row i d = d\<lparr>projects := filter (\<lambda>p. prj_id p \<noteq> i) (projects d)\<rparr>"

text \<open>\<open>ON DELETE CASCADE\<close> on every foreign key to \<open>organizations\<close>.\<close>

definition delete_organization_row :: "uuid \<Rightarrow> db \<Rightarrow> db" where
  "delete_organization_row i d = d\<lparr>
     organizations := filter (\<lambda>r. org_id r \<noteq> i) (organizations d),
     memberships := filter (\<lambda>r. mem_organization_id r \<noteq> i) (memberships d),
     invitations := filter (\<lambda>r. inv_organization_id r \<noteq> i) (invitations d),
     api_keys := filter (\<lambda>r. key_organization_id r \<noteq> i) (api_keys d),
     projects := filter (\<lambda>r. prj_organization_id r \<noteq> i) (projects d),
     subscriptions := filter (\<lambda>r. sub_organization_id r \<noteq> i) (subscriptions d),
     usage_events := filter (\<lambda>r. use_organization_id r \<noteq> i) (usage_events d),
     audit_logs := filter (\<lambda>r. aud_organization_id r \<noteq> i) (audit_logs d)\<rparr>"

section \<open>Well-formed databases\<close>

definition wf_users :: "db \<Rightarrow> bool" where
  "wf_users d = (unique_on usr_id (users d) \<and> unique_on usr_email (users d))"

definition wf_refresh_tokens :: "db \<Rightarrow> bool" where
  "wf_refresh_tokens d = (unique_on rft_id (refresh_tokens d) \<and> unique_on rft_token_hash (refresh_tokens d) \<and>
     fk rft_user_id (user_ids d) (refresh_tokens d))"

definition wf_organizations :: "db \<Rightarrow> bool" where
  "wf_organizations d = (unique_on org_id (organizations d) \<and> unique_on org_slug (organizations d))"

definition wf_memberships :: "db \<Rightarrow> bool" where
  "wf_memberships d = (unique_on mem_id (memberships d) \<and> unique_on mem_pair (memberships d) \<and>
     fk mem_user_id (user_ids d) (memberships d) \<and> fk mem_organization_id (org_ids d) (memberships d))"

definition wf_invitations :: "db \<Rightarrow> bool" where
  "wf_invitations d = (unique_on inv_id (invitations d) \<and> unique_on inv_token_hash (invitations d) \<and>
     fk inv_created_by (user_ids d) (invitations d) \<and> fk inv_organization_id (org_ids d) (invitations d))"

definition wf_api_keys :: "db \<Rightarrow> bool" where
  "wf_api_keys d = (unique_on key_id (api_keys d) \<and> unique_on key_hash (api_keys d) \<and>
     fk key_created_by (user_ids d) (api_keys d) \<and> fk key_organization_id (org_ids d) (api_keys d))"

definition wf_projects :: "db \<Rightarrow> bool" where
  "wf_projects d = (unique_on prj_id (projects d) \<and>
     fk prj_created_by (user_ids d) (projects d) \<and> fk prj_organization_id (org_ids d) (projects d))"

definition wf_subscriptions :: "db \<Rightarrow> bool" where
  "wf_subscriptions d = (unique_on sub_id (subscriptions d) \<and> unique_on sub_organization_id (subscriptions d) \<and>
     unique_opt sub_external_subscription_id (subscriptions d) \<and>
     fk sub_organization_id (org_ids d) (subscriptions d))"

definition wf_usage_events :: "db \<Rightarrow> bool" where
  "wf_usage_events d = (unique_on use_id (usage_events d) \<and> fk use_organization_id (org_ids d) (usage_events d))"

definition wf_webhook_events :: "db \<Rightarrow> bool" where
  "wf_webhook_events d = (unique_on whk_id (webhook_events d) \<and> unique_on whk_pair (webhook_events d))"

definition wf_audit_logs :: "db \<Rightarrow> bool" where
  "wf_audit_logs d = (unique_on aud_id (audit_logs d) \<and> fk aud_organization_id (org_ids d) (audit_logs d) \<and>
     fk_opt aud_actor_user_id (user_ids d) (audit_logs d))"

definition wf_db :: "db \<Rightarrow> bool" where
  "wf_db d = (wf_users d \<and> wf_refresh_tokens d \<and> wf_organizations d \<and> wf_memberships d \<and> wf_invitations d \<and>
     wf_api_keys d \<and> wf_projects d \<and> wf_subscriptions d \<and> wf_usage_events d \<and> wf_webhook_events d \<and> wf_audit_logs d)"

section \<open>Lemmas on flushes\<close>

lemmas add_defs = add_user_def add_refresh_token_def add_organization_def add_membership_def
  add_invitation_def add_api_key_def add_project_def add_subscription_def add_usage_event_def
  add_webhook_event_def add_audit_log_def

lemmas save_defs = save_refresh_token_def save_organization_def save_membership_def save_invitation_def
  save_api_key_def save_project_def save_subscription_def save_webhook_event_def

lemmas delete_defs = delete_membership_row_def delete_project_row_def delete_organization_row_def

lemmas wf_table_defs = wf_users_def wf_refresh_tokens_def wf_organizations_def wf_memberships_def
  wf_invitations_def wf_api_keys_def wf_projects_def wf_subscriptions_def wf_usage_events_def
  wf_webhook_events_def wf_audit_logs_def

lemmas wf_defs = wf_db_def wf_table_defs

declare add_defs [service_defs] save_defs [service_defs] delete_defs [service_defs] save_row_def [service_defs]
  user_ids_def [service_defs] org_ids_def [service_defs]

lemma map_save_row [simp]: "map k (save_row k r rs) = map k rs"
  by (simp add: save_row_def)

lemma unique_on_save_row [simp]: "unique_on k (save_row k r rs) \<longleftrightarrow> unique_on k rs"
  by (simp add: unique_on_def)

lemma image_save_row [simp]: "k ` set (save_row k r rs) = k ` set rs"
  by (metis list.set_map map_save_row)

lemma in_set_save_rowD: "x \<in> set (save_row k r rs) \<Longrightarrow> (x \<in> set rs \<and> k x \<noteq> k r) \<or> x = r"
  by (auto simp: save_row_def update_where_def split: if_splits)

lemma in_set_save_row:
  assumes "r0 \<in> set rs" "k r0 = k r"
  shows "x \<in> set (save_row k r rs) \<longleftrightarrow> (x \<in> set rs \<and> k x \<noteq> k r) \<or> x = r"
  using assms by (auto simp: save_row_def update_where_def split: if_splits)

text \<open>Saving a row that keeps another column of the stored row with its key keeps that column.\<close>

lemma map_save_row_other:
  assumes "unique_on k rs" "r0 \<in> set rs" "k r = k r0" "j r = j r0"
  shows "map j (save_row k r rs) = map j rs"
proof -
  have "j (if k x = k r then r else x) = j x" if "x \<in> set rs" for x
    using unique_onD [OF assms(1) that assms(2)] assms(3,4) by auto
  then show ?thesis by (simp add: save_row_def update_where_def)
qed

lemma save_row_id:
  assumes "unique_on k rs" "r \<in> set rs"
  shows "save_row k r rs = rs"
  unfolding save_row_def using unique_onD [OF assms(1) _ assms(2)] by (intro update_where_id) auto

lemma filter_save_row_other:
  assumes "unique_on k rs" "r0 \<in> set rs" "k r = k r0" "\<not> Q r0" "\<not> Q r"
  shows "filter Q (save_row k r rs) = filter Q rs"
proof -
  have "\<not> Q x" if "x \<in> set rs" "k x = k r" for x
    using unique_onD [OF assms(1) that(1) assms(2)] that assms(3,4) by simp
  then have "\<forall>x \<in> set rs. k x = k r \<longrightarrow> \<not> Q x" by blast
  then show ?thesis
    using assms(5) by (induction rs) (simp_all add: save_row_def update_where_def)
qed

lemma fk_save_row: "fk j S rs \<Longrightarrow> r0 \<in> set rs \<Longrightarrow> j r = j r0 \<Longrightarrow> fk j S (save_row k r rs)"
  by (auto simp: fk_def dest!: in_set_save_rowD)

text \<open>A unique column that the saved row changes to a value no other row holds.\<close>

lemma unique_on_save_row_other:
  assumes "unique_on k rs" "unique_on j rs" "\<forall>x \<in> set rs. k x \<noteq> k r \<longrightarrow> j x \<noteq> j r"
  shows "unique_on j (save_row k r rs)"
proof -
  have "inj_on (\<lambda>x. j (if k x = k r then r else x)) (set rs)"
    using assms by (auto simp: inj_on_def dest: unique_onD)
  moreover have "distinct rs" using assms(1) by (auto simp: unique_on_def distinct_map)
  ultimately show ?thesis by (simp add: unique_on_def save_row_def update_where_def distinct_map comp_def)
qed

lemma ids_simps [simp]:
  "org_ids (d\<lparr>users := u\<rparr>) = org_ids d" "org_ids (d\<lparr>refresh_tokens := b\<rparr>) = org_ids d"
  "org_ids (d\<lparr>memberships := c\<rparr>) = org_ids d" "org_ids (d\<lparr>invitations := e\<rparr>) = org_ids d"
  "org_ids (d\<lparr>api_keys := f\<rparr>) = org_ids d" "org_ids (d\<lparr>projects := g\<rparr>) = org_ids d"
  "org_ids (d\<lparr>subscriptions := h\<rparr>) = org_ids d" "org_ids (d\<lparr>usage_events := i\<rparr>) = org_ids d"
  "org_ids (d\<lparr>webhook_events := j\<rparr>) = org_ids d" "org_ids (d\<lparr>audit_logs := k\<rparr>) = org_ids d"
  "user_ids (d\<lparr>organizations := a\<rparr>) = user_ids d" "user_ids (d\<lparr>refresh_tokens := b\<rparr>) = user_ids d"
  "user_ids (d\<lparr>memberships := c\<rparr>) = user_ids d" "user_ids (d\<lparr>invitations := e\<rparr>) = user_ids d"
  "user_ids (d\<lparr>api_keys := f\<rparr>) = user_ids d" "user_ids (d\<lparr>projects := g\<rparr>) = user_ids d"
  "user_ids (d\<lparr>subscriptions := h\<rparr>) = user_ids d" "user_ids (d\<lparr>usage_events := i\<rparr>) = user_ids d"
  "user_ids (d\<lparr>webhook_events := j\<rparr>) = user_ids d" "user_ids (d\<lparr>audit_logs := k\<rparr>) = user_ids d"
  by (simp_all add: org_ids_def user_ids_def)

lemma ids_append [simp]:
  "user_ids (d\<lparr>users := users d @ [r]\<rparr>) = insert (usr_id r) (user_ids d)"
  "org_ids (d\<lparr>organizations := organizations d @ [q]\<rparr>) = insert (org_id q) (org_ids d)"
  "org_ids (d\<lparr>organizations := save_row org_id q (organizations d)\<rparr>) = org_ids d"
  by (simp_all add: user_ids_def org_ids_def)

lemma ids_image: "usr_id ` set (users d) = user_ids d" "org_id ` set (organizations d) = org_ids d"
  by (simp_all add: user_ids_def org_ids_def)

section \<open>Every flush keeps the database well-formed\<close>

lemma wf_add_user: "add_user r d = Inr d' \<Longrightarrow> wf_db d \<Longrightarrow> wf_db d'"
  by (simp add: add_user_def wf_defs ids_image split: if_splits) (erule subst, simp add: ids_image)

lemma wf_add_refresh_token: "add_refresh_token r d = Inr d' \<Longrightarrow> wf_db d \<Longrightarrow> wf_db d'"
  by (simp add: add_refresh_token_def wf_defs ids_image split: if_splits) (erule subst, simp add: ids_image)

lemma wf_add_organization: "add_organization r d = Inr d' \<Longrightarrow> wf_db d \<Longrightarrow> wf_db d'"
  by (simp add: add_organization_def wf_defs ids_image split: if_splits) (erule subst, simp add: ids_image)

lemma wf_add_membership: "add_membership r d = Inr d' \<Longrightarrow> wf_db d \<Longrightarrow> wf_db d'"
  by (simp add: add_membership_def wf_defs ids_image split: if_splits) (erule subst, simp add: ids_image)

lemma wf_add_invitation: "add_invitation r d = Inr d' \<Longrightarrow> wf_db d \<Longrightarrow> wf_db d'"
  by (simp add: add_invitation_def wf_defs ids_image split: if_splits) (erule subst, simp add: ids_image)

lemma wf_add_api_key: "add_api_key r d = Inr d' \<Longrightarrow> wf_db d \<Longrightarrow> wf_db d'"
  by (simp add: add_api_key_def wf_defs ids_image split: if_splits) (erule subst, simp add: ids_image)

lemma wf_add_project: "add_project r d = Inr d' \<Longrightarrow> wf_db d \<Longrightarrow> wf_db d'"
  by (simp add: add_project_def wf_defs ids_image split: if_splits) (erule subst, simp add: ids_image)

lemma wf_add_subscription: "add_subscription r d = Inr d' \<Longrightarrow> wf_db d \<Longrightarrow> wf_db d'"
  by (simp add: add_subscription_def wf_defs ids_image split: if_splits) (erule subst, simp add: ids_image)

lemma wf_add_usage_event: "add_usage_event r d = Inr d' \<Longrightarrow> wf_db d \<Longrightarrow> wf_db d'"
  by (simp add: add_usage_event_def wf_defs ids_image split: if_splits) (erule subst, simp add: ids_image)

lemma wf_add_webhook_event: "add_webhook_event r d = Inr d' \<Longrightarrow> wf_db d \<Longrightarrow> wf_db d'"
  by (simp add: add_webhook_event_def wf_defs ids_image split: if_splits) (erule subst, simp add: ids_image)

lemma wf_add_audit_log: "add_audit_log r d = Inr d' \<Longrightarrow> wf_db d \<Longrightarrow> wf_db d'"
  by (cases "aud_actor_user_id r") (simp_all add: add_audit_log_def wf_defs split: if_splits, (erule subst, simp)+)

text \<open>
  An update keeps the database well-formed when the saved object is the stored row with only
  non-key columns changed.
\<close>

lemma wf_save_refresh_token:
  assumes "wf_db d" "r0 \<in> set (refresh_tokens d)" "rft_id r = rft_id r0" "rft_token_hash r = rft_token_hash r0" "rft_user_id r = rft_user_id r0"
  shows "wf_db (save_refresh_token r d)"
  using assms map_save_row_other [of rft_id "refresh_tokens d" r0 r rft_token_hash]
    fk_save_row [of rft_user_id _ "refresh_tokens d" r0 r rft_id]
  by (simp add: save_refresh_token_def wf_defs unique_on_def)

lemma wf_save_membership:
  assumes "wf_db d" "r0 \<in> set (memberships d)" "mem_id r = mem_id r0" "mem_pair r = mem_pair r0" "mem_user_id r = mem_user_id r0" "mem_organization_id r = mem_organization_id r0"
  shows "wf_db (save_membership r d)"
  using assms map_save_row_other [of mem_id "memberships d" r0 r mem_pair]
    fk_save_row [of mem_user_id _ "memberships d" r0 r mem_id]
    fk_save_row [of mem_organization_id _ "memberships d" r0 r mem_id]
  by (simp add: save_membership_def wf_defs unique_on_def)

lemma wf_save_invitation:
  assumes "wf_db d" "r0 \<in> set (invitations d)" "inv_id r = inv_id r0" "inv_token_hash r = inv_token_hash r0" "inv_created_by r = inv_created_by r0" "inv_organization_id r = inv_organization_id r0"
  shows "wf_db (save_invitation r d)"
  using assms map_save_row_other [of inv_id "invitations d" r0 r inv_token_hash]
    fk_save_row [of inv_created_by _ "invitations d" r0 r inv_id]
    fk_save_row [of inv_organization_id _ "invitations d" r0 r inv_id]
  by (simp add: save_invitation_def wf_defs unique_on_def)

lemma wf_save_api_key:
  assumes "wf_db d" "r0 \<in> set (api_keys d)" "key_id r = key_id r0" "key_hash r = key_hash r0" "key_created_by r = key_created_by r0" "key_organization_id r = key_organization_id r0"
  shows "wf_db (save_api_key r d)"
  using assms map_save_row_other [of key_id "api_keys d" r0 r key_hash]
    fk_save_row [of key_created_by _ "api_keys d" r0 r key_id]
    fk_save_row [of key_organization_id _ "api_keys d" r0 r key_id]
  by (simp add: save_api_key_def wf_defs unique_on_def)

lemma wf_save_project:
  assumes "wf_db d" "r0 \<in> set (projects d)" "prj_id r = prj_id r0" "prj_created_by r = prj_created_by r0" "prj_organization_id r = prj_organization_id r0"
  shows "wf_db (save_project r d)"
  using assms fk_save_row [of prj_created_by _ "projects d" r0 r prj_id]
    fk_save_row [of prj_organization_id _ "projects d" r0 r prj_id]
  by (simp add: save_project_def wf_defs unique_on_def)

lemma wf_save_webhook_event:
  assumes "wf_db d" "r0 \<in> set (webhook_events d)" "whk_id r = whk_id r0" "whk_pair r = whk_pair r0"
  shows "wf_db (save_webhook_event r d)"
  using assms map_save_row_other [of whk_id "webhook_events d" r0 r whk_pair]
  by (simp add: save_webhook_event_def wf_defs unique_on_def)

lemma wf_save_organization:
  assumes "save_organization r d = Inr d'" "wf_db d"
  shows "wf_db d'"
proof -
  have "unique_on org_slug (save_row org_id r (organizations d))"
    using assms by (intro unique_on_save_row_other) (auto simp: save_organization_def wf_defs split: if_splits)
  then show ?thesis using assms by (auto simp: save_organization_def wf_defs split: if_splits)
qed

lemma unique_opt_save_row:
  assumes "unique_on k rs" "unique_opt j rs"
    "j r \<noteq> None \<Longrightarrow> \<forall>x \<in> set rs. k x \<noteq> k r \<longrightarrow> j x \<noteq> j r"
  shows "unique_opt j (save_row k r rs)"
proof -
  let ?f = "\<lambda>x. if k x = k r then r else x"
  have d: "distinct rs" using assms(1) by (auto simp: unique_on_def distinct_map)
  have u: "x = y" if "x \<in> set rs" "y \<in> set rs" "j x = j y" "j x \<noteq> None" for x y
    using unique_onD [of j "filter (\<lambda>r. j r \<noteq> None) rs" x y] assms(2) that by (simp add: unique_opt_def)
  have "inj_on (\<lambda>x. j (?f x)) {x \<in> set rs. j (?f x) \<noteq> None}"
    using assms(3) u unique_onD [OF assms(1)] by (auto simp: inj_on_def split: if_splits)
  then have "distinct (map (\<lambda>x. j (?f x)) (filter (\<lambda>x. j (?f x) \<noteq> None) rs))"
    using d by (simp add: distinct_map)
  then show ?thesis
    by (simp add: unique_opt_def unique_on_def save_row_def update_where_def filter_map comp_def)
qed

lemma wf_save_subscription:
  assumes "save_subscription r d = Inr d'" "wf_db d" "r0 \<in> set (subscriptions d)" "sub_id r = sub_id r0"
    "sub_organization_id r = sub_organization_id r0"
  shows "wf_db d'"
proof -
  have "unique_opt sub_external_subscription_id (save_row sub_id r (subscriptions d))"
    using assms(1,2) by (intro unique_opt_save_row) (auto simp: save_subscription_def wf_defs split: if_splits)
  then show ?thesis
    using assms map_save_row_other [of sub_id "subscriptions d" r0 r sub_organization_id]
      fk_save_row [of sub_organization_id _ "subscriptions d" r0 r sub_id]
    by (simp add: save_subscription_def wf_defs unique_on_def split: if_splits) (erule subst, simp)
qed

lemma wf_delete_membership_row: "wf_db d \<Longrightarrow> wf_db (delete_membership_row i d)"
  by (simp add: delete_membership_row_def wf_defs unique_on_filter)

lemma wf_delete_project_row: "wf_db d \<Longrightarrow> wf_db (delete_project_row i d)"
  by (simp add: delete_project_row_def wf_defs unique_on_filter)

lemma ids_delete_organization_row [simp]:
  "user_ids (delete_organization_row i d) = user_ids d"
  "org_ids (delete_organization_row i d) = org_ids d - {i}"
  by (auto simp: delete_organization_row_def user_ids_def org_ids_def)

lemma wf_delete_organization_row:
  assumes "wf_db d"
  shows "wf_db (delete_organization_row i d)"
proof -
  let ?d = "delete_organization_row i d"
  have "users ?d = users d" "refresh_tokens ?d = refresh_tokens d" "webhook_events ?d = webhook_events d"
    by (simp_all add: delete_organization_row_def)
  then have "wf_users ?d" "wf_refresh_tokens ?d" "wf_webhook_events ?d"
    using assms by (simp_all add: wf_defs)
  moreover have "wf_organizations ?d" "wf_memberships ?d" "wf_invitations ?d" "wf_api_keys ?d" "wf_projects ?d"
    "wf_subscriptions ?d" "wf_usage_events ?d" "wf_audit_logs ?d"
    using assms by (simp_all add: wf_defs) (simp_all add: delete_organization_row_def unique_on_filter unique_opt_filter)
  ultimately show ?thesis by (simp add: wf_db_def)
qed

lemma wf_empty_db [simp]: "wf_db empty_db"
  by (simp add: empty_db_def wf_defs)

section \<open>What a well-formed database gives\<close>

lemma wf_unique:
  assumes "wf_db d"
  shows "unique_on usr_id (users d)" "unique_on usr_email (users d)" "unique_on rft_id (refresh_tokens d)"
    "unique_on rft_token_hash (refresh_tokens d)" "unique_on org_id (organizations d)"
    "unique_on org_slug (organizations d)" "unique_on mem_id (memberships d)" "unique_on mem_pair (memberships d)"
    "unique_on inv_id (invitations d)" "unique_on inv_token_hash (invitations d)" "unique_on key_id (api_keys d)"
    "unique_on key_hash (api_keys d)" "unique_on prj_id (projects d)" "unique_on sub_id (subscriptions d)"
    "unique_on sub_organization_id (subscriptions d)" "unique_on use_id (usage_events d)"
    "unique_on whk_id (webhook_events d)" "unique_on whk_pair (webhook_events d)" "unique_on aud_id (audit_logs d)"
  using assms by (simp_all add: wf_defs)

lemma wf_fk:
  assumes "wf_db d"
  shows "\<And>r. r \<in> set (memberships d) \<Longrightarrow> mem_user_id r \<in> user_ids d"
    "\<And>r. r \<in> set (memberships d) \<Longrightarrow> mem_organization_id r \<in> org_ids d"
    "\<And>r. r \<in> set (invitations d) \<Longrightarrow> inv_organization_id r \<in> org_ids d"
    "\<And>r. r \<in> set (api_keys d) \<Longrightarrow> key_organization_id r \<in> org_ids d"
    "\<And>r. r \<in> set (projects d) \<Longrightarrow> prj_organization_id r \<in> org_ids d"
    "\<And>r. r \<in> set (subscriptions d) \<Longrightarrow> sub_organization_id r \<in> org_ids d"
    "\<And>r. r \<in> set (usage_events d) \<Longrightarrow> use_organization_id r \<in> org_ids d"
    "\<And>r. r \<in> set (audit_logs d) \<Longrightarrow> aud_organization_id r \<in> org_ids d"
    "\<And>r. r \<in> set (refresh_tokens d) \<Longrightarrow> rft_user_id r \<in> user_ids d"
  using assms by (simp_all add: wf_defs fk_def)

end
