(* ===== verification/Usage.thy ===== *)
theory Usage
  imports Models
begin

text \<open>
  Usage accounting, \<^verbatim>\<open>app/services/usage.py\<close>: month arithmetic, the billing period that contains
  an instant, the usage total of a period, the summary and the quota-checked recording of an event.
  The period loop is total: the month of the period end grows with every turn and a date after
  the year 9999 raises, so \<open>period_loop\<close> needs no fuel.
\<close>

section \<open>Periods\<close>

definition as_utc :: "datetime \<Rightarrow> exc + datetime" where
  "as_utc value = (case tzinfo value of
       None \<Rightarrow> Inr (replace_tzinfo value (Some utc_offset))
     | Some off \<Rightarrow> astimezone_utc value off)"

definition add_month :: "datetime \<Rightarrow> exc + datetime" where
  "add_month value0 =
     r_bind (as_utc value0) (\<lambda>value.
       let y = year value + (if month value = 12 then 1 else 0);
           m = (if month value = 12 then 1 else month value + 1);
           d = min (day value) (days_in_month y m)
       in replace_ymd value y m d)"

definition calendar_period :: "datetime \<Rightarrow> exc + (datetime \<times> datetime)" where
  "calendar_period now =
     r_bind (as_utc now) (\<lambda>current.
       let start = current\<lparr>day := 1, hour := 0, minute := 0, second := 0, microsecond := 0\<rparr>
       in r_bind (add_month start) (\<lambda>end. Inr (start, end)))"

text \<open>Months since year 0, the quantity that grows in the period loop.\<close>

definition month_index :: "datetime \<Rightarrow> int" where
  "month_index t = year t * 12 + month t"

lemma add_month_eq_Inr:
  assumes "add_month v = Inr w"
  shows "is_utc w \<and> month_index w \<le> 9999 * 12 + 12 \<and>
    (is_utc v \<longrightarrow> month_index w = month_index v + 1)"
proof -
  obtain u where u: "as_utc v = Inr u" and w: "replace_ymd u (year u + (if month u = 12 then 1 else 0))
      (if month u = 12 then 1 else month u + 1)
      (min (day u) (days_in_month (year u + (if month u = 12 then 1 else 0)) (if month u = 12 then 1 else month u + 1))) = Inr w"
    using assms by (auto simp: add_month_def Let_def)
  have "is_utc u"
    using u astimezone_utc_instant(2) [of v _ u] by (auto simp: as_utc_def replace_tzinfo_def split: option.splits)
  moreover have "u = v" if "is_utc v"
    using u that by (simp add: as_utc_def astimezone_utc_def)
  ultimately show ?thesis
    using w by (auto simp: replace_ymd_def month_index_def valid_ymd_def split: if_splits)
qed

function period_loop :: "datetime \<Rightarrow> datetime \<Rightarrow> datetime \<Rightarrow> exc + (datetime \<times> datetime)" where
  "period_loop current start end =
     (if dt_le end current then
        (case add_month end of Inl e \<Rightarrow> Inl e | Inr end' \<Rightarrow> period_loop current end end')
      else Inr (start, end))"
  by pat_completeness auto
termination
  by (relation "measures [\<lambda>(c, s, e). if is_utc e then 0 else 1, \<lambda>(c, s, e). nat (120001 - month_index e)]")
    (auto dest: add_month_eq_Inr)

declare period_loop.simps [simp del]

definition now_or :: "runtime \<Rightarrow> nat \<Rightarrow> datetime option \<Rightarrow> datetime" where
  "now_or E k now = (case now of None \<Rightarrow> rt_clock E k | Some t \<Rightarrow> t)"

definition subscription_period :: "runtime \<Rightarrow> subscription option \<Rightarrow> datetime option \<Rightarrow> exc + (datetime \<times> datetime)" where
  "subscription_period E subscription now =
     r_bind (as_utc (now_or E 0 now)) (\<lambda>current.
       case subscription of
         None \<Rightarrow> calendar_period current
       | Some s \<Rightarrow>
           r_bind (as_utc (sub_current_period_start s)) (\<lambda>start.
           r_bind (as_utc (sub_current_period_end s)) (\<lambda>end.
             if dt_le end start then calendar_period current
             else if dt_lt current start then Inr (start, end)
             else period_loop current start end)))"

section \<open>Totals, summary and recording\<close>

definition API_REQUESTS_METRIC :: string where
  "API_REQUESTS_METRIC = ''api_requests''"

record usage_snapshot =
  snap_plan :: plan
  snap_used :: int
  snap_limit :: int
  snap_remaining :: int
  snap_period_start :: datetime
  snap_period_end :: datetime

definition usage_total :: "db \<Rightarrow> uuid \<Rightarrow> string \<Rightarrow> datetime \<Rightarrow> datetime \<Rightarrow> int" where
  "usage_total d organization_id metric period_start period_end =
     sum_list (map use_quantity (filter (\<lambda>e. use_organization_id e = organization_id \<and> use_metric e = metric \<and>
        dt_le period_start (use_created_at e) \<and> dt_lt (use_created_at e) period_end) (usage_events d)))"

definition find_organization :: "db \<Rightarrow> uuid \<Rightarrow> organization option" where
  "find_organization d organization_id = scalar (filter (\<lambda>o'. org_id o' = organization_id) (organizations d))"

definition find_subscription :: "db \<Rightarrow> uuid \<Rightarrow> subscription option" where
  "find_subscription d organization_id =
     scalar (filter (\<lambda>s. sub_organization_id s = organization_id) (subscriptions d))"

definition plan_of_subscription :: "subscription option \<Rightarrow> plan" where
  "plan_of_subscription s = (case s of None \<Rightarrow> FREE | Some s \<Rightarrow> sub_plan s)"

definition get_usage_summary :: "runtime \<Rightarrow> uuid \<Rightarrow> string \<Rightarrow> datetime option \<Rightarrow> db \<Rightarrow> exc + usage_snapshot" where
  "get_usage_summary E organization_id metric now d =
     r_bind (require (find_organization d organization_id)
        (NotFoundError ''organization_not_found'' ''Organization not found'')) (\<lambda>_.
     let subscription = find_subscription d organization_id; plan = plan_of_subscription subscription in
     r_bind (subscription_period E subscription now) (\<lambda>(period_start, period_end).
     let used = usage_total d organization_id metric period_start period_end; limit = plan_quota plan in
     Inr \<lparr>snap_plan = plan, snap_used = used, snap_limit = limit, snap_remaining = max 0 (limit - used),
          snap_period_start = period_start, snap_period_end = period_end\<rparr>))"

definition record_usage ::
  "runtime \<Rightarrow> uuid \<Rightarrow> string \<Rightarrow> int \<Rightarrow> datetime option \<Rightarrow> db \<Rightarrow> exc + usage_event \<times> db" where
  "record_usage E organization_id metric quantity now d =
     r_bind (raise_if (quantity < 1) (ValueError ''quantity must be positive'')) (\<lambda>_.
     r_bind (require (find_organization d organization_id)
        (NotFoundError ''organization_not_found'' ''Organization not found'')) (\<lambda>_.
     let subscription = find_subscription d organization_id; plan = plan_of_subscription subscription in
     r_bind (subscription_period E subscription now) (\<lambda>(period_start, period_end).
     let used = usage_total d organization_id metric period_start period_end; limit = plan_quota plan in
     if limit < used + quantity then
       r_bind (as_utc (now_or E 1 now)) (\<lambda>current.
       let retry_after = max 1 ((instant period_end - instant current) div 1000000) in
       Inl (AppError 429 ''quota_exceeded'' (''Monthly '' @ metric @ '' quota exceeded'')
              (Some [(''Retry-After'', int_str retry_after)])))
     else
       r_bind (as_utc (now_or E 1 now)) (\<lambda>created_at.
       let event = \<lparr>use_id = rt_uuid E 0, use_organization_id = organization_id, use_metric = metric,
                    use_quantity = quantity, use_created_at = created_at\<rparr> in
       r_bind (add_usage_event event d) (\<lambda>d'. Inr (event, d'))))))"

section \<open>Lemmas on periods\<close>

lemma as_utc_utc [simp]: "is_utc t \<Longrightarrow> as_utc t = Inr t"
  by (simp add: as_utc_def astimezone_utc_def)

lemma as_utc_eq_Inr: "as_utc t = Inr u \<Longrightarrow> is_utc u \<and> instant u = instant t"
  using astimezone_utc_instant [of t _ u]
  by (auto simp: as_utc_def replace_tzinfo_def instant_def wall_micros_def time_micros_def utc_offset_def
      split: option.splits)

lemma add_month_utc:
  assumes "valid_dt v" "is_utc v" "month_index v \<le> 9999 * 12 + 11"
  shows "\<exists>w. add_month v = Inr w \<and> valid_dt w \<and> is_utc w \<and> time_micros w = time_micros v \<and>
    month_index w = month_index v + 1 \<and> day w = min (day v) (days_in_month (year w) (month w))"
proof -
  let ?y = "year v + (if month v = 12 then 1 else 0)" and ?m = "if month v = 12 then 1 else month v + 1"
  let ?d = "min (day v) (days_in_month ?y ?m)"
  have b: "1 \<le> year v" "year v \<le> 9999" "1 \<le> month v" "month v \<le> 12" "1 \<le> day v"
    using assms(1) by (auto simp: valid_dt_def valid_ymd_def)
  have dim: "28 \<le> days_in_month ?y ?m" using days_in_month_bounds by blast
  have "year v \<le> 9998 \<or> month v < 12" using assms(3) b by (simp add: month_index_def) linarith
  with b dim have v: "valid_ymd ?y ?m ?d" by (auto simp: valid_ymd_def)
  define w where "w = v\<lparr>year := ?y, month := ?m, day := ?d\<rparr>"
  have "add_month v = Inr w"
    using v assms(2) by (simp add: add_month_def replace_ymd_def Let_def w_def)
  moreover have "valid_dt w" using assms(1) v by (simp add: w_def valid_dt_def)
  moreover have "is_utc w" "time_micros w = time_micros v" using assms(2) by (simp_all add: w_def time_micros_def)
  moreover have "month_index w = month_index v + 1" by (simp add: w_def month_index_def)
  moreover have "day w = min (day v) (days_in_month (year w) (month w))" by (simp add: w_def)
  ultimately show ?thesis by blast
qed

lemma next_month_ord:
  assumes "valid_ymd y m d" "valid_ymd y' m' d'" "y' * 12 + m' = y * 12 + m + 1"
  shows "ymd2ord y m d < ymd2ord y' m' d'"
proof -
  have b: "1 \<le> m" "m \<le> 12" "d \<le> days_in_month y m" "1 \<le> m'" "m' \<le> 12" "1 \<le> d'"
    using assms(1,2) by (auto simp: valid_ymd_def)
  show ?thesis
  proof (cases "m = 12")
    case False
    then have "y' = y" using b(1,2,4,5) assms(3) by linarith
    with False b assms(3) have 1: "m \<le> 11" "y' = y" "m' = m + 1" by auto
    then show ?thesis using b by (simp add: ymd2ord_def days_before_month_Suc)
  next
    case 2: True
    then have "y' = y + 1" using b(1,2,4,5) assms(3) by linarith
    with 2 assms(3) have "y' = y + 1" "m' = 1" by auto
    with 2 show ?thesis using b
      by (simp add: ymd2ord_def days_before_year_Suc days_before_month_def days_in_month_def)
  qed
qed

lemma next_month_instant:
  assumes "valid_dt v" "valid_dt w" "is_utc v" "is_utc w" "month_index w = month_index v + 1"
  shows "instant v < instant w"
proof -
  have "ymd2ord (year v) (month v) (day v) < ymd2ord (year w) (month w) (day w)"
    using assms by (intro next_month_ord) (auto simp: valid_dt_def month_index_def)
  then have "ymd2ord (year v) (month v) (day v) + 1 \<le> ymd2ord (year w) (month w) (day w)" by simp
  then show ?thesis
    using time_micros_bounds [OF assms(1)] time_micros_bounds [OF assms(2)] assms(3,4)
    by (simp add: instant_utc wall_micros_def)
qed

lemma add_month_increases:
  "valid_dt v \<Longrightarrow> is_utc v \<Longrightarrow> add_month v = Inr w \<Longrightarrow> valid_dt w \<and> is_utc w \<and> instant v < instant w"
  using add_month_utc [of v] add_month_eq_Inr [of v w] next_month_instant [of v w] by auto

text \<open>Where the period loop stops: in a period that contains the instant.\<close>

lemma period_loop_contains:
  assumes "period_loop c s e = Inr (s', e')" "valid_dt s" "is_utc s" "valid_dt e" "is_utc e"
    and "instant s \<le> instant c" "instant s < instant e"
  shows "instant s' \<le> instant c \<and> instant c < instant e' \<and> valid_dt s' \<and> is_utc s' \<and> valid_dt e' \<and> is_utc e'"
  using assms
proof (induction c s e rule: period_loop.induct)
  case (1 c s e)
  show ?case
  proof (cases "dt_le e c")
    case True
    with "1.prems"(1) obtain w where w: "add_month e = Inr w" "period_loop c e w = Inr (s', e')"
      by (auto simp: period_loop.simps [of c s e] split: sum.splits)
    with add_month_increases [of e w] "1.prems" show ?thesis
      using True by (intro "1.IH" [OF True w(1)]) (simp_all add: dt_le_def)
  next
    case False
    with "1.prems" show ?thesis by (auto simp: period_loop.simps [of c s e] dt_le_def)
  qed
qed

lemma instant_mono_year:
  assumes "valid_dt e" "is_utc e" "valid_dt c" "is_utc c" "instant e \<le> instant c"
  shows "year e \<le> year c"
proof (rule ccontr)
  assume "\<not> year e \<le> year c"
  then have le: "days_before_year (year c + 1) \<le> days_before_year (year e)" by (intro days_before_year_mono) simp
  have v: "valid_ymd (year e) (month e) (day e)" "valid_ymd (year c) (month c) (day c)"
    using assms by (auto simp: valid_dt_def)
  have "ymd2ord (year c) (month c) (day c) + 1 \<le> ymd2ord (year e) (month e) (day e)"
    using le day_of_year_bounds(1) [OF v(1)] day_of_year_bounds(2) [OF v(2)] days_before_year_Suc [of "year c"]
    by (simp add: ymd2ord_def)
  then show False
    using assms time_micros_bounds [OF assms(1)] time_micros_bounds [OF assms(3)] by (simp add: instant_utc wall_micros_def)
qed

lemma period_loop_returns:
  assumes "valid_dt c" "is_utc c" "year c \<le> 9998" "valid_dt e" "is_utc e"
  shows "\<exists>p. period_loop c s e = Inr p"
  using assms
proof (induction c s e rule: period_loop.induct)
  case (1 c s e)
  show ?case
  proof (cases "dt_le e c")
    case True
    then have "year e \<le> year c" using "1.prems" by (intro instant_mono_year) (auto simp: dt_le_def)
    then have "month_index e \<le> 9999 * 12 + 11"
      using "1.prems" by (auto simp: month_index_def valid_dt_def valid_ymd_def)
    then obtain w where w: "add_month e = Inr w" using add_month_utc "1.prems" by blast
    with add_month_increases [of e w] "1.prems" have "\<exists>p. period_loop c e w = Inr p"
      by (intro "1.IH" [OF True w]) simp_all
    with True w show ?thesis by (simp add: period_loop.simps [of c s e])
  next
    case False
    then show ?thesis by (simp add: period_loop.simps [of c s e])
  qed
qed

lemma calendar_period_contains:
  assumes "valid_dt c" "is_utc c" "year c \<le> 9998"
  shows "\<exists>s e. calendar_period c = Inr (s, e) \<and> instant s \<le> instant c \<and> instant c < instant e \<and>
    valid_dt s \<and> is_utc s \<and> valid_dt e \<and> is_utc e"
proof -
  let ?s = "c\<lparr>day := 1, hour := 0, minute := 0, second := 0, microsecond := 0\<rparr>"
  have s: "valid_dt ?s" "is_utc ?s" "month_index ?s = month_index c"
    using assms days_in_month_bounds [of "year c" "month c"] by (auto simp: valid_dt_def valid_ymd_def month_index_def)
  have "month_index ?s \<le> 9999 * 12 + 11" using assms by (auto simp: month_index_def valid_dt_def valid_ymd_def)
  then obtain e where e: "add_month ?s = Inr e" "valid_dt e" "is_utc e" "month_index e = month_index c + 1"
    using add_month_utc [OF s(1,2)] s(3) by auto
  have "calendar_period c = Inr (?s, e)" using assms(2) e(1) by (simp add: calendar_period_def)
  moreover have "1 \<le> day c" "0 \<le> time_micros c"
    using assms(1) time_micros_bounds [of c] by (auto simp: valid_dt_def valid_ymd_def)
  then have "instant ?s \<le> instant c"
    using assms(2) by (simp add: instant_utc wall_micros_def ymd2ord_def time_micros_def)
  moreover have "instant c < instant e" using assms e by (intro next_month_instant) auto
  ultimately show ?thesis using s e by blast
qed

declare find_organization_def [service_defs] find_subscription_def [service_defs] plan_of_subscription_def [service_defs]
  record_usage_def [service_defs] get_usage_summary_def [service_defs] now_or_def [service_defs]

section \<open>Lemmas on totals\<close>

definition in_window :: "uuid \<Rightarrow> string \<Rightarrow> datetime \<Rightarrow> datetime \<Rightarrow> usage_event \<Rightarrow> bool" where
  "in_window oid metric s e ev = (use_organization_id ev = oid \<and> use_metric ev = metric \<and>
     dt_le s (use_created_at ev) \<and> dt_lt (use_created_at ev) e)"

lemma usage_total_append:
  "usage_total (d\<lparr>usage_events := usage_events d @ [ev]\<rparr>) oid metric s e =
     usage_total d oid metric s e + (if in_window oid metric s e ev then use_quantity ev else 0)"
  by (auto simp: usage_total_def in_window_def)

lemma find_organizationD: "find_organization d oid = Some o' \<Longrightarrow> o' \<in> set (organizations d) \<and> org_id o' = oid"
  by (auto simp: find_organization_def dest: scalar_filter_SomeD)

lemma find_organization_None: "find_organization d oid = None \<longleftrightarrow> oid \<notin> org_ids d"
  by (auto simp: find_organization_def org_ids_def filter_empty_conv)

lemma find_subscriptionD:
  "find_subscription d oid = Some s \<Longrightarrow> s \<in> set (subscriptions d) \<and> sub_organization_id s = oid"
  by (auto simp: find_subscription_def dest: scalar_filter_SomeD)

lemma find_subscription_None:
  "find_subscription d oid = None \<longleftrightarrow> (\<forall>s \<in> set (subscriptions d). sub_organization_id s \<noteq> oid)"
  by (auto simp: find_subscription_def filter_empty_conv)

lemma add_usage_event_InrD:
  "add_usage_event ev d = Inr d' \<Longrightarrow> d' = d\<lparr>usage_events := usage_events d @ [ev]\<rparr> \<and> use_organization_id ev \<in> org_ids d"
  by (auto simp: add_usage_event_def split: if_splits)

text \<open>Inversion of a successful \<open>record_usage\<close>.\<close>

lemma record_usage_InrD:
  assumes "record_usage E oid metric q now d = Inr (ev, d')"
  shows "\<exists>s e. subscription_period E (find_subscription d oid) now = Inr (s, e) \<and> 1 \<le> q \<and>
    usage_total d oid metric s e + q \<le> plan_quota (plan_of_subscription (find_subscription d oid)) \<and>
    use_organization_id ev = oid \<and> use_metric ev = metric \<and> use_quantity ev = q \<and>
    as_utc (now_or E 1 now) = Inr (use_created_at ev) \<and> add_usage_event ev d = Inr d'"
  using assms by (auto simp: record_usage_def Let_def split: if_splits)

end
