(* ===== verification/Tenancy.thy ===== *)
theory Tenancy
  imports Models
begin

text \<open>
  The tenant boundary and the contracts of the service operations.
  \<open>tenant_view oid d\<close> is everything the database holds for the organization \<open>oid\<close>. The locales
  state what a service promises to its callers: it keeps the database well-formed, touches one
  tenant only, and never leaves an organization without an owner or a subscription. What follows for whole
  sequences of requests is proved once, inside the locales. The request session of
  \<^verbatim>\<open>app/database.py\<close> (commit on success, rollback on an exception) and the audit service of
  \<^verbatim>\<open>app/services/audit.py\<close> are here too, because every service uses them.
\<close>

section \<open>Sessions\<close>

text \<open>\<open>get_session\<close>: the handler's changes are committed unless it raises.\<close>

definition get_session :: "(db \<Rightarrow> exc + 'r \<times> db) \<Rightarrow> db \<Rightarrow> (exc + 'r) \<times> db" where
  "get_session handler d = (case handler d of Inl e \<Rightarrow> (Inl e, d) | Inr (r, d') \<Rightarrow> (Inr r, d'))"

text \<open>A sequence of requests, each in its own session.\<close>

fun serve :: "('a \<Rightarrow> db \<Rightarrow> exc + 'r \<times> db) \<Rightarrow> 'a list \<Rightarrow> db \<Rightarrow> db" where
  "serve op [] d = d"
| "serve op (a # as) d = serve op as (snd (get_session (op a) d))"

text \<open>The outcome of each request of such a sequence.\<close>

fun outcomes :: "('a \<Rightarrow> db \<Rightarrow> exc + 'r \<times> db) \<Rightarrow> 'a list \<Rightarrow> db \<Rightarrow> (exc + 'r) list" where
  "outcomes op [] d = []"
| "outcomes op (a # as) d = (case get_session (op a) d of (r, d') \<Rightarrow> r # outcomes op as d')"

section \<open>Tenant data\<close>

record tenant_data =
  tv_organization :: "organization list"
  tv_memberships :: "membership list"
  tv_invitations :: "invitation list"
  tv_api_keys :: "api_key list"
  tv_projects :: "project list"
  tv_subscriptions :: "subscription list"
  tv_usage_events :: "usage_event list"
  tv_audit_logs :: "audit_log list"

definition tenant_view :: "uuid \<Rightarrow> db \<Rightarrow> tenant_data" where
  "tenant_view oid d =
     \<lparr>tv_organization = filter (\<lambda>r. org_id r = oid) (organizations d),
      tv_memberships = filter (\<lambda>r. mem_organization_id r = oid) (memberships d),
      tv_invitations = filter (\<lambda>r. inv_organization_id r = oid) (invitations d),
      tv_api_keys = filter (\<lambda>r. key_organization_id r = oid) (api_keys d),
      tv_projects = filter (\<lambda>r. prj_organization_id r = oid) (projects d),
      tv_subscriptions = filter (\<lambda>r. sub_organization_id r = oid) (subscriptions d),
      tv_usage_events = filter (\<lambda>r. use_organization_id r = oid) (usage_events d),
      tv_audit_logs = filter (\<lambda>r. aud_organization_id r = oid) (audit_logs d)\<rparr>"

definition owned :: "db \<Rightarrow> uuid \<Rightarrow> bool" where
  "owned d oid = (\<exists>m \<in> set (memberships d). mem_organization_id m = oid \<and> mem_role m = OWNER)"

definition subscribed :: "db \<Rightarrow> uuid \<Rightarrow> bool" where
  "subscribed d oid = (\<exists>s \<in> set (subscriptions d). sub_organization_id s = oid)"

text \<open>Every organization has an owner and a subscription.\<close>

definition orgs_complete :: "db \<Rightarrow> bool" where
  "orgs_complete d = (\<forall>o' \<in> set (organizations d). owned d (org_id o') \<and> subscribed d (org_id o'))"

section \<open>Audit service\<close>

definition write_audit ::
  "runtime \<Rightarrow> uuid \<Rightarrow> uuid option \<Rightarrow> string \<Rightarrow> string \<Rightarrow> string \<Rightarrow> dict \<Rightarrow> string option \<Rightarrow> db \<Rightarrow> exc + audit_log \<times> db" where
  "write_audit E organization_id actor_user_id action resource_type resource_id metadata ip_address d =
     (let entry = \<lparr>aud_id = rt_uuid E 0, aud_organization_id = organization_id, aud_actor_user_id = actor_user_id,
         aud_action = action, aud_resource_type = resource_type, aud_resource_id = resource_id,
         aud_details = metadata, aud_ip_address = ip_address, aud_created_at = rt_db_now E\<rparr>
      in r_bind (add_audit_log entry d) (\<lambda>d'. Inr (entry, d')))"

text \<open>
  \<open>ORDER BY created_at DESC, id DESC LIMIT l OFFSET k\<close>.
\<close>

definition list_audit_logs :: "uuid \<Rightarrow> nat \<Rightarrow> nat \<Rightarrow> db \<Rightarrow> audit_log list" where
  "list_audit_logs organization_id limit offset d =
     take limit (drop offset (rev (sort_key (\<lambda>a. instant (aud_created_at a) * 2 ^ 128 + uint (aud_id a))
       (filter (\<lambda>a. aud_organization_id a = organization_id) (audit_logs d)))))"

section \<open>Contracts\<close>

locale db_service =
  fixes op :: "'a \<Rightarrow> db \<Rightarrow> exc + 'r \<times> db"
  assumes keeps_wf: "op a d = Inr (r, d') \<Longrightarrow> wf_db d \<Longrightarrow> wf_db d'"
begin

lemma session_wf: "wf_db d \<Longrightarrow> wf_db (snd (get_session (op a) d))"
  by (auto simp: get_session_def intro: keeps_wf split: sum.splits)

lemma serve_wf: "wf_db d \<Longrightarrow> wf_db (serve op as d)"
  by (induction as arbitrary: d) (simp_all add: session_wf)

end

locale tenant_service = db_service op
  for op :: "'a \<Rightarrow> db \<Rightarrow> exc + 'r \<times> db" +
  fixes tenant :: "'a \<Rightarrow> uuid"
  assumes confined: "op a d = Inr (r, d') \<Longrightarrow> wf_db d \<Longrightarrow> oid \<noteq> tenant a \<Longrightarrow> tenant_view oid d' = tenant_view oid d"
begin

lemma session_confined: "wf_db d \<Longrightarrow> oid \<noteq> tenant a \<Longrightarrow> tenant_view oid (snd (get_session (op a) d)) = tenant_view oid d"
  by (auto simp: get_session_def intro: confined split: sum.splits)

lemma serve_confined:
  "wf_db d \<Longrightarrow> oid \<notin> tenant ` set as \<Longrightarrow> tenant_view oid (serve op as d) = tenant_view oid d"
proof (induction as arbitrary: d)
  case (Cons a as)
  then show ?case using session_wf [of d a] session_confined [of d oid a] by auto
qed simp

end

locale complete_service = db_service op
  for op :: "'a \<Rightarrow> db \<Rightarrow> exc + 'r \<times> db" +
  assumes keeps_complete: "op a d = Inr (r, d') \<Longrightarrow> wf_db d \<Longrightarrow> orgs_complete d \<Longrightarrow> orgs_complete d'"
begin

lemma session_complete: "wf_db d \<Longrightarrow> orgs_complete d \<Longrightarrow> orgs_complete (snd (get_session (op a) d))"
  by (auto simp: get_session_def intro: keeps_complete split: sum.splits)

lemma serve_complete: "wf_db d \<Longrightarrow> orgs_complete d \<Longrightarrow> orgs_complete (serve op as d)"
  by (induction as arbitrary: d) (simp_all add: session_wf session_complete)

end

text \<open>
  A token that can be used once: a successful use spends it, a spent token is refused, and no use of
  any token makes a spent one usable again.
\<close>

locale one_time_token = db_service op
  for op :: "'a \<Rightarrow> db \<Rightarrow> exc + 'r \<times> db" +
  fixes token :: "'a \<Rightarrow> string" and spent :: "string \<Rightarrow> db \<Rightarrow> bool"
  assumes spends: "op a d = Inr (r, d') \<Longrightarrow> wf_db d \<Longrightarrow> spent (token a) d'"
    and refused: "spent (token a) d \<Longrightarrow> wf_db d \<Longrightarrow> \<exists>e. op a d = Inl e"
    and kept: "op a d = Inr (r, d') \<Longrightarrow> wf_db d \<Longrightarrow> spent t d \<Longrightarrow> spent t d'"
begin

lemma session_kept: "wf_db d \<Longrightarrow> spent t d \<Longrightarrow> spent t (snd (get_session (op a) d))"
  by (auto simp: get_session_def intro: kept split: sum.splits)

lemma never_again:
  "wf_db d \<Longrightarrow> spent t d \<Longrightarrow> filter (\<lambda>(a, r). token a = t \<and> \<not> isl r) (zip as (outcomes op as d)) = []"
proof (induction as arbitrary: d)
  case (Cons a as)
  then have "filter (\<lambda>(a, r). token a = t \<and> \<not> isl r) (zip as (outcomes op as (snd (get_session (op a) d)))) = []"
    using session_wf session_kept by simp
  moreover have "isl (fst (get_session (op a) d))" if "token a = t"
    using refused [of a d] Cons.prems that by (auto simp: get_session_def)
  ultimately show ?case by (auto split: prod.splits)
qed simp

lemma at_most_once:
  "wf_db d \<Longrightarrow> length (filter (\<lambda>(a, r). token a = t \<and> \<not> isl r) (zip as (outcomes op as d))) \<le> 1"
proof (induction as arbitrary: d)
  case (Cons a as)
  obtain r d' where g: "get_session (op a) d = (r, d')" by force
  have w: "wf_db d'" using session_wf [OF Cons.prems, of a] g by simp
  show ?case
  proof (cases "token a = t \<and> \<not> isl r")
    case True
    then obtain x where "op a d = Inr (x, d')" using g by (auto simp: get_session_def split: sum.splits)
    then have "spent t d'" using spends [of a d x d'] Cons.prems True by simp
    then show ?thesis using never_again [OF w, of t as] g True by simp
  next
    case False
    then show ?thesis using Cons.IH [OF w] g by auto
  qed
qed simp

end

declare write_audit_def [service_defs] get_session_def [service_defs]

section \<open>Lemmas on flushes\<close>

text \<open>What each flush does to the views of other tenants.\<close>

lemma tenant_view_frame [simp]:
  "tenant_view oid (d\<lparr>users := u\<rparr>) = tenant_view oid d"
  "tenant_view oid (d\<lparr>refresh_tokens := r\<rparr>) = tenant_view oid d"
  "tenant_view oid (d\<lparr>webhook_events := w\<rparr>) = tenant_view oid d"
  by (simp_all add: tenant_view_def)

lemma tenant_view_save_frame [simp]:
  "tenant_view oid (save_refresh_token r d) = tenant_view oid d"
  "tenant_view oid (save_webhook_event w d) = tenant_view oid d"
  by (simp_all add: save_defs)

lemma tenant_view_add:
  "add_user u d = Inr d' \<Longrightarrow> tenant_view oid d' = tenant_view oid d"
  "add_refresh_token t d = Inr d' \<Longrightarrow> tenant_view oid d' = tenant_view oid d"
  "add_webhook_event w d = Inr d' \<Longrightarrow> tenant_view oid d' = tenant_view oid d"
  "add_organization a1 d = Inr d' \<Longrightarrow> oid \<noteq> org_id a1 \<Longrightarrow> tenant_view oid d' = tenant_view oid d"
  "add_membership a2 d = Inr d' \<Longrightarrow> oid \<noteq> mem_organization_id a2 \<Longrightarrow> tenant_view oid d' = tenant_view oid d"
  "add_invitation a3 d = Inr d' \<Longrightarrow> oid \<noteq> inv_organization_id a3 \<Longrightarrow> tenant_view oid d' = tenant_view oid d"
  "add_api_key a4 d = Inr d' \<Longrightarrow> oid \<noteq> key_organization_id a4 \<Longrightarrow> tenant_view oid d' = tenant_view oid d"
  "add_project a5 d = Inr d' \<Longrightarrow> oid \<noteq> prj_organization_id a5 \<Longrightarrow> tenant_view oid d' = tenant_view oid d"
  "add_subscription a6 d = Inr d' \<Longrightarrow> oid \<noteq> sub_organization_id a6 \<Longrightarrow> tenant_view oid d' = tenant_view oid d"
  "add_usage_event a7 d = Inr d' \<Longrightarrow> oid \<noteq> use_organization_id a7 \<Longrightarrow> tenant_view oid d' = tenant_view oid d"
  "add_audit_log a8 d = Inr d' \<Longrightarrow> oid \<noteq> aud_organization_id a8 \<Longrightarrow> tenant_view oid d' = tenant_view oid d"
  by (auto simp: add_defs tenant_view_def split: if_splits option.splits)

lemma tenant_view_save:
  "wf_db d \<Longrightarrow> r1 \<in> set (memberships d) \<Longrightarrow> mem_id s1 = mem_id r1 \<Longrightarrow> mem_organization_id s1 = mem_organization_id r1 \<Longrightarrow>
     oid \<noteq> mem_organization_id r1 \<Longrightarrow> tenant_view oid (save_membership s1 d) = tenant_view oid d"
  "wf_db d \<Longrightarrow> r2 \<in> set (invitations d) \<Longrightarrow> inv_id s2 = inv_id r2 \<Longrightarrow> inv_organization_id s2 = inv_organization_id r2 \<Longrightarrow>
     oid \<noteq> inv_organization_id r2 \<Longrightarrow> tenant_view oid (save_invitation s2 d) = tenant_view oid d"
  "wf_db d \<Longrightarrow> r3 \<in> set (api_keys d) \<Longrightarrow> key_id s3 = key_id r3 \<Longrightarrow> key_organization_id s3 = key_organization_id r3 \<Longrightarrow>
     oid \<noteq> key_organization_id r3 \<Longrightarrow> tenant_view oid (save_api_key s3 d) = tenant_view oid d"
  "wf_db d \<Longrightarrow> r4 \<in> set (projects d) \<Longrightarrow> prj_id s4 = prj_id r4 \<Longrightarrow> prj_organization_id s4 = prj_organization_id r4 \<Longrightarrow>
     oid \<noteq> prj_organization_id r4 \<Longrightarrow> tenant_view oid (save_project s4 d) = tenant_view oid d"
  by (simp_all add: save_defs tenant_view_def filter_save_row_other wf_unique)

lemma tenant_view_save_subscription:
  assumes "save_subscription s d = Inr d'" "wf_db d" "r \<in> set (subscriptions d)" "sub_id s = sub_id r"
    "sub_organization_id s = sub_organization_id r" "oid \<noteq> sub_organization_id r"
  shows "tenant_view oid d' = tenant_view oid d"
  using assms filter_save_row_other [of sub_id "subscriptions d" r s "\<lambda>r. sub_organization_id r = oid"]
  by (auto simp: save_subscription_def tenant_view_def wf_unique split: if_splits)

lemma tenant_view_save_organization:
  assumes "save_organization s d = Inr d'" "wf_db d" "r \<in> set (organizations d)" "org_id s = org_id r" "oid \<noteq> org_id r"
  shows "tenant_view oid d' = tenant_view oid d"
  using assms filter_save_row_other [of org_id "organizations d" r s "\<lambda>r. org_id r = oid"]
  by (auto simp: save_organization_def tenant_view_def wf_unique split: if_splits)

lemma tenant_view_delete_organization_row: "oid \<noteq> i \<Longrightarrow> tenant_view oid (delete_organization_row i d) = tenant_view oid d"
  by (auto simp: delete_organization_row_def tenant_view_def intro!: filter_cong)

lemma filter_neq_id:
  "unique_on k rs \<Longrightarrow> r \<in> set rs \<Longrightarrow> \<not> Q r \<Longrightarrow> filter (\<lambda>x. k x \<noteq> k r \<and> Q x) rs = filter Q rs"
  by (auto intro!: filter_cong dest: unique_onD)

lemma tenant_view_delete:
  "wf_db d \<Longrightarrow> m \<in> set (memberships d) \<Longrightarrow> oid \<noteq> mem_organization_id m \<Longrightarrow>
     tenant_view oid (delete_membership_row (mem_id m) d) = tenant_view oid d"
  "wf_db d \<Longrightarrow> p \<in> set (projects d) \<Longrightarrow> oid \<noteq> prj_organization_id p \<Longrightarrow>
     tenant_view oid (delete_project_row (prj_id p) d) = tenant_view oid d"
  using filter_neq_id [of mem_id "memberships d" m "\<lambda>r. mem_organization_id r = oid"]
    filter_neq_id [of prj_id "projects d" p "\<lambda>r. prj_organization_id r = oid"]
  by (simp_all add: delete_defs tenant_view_def wf_unique)

lemma write_audit_InrD:
  assumes "write_audit E oid actor action rt rid meta ip d = Inr (entry, d')"
  shows "add_audit_log entry d = Inr d'" "d' = d\<lparr>audit_logs := audit_logs d @ [entry]\<rparr>"
    "aud_organization_id entry = oid" "aud_action entry = action" "aud_actor_user_id entry = actor"
    "aud_resource_id entry = rid" "aud_details entry = meta"
  using assms by (auto simp: write_audit_def add_audit_log_def Let_def split: if_splits)

lemma write_audit_wf: "write_audit E oid actor action rt rid meta ip d = Inr (entry, d') \<Longrightarrow> wf_db d \<Longrightarrow> wf_db d'"
  by (blast dest: write_audit_InrD wf_add_audit_log)

lemma write_audit_view:
  "write_audit E oid actor action rt rid meta ip d = Inr (entry, d') \<Longrightarrow> oid' \<noteq> oid \<Longrightarrow> tenant_view oid' d' = tenant_view oid' d"
  using write_audit_InrD tenant_view_add(11) by metis

section \<open>Lemmas on completeness\<close>

text \<open>Completeness reads the organizations, memberships and subscriptions only.\<close>

lemma orgs_complete_cong:
  "organizations d' = organizations d \<Longrightarrow> memberships d' = memberships d \<Longrightarrow> subscriptions d' = subscriptions d \<Longrightarrow>
     orgs_complete d' = orgs_complete d"
  by (simp add: orgs_complete_def owned_def subscribed_def)

lemma write_audit_complete:
  "write_audit E oid actor action rt rid meta ip d = Inr (entry, d') \<Longrightarrow> orgs_complete d' = orgs_complete d"
  by (drule write_audit_InrD(2)) (rule orgs_complete_cong; simp)

end
