(* ===== verification/Billing.thy ===== *)
theory Billing
  imports Usage Tenancy
begin

text \<open>
  The billing service, \<^verbatim>\<open>app/services/billing.py\<close>: the default subscription of a new organization,
  lookups, and the plan change of the development adapter. Besides the service contracts, the
  lemmas say which subscription row a plan change writes and when it is audited.
\<close>

definition create_default_subscription ::
  "runtime \<Rightarrow> uuid \<Rightarrow> datetime option \<Rightarrow> db \<Rightarrow> exc + subscription \<times> db" where
  "create_default_subscription E organization_id now d =
     r_bind (calendar_period (now_or E 0 now)) (\<lambda>(period_start, period_end).
     let subscription = \<lparr>sub_id = rt_uuid E 0, sub_organization_id = organization_id, sub_plan = FREE,
           sub_status = ACTIVE, sub_external_customer_id = None, sub_external_subscription_id = None,
           sub_current_period_start = period_start, sub_current_period_end = period_end,
           sub_created_at = rt_db_now E, sub_updated_at = rt_db_now E\<rparr>
     in r_bind (add_subscription subscription d) (\<lambda>d'. Inr (subscription, d')))"

definition get_subscription :: "uuid \<Rightarrow> db \<Rightarrow> exc + subscription" where
  "get_subscription organization_id d =
     require (find_subscription d organization_id) (NotFoundError ''subscription_not_found'' ''Subscription not found'')"

definition get_or_create_subscription ::
  "runtime \<Rightarrow> uuid \<Rightarrow> datetime option \<Rightarrow> db \<Rightarrow> exc + subscription \<times> db" where
  "get_or_create_subscription E organization_id now d =
     r_bind (require (find_organization d organization_id)
        (NotFoundError ''organization_not_found'' ''Organization not found'')) (\<lambda>_.
     case find_subscription d organization_id of
       Some subscription \<Rightarrow> Inr (subscription, d)
     | None \<Rightarrow> create_default_subscription E organization_id now d)"

text \<open>The \<open>onupdate\<close> timestamp of a row whose columns changed.\<close>

definition touch_subscription :: "runtime \<Rightarrow> subscription \<Rightarrow> subscription \<Rightarrow> subscription" where
  "touch_subscription E old new = (if new = old then new else new\<lparr>sub_updated_at := rt_db_now E\<rparr>)"

definition change_plan ::
  "runtime \<Rightarrow> uuid \<Rightarrow> plan \<Rightarrow> uuid \<Rightarrow> string option \<Rightarrow> datetime option \<Rightarrow> db \<Rightarrow> exc + subscription \<times> db" where
  "change_plan E organization_id plan actor_user_id ip_address now d =
     r_bind (get_or_create_subscription E organization_id now d) (\<lambda>(subscription, d1).
     let previous_plan = sub_plan subscription in
     r_bind (subscription_period (later_clock 1 E) (Some subscription) now) (\<lambda>(period_start, period_end).
     let changed = touch_subscription E subscription (subscription\<lparr>sub_plan := plan, sub_status := ACTIVE,
           sub_current_period_start := period_start, sub_current_period_end := period_end\<rparr>) in
     r_bind (save_subscription changed d1) (\<lambda>d2.
     if previous_plan \<noteq> plan then
       r_bind (write_audit (later_uuid 1 E) organization_id (Some actor_user_id) ''subscription.changed'' ''subscription''
          (uuid_str (sub_id subscription))
          [(''from_plan'', JStr (plan_value previous_plan)), (''to_plan'', JStr (plan_value plan))] ip_address d2)
         (\<lambda>(_, d3). Inr (changed, d3))
     else Inr (changed, d2))))"

declare create_default_subscription_def [service_defs] get_subscription_def [service_defs]
  get_or_create_subscription_def [service_defs] touch_subscription_def [service_defs] change_plan_def [service_defs]

section \<open>Lemmas\<close>

lemma touch_subscription_simps [simp]:
  "sub_id (touch_subscription E a b) = sub_id b"
  "sub_organization_id (touch_subscription E a b) = sub_organization_id b"
  "sub_plan (touch_subscription E a b) = sub_plan b" "sub_status (touch_subscription E a b) = sub_status b"
  "sub_current_period_start (touch_subscription E a b) = sub_current_period_start b"
  "sub_current_period_end (touch_subscription E a b) = sub_current_period_end b"
  "sub_external_customer_id (touch_subscription E a b) = sub_external_customer_id b"
  "sub_external_subscription_id (touch_subscription E a b) = sub_external_subscription_id b"
  by (simp_all add: touch_subscription_def)

lemma add_subscription_InrD:
  "add_subscription s d = Inr d' \<Longrightarrow> d' = d\<lparr>subscriptions := subscriptions d @ [s]\<rparr> \<and> sub_organization_id s \<in> org_ids d"
  by (auto simp: add_subscription_def split: if_splits)

lemma save_subscription_InrD:
  "save_subscription s d = Inr d' \<Longrightarrow> d' = d\<lparr>subscriptions := save_row sub_id s (subscriptions d)\<rparr>"
  by (auto simp: save_subscription_def split: if_splits)

lemma create_default_subscription_InrD:
  assumes "create_default_subscription E oid now d = Inr (s, d')"
  shows "add_subscription s d = Inr d'" "sub_organization_id s = oid" "sub_plan s = FREE" "sub_status s = ACTIVE"
    "calendar_period (now_or E 0 now) = Inr (sub_current_period_start s, sub_current_period_end s)"
  using assms by (auto simp: create_default_subscription_def Let_def)

lemma get_or_create_subscription_InrD:
  assumes "get_or_create_subscription E oid now d = Inr (s, d')"
  shows "(d' = d \<and> find_subscription d oid = Some s) \<or>
    (find_subscription d oid = None \<and> create_default_subscription E oid now d = Inr (s, d'))"
  using assms by (auto simp: get_or_create_subscription_def split: option.splits)

lemma get_or_create_subscription_stored:
  assumes "get_or_create_subscription E oid now d = Inr (s, d')"
  shows "s \<in> set (subscriptions d') \<and> sub_organization_id s = oid"
  using get_or_create_subscription_InrD [OF assms] find_subscriptionD [of d oid s]
    create_default_subscription_InrD [of E oid now d s d'] add_subscription_InrD [of s d d'] by auto

lemma get_or_create_subscription_wf:
  "get_or_create_subscription E oid now d = Inr (s, d') \<Longrightarrow> wf_db d \<Longrightarrow> wf_db d'"
  using get_or_create_subscription_InrD create_default_subscription_InrD(1) wf_add_subscription by metis

lemma get_or_create_subscription_view:
  "get_or_create_subscription E oid now d = Inr (s, d') \<Longrightarrow> oid' \<noteq> oid \<Longrightarrow> tenant_view oid' d' = tenant_view oid' d"
  using get_or_create_subscription_InrD create_default_subscription_InrD(1,2) tenant_view_add(9) by metis

text \<open>Subscriptions may be added or replaced by one of the same organization: completeness is kept.\<close>

lemma subscribed_append: "subscribed (d\<lparr>subscriptions := subscriptions d @ [s]\<rparr>) oid \<longleftrightarrow>
    subscribed d oid \<or> sub_organization_id s = oid"
  by (auto simp: subscribed_def)

lemma orgs_complete_add_subscription:
  "add_subscription s d = Inr d' \<Longrightarrow> orgs_complete d \<Longrightarrow> orgs_complete d'"
  by (auto dest!: add_subscription_InrD simp: orgs_complete_def subscribed_append) (auto simp: owned_def)

lemma subscribed_iff: "subscribed d oid \<longleftrightarrow> oid \<in> set (map sub_organization_id (subscriptions d))"
  by (auto simp: subscribed_def)

lemma orgs_complete_save_subscription:
  assumes "save_subscription s d = Inr d'" "orgs_complete d" "r \<in> set (subscriptions d)" "sub_id s = sub_id r"
    "sub_organization_id s = sub_organization_id r" "wf_db d"
  shows "orgs_complete d'"
proof -
  note d' = save_subscription_InrD [OF assms(1)]
  have m: "map sub_organization_id (save_row sub_id s (subscriptions d)) = map sub_organization_id (subscriptions d)"
    by (rule map_save_row_other [OF wf_unique(14) [OF assms(6)] assms(3,4,5)])
  have "subscribed d' oid = subscribed d oid" for oid
    unfolding subscribed_iff d' by (simp add: m del: set_map)
  then show ?thesis
    using assms(2) by (simp add: orgs_complete_def owned_def d')
qed

text \<open>The intermediate states of a successful plan change.\<close>

lemma change_plan_InrD:
  assumes "change_plan E oid p actor ip now d = Inr (s, d')"
  obtains s0 d1 d2 ps pe where "get_or_create_subscription E oid now d = Inr (s0, d1)"
    and "subscription_period (later_clock 1 E) (Some s0) now = Inr (ps, pe)"
    and "sub_id s = sub_id s0" "sub_organization_id s = sub_organization_id s0" "sub_plan s = p" "sub_status s = ACTIVE"
    and "sub_current_period_start s = ps" "sub_current_period_end s = pe"
    and "save_subscription s d1 = Inr d2"
    and "if sub_plan s0 = p then d' = d2 else \<exists>e. write_audit (later_uuid 1 E) oid (Some actor) ''subscription.changed''
           ''subscription'' (uuid_str (sub_id s0)) [(''from_plan'', JStr (plan_value (sub_plan s0))), (''to_plan'', JStr (plan_value p))] ip d2 = Inr (e, d')"
  using assms by (auto simp: change_plan_def Let_def split: if_splits)

lemma change_plan_states:
  assumes "change_plan E oid p actor ip now d = Inr (s, d')" "wf_db d"
  obtains s0 d1 d2 where "get_or_create_subscription E oid now d = Inr (s0, d1)" "wf_db d1"
    "s0 \<in> set (subscriptions d1)" "sub_organization_id s0 = oid" "sub_id s = sub_id s0" "sub_organization_id s = sub_organization_id s0"
    "save_subscription s d1 = Inr d2"
    "d' = d2 \<or> (\<exists>E' act rt rid m e. write_audit E' oid (Some actor) act rt rid m ip d2 = Inr (e, d'))"
proof (rule change_plan_InrD [OF assms(1)])
  fix s0 d1 d2 ps pe
  assume g: "get_or_create_subscription E oid now d = Inr (s0, d1)"
    and i: "sub_id s = sub_id s0" "sub_organization_id s = sub_organization_id s0" and sv: "save_subscription s d1 = Inr d2"
    and a: "if sub_plan s0 = p then d' = d2 else \<exists>e. write_audit (later_uuid 1 E) oid (Some actor) ''subscription.changed''
           ''subscription'' (uuid_str (sub_id s0)) [(''from_plan'', JStr (plan_value (sub_plan s0))), (''to_plan'', JStr (plan_value p))] ip d2 = Inr (e, d')"
  have a': "d' = d2 \<or> (\<exists>E' act rt rid m e. write_audit E' oid (Some actor) act rt rid m ip d2 = Inr (e, d'))"
    using a by (cases "sub_plan s0 = p") (simp, simp, blast)
  show thesis
    using that [OF g get_or_create_subscription_wf [OF g assms(2)] _ _ i sv a'] get_or_create_subscription_stored [OF g] by simp
qed

lemma change_plan_wf: "change_plan E oid p actor ip now d = Inr (s, d') \<Longrightarrow> wf_db d \<Longrightarrow> wf_db d'"
  by (erule change_plan_states, assumption) (metis wf_save_subscription write_audit_wf)

lemma change_plan_view:
  "change_plan E oid p actor ip now d = Inr (s, d') \<Longrightarrow> wf_db d \<Longrightarrow> oid' \<noteq> oid \<Longrightarrow> tenant_view oid' d' = tenant_view oid' d"
  by (erule change_plan_states, assumption)
    (metis tenant_view_save_subscription write_audit_view get_or_create_subscription_view)

lemma get_or_create_subscription_complete:
  "get_or_create_subscription E oid now d = Inr (s, d') \<Longrightarrow> orgs_complete d \<Longrightarrow> orgs_complete d'"
  using get_or_create_subscription_InrD create_default_subscription_InrD(1) orgs_complete_add_subscription by metis

lemma change_plan_complete:
  "change_plan E oid p actor ip now d = Inr (s, d') \<Longrightarrow> wf_db d \<Longrightarrow> orgs_complete d \<Longrightarrow> orgs_complete d'"
  by (erule change_plan_states, assumption)
    (metis orgs_complete_save_subscription write_audit_complete get_or_create_subscription_complete)

section \<open>The contracts hold\<close>

interpretation change_plan_tenant: tenant_service
  "\<lambda>(E, oid, p, actor, ip, now). change_plan E oid p actor ip now" "\<lambda>(E, oid, p, actor, ip, now). oid"
  by unfold_locales (auto intro: change_plan_wf change_plan_view)

interpretation change_plan_complete: complete_service "\<lambda>(E, oid, p, actor, ip, now). change_plan E oid p actor ip now"
  by unfold_locales (auto intro: change_plan_complete)

interpretation get_or_create_tenant: tenant_service
  "\<lambda>(E, oid, now). get_or_create_subscription E oid now" "\<lambda>(E, oid, now). oid"
  by unfold_locales (auto intro: get_or_create_subscription_wf get_or_create_subscription_view)

interpretation get_or_create_complete: complete_service "\<lambda>(E, oid, now). get_or_create_subscription E oid now"
  by unfold_locales (auto intro: get_or_create_subscription_complete)

interpretation record_usage_tenant: tenant_service
  "\<lambda>(E, oid, q, m, now). record_usage E oid q m now" "\<lambda>(E, oid, q, m, now). oid"
  by unfold_locales (auto intro: wf_add_usage_event tenant_view_add(10) dest!: record_usage_InrD)

end
