(* ===== verification/Schemas.thy ===== *)
theory Schemas
  imports Core
begin

text \<open>
  The request schemas under \<^verbatim>\<open>app/schemas\<close>: for every request body its fields, the constraints the
  pydantic model declares on them (checked first, on the value as sent) and its validators (run
  after, on the constrained value). A validation failure is \<open>ValidationError\<close>. In an update
  request a field is unset (\<open>None\<close>), null (\<open>Some None\<close>) or a value. The lemmas show that emails and
  slugs leave validation in canonical form, so that the uniqueness checks of the services compare
  canonical values.
\<close>

section \<open>Field constraints\<close>

definition length_between :: "nat \<Rightarrow> nat \<Rightarrow> string \<Rightarrow> exc + string" where
  "length_between lo hi v =
     (if length v < lo then Inl (ValidationError ''string_too_short'')
      else if length v > hi then Inl (ValidationError ''string_too_long'') else Inr v)"

text \<open>The pattern \<^verbatim>\<open>^[a-z0-9]+(?:-[a-z0-9]+)*$\<close>; the flag says whether the text may end here.\<close>

definition slug_char :: "char \<Rightarrow> bool" where
  "slug_char c = (97 \<le> cp c \<and> cp c \<le> 122 \<or> 48 \<le> cp c \<and> cp c \<le> 57)"

fun slug_match :: "bool \<Rightarrow> string \<Rightarrow> bool" where
  "slug_match ok [] = ok"
| "slug_match ok (c # cs) =
     (if slug_char c then slug_match True cs else if c = CHR ''-'' then ok \<and> slug_match False cs else False)"

definition slug_field :: "string \<Rightarrow> exc + string" where
  "slug_field v = r_bind (length_between 2 80 v) (\<lambda>v.
     if slug_match False v then Inr v else Inl (ValidationError ''string_pattern_mismatch''))"

definition normalize_email :: "string \<Rightarrow> exc + string" where
  "normalize_email value =
     (let email = py_lower (py_strip value);
          (local, separator, domain) = py_rpartition (CHR ''@'') email
      in if \<not> separator \<or> local = [] \<or> domain = [] \<or> CHR ''.'' \<notin> set domain \<or> startswith email ''.'' \<or> length email > 320
         then Inl (ValidationError ''Enter a valid email address'') else Inr email)"

section \<open>Requests\<close>

record register_request =
  reg_email :: string
  reg_password :: string

definition RegisterRequest :: "string \<Rightarrow> string \<Rightarrow> exc + register_request" where
  "RegisterRequest email password =
     r_bind (normalize_email email) (\<lambda>e. r_bind (length_between 8 128 password) (\<lambda>p.
       Inr \<lparr>reg_email = e, reg_password = p\<rparr>))"

definition LoginRequest :: "string \<Rightarrow> string \<Rightarrow> exc + register_request" where
  "LoginRequest email password =
     r_bind (normalize_email email) (\<lambda>e. r_bind (length_between 1 128 password) (\<lambda>p.
       Inr \<lparr>reg_email = e, reg_password = p\<rparr>))"

definition RefreshRequest :: "string \<Rightarrow> exc + string" where
  "RefreshRequest token = length_between 32 512 token"

record organization_create =
  oc_name :: string
  oc_slug :: string

definition OrganizationCreate :: "string \<Rightarrow> string \<Rightarrow> exc + organization_create" where
  "OrganizationCreate name slug =
     r_bind (length_between 1 120 name) (\<lambda>n. r_bind (slug_field slug) (\<lambda>s.
       Inr \<lparr>oc_name = py_strip n, oc_slug = py_strip s\<rparr>))"

text \<open>The validated update: \<open>None\<close> is a field that was not sent.\<close>

record organization_update =
  ou_name :: "string option"
  ou_slug :: "string option"

definition update_field :: "('a \<Rightarrow> exc + 'b) \<Rightarrow> 'a option option \<Rightarrow> exc + 'b option" where
  "update_field check v = (case v of None \<Rightarrow> Inr None
     | Some None \<Rightarrow> Inl (ValidationError ''Field cannot be null'')
     | Some (Some x) \<Rightarrow> r_bind (check x) (\<lambda>y. Inr (Some y)))"

definition OrganizationUpdate :: "string option option \<Rightarrow> string option option \<Rightarrow> exc + organization_update" where
  "OrganizationUpdate name slug =
     r_bind (update_field (\<lambda>v. r_bind (length_between 1 120 v) (\<lambda>v. Inr (py_strip v))) name) (\<lambda>n.
     r_bind (update_field (\<lambda>v. r_bind (slug_field v) (\<lambda>v. Inr (py_strip v))) slug) (\<lambda>s.
     if n = None \<and> s = None then Inl (ValidationError ''At least one field must be provided'')
     else Inr \<lparr>ou_name = n, ou_slug = s\<rparr>))"

record project_create =
  pc_name :: string
  pc_description :: "string option"

definition opt_field :: "('a \<Rightarrow> exc + 'b) \<Rightarrow> 'a option \<Rightarrow> exc + 'b option" where
  "opt_field check v = (case v of None \<Rightarrow> Inr None | Some x \<Rightarrow> r_bind (check x) (\<lambda>y. Inr (Some y)))"

definition ProjectCreate :: "string \<Rightarrow> string option \<Rightarrow> exc + project_create" where
  "ProjectCreate name description =
     r_bind (length_between 1 120 name) (\<lambda>n. r_bind (opt_field (length_between 0 10000) description) (\<lambda>de.
       Inr \<lparr>pc_name = py_strip n, pc_description = de\<rparr>))"

text \<open>The description may be set to null: \<open>Some None\<close>.\<close>

record project_update =
  pu_name :: "string option"
  pu_description :: "string option option"
  pu_status :: "project_status option"

definition ProjectUpdate ::
  "string option option \<Rightarrow> string option option \<Rightarrow> project_status option option \<Rightarrow> exc + project_update" where
  "ProjectUpdate name description status =
     r_bind (update_field (length_between 1 120) name) (\<lambda>n.
     r_bind (opt_field (opt_field (length_between 0 10000)) description) (\<lambda>de.
     r_bind (update_field Inr status) (\<lambda>st.
     if n = None \<and> de = None \<and> st = None then Inl (ValidationError ''At least one field must be provided'')
     else Inr \<lparr>pu_name = n, pu_description = de, pu_status = st\<rparr>)))"

record invitation_create =
  ic_email :: string
  ic_role :: role

definition InvitationCreate :: "string \<Rightarrow> role option \<Rightarrow> exc + invitation_create" where
  "InvitationCreate email role =
     r_bind (normalize_email email) (\<lambda>e.
       Inr \<lparr>ic_email = e, ic_role = (case role of None \<Rightarrow> MEMBER | Some r \<Rightarrow> r)\<rparr>)"

definition ApiKeyCreate :: "string \<Rightarrow> exc + string" where
  "ApiKeyCreate name = r_bind (length_between 1 100 name) (\<lambda>n. Inr (py_strip n))"

definition UsageEventCreate :: "int \<Rightarrow> exc + int" where
  "UsageEventCreate quantity =
     (if quantity < 1 then Inl (ValidationError ''greater_than_equal'')
      else if 1000 < quantity then Inl (ValidationError ''less_than_equal'') else Inr quantity)"

record billing_webhook =
  bw_id :: string
  bw_type :: string
  bw_data :: dict

text \<open>\<open>BillingWebhook.model_validate\<close> on a decoded JSON value; extra fields are forbidden.\<close>

definition str_field :: "nat \<Rightarrow> nat \<Rightarrow> dict \<Rightarrow> string \<Rightarrow> exc + string" where
  "str_field lo hi d k = (case dict_get d k of
       None \<Rightarrow> Inl (ValidationError ''missing'')
     | Some (JStr s) \<Rightarrow> length_between lo hi s
     | Some _ \<Rightarrow> Inl (ValidationError ''string_type''))"

definition BillingWebhook :: "json \<Rightarrow> exc + billing_webhook" where
  "BillingWebhook j = (case j of
       JDict d \<Rightarrow>
         r_bind (str_field 1 160 d ''id'') (\<lambda>i.
         r_bind (str_field 1 80 d ''type'') (\<lambda>t.
         r_bind (case dict_get d ''data'' of None \<Rightarrow> Inl (ValidationError ''missing'')
                 | Some (JDict x) \<Rightarrow> Inr x | Some _ \<Rightarrow> Inl (ValidationError ''dict_type'')) (\<lambda>x.
         if fst ` set d \<subseteq> {''id'', ''type'', ''data''} then Inr \<lparr>bw_id = i, bw_type = t, bw_data = x\<rparr>
         else Inl (ValidationError ''extra_forbidden''))))
     | _ \<Rightarrow> Inl (ValidationError ''model_type''))"

section \<open>Lemmas\<close>

lemma length_between_Inr [simp]: "length_between lo hi v = Inr w \<longleftrightarrow> w = v \<and> lo \<le> length v \<and> length v \<le> hi"
  by (auto simp: length_between_def)

lemma slug_match_chars: "slug_match ok s \<Longrightarrow> c \<in> set s \<Longrightarrow> slug_char c \<or> c = CHR ''-''"
  by (induction ok s rule: slug_match.induct) (auto split: if_splits)

lemma lower_slug_char: "slug_char c \<or> c = CHR ''-'' \<Longrightarrow> lower_char c = c \<and> \<not> is_space c"
  by (auto simp: slug_char_def lower_char_def is_space_def cp_def)

lemma slug_canonical:
  assumes "slug_match ok s"
  shows "py_strip s = s" "py_lower s = s"
  using slug_match_chars [OF assms] lower_slug_char
  by (auto intro!: py_strip_no_space map_idI simp: py_lower_def)

lemma slug_field_Inr [simp]:
  "slug_field v = Inr w \<longleftrightarrow> w = v \<and> 2 \<le> length v \<and> length v \<le> 80 \<and> slug_match False v"
  by (auto simp: slug_field_def)

lemma normalize_email_InrD:
  assumes "normalize_email v = Inr e"
  shows "e = py_lower (py_strip v) \<and> length e \<le> 320"
  using assms by (auto simp: normalize_email_def Let_def split: if_splits prod.splits)

text \<open>A normalized email is a fixed point of normalization, lower casing and stripping.\<close>

lemma normalize_email_canonical:
  assumes "normalize_email v = Inr e"
  shows "py_lower e = e" "py_strip e = e" "normalize_email e = Inr e"
proof -
  have e: "e = py_lower (py_strip v)" using normalize_email_InrD [OF assms] by simp
  show *: "py_lower e = e" "py_strip e = e" by (simp_all add: e py_strip_lower)
  show "normalize_email e = Inr e"
    using assms * by (simp add: normalize_email_def e [symmetric])
qed

lemma py_rpartition_SomeD:
  assumes "py_rpartition sep s = (l, True, t)"
  shows "s = l @ sep # t \<and> sep \<notin> set t"
proof -
  have "sep \<in> set s" using assms by (auto simp: py_rpartition_def Let_def split: if_splits)
  then obtain ys zs where s: "s = ys @ sep # zs" "sep \<notin> set zs" by (metis split_list_last)
  then have "takeWhile (\<lambda>c. c \<noteq> sep) (rev s) = rev zs" by (simp add: takeWhile_append)
  with s assms show ?thesis by (simp add: py_rpartition_def)
qed

lemma normalize_email_parts:
  assumes "normalize_email v = Inr e"
  shows "\<exists>l dom. e = l @ CHR ''@'' # dom \<and> l \<noteq> [] \<and> CHR ''@'' \<notin> set dom \<and> CHR ''.'' \<in> set dom"
proof -
  have e: "py_lower (py_strip v) = e" using normalize_email_InrD [OF assms] by simp
  obtain l s dom where p: "py_rpartition (CHR ''@'') e = (l, s, dom)" by (metis prod_cases3)
  then have ok: "s" "l \<noteq> []" "CHR ''.'' \<in> set dom"
    using assms e by (auto simp: normalize_email_def split: if_splits)
  with p have "py_rpartition (CHR ''@'') e = (l, True, dom)" by simp
  from py_rpartition_SomeD [OF this] ok show ?thesis by blast
qed

section \<open>Properties\<close>

text \<open>
  An email address that passes validation is in canonical form: validating, lower-casing or
  stripping it again changes nothing, and it has a local part and a domain with a dot. The slug of a
  new organization likewise consists of lower-case letters, digits and inner dashes, unchanged by
  the normalization the service applies.
\<close>

lemma canonical_identifiers:
  assumes "normalize_email v = Inr e" "OrganizationCreate name slug = Inr data"
  shows "normalize_email e = Inr e \<and> py_lower e = e \<and> py_strip e = e \<and> length e \<le> 320 \<and>
    (\<exists>l dom. e = l @ CHR ''@'' # dom \<and> l \<noteq> [] \<and> CHR ''@'' \<notin> set dom \<and> CHR ''.'' \<in> set dom) \<and>
    oc_slug data = slug \<and> py_lower slug = slug \<and> (\<forall>c \<in> set slug. slug_char c \<or> c = CHR ''-'') \<and> 2 \<le> length slug \<and> length slug \<le> 80"
proof -
  have s: "slug_match False slug" "oc_slug data = py_strip slug" "2 \<le> length slug" "length slug \<le> 80"
    using assms(2) by (auto simp: OrganizationCreate_def)
  show ?thesis
    using normalize_email_canonical [OF assms(1)] conjunct2 [OF normalize_email_InrD [OF assms(1)]] normalize_email_parts [OF assms(1)]
      slug_canonical [OF s(1)] slug_match_chars [OF s(1)] s(2-4) by simp
qed

end
