(* ===== verification/Py_Json_Text.thy ===== *)
theory Py_Json_Text
  imports Py_Json
begin

text \<open>
  The JSON text of a value: \<open>json.dumps(v, separators=(",", ":"))\<close> with its ASCII escapes, and
  \<open>json.loads\<close>. The parser has fuel; the length of the text is enough (\<open>loads_dumps\<close>), because every
  call consumes a character. \<open>loads\<close> is \<open>None\<close> where Python raises \<open>JSONDecodeError\<close>; escapes of
  characters beyond Latin-1 and the constants \<open>NaN\<close> and \<open>Infinity\<close> are outside the model.
\<close>

section \<open>Printing\<close>

definition esc_char :: "char \<Rightarrow> string" where
  "esc_char c =
     (if c = CHR 0x22 then [CHR 0x5C, CHR 0x22] else if c = CHR 0x5C then [CHR 0x5C, CHR 0x5C]
      else if cp c = 10 then [CHR 0x5C, CHR ''n''] else if cp c = 13 then [CHR 0x5C, CHR ''r'']
      else if cp c = 9 then [CHR 0x5C, CHR ''t''] else if cp c = 12 then [CHR 0x5C, CHR ''f'']
      else if cp c = 8 then [CHR 0x5C, CHR ''b'']
      else if 32 \<le> cp c \<and> cp c \<le> 126 then [c]
      else [CHR 0x5C, CHR ''u''] @ hex_digits 4 (cp c))"

definition dumps_str :: "string \<Rightarrow> string" where
  "dumps_str s = CHR 0x22 # concat (map esc_char s) @ [CHR 0x22]"

fun dumps :: "ext \<Rightarrow> json \<Rightarrow> string"
  and dumps_list :: "ext \<Rightarrow> json list \<Rightarrow> string"
  and dumps_pairs :: "ext \<Rightarrow> (string \<times> json) list \<Rightarrow> string"
where
  "dumps X JNull = ''null''"
| "dumps X (JBool b) = (if b then ''true'' else ''false'')"
| "dumps X (JInt i) = int_str i"
| "dumps X (JFloat r) = py_repr X (JFloat r)"
| "dumps X (JStr s) = dumps_str s"
| "dumps X (JList xs) = CHR ''['' # dumps_list X xs @ '']''"
| "dumps X (JDict kvs) = CHR ''{'' # dumps_pairs X kvs @ ''}''"
| "dumps_list X [] = []"
| "dumps_list X (x # xs) = dumps X x @ (if xs = [] then [] else CHR '','' # dumps_list X xs)"
| "dumps_pairs X [] = []"
| "dumps_pairs X (p # ps) = dumps_str (fst p) @ CHR '':'' # dumps X (snd p) @ (if ps = [] then [] else CHR '','' # dumps_pairs X ps)"

section \<open>Parsing\<close>

definition json_ws :: "char \<Rightarrow> bool" where
  "json_ws c = (cp c \<in> {9, 10, 13, 32})"

definition skip_ws :: "string \<Rightarrow> string" where
  "skip_ws s = dropWhile json_ws s"

definition esc_value :: "char \<Rightarrow> char option" where
  "esc_value e = map_of [(CHR 0x22, CHR 0x22), (CHR 0x5C, CHR 0x5C), (CHR ''/'', CHR ''/''), (CHR ''b'', CHR 8), (CHR ''f'', CHR 12),
     (CHR ''n'', CHR 10), (CHR ''r'', CHR 13), (CHR ''t'', CHR 9)] e"

text \<open>The value of four hexadecimal digits.\<close>

definition hex4 :: "string \<Rightarrow> nat option" where
  "hex4 s = (if length s = 4 \<and> CHR ''_'' \<notin> set s then digits_value 16 0 s else None)"

text \<open>The rest of a string literal after its opening quote.\<close>

fun scan_str :: "string \<Rightarrow> (string \<times> string) option" where
  "scan_str [] = None"
| "scan_str (c # cs) =
     (if c = CHR 0x22 then Some ([], cs)
      else if c = CHR 0x5C then
        (case cs of [] \<Rightarrow> None
         | e # r \<Rightarrow>
             if e = CHR ''u'' then
               (case hex4 (take 4 r) of None \<Rightarrow> None
                | Some n \<Rightarrow> if n < 256 then map_option (apfst ((#) (char_of n))) (scan_str (drop 4 r)) else None)
             else (case esc_value e of None \<Rightarrow> None | Some x \<Rightarrow> map_option (apfst ((#) x)) (scan_str r)))
      else if cp c < 32 then None
      else map_option (apfst ((#) c)) (scan_str cs))"

definition is_digit :: "char \<Rightarrow> bool" where
  "is_digit c = (48 \<le> cp c \<and> cp c \<le> 57)"

text \<open>The number token \<^verbatim>\<open>-?(0|[1-9]\d*)(\.\d+)?([eE][-+]?\d+)?\<close> at the start of a text: integer part, fraction, exponent.\<close>

definition int_token :: "string \<Rightarrow> string \<times> string" where
  "int_token s =
     (let (sg, r) = (case s of c # r \<Rightarrow> if c = CHR ''-'' then (''-'', r) else ([], s) | [] \<Rightarrow> ([], []))
      in (case r of [] \<Rightarrow> (sg, r)
          | c # r' \<Rightarrow> if c = CHR ''0'' then (sg @ [c], r') else (sg @ takeWhile is_digit r, dropWhile is_digit r)))"

definition frac_token :: "string \<Rightarrow> string \<times> string" where
  "frac_token s = (case s of c # d # r \<Rightarrow> if c = CHR ''.'' \<and> is_digit d
       then (c # takeWhile is_digit (d # r), dropWhile is_digit (d # r)) else ([], s) | _ \<Rightarrow> ([], s))"

definition exp_token :: "string \<Rightarrow> string \<times> string" where
  "exp_token s = (case s of c # r \<Rightarrow>
       if c = CHR ''e'' \<or> c = CHR ''E'' then
         (let (sg, r') = (case r of x # y \<Rightarrow> if x = CHR ''+'' \<or> x = CHR ''-'' then ([x], y) else ([], r) | [] \<Rightarrow> ([], r))
          in if takeWhile is_digit r' = [] then ([], s) else (c # sg @ takeWhile is_digit r', dropWhile is_digit r'))
       else ([], s) | [] \<Rightarrow> ([], s))"

definition scan_num :: "ext \<Rightarrow> string \<Rightarrow> (json \<times> string) option" where
  "scan_num X s =
     (let (i, r) = int_token s; (f, r1) = frac_token r; (e, r2) = exp_token r1
      in if i = [] \<or> i = ''-'' then None
         else if f = [] \<and> e = [] then map_option (\<lambda>n. (JInt n, r2)) (py_int i)
         else Some (JFloat (py_float X (i @ f @ e)), r2))"

text \<open>Building a dict from its pairs: a later value replaces an earlier one in place.\<close>

definition set_key :: "string \<Rightarrow> json \<Rightarrow> dict \<Rightarrow> dict" where
  "set_key k v d = (if k \<in> fst ` set d then map (\<lambda>(k', v'). (k', if k' = k then v else v')) d else d @ [(k, v)])"

definition mk_dict :: "(string \<times> json) list \<Rightarrow> dict" where
  "mk_dict kvs = foldl (\<lambda>d (k, v). set_key k v d) [] kvs"

definition lit :: "string \<Rightarrow> json \<Rightarrow> string \<Rightarrow> (json \<times> string) option" where
  "lit w j s = (if startswith s w then Some (j, drop (length w) s) else None)"

fun pvalue :: "ext \<Rightarrow> nat \<Rightarrow> string \<Rightarrow> (json \<times> string) option"
  and pelems :: "ext \<Rightarrow> nat \<Rightarrow> string \<Rightarrow> (json list \<times> string) option"
  and pmembers :: "ext \<Rightarrow> nat \<Rightarrow> string \<Rightarrow> ((string \<times> json) list \<times> string) option"
where
  "pvalue X 0 s = None"
| "pvalue X (Suc n) s0 = (let s = skip_ws s0 in
     (case s of [] \<Rightarrow> None
      | c # cs \<Rightarrow>
          if c = CHR 0x22 then map_option (apfst JStr) (scan_str cs)
          else if c = CHR ''{'' then
            (if skip_ws cs \<noteq> [] \<and> hd (skip_ws cs) = CHR ''}'' then Some (JDict [], tl (skip_ws cs))
             else map_option (apfst (JDict \<circ> mk_dict)) (pmembers X n cs))
          else if c = CHR ''['' then
            (if skip_ws cs \<noteq> [] \<and> hd (skip_ws cs) = CHR '']'' then Some (JList [], tl (skip_ws cs))
             else map_option (apfst JList) (pelems X n cs))
          else if c = CHR ''n'' then lit ''null'' JNull s
          else if c = CHR ''t'' then lit ''true'' (JBool True) s
          else if c = CHR ''f'' then lit ''false'' (JBool False) s
          else scan_num X s))"
| "pelems X 0 s = None"
| "pelems X (Suc n) s = (case pvalue X n s of None \<Rightarrow> None
     | Some (x, r) \<Rightarrow> (case skip_ws r of [] \<Rightarrow> None
         | c # r' \<Rightarrow> if c = CHR '','' then map_option (apfst ((#) x)) (pelems X n r')
                   else if c = CHR '']'' then Some ([x], r') else None))"
| "pmembers X 0 s = None"
| "pmembers X (Suc n) s = (case skip_ws s of [] \<Rightarrow> None
     | q # r \<Rightarrow> if q \<noteq> CHR 0x22 then None else
         (case scan_str r of None \<Rightarrow> None
          | Some (k, r1) \<Rightarrow> (case skip_ws r1 of [] \<Rightarrow> None
              | c # r2 \<Rightarrow> if c \<noteq> CHR '':'' then None else
                  (case pvalue X n r2 of None \<Rightarrow> None
                   | Some (v, r3) \<Rightarrow> (case skip_ws r3 of [] \<Rightarrow> None
                       | c' # r4 \<Rightarrow> if c' = CHR '','' then map_option (apfst ((#) (k, v))) (pmembers X n r4)
                                  else if c' = CHR ''}'' then Some ([(k, v)], r4) else None)))))"

definition loads :: "ext \<Rightarrow> string \<Rightarrow> json option" where
  "loads X s = (case pvalue X (Suc (length s)) s of None \<Rightarrow> None
     | Some (j, r) \<Rightarrow> if skip_ws r = [] then Some j else None)"

section \<open>Values that survive the round trip\<close>

text \<open>No floats, integers within Python's text limit, no duplicate keys.\<close>

fun json_clean :: "json \<Rightarrow> bool"
  and clean_list :: "json list \<Rightarrow> bool"
  and clean_pairs :: "(string \<times> json) list \<Rightarrow> bool"
where
  "json_clean (JFloat r) = False"
| "json_clean (JInt i) = (\<bar>i\<bar> < 10 ^ int_max_str_digits)"
| "json_clean (JList xs) = clean_list xs"
| "json_clean (JDict kvs) = (distinct (map fst kvs) \<and> clean_pairs kvs)"
| "json_clean _ = True"
| "clean_list [] = True"
| "clean_list (x # xs) = (json_clean x \<and> clean_list xs)"
| "clean_pairs [] = True"
| "clean_pairs (p # ps) = (json_clean (snd p) \<and> clean_pairs ps)"

section \<open>Lemmas on strings and numbers\<close>

lemma hex4_hex_digits: "n < 256 \<Longrightarrow> hex4 (take 4 (hex_digits 4 n @ t)) = Some n"
  using digit_str_absent [OF digit_str_hex_digits, of "CHR ''_''" 4 n] digit_char_neq(1)
  by (simp add: hex4_def digits_value_hex_digits)

lemma scan_str_esc_char: "scan_str (esc_char c @ t) = map_option (apfst ((#) c)) (scan_str t)"
proof (cases "c = CHR 0x22 \<or> c = CHR 0x5C \<or> cp c \<in> {8, 9, 10, 12, 13}")
  case True
  have v: "cp (CHR 8) = 8" "cp (CHR 9) = 9" "cp (CHR 10) = 10" "cp (CHR 12) = 12" "cp (CHR 13) = 13"
    by (simp_all add: cp_def)
  have "c = CHR 0x22 \<or> c = CHR 0x5C \<or> c = CHR 8 \<or> c = CHR 9 \<or> c = CHR 10 \<or> c = CHR 12 \<or> c = CHR 13"
    using True v cp_eq_iff by (metis empty_iff insert_iff)
  then show ?thesis by (elim disjE) (simp_all add: esc_char_def esc_value_def v)
next
  case False
  then show ?thesis using hex4_hex_digits [of "cp c" t] by (simp add: esc_char_def)
qed

lemma scan_str_dumps: "scan_str (concat (map esc_char s) @ CHR 0x22 # r) = Some (s, r)"
  by (induction s) (simp_all add: scan_str_esc_char)

lemma is_digit_digit_char: "n < 10 \<Longrightarrow> is_digit (digit_char n)"
  by (simp add: is_digit_def cp_digit_char)

lemma nat_str_digits: "\<forall>c \<in> set (nat_str n). is_digit c"
  using digit_str_nat_str [of n] by (auto simp: digit_str_def is_digit_digit_char)

lemma hd_nat_str: "0 < n \<Longrightarrow> hd (nat_str n) \<noteq> CHR ''0''"
proof (induction n rule: nat_str.induct)
  case (1 n)
  have "digit_char m \<noteq> CHR ''0''" if "0 < m" "m < 10" for m
    using that by (simp add: cp_digit_char flip: cp_eq_iff) (simp add: cp_def)
  with 1 show ?case by (subst nat_str.simps) auto
qed

text \<open>A text that may follow a number inside a document.\<close>

definition tok_end :: "string \<Rightarrow> bool" where
  "tok_end r = (r = [] \<or> hd r \<in> {CHR '','', CHR '']'', CHR ''}''})"

lemma tok_end_simps [simp]:
  "tok_end []" "tok_end (CHR '','' # r)" "tok_end (CHR '']'' # r)" "tok_end (CHR ''}'' # r)"
  by (simp_all add: tok_end_def)

lemma tok_end_tokens:
  assumes "tok_end r"
  shows "takeWhile is_digit r = []" "dropWhile is_digit r = r" "frac_token r = ([], r)" "exp_token r = ([], r)"
  using assms
  by (cases r; auto simp: tok_end_def frac_token_def exp_token_def is_digit_def cp_def split: list.splits)+

lemma int_token_nat_str:
  assumes "tok_end r"
  shows "(case nat_str n @ r of [] \<Rightarrow> (sg, []) | c # r' \<Rightarrow> if c = CHR ''0'' then (sg @ [c], r')
     else (sg @ takeWhile is_digit (nat_str n @ r), dropWhile is_digit (nat_str n @ r))) = (sg @ nat_str n, r)"
proof (cases "n = 0")
  case True
  have "digit_char 0 = CHR ''0''"
    by (simp add: cp_digit_char flip: cp_eq_iff) (simp add: cp_def)
  with True show ?thesis by (simp add: nat_str.simps [of 0])
next
  case False
  then obtain c cs where c: "nat_str n = c # cs" "c \<noteq> CHR ''0''"
    using hd_nat_str [of n] nat_str_nonempty [of n] by (cases "nat_str n") auto
  have "takeWhile is_digit (nat_str n @ r) = nat_str n" "dropWhile is_digit (nat_str n @ r) = r"
    using nat_str_digits [of n] tok_end_tokens(1,2) [OF assms] by simp_all
  with c show ?thesis by simp
qed

lemma nat_str_no_sign: "hd (nat_str n) \<noteq> CHR ''-''"
proof -
  have "is_digit (hd (nat_str n))" using nat_str_digits [of n] by simp
  then show ?thesis by (auto simp: is_digit_def cp_def)
qed

lemma int_token_int_str: "tok_end r \<Longrightarrow> int_token (int_str i @ r) = (int_str i, r)"
  using int_token_nat_str [where n = "nat i" and sg = "[]" and r = r]
    int_token_nat_str [where n = "nat (- i)" and sg = "''-''" and r = r]
    nat_str_no_sign [of "nat i"] nat_str_nonempty [of "nat i"]
  by (cases "nat_str (nat i)") (auto simp: int_token_def int_str_def split: list.splits)

lemma py_int_neg_nat_str:
  assumes "n < 10 ^ k" "0 < k" "k \<le> int_max_str_digits"
  shows "py_int (CHR ''-'' # nat_str n) = Some (- int n)"
proof -
  have ds: "digit_str 10 (nat_str n)" by (rule digit_str_nat_str)
  have "length (filter (\<lambda>c. c \<noteq> CHR ''_'') (nat_str n)) \<le> length (nat_str n)" by (rule length_filter_le)
  moreover have "length (nat_str n) \<le> k" using length_nat_str_le [of n "k - 1"] assms by simp
  ultimately have "length (filter (\<lambda>c. c \<noteq> CHR ''_'') (nat_str n)) \<le> int_max_str_digits"
    using assms(3) by linarith
  moreover have "py_strip (CHR ''-'' # nat_str n) = CHR ''-'' # nat_str n"
    using digit_str_no_space [OF ds] by (intro py_strip_no_space) (auto simp: is_space_def cp_def)
  ultimately show ?thesis
    by (simp add: py_int_def split_sign_def signed_def digits_start_digit_str [OF ds] digits_value_nat_str)
qed

lemma py_int_abs_int_str:
  assumes "\<bar>i\<bar> < 10 ^ k" "0 < k" "k \<le> int_max_str_digits"
  shows "py_int (int_str i) = Some i"
proof (cases "0 \<le> i")
  case True
  then show ?thesis using py_int_int_str [of i k] assms by simp
next
  case False
  then show ?thesis using py_int_neg_nat_str [of "nat (- i)" k] assms by (simp add: int_str_def nat_less_iff)
qed

lemma int_str_token: "int_str i \<noteq> []" "int_str i \<noteq> ''-''"
  using nat_str_nonempty nat_str_no_sign [of "nat i"] by (auto simp: int_str_def)

lemma scan_num_int_str:
  assumes "\<bar>i\<bar> < 10 ^ int_max_str_digits" "tok_end r"
  shows "scan_num X (int_str i @ r) = Some (JInt i, r)"
proof -
  have "0 < int_max_str_digits" by (simp add: int_max_str_digits_def)
  then have "py_int (int_str i) = Some i" using py_int_abs_int_str [OF assms(1)] by simp
  then show ?thesis using assms(2) int_str_token [of i] by (simp add: scan_num_def int_token_int_str tok_end_tokens)
qed

section \<open>Parsing a printed value\<close>

lemma dict_snoc: "k \<notin> fst ` set d \<Longrightarrow> set_key k v d = d @ [(k, v)]"
  by (simp add: set_key_def)

lemma mk_dict_distinct: "distinct (map fst kvs) \<Longrightarrow> mk_dict kvs = kvs"
proof -
  have "foldl (\<lambda>d (k, v). set_key k v d) acc kvs = acc @ kvs" if "distinct (map fst (acc @ kvs))" for acc
    using that
  proof (induction kvs arbitrary: acc)
    case (Cons p kvs)
    obtain k v where p: "p = (k, v)" by force
    show ?case using Cons.IH [of "acc @ [(k, v)]"] Cons.prems by (simp add: p dict_snoc)
  qed simp
  from this [of "[]"] show "distinct (map fst kvs) \<Longrightarrow> mk_dict kvs = kvs" by (simp add: mk_dict_def)
qed

definition num_start :: "char \<Rightarrow> bool" where
  "num_start c = (is_digit c \<or> c = CHR ''-'')"

lemma int_str_start: "\<exists>c cs. int_str i = c # cs \<and> num_start c"
  using nat_str_digits [of "nat i"] nat_str_nonempty [of "nat i"]
  by (cases "nat_str (nat i)") (auto simp: int_str_def num_start_def)

lemma num_start_other:
  "num_start c \<Longrightarrow> \<not> json_ws c \<and> c \<noteq> CHR 0x22 \<and> c \<notin> {CHR ''{'', CHR ''['', CHR ''n'', CHR ''t'', CHR ''f'', CHR '']'', CHR ''}''}"
  by (auto simp: num_start_def is_digit_def json_ws_def cp_def)

text \<open>The first character of a printed value.\<close>

lemma dumps_start:
  assumes "json_clean j"
  obtains c cs where "dumps X j = c # cs" "\<not> json_ws c" "c \<noteq> CHR '']''" "c \<noteq> CHR ''}''"
proof (cases j)
  case (JInt i)
  obtain c cs where "int_str i = c # cs" "num_start c" using int_str_start by blast
  then show thesis using that [of c cs] num_start_other [of c] JInt by simp
next
  case (JBool b)
  then show thesis using that by (cases b) (auto simp: json_ws_def cp_def)
qed (use assms in \<open>auto intro!: that simp: json_ws_def cp_def dumps_str_def\<close>)

lemma skip_ws_keep [simp]: "\<not> json_ws c \<Longrightarrow> skip_ws (c # cs) = c # cs"
  by (simp add: skip_ws_def)

lemma json_ws_punct [simp]:
  "\<not> json_ws (CHR '','')" "\<not> json_ws (CHR '':'')" "\<not> json_ws (CHR '']'')" "\<not> json_ws (CHR ''}'')"
  "\<not> json_ws (CHR 0x22)" "\<not> json_ws (CHR ''{'')" "\<not> json_ws (CHR ''['')" "\<not> json_ws (CHR ''n'')"
  "\<not> json_ws (CHR ''t'')" "\<not> json_ws (CHR ''f'')"
  by (simp_all add: json_ws_def cp_def)

lemma pvalue_int:
  assumes "json_clean (JInt i)" "tok_end r"
  shows "pvalue X (Suc n) (int_str i @ r) = Some (JInt i, r)"
proof -
  obtain c cs where c: "int_str i = c # cs" "num_start c" using int_str_start by blast
  then show ?thesis
    using num_start_other [OF c(2)] scan_num_int_str [of i r X] assms by (simp add: Let_def)
qed

lemma pvalue_str: "pvalue X (Suc n) (dumps_str s @ r) = Some (JStr s, r)"
  by (simp add: dumps_str_def scan_str_dumps)

lemma pvalue_list:
  assumes "clean_list xs" "xs \<noteq> [] \<Longrightarrow> pelems X n (dumps_list X xs @ CHR '']'' # r) = Some (xs, r)"
  shows "pvalue X (Suc n) (dumps X (JList xs) @ r) = Some (JList xs, r)"
proof (cases xs)
  case (Cons x ys)
  then have "json_clean x" using assms(1) by simp
  then obtain c cs where c: "dumps X x = c # cs" "\<not> json_ws c" "c \<noteq> CHR '']''"
    by (rule dumps_start)
  have h: "\<exists>t. dumps_list X xs @ CHR '']'' # r = c # t" using Cons c by simp
  from assms(2) Cons have "pelems X n (dumps_list X xs @ CHR '']'' # r) = Some (xs, r)" by simp
  with h c show ?thesis by (auto simp: Let_def)
qed (simp add: Let_def)

lemma pvalue_dict:
  assumes "distinct (map fst ps)" "ps \<noteq> [] \<Longrightarrow> pmembers X n (dumps_pairs X ps @ CHR ''}'' # r) = Some (ps, r)"
  shows "pvalue X (Suc n) (dumps X (JDict ps) @ r) = Some (JDict ps, r)"
proof (cases ps)
  case (Cons q qs)
  then have h: "\<exists>t. dumps_pairs X ps @ CHR ''}'' # r = CHR 0x22 # t" by (simp add: dumps_str_def)
  from assms(2) Cons have "pmembers X n (dumps_pairs X ps @ CHR ''}'' # r) = Some (ps, r)" by simp
  with h mk_dict_distinct [OF assms(1)] show ?thesis by (auto simp: Let_def)
qed (simp add: Let_def)

lemma pelems_Cons:
  assumes "pvalue X n (dumps X x @ t) = Some (x, t)"
    "t = (if xs = [] then CHR '']'' # r else CHR '','' # dumps_list X xs @ CHR '']'' # r)"
    "xs \<noteq> [] \<Longrightarrow> pelems X n (dumps_list X xs @ CHR '']'' # r) = Some (xs, r)"
  shows "pelems X (Suc n) (dumps_list X (x # xs) @ CHR '']'' # r) = Some (x # xs, r)"
  using assms by (cases "xs = []") simp_all

lemma pmembers_Cons:
  assumes "pvalue X n (dumps X (snd p) @ t) = Some (snd p, t)"
    "t = (if ps = [] then CHR ''}'' # r else CHR '','' # dumps_pairs X ps @ CHR ''}'' # r)"
    "ps \<noteq> [] \<Longrightarrow> pmembers X n (dumps_pairs X ps @ CHR ''}'' # r) = Some (ps, r)"
  shows "pmembers X (Suc n) (dumps_pairs X (p # ps) @ CHR ''}'' # r) = Some (p # ps, r)"
  using assms scan_str_dumps by (cases "ps = []") (simp_all add: dumps_str_def)

lemma dumps_nonempty: "json_clean j \<Longrightarrow> 0 < length (dumps X j)"
  by (metis dumps_start length_greater_0_conv list.distinct(1))

lemma parse_dumps:
  "json_clean j \<Longrightarrow> length (dumps X j) \<le> n \<Longrightarrow> tok_end r \<Longrightarrow> pvalue X n (dumps X j @ r) = Some (j, r)"
  "clean_list xs \<Longrightarrow> xs \<noteq> [] \<Longrightarrow> length (dumps_list X xs) < n \<Longrightarrow>
     pelems X n (dumps_list X xs @ CHR '']'' # r) = Some (xs, r)"
  "clean_pairs ps \<Longrightarrow> ps \<noteq> [] \<Longrightarrow> length (dumps_pairs X ps) < n \<Longrightarrow>
     pmembers X n (dumps_pairs X ps @ CHR ''}'' # r) = Some (ps, r)"
proof (induction X j and X xs and X ps arbitrary: n r and n r and n r rule: dumps_dumps_list_dumps_pairs.induct)
  case (1 X)
  then show ?case by (cases n) (simp_all add: Let_def lit_def startswith_def)
next
  case (2 X b)
  then show ?case by (cases n; cases b) (simp_all add: Let_def lit_def startswith_def)
next
  case (3 X i)
  then show ?case using int_str_token [of i] by (cases n) (simp_all del: pvalue.simps(2) json_clean.simps add: pvalue_int)
next
  case (5 X s)
  then show ?case by (cases n) (simp_all del: pvalue.simps(2) add: pvalue_str dumps_str_def [of s, symmetric], simp add: dumps_str_def)
next
  case (6 X xs)
  then obtain m where n: "n = Suc m" by (cases n) simp_all
  show ?case unfolding n using 6 n by (intro pvalue_list) simp_all
next
  case (7 X ps)
  then obtain m where n: "n = Suc m" by (cases n) simp_all
  show ?case unfolding n using 7 n by (intro pvalue_dict) simp_all
next
  case (9 X x xs)
  then obtain m where n: "n = Suc m" by (cases n) simp_all
  show ?case unfolding n
    using 9 n dumps_nonempty [of x X] by (intro pelems_Cons [OF _ refl]) (simp_all split: if_splits)
next
  case (11 X p ps)
  then obtain m where n: "n = Suc m" by (cases n) simp_all
  show ?case unfolding n
    using 11 n dumps_nonempty [of "snd p" X] by (intro pmembers_Cons [OF _ refl]) (simp_all split: if_splits)
qed simp_all

theorem loads_dumps: "json_clean j \<Longrightarrow> loads X (dumps X j) = Some j"
  using parse_dumps(1) [of j X "Suc (length (dumps X j))" "[]"] by (simp add: loads_def skip_ws_def)

end
