(* ===== verification/Security.thy ===== *)
theory Security
  imports Core Py_Json_Text
begin

text \<open>
  \<^verbatim>\<open>app/security\<close>: access tokens (\<^verbatim>\<open>jwt.py\<close>), opaque tokens and API keys (\<^verbatim>\<open>opaque_tokens.py\<close>) and
  password hashes (\<^verbatim>\<open>passwords.py\<close>). PyJWT, hashlib and pwdlib are the parameter \<open>ext\<close>; what PyJWT
  documents about a token it has issued is the predicate \<open>jwt_library\<close>. The lemmas give the exact
  lifetime of an access token.
\<close>

section \<open>Opaque tokens and passwords\<close>

definition hash_token :: "ext \<Rightarrow> string \<Rightarrow> string" where
  "hash_token X token = sha256_hex X token"

definition generate_opaque_token :: "runtime \<Rightarrow> string" where
  "generate_opaque_token E = rt_token E 0"

definition generate_api_key :: "runtime \<Rightarrow> string \<times> string" where
  "generate_api_key E = (let key = ''tf_live_'' @ rt_token E 0 in (key, take 16 key))"

text \<open>\<open>ValueError\<close> and its subclasses.\<close>

fun value_error :: "exc \<Rightarrow> bool" where
  "value_error (ValueError _) = True"
| "value_error (JSONDecodeError _) = True"
| "value_error (ValidationError _) = True"
| "value_error (InvalidAccessToken _) = True"
| "value_error _ = False"

fun type_error :: "exc \<Rightarrow> bool" where
  "type_error (TypeError _) = True"
| "type_error _ = False"

text \<open>The salt of a new password hash is drawn from the token source.\<close>

definition hash_password :: "ext \<Rightarrow> runtime \<Rightarrow> string \<Rightarrow> string" where
  "hash_password X E password = pw_hash X (rt_token E 0) password"

definition verify_password :: "ext \<Rightarrow> string \<Rightarrow> string \<Rightarrow> exc + bool" where
  "verify_password X password password_hash =
     (case pw_verify X password password_hash of
        Inl e \<Rightarrow> if type_error e \<or> value_error e then Inr False else Inl e
      | Inr b \<Rightarrow> Inr b)"

section \<open>Access tokens\<close>

text \<open>The claim a \<open>datetime\<close> becomes: whole seconds since the epoch.\<close>

definition numeric_date :: "datetime \<Rightarrow> int" where
  "numeric_date t = (instant t - epoch_micros) div 1000000"

definition create_access_token :: "ext \<Rightarrow> settings \<Rightarrow> runtime \<Rightarrow> uuid \<Rightarrow> exc + string \<times> int" where
  "create_access_token X S E user_id =
     (let lifetime = access_token_expire_minutes S * 60;
          now = rt_clock E 0 in
      r_bind (add_micros now (lifetime * 1000000)) (\<lambda>expires.
      let payload = [(''sub'', JStr (uuid_str user_id)), (''type'', JStr ''access''), (''jti'', JStr (uuid_str (rt_uuid E 0))),
            (''iat'', JInt (numeric_date now)), (''exp'', JInt (numeric_date expires))]
      in Inr (jwt_encode X payload (jwt_secret S), lifetime)))"

text \<open>\<open>uuid.UUID(v)\<close> of a decoded claim: \<open>None\<close> is a \<open>TypeError\<close>, a value without \<open>replace\<close> an \<open>AttributeError\<close>.\<close>

definition uuid_of_json :: "json \<Rightarrow> exc + uuid" where
  "uuid_of_json j = (case j of
       JStr s \<Rightarrow> require (parse_uuid s) (ValueError ''badly formed hexadecimal UUID string'')
     | JNull \<Rightarrow> Inl (TypeError ''one of the hex, bytes, ... arguments must be given'')
     | _ \<Rightarrow> Inl (AttributeError ''replace''))"

fun untrusted :: "exc \<Rightarrow> bool" where
  "untrusted (PyJWTError _) = True"
| "untrusted (KeyError _) = True"
| "untrusted e = (type_error e \<or> value_error e)"

definition decode_access_token :: "ext \<Rightarrow> settings \<Rightarrow> runtime \<Rightarrow> string \<Rightarrow> exc + uuid" where
  "decode_access_token X S E token =
     (case r_bind (jwt_decode X token (jwt_secret S) (rt_clock E 0)) (\<lambda>payload.
        r_bind (require (dict_get payload ''type'') (KeyError ''type'')) (\<lambda>ty.
        r_bind (raise_if (ty \<noteq> JStr ''access'') (InvalidAccessToken ''Unexpected token type'')) (\<lambda>_.
        r_bind (require (dict_get payload ''sub'') (KeyError ''sub'')) uuid_of_json))) of
        Inl e \<Rightarrow> if untrusted e then Inl (InvalidAccessToken ''Invalid or expired access token'') else Inl e
      | Inr u \<Rightarrow> Inr u)"

section \<open>What PyJWT documents\<close>

definition required_claims :: "string list" where
  "required_claims = [''sub'', ''type'', ''jti'', ''iat'', ''exp'']"

text \<open>
  A token issued for JSON claims and presented with its secret decodes to the claims between
  \<open>iat\<close> and \<open>exp\<close>, and is refused from \<open>exp\<close> on.
\<close>

definition jwt_library :: "ext \<Rightarrow> bool" where
  "jwt_library X = (\<forall>c k t iat e. json_clean (JDict c) \<and> (\<forall>r \<in> set required_claims. dict_get c r \<noteq> None) \<and>
       dict_get c ''iat'' = Some (JInt iat) \<and> dict_get c ''exp'' = Some (JInt e) \<longrightarrow>
       (iat * 1000000 \<le> instant t - epoch_micros \<and> instant t - epoch_micros < e * 1000000 \<longrightarrow>
          jwt_decode X (jwt_encode X c k) k t = Inr c) \<and>
       (e * 1000000 \<le> instant t - epoch_micros \<longrightarrow>
          (\<exists>m. jwt_decode X (jwt_encode X c k) k t = Inl (PyJWTError m))))"

section \<open>Lemmas\<close>

lemma uuid_of_json_Inr: "uuid_of_json j = Inr u \<longleftrightarrow> (\<exists>s. j = JStr s \<and> parse_uuid s = Some u)"
  by (cases j) (simp_all add: uuid_of_json_def)

lemma uuid_of_json_JStr [simp]:
  "uuid_of_json (JStr s) = require (parse_uuid s) (ValueError ''badly formed hexadecimal UUID string'')"
  by (simp add: uuid_of_json_def)

lemma decode_access_token_Inr:
  "decode_access_token X S E token = Inr u \<longleftrightarrow>
     (\<exists>payload s. jwt_decode X token (jwt_secret S) (rt_clock E 0) = Inr payload \<and>
        dict_get payload ''type'' = Some (JStr ''access'') \<and> dict_get payload ''sub'' = Some (JStr s) \<and> parse_uuid s = Some u)"
  by (auto simp: decode_access_token_def uuid_of_json_Inr split: sum.splits if_splits)

lemma numeric_date_bound:
  assumes "valid_dt t" "is_utc t"
  shows "\<bar>numeric_date t\<bar> < 10 ^ int_max_str_digits"
proof -
  have "epoch_micros \<le> 10 ^ 18" "0 \<le> epoch_micros" by (simp_all add: epoch_micros_def ymd2ord_def days_before_year_def days_before_month_def is_leap_def)
  then have "\<bar>numeric_date t\<bar> < 10 ^ 18"
    using wall_micros_bounds [OF assms(1)] by (simp add: numeric_date_def instant_utc [OF assms(2)])
  also have "(10::int) ^ 18 \<le> 10 ^ int_max_str_digits"
    by (rule power_increasing) (simp_all add: int_max_str_digits_def)
  finally show ?thesis .
qed

lemma numeric_date_add:
  "add_micros t (n * 1000000) = Inr t' \<Longrightarrow> numeric_date t' = numeric_date t + n"
  by (drule add_micros_instant) (simp add: numeric_date_def algebra_simps)

text \<open>The claims of an access token and when it is accepted.\<close>

lemma access_token_decodes:
  assumes "jwt_library X" "create_access_token X S E uid = Inr (token, ttl)" "valid_dt (rt_clock E 0)" "is_utc (rt_clock E 0)"
  shows "ttl = access_token_expire_minutes S * 60"
    and "numeric_date (rt_clock E 0) \<le> numeric_date (rt_clock E' 0) \<Longrightarrow>
      numeric_date (rt_clock E' 0) < numeric_date (rt_clock E 0) + ttl \<Longrightarrow> decode_access_token X S E' token = Inr uid"
    and "numeric_date (rt_clock E 0) + ttl \<le> numeric_date (rt_clock E' 0) \<Longrightarrow>
      decode_access_token X S E' token = Inl (InvalidAccessToken ''Invalid or expired access token'')"
proof -
  let ?n = "rt_clock E 0" and ?t = "rt_clock E' 0"
  obtain x where x: "add_micros ?n (ttl * 1000000) = Inr x" and ttl: "ttl = access_token_expire_minutes S * 60"
    using assms(2) by (auto simp: create_access_token_def Let_def)
  define c where "c = [(''sub'', JStr (uuid_str uid)), (''type'', JStr ''access''), (''jti'', JStr (uuid_str (rt_uuid E 0))),
            (''iat'', JInt (numeric_date ?n)), (''exp'', JInt (numeric_date x))]"
  have tok: "token = jwt_encode X c (jwt_secret S)"
    using assms(2) x ttl by (simp add: create_access_token_def Let_def c_def)
  have xv: "valid_dt x" "is_utc x" using add_micros_instant [OF x] assms(4) by simp_all
  have "json_clean (JDict c)"
    using numeric_date_bound [OF assms(3,4)] numeric_date_bound [OF xv] by (simp add: c_def)
  moreover have "\<forall>r \<in> set required_claims. dict_get c r \<noteq> None"
    "dict_get c ''iat'' = Some (JInt (numeric_date ?n))" "dict_get c ''exp'' = Some (JInt (numeric_date ?n + ttl))"
    using numeric_date_add [OF x] by (simp_all add: c_def dict_get_def required_claims_def)
  ultimately have lib:
    "numeric_date ?n * 1000000 \<le> instant ?t - epoch_micros \<and> instant ?t - epoch_micros < (numeric_date ?n + ttl) * 1000000 \<Longrightarrow>
       jwt_decode X token (jwt_secret S) ?t = Inr c"
    "(numeric_date ?n + ttl) * 1000000 \<le> instant ?t - epoch_micros \<Longrightarrow>
       \<exists>m. jwt_decode X token (jwt_secret S) ?t = Inl (PyJWTError m)"
    using assms(1) unfolding jwt_library_def tok by blast+
  have q: "k \<le> numeric_date ?t \<longleftrightarrow> k * 1000000 \<le> instant ?t - epoch_micros" for k
    unfolding numeric_date_def by linarith
  show "ttl = access_token_expire_minutes S * 60" by (rule ttl)
  show "decode_access_token X S E' token = Inr uid" if "numeric_date ?n \<le> numeric_date ?t" "numeric_date ?t < numeric_date ?n + ttl"
    using lib(1) that q [of "numeric_date ?n"] q [of "numeric_date ?n + ttl"]
    by (simp add: decode_access_token_Inr c_def dict_get_def)
  show "decode_access_token X S E' token = Inl (InvalidAccessToken ''Invalid or expired access token'')"
    if "numeric_date ?n + ttl \<le> numeric_date ?t"
    using lib(2) that q [of "numeric_date ?n + ttl"] by (auto simp: decode_access_token_def)
qed

declare hash_token_def [service_defs] generate_opaque_token_def [service_defs] generate_api_key_def [service_defs]
  hash_password_def [service_defs] verify_password_def [service_defs]

end
