(* ===== verification/Samples.thy ===== *)
theory Samples
  imports Tenancy Security
begin

text \<open>
  A concrete installation on which the general theorems are instantiated: two organizations, five
  users with every role, one row of every other kind, and an environment whose clock stands at
  15 May 2024, 12:00 UTC.
\<close>

definition sample_now :: datetime where
  "sample_now = \<lparr>year = 2024, month = 5, day = 15, hour = 12, minute = 0, second = 0, microsecond = 0, tzinfo = Some 0\<rparr>"

definition sample_rt :: runtime where
  "sample_rt = \<lparr>rt_uuid = (\<lambda>n. word_of_nat (1000 + n)), rt_token = (\<lambda>n. replicate 40 (CHR ''t'') @ nat_str n),
     rt_clock = (\<lambda>_. sample_now), rt_db_now = sample_now, rt_db_up = True\<rparr>"

text \<open>
  Simple functions in the place of the libraries: a tagged copy for a hash, a digest of the
  lengths for an HMAC, and for a JWT the JSON text of secret and claims.
\<close>

definition plain_ext :: ext where
  "plain_ext = \<lparr>sha256_hex = (\<lambda>s. ''h:'' @ s), hmac_sha256_hex = (\<lambda>k m. hex_digits 64 (length k * 1000 + length m)), pw_hash = (\<lambda>salt p. ''pw:'' @ p),
     pw_verify = (\<lambda>p h. Inr (h = ''pw:'' @ p)), jwt_encode = (\<lambda>c k. []), jwt_decode = (\<lambda>token k t. Inl (PyJWTError [])),
     py_repr = (\<lambda>j. ''0.5''), py_float = (\<lambda>s. 1 / 2)\<rparr>"

definition sample_jwt_decode :: "string \<Rightarrow> string \<Rightarrow> datetime \<Rightarrow> exc + dict" where
  "sample_jwt_decode token k t = (case loads plain_ext token of
       Some (JList [JStr k', JDict c]) \<Rightarrow>
         if k' = k \<and> (\<forall>r \<in> set required_claims. dict_get c r \<noteq> None) then
           (case dict_get c ''exp'' of Some (JInt e) \<Rightarrow>
              if e * 1000000 \<le> instant t - epoch_micros then Inl (PyJWTError ''expired'') else Inr c
            | _ \<Rightarrow> Inl (PyJWTError ''exp''))
         else Inl (PyJWTError ''signature or claims'')
     | _ \<Rightarrow> Inl (PyJWTError ''decode''))"

definition sample_ext :: ext where
  "sample_ext = plain_ext\<lparr>jwt_encode := (\<lambda>c k. dumps plain_ext (JList [JStr k, JDict c])), jwt_decode := sample_jwt_decode\<rparr>"

definition sample_user :: "uuid \<Rightarrow> string \<Rightarrow> user" where
  "sample_user i e = \<lparr>usr_id = i, usr_email = e, usr_password_hash = ''pw:'' @ e, usr_is_active = True, usr_is_verified = False,
     usr_created_at = sample_now, usr_updated_at = sample_now\<rparr>"

definition sample_member :: "uuid \<Rightarrow> uuid \<Rightarrow> uuid \<Rightarrow> role \<Rightarrow> membership" where
  "sample_member i u oid r = \<lparr>mem_id = i, mem_user_id = u, mem_organization_id = oid, mem_role = r, mem_joined_at = sample_now\<rparr>"

definition sample_org :: "uuid \<Rightarrow> string \<Rightarrow> organization" where
  "sample_org i s = \<lparr>org_id = i, org_name = s, org_slug = s, org_created_at = sample_now, org_updated_at = sample_now\<rparr>"

definition sample_sub :: "uuid \<Rightarrow> uuid \<Rightarrow> plan \<Rightarrow> subscription" where
  "sample_sub i oid p = \<lparr>sub_id = i, sub_organization_id = oid, sub_plan = p, sub_status = ACTIVE,
     sub_external_customer_id = None, sub_external_subscription_id = None,
     sub_current_period_start = sample_now\<lparr>day := 1, hour := 0\<rparr>,
     sub_current_period_end = sample_now\<lparr>month := 6, day := 1, hour := 0\<rparr>,
     sub_created_at = sample_now, sub_updated_at = sample_now\<rparr>"

definition sample_db :: db where
  "sample_db = \<lparr>
     users = [sample_user 1 ''ann@a.io'', sample_user 2 ''bob@a.io'', sample_user 3 ''cat@a.io'', sample_user 4 ''dan@b.io'',
              sample_user 5 ''eve@a.io''],
     refresh_tokens = [\<lparr>rft_id = 60, rft_user_id = 1, rft_token_hash = ''h:rrr'',
        rft_expires_at = sample_now\<lparr>month := 6\<rparr>, rft_revoked_at = None, rft_created_at = sample_now\<rparr>],
     organizations = [sample_org 10 ''acme'', sample_org 20 ''beta''],
     memberships = [sample_member 11 1 10 OWNER, sample_member 12 2 10 ADMIN, sample_member 13 3 10 MEMBER, sample_member 14 4 20 OWNER],
     invitations = [\<lparr>inv_id = 30, inv_organization_id = 10, inv_email = ''eve@a.io'', inv_role = MEMBER,
        inv_token_hash = ''h:iii'', inv_expires_at = sample_now\<lparr>month := 6\<rparr>, inv_accepted_at = None,
        inv_created_by = 1, inv_created_at = sample_now\<rparr>],
     api_keys = [\<lparr>key_id = 40, key_organization_id = 10, key_name = ''ci'', key_hash = ''h:tf_live_k'', key_prefix = ''tf_live_k'',
        key_created_by = 1, key_last_used_at = None, key_created_at = sample_now, key_revoked_at = None\<rparr>],
     projects = [\<lparr>prj_id = 50, prj_organization_id = 10, prj_name = ''web'', prj_description = None, prj_status = ACTIVE_PROJECT,
        prj_created_by = 2, prj_created_at = sample_now, prj_updated_at = sample_now\<rparr>],
     subscriptions = [sample_sub 21 10 FREE, sample_sub 22 20 PRO],
     usage_events = [\<lparr>use_id = 70, use_organization_id = 10, use_metric = ''api_requests'', use_quantity = 5,
        use_created_at = sample_now\<lparr>day := 2\<rparr>\<rparr>],
     webhook_events = [], audit_logs = []\<rparr>"

lemmas sample_defs = sample_db_def sample_user_def sample_member_def sample_org_def sample_sub_def

lemma sample_ext_simps [simp]:
  "sha256_hex sample_ext s = ''h:'' @ s" "hmac_sha256_hex sample_ext k m = hex_digits 64 (length k * 1000 + length m)"
  "pw_hash sample_ext salt p = ''pw:'' @ p" "pw_verify sample_ext p h = Inr (h = ''pw:'' @ p)"
  by (simp_all add: sample_ext_def plain_ext_def)

lemma sample_jwt: "jwt_library sample_ext"
  unfolding jwt_library_def
proof (intro allI impI conjI)
  fix c k t iat e
  assume a: "json_clean (JDict c) \<and> (\<forall>r \<in> set required_claims. dict_get c r \<noteq> None) \<and>
       dict_get c ''iat'' = Some (JInt iat) \<and> dict_get c ''exp'' = Some (JInt e)"
  then have l: "loads plain_ext (jwt_encode sample_ext c k) = Some (JList [JStr k, JDict c])"
    using loads_dumps [of "JList [JStr k, JDict c]" plain_ext] by (simp add: sample_ext_def)
  have d: "jwt_decode sample_ext (jwt_encode sample_ext c k) k t =
      (if e * 1000000 \<le> instant t - epoch_micros then Inl (PyJWTError ''expired'') else Inr c)"
    using a l by (simp add: sample_ext_def [THEN arg_cong, of jwt_decode] sample_jwt_decode_def)
  show "jwt_decode sample_ext (jwt_encode sample_ext c k) k t = Inr c"
    if "iat * 1000000 \<le> instant t - epoch_micros \<and> instant t - epoch_micros < e * 1000000"
    using d that by simp
  show "\<exists>m. jwt_decode sample_ext (jwt_encode sample_ext c k) k t = Inl (PyJWTError m)"
    if "e * 1000000 \<le> instant t - epoch_micros"
    using d that by simp
qed

lemma sample_token: "replicate 40 c = c # replicate 39 c"
  by (simp add: numeral_eq_Suc)

lemma sample_clock: "utc_clock sample_rt"
  by (simp add: utc_clock_def sample_rt_def) code_simp

declare sample_defs [service_defs] sample_rt_def [service_defs]

lemma sample_wf: "wf_db sample_db"
  by code_simp

lemma sample_complete: "orgs_complete sample_db"
  by code_simp

end
