(* ===== verification/Organizations.thy ===== *)
theory Organizations
  imports Billing Schemas Samples
begin

text \<open>
  The organization and membership service, \<^verbatim>\<open>app/services/organizations.py\<close>. Here
  an operation is one step on the database; \<open>Concurrency\<close> has the statements and row locks of the
  operations that change memberships. The lemmas show that an organization never loses its last owner, whatever the roles of
  actor and target, and that each operation meets the contracts of the tenant boundary.
\<close>

section \<open>Queries\<close>

definition select_membership :: "db \<Rightarrow> uuid \<Rightarrow> uuid \<Rightarrow> membership option" where
  "select_membership d organization_id user_id =
     scalar (filter (\<lambda>m. mem_organization_id m = organization_id \<and> mem_user_id m = user_id) (memberships d))"

text \<open>\<open>organizations JOIN memberships\<close> for one user, in the order of the organization rows.\<close>

definition joined_organizations :: "db \<Rightarrow> uuid \<Rightarrow> (role \<Rightarrow> bool) \<Rightarrow> organization list" where
  "joined_organizations d user_id ok =
     [o'. o' \<leftarrow> organizations d, m \<leftarrow> memberships d,
          mem_organization_id m = org_id o' \<and> mem_user_id m = user_id \<and> ok (mem_role m)]"

definition select_organization :: "db \<Rightarrow> uuid \<Rightarrow> uuid \<Rightarrow> (role \<Rightarrow> bool) \<Rightarrow> organization option" where
  "select_organization d organization_id user_id ok =
     scalar (filter (\<lambda>o'. org_id o' = organization_id) (joined_organizations d user_id ok))"

definition lock_actor_membership :: "uuid \<Rightarrow> uuid \<Rightarrow> db \<Rightarrow> exc + membership" where
  "lock_actor_membership organization_id user_id d = require (select_membership d organization_id user_id) forbidden"

definition lock_membership :: "uuid \<Rightarrow> uuid \<Rightarrow> db \<Rightarrow> exc + membership" where
  "lock_membership organization_id membership_id d =
     require (scalar (filter (\<lambda>m. mem_id m = membership_id \<and> mem_organization_id m = organization_id) (memberships d)))
       (NotFoundError ''membership_not_found'' ''Membership not found'')"

definition ensure_another_owner :: "uuid \<Rightarrow> uuid \<Rightarrow> db \<Rightarrow> exc + unit" where
  "ensure_another_owner organization_id excluded_membership_id d =
     (let owner_ids = map mem_id (filter (\<lambda>m. mem_organization_id m = organization_id \<and> mem_role m = OWNER) (memberships d))
      in raise_if (\<not> (\<exists>owner_id \<in> set owner_ids. owner_id \<noteq> excluded_membership_id))
           (ConflictError ''last_owner'' ''An organization must keep at least one owner''))"

section \<open>Organizations\<close>

definition slug_taken :: exc where
  "slug_taken = ConflictError ''slug_taken'' ''This organization slug is already in use''"

text \<open>\<open>try: ... except IntegrityError: rollback; raise e\<close>.\<close>

definition on_integrity_error :: "exc \<Rightarrow> exc + 'a \<Rightarrow> exc + 'a" where
  "on_integrity_error e m = (case m of Inl (IntegrityError _) \<Rightarrow> Inl e | _ \<Rightarrow> m)"

definition create_organization :: "runtime \<Rightarrow> uuid \<Rightarrow> organization_create \<Rightarrow> db \<Rightarrow> exc + organization \<times> db" where
  "create_organization E actor_id data d =
     (let slug = py_lower (oc_slug data) in
      r_bind (raise_if (scalar (filter (\<lambda>o'. org_slug o' = slug) (organizations d)) \<noteq> None) slug_taken) (\<lambda>_.
      let organization = \<lparr>org_id = rt_uuid E 0, org_name = oc_name data, org_slug = slug,
            org_created_at = rt_db_now E, org_updated_at = rt_db_now E\<rparr> in
      r_bind (on_integrity_error slug_taken
        (r_bind (add_organization organization d) (\<lambda>d1.
         let membership = \<lparr>mem_id = rt_uuid E 1, mem_user_id = actor_id, mem_organization_id = org_id organization,
               mem_role = OWNER, mem_joined_at = rt_db_now E\<rparr> in
         r_bind (add_membership membership d1) (\<lambda>d2.
         create_default_subscription (later_uuid 2 E) (org_id organization) None d2)))) (\<lambda>(_, d3).
      r_bind (write_audit (later_uuid 3 E) (org_id organization) (Some actor_id) ''organization.created'' ''organization''
        (uuid_str (org_id organization)) [] None d3) (\<lambda>(_, d4).
      Inr (organization, d4)))))"

definition list_organizations :: "uuid \<Rightarrow> db \<Rightarrow> organization list" where
  "list_organizations user_id d =
     sort_key (\<lambda>o'. instant (org_created_at o') * 2 ^ 128 + uint (org_id o')) (joined_organizations d user_id (\<lambda>_. True))"

definition get_organization :: "uuid \<Rightarrow> uuid \<Rightarrow> db \<Rightarrow> exc + organization" where
  "get_organization organization_id user_id d =
     require (select_organization d organization_id user_id (\<lambda>_. True))
       (NotFoundError ''organization_not_found'' ''Organization not found'')"

definition organization_changes :: "organization_update \<Rightarrow> organization \<Rightarrow> organization" where
  "organization_changes data o' =
     (let o1 = (case ou_name data of None \<Rightarrow> o' | Some n \<Rightarrow> o'\<lparr>org_name := n\<rparr>)
      in (case ou_slug data of None \<Rightarrow> o1 | Some s \<Rightarrow> o1\<lparr>org_slug := py_lower s\<rparr>))"

definition touch_organization :: "runtime \<Rightarrow> organization \<Rightarrow> organization \<Rightarrow> organization" where
  "touch_organization E old new = (if new = old then new else new\<lparr>org_updated_at := rt_db_now E\<rparr>)"

definition changed_fields :: "(string \<times> bool) list \<Rightarrow> json" where
  "changed_fields fs = JList (map (JStr \<circ> fst) (filter snd fs))"

definition update_organization :: "runtime \<Rightarrow> uuid \<Rightarrow> uuid \<Rightarrow> organization_update \<Rightarrow> db \<Rightarrow> exc + organization \<times> db" where
  "update_organization E organization_id actor_id data d =
     r_bind (require (select_organization d organization_id actor_id (\<lambda>r. r = OWNER \<or> r = ADMIN)) forbidden) (\<lambda>organization.
     let changed = touch_organization E organization (organization_changes data organization) in
     r_bind (on_integrity_error slug_taken (save_organization changed d)) (\<lambda>d1.
     r_bind (write_audit E organization_id (Some actor_id) ''organization.updated'' ''organization'' (uuid_str organization_id)
        [(''fields'', changed_fields [(''name'', ou_name data \<noteq> None), (''slug'', ou_slug data \<noteq> None)])] None d1) (\<lambda>(_, d2).
     Inr (changed, d2))))"

definition delete_organization :: "runtime \<Rightarrow> uuid \<Rightarrow> uuid \<Rightarrow> db \<Rightarrow> exc + unit \<times> db" where
  "delete_organization E organization_id actor_id d =
     r_bind (require (select_organization d organization_id actor_id (\<lambda>r. r = OWNER))
       (ForbiddenError ''owner_required'' ''Only an owner can delete the organization'')) (\<lambda>organization.
     r_bind (write_audit E organization_id (Some actor_id) ''organization.deleted'' ''organization''
       (uuid_str organization_id) [] None d) (\<lambda>(_, d1).
     Inr ((), delete_organization_row (org_id organization) d1)))"

section \<open>Memberships\<close>

definition list_members :: "uuid \<Rightarrow> db \<Rightarrow> (membership \<times> string) list" where
  "list_members organization_id d =
     sort_key (\<lambda>(m, _). instant (mem_joined_at m) * 2 ^ 128 + uint (mem_id m))
       [(m, usr_email u). m \<leftarrow> memberships d, u \<leftarrow> users d, usr_id u = mem_user_id m \<and> mem_organization_id m = organization_id]"

definition update_membership :: "runtime \<Rightarrow> uuid \<Rightarrow> uuid \<Rightarrow> uuid \<Rightarrow> role \<Rightarrow> db \<Rightarrow> exc + membership \<times> db" where
  "update_membership E organization_id membership_id actor_id new_role d =
     r_bind (lock_actor_membership organization_id actor_id d) (\<lambda>actor.
     r_bind (lock_membership organization_id membership_id d) (\<lambda>target.
     r_bind (if mem_role actor = ADMIN then
               raise_if (mem_role target \<noteq> MEMBER \<or> new_role \<noteq> MEMBER)
                 (ForbiddenError ''membership_change_forbidden'' ''Administrators cannot grant roles or manage owners'')
             else raise_if (mem_role actor \<noteq> OWNER) forbidden) (\<lambda>_.
     r_bind (if mem_role target = OWNER \<and> new_role \<noteq> OWNER
             then ensure_another_owner organization_id (mem_id target) d else Inr ()) (\<lambda>_.
     let old_role = mem_role target;
         target' = target\<lparr>mem_role := new_role\<rparr>;
         d1 = save_membership target' d in
     r_bind (write_audit E organization_id (Some actor_id) ''member.role_changed'' ''membership'' (uuid_str (mem_id target))
       [(''old_role'', JStr (role_value old_role)), (''new_role'', JStr (role_value new_role))] None d1) (\<lambda>(_, d2).
     Inr (target', d2))))))"

definition remove_membership :: "runtime \<Rightarrow> uuid \<Rightarrow> uuid \<Rightarrow> uuid \<Rightarrow> db \<Rightarrow> exc + unit \<times> db" where
  "remove_membership E organization_id membership_id actor_id d =
     r_bind (lock_actor_membership organization_id actor_id d) (\<lambda>actor.
     r_bind (lock_membership organization_id membership_id d) (\<lambda>target.
     r_bind (raise_if (mem_role actor = ADMIN \<and> mem_role target \<noteq> MEMBER)
       (ForbiddenError ''membership_remove_forbidden'' ''Administrators can remove members only'')) (\<lambda>_.
     r_bind (raise_if (mem_role actor \<notin> {OWNER, ADMIN}) forbidden) (\<lambda>_.
     r_bind (if mem_role target = OWNER then ensure_another_owner organization_id (mem_id target) d else Inr ()) (\<lambda>_.
     r_bind (write_audit E organization_id (Some actor_id) ''member.removed'' ''membership'' (uuid_str (mem_id target))
       [(''user_id'', JStr (uuid_str (mem_user_id target))), (''role'', JStr (role_value (mem_role target)))] None d) (\<lambda>(_, d1).
     Inr ((), delete_membership_row (mem_id target) d1)))))))"

declare select_membership_def [service_defs] joined_organizations_def [service_defs] select_organization_def [service_defs]
  lock_actor_membership_def [service_defs] lock_membership_def [service_defs] ensure_another_owner_def [service_defs]
  on_integrity_error_def [service_defs] create_organization_def [service_defs] list_organizations_def [service_defs]
  get_organization_def [service_defs] organization_changes_def [service_defs] touch_organization_def [service_defs]
  changed_fields_def [service_defs] update_organization_def [service_defs] delete_organization_def [service_defs]
  list_members_def [service_defs] update_membership_def [service_defs] remove_membership_def [service_defs]

section \<open>Lemmas on queries\<close>

lemma select_membershipD:
  "select_membership d oid uid = Some m \<Longrightarrow> m \<in> set (memberships d) \<and> mem_organization_id m = oid \<and> mem_user_id m = uid"
  by (auto simp: select_membership_def dest: scalar_filter_SomeD)

lemma select_membership_unique:
  assumes "wf_db d" "m \<in> set (memberships d)"
  shows "select_membership d (mem_organization_id m) (mem_user_id m) = Some m"
  unfolding select_membership_def
  by (rule scalar_filter_unique [OF wf_unique(8) [OF assms(1)] assms(2)]) (simp_all add: mem_pair_def)

lemma lock_membershipD:
  "lock_membership oid mid d = Inr m \<Longrightarrow> m \<in> set (memberships d) \<and> mem_id m = mid \<and> mem_organization_id m = oid"
  by (auto simp: lock_membership_def dest: scalar_filter_SomeD)

lemma set_joined_organizations:
  "o' \<in> set (joined_organizations d uid ok) \<longleftrightarrow> o' \<in> set (organizations d) \<and>
     (\<exists>m \<in> set (memberships d). mem_organization_id m = org_id o' \<and> mem_user_id m = uid \<and> ok (mem_role m))"
  by (auto simp: joined_organizations_def)

lemma select_organizationD:
  "select_organization d oid uid ok = Some o' \<Longrightarrow> o' \<in> set (organizations d) \<and> org_id o' = oid \<and>
     (\<exists>m \<in> set (memberships d). mem_organization_id m = oid \<and> mem_user_id m = uid \<and> ok (mem_role m))"
  by (auto simp: select_organization_def set_joined_organizations dest!: scalar_filter_SomeD)

lemma ensure_another_owner_Inr:
  "ensure_another_owner oid mid d = Inr u \<longleftrightarrow>
     (\<exists>m \<in> set (memberships d). mem_organization_id m = oid \<and> mem_role m = OWNER \<and> mem_id m \<noteq> mid)"
  by (auto simp: ensure_another_owner_def)

lemma on_integrity_error_Inr [simp]: "on_integrity_error e m = Inr x \<longleftrightarrow> m = Inr x"
  by (auto simp: on_integrity_error_def split: sum.splits exc.splits)

section \<open>Inversion of successful operations\<close>

lemma create_organization_InrD:
  assumes "create_organization E actor data d = Inr (o', d')"
  obtains m s d1 d2 d3 e where "add_organization o' d = Inr d1" "add_membership m d1 = Inr d2"
    "create_default_subscription (later_uuid 2 E) (org_id o') None d2 = Inr (s, d3)"
    "write_audit (later_uuid 3 E) (org_id o') (Some actor) ''organization.created'' ''organization'' (uuid_str (org_id o')) [] None d3 = Inr (e, d')"
    "mem_organization_id m = org_id o'" "mem_user_id m = actor" "mem_role m = OWNER"
    "org_slug o' = py_lower (oc_slug data)" "org_id o' = rt_uuid E 0" "org_name o' = oc_name data"
  using assms by (auto simp: create_organization_def Let_def)

lemma touch_organization_simps [simp]:
  "org_id (touch_organization E a b) = org_id b" "org_slug (touch_organization E a b) = org_slug b"
  "org_name (touch_organization E a b) = org_name b" "org_id (organization_changes data a) = org_id a"
  by (simp_all add: touch_organization_def organization_changes_def Let_def split: option.splits)

lemma update_organization_InrD:
  assumes "update_organization E oid actor data d = Inr (o', d')"
  obtains o0 d1 e meta where "select_organization d oid actor (\<lambda>r. r = OWNER \<or> r = ADMIN) = Some o0"
    "o' = touch_organization E o0 (organization_changes data o0)" "save_organization o' d = Inr d1"
    "write_audit E oid (Some actor) ''organization.updated'' ''organization'' (uuid_str oid) meta None d1 = Inr (e, d')"
  using assms by (auto simp: update_organization_def Let_def)

lemma delete_organization_InrD:
  assumes "delete_organization E oid actor d = Inr (u, d')"
  obtains o0 d1 e where "select_organization d oid actor (\<lambda>r. r = OWNER) = Some o0"
    "write_audit E oid (Some actor) ''organization.deleted'' ''organization'' (uuid_str oid) [] None d = Inr (e, d1)"
    "d' = delete_organization_row oid d1"
proof -
  obtain o0 d1 e where *: "select_organization d oid actor (\<lambda>r. r = OWNER) = Some o0"
    "write_audit E oid (Some actor) ''organization.deleted'' ''organization'' (uuid_str oid) [] None d = Inr (e, d1)"
    "d' = delete_organization_row (org_id o0) d1"
    using assms by (auto simp: delete_organization_def)
  then show thesis using that select_organizationD [OF *(1)] by simp
qed

text \<open>The role rules of a membership change, in one place.\<close>

definition may_change :: "role \<Rightarrow> role \<Rightarrow> role \<Rightarrow> bool" where
  "may_change actor target new = (actor = OWNER \<or> actor = ADMIN \<and> target = MEMBER \<and> new = MEMBER)"

lemma update_membership_InrD:
  assumes "update_membership E oid mid actor_id new_role d = Inr (t', d')"
  obtains actor t e meta where "select_membership d oid actor_id = Some actor"
    "t \<in> set (memberships d)" "mem_id t = mid" "mem_organization_id t = oid" "may_change (mem_role actor) (mem_role t) new_role"
    "t' = t\<lparr>mem_role := new_role\<rparr>"
    "mem_role t = OWNER \<and> new_role \<noteq> OWNER \<longrightarrow>
       (\<exists>m \<in> set (memberships d). mem_organization_id m = oid \<and> mem_role m = OWNER \<and> mem_id m \<noteq> mid)"
    "write_audit E oid (Some actor_id) ''member.role_changed'' ''membership'' (uuid_str mid) meta None (save_membership t' d) = Inr (e, d')"
proof -
  obtain actor t e meta where *: "select_membership d oid actor_id = Some actor" "lock_membership oid mid d = Inr t"
    "if mem_role actor = ADMIN then mem_role t = MEMBER \<and> new_role = MEMBER else mem_role actor = OWNER"
    "(if mem_role t = OWNER \<and> new_role \<noteq> OWNER then ensure_another_owner oid (mem_id t) d else Inr ()) = Inr ()"
    "t' = t\<lparr>mem_role := new_role\<rparr>"
    "write_audit E oid (Some actor_id) ''member.role_changed'' ''membership'' (uuid_str (mem_id t)) meta None (save_membership t' d) = Inr (e, d')"
    using assms by (auto simp: update_membership_def lock_actor_membership_def Let_def split: if_splits)
  from lock_membershipD [OF *(2)] * show thesis
    by (intro that [of actor t meta e]) (auto simp: may_change_def ensure_another_owner_Inr split: if_splits)
qed

lemma remove_membership_InrD:
  assumes "remove_membership E oid mid actor_id d = Inr (u, d')"
  obtains actor t e d1 meta where "select_membership d oid actor_id = Some actor"
    "t \<in> set (memberships d)" "mem_id t = mid" "mem_organization_id t = oid"
    "mem_role actor = OWNER \<or> mem_role actor = ADMIN \<and> mem_role t = MEMBER"
    "mem_role t = OWNER \<longrightarrow>
       (\<exists>m \<in> set (memberships d). mem_organization_id m = oid \<and> mem_role m = OWNER \<and> mem_id m \<noteq> mid)"
    "write_audit E oid (Some actor_id) ''member.removed'' ''membership'' (uuid_str mid) meta None d = Inr (e, d1)"
    "d' = delete_membership_row mid d1"
proof -
  obtain actor t e d1 meta where *: "select_membership d oid actor_id = Some actor" "lock_membership oid mid d = Inr t"
    "mem_role actor = ADMIN \<longrightarrow> mem_role t = MEMBER" "mem_role actor \<in> {OWNER, ADMIN}"
    "(if mem_role t = OWNER then ensure_another_owner oid (mem_id t) d else Inr ()) = Inr ()"
    "write_audit E oid (Some actor_id) ''member.removed'' ''membership'' (uuid_str (mem_id t)) meta None d = Inr (e, d1)"
    "d' = delete_membership_row (mem_id t) d1"
    using assms by (auto simp: remove_membership_def lock_actor_membership_def)
  from lock_membershipD [OF *(2)] * show thesis
    by (intro that [of actor t meta e d1]) (auto simp: ensure_another_owner_Inr split: if_splits)
qed

section \<open>Well-formedness and confinement\<close>

lemma create_organization_wf: "create_organization E actor data d = Inr (o', d') \<Longrightarrow> wf_db d \<Longrightarrow> wf_db d'"
  by (erule create_organization_InrD, erule write_audit_wf, drule create_default_subscription_InrD(1))
    (blast intro: wf_add_organization wf_add_membership wf_add_subscription)

lemma create_organization_view:
  assumes "create_organization E actor data d = Inr (o', d')" "oid \<noteq> org_id o'"
  shows "tenant_view oid d' = tenant_view oid d"
  using assms(1)
proof (rule create_organization_InrD)
  fix m s d1 d2 d3 e
  assume a: "add_organization o' d = Inr d1" "add_membership m d1 = Inr d2"
    "create_default_subscription (later_uuid 2 E) (org_id o') None d2 = Inr (s, d3)"
    "write_audit (later_uuid 3 E) (org_id o') (Some actor) ''organization.created'' ''organization'' (uuid_str (org_id o')) [] None d3 = Inr (e, d')"
    "mem_organization_id m = org_id o'"
  note s = create_default_subscription_InrD(1,2) [OF a(3)]
  show ?thesis
    using tenant_view_add(4) [OF a(1) assms(2)] tenant_view_add(5) [OF a(2), of oid] tenant_view_add(9) [OF s(1), of oid]
      write_audit_view [OF a(4) assms(2)] assms(2) a(5) s(2) by simp
qed

lemma update_organization_wf: "update_organization E oid actor data d = Inr (o', d') \<Longrightarrow> wf_db d \<Longrightarrow> wf_db d'"
  by (erule update_organization_InrD, erule write_audit_wf, erule wf_save_organization)

lemma update_organization_view:
  assumes "update_organization E oid actor data d = Inr (o', d')" "wf_db d" "oid' \<noteq> oid"
  shows "tenant_view oid' d' = tenant_view oid' d"
  using assms(1)
proof (rule update_organization_InrD)
  fix o0 d1 e meta
  assume a: "select_organization d oid actor (\<lambda>r. r = OWNER \<or> r = ADMIN) = Some o0"
    "o' = touch_organization E o0 (organization_changes data o0)" "save_organization o' d = Inr d1"
    "write_audit E oid (Some actor) ''organization.updated'' ''organization'' (uuid_str oid) meta None d1 = Inr (e, d')"
  have o: "o0 \<in> set (organizations d)" "org_id o0 = oid" using select_organizationD [OF a(1)] by simp_all
  show ?thesis
    using tenant_view_save_organization [OF a(3) assms(2) o(1), of oid'] write_audit_view [OF a(4) assms(3)] assms(3) a(2) o(2)
    by simp
qed

lemma delete_organization_wf: "delete_organization E oid actor d = Inr (u, d') \<Longrightarrow> wf_db d \<Longrightarrow> wf_db d'"
  by (erule delete_organization_InrD) (simp add: wf_delete_organization_row write_audit_wf)

lemma delete_organization_view:
  "delete_organization E oid actor d = Inr (u, d') \<Longrightarrow> oid' \<noteq> oid \<Longrightarrow> tenant_view oid' d' = tenant_view oid' d"
  by (erule delete_organization_InrD) (simp add: tenant_view_delete_organization_row write_audit_view)

lemma save_role_wf: "wf_db d \<Longrightarrow> t \<in> set (memberships d) \<Longrightarrow> wf_db (save_membership (t\<lparr>mem_role := r\<rparr>) d)"
  by (rule wf_save_membership [of d t]) (simp_all add: mem_pair_def)

lemma update_membership_wf: "update_membership E oid mid actor r d = Inr (m, d') \<Longrightarrow> wf_db d \<Longrightarrow> wf_db d'"
  by (erule update_membership_InrD, erule write_audit_wf) (simp add: save_role_wf)

lemma update_membership_view:
  assumes "update_membership E oid mid actor r d = Inr (m, d')" "wf_db d" "oid' \<noteq> oid"
  shows "tenant_view oid' d' = tenant_view oid' d"
  using assms(1)
proof (rule update_membership_InrD)
  fix t e meta
  assume a: "t \<in> set (memberships d)" "mem_organization_id t = oid" "m = t\<lparr>mem_role := r\<rparr>"
    "write_audit E oid (Some actor) ''member.role_changed'' ''membership'' (uuid_str mid) meta None (save_membership m d) = Inr (e, d')"
  show ?thesis
    using tenant_view_save(1) [OF assms(2) a(1), of m oid'] write_audit_view [OF a(4) assms(3)] assms(3) a(2,3) by simp
qed

lemma remove_membership_wf: "remove_membership E oid mid actor d = Inr (u, d') \<Longrightarrow> wf_db d \<Longrightarrow> wf_db d'"
  by (erule remove_membership_InrD) (simp add: wf_delete_membership_row write_audit_wf)

lemma write_audit_memberships:
  "write_audit E oid actor action rt rid meta ip d = Inr (entry, d') \<Longrightarrow> memberships d' = memberships d"
  by (drule write_audit_InrD(2)) simp

lemma remove_membership_view:
  assumes "remove_membership E oid mid actor d = Inr (u, d')" "wf_db d" "oid' \<noteq> oid"
  shows "tenant_view oid' d' = tenant_view oid' d"
  using assms(1)
proof (rule remove_membership_InrD)
  fix t e d1 meta
  assume a: "t \<in> set (memberships d)" "mem_id t = mid" "mem_organization_id t = oid" "d' = delete_membership_row mid d1"
    "write_audit E oid (Some actor) ''member.removed'' ''membership'' (uuid_str mid) meta None d = Inr (e, d1)"
  have "t \<in> set (memberships d1)" using write_audit_memberships [OF a(5)] a(1) by simp
  then show ?thesis
    using tenant_view_delete(1) [of d1 t oid'] write_audit_wf [OF a(5) assms(2)] write_audit_view [OF a(5) assms(3)] a assms(3)
    by simp
qed

section \<open>No organization loses its owner or subscription\<close>

lemma create_organization_tables:
  assumes "create_organization E actor data d = Inr (o', d')"
  obtains m s where "organizations d' = organizations d @ [o']" "memberships d' = memberships d @ [m]"
    "subscriptions d' = subscriptions d @ [s]" "mem_organization_id m = org_id o'" "mem_user_id m = actor" "mem_role m = OWNER"
    "sub_organization_id s = org_id o'" "sub_plan s = FREE" "sub_status s = ACTIVE" "org_id o' \<notin> org_ids d"
    "org_slug o' \<notin> org_slug ` set (organizations d)"
  using assms
proof (rule create_organization_InrD)
  fix m s d1 d2 d3 e
  assume a: "add_organization o' d = Inr d1" "add_membership m d1 = Inr d2"
    "create_default_subscription (later_uuid 2 E) (org_id o') None d2 = Inr (s, d3)"
    "write_audit (later_uuid 3 E) (org_id o') (Some actor) ''organization.created'' ''organization'' (uuid_str (org_id o')) [] None d3 = Inr (e, d')"
    "mem_organization_id m = org_id o'" "mem_user_id m = actor" "mem_role m = OWNER"
  note s = create_default_subscription_InrD [OF a(3)]
  have "d1 = d\<lparr>organizations := organizations d @ [o']\<rparr>" "org_id o' \<notin> org_ids d" "org_slug o' \<notin> org_slug ` set (organizations d)"
    using a(1) by (auto simp: add_organization_def split: if_splits)
  moreover have "d2 = d1\<lparr>memberships := memberships d1 @ [m]\<rparr>"
    using a(2) by (auto simp: add_membership_def split: if_splits)
  ultimately show thesis
    using that [of m s] add_subscription_InrD [OF s(1)] write_audit_InrD(2) [OF a(4)] a(5-7) s(2-4) by simp
qed

lemma owned_mono: "set (memberships d) \<subseteq> set (memberships d') \<Longrightarrow> owned d oid \<Longrightarrow> owned d' oid"
  by (auto simp: owned_def)

lemma subscribed_mono: "set (subscriptions d) \<subseteq> set (subscriptions d') \<Longrightarrow> subscribed d oid \<Longrightarrow> subscribed d' oid"
  by (auto simp: subscribed_def)

lemma create_organization_complete:
  assumes "create_organization E actor data d = Inr (o', d')" "orgs_complete d"
  shows "orgs_complete d'"
  using assms(1)
proof (rule create_organization_tables)
  fix m s
  assume t: "organizations d' = organizations d @ [o']" "memberships d' = memberships d @ [m]" "subscriptions d' = subscriptions d @ [s]"
    and n: "mem_organization_id m = org_id o'" "mem_role m = OWNER" "sub_organization_id s = org_id o'"
  have "owned d' (org_id o')" "subscribed d' (org_id o')" using t n by (auto simp: owned_def subscribed_def)
  then show ?thesis
    using assms(2) t owned_mono [of d d'] subscribed_mono [of d d'] by (auto simp: orgs_complete_def)
qed

lemma orgs_complete_iff: "orgs_complete d \<longleftrightarrow> (\<forall>i \<in> org_ids d. owned d i \<and> subscribed d i)"
  by (simp add: orgs_complete_def org_ids_def)

lemma orgs_complete_save_organization:
  assumes "save_organization o' d = Inr d'" "orgs_complete d" "r \<in> set (organizations d)" "org_id o' = org_id r" "wf_db d"
  shows "orgs_complete d'"
proof -
  have d': "d' = d\<lparr>organizations := save_row org_id o' (organizations d)\<rparr>"
    using assms(1) by (auto simp: save_organization_def split: if_splits)
  have m: "map org_id (save_row org_id o' (organizations d)) = map org_id (organizations d)"
    by (rule map_save_row_other [OF wf_unique(5) [OF assms(5)] assms(3,4,4)])
  have "org_ids d' = org_ids d"
    using arg_cong [OF m, of set] by (simp add: d' org_ids_def)
  moreover have "owned d' = owned d" "subscribed d' = subscribed d"
    by (simp_all add: d' owned_def subscribed_def fun_eq_iff)
  ultimately show ?thesis using assms(2) by (simp add: orgs_complete_iff)
qed

lemma update_organization_complete:
  assumes "update_organization E oid actor data d = Inr (o', d')" "wf_db d" "orgs_complete d"
  shows "orgs_complete d'"
  using assms(1)
proof (rule update_organization_InrD)
  fix o0 d1 e meta
  assume a: "select_organization d oid actor (\<lambda>r. r = OWNER \<or> r = ADMIN) = Some o0"
    "o' = touch_organization E o0 (organization_changes data o0)" "save_organization o' d = Inr d1"
    "write_audit E oid (Some actor) ''organization.updated'' ''organization'' (uuid_str oid) meta None d1 = Inr (e, d')"
  have "orgs_complete d1"
    using orgs_complete_save_organization [OF a(3) assms(3) _ _ assms(2), of o0] select_organizationD [OF a(1)] a(2) by simp
  then show ?thesis by (simp add: write_audit_complete [OF a(4)])
qed

lemma owned_delete_organization_row: "oid \<noteq> i \<Longrightarrow> owned (delete_organization_row i d) oid = owned d oid"
  by (auto simp: owned_def delete_organization_row_def)

lemma subscribed_delete_organization_row: "oid \<noteq> i \<Longrightarrow> subscribed (delete_organization_row i d) oid = subscribed d oid"
  by (auto simp: subscribed_def delete_organization_row_def)

lemma orgs_complete_delete_organization_row: "orgs_complete d \<Longrightarrow> orgs_complete (delete_organization_row i d)"
  by (simp add: orgs_complete_iff owned_delete_organization_row subscribed_delete_organization_row)

lemma delete_organization_complete:
  "delete_organization E oid actor d = Inr (u, d') \<Longrightarrow> orgs_complete d \<Longrightarrow> orgs_complete d'"
  by (erule delete_organization_InrD) (simp add: orgs_complete_delete_organization_row write_audit_complete)

lemma owned_save_role:
  assumes "wf_db d" "t \<in> set (memberships d)" "owned d oid"
    "mem_role t = OWNER \<and> r \<noteq> OWNER \<longrightarrow> (\<exists>m \<in> set (memberships d). mem_organization_id m = mem_organization_id t \<and>
       mem_role m = OWNER \<and> mem_id m \<noteq> mem_id t)"
  shows "owned (save_membership (t\<lparr>mem_role := r\<rparr>) d) oid"
proof -
  let ?t = "t\<lparr>mem_role := r\<rparr>"
  have keep: "m \<in> set (memberships (save_membership ?t d))" if "m \<in> set (memberships d)" "mem_id m \<noteq> mem_id t" for m
    using that by (auto simp: save_membership_def save_row_def set_update_where)
  have new: "?t \<in> set (memberships (save_membership ?t d))"
    using assms(2) by (auto simp: save_membership_def save_row_def set_update_where)
  obtain m where m: "m \<in> set (memberships d)" "mem_organization_id m = oid" "mem_role m = OWNER"
    using assms(3) by (auto simp: owned_def)
  show ?thesis
  proof (cases "mem_id m = mem_id t")
    case True
    then have "m = t" using unique_onD [OF wf_unique(7) [OF assms(1)] m(1) assms(2)] by simp
    then show ?thesis using new keep m assms(4) unfolding owned_def by (cases "r = OWNER") force+
  next
    case False
    then show ?thesis using keep [OF m(1)] m unfolding owned_def by blast
  qed
qed

lemma orgs_complete_memberships:
  assumes "orgs_complete d" "organizations d' = organizations d" "subscriptions d' = subscriptions d"
    "\<And>oid. owned d oid \<Longrightarrow> owned d' oid"
  shows "orgs_complete d'"
  using assms by (simp add: orgs_complete_def subscribed_def)

lemma update_membership_complete:
  assumes "update_membership E oid mid actor r d = Inr (m, d')" "wf_db d" "orgs_complete d"
  shows "orgs_complete d'"
  using assms(1)
proof (rule update_membership_InrD)
  fix t e meta
  assume a: "t \<in> set (memberships d)" "mem_id t = mid" "mem_organization_id t = oid" "m = t\<lparr>mem_role := r\<rparr>"
    "mem_role t = OWNER \<and> r \<noteq> OWNER \<longrightarrow>
       (\<exists>m \<in> set (memberships d). mem_organization_id m = oid \<and> mem_role m = OWNER \<and> mem_id m \<noteq> mid)"
    "write_audit E oid (Some actor) ''member.role_changed'' ''membership'' (uuid_str mid) meta None (save_membership m d) = Inr (e, d')"
  have "owned (save_membership m d) i" if "owned d i" for i
    using owned_save_role [OF assms(2) a(1) that] a(2-5) by simp
  moreover have "organizations (save_membership m d) = organizations d" "subscriptions (save_membership m d) = subscriptions d"
    by (simp_all add: save_membership_def)
  ultimately have "orgs_complete (save_membership m d)"
    using assms(3) orgs_complete_memberships by blast
  then show ?thesis by (simp add: write_audit_complete [OF a(6)])
qed

lemma owned_delete_membership:
  assumes "wf_db d" "t \<in> set (memberships d)" "owned d oid"
    "mem_role t = OWNER \<longrightarrow> (\<exists>m \<in> set (memberships d). mem_organization_id m = mem_organization_id t \<and>
       mem_role m = OWNER \<and> mem_id m \<noteq> mem_id t)"
  shows "owned (delete_membership_row (mem_id t) d) oid"
proof -
  obtain m where m: "m \<in> set (memberships d)" "mem_organization_id m = oid" "mem_role m = OWNER"
    using assms(3) by (auto simp: owned_def)
  show ?thesis
  proof (cases "mem_id m = mem_id t")
    case True
    then have "m = t" using unique_onD [OF wf_unique(7) [OF assms(1)] m(1) assms(2)] by simp
    then show ?thesis using m assms(4) by (auto simp: owned_def delete_membership_row_def)
  next
    case False
    then show ?thesis using m by (auto simp: owned_def delete_membership_row_def)
  qed
qed

lemma remove_membership_complete:
  assumes "remove_membership E oid mid actor d = Inr (u, d')" "wf_db d" "orgs_complete d"
  shows "orgs_complete d'"
  using assms(1)
proof (rule remove_membership_InrD)
  fix t e d1 meta
  assume a: "t \<in> set (memberships d)" "mem_id t = mid" "mem_organization_id t = oid"
    "mem_role t = OWNER \<longrightarrow>
       (\<exists>m \<in> set (memberships d). mem_organization_id m = oid \<and> mem_role m = OWNER \<and> mem_id m \<noteq> mid)"
    "d' = delete_membership_row mid d1"
    "write_audit E oid (Some actor) ''member.removed'' ''membership'' (uuid_str mid) meta None d = Inr (e, d1)"
  note m = write_audit_memberships [OF a(6)]
  have "orgs_complete d1" using assms(3) by (simp add: write_audit_complete [OF a(6)])
  moreover have "owned d' i" if "owned d1 i" for i
    using owned_delete_membership [OF write_audit_wf [OF a(6) assms(2)] _ that, of t] a(1-5) m by simp
  moreover have "organizations d' = organizations d1" "subscriptions d' = subscriptions d1"
    by (simp_all add: delete_membership_row_def a(5))
  ultimately show ?thesis using orgs_complete_memberships by blast
qed

section \<open>The contracts hold\<close>

interpretation create_organization_service: complete_service "\<lambda>(E, actor, data). create_organization E actor data"
  by unfold_locales (auto intro: create_organization_wf create_organization_complete)

interpretation update_organization_service: complete_service "\<lambda>(E, oid, actor, data). update_organization E oid actor data"
  by unfold_locales (auto intro: update_organization_wf update_organization_complete)

interpretation delete_organization_service: complete_service "\<lambda>(E, oid, actor). delete_organization E oid actor"
  by unfold_locales (auto intro: delete_organization_wf delete_organization_complete)

interpretation update_membership_service: complete_service
  "\<lambda>(E, oid, mid, actor, r). update_membership E oid mid actor r"
  by unfold_locales (auto intro: update_membership_wf update_membership_complete)

interpretation remove_membership_service: complete_service "\<lambda>(E, oid, mid, actor). remove_membership E oid mid actor"
  by unfold_locales (auto intro: remove_membership_wf remove_membership_complete)

lemma create_organization_id: "create_organization E actor data d = Inr (o', d') \<Longrightarrow> org_id o' = rt_uuid E 0"
  by (erule create_organization_InrD)

interpretation create_organization_tenant: tenant_service
  "\<lambda>(E, actor, data). create_organization E actor data" "\<lambda>(E, actor, data). rt_uuid E 0"
  by unfold_locales (auto simp: create_organization_view create_organization_id)

interpretation update_organization_tenant: tenant_service
  "\<lambda>(E, oid, actor, data). update_organization E oid actor data" "\<lambda>(E, oid, actor, data). oid"
  by unfold_locales (auto intro: update_organization_view)

interpretation delete_organization_tenant: tenant_service
  "\<lambda>(E, oid, actor). delete_organization E oid actor" "\<lambda>(E, oid, actor). oid"
  by unfold_locales (auto intro: delete_organization_view)

interpretation update_membership_tenant: tenant_service
  "\<lambda>(E, oid, mid, actor, r). update_membership E oid mid actor r" "\<lambda>(E, oid, mid, actor, r). oid"
  by unfold_locales (auto intro: update_membership_view)

interpretation remove_membership_tenant: tenant_service
  "\<lambda>(E, oid, mid, actor). remove_membership E oid mid actor" "\<lambda>(E, oid, mid, actor). oid"
  by unfold_locales (auto intro: remove_membership_view)

section \<open>Properties\<close>

lemma update_membership_owned:
  assumes "update_membership E oid mid actor r d = Inr (m, d')" "wf_db d" "owned d oid'"
  shows "owned d' oid'"
  using assms(1)
proof (rule update_membership_InrD)
  fix t e meta
  assume a: "t \<in> set (memberships d)" "mem_id t = mid" "mem_organization_id t = oid" "m = t\<lparr>mem_role := r\<rparr>"
    "mem_role t = OWNER \<and> r \<noteq> OWNER \<longrightarrow>
       (\<exists>m \<in> set (memberships d). mem_organization_id m = oid \<and> mem_role m = OWNER \<and> mem_id m \<noteq> mid)"
    "write_audit E oid (Some actor) ''member.role_changed'' ''membership'' (uuid_str mid) meta None (save_membership m d) = Inr (e, d')"
  have "owned (save_membership m d) oid'" using owned_save_role [OF assms(2) a(1) assms(3), of r] a(2-5) by simp
  then show ?thesis by (simp add: owned_def write_audit_memberships [OF a(6)])
qed

text \<open>
  C6. A role change that succeeds was asked for by an owner, or by an administrator who leaves a
  plain member a plain member; the target belongs to the organization named in the request; and no
  organization that had an owner is left without one.
\<close>

theorem update_membership_safe:
  assumes "update_membership E oid mid actor_id new_role d = Inr (m, d')" "wf_db d"
  shows "(\<exists>actor t. select_membership d oid actor_id = Some actor \<and> t \<in> set (memberships d) \<and> mem_id t = mid \<and>
      mem_organization_id t = oid \<and> m = t\<lparr>mem_role := new_role\<rparr> \<and>
      (mem_role actor = OWNER \<or> mem_role actor = ADMIN \<and> mem_role t = MEMBER \<and> new_role = MEMBER)) \<and>
    (\<forall>oid'. owned d oid' \<longrightarrow> owned d' oid')"
proof (intro conjI allI impI)
  show "\<exists>actor t. select_membership d oid actor_id = Some actor \<and> t \<in> set (memberships d) \<and> mem_id t = mid \<and>
      mem_organization_id t = oid \<and> m = t\<lparr>mem_role := new_role\<rparr> \<and>
      (mem_role actor = OWNER \<or> mem_role actor = ADMIN \<and> mem_role t = MEMBER \<and> new_role = MEMBER)"
    using assms(1) by (rule update_membership_InrD) (unfold may_change_def, blast)
  show "owned d oid' \<Longrightarrow> owned d' oid'" for oid'
    by (rule update_membership_owned [OF assms])
qed

theorem update_membership_safe_witness:
  "\<exists>m d'. update_membership sample_rt 10 13 1 OWNER sample_db = Inr (m, d') \<and> owned d' 10 \<and> m = sample_member 13 3 10 OWNER"
proof -
  obtain m d' where u: "update_membership sample_rt 10 13 1 OWNER sample_db = Inr (m, d')" "m = sample_member 13 3 10 OWNER"
    by (simp add: service_defs cong: r_bind_weak_cong)
  have "owned sample_db 10" by code_simp
  then have "owned d' 10" using update_membership_safe [OF u(1) sample_wf] by simp
  with u show ?thesis by blast
qed

text \<open>
  C7. An organization's only owner can neither be demoted nor removed: both requests fail with the
  conflict \<open>last_owner\<close>.
\<close>

theorem last_owner_protected:
  assumes "wf_db d" "t \<in> set (memberships d)" "mem_organization_id t = oid" "mem_role t = OWNER"
    "\<forall>m \<in> set (memberships d). mem_organization_id m = oid \<and> mem_role m = OWNER \<longrightarrow> m = t" "new_role \<noteq> OWNER"
    "select_membership d oid actor_id = Some actor" "mem_role actor = OWNER"
  shows "update_membership E oid (mem_id t) actor_id new_role d =
      Inl (AppError 409 ''last_owner'' ''An organization must keep at least one owner'' None) \<and>
    remove_membership E oid (mem_id t) actor_id d =
      Inl (AppError 409 ''last_owner'' ''An organization must keep at least one owner'' None)"
proof -
  have t: "lock_membership oid (mem_id t) d = Inr t"
    unfolding lock_membership_def
    using scalar_filter_unique [OF wf_unique(7) [OF assms(1)] assms(2), of "\<lambda>m. mem_id m = mem_id t \<and> mem_organization_id m = oid"]
      assms(3) by simp
  have e: "ensure_another_owner oid (mem_id t) d =
      Inl (AppError 409 ''last_owner'' ''An organization must keep at least one owner'' None)"
    using assms(5) by (auto simp: ensure_another_owner_def ConflictError_def)
  have a: "lock_actor_membership oid actor_id d = Inr actor" using assms(7) by (simp add: lock_actor_membership_def)
  have "update_membership E oid (mem_id t) actor_id new_role d =
      Inl (AppError 409 ''last_owner'' ''An organization must keep at least one owner'' None)"
    unfolding update_membership_def a t r_bind_Inr assms(8) using assms(4,6) e by simp
  moreover have "remove_membership E oid (mem_id t) actor_id d =
      Inl (AppError 409 ''last_owner'' ''An organization must keep at least one owner'' None)"
    unfolding remove_membership_def a t r_bind_Inr assms(8) using assms(4) e by simp
  ultimately show ?thesis ..
qed

theorem last_owner_protected_witness:
  "update_membership sample_rt 10 11 1 ADMIN sample_db =
      Inl (AppError 409 ''last_owner'' ''An organization must keep at least one owner'' None)"
proof -
  have "sample_member 11 1 10 OWNER \<in> set (memberships sample_db)"
    "\<forall>m \<in> set (memberships sample_db). mem_organization_id m = 10 \<and> mem_role m = OWNER \<longrightarrow> m = sample_member 11 1 10 OWNER"
    "select_membership sample_db 10 1 = Some (sample_member 11 1 10 OWNER)"
    by (simp_all add: sample_defs select_membership_def)
  from last_owner_protected [OF sample_wf this(1) _ _ this(2) _ this(3), of ADMIN sample_rt] show ?thesis
    by (simp add: sample_member_def)
qed

text \<open>When the identifiers drawn are new and the slug is free, the creation succeeds.\<close>

lemma create_organization_succeeds:
  assumes "wf_db d" "actor_id \<in> user_ids d" "py_lower (oc_slug data) \<notin> org_slug ` set (organizations d)" "rt_uuid E 0 \<notin> org_ids d"
    "rt_uuid E 1 \<notin> mem_id ` set (memberships d)" "rt_uuid E 2 \<notin> sub_id ` set (subscriptions d)"
    "rt_uuid E 3 \<notin> aud_id ` set (audit_logs d)" "calendar_period (rt_clock E 0) = Inr (ps, pe)"
  shows "\<exists>o' d'. create_organization E actor_id data d = Inr (o', d')"
proof -
  let ?o = "\<lparr>org_id = rt_uuid E 0, org_name = oc_name data, org_slug = py_lower (oc_slug data), org_created_at = rt_db_now E, org_updated_at = rt_db_now E\<rparr>"
  let ?m = "\<lparr>mem_id = rt_uuid E 1, mem_user_id = actor_id, mem_organization_id = rt_uuid E 0, mem_role = OWNER, mem_joined_at = rt_db_now E\<rparr>"
  let ?d1 = "d\<lparr>organizations := organizations d @ [?o]\<rparr>"
  let ?d2 = "?d1\<lparr>memberships := memberships d @ [?m]\<rparr>"
  have p: "mem_pair ?m \<notin> mem_pair ` set (memberships d)" "rt_uuid E 0 \<notin> sub_organization_id ` set (subscriptions d)"
    using wf_fk(2,6) [OF assms(1)] assms(4) by (auto simp: mem_pair_def)
  have f: "filter (\<lambda>o'. org_slug o' = py_lower (oc_slug data)) (organizations d) = []" using assms(3) by (auto simp: filter_empty_conv image_iff)
  have 1: "add_organization ?o d = Inr ?d1" using assms(3,4) by (simp add: add_organization_def org_ids_def)
  have 2: "add_membership ?m ?d1 = Inr ?d2" using assms(2,5) p(1) by (simp add: add_membership_def user_ids_def org_ids_def)
  have "\<exists>s. create_default_subscription (later_uuid 2 E) (rt_uuid E 0) None ?d2 = Inr (s, ?d2\<lparr>subscriptions := subscriptions d @ [s]\<rparr>)"
    using assms(6,8) p(2) by (simp add: numeral_2_eq_2 create_default_subscription_def now_or_def add_subscription_def org_ids_def Let_def)
  then obtain s where 3: "create_default_subscription (later_uuid 2 E) (rt_uuid E 0) None ?d2 = Inr (s, ?d2\<lparr>subscriptions := subscriptions d @ [s]\<rparr>)"
    by blast
  have 4: "\<exists>e d'. write_audit (later_uuid 3 E) (rt_uuid E 0) (Some actor_id) ''organization.created'' ''organization'' (uuid_str (rt_uuid E 0)) [] None
      (?d2\<lparr>subscriptions := subscriptions d @ [s]\<rparr>) = Inr (e, d')"
    using assms(2,7) by (simp add: numeral_3_eq_3 write_audit_def add_audit_log_def user_ids_def org_ids_def Let_def)
  show ?thesis using 1 2 3 4 f by (auto simp: create_organization_def Let_def)
qed

text \<open>
  A new organization starts complete: its creator is its one member and owner, it has one
  subscription, active and on the free plan, and its slug is new; no other tenant changes.
\<close>

lemma create_organization_effect:
  assumes "create_organization E actor_id data d = Inr (o', d')" "wf_db d"
  shows "org_id o' \<notin> org_ids d \<and> org_slug o' = py_lower (oc_slug data) \<and> org_slug o' \<notin> org_slug ` set (organizations d) \<and>
    (\<exists>m. filter (\<lambda>m. mem_organization_id m = org_id o') (memberships d') = [m] \<and> mem_user_id m = actor_id \<and> mem_role m = OWNER) \<and>
    (\<exists>s. filter (\<lambda>s. sub_organization_id s = org_id o') (subscriptions d') = [s] \<and> sub_plan s = FREE \<and> sub_status s = ACTIVE) \<and>
    (\<forall>oid. oid \<noteq> org_id o' \<longrightarrow> tenant_view oid d' = tenant_view oid d)"
proof -
  obtain m s where t: "memberships d' = memberships d @ [m]"
    "subscriptions d' = subscriptions d @ [s]" "mem_organization_id m = org_id o'" "mem_user_id m = actor_id" "mem_role m = OWNER"
    "sub_organization_id s = org_id o'" "sub_plan s = FREE" "sub_status s = ACTIVE" "org_id o' \<notin> org_ids d"
    "org_slug o' \<notin> org_slug ` set (organizations d)"
    using assms(1) by (rule create_organization_tables)
  have "org_slug o' = py_lower (oc_slug data)" using assms(1) by (rule create_organization_InrD)
  moreover have "filter (\<lambda>m. mem_organization_id m = org_id o') (memberships d) = []" "filter (\<lambda>s. sub_organization_id s = org_id o') (subscriptions d) = []"
    using wf_fk(2,6) [OF assms(2)] t(9) by (force simp: filter_empty_conv)+
  ultimately show ?thesis using t create_organization_view [OF assms(1)] by simp
qed

text \<open>
  C28. Deleting an organization, which only an owner can do, removes every row that belongs to it,
  its audit trail included, and nothing of any other tenant, and no account, refresh token or webhook.
\<close>

theorem delete_organization_effect:
  assumes "delete_organization E oid actor_id d = Inr (u, d')" "wf_db d"
  shows "(\<exists>m \<in> set (memberships d). mem_organization_id m = oid \<and> mem_user_id m = actor_id \<and> mem_role m = OWNER) \<and>
    tenant_view oid d' = \<lparr>tv_organization = [], tv_memberships = [], tv_invitations = [], tv_api_keys = [], tv_projects = [],
      tv_subscriptions = [], tv_usage_events = [], tv_audit_logs = []\<rparr> \<and>
    (\<forall>oid'. oid' \<noteq> oid \<longrightarrow> tenant_view oid' d' = tenant_view oid' d) \<and> users d' = users d \<and>
    refresh_tokens d' = refresh_tokens d \<and> webhook_events d' = webhook_events d \<and> wf_db d'"
  using assms(1)
proof (rule delete_organization_InrD)
  fix o0 d1 e
  assume a: "select_organization d oid actor_id (\<lambda>r. r = OWNER) = Some o0"
    "write_audit E oid (Some actor_id) ''organization.deleted'' ''organization'' (uuid_str oid) [] None d = Inr (e, d1)"
    "d' = delete_organization_row oid d1"
  have "users d' = users d" "refresh_tokens d' = refresh_tokens d" "webhook_events d' = webhook_events d"
    using write_audit_InrD(2) [OF a(2)] by (simp_all add: a(3) delete_organization_row_def)
  moreover have "tenant_view oid d' = \<lparr>tv_organization = [], tv_memberships = [], tv_invitations = [], tv_api_keys = [], tv_projects = [],
      tv_subscriptions = [], tv_usage_events = [], tv_audit_logs = []\<rparr>"
    by (simp add: a(3) tenant_view_def delete_organization_row_def filter_empty_conv)
  ultimately show ?thesis
    using select_organizationD [OF a(1)] delete_organization_view [OF assms(1)] delete_organization_wf [OF assms] by blast
qed

theorem delete_organization_effect_witness:
  "\<exists>d'. delete_organization sample_rt 10 1 sample_db = Inr ((), d') \<and> tv_audit_logs (tenant_view 10 d') = [] \<and>
     tenant_view 20 d' = tenant_view 20 sample_db"
proof -
  obtain d' where r: "delete_organization sample_rt 10 1 sample_db = Inr ((), d')"
    by (simp add: service_defs cong: r_bind_weak_cong)
  have v: "tv_audit_logs (tenant_view 10 d') = []" "tenant_view 20 d' = tenant_view 20 sample_db"
    using delete_organization_effect [OF r sample_wf] by simp_all
  show ?thesis using r v by blast
qed

text \<open>
  A removal that succeeds was asked for by an owner, or by an administrator for a plain member; the
  user is no longer a member afterwards, everybody else's membership is as before, and no
  organization loses its last owner.
\<close>

lemma remove_membership_effect:
  assumes "remove_membership E oid mid actor_id d = Inr (u, d')" "wf_db d"
  shows "\<exists>actor t. select_membership d oid actor_id = Some actor \<and> t \<in> set (memberships d) \<and> mem_id t = mid \<and> mem_organization_id t = oid \<and>
    (mem_role actor = OWNER \<or> mem_role actor = ADMIN \<and> mem_role t = MEMBER) \<and>
    memberships d' = filter (\<lambda>m. m \<noteq> t) (memberships d) \<and> select_membership d' oid (mem_user_id t) = None \<and>
    (\<forall>oid'. owned d oid' \<longrightarrow> owned d' oid')"
  using assms(1)
proof (rule remove_membership_InrD)
  fix actor t e d1 meta
  assume a: "select_membership d oid actor_id = Some actor" "t \<in> set (memberships d)" "mem_id t = mid" "mem_organization_id t = oid"
    "mem_role actor = OWNER \<or> mem_role actor = ADMIN \<and> mem_role t = MEMBER"
    "mem_role t = OWNER \<longrightarrow>
       (\<exists>m \<in> set (memberships d). mem_organization_id m = oid \<and> mem_role m = OWNER \<and> mem_id m \<noteq> mid)"
    "write_audit E oid (Some actor_id) ''member.removed'' ''membership'' (uuid_str mid) meta None d = Inr (e, d1)"
    "d' = delete_membership_row mid d1"
  note m = write_audit_memberships [OF a(7)]
  have f: "memberships d' = filter (\<lambda>m. m \<noteq> t) (memberships d)"
    using unique_onD [OF wf_unique(7) [OF assms(2)] _ a(2)] a(3) m
    by (auto simp: a(8) delete_membership_row_def intro!: filter_cong)
  have "m = t" if "m \<in> set (memberships d)" "mem_organization_id m = oid" "mem_user_id m = mem_user_id t" for m
    using unique_onD [OF wf_unique(8) [OF assms(2)] that(1) a(2)] that a(4) by (simp add: mem_pair_def)
  then have s: "select_membership d' oid (mem_user_id t) = None" by (auto simp: select_membership_def f filter_empty_conv)
  have "owned d' i" if "owned d i" for i
  proof -
    have "owned d1 i" using that m by (simp add: owned_def)
    then show ?thesis
      using owned_delete_membership [OF write_audit_wf [OF a(7) assms(2)], of t i] a(2-4,6,8) m by simp
  qed
  then show ?thesis using a(1-5) f s by blast
qed

end
