(* ===== verification/Auth.thy ===== *)
theory Auth
  imports Organizations
begin

text \<open>
  The authentication service, \<^verbatim>\<open>app/services/auth.py\<close>: registration, password login, and refresh
  tokens that are rotated on use. The lemmas show that a refresh token yields new tokens at most
  once, that a revoked, expired or foreign token yields none, and that a login succeeds only with a
  verified password of an active account.
\<close>

record issued_tokens =
  access_token :: string
  refresh_token_value :: string
  expires_in :: int

definition register_user :: "ext \<Rightarrow> runtime \<Rightarrow> string \<Rightarrow> string \<Rightarrow> db \<Rightarrow> exc + user \<times> db" where
  "register_user X E email0 password d =
     (let email = py_lower (py_strip email0);
          email_taken = ConflictError ''email_taken'' ''An account with this email already exists'' in
      r_bind (raise_if (scalar (filter (\<lambda>u. usr_email u = email) (users d)) \<noteq> None) email_taken) (\<lambda>_.
      let user = \<lparr>usr_id = rt_uuid E 0, usr_email = email, usr_password_hash = hash_password X E password,
            usr_is_active = True, usr_is_verified = False, usr_created_at = rt_db_now E, usr_updated_at = rt_db_now E\<rparr> in
      r_bind (on_integrity_error email_taken (add_user user d)) (\<lambda>d1. Inr (user, d1))))"

text \<open>\<open>dummy_hash\<close> is the module's hash of a password nobody has.\<close>

definition authenticate_user :: "ext \<Rightarrow> string \<Rightarrow> string \<Rightarrow> string \<Rightarrow> db \<Rightarrow> exc + user" where
  "authenticate_user X dummy_hash email0 password d =
     (let email = py_lower (py_strip email0);
          user = scalar (filter (\<lambda>u. usr_email u = email) (users d));
          candidate_hash = (case user of Some u \<Rightarrow> usr_password_hash u | None \<Rightarrow> dummy_hash) in
      r_bind (verify_password X password candidate_hash) (\<lambda>password_matches.
      case user of
        None \<Rightarrow> Inl (AuthenticationError ''invalid_credentials'' ''Invalid email or password'')
      | Some u \<Rightarrow> if \<not> password_matches \<or> \<not> usr_is_active u
                 then Inl (AuthenticationError ''invalid_credentials'' ''Invalid email or password'') else Inr u))"

definition issue_tokens :: "ext \<Rightarrow> settings \<Rightarrow> runtime \<Rightarrow> user \<Rightarrow> db \<Rightarrow> exc + issued_tokens \<times> db" where
  "issue_tokens X S E user d =
     r_bind (raise_if (\<not> usr_is_active user) (AuthenticationError ''inactive_user'' ''This account is inactive'')) (\<lambda>_.
     let now = rt_clock E 0;
         refresh_token = generate_opaque_token E in
     r_bind (add_days now (refresh_token_expire_days S)) (\<lambda>expires_at.
     r_bind (create_access_token X S (later_clock 1 E) (usr_id user)) (\<lambda>(access_token, expires_in).
     r_bind (add_refresh_token \<lparr>rft_id = rt_uuid E 1, rft_user_id = usr_id user, rft_token_hash = hash_token X refresh_token,
        rft_expires_at = expires_at, rft_revoked_at = None, rft_created_at = now\<rparr> d) (\<lambda>d1.
     Inr (\<lparr>access_token = access_token, refresh_token_value = refresh_token, expires_in = expires_in\<rparr>, d1)))))"

definition has_expired :: "datetime \<Rightarrow> datetime \<Rightarrow> bool" where
  "has_expired expires_at now =
     (let comparable_now = (if tzinfo expires_at \<noteq> None then now else replace_tzinfo now None)
      in dt_le expires_at comparable_now)"

definition find_refresh_token :: "ext \<Rightarrow> string \<Rightarrow> db \<Rightarrow> refresh_token option" where
  "find_refresh_token X raw_token d =
     scalar (filter (\<lambda>t. rft_token_hash t = hash_token X raw_token) (refresh_tokens d))"

definition find_user :: "uuid \<Rightarrow> db \<Rightarrow> user option" where
  "find_user i d = scalar (filter (\<lambda>u. usr_id u = i) (users d))"

definition rotate_refresh_token :: "ext \<Rightarrow> settings \<Rightarrow> runtime \<Rightarrow> string \<Rightarrow> db \<Rightarrow> exc + issued_tokens \<times> db" where
  "rotate_refresh_token X S E raw_token d =
     (let now = rt_clock E 0 in
      r_bind (require (find_refresh_token X raw_token d)
        (AuthenticationError ''invalid_refresh_token'' ''Invalid refresh token'')) (\<lambda>stored_token.
      r_bind (raise_if (rft_revoked_at stored_token \<noteq> None)
        (AuthenticationError ''refresh_token_reused'' ''Refresh token has already been used'')) (\<lambda>_.
      r_bind (raise_if (has_expired (rft_expires_at stored_token) now)
        (AuthenticationError ''refresh_token_expired'' ''Refresh token has expired'')) (\<lambda>_.
      r_bind (require (case find_user (rft_user_id stored_token) d of Some u \<Rightarrow> if usr_is_active u then Some u else None | None \<Rightarrow> None)
        (AuthenticationError ''inactive_user'' ''This account is inactive'')) (\<lambda>user.
      let d1 = save_refresh_token (stored_token\<lparr>rft_revoked_at := Some now\<rparr>) d in
      issue_tokens X S (later_clock 1 E) user d1)))))"

definition revoke_refresh_token :: "ext \<Rightarrow> runtime \<Rightarrow> string \<Rightarrow> db \<Rightarrow> exc + unit \<times> db" where
  "revoke_refresh_token X E raw_token d =
     r_bind (require (find_refresh_token X raw_token d)
       (AuthenticationError ''invalid_refresh_token'' ''Invalid refresh token'')) (\<lambda>stored_token.
     if rft_revoked_at stored_token = None
     then Inr ((), save_refresh_token (stored_token\<lparr>rft_revoked_at := Some (rt_clock E 0)\<rparr>) d)
     else Inr ((), d))"

declare register_user_def [service_defs] authenticate_user_def [service_defs] issue_tokens_def [service_defs]
  has_expired_def [service_defs] find_refresh_token_def [service_defs] find_user_def [service_defs]
  rotate_refresh_token_def [service_defs] revoke_refresh_token_def [service_defs]

section \<open>Inversion of successful operations\<close>

lemma register_user_InrD:
  assumes "register_user X E email pw d = Inr (u, d')"
  shows "add_user u d = Inr d'" "usr_email u = py_lower (py_strip email)" "usr_is_active u" "usr_password_hash u = hash_password X E pw"
  using assms by (auto simp: register_user_def Let_def)

lemma add_user_InrD: "add_user u d = Inr d' \<Longrightarrow> d' = d\<lparr>users := users d @ [u]\<rparr> \<and> usr_email u \<notin> usr_email ` set (users d)"
  by (auto simp: add_user_def split: if_splits)

lemma authenticate_user_InrD:
  assumes "authenticate_user X dummy email pw d = Inr u"
  shows "u \<in> set (users d)" "usr_email u = py_lower (py_strip email)" "usr_is_active u"
    "verify_password X pw (usr_password_hash u) = Inr True"
  using assms by (auto simp: authenticate_user_def Let_def split: option.splits if_splits dest!: scalar_filter_SomeD)

lemma issue_tokens_InrD:
  assumes "issue_tokens X S E u d = Inr (k, d')"
  obtains t where "add_refresh_token t d = Inr d'" "rft_user_id t = usr_id u" "rft_revoked_at t = None"
    "rft_token_hash t = hash_token X (refresh_token_value k)" "usr_is_active u"
    "create_access_token X S (later_clock 1 E) (usr_id u) = Inr (access_token k, expires_in k)"
    "add_days (rt_clock E 0) (refresh_token_expire_days S) = Inr (rft_expires_at t)"
  using assms by (auto simp: issue_tokens_def Let_def)

lemma find_refresh_tokenD:
  "find_refresh_token X raw d = Some t \<Longrightarrow> t \<in> set (refresh_tokens d) \<and> rft_token_hash t = hash_token X raw"
  by (auto simp: find_refresh_token_def dest: scalar_filter_SomeD)

lemma find_refresh_token_unique:
  assumes "wf_db d" "t \<in> set (refresh_tokens d)" "rft_token_hash t = hash_token X raw"
  shows "find_refresh_token X raw d = Some t"
  unfolding find_refresh_token_def
  by (rule scalar_filter_unique [OF wf_unique(4) [OF assms(1)] assms(2)]) (simp_all add: assms(3))

lemma find_userD: "find_user i d = Some u \<Longrightarrow> u \<in> set (users d) \<and> usr_id u = i"
  by (auto simp: find_user_def dest: scalar_filter_SomeD)

lemma rotate_refresh_token_InrD:
  assumes "rotate_refresh_token X S E raw d = Inr (k, d')"
  obtains t u where "find_refresh_token X raw d = Some t" "rft_revoked_at t = None" "\<not> has_expired (rft_expires_at t) (rt_clock E 0)"
    "find_user (rft_user_id t) d = Some u" "usr_is_active u"
    "issue_tokens X S (later_clock 1 E) u (save_refresh_token (t\<lparr>rft_revoked_at := Some (rt_clock E 0)\<rparr>) d) = Inr (k, d')"
  using assms by (auto simp: rotate_refresh_token_def Let_def split: option.splits if_splits)

section \<open>Well-formedness\<close>

lemma register_user_wf: "register_user X E email pw d = Inr (u, d') \<Longrightarrow> wf_db d \<Longrightarrow> wf_db d'"
  by (blast dest: register_user_InrD(1) intro: wf_add_user)

lemma issue_tokens_wf: "issue_tokens X S E u d = Inr (k, d') \<Longrightarrow> wf_db d \<Longrightarrow> wf_db d'"
  by (erule issue_tokens_InrD) (rule wf_add_refresh_token)

lemma revoke_row_wf:
  "wf_db d \<Longrightarrow> t \<in> set (refresh_tokens d) \<Longrightarrow> wf_db (save_refresh_token (t\<lparr>rft_revoked_at := x\<rparr>) d)"
  by (rule wf_save_refresh_token [of d t]) simp_all

lemma rotate_refresh_token_wf: "rotate_refresh_token X S E raw d = Inr (k, d') \<Longrightarrow> wf_db d \<Longrightarrow> wf_db d'"
  by (erule rotate_refresh_token_InrD) (metis issue_tokens_wf revoke_row_wf find_refresh_tokenD)

lemma revoke_refresh_token_InrD:
  assumes "revoke_refresh_token X E raw d = Inr (u, d')"
  obtains t where "find_refresh_token X raw d = Some t"
    "d' = d \<and> rft_revoked_at t \<noteq> None \<or> d' = save_refresh_token (t\<lparr>rft_revoked_at := Some (rt_clock E 0)\<rparr>) d"
  using assms by (auto simp: revoke_refresh_token_def split: if_splits)

lemma revoke_refresh_token_wf: "revoke_refresh_token X E raw d = Inr (u, d') \<Longrightarrow> wf_db d \<Longrightarrow> wf_db d'"
  by (erule revoke_refresh_token_InrD) (metis revoke_row_wf find_refresh_tokenD)

text \<open>None of these operations touches tenant data or completeness.\<close>

lemma auth_view:
  "register_user X E email pw d = Inr (u, d') \<Longrightarrow> tenant_view oid d' = tenant_view oid d"
  "rotate_refresh_token X S E raw d = Inr (k, d') \<Longrightarrow> tenant_view oid d' = tenant_view oid d"
  "revoke_refresh_token X E raw d = Inr (n, d') \<Longrightarrow> tenant_view oid d' = tenant_view oid d"
  "issue_tokens X S E u d = Inr (k, d') \<Longrightarrow> tenant_view oid d' = tenant_view oid d"
proof -
  show i: "issue_tokens X S E u d = Inr (k, d') \<Longrightarrow> tenant_view oid d' = tenant_view oid d" for E u d d'
    by (erule issue_tokens_InrD) (rule tenant_view_add(2))
  show "register_user X E email pw d = Inr (u, d') \<Longrightarrow> tenant_view oid d' = tenant_view oid d"
    by (blast dest: register_user_InrD(1) intro: tenant_view_add(1))
  show "rotate_refresh_token X S E raw d = Inr (k, d') \<Longrightarrow> tenant_view oid d' = tenant_view oid d"
    by (erule rotate_refresh_token_InrD) (metis i tenant_view_save_frame(1))
  show "revoke_refresh_token X E raw d = Inr (n, d') \<Longrightarrow> tenant_view oid d' = tenant_view oid d"
    by (erule revoke_refresh_token_InrD) auto
qed

lemma add_refresh_token_InrD:
  "add_refresh_token t d = Inr d' \<Longrightarrow> d' = d\<lparr>refresh_tokens := refresh_tokens d @ [t]\<rparr> \<and>
     rft_token_hash t \<notin> rft_token_hash ` set (refresh_tokens d)"
  by (auto simp: add_refresh_token_def split: if_splits)

lemma auth_complete:
  "register_user X E email pw d = Inr (u, d') \<Longrightarrow> orgs_complete d' = orgs_complete d"
  "issue_tokens X S E u d = Inr (k, d') \<Longrightarrow> orgs_complete d' = orgs_complete d"
  "rotate_refresh_token X S E raw d = Inr (k, d') \<Longrightarrow> orgs_complete d' = orgs_complete d"
  "revoke_refresh_token X E raw d = Inr (n, d') \<Longrightarrow> orgs_complete d' = orgs_complete d"
proof -
  have s: "orgs_complete (save_refresh_token t d) = orgs_complete d" for t d
    by (rule orgs_complete_cong) (simp_all add: save_refresh_token_def)
  show i: "issue_tokens X S E u d = Inr (k, d') \<Longrightarrow> orgs_complete d' = orgs_complete d" for E u d d'
    by (erule issue_tokens_InrD, drule add_refresh_token_InrD, rule orgs_complete_cong) simp_all
  show "register_user X E email pw d = Inr (u, d') \<Longrightarrow> orgs_complete d' = orgs_complete d"
    by (drule register_user_InrD(1), drule add_user_InrD, rule orgs_complete_cong) simp_all
  show "rotate_refresh_token X S E raw d = Inr (k, d') \<Longrightarrow> orgs_complete d' = orgs_complete d"
    by (erule rotate_refresh_token_InrD, drule i) (simp add: s)
  show "revoke_refresh_token X E raw d = Inr (n, d') \<Longrightarrow> orgs_complete d' = orgs_complete d"
    by (erule revoke_refresh_token_InrD) (auto simp: s)
qed

section \<open>Refresh tokens are used once\<close>

definition refresh_spent :: "ext \<Rightarrow> string \<Rightarrow> db \<Rightarrow> bool" where
  "refresh_spent X raw d = (\<exists>t \<in> set (refresh_tokens d). rft_token_hash t = hash_token X raw \<and> rft_revoked_at t \<noteq> None)"

lemma refresh_spent_revoke:
  assumes "wf_db d" "t \<in> set (refresh_tokens d)" "refresh_spent X raw d \<or> rft_token_hash t = hash_token X raw" "x \<noteq> None"
  shows "refresh_spent X raw (save_refresh_token (t\<lparr>rft_revoked_at := x\<rparr>) d)"
proof -
  let ?t = "t\<lparr>rft_revoked_at := x\<rparr>"
  have s: "r \<in> set (refresh_tokens (save_refresh_token ?t d)) \<longleftrightarrow> (r \<in> set (refresh_tokens d) \<and> rft_id r \<noteq> rft_id t) \<or> r = ?t" for r
    using in_set_save_row [of t "refresh_tokens d" rft_id ?t r] assms(2) by (simp add: save_refresh_token_def)
  show ?thesis
  proof (cases "rft_token_hash t = hash_token X raw")
    case True
    then show ?thesis using s [of ?t] assms(4) unfolding refresh_spent_def by (intro bexI [of _ ?t]) simp_all
  next
    case False
    with assms(3) obtain r where r: "r \<in> set (refresh_tokens d)" "rft_token_hash r = hash_token X raw" "rft_revoked_at r \<noteq> None"
      by (auto simp: refresh_spent_def)
    have "rft_id r \<noteq> rft_id t" using unique_onD [OF wf_unique(3) [OF assms(1)] r(1) assms(2)] r(2) False by auto
    then show ?thesis using s [of r] r unfolding refresh_spent_def by blast
  qed
qed

lemma refresh_spent_mono: "set (refresh_tokens d) \<subseteq> set (refresh_tokens d') \<Longrightarrow> refresh_spent X raw d \<Longrightarrow> refresh_spent X raw d'"
  by (auto simp: refresh_spent_def)

lemma issue_tokens_spent: "issue_tokens X S E u d = Inr (k, d') \<Longrightarrow> refresh_spent Y raw d \<Longrightarrow> refresh_spent Y raw d'"
  by (erule issue_tokens_InrD, drule add_refresh_token_InrD, rule refresh_spent_mono) auto

lemma rotate_spent:
  assumes "rotate_refresh_token X S E raw d = Inr (k, d')" "wf_db d" "refresh_spent X raw' d \<or> raw' = raw"
  shows "refresh_spent X raw' d'"
  using assms(1)
proof (rule rotate_refresh_token_InrD)
  fix t u
  assume t: "find_refresh_token X raw d = Some t"
    and i: "issue_tokens X S (later_clock 1 E) u (save_refresh_token (t\<lparr>rft_revoked_at := Some (rt_clock E 0)\<rparr>) d) = Inr (k, d')"
  have "refresh_spent X raw' (save_refresh_token (t\<lparr>rft_revoked_at := Some (rt_clock E 0)\<rparr>) d)"
    using find_refresh_tokenD [OF t] assms(2,3) by (intro refresh_spent_revoke) auto
  then show ?thesis by (rule issue_tokens_spent [OF i])
qed

lemma spent_refused:
  assumes "refresh_spent X raw d" "wf_db d"
  shows "rotate_refresh_token X S E raw d = Inl (AuthenticationError ''refresh_token_reused'' ''Refresh token has already been used'')"
proof -
  obtain t where "t \<in> set (refresh_tokens d)" "rft_token_hash t = hash_token X raw" "rft_revoked_at t \<noteq> None"
    using assms(1) by (auto simp: refresh_spent_def)
  with find_refresh_token_unique [OF assms(2)] have "find_refresh_token X raw d = Some t" "rft_revoked_at t \<noteq> None" by blast+
  then show ?thesis by (auto simp: rotate_refresh_token_def)
qed

section \<open>The contracts hold\<close>

interpretation refresh: one_time_token "\<lambda>(S, E, raw). rotate_refresh_token X S E raw" "\<lambda>(S, E, raw). raw" "refresh_spent X"
  for X :: ext
  by unfold_locales (auto intro: rotate_refresh_token_wf rotate_spent simp: spent_refused)

interpretation register_service: complete_service "\<lambda>(X, E, email, pw). register_user X E email pw"
  by unfold_locales (auto intro: register_user_wf simp: auth_complete)

interpretation rotate_service: complete_service "\<lambda>(X, S, E, raw). rotate_refresh_token X S E raw"
  by unfold_locales (auto intro: rotate_refresh_token_wf simp: auth_complete)

interpretation revoke_service: complete_service "\<lambda>(X, E, raw). revoke_refresh_token X E raw"
  by unfold_locales (auto intro: revoke_refresh_token_wf simp: auth_complete)

lemma revoke_refresh_token_spent:
  assumes "revoke_refresh_token X E raw d = Inr (u, d')" "wf_db d"
  shows "refresh_spent X raw d'"
  using assms(1)
proof (rule revoke_refresh_token_InrD)
  fix t
  assume t: "find_refresh_token X raw d = Some t"
    and d': "d' = d \<and> rft_revoked_at t \<noteq> None \<or> d' = save_refresh_token (t\<lparr>rft_revoked_at := Some (rt_clock E 0)\<rparr>) d"
  note f = find_refresh_tokenD [OF t]
  from d' show ?thesis
  proof
    assume "d' = d \<and> rft_revoked_at t \<noteq> None"
    then show ?thesis using f by (auto simp: refresh_spent_def)
  next
    assume "d' = save_refresh_token (t\<lparr>rft_revoked_at := Some (rt_clock E 0)\<rparr>) d"
    then show ?thesis using refresh_spent_revoke [OF assms(2), of t X raw] f by simp
  qed
qed

section \<open>Sessions in sequence\<close>

text \<open>The operations on accounts and refresh tokens that any request may perform later.\<close>

inductive token_step :: "ext \<Rightarrow> db \<Rightarrow> db \<Rightarrow> bool" for X where
  step_register: "register_user X E email pw d = Inr (u, d') \<Longrightarrow> token_step X d d'"
| step_login: "issue_tokens X S E user d = Inr (k, d') \<Longrightarrow> token_step X d d'"
| step_rotate: "rotate_refresh_token X S E raw d = Inr (k, d') \<Longrightarrow> token_step X d d'"
| step_logout: "revoke_refresh_token X E raw d = Inr (n, d') \<Longrightarrow> token_step X d d'"

lemma token_step_spent:
  assumes "token_step X d d'" "wf_db d \<and> refresh_spent X raw d"
  shows "wf_db d' \<and> refresh_spent X raw d'"
  using assms(1)
proof cases
  case (step_register E email pw u)
  have "refresh_tokens d' = refresh_tokens d" using add_user_InrD [OF register_user_InrD(1) [OF step_register]] by simp
  then show ?thesis using assms(2) register_user_wf [OF step_register] by (simp add: refresh_spent_def)
next
  case (step_login S E user k)
  then show ?thesis using assms(2) issue_tokens_wf issue_tokens_spent by blast
next
  case (step_rotate S E raw' k)
  then show ?thesis using assms(2) rotate_refresh_token_wf rotate_spent by blast
next
  case (step_logout E raw' n)
  have "refresh_spent X raw d'"
    using step_logout
  proof (rule revoke_refresh_token_InrD)
    fix t
    assume t: "find_refresh_token X raw' d = Some t"
      and "d' = d \<and> rft_revoked_at t \<noteq> None \<or> d' = save_refresh_token (t\<lparr>rft_revoked_at := Some (rt_clock E 0)\<rparr>) d"
    then show ?thesis
      using assms(2) find_refresh_tokenD [OF t] refresh_spent_revoke [of d t X raw "Some (rt_clock E 0)"] by auto
  qed
  then show ?thesis using assms(2) revoke_refresh_token_wf [OF step_logout] by simp
qed

lemma token_steps_spent:
  assumes "(token_step X)\<^sup>*\<^sup>* d d'" "wf_db d" "refresh_spent X raw d"
  shows "wf_db d' \<and> refresh_spent X raw d'"
  using assms(1)
proof induction
  case base
  then show ?case using assms(2,3) by simp
next
  case (step y z)
  then show ?case using token_step_spent by blast
qed

section \<open>Properties\<close>

text \<open>
  However a refresh token is presented, at most one of any sequence of rotations (each in its own
  session, at any times, with any settings) succeeds with it.
\<close>

lemma refresh_token_at_most_once:
  assumes "wf_db d"
  shows "length (filter (\<lambda>((S, E, raw), r). raw = t \<and> \<not> isl r)
    (zip requests (outcomes (\<lambda>(S, E, raw). rotate_refresh_token X S E raw) requests d))) \<le> 1"
  using refresh.at_most_once [OF assms, of t requests] by (simp add: case_prod_beta')

text \<open>
  A successful rotation or logout spends the token it was given: using it again, at any later
  time, is refused as a reuse.
\<close>

lemma refresh_token_reuse_refused:
  assumes "wf_db d" "rotate_refresh_token X S E raw d = Inr (k, d') \<or> revoke_refresh_token X E raw d = Inr ((), d')"
  shows "rotate_refresh_token X S' E' raw d' =
    Inl (AppError 401 ''refresh_token_reused'' ''Refresh token has already been used'' (Some [(''WWW-Authenticate'', ''Bearer'')]))"
proof -
  have "refresh_spent X raw d' \<and> wf_db d'"
    using assms(2)
  proof
    assume r: "rotate_refresh_token X S E raw d = Inr (k, d')"
    show ?thesis using rotate_spent [OF r assms(1)] rotate_refresh_token_wf [OF r assms(1)] by simp
  next
    assume r: "revoke_refresh_token X E raw d = Inr ((), d')"
    show ?thesis using revoke_refresh_token_spent [OF r assms(1)] revoke_refresh_token_wf [OF r assms(1)] by simp
  qed
  then show ?thesis using spent_refused [of X raw d' S' E'] by (simp add: AuthenticationError_def)
qed

text \<open>
  C35. A refresh token is exchanged once, for its own account: whoever gets new tokens presented one that
  was stored, neither revoked nor expired, of an active account. The access token and the new refresh token
  are of this account; the new one is stored by its hash, open, with a new expiry. The old one is refused
  as reused from then on, whatever registrations, logins, rotations and logouts follow.
\<close>

theorem refresh_token_rotation:
  assumes "rotate_refresh_token X S E raw d = Inr (k, d')" "wf_db d" "(token_step X)\<^sup>*\<^sup>* d' d''"
  shows "(\<exists>u t t'. u \<in> set (users d) \<and> usr_is_active u \<and>
      t \<in> set (refresh_tokens d) \<and> rft_token_hash t = hash_token X raw \<and> rft_user_id t = usr_id u \<and> rft_revoked_at t = None \<and>
      \<not> has_expired (rft_expires_at t) (rt_clock E 0) \<and>
      create_access_token X S (later_clock 2 E) (usr_id u) = Inr (access_token k, expires_in k) \<and>
      set (refresh_tokens d') = insert t' (insert (t\<lparr>rft_revoked_at := Some (rt_clock E 0)\<rparr>) (set (refresh_tokens d) - {t})) \<and>
      rft_token_hash t' = hash_token X (refresh_token_value k) \<and> rft_user_id t' = usr_id u \<and> rft_revoked_at t' = None \<and>
      add_days (rt_clock E 1) (refresh_token_expire_days S) = Inr (rft_expires_at t')) \<and>
    (\<forall>S' E'. rotate_refresh_token X S' E' raw d'' =
      Inl (AppError 401 ''refresh_token_reused'' ''Refresh token has already been used'' (Some [(''WWW-Authenticate'', ''Bearer'')])))"
proof
  have s: "wf_db d'' \<and> refresh_spent X raw d''"
    by (rule token_steps_spent [OF assms(3) rotate_refresh_token_wf [OF assms(1,2)]]) (rule rotate_spent [OF assms(1,2)], simp)
  then show "\<forall>S' E'. rotate_refresh_token X S' E' raw d'' =
      Inl (AppError 401 ''refresh_token_reused'' ''Refresh token has already been used'' (Some [(''WWW-Authenticate'', ''Bearer'')]))"
    using spent_refused [of X raw d''] by (simp add: AuthenticationError_def)
  obtain t u where t: "find_refresh_token X raw d = Some t" "rft_revoked_at t = None" "\<not> has_expired (rft_expires_at t) (rt_clock E 0)"
    "find_user (rft_user_id t) d = Some u" "usr_is_active u"
    "issue_tokens X S (later_clock 1 E) u (save_refresh_token (t\<lparr>rft_revoked_at := Some (rt_clock E 0)\<rparr>) d) = Inr (k, d')"
    by (rule rotate_refresh_token_InrD [OF assms(1)])
  let ?t = "t\<lparr>rft_revoked_at := Some (rt_clock E 0)\<rparr>"
  obtain t' where t': "add_refresh_token t' (save_refresh_token ?t d) = Inr d'" "rft_user_id t' = usr_id u" "rft_revoked_at t' = None"
    "rft_token_hash t' = hash_token X (refresh_token_value k)"
    "create_access_token X S (later_clock 1 (later_clock 1 E)) (usr_id u) = Inr (access_token k, expires_in k)"
    "add_days (rt_clock (later_clock 1 E) 0) (refresh_token_expire_days S) = Inr (rft_expires_at t')"
    by (rule issue_tokens_InrD [OF t(6)]) blast
  note f = find_refresh_tokenD [OF t(1)]
  have "x = t" if "x \<in> set (refresh_tokens d)" "rft_id x = rft_id t" for x
    by (rule unique_onD [OF wf_unique(3) [OF assms(2)] that(1) _ that(2)]) (use f in simp)
  then have "set (refresh_tokens (save_refresh_token ?t d)) = insert ?t (set (refresh_tokens d) - {t})"
    using in_set_save_row [of t "refresh_tokens d" rft_id ?t] f by (auto simp: save_refresh_token_def)
  then have r: "set (refresh_tokens d') = insert t' (insert ?t (set (refresh_tokens d) - {t}))"
    using add_refresh_token_InrD [OF t'(1)] by auto
  have c: "later_clock 1 (later_clock 1 E) = later_clock 2 E" "rt_clock (later_clock 1 E) 0 = rt_clock E 1"
    by (simp_all add: later_clock_def numeral_2_eq_2)
  show "\<exists>u t t'. u \<in> set (users d) \<and> usr_is_active u \<and>
      t \<in> set (refresh_tokens d) \<and> rft_token_hash t = hash_token X raw \<and> rft_user_id t = usr_id u \<and> rft_revoked_at t = None \<and>
      \<not> has_expired (rft_expires_at t) (rt_clock E 0) \<and>
      create_access_token X S (later_clock 2 E) (usr_id u) = Inr (access_token k, expires_in k) \<and>
      set (refresh_tokens d') = insert t' (insert (t\<lparr>rft_revoked_at := Some (rt_clock E 0)\<rparr>) (set (refresh_tokens d) - {t})) \<and>
      rft_token_hash t' = hash_token X (refresh_token_value k) \<and> rft_user_id t' = usr_id u \<and> rft_revoked_at t' = None \<and>
      add_days (rt_clock E 1) (refresh_token_expire_days S) = Inr (rft_expires_at t')"
    using f t(2,3,5) find_userD [OF t(4)] t'(2-6) r
    by (intro exI [of _ u] exI [of _ t] exI [of _ t'] conjI) (simp_all add: c [simplified] c)
qed

theorem refresh_token_rotation_witness:
  "\<exists>k d' d''. rotate_refresh_token sample_ext default_settings sample_rt ''rrr'' sample_db = Inr (k, d') \<and>
     register_user sample_ext sample_rt ''new@a.io'' ''pw'' d' = Inr d'' \<and>
     isl (rotate_refresh_token sample_ext default_settings sample_rt ''rrr'' (snd d''))"
proof -
  have l: "later_clock n sample_rt = sample_rt" for n by (simp add: later_clock_def sample_rt_def)
  have "\<not> isl (add_micros sample_now (900 * 1000000))" by code_simp
  then obtain token ttl where c: "create_access_token sample_ext default_settings sample_rt 1 = Inr (token, ttl)"
    by (cases "add_micros sample_now (900 * 1000000)") (auto simp: create_access_token_def default_settings_def sample_rt_def Let_def)
  have "\<not> isl (add_days sample_now (refresh_token_expire_days default_settings))" by code_simp
  then obtain x where x: "add_days sample_now (refresh_token_expire_days default_settings) = Inr x"
    by (cases "add_days sample_now (refresh_token_expire_days default_settings)") simp_all
  have v: "\<not> has_expired (sample_now\<lparr>month := 6\<rparr>) sample_now" by code_simp
  have t: "find_refresh_token sample_ext ''rrr'' sample_db = Some \<lparr>rft_id = 60, rft_user_id = 1, rft_token_hash = ''h:rrr'',
        rft_expires_at = sample_now\<lparr>month := 6\<rparr>, rft_revoked_at = None, rft_created_at = sample_now\<rparr>"
    "find_user 1 sample_db = Some (sample_user 1 ''ann@a.io'')"
    by (simp_all add: find_refresh_token_def find_user_def hash_token_def sample_ext_def plain_ext_def sample_db_def sample_user_def)
  have e: "rt_clock sample_rt n = sample_now" "usr_id (sample_user 1 ''ann@a.io'') = 1" "usr_is_active (sample_user 1 ''ann@a.io'')" for n
    by (simp_all add: sample_rt_def sample_user_def)
  have "length (hash_token sample_ext (generate_opaque_token sample_rt)) \<noteq> length ''h:rrr''"
    by (simp add: hash_token_def generate_opaque_token_def sample_ext_def plain_ext_def sample_rt_def)
  then have g: "hash_token sample_ext (generate_opaque_token sample_rt) \<noteq> ''h:rrr''" "rt_uuid sample_rt (Suc 0) \<noteq> 60"
    by (metis, simp add: sample_rt_def)
  have "\<exists>k d'. rotate_refresh_token sample_ext default_settings sample_rt ''rrr'' sample_db = Inr (k, d') \<and> users d' = users sample_db"
    unfolding rotate_refresh_token_def issue_tokens_def Let_def t(1) l e require_simps r_bind_Inr
    using t(2) v x c e g by (simp add: l add_refresh_token_def save_refresh_token_def) (simp add: sample_db_def sample_user_def user_ids_def save_row_def update_where_def)
  then obtain k d' where r: "rotate_refresh_token sample_ext default_settings sample_rt ''rrr'' sample_db = Inr (k, d')" "users d' = users sample_db"
    by blast
  have "\<exists>u d''. register_user sample_ext sample_rt ''new@a.io'' ''pw'' d' = Inr (u, d'')"
    using r(2) by (simp add: register_user_def add_user_def user_ids_def sample_db_def sample_user_def sample_rt_def Let_def) code_simp
  then obtain u d'' where g: "register_user sample_ext sample_rt ''new@a.io'' ''pw'' d' = Inr (u, d'')" by blast
  have "(token_step sample_ext)\<^sup>*\<^sup>* d' d''" by (rule r_into_rtranclp) (rule step_register [OF g])
  from refresh_token_rotation [OF r(1) sample_wf this] r(1) g show ?thesis by auto
qed

text \<open>
  An account that has registered logs in with its password and with no other outcome than that
  account, given that the password library verifies the hashes it makes.
\<close>

lemma register_then_login:
  assumes "\<And>salt p. pw_verify X p (pw_hash X salt p) = Inr True" "register_user X E email password d = Inr (u, d')"
  shows "authenticate_user X dummy_hash email password d' = Inr u"
proof -
  note r = register_user_InrD [OF assms(2)]
  have "users d' = users d @ [u]" "usr_email u \<notin> usr_email ` set (users d)" using add_user_InrD [OF r(1)] by simp_all
  then have "filter (\<lambda>v. usr_email v = py_lower (py_strip email)) (users d') = [u]"
    using r(2) by (auto simp: filter_empty_conv image_iff)
  moreover have "verify_password X password (usr_password_hash u) = Inr True"
    using assms(1) r(4) by (simp add: verify_password_def hash_password_def)
  ultimately show ?thesis using r(3) by (simp add: authenticate_user_def)
qed

text \<open>
  What is relied on of the password library (pwdlib with Argon2): it verifies a hash with the password
  the hash was made of, and it answers for every password when the hash is one of its own. Nothing is
  assumed of other strings, for which it raises. \<open>own_hashes\<close>: the stored hashes are the library's.
\<close>

definition password_library :: "ext \<Rightarrow> bool" where
  "password_library X \<longleftrightarrow> (\<forall>salt p. pw_verify X p (pw_hash X salt p) = Inr True) \<and>
     (\<forall>salt p q. \<exists>b. pw_verify X q (pw_hash X salt p) = Inr b)"

definition own_hashes :: "ext \<Rightarrow> db \<Rightarrow> bool" where
  "own_hashes X d \<longleftrightarrow> (\<forall>u \<in> set (users d). \<exists>salt p. usr_password_hash u = pw_hash X salt p)"

lemma verify_own_hash: "password_library X \<Longrightarrow> \<exists>b. verify_password X q (pw_hash X salt p) = Inr b"
  unfolding password_library_def verify_password_def by (metis sum.case(2))

lemma register_user_own_hashes: "register_user X E email password d = Inr (u, d') \<Longrightarrow> own_hashes X d \<Longrightarrow> own_hashes X d'"
  using register_user_InrD [of X E email password d u d'] add_user_InrD [of u d d']
  by (auto simp: own_hashes_def hash_password_def)

text \<open>
  C23. A login succeeds exactly for the active account with the normalized email whose stored hash
  verifies; every other login gets the same answer, whether the account exists or not. The hashes
  are those the password library made of the registered passwords and of the dummy password. Every
  registration keeps it so, and a registered account logs in with its password.
\<close>

theorem login_exact:
  assumes "wf_db d" "password_library X" "own_hashes X d" "dummy_hash = hash_password X E0 ''not-a-real-user-password''"
  shows "(\<forall>u. authenticate_user X dummy_hash email password d = Inr u \<longleftrightarrow>
      u \<in> set (users d) \<and> usr_email u = py_lower (py_strip email) \<and> usr_is_active u \<and>
      verify_password X password (usr_password_hash u) = Inr True) \<and>
    (\<forall>e. authenticate_user X dummy_hash email password d = Inl e \<longrightarrow>
      e = AppError 401 ''invalid_credentials'' ''Invalid email or password'' (Some [(''WWW-Authenticate'', ''Bearer'')])) \<and>
    (\<forall>E email password u d'. register_user X E email password d = Inr (u, d') \<longrightarrow>
      own_hashes X d' \<and> authenticate_user X dummy_hash email password d' = Inr u)"
proof (intro conjI allI impI iffI)
  fix u
  assume u: "u \<in> set (users d) \<and> usr_email u = py_lower (py_strip email) \<and> usr_is_active u \<and>
      verify_password X password (usr_password_hash u) = Inr True"
  then have "scalar (filter (\<lambda>v. usr_email v = py_lower (py_strip email)) (users d)) = Some u"
    using scalar_filter_unique [OF wf_unique(2) [OF assms(1)], of u "\<lambda>v. usr_email v = py_lower (py_strip email)"] by simp
  with u show "authenticate_user X dummy_hash email password d = Inr u" by (simp add: authenticate_user_def)
next
  fix e
  let ?user = "scalar (filter (\<lambda>v. usr_email v = py_lower (py_strip email)) (users d))"
  assume a: "authenticate_user X dummy_hash email password d = Inl e"
  have "\<exists>salt p. (case ?user of Some u \<Rightarrow> usr_password_hash u | None \<Rightarrow> dummy_hash) = pw_hash X salt p"
    using assms(3,4) by (auto simp: own_hashes_def hash_password_def dest!: scalar_filter_SomeD split: option.split)
  then obtain b where "verify_password X password (case ?user of Some u \<Rightarrow> usr_password_hash u | None \<Rightarrow> dummy_hash) = Inr b"
    using verify_own_hash [OF assms(2)] by fastforce
  with a show "e = AppError 401 ''invalid_credentials'' ''Invalid email or password'' (Some [(''WWW-Authenticate'', ''Bearer'')])"
    by (simp add: authenticate_user_def AuthenticationError_def split: option.splits if_splits)
next
  fix E email password u d'
  assume r: "register_user X E email password d = Inr (u, d')"
  show "own_hashes X d'" by (rule register_user_own_hashes [OF r assms(3)])
  show "authenticate_user X dummy_hash email password d' = Inr u"
    using assms(2) by (intro register_then_login [OF _ r]) (simp add: password_library_def)
qed (auto dest: authenticate_user_InrD)

lemma sample_passwords: "password_library sample_ext" "own_hashes sample_ext sample_db"
  by (auto simp: password_library_def own_hashes_def sample_defs)

theorem login_exact_witness:
  "authenticate_user sample_ext (hash_password sample_ext sample_rt ''not-a-real-user-password'') ''ann@a.io'' ''ann@a.io'' sample_db =
     Inr (sample_user 1 ''ann@a.io'')"
proof -
  note l = conjunct1 [OF login_exact [OF sample_wf sample_passwords refl], THEN spec, of _ "''ann@a.io''" "''ann@a.io''" "sample_user 1 ''ann@a.io''"]
  show ?thesis unfolding l by (simp add: sample_defs verify_password_def) code_simp
qed

text \<open>
  C22. An access token is accepted, for the user it was issued to, for exactly its lifetime in whole
  seconds from its issue, and refused from then on, whatever else the environment holds.
\<close>

theorem access_token_lifetime:
  assumes "jwt_library X" "create_access_token X S E user_id = Inr (token, ttl)" "valid_dt (rt_clock E 0)" "is_utc (rt_clock E 0)"
  shows "ttl = access_token_expire_minutes S * 60 \<and>
    (\<forall>E'. numeric_date (rt_clock E 0) \<le> numeric_date (rt_clock E' 0) \<longrightarrow> decode_access_token X S E' token =
       (if numeric_date (rt_clock E' 0) < numeric_date (rt_clock E 0) + ttl then Inr user_id
        else Inl (InvalidAccessToken ''Invalid or expired access token'')))"
  using access_token_decodes [OF assms] by auto

theorem access_token_lifetime_witness:
  "\<exists>token. create_access_token sample_ext default_settings sample_rt 1 = Inr (token, 900) \<and>
    decode_access_token sample_ext default_settings sample_rt token = Inr 1"
proof -
  have v: "valid_dt (rt_clock sample_rt 0)" "is_utc (rt_clock sample_rt 0)" by (simp add: sample_rt_def, code_simp)+
  have "\<not> isl (add_micros sample_now (900 * 1000000))" by code_simp
  then obtain token ttl where c: "create_access_token sample_ext default_settings sample_rt 1 = Inr (token, ttl)"
    by (cases "add_micros sample_now (900 * 1000000)") (auto simp: create_access_token_def default_settings_def sample_rt_def Let_def)
  have "ttl = 900" "decode_access_token sample_ext default_settings sample_rt token = Inr 1"
    using access_token_lifetime [OF sample_jwt c v] by (auto simp: default_settings_def)
  with c show ?thesis by blast
qed

end
