(* ===== verification/Api_Keys.thy ===== *)
theory Api_Keys
  imports Organizations
begin

text \<open>
  The API key service, \<^verbatim>\<open>app/services/api_keys.py\<close>: owners create, list and revoke keys; a client
  presents the raw key, of which only the hash is stored. A key authenticates for its own
  organization from its creation to its revocation, and never again.
\<close>

record api_key_principal =
  principal_key_id :: uuid
  principal_organization_id :: uuid

definition lock_owner :: "uuid \<Rightarrow> uuid \<Rightarrow> db \<Rightarrow> exc + membership" where
  "lock_owner organization_id user_id d =
     require (scalar (filter (\<lambda>m. mem_organization_id m = organization_id \<and> mem_user_id m = user_id \<and> mem_role m = OWNER)
       (memberships d))) (ForbiddenError ''owner_required'' ''Only an owner can manage API keys'')"

definition create_api_key :: "ext \<Rightarrow> runtime \<Rightarrow> uuid \<Rightarrow> uuid \<Rightarrow> string \<Rightarrow> db \<Rightarrow> exc + (api_key \<times> string) \<times> db" where
  "create_api_key X E organization_id actor_id name d =
     r_bind (lock_owner organization_id actor_id d) (\<lambda>_.
     let (raw_key, prefix) = generate_api_key E;
         api_key = \<lparr>key_id = rt_uuid E 0, key_organization_id = organization_id, key_name = name,
           key_hash = hash_token X raw_key, key_prefix = prefix, key_created_by = actor_id,
           key_last_used_at = None, key_created_at = rt_db_now E, key_revoked_at = None\<rparr> in
     r_bind (add_api_key api_key d) (\<lambda>d1.
     r_bind (write_audit (later_uuid 1 E) organization_id (Some actor_id) ''api_key.created'' ''api_key''
       (uuid_str (key_id api_key)) [(''name'', JStr name), (''prefix'', JStr prefix)] None d1) (\<lambda>(_, d2).
     Inr ((api_key, raw_key), d2))))"

definition list_api_keys :: "uuid \<Rightarrow> uuid \<Rightarrow> db \<Rightarrow> api_key list" where
  "list_api_keys organization_id actor_id d =
     sort_key (\<lambda>k. - instant (key_created_at k) * 2 ^ 128 + uint (key_id k))
       [k. k \<leftarrow> api_keys d, m \<leftarrow> memberships d, mem_organization_id m = key_organization_id k \<and>
           key_organization_id k = organization_id \<and> mem_user_id m = actor_id \<and> mem_role m = OWNER]"

definition revoke_api_key :: "runtime \<Rightarrow> uuid \<Rightarrow> uuid \<Rightarrow> uuid \<Rightarrow> db \<Rightarrow> exc + unit \<times> db" where
  "revoke_api_key E organization_id key_id' actor_id d =
     r_bind (lock_owner organization_id actor_id d) (\<lambda>_.
     r_bind (require (scalar (filter (\<lambda>k. key_id k = key_id' \<and> key_organization_id k = organization_id) (api_keys d)))
       (NotFoundError ''api_key_not_found'' ''API key not found'')) (\<lambda>api_key.
     if key_revoked_at api_key = None then
       r_bind (write_audit E organization_id (Some actor_id) ''api_key.revoked'' ''api_key'' (uuid_str (key_id api_key)) [] None
         (save_api_key (api_key\<lparr>key_revoked_at := Some (rt_clock E 0)\<rparr>) d)) (\<lambda>(_, d1). Inr ((), d1))
     else Inr ((), d)))"

definition authenticate_api_key :: "ext \<Rightarrow> runtime \<Rightarrow> string \<Rightarrow> db \<Rightarrow> exc + api_key_principal \<times> db" where
  "authenticate_api_key X E raw_key d =
     (let invalid = AuthenticationError ''invalid_api_key'' ''Invalid API key'' in
      r_bind (raise_if (\<not> startswith raw_key ''tf_live_'') invalid) (\<lambda>_.
      r_bind (require (scalar (filter (\<lambda>k. key_hash k = hash_token X raw_key \<and> key_revoked_at k = None) (api_keys d))) invalid)
        (\<lambda>api_key.
      Inr (\<lparr>principal_key_id = key_id api_key, principal_organization_id = key_organization_id api_key\<rparr>,
           save_api_key (api_key\<lparr>key_last_used_at := Some (rt_clock E 0)\<rparr>) d))))"

declare lock_owner_def [service_defs] create_api_key_def [service_defs] list_api_keys_def [service_defs]
  revoke_api_key_def [service_defs] authenticate_api_key_def [service_defs]

section \<open>Inversion of successful operations\<close>

lemma lock_ownerD:
  "lock_owner oid uid d = Inr m \<Longrightarrow> m \<in> set (memberships d) \<and> mem_organization_id m = oid \<and> mem_user_id m = uid \<and> mem_role m = OWNER"
  by (auto simp: lock_owner_def dest: scalar_filter_SomeD)

lemma create_api_key_InrD:
  assumes "create_api_key X E oid actor name d = Inr ((k, raw), d')"
  obtains m d1 e meta where "lock_owner oid actor d = Inr m" "add_api_key k d = Inr d1" "raw = ''tf_live_'' @ rt_token E 0"
    "key_organization_id k = oid" "key_hash k = hash_token X raw" "key_revoked_at k = None" "key_id k = rt_uuid E 0"
    "write_audit (later_uuid 1 E) oid (Some actor) ''api_key.created'' ''api_key'' (uuid_str (key_id k)) meta None d1 = Inr (e, d')"
  using assms by (auto simp: create_api_key_def generate_api_key_def Let_def)

lemma revoke_api_key_InrD:
  assumes "revoke_api_key E oid kid actor d = Inr (u, d')"
  obtains m k where "lock_owner oid actor d = Inr m" "k \<in> set (api_keys d)" "key_id k = kid" "key_organization_id k = oid"
    "d' = d \<and> key_revoked_at k \<noteq> None \<or> (\<exists>e. write_audit E oid (Some actor) ''api_key.revoked'' ''api_key'' (uuid_str kid) [] None
         (save_api_key (k\<lparr>key_revoked_at := Some (rt_clock E 0)\<rparr>) d) = Inr (e, d'))"
proof -
  obtain m k where *: "lock_owner oid actor d = Inr m"
    "scalar (filter (\<lambda>k. key_id k = kid \<and> key_organization_id k = oid) (api_keys d)) = Some k"
    "d' = d \<and> key_revoked_at k \<noteq> None \<or> (\<exists>e. write_audit E oid (Some actor) ''api_key.revoked'' ''api_key'' (uuid_str (key_id k)) [] None
         (save_api_key (k\<lparr>key_revoked_at := Some (rt_clock E 0)\<rparr>) d) = Inr (e, d'))"
    using assms by (auto simp: revoke_api_key_def split: if_splits)
  show thesis using that [OF *(1), of k] scalar_filter_SomeD [OF *(2)] *(3) by simp
qed

lemma authenticate_api_key_InrD:
  assumes "authenticate_api_key X E raw d = Inr (p, d')"
  obtains k where "k \<in> set (api_keys d)" "key_hash k = hash_token X raw" "key_revoked_at k = None" "startswith raw ''tf_live_''"
    "p = \<lparr>principal_key_id = key_id k, principal_organization_id = key_organization_id k\<rparr>"
    "d' = save_api_key (k\<lparr>key_last_used_at := Some (rt_clock E 0)\<rparr>) d"
  using assms by (auto simp: authenticate_api_key_def Let_def dest!: scalar_filter_SomeD)

lemma authenticate_api_key_unique:
  assumes "wf_db d" "k \<in> set (api_keys d)" "key_hash k = hash_token X raw" "key_revoked_at k = None" "startswith raw ''tf_live_''"
  shows "authenticate_api_key X E raw d =
    Inr (\<lparr>principal_key_id = key_id k, principal_organization_id = key_organization_id k\<rparr>,
         save_api_key (k\<lparr>key_last_used_at := Some (rt_clock E 0)\<rparr>) d)"
  using scalar_filter_unique [OF wf_unique(12) [OF assms(1)] assms(2), of "\<lambda>k. key_hash k = hash_token X raw \<and> key_revoked_at k = None"]
    assms(3-5) by (simp add: authenticate_api_key_def)

lemma add_api_key_InrD: "add_api_key k d = Inr d' \<Longrightarrow> d' = d\<lparr>api_keys := api_keys d @ [k]\<rparr>"
  by (auto simp: add_api_key_def split: if_splits)

section \<open>Well-formedness, confinement, completeness\<close>

lemma create_api_key_wf: "create_api_key X E oid actor name d = Inr (p, d') \<Longrightarrow> wf_db d \<Longrightarrow> wf_db d'"
  by (cases p, simp, erule create_api_key_InrD, erule write_audit_wf, erule wf_add_api_key)

lemma save_key_wf:
  "wf_db d \<Longrightarrow> k \<in> set (api_keys d) \<Longrightarrow> wf_db (save_api_key (k\<lparr>key_revoked_at := x\<rparr>) d)"
  "wf_db d \<Longrightarrow> k \<in> set (api_keys d) \<Longrightarrow> wf_db (save_api_key (k\<lparr>key_last_used_at := x\<rparr>) d)"
  by (rule wf_save_api_key [of d k]; simp)+

lemma save_key_view:
  "wf_db d \<Longrightarrow> k \<in> set (api_keys d) \<Longrightarrow> oid \<noteq> key_organization_id k \<Longrightarrow>
     tenant_view oid (save_api_key (k\<lparr>key_revoked_at := x\<rparr>) d) = tenant_view oid d"
  "wf_db d \<Longrightarrow> k \<in> set (api_keys d) \<Longrightarrow> oid \<noteq> key_organization_id k \<Longrightarrow>
     tenant_view oid (save_api_key (k\<lparr>key_last_used_at := x\<rparr>) d) = tenant_view oid d"
  by (rule tenant_view_save(3) [of d k]; simp)+

lemma revoke_api_key_wf:
  assumes "revoke_api_key E oid kid actor d = Inr (u, d')" "wf_db d"
  shows "wf_db d'"
  using assms(1) by (rule revoke_api_key_InrD) (auto intro: write_audit_wf save_key_wf(1) assms(2))

lemma authenticate_api_key_wf: "authenticate_api_key X E raw d = Inr (p, d') \<Longrightarrow> wf_db d \<Longrightarrow> wf_db d'"
  by (erule authenticate_api_key_InrD) (simp add: save_key_wf)

lemma create_api_key_view:
  assumes "create_api_key X E oid actor name d = Inr (p, d')" "oid' \<noteq> oid"
  shows "tenant_view oid' d' = tenant_view oid' d"
proof -
  obtain k raw where p: "p = (k, raw)" by force
  from assms(1) [unfolded p] obtain d1 e meta where a: "add_api_key k d = Inr d1" "key_organization_id k = oid"
    "write_audit (later_uuid 1 E) oid (Some actor) ''api_key.created'' ''api_key'' (uuid_str (key_id k)) meta None d1 = Inr (e, d')"
    by (rule create_api_key_InrD)
  show ?thesis using tenant_view_add(7) [OF a(1), of oid'] write_audit_view [OF a(3) assms(2)] a(2) assms(2) by simp
qed

lemma revoke_api_key_view:
  assumes "revoke_api_key E oid kid actor d = Inr (u, d')" "wf_db d" "oid' \<noteq> oid"
  shows "tenant_view oid' d' = tenant_view oid' d"
  using assms(1) by (rule revoke_api_key_InrD) (use assms(2,3) save_key_view(1) write_audit_view in \<open>auto simp: save_key_view(1) write_audit_view\<close>)

lemma authenticate_api_key_view:
  "authenticate_api_key X E raw d = Inr (p, d') \<Longrightarrow> wf_db d \<Longrightarrow> oid \<noteq> principal_organization_id p \<Longrightarrow>
     tenant_view oid d' = tenant_view oid d"
  by (erule authenticate_api_key_InrD) (simp add: save_key_view)

lemma save_key_complete: "orgs_complete (save_api_key k d) = orgs_complete d"
  by (rule orgs_complete_cong) (simp_all add: save_api_key_def)

lemma api_key_complete:
  "create_api_key X E oid actor name d = Inr (p, d') \<Longrightarrow> orgs_complete d' = orgs_complete d"
  "revoke_api_key E oid kid actor d = Inr (u, d') \<Longrightarrow> orgs_complete d' = orgs_complete d"
  "authenticate_api_key X E raw d = Inr (q, d') \<Longrightarrow> orgs_complete d' = orgs_complete d"
proof -
  show "create_api_key X E oid actor name d = Inr (p, d') \<Longrightarrow> orgs_complete d' = orgs_complete d"
    by (cases p, simp, erule create_api_key_InrD, drule add_api_key_InrD, drule write_audit_InrD(2), rule orgs_complete_cong) simp_all
  show "revoke_api_key E oid kid actor d = Inr (u, d') \<Longrightarrow> orgs_complete d' = orgs_complete d"
    by (erule revoke_api_key_InrD) (auto simp: save_key_complete dest: write_audit_complete)
  show "authenticate_api_key X E raw d = Inr (q, d') \<Longrightarrow> orgs_complete d' = orgs_complete d"
    by (erule authenticate_api_key_InrD) (simp add: save_key_complete)
qed

section \<open>Revocation\<close>

definition key_dead :: "ext \<Rightarrow> string \<Rightarrow> db \<Rightarrow> bool" where
  "key_dead X raw d = (\<exists>k \<in> set (api_keys d). key_hash k = hash_token X raw \<and> key_revoked_at k \<noteq> None)"

lemma key_dead_rejected:
  assumes "key_dead X raw d" "wf_db d"
  shows "authenticate_api_key X E raw d = Inl (AuthenticationError ''invalid_api_key'' ''Invalid API key'')"
proof -
  obtain k where k: "k \<in> set (api_keys d)" "key_hash k = hash_token X raw" "key_revoked_at k \<noteq> None"
    using assms(1) by (auto simp: key_dead_def)
  have "filter (\<lambda>k. key_hash k = hash_token X raw \<and> key_revoked_at k = None) (api_keys d) = []"
    using unique_onD [OF wf_unique(12) [OF assms(2)] k(1)] k(2,3) by (fastforce simp: filter_empty_conv)
  then show ?thesis by (simp add: authenticate_api_key_def raise_if_def Let_def)
qed

lemma revoke_api_key_dead:
  assumes "revoke_api_key E oid kid actor d = Inr (u, d')" "wf_db d" "k \<in> set (api_keys d)" "key_id k = kid" "key_hash k = hash_token X raw"
  shows "key_dead X raw d'"
  using assms(1)
proof (rule revoke_api_key_InrD)
  fix j
  assume j: "j \<in> set (api_keys d)" "key_id j = kid"
    and o: "d' = d \<and> key_revoked_at j \<noteq> None \<or> (\<exists>e. write_audit E oid (Some actor) ''api_key.revoked'' ''api_key'' (uuid_str kid) [] None
         (save_api_key (j\<lparr>key_revoked_at := Some (rt_clock E 0)\<rparr>) d) = Inr (e, d'))"
  have "j = k" using unique_onD [OF wf_unique(11) [OF assms(2)] j(1) assms(3)] j(2) assms(4) by simp
  let ?k = "k\<lparr>key_revoked_at := Some (rt_clock E 0)\<rparr>"
  have s: "?k \<in> set (api_keys (save_api_key ?k d))"
    using in_set_save_row [of k "api_keys d" key_id ?k ?k] assms(3) by (simp add: save_api_key_def)
  from o show ?thesis
  proof
    assume "d' = d \<and> key_revoked_at j \<noteq> None"
    then show ?thesis using \<open>j = k\<close> assms(3,5) by (auto simp: key_dead_def)
  next
    assume "\<exists>e. write_audit E oid (Some actor) ''api_key.revoked'' ''api_key'' (uuid_str kid) [] None
         (save_api_key (j\<lparr>key_revoked_at := Some (rt_clock E 0)\<rparr>) d) = Inr (e, d')"
    then have "api_keys d' = api_keys (save_api_key ?k d)" using \<open>j = k\<close> by (auto dest: write_audit_InrD(2))
    with s show ?thesis unfolding key_dead_def using assms(5) by (intro bexI [of _ ?k]) simp_all
  qed
qed

section \<open>The contracts hold\<close>

interpretation create_api_key_tenant: tenant_service
  "\<lambda>(X, E, oid, actor, name). create_api_key X E oid actor name" "\<lambda>(X, E, oid, actor, name). oid"
  by unfold_locales (auto intro: create_api_key_wf create_api_key_view)

interpretation revoke_api_key_tenant: tenant_service
  "\<lambda>(E, oid, kid, actor). revoke_api_key E oid kid actor" "\<lambda>(E, oid, kid, actor). oid"
  by unfold_locales (auto intro: revoke_api_key_wf revoke_api_key_view)

interpretation create_api_key_service: complete_service "\<lambda>(X, E, oid, actor, name). create_api_key X E oid actor name"
  by unfold_locales (auto intro: create_api_key_wf simp: api_key_complete)

interpretation revoke_api_key_service: complete_service "\<lambda>(E, oid, kid, actor). revoke_api_key E oid kid actor"
  by unfold_locales (auto intro: revoke_api_key_wf simp: api_key_complete)

interpretation authenticate_api_key_service: complete_service "\<lambda>(X, E, raw). authenticate_api_key X E raw"
  by unfold_locales (auto intro: authenticate_api_key_wf simp: api_key_complete)

section \<open>Sequences of key operations\<close>

datatype key_op =
    CreateKey ext runtime uuid uuid string
  | RevokeKey runtime uuid uuid uuid
  | UseKey ext runtime string

fun key_operation :: "key_op \<Rightarrow> db \<Rightarrow> exc + unit \<times> db" where
  "key_operation (CreateKey X E oid actor name) d = r_bind (create_api_key X E oid actor name d) (\<lambda>(_, d'). Inr ((), d'))"
| "key_operation (RevokeKey E oid kid actor) d = revoke_api_key E oid kid actor d"
| "key_operation (UseKey X E raw) d = r_bind (authenticate_api_key X E raw d) (\<lambda>(_, d'). Inr ((), d'))"

lemma key_dead_append: "key_dead X raw d \<Longrightarrow> api_keys d' = api_keys d @ ks \<Longrightarrow> key_dead X raw d'"
  by (auto simp: key_dead_def)

lemma key_dead_save:
  assumes "key_dead X raw d" "k \<in> set (api_keys d)" "key_id k' = key_id k" "key_hash k' = key_hash k"
    "key_revoked_at k \<noteq> None \<longrightarrow> key_revoked_at k' \<noteq> None" "wf_db d"
  shows "key_dead X raw (save_api_key k' d)"
proof -
  obtain j where j: "j \<in> set (api_keys d)" "key_hash j = hash_token X raw" "key_revoked_at j \<noteq> None"
    using assms(1) by (auto simp: key_dead_def)
  have s: "x \<in> set (api_keys (save_api_key k' d)) \<longleftrightarrow> (x \<in> set (api_keys d) \<and> key_id x \<noteq> key_id k) \<or> x = k'" for x
    using in_set_save_row [of k "api_keys d" key_id k' x] assms(2,3) by (simp add: save_api_key_def)
  show ?thesis
  proof (cases "key_id j = key_id k")
    case True
    then have "j = k" using unique_onD [OF wf_unique(11) [OF assms(6)] j(1) assms(2)] by simp
    then show ?thesis using s [of k'] j assms(4,5) unfolding key_dead_def by (intro bexI [of _ k']) auto
  next
    case False
    then show ?thesis using s [of j] j unfolding key_dead_def by blast
  qed
qed

lemma create_api_key_keys: "create_api_key X E oid actor name d = Inr ((k, raw), d') \<Longrightarrow> api_keys d' = api_keys d @ [k]"
  by (erule create_api_key_InrD, drule add_api_key_InrD, drule write_audit_InrD(2)) simp

lemma revoke_api_key_keeps_dead:
  assumes "revoke_api_key E oid kid actor d = Inr (u, d')" "key_dead X raw d" "wf_db d"
  shows "key_dead X raw d'"
  using assms(1)
proof (rule revoke_api_key_InrD)
  fix k
  assume k: "k \<in> set (api_keys d)"
    and o: "d' = d \<and> key_revoked_at k \<noteq> None \<or> (\<exists>e. write_audit E oid (Some actor) ''api_key.revoked'' ''api_key'' (uuid_str kid) [] None
         (save_api_key (k\<lparr>key_revoked_at := Some (rt_clock E 0)\<rparr>) d) = Inr (e, d'))"
  have "key_dead X raw (save_api_key (k\<lparr>key_revoked_at := Some (rt_clock E 0)\<rparr>) d)"
    by (rule key_dead_save [OF assms(2) k]) (simp_all add: assms(3))
  moreover have "api_keys d' = api_keys d \<or> api_keys d' = api_keys (save_api_key (k\<lparr>key_revoked_at := Some (rt_clock E 0)\<rparr>) d)"
    using o by (auto dest: write_audit_InrD(2))
  ultimately show ?thesis using assms(2) by (auto simp: key_dead_def)
qed

lemma authenticate_api_key_keeps_dead:
  assumes "authenticate_api_key Y E raw' d = Inr (p, d')" "key_dead X raw d" "wf_db d"
  shows "key_dead X raw d'"
  using assms(1) by (rule authenticate_api_key_InrD) (auto intro!: key_dead_save [OF assms(2)] simp: assms(3))

interpretation key_operations: db_service key_operation
proof
  fix a d r d'
  assume "key_operation a d = Inr (r, d')" "wf_db d"
  then show "wf_db d'"
    by (cases a) (auto intro: create_api_key_wf revoke_api_key_wf authenticate_api_key_wf)
qed

lemma key_operation_keeps_dead:
  assumes "key_operation a d = Inr (r, d')" "key_dead X raw d" "wf_db d"
  shows "key_dead X raw d'"
  using assms
  by (cases a) (auto intro: revoke_api_key_keeps_dead authenticate_api_key_keeps_dead dest: create_api_key_keys key_dead_append)

lemma key_operation_dead: "key_dead X raw d \<Longrightarrow> wf_db d \<Longrightarrow> key_dead X raw (serve key_operation steps d)"
proof (induction steps arbitrary: d)
  case (Cons a steps)
  have "key_dead X raw (snd (get_session (key_operation a) d))"
    using Cons.prems key_operation_keeps_dead by (auto simp: get_session_def split: sum.splits)
  then show ?case using Cons.IH key_operations.session_wf [OF Cons.prems(2)] by simp
qed simp

section \<open>Properties\<close>

text \<open>
  C26. A new API key authenticates at once, as a principal of the organization it was created for;
  the stored row holds the hash of the key and not the key.
\<close>

theorem create_then_authenticate_key:
  assumes "create_api_key X E oid actor_id name d = Inr ((k, raw), d')" "wf_db d"
  shows "key_hash k = hash_token X raw \<and> (\<exists>d''. authenticate_api_key X E' raw d' =
    Inr (\<lparr>principal_key_id = key_id k, principal_organization_id = oid\<rparr>, d''))"
  using assms(1)
proof (rule create_api_key_InrD)
  fix m d1 e meta
  assume a: "add_api_key k d = Inr d1" "raw = ''tf_live_'' @ rt_token E 0" "key_organization_id k = oid" "key_hash k = hash_token X raw"
    "key_revoked_at k = None"
    "write_audit (later_uuid 1 E) oid (Some actor_id) ''api_key.created'' ''api_key'' (uuid_str (key_id k)) meta None d1 = Inr (e, d')"
  have "k \<in> set (api_keys d')" using add_api_key_InrD [OF a(1)] write_audit_InrD(2) [OF a(6)] by simp
  moreover have "startswith raw ''tf_live_''" by (simp add: a(2) startswith_def)
  ultimately show ?thesis
    using authenticate_api_key_unique [OF create_api_key_wf [OF assms], of k X raw E'] a(3-5) by simp
qed

theorem create_then_authenticate_key_witness:
  "\<exists>k raw d'. create_api_key sample_ext sample_rt 10 1 ''deploy'' sample_db = Inr ((k, raw), d') \<and>
    (\<exists>d''. authenticate_api_key sample_ext sample_rt raw d' = Inr (\<lparr>principal_key_id = key_id k, principal_organization_id = 10\<rparr>, d''))"
proof -
  obtain k raw d' where c: "create_api_key sample_ext sample_rt 10 1 ''deploy'' sample_db = Inr ((k, raw), d')"
    by (simp add: service_defs sample_token Let_def cong: r_bind_weak_cong)
  show ?thesis using c conjunct2 [OF create_then_authenticate_key [OF c sample_wf, of sample_rt]] by blast
qed

text \<open>
  C27. Revoking a key by its id, which only an owner of its organization can do, makes the raw key
  useless: every later authentication with it is refused, and stays refused when further keys are
  created, revoked or used.
\<close>

theorem revoked_key_refused:
  assumes "revoke_api_key E oid kid actor_id d = Inr (u, d1)" "wf_db d" "k \<in> set (api_keys d)" "key_id k = kid"
    "key_hash k = hash_token X raw"
  shows "(\<exists>m \<in> set (memberships d). mem_organization_id m = oid \<and> mem_user_id m = actor_id \<and> mem_role m = OWNER) \<and>
    key_organization_id k = oid \<and>
    (\<forall>steps E'. authenticate_api_key X E' raw (serve key_operation steps d1) =
      Inl (AppError 401 ''invalid_api_key'' ''Invalid API key'' (Some [(''WWW-Authenticate'', ''Bearer'')])))"
proof -
  have "key_dead X raw d1" "wf_db d1"
    using revoke_api_key_dead [OF assms] revoke_api_key_wf [OF assms(1,2)] by blast+
  then have "key_dead X raw (serve key_operation steps d1) \<and> wf_db (serve key_operation steps d1)" for steps
    using key_operations.serve_wf key_operation_dead by blast
  then have "authenticate_api_key X E' raw (serve key_operation steps d1) =
      Inl (AppError 401 ''invalid_api_key'' ''Invalid API key'' (Some [(''WWW-Authenticate'', ''Bearer'')]))" for steps E'
    using key_dead_rejected by (simp add: AuthenticationError_def)
  moreover obtain m j where j: "lock_owner oid actor_id d = Inr m" "j \<in> set (api_keys d)" "key_id j = kid" "key_organization_id j = oid"
    using assms(1) by (rule revoke_api_key_InrD)
  then have "j = k" using unique_onD [OF wf_unique(11) [OF assms(2)] j(2) assms(3)] assms(4) by simp
  ultimately show ?thesis using lock_ownerD [OF j(1)] j(4) by blast
qed

theorem revoked_key_refused_witness:
  "\<exists>d1. revoke_api_key sample_rt 10 40 1 sample_db = Inr ((), d1) \<and>
    authenticate_api_key sample_ext sample_rt ''tf_live_k'' (serve key_operation [UseKey sample_ext sample_rt ''tf_live_k''] d1) =
      Inl (AppError 401 ''invalid_api_key'' ''Invalid API key'' (Some [(''WWW-Authenticate'', ''Bearer'')]))"
proof -
  obtain d1 where r: "revoke_api_key sample_rt 10 40 1 sample_db = Inr ((), d1)"
    by (simp add: service_defs cong: r_bind_weak_cong)
  have k: "hd (api_keys sample_db) \<in> set (api_keys sample_db)" "key_id (hd (api_keys sample_db)) = 40"
    "key_hash (hd (api_keys sample_db)) = hash_token sample_ext ''tf_live_k''"
    by (simp_all add: sample_db_def hash_token_def)
  show ?thesis using r revoked_key_refused [OF r sample_wf k] by blast
qed

end
