(* ===== verification/Redis.thy ===== *)
theory Redis
  imports Security
begin

text \<open>
  The Redis server as the program uses it: named lists (the head is the left end), counters with an
  expiry time, and whether the server answers. A command on a server that is down raises
  \<open>RedisError\<close>. A command returns its result and the new state; a pipeline with \<open>transaction=True\<close>
  is one command.
\<close>

record redis =
  r_up :: bool
  r_lists :: "string \<Rightarrow> string list"
  r_counters :: "string \<Rightarrow> (int \<times> rat) option"

definition empty_redis :: redis where
  "empty_redis = \<lparr>r_up = True, r_lists = (\<lambda>_. []), r_counters = (\<lambda>_. None)\<rparr>"

text \<open>A command of the client library.\<close>

definition command :: "(redis \<Rightarrow> 'a \<times> redis) \<Rightarrow> redis \<Rightarrow> (exc + 'a) \<times> redis" where
  "command f r = (if r_up r then (case f r of (x, r') \<Rightarrow> (Inr x, r')) else (Inl (RedisError ''Connection refused''), r))"

definition lpush :: "string \<Rightarrow> string \<Rightarrow> redis \<Rightarrow> redis" where
  "lpush k v r = r\<lparr>r_lists := (r_lists r)(k := v # r_lists r k)\<rparr>"

text \<open>\<open>LREM k 1 v\<close>: the first occurrence from the head.\<close>

definition lrem1 :: "string \<Rightarrow> string \<Rightarrow> redis \<Rightarrow> redis" where
  "lrem1 k v r = r\<lparr>r_lists := (r_lists r)(k := remove1 v (r_lists r k))\<rparr>"

text \<open>\<open>RPOPLPUSH\<close>: the last element of one list becomes the head of the other.\<close>

definition rpoplpush :: "string \<Rightarrow> string \<Rightarrow> redis \<Rightarrow> string option \<times> redis" where
  "rpoplpush src dst r =
     (if r_lists r src = [] then (None, r)
      else let v = last (r_lists r src);
               r1 = r\<lparr>r_lists := (r_lists r)(src := butlast (r_lists r src))\<rparr>
           in (Some v, lpush dst v r1))"

text \<open>
  The window script: \<open>INCR\<close> counts from zero when the key does not exist or has expired, keeps the
  expiry of an existing key, and the script sets it on the first count.
\<close>

definition live_count :: "string \<Rightarrow> rat \<Rightarrow> redis \<Rightarrow> int" where
  "live_count k t r = (case r_counters r k of None \<Rightarrow> 0 | Some (n, x) \<Rightarrow> if t < x then n else 0)"

definition live_expiry :: "string \<Rightarrow> rat \<Rightarrow> redis \<Rightarrow> rat option" where
  "live_expiry k t r = (case r_counters r k of None \<Rightarrow> None | Some (n, x) \<Rightarrow> if t < x then Some x else None)"

definition increment_window :: "string \<Rightarrow> int \<Rightarrow> rat \<Rightarrow> redis \<Rightarrow> int \<times> redis" where
  "increment_window k ttl t r =
     (let count = live_count k t r + 1;
          expiry = (case live_expiry k t r of Some x \<Rightarrow> if count = 1 then t + of_int ttl else x | None \<Rightarrow> t + of_int ttl)
      in (count, r\<lparr>r_counters := (r_counters r)(k \<mapsto> (count, expiry))\<rparr>))"

section \<open>Lemmas\<close>

lemma redis_frame [simp]:
  "r_up (lpush k v r) = r_up r" "r_counters (lpush k v r) = r_counters r"
  "r_up (lrem1 k v r) = r_up r" "r_counters (lrem1 k v r) = r_counters r"
  "r_up (snd (rpoplpush s d r)) = r_up r" "r_counters (snd (rpoplpush s d r)) = r_counters r"
  "r_up (snd (increment_window k ttl t r)) = r_up r" "r_lists (snd (increment_window k ttl t r)) = r_lists r"
  by (simp_all add: lpush_def lrem1_def rpoplpush_def increment_window_def Let_def)

lemma lists_simps [simp]:
  "r_lists (lpush k v r) k = v # r_lists r k" "j \<noteq> k \<Longrightarrow> r_lists (lpush k v r) j = r_lists r j"
  "r_lists (lrem1 k v r) k = remove1 v (r_lists r k)" "j \<noteq> k \<Longrightarrow> r_lists (lrem1 k v r) j = r_lists r j"
  by (simp_all add: lpush_def lrem1_def)

lemma rpoplpush_snoc:
  assumes "r_lists r src = xs @ [v]" "src \<noteq> dst"
  shows "fst (rpoplpush src dst r) = Some v" "r_lists (snd (rpoplpush src dst r)) src = xs"
    "r_lists (snd (rpoplpush src dst r)) dst = v # r_lists r dst"
    "k \<noteq> src \<Longrightarrow> k \<noteq> dst \<Longrightarrow> r_lists (snd (rpoplpush src dst r)) k = r_lists r k"
  using assms by (simp_all add: rpoplpush_def Let_def lpush_def)

lemma rpoplpush_empty [simp]: "r_lists r src = [] \<Longrightarrow> rpoplpush src dst r = (None, r)"
  by (simp add: rpoplpush_def)

lemma command_up [simp]: "r_up r \<Longrightarrow> command f r = (Inr (fst (f r)), snd (f r))"
  by (simp add: command_def split: prod.splits)

lemma command_down [simp]: "\<not> r_up r \<Longrightarrow> command f r = (Inl (RedisError ''Connection refused''), r)"
  by (simp add: command_def)

end
