(* ===== verification/Rate_Limit.thy ===== *)
theory Rate_Limit
  imports Redis
begin

text \<open>
  The fixed-window rate limiter, \<^verbatim>\<open>app/infrastructure/rate_limit.py\<close>. Time is a rational number of
  seconds, and Redis runs on the same clock as the caller. The lemmas show that within a window at
  most \<open>limit\<close> requests of an identifier are allowed, however requests of other identifiers and windows
  interleave, that identifiers never share a counter, and that the advertised delay leaves the window.
\<close>

record rate_limit_result =
  rl_allowed :: bool
  rl_limit :: int
  rl_remaining :: int
  rl_retry_after :: int

definition rate_prefix :: string where
  "rate_prefix = ''tenantforge:rate-limit''"

definition window_of :: "int \<Rightarrow> rat \<Rightarrow> int" where
  "window_of window_seconds t = \<lfloor>t / of_int window_seconds\<rfloor>"

definition redis_key :: "string \<Rightarrow> string \<Rightarrow> int \<Rightarrow> string" where
  "redis_key prefix identifier window = prefix @ '':'' @ identifier @ '':'' @ int_str window"

definition check :: "string \<Rightarrow> string \<Rightarrow> int \<Rightarrow> int \<Rightarrow> rat \<Rightarrow> redis \<Rightarrow> (exc + rate_limit_result) \<times> redis" where
  "check prefix identifier limit window_seconds current_time r =
     (if limit < 1 \<or> window_seconds < 1 then (Inl (ValueError ''limit and window_seconds must be positive''), r)
      else let window = window_of window_seconds current_time in
        (case command (increment_window (redis_key prefix identifier window) (window_seconds + 1) current_time) r of
           (Inl e, r') \<Rightarrow> (Inl e, r')
         | (Inr count, r') \<Rightarrow>
             let retry_after = max 1 \<lceil>of_int ((window + 1) * window_seconds) - current_time\<rceil>
             in (Inr \<lparr>rl_allowed = (count \<le> limit), rl_limit = limit, rl_remaining = max 0 (limit - count),
                      rl_retry_after = retry_after\<rparr>, r')))"

definition enforce :: "string \<Rightarrow> string \<Rightarrow> int \<Rightarrow> int \<Rightarrow> rat \<Rightarrow> redis \<Rightarrow> (exc + rate_limit_result) \<times> redis" where
  "enforce prefix identifier limit window_seconds now r =
     (case check prefix identifier limit window_seconds now r of
        (Inl e, r') \<Rightarrow> (Inl e, r')
      | (Inr result, r') \<Rightarrow>
          (if \<not> rl_allowed result
           then (Inl (AppError 429 ''rate_limit_exceeded'' ''Too many requests''
                   (Some [(''Retry-After'', int_str (rl_retry_after result))])), r')
           else (Inr result, r')))"

definition enforce_rate_limit :: "string \<Rightarrow> int \<Rightarrow> int \<Rightarrow> rat \<Rightarrow> redis \<Rightarrow> (exc + rate_limit_result) \<times> redis" where
  "enforce_rate_limit identifier limit window_seconds now r = enforce rate_prefix identifier limit window_seconds now r"

text \<open>A sequence of requests (identifier, time) against one limit, and which were allowed.\<close>

fun rate_run :: "string \<Rightarrow> int \<Rightarrow> int \<Rightarrow> (string \<times> rat) list \<Rightarrow> redis \<Rightarrow> bool list" where
  "rate_run prefix limit w [] r = []"
| "rate_run prefix limit w ((i, t) # qs) r =
     (case enforce prefix i limit w t r of (res, r') \<Rightarrow> (\<not> isl res) # rate_run prefix limit w qs r')"

section \<open>Keys\<close>

lemma int_str_no_colon: "CHR '':'' \<notin> set (int_str i)"
proof -
  have "CHR '':'' \<notin> set (nat_str n)" for n
    using digit_str_nat_str [of n] by (rule digit_str_absent) (auto simp: cp_digit_char simp flip: cp_eq_iff, simp_all add: cp_def)
  then show ?thesis by (simp add: int_str_def)
qed

lemma append_sep_inj:
  assumes "xs @ c # ys = xs' @ c # ys'" "c \<notin> set ys" "c \<notin> set ys'"
  shows "xs = xs' \<and> ys = ys'"
  using assms by (simp add: append_eq_append_conv2 Cons_eq_append_conv) (auto simp: append_eq_Cons_conv Cons_eq_append_conv)

lemma nat_str_inject: "nat_str m = nat_str n \<Longrightarrow> m = n"
  by (metis digits_value_nat_str option.inject)

lemma int_str_inject: "int_str i = int_str j \<Longrightarrow> i = j"
  using nat_str_no_sign [of "nat i"] nat_str_no_sign [of "nat j"] nat_str_inject
  by (auto simp: int_str_def split: if_splits dest!: nat_str_inject) (metis list.sel(1))+

lemma redis_key_inj: "redis_key p i w = redis_key p j v \<longleftrightarrow> i = j \<and> w = v"
  using append_sep_inj [of i "CHR '':''" "int_str w" j "int_str v"] int_str_no_colon
  by (auto simp: redis_key_def dest: int_str_inject)

section \<open>The limit\<close>

text \<open>The stored count of a key, and that it outlives the window \<open>v\<close>.\<close>

definition stored_count :: "string \<Rightarrow> redis \<Rightarrow> int" where
  "stored_count k r = (case r_counters r k of None \<Rightarrow> 0 | Some (n, x) \<Rightarrow> n)"

definition outlives :: "string \<Rightarrow> int \<Rightarrow> int \<Rightarrow> redis \<Rightarrow> bool" where
  "outlives k w v r = (case r_counters r k of None \<Rightarrow> True | Some (n, x) \<Rightarrow> 0 \<le> n \<and> of_int ((v + 1) * w) < x)"

lemma window_bounds:
  assumes "1 \<le> w" "window_of w t = v"
  shows "of_int (v * w) \<le> t" "t < of_int ((v + 1) * w)"
proof -
  have "of_int v \<le> t / of_int w" "t / of_int w < of_int v + 1"
    using assms(2) floor_correct [of "t / of_int w"] by (auto simp: window_of_def)
  with assms(1) show "of_int (v * w) \<le> t" "t < of_int ((v + 1) * w)"
    by (simp_all add: pos_le_divide_eq pos_divide_less_eq)
qed

lemma increment_in_window:
  assumes "1 \<le> w" "window_of w t = v" "outlives k w v r"
  shows "fst (increment_window k (w + 1) t r) = stored_count k r + 1"
    "stored_count k (snd (increment_window k (w + 1) t r)) = stored_count k r + 1"
    "outlives k w v (snd (increment_window k (w + 1) t r))"
proof -
  note b = window_bounds [OF assms(1,2)]
  have x: "of_int ((v + 1) * w) < t + of_int (w + 1)" using b(1) by (simp add: algebra_simps)
  show "fst (increment_window k (w + 1) t r) = stored_count k r + 1"
    "stored_count k (snd (increment_window k (w + 1) t r)) = stored_count k r + 1"
    using assms(3) b(2)
    by (auto simp: increment_window_def live_count_def live_expiry_def stored_count_def outlives_def Let_def split: option.splits)
  show "outlives k w v (snd (increment_window k (w + 1) t r))"
    using assms(3) b(2) x
    by (auto simp: increment_window_def live_count_def live_expiry_def outlives_def Let_def split: option.splits)
qed

lemma enforce_allowed:
  "\<not> isl (fst (enforce p i limit w t r)) \<longleftrightarrow> 1 \<le> limit \<and> 1 \<le> w \<and> r_up r \<and>
     fst (increment_window (redis_key p i (window_of w t)) (w + 1) t r) \<le> limit"
  by (cases "r_up r") (auto simp: enforce_def check_def Let_def)

lemma enforce_state:
  "snd (enforce p i limit w t r) = (if 1 \<le> limit \<and> 1 \<le> w \<and> r_up r
     then snd (increment_window (redis_key p i (window_of w t)) (w + 1) t r) else r)"
  by (cases "r_up r") (auto simp: enforce_def check_def Let_def)

lemma other_key:
  "k \<noteq> k' \<Longrightarrow> r_counters (snd (increment_window k' ttl t r)) k = r_counters r k"
  by (simp add: increment_window_def Let_def)

definition allowed_in :: "string \<Rightarrow> int \<Rightarrow> int \<Rightarrow> (string \<times> rat) list \<Rightarrow> bool list \<Rightarrow> nat" where
  "allowed_in i w v qs oks = length (filter (\<lambda>((j, t), ok). j = i \<and> window_of w t = v \<and> ok) (zip qs oks))"

definition requests_in :: "string \<Rightarrow> int \<Rightarrow> int \<Rightarrow> (string \<times> rat) list \<Rightarrow> nat" where
  "requests_in i w v qs = length (filter (\<lambda>(j, t). j = i \<and> window_of w t = v) qs)"

lemma allowed_in_exact:
  assumes "1 \<le> w" "1 \<le> limit" "r_up r" "outlives (redis_key p i v) w v r"
  shows "int (allowed_in i w v qs (rate_run p limit w qs r)) =
    min (int (requests_in i w v qs)) (max 0 (limit - stored_count (redis_key p i v) r))"
  using assms(3,4)
proof (induction qs arbitrary: r)
  case Nil
  then show ?case by (simp add: allowed_in_def requests_in_def)
next
  case (Cons q qs)
  obtain j t where q: "q = (j, t)" by force
  let ?k = "redis_key p i v" and ?r = "snd (enforce p j limit w t r)" and ?ok = "\<not> isl (fst (enforce p j limit w t r))"
  have run: "rate_run p limit w (q # qs) r = ?ok # rate_run p limit w qs ?r" by (simp add: q split: prod.splits)
  have up: "r_up ?r" using Cons.prems by (simp add: enforce_state)
  show ?case
  proof (cases "j = i \<and> window_of w t = v")
    case True
    note inc = increment_in_window [OF assms(1) conjunct2 [OF True] Cons.prems(2)]
    have o: "outlives ?k w v ?r" "stored_count ?k ?r = stored_count ?k r + 1"
      using inc Cons.prems assms(1,2) True by (simp_all add: enforce_state)
    have ok: "?ok \<longleftrightarrow> stored_count ?k r + 1 \<le> limit"
      using inc(1) True Cons.prems assms(1,2) by (simp add: enforce_allowed)
    have "allowed_in i w v (q # qs) (rate_run p limit w (q # qs) r) =
        (if ?ok then 1 else 0) + allowed_in i w v qs (rate_run p limit w qs ?r)"
      unfolding run allowed_in_def using True by (simp add: q)
    moreover have "requests_in i w v (q # qs) = Suc (requests_in i w v qs)" using True by (simp add: requests_in_def q)
    ultimately show ?thesis using Cons.IH [OF up o(1)] ok o(2) by (simp add: min_def max_def)
  next
    case False
    then have "?k \<noteq> redis_key p j (window_of w t)" by (auto simp: redis_key_inj)
    then have c: "r_counters ?r ?k = r_counters r ?k" by (simp add: enforce_state other_key)
    have "allowed_in i w v (q # qs) (rate_run p limit w (q # qs) r) = allowed_in i w v qs (rate_run p limit w qs ?r)"
      unfolding run allowed_in_def using False by (auto simp: q)
    moreover have "requests_in i w v (q # qs) = requests_in i w v qs" using False by (auto simp: requests_in_def q)
    ultimately show ?thesis using Cons.IH [OF up] Cons.prems c by (simp add: outlives_def stored_count_def)
  qed
qed

lemma retry_after_bounds:
  assumes "check p i limit w t r = (Inr res, r')"
  shows "1 \<le> rl_retry_after res \<and> rl_retry_after res \<le> w \<and> window_of w t < window_of w (t + of_int (rl_retry_after res))"
proof -
  let ?v = "window_of w t" and ?x = "of_int ((window_of w t + 1) * w) - t"
  have w: "1 \<le> w" and a: "rl_retry_after res = max 1 \<lceil>?x\<rceil>"
    using assms by (cases "r_up r"; auto simp: check_def Let_def split: if_splits)+
  note b = window_bounds [OF w refl, of t]
  have "?x \<le> of_int w" using b(1) by (simp add: algebra_simps)
  then have u: "rl_retry_after res \<le> w" using a w by (simp add: ceiling_le_iff)
  have "?x \<le> of_int (rl_retry_after res)" using a le_of_int_ceiling [of ?x] by linarith
  then have "of_int (?v + 1) \<le> (t + of_int (rl_retry_after res)) / of_int w"
    using w by (simp add: pos_le_divide_eq)
  then have "?v + 1 \<le> window_of w (t + of_int (rl_retry_after res))"
    by (simp add: window_of_def le_floor_iff)
  then show ?thesis using a u by simp
qed

section \<open>Properties\<close>

text \<open>
  C11. In every window and for every identifier the limiter allows exactly as many requests as were
  made, up to the limit, and no more, whatever requests of other identifiers and other windows are
  interleaved with them.
\<close>

theorem rate_limit_exact:
  assumes "1 \<le> w" "1 \<le> limit" "r_up r" "r_counters r (redis_key p i v) = None"
  shows "int (allowed_in i w v qs (rate_run p limit w qs r)) = min (int (requests_in i w v qs)) limit"
  using allowed_in_exact [OF assms(1-3), of p i v qs] assms(2,4) by (simp add: outlives_def stored_count_def)

theorem rate_limit_exact_witness:
  "allowed_in ''user:1'' 60 0 [(''user:1'', 1), (''user:2'', 2), (''user:1'', 3), (''user:1'', 4)]
     (rate_run rate_prefix 2 60 [(''user:1'', 1), (''user:2'', 2), (''user:1'', 3), (''user:1'', 4)] empty_redis) = 2"
proof -
  let ?qs = "[(''user:1'', 1), (''user:2'', 2), (''user:1'', 3), (''user:1'', 4)] :: (string \<times> rat) list"
  have "requests_in ''user:1'' 60 0 ?qs = 3"
    by (simp add: requests_in_def window_of_def floor_eq_iff)
  then show ?thesis
    using rate_limit_exact [of 60 2 empty_redis rate_prefix "''user:1''" 0 ?qs] by (simp add: empty_redis_def)
qed

text \<open>
  The delay advertised with an answer is at least one second, at most the length of a window, and
  a request that waits for it falls into a later window.
\<close>

lemma retry_after_leaves_window:
  assumes "check p i limit w t r = (Inr res, r')"
  shows "1 \<le> rl_retry_after res \<and> rl_retry_after res \<le> w \<and> window_of w t < window_of w (t + of_int (rl_retry_after res))"
  by (rule retry_after_bounds [OF assms])

end
