(* ===== verification/Deps.thy ===== *)
theory Deps
  imports Auth Api_Keys Rate_Limit
begin

text \<open>
  The request dependencies of \<^verbatim>\<open>app/api/deps.py\<close> and the actions the routes are written in. An action
  works on the database and on Redis and may raise. A session rolls the database back to where it
  began when its body raises; Redis keeps what was done to it.
\<close>

section \<open>Actions\<close>

type_synonym app = "db \<times> redis"
type_synonym 'a action = "app \<Rightarrow> (exc + 'a) \<times> app"

definition a_bind :: "'a action \<Rightarrow> ('a \<Rightarrow> 'b action) \<Rightarrow> 'b action" where
  "a_bind m f s = (case m s of (Inl e, s') \<Rightarrow> (Inl e, s') | (Inr x, s') \<Rightarrow> f x s')"

definition ret :: "'a \<Rightarrow> 'a action" where
  "ret x s = (Inr x, s)"

text \<open>A check without effects, a query, a service operation, a Redis operation.\<close>

definition checked :: "exc + 'a \<Rightarrow> 'a action" where
  "checked m s = (m, s)"

definition query :: "(db \<Rightarrow> exc + 'a) \<Rightarrow> 'a action" where
  "query q s = (q (fst s), s)"

definition service :: "(db \<Rightarrow> exc + 'a \<times> db) \<Rightarrow> 'a action" where
  "service op s = (case op (fst s) of Inl e \<Rightarrow> (Inl e, s) | Inr (x, d) \<Rightarrow> (Inr x, (d, snd s)))"

definition on_redis :: "(redis \<Rightarrow> (exc + 'a) \<times> redis) \<Rightarrow> 'a action" where
  "on_redis op s = (case op (snd s) of (x, r) \<Rightarrow> (x, (fst s, r)))"

definition session :: "'a action \<Rightarrow> 'a action" where
  "session body s = (case body s of (Inl e, s') \<Rightarrow> (Inl e, (fst s, snd s')) | (Inr x, s') \<Rightarrow> (Inr x, s'))"

text \<open>A request body that its schema refuses is a \<open>RequestValidationError\<close>.\<close>

definition body :: "exc + 'a \<Rightarrow> 'a action" where
  "body m = checked (case m of Inl (ValidationError msg) \<Rightarrow> Inl (RequestValidationError msg) | _ \<Rightarrow> m)"

section \<open>Dependencies\<close>

text \<open>\<open>time.time()\<close> at a clock reading.\<close>

definition unix_time :: "datetime \<Rightarrow> rat" where
  "unix_time t = of_int (instant t - epoch_micros) / 1000000"

type_synonym credentials = "(string \<times> string) option"

definition get_current_user :: "ext \<Rightarrow> settings \<Rightarrow> runtime \<Rightarrow> credentials \<Rightarrow> user action" where
  "get_current_user X S E credentials =
     a_bind (checked (case credentials of
         None \<Rightarrow> Inl authentication_required
       | Some (scheme, token) \<Rightarrow> if py_lower scheme \<noteq> ''bearer'' then Inl authentication_required
           else (case decode_access_token X S E token of
                   Inl (InvalidAccessToken m) \<Rightarrow> Inl (AuthenticationError ''invalid_access_token'' m)
                 | Inl e \<Rightarrow> Inl e | Inr user_id \<Rightarrow> Inr user_id))) (\<lambda>user_id.
     a_bind (query (\<lambda>d. require (scalar (filter (\<lambda>u. usr_id u = user_id \<and> usr_is_active u) (users d)))
       (AuthenticationError ''invalid_access_token'' ''Invalid or expired access token''))) (\<lambda>user.
     a_bind (on_redis (enforce rate_prefix (''user:'' @ uuid_str (usr_id user)) (user_rate_limit_per_minute S) 60
       (unix_time (rt_clock E 1)))) (\<lambda>_.
     ret user)))"

definition get_current_membership :: "uuid \<Rightarrow> user \<Rightarrow> membership action" where
  "get_current_membership organization_id current_user =
     query (\<lambda>d. require (select_membership d organization_id (usr_id current_user))
       (NotFoundError ''organization_not_found'' ''Organization not found''))"

definition require_roles :: "role list \<Rightarrow> membership \<Rightarrow> membership action" where
  "require_roles allowed_roles membership =
     checked (if mem_role membership \<notin> set allowed_roles then Inl forbidden else Inr membership)"

text \<open>\<open>OrganizationMembership\<close> is every role; \<open>OwnerOrAdminMembership\<close> and \<open>OwnerMembership\<close> are role checks on top of it.\<close>

definition current_member :: "ext \<Rightarrow> settings \<Rightarrow> runtime \<Rightarrow> credentials \<Rightarrow> uuid \<Rightarrow> role list \<Rightarrow> (user \<times> membership) action" where
  "current_member X S E credentials organization_id allowed_roles =
     a_bind (get_current_user X S E credentials) (\<lambda>user.
     a_bind (get_current_membership organization_id user) (\<lambda>membership.
     a_bind (require_roles allowed_roles membership) (\<lambda>_. ret (user, membership))))"

definition get_api_key_principal :: "ext \<Rightarrow> settings \<Rightarrow> runtime \<Rightarrow> string option \<Rightarrow> api_key_principal action" where
  "get_api_key_principal X S E raw_key =
     a_bind (checked (case raw_key of
         None \<Rightarrow> Inl (AuthenticationError ''invalid_api_key'' ''Invalid API key'')
       | Some k \<Rightarrow> if 8 \<le> length k \<and> length k \<le> 256 then Inr k
                  else Inl (AuthenticationError ''invalid_api_key'' ''Invalid API key''))) (\<lambda>k.
     a_bind (service (authenticate_api_key X E k)) (\<lambda>principal.
     a_bind (on_redis (enforce rate_prefix (''api-key:'' @ uuid_str (principal_key_id principal)) (api_rate_limit_per_minute S) 60
       (unix_time (rt_clock E 1)))) (\<lambda>_.
     ret principal)))"

section \<open>Lemmas\<close>

lemma a_bind_Inr: "a_bind m f s = (Inr y, s') \<longleftrightarrow> (\<exists>x s1. m s = (Inr x, s1) \<and> f x s1 = (Inr y, s'))"
  by (auto simp: a_bind_def split: prod.splits sum.splits)

lemma ret_simps [simp]: "ret x s = (r, s') \<longleftrightarrow> r = Inr x \<and> s' = s"
  by (auto simp: ret_def)

lemma checked_simps [simp]: "checked m s = (r, s') \<longleftrightarrow> m = r \<and> s' = s"
  by (auto simp: checked_def)

lemma query_eq [simp]: "query q s = (r, s') \<longleftrightarrow> q (fst s) = r \<and> s' = s"
  by (auto simp: query_def)

lemma service_Inr: "service op (d, r) = (Inr x, s') \<longleftrightarrow> (\<exists>d'. op d = Inr (x, d') \<and> s' = (d', r))"
  by (auto simp: service_def split: sum.splits)

lemma on_redis_Inr: "on_redis op (d, r) = (Inr x, s') \<longleftrightarrow> (\<exists>r'. op r = (Inr x, r') \<and> s' = (d, r'))"
  by (auto simp: on_redis_def split: prod.splits)

lemma body_Inr [simp]: "body m s = (Inr x, s') \<longleftrightarrow> m = Inr x \<and> s' = s"
  by (auto simp: body_def split: sum.splits exc.splits)

text \<open>A session changes the database only when its body returns.\<close>

lemma session_db:
  assumes "session m s = (res, s')"
  shows "fst s' = fst s \<or> (\<exists>x. res = Inr x \<and> m s = (Inr x, s'))"
  using assms by (auto simp: session_def split: prod.splits sum.splits)

lemma session_Inr [simp]: "session m s = (Inr x, s') \<longleftrightarrow> m s = (Inr x, s')"
  by (auto simp: session_def split: prod.splits sum.splits)

lemma session_Inl: "session m s = (Inl e, s') \<Longrightarrow> fst s' = fst s"
  by (auto simp: session_def split: prod.splits sum.splits)

lemma get_current_user_InrD:
  assumes "get_current_user X S E c (d, r) = (Inr u, (d', r'))"
  shows "d' = d" "u \<in> set (users d)" "usr_is_active u"
    "\<exists>scheme token. c = Some (scheme, token) \<and> decode_access_token X S E token = Inr (usr_id u)"
  using assms
  by (auto simp: get_current_user_def a_bind_Inr on_redis_Inr split: option.splits if_splits sum.splits exc.splits prod.splits
      dest!: scalar_filter_SomeD)

lemma current_member_InrD:
  assumes "current_member X S E c oid roles (d, r) = (Inr (u, m), (d', r'))"
  shows "d' = d" "u \<in> set (users d)" "usr_is_active u" "select_membership d oid (usr_id u) = Some m" "mem_role m \<in> set roles"
    "\<exists>scheme token. c = Some (scheme, token) \<and> decode_access_token X S E token = Inr (usr_id u)"
  using assms get_current_user_InrD [of X S E c d r u d' _]
  by (auto simp: current_member_def a_bind_Inr get_current_membership_def require_roles_def split: if_splits dest: get_current_user_InrD)

lemma get_api_key_principal_InrD:
  assumes "get_api_key_principal X S E raw (d, r) = (Inr p, (d', r'))"
  shows "\<exists>k. raw = Some k \<and> authenticate_api_key X E k d = Inr (p, d')"
  using assms
  by (auto simp: get_api_key_principal_def a_bind_Inr on_redis_Inr service_Inr split: option.splits if_splits)

end
