(* ===== verification/Projects.thy ===== *)
theory Projects
  imports Organizations
begin

text \<open>
  The project service, \<^verbatim>\<open>app/services/projects.py\<close>. Every query names the organization and asks for
  the membership of the actor, so a project is visible and writable inside its organization only;
  the lemmas show that reads depend on nothing outside the tenant.
\<close>

definition is_member :: "uuid \<Rightarrow> uuid \<Rightarrow> db \<Rightarrow> bool" where
  "is_member organization_id user_id d =
     (\<exists>m \<in> set (memberships d). mem_organization_id m = organization_id \<and> mem_user_id m = user_id)"

definition create_project :: "runtime \<Rightarrow> uuid \<Rightarrow> uuid \<Rightarrow> project_create \<Rightarrow> db \<Rightarrow> exc + project \<times> db" where
  "create_project E organization_id actor_id data d =
     r_bind (raise_if (\<not> is_member organization_id actor_id d) forbidden) (\<lambda>_.
     let project = \<lparr>prj_id = rt_uuid E 0, prj_organization_id = organization_id, prj_name = pc_name data,
           prj_description = pc_description data, prj_status = ACTIVE_PROJECT, prj_created_by = actor_id,
           prj_created_at = rt_db_now E, prj_updated_at = rt_db_now E\<rparr> in
     r_bind (add_project project d) (\<lambda>d1.
     r_bind (write_audit (later_uuid 1 E) organization_id (Some actor_id) ''project.created'' ''project''
       (uuid_str (prj_id project)) [] None d1) (\<lambda>(_, d2).
     Inr (project, d2))))"

definition list_projects :: "uuid \<Rightarrow> uuid \<Rightarrow> db \<Rightarrow> project list" where
  "list_projects organization_id actor_id d =
     sort_key (\<lambda>p. instant (prj_created_at p) * 2 ^ 128 + uint (prj_id p))
       (filter (\<lambda>p. prj_organization_id p = organization_id \<and> is_member organization_id actor_id d) (projects d))"

definition get_project :: "uuid \<Rightarrow> uuid \<Rightarrow> uuid \<Rightarrow> db \<Rightarrow> exc + project" where
  "get_project organization_id project_id actor_id d =
     require (scalar (filter (\<lambda>p. prj_id p = project_id \<and> prj_organization_id p = organization_id \<and>
         is_member organization_id actor_id d) (projects d)))
       (NotFoundError ''project_not_found'' ''Project not found'')"

definition project_changes :: "project_update \<Rightarrow> project \<Rightarrow> project" where
  "project_changes data p =
     (let p1 = (case pu_name data of None \<Rightarrow> p | Some n \<Rightarrow> p\<lparr>prj_name := n\<rparr>);
          p2 = (case pu_description data of None \<Rightarrow> p1 | Some de \<Rightarrow> p1\<lparr>prj_description := de\<rparr>)
      in (case pu_status data of None \<Rightarrow> p2 | Some st \<Rightarrow> p2\<lparr>prj_status := st\<rparr>))"

definition touch_project :: "runtime \<Rightarrow> project \<Rightarrow> project \<Rightarrow> project" where
  "touch_project E old new = (if new = old then new else new\<lparr>prj_updated_at := rt_db_now E\<rparr>)"

definition update_project :: "runtime \<Rightarrow> uuid \<Rightarrow> uuid \<Rightarrow> uuid \<Rightarrow> project_update \<Rightarrow> db \<Rightarrow> exc + project \<times> db" where
  "update_project E organization_id project_id actor_id data d =
     r_bind (get_project organization_id project_id actor_id d) (\<lambda>project.
     let changed = touch_project E project (project_changes data project);
         d1 = save_project changed d in
     r_bind (write_audit E organization_id (Some actor_id) ''project.updated'' ''project'' (uuid_str (prj_id project))
        [(''fields'', changed_fields [(''description'', pu_description data \<noteq> None), (''name'', pu_name data \<noteq> None),
           (''status'', pu_status data \<noteq> None)])] None d1) (\<lambda>(_, d2).
     Inr (changed, d2)))"

definition delete_project :: "runtime \<Rightarrow> uuid \<Rightarrow> uuid \<Rightarrow> uuid \<Rightarrow> db \<Rightarrow> exc + unit \<times> db" where
  "delete_project E organization_id project_id actor_id d =
     r_bind (get_project organization_id project_id actor_id d) (\<lambda>project.
     r_bind (write_audit E organization_id (Some actor_id) ''project.deleted'' ''project'' (uuid_str (prj_id project))
       [] None d) (\<lambda>(_, d1).
     Inr ((), delete_project_row (prj_id project) d1)))"

declare is_member_def [service_defs] create_project_def [service_defs] list_projects_def [service_defs]
  get_project_def [service_defs] project_changes_def [service_defs] touch_project_def [service_defs]
  update_project_def [service_defs] delete_project_def [service_defs]

section \<open>Lemmas\<close>

lemma get_projectD:
  "get_project oid pid actor d = Inr p \<Longrightarrow> p \<in> set (projects d) \<and> prj_id p = pid \<and> prj_organization_id p = oid \<and> is_member oid actor d"
  by (auto simp: get_project_def dest: scalar_filter_SomeD)

lemma get_project_unique:
  assumes "wf_db d" "p \<in> set (projects d)" "is_member (prj_organization_id p) actor d"
  shows "get_project (prj_organization_id p) (prj_id p) actor d = Inr p"
  using scalar_filter_unique [OF wf_unique(13) [OF assms(1)] assms(2), of "\<lambda>q. prj_id q = prj_id p \<and>
    prj_organization_id q = prj_organization_id p \<and> is_member (prj_organization_id p) actor d"] assms(3)
  by (simp add: get_project_def)

lemma changes_simps [simp]:
  "prj_id (touch_project E a b) = prj_id b" "prj_organization_id (touch_project E a b) = prj_organization_id b"
  "prj_created_by (touch_project E a b) = prj_created_by b" "prj_name (touch_project E a b) = prj_name b"
  "prj_description (touch_project E a b) = prj_description b" "prj_status (touch_project E a b) = prj_status b"
  "prj_id (project_changes data a) = prj_id a" "prj_organization_id (project_changes data a) = prj_organization_id a"
  "prj_created_by (project_changes data a) = prj_created_by a"
  by (simp_all add: touch_project_def project_changes_def Let_def split: option.splits)

lemma create_project_InrD:
  assumes "create_project E oid actor data d = Inr (p, d')"
  obtains d1 e where "is_member oid actor d" "add_project p d = Inr d1"
    "write_audit (later_uuid 1 E) oid (Some actor) ''project.created'' ''project'' (uuid_str (prj_id p)) [] None d1 = Inr (e, d')"
    "prj_organization_id p = oid" "prj_name p = pc_name data" "prj_description p = pc_description data"
    "prj_created_by p = actor" "prj_status p = ACTIVE_PROJECT"
  using assms by (auto simp: create_project_def Let_def)

lemma update_project_InrD:
  assumes "update_project E oid pid actor data d = Inr (p', d')"
  obtains p e meta where "p \<in> set (projects d)" "prj_id p = pid" "prj_organization_id p = oid" "is_member oid actor d"
    "p' = touch_project E p (project_changes data p)"
    "write_audit E oid (Some actor) ''project.updated'' ''project'' (uuid_str pid) meta None (save_project p' d) = Inr (e, d')"
proof -
  obtain p e meta where *: "get_project oid pid actor d = Inr p" "p' = touch_project E p (project_changes data p)"
    "write_audit E oid (Some actor) ''project.updated'' ''project'' (uuid_str (prj_id p)) meta None (save_project p' d) = Inr (e, d')"
    using assms by (auto simp: update_project_def Let_def)
  show thesis using that [of p meta e] get_projectD [OF *(1)] * by simp
qed

lemma delete_project_InrD:
  assumes "delete_project E oid pid actor d = Inr (u, d')"
  obtains p e d1 where "p \<in> set (projects d)" "prj_id p = pid" "prj_organization_id p = oid" "is_member oid actor d"
    "write_audit E oid (Some actor) ''project.deleted'' ''project'' (uuid_str pid) [] None d = Inr (e, d1)"
    "d' = delete_project_row pid d1"
proof -
  obtain p e d1 where *: "get_project oid pid actor d = Inr p"
    "write_audit E oid (Some actor) ''project.deleted'' ''project'' (uuid_str (prj_id p)) [] None d = Inr (e, d1)"
    "d' = delete_project_row (prj_id p) d1"
    using assms by (auto simp: delete_project_def)
  show thesis using that [of p e d1] get_projectD [OF *(1)] * by simp
qed

lemma add_project_InrD: "add_project p d = Inr d' \<Longrightarrow> d' = d\<lparr>projects := projects d @ [p]\<rparr>"
  by (auto simp: add_project_def split: if_splits)

lemma create_project_wf: "create_project E oid actor data d = Inr (p, d') \<Longrightarrow> wf_db d \<Longrightarrow> wf_db d'"
  by (erule create_project_InrD, erule write_audit_wf, erule wf_add_project)

lemma create_project_view:
  assumes "create_project E oid actor data d = Inr (p, d')" "oid' \<noteq> oid"
  shows "tenant_view oid' d' = tenant_view oid' d"
  using assms(1)
proof (rule create_project_InrD)
  fix d1 e
  assume a: "add_project p d = Inr d1" "prj_organization_id p = oid"
    "write_audit (later_uuid 1 E) oid (Some actor) ''project.created'' ''project'' (uuid_str (prj_id p)) [] None d1 = Inr (e, d')"
  show ?thesis using tenant_view_add(8) [OF a(1), of oid'] write_audit_view [OF a(3) assms(2)] a(2) assms(2) by simp
qed

lemma update_project_wf:
  assumes "update_project E oid pid actor data d = Inr (p', d')" "wf_db d"
  shows "wf_db d'"
  using assms(1)
proof (rule update_project_InrD)
  fix p e meta
  assume a: "p \<in> set (projects d)" "p' = touch_project E p (project_changes data p)"
    "write_audit E oid (Some actor) ''project.updated'' ''project'' (uuid_str pid) meta None (save_project p' d) = Inr (e, d')"
  have "wf_db (save_project p' d)" using wf_save_project [OF assms(2) a(1), of p'] a(2) by simp
  then show ?thesis by (rule write_audit_wf [OF a(3)])
qed

lemma update_project_view:
  assumes "update_project E oid pid actor data d = Inr (p', d')" "wf_db d" "oid' \<noteq> oid"
  shows "tenant_view oid' d' = tenant_view oid' d"
  using assms(1)
proof (rule update_project_InrD)
  fix p e meta
  assume a: "p \<in> set (projects d)" "prj_organization_id p = oid" "p' = touch_project E p (project_changes data p)"
    "write_audit E oid (Some actor) ''project.updated'' ''project'' (uuid_str pid) meta None (save_project p' d) = Inr (e, d')"
  show ?thesis
    using tenant_view_save(4) [OF assms(2) a(1), of p' oid'] write_audit_view [OF a(4) assms(3)] assms(3) a(2,3) by simp
qed

lemma delete_project_wf: "delete_project E oid pid actor d = Inr (u, d') \<Longrightarrow> wf_db d \<Longrightarrow> wf_db d'"
  by (erule delete_project_InrD) (simp add: wf_delete_project_row write_audit_wf)

lemma delete_project_view:
  assumes "delete_project E oid pid actor d = Inr (u, d')" "wf_db d" "oid' \<noteq> oid"
  shows "tenant_view oid' d' = tenant_view oid' d"
  using assms(1)
proof (rule delete_project_InrD)
  fix p e d1
  assume a: "p \<in> set (projects d)" "prj_id p = pid" "prj_organization_id p = oid" "d' = delete_project_row pid d1"
    "write_audit E oid (Some actor) ''project.deleted'' ''project'' (uuid_str pid) [] None d = Inr (e, d1)"
  have "p \<in> set (projects d1)" using write_audit_InrD(2) [OF a(5)] a(1) by simp
  then show ?thesis
    using tenant_view_delete(2) [of d1 p oid'] write_audit_wf [OF a(5) assms(2)] write_audit_view [OF a(5) assms(3)] a assms(3)
    by simp
qed

text \<open>Project operations never touch organizations, memberships or subscriptions.\<close>

lemma project_complete:
  "create_project E oid actor cdata d = Inr (p, d') \<Longrightarrow> orgs_complete d' = orgs_complete d"
  "update_project E oid pid actor udata d = Inr (p, d') \<Longrightarrow> orgs_complete d' = orgs_complete d"
  "delete_project E oid pid actor d = Inr (u, d') \<Longrightarrow> orgs_complete d' = orgs_complete d"
  by (erule create_project_InrD, drule write_audit_InrD(2), drule add_project_InrD, rule orgs_complete_cong; simp)
    (erule update_project_InrD delete_project_InrD, drule write_audit_InrD(2), rule orgs_complete_cong;
      simp add: save_project_def delete_project_row_def)+

text \<open>What a member reads is determined by the tenant's own rows.\<close>

lemma is_member_view: "is_member oid uid d = (\<exists>m \<in> set (tv_memberships (tenant_view oid d)). mem_user_id m = uid)"
  by (auto simp: is_member_def tenant_view_def)

lemma projects_view: "filter (\<lambda>p. prj_organization_id p = oid \<and> Q p) (projects d) = filter Q (tv_projects (tenant_view oid d))"
  by (simp add: tenant_view_def conj_commute)

section \<open>The contracts hold\<close>

interpretation create_project_tenant: tenant_service
  "\<lambda>(E, oid, actor, data). create_project E oid actor data" "\<lambda>(E, oid, actor, data). oid"
  by unfold_locales (auto intro: create_project_wf create_project_view)

interpretation update_project_tenant: tenant_service
  "\<lambda>(E, oid, pid, actor, data). update_project E oid pid actor data" "\<lambda>(E, oid, pid, actor, data). oid"
  by unfold_locales (auto intro: update_project_wf update_project_view)

interpretation delete_project_tenant: tenant_service
  "\<lambda>(E, oid, pid, actor). delete_project E oid pid actor" "\<lambda>(E, oid, pid, actor). oid"
  by unfold_locales (auto intro: delete_project_wf delete_project_view)

interpretation create_project_complete: complete_service "\<lambda>(E, oid, actor, data). create_project E oid actor data"
  by unfold_locales (auto simp: project_complete intro: create_project_wf)

interpretation update_project_complete: complete_service "\<lambda>(E, oid, pid, actor, data). update_project E oid pid actor data"
  by unfold_locales (auto simp: project_complete intro: update_project_wf)

interpretation delete_project_complete: complete_service "\<lambda>(E, oid, pid, actor). delete_project E oid pid actor"
  by unfold_locales (auto simp: project_complete intro: delete_project_wf)

section \<open>Properties\<close>

text \<open>
  A new project can be read back, under its organization, by every member of the organization
  and by nobody else; under any other organization, whoever asks, it is not found.
\<close>

lemma project_round_trip:
  assumes "create_project E oid actor_id data d = Inr (p, d')" "wf_db d"
  shows "prj_name p = pc_name data \<and> prj_description p = pc_description data \<and>
    (\<forall>uid. get_project oid (prj_id p) uid d' =
      (if is_member oid uid d then Inr p else Inl (AppError 404 ''project_not_found'' ''Project not found'' None))) \<and>
    (\<forall>oid' uid. oid' \<noteq> oid \<longrightarrow> get_project oid' (prj_id p) uid d' = Inl (AppError 404 ''project_not_found'' ''Project not found'' None))"
  using assms(1)
proof (rule create_project_InrD)
  fix d1 e
  assume a: "add_project p d = Inr d1"
    "write_audit (later_uuid 1 E) oid (Some actor_id) ''project.created'' ''project'' (uuid_str (prj_id p)) [] None d1 = Inr (e, d')"
    "prj_organization_id p = oid" "prj_name p = pc_name data" "prj_description p = pc_description data"
  have t: "projects d' = projects d @ [p]" "memberships d' = memberships d"
    using add_project_InrD [OF a(1)] write_audit_InrD(2) [OF a(2)] by simp_all
  have m: "is_member oid uid d' = is_member oid uid d" for uid by (simp add: is_member_def t(2))
  have w: "wf_db d'" using create_project_wf [OF assms] .
  have n: "get_project oid' (prj_id p) uid d' = Inl (AppError 404 ''project_not_found'' ''Project not found'' None)"
    if "oid' \<noteq> oid \<or> \<not> is_member oid' uid d'" for oid' uid
  proof -
    have "\<not> (\<exists>q \<in> set (projects d'). prj_id q = prj_id p \<and> prj_organization_id q = oid' \<and> is_member oid' uid d')"
      using that unique_onD [OF wf_unique(13) [OF w], of _ p] t(1) a(3) by auto
    then show ?thesis by (auto simp: get_project_def NotFoundError_def filter_empty_conv)
  qed
  have "get_project oid (prj_id p) uid d' = Inr p" if "is_member oid uid d" for uid
    using get_project_unique [OF w, of p uid] t(1) that m a(3) by simp
  then show ?thesis using n a(4,5) m by simp
qed

end
