(* ===== verification/Invitations.thy ===== *)
theory Invitations
  imports Auth
begin

text \<open>
  The invitation service, \<^verbatim>\<open>app/services/invitations.py\<close>. An invitation is created by an owner or an
  administrator, delivered as a raw token of which only the hash is stored, and accepted once, by
  the account whose email it names, before it expires.
\<close>

section \<open>Operations\<close>

definition lock_organization :: "uuid \<Rightarrow> db \<Rightarrow> exc + unit" where
  "lock_organization organization_id d = raise_if (find_organization d organization_id = None) forbidden"

definition lock_actor :: "uuid \<Rightarrow> uuid \<Rightarrow> db \<Rightarrow> exc + membership" where
  "lock_actor organization_id user_id d =
     require (scalar (filter (\<lambda>m. mem_organization_id m = organization_id \<and> mem_user_id m = user_id \<and>
       mem_role m \<in> {OWNER, ADMIN}) (memberships d))) forbidden"

definition invitation_has_expired :: "datetime \<Rightarrow> datetime \<Rightarrow> bool" where
  "invitation_has_expired expires_at now =
     (let comparable_now = (if tzinfo expires_at \<noteq> None then now else replace_tzinfo now None)
      in dt_le expires_at comparable_now)"

definition create_invitation ::
  "ext \<Rightarrow> settings \<Rightarrow> runtime \<Rightarrow> uuid \<Rightarrow> uuid \<Rightarrow> invitation_create \<Rightarrow> db \<Rightarrow> exc + (invitation \<times> string) \<times> db" where
  "create_invitation X S E organization_id actor_id data d =
     r_bind (lock_organization organization_id d) (\<lambda>_.
     r_bind (lock_actor organization_id actor_id d) (\<lambda>actor_membership.
     r_bind (ensure_invitation_role (mem_role actor_membership) (ic_role data)) (\<lambda>_.
     let now = rt_clock E 0;
         member_exists = scalar [mem_id m. m \<leftarrow> memberships d, u \<leftarrow> users d, usr_id u = mem_user_id m \<and>
           mem_organization_id m = organization_id \<and> py_lower (usr_email u) = ic_email data] in
     r_bind (raise_if (member_exists \<noteq> None) (ConflictError ''already_member'' ''This user is already a member'')) (\<lambda>_.
     let active_invitation = scalar (filter (\<lambda>i. inv_organization_id i = organization_id \<and>
           py_lower (inv_email i) = ic_email data \<and> inv_accepted_at i = None \<and> dt_lt now (inv_expires_at i)) (invitations d)) in
     r_bind (raise_if (active_invitation \<noteq> None)
       (ConflictError ''invitation_exists'' ''An active invitation already exists'')) (\<lambda>_.
     let raw_token = generate_opaque_token E in
     r_bind (add_days now (invitation_expire_days S)) (\<lambda>expires_at.
     let invitation = \<lparr>inv_id = rt_uuid E 0, inv_organization_id = organization_id, inv_email = ic_email data,
           inv_role = ic_role data, inv_token_hash = hash_token X raw_token, inv_expires_at = expires_at,
           inv_accepted_at = None, inv_created_by = actor_id, inv_created_at = now\<rparr> in
     r_bind (add_invitation invitation d) (\<lambda>d1.
     r_bind (write_audit (later_uuid 1 E) organization_id (Some actor_id) ''member.invited'' ''invitation''
       (uuid_str (inv_id invitation))
       [(''email'', JStr (ic_email data)), (''role'', JStr (role_value (ic_role data)))] None d1) (\<lambda>(_, d2).
     Inr ((invitation, raw_token), d2)))))))))"

definition find_invitation :: "ext \<Rightarrow> string \<Rightarrow> db \<Rightarrow> invitation option" where
  "find_invitation X raw_token d = scalar (filter (\<lambda>i. inv_token_hash i = hash_token X raw_token) (invitations d))"

definition accept_invitation :: "ext \<Rightarrow> runtime \<Rightarrow> string \<Rightarrow> user \<Rightarrow> db \<Rightarrow> exc + membership \<times> db" where
  "accept_invitation X E raw_token user d =
     (let now = rt_clock E 0;
          already_member = ConflictError ''already_member'' ''This user is already a member'' in
      r_bind (require (find_invitation X raw_token d) (NotFoundError ''invitation_not_found'' ''Invitation not found'')) (\<lambda>invitation.
      r_bind (raise_if (inv_accepted_at invitation \<noteq> None)
        (ConflictError ''invitation_used'' ''Invitation has already been accepted'')) (\<lambda>_.
      r_bind (raise_if (invitation_has_expired (inv_expires_at invitation) now)
        (ConflictError ''invitation_expired'' ''Invitation has expired'')) (\<lambda>_.
      r_bind (raise_if (py_lower (inv_email invitation) \<noteq> py_lower (usr_email user))
        (ForbiddenError ''invitation_email_mismatch'' ''This invitation belongs to another account'')) (\<lambda>_.
      r_bind (raise_if (select_membership d (inv_organization_id invitation) (usr_id user) \<noteq> None) already_member) (\<lambda>_.
      let membership = \<lparr>mem_id = rt_uuid E 0, mem_user_id = usr_id user, mem_organization_id = inv_organization_id invitation,
            mem_role = inv_role invitation, mem_joined_at = rt_db_now E\<rparr> in
      r_bind (on_integrity_error already_member
        (add_membership membership (save_invitation (invitation\<lparr>inv_accepted_at := Some now\<rparr>) d))) (\<lambda>d1.
      r_bind (write_audit (later_uuid 1 E) (inv_organization_id invitation) (Some (usr_id user)) ''invitation.accepted'' ''invitation''
        (uuid_str (inv_id invitation)) [(''membership_id'', JStr (uuid_str (mem_id membership)))] None d1) (\<lambda>(_, d2).
      Inr (membership, d2)))))))))"

declare lock_organization_def [service_defs] lock_actor_def [service_defs] invitation_has_expired_def [service_defs]
  create_invitation_def [service_defs] find_invitation_def [service_defs] accept_invitation_def [service_defs]
  ensure_invitation_role_def [service_defs]

section \<open>Inversion of successful operations\<close>

lemma lock_actorD:
  "lock_actor oid uid d = Inr m \<Longrightarrow> m \<in> set (memberships d) \<and> mem_organization_id m = oid \<and> mem_user_id m = uid \<and> mem_role m \<in> {OWNER, ADMIN}"
  by (auto simp: lock_actor_def dest: scalar_filter_SomeD)

lemma add_invitation_InrD: "add_invitation i d = Inr d' \<Longrightarrow> d' = d\<lparr>invitations := invitations d @ [i]\<rparr> \<and>
    inv_token_hash i \<notin> inv_token_hash ` set (invitations d)"
  by (auto simp: add_invitation_def split: if_splits)

lemma add_membership_InrD: "add_membership m d = Inr d' \<Longrightarrow> d' = d\<lparr>memberships := memberships d @ [m]\<rparr>"
  by (auto simp: add_membership_def split: if_splits)

lemma create_invitation_InrD:
  assumes "create_invitation X S E oid actor_id data d = Inr ((i, raw), d')"
  obtains actor d1 e meta where "lock_actor oid actor_id d = Inr actor"
    "mem_role actor = OWNER \<or> mem_role actor = ADMIN \<and> ic_role data = MEMBER"
    "\<forall>j \<in> set (invitations d). inv_organization_id j = oid \<and> py_lower (inv_email j) = ic_email data \<and> inv_accepted_at j = None \<longrightarrow>
        \<not> dt_lt (rt_clock E 0) (inv_expires_at j)"
    "add_invitation i d = Inr d1" "raw = rt_token E 0"
    "inv_organization_id i = oid" "inv_email i = ic_email data" "inv_role i = ic_role data" "inv_token_hash i = hash_token X raw"
    "inv_accepted_at i = None" "inv_created_by i = actor_id" "add_days (rt_clock E 0) (invitation_expire_days S) = Inr (inv_expires_at i)"
    "write_audit (later_uuid 1 E) oid (Some actor_id) ''member.invited'' ''invitation'' (uuid_str (inv_id i)) meta None d1 = Inr (e, d')"
proof -
  obtain actor x d1 e meta where *: "lock_actor oid actor_id d = Inr actor"
    "ensure_invitation_role (mem_role actor) (ic_role data) = Inr ()"
    "filter (\<lambda>j. inv_organization_id j = oid \<and> py_lower (inv_email j) = ic_email data \<and> inv_accepted_at j = None \<and>
        dt_lt (rt_clock E 0) (inv_expires_at j)) (invitations d) = []"
    "add_days (rt_clock E 0) (invitation_expire_days S) = Inr x"
    "i = \<lparr>inv_id = rt_uuid E 0, inv_organization_id = oid, inv_email = ic_email data,
       inv_role = ic_role data, inv_token_hash = hash_token X raw, inv_expires_at = x,
       inv_accepted_at = None, inv_created_by = actor_id, inv_created_at = rt_clock E 0\<rparr>"
    "raw = rt_token E 0" "add_invitation i d = Inr d1"
    "write_audit (later_uuid 1 E) oid (Some actor_id) ''member.invited'' ''invitation'' (uuid_str (inv_id i)) meta None d1 = Inr (e, d')"
    using assms by (auto simp: create_invitation_def Let_def generate_opaque_token_def)
  have a: "\<forall>j \<in> set (invitations d). inv_organization_id j = oid \<and> py_lower (inv_email j) = ic_email data \<and> inv_accepted_at j = None \<longrightarrow>
        \<not> dt_lt (rt_clock E 0) (inv_expires_at j)"
    using *(3) unfolding filter_empty_conv by blast
  show thesis
    by (rule that [OF *(1) *(2) [unfolded ensure_invitation_role_ok] a *(7,6) _ _ _ _ _ _ _ *(8)]) (simp_all add: *(4,5))
qed

lemma find_invitationD:
  "find_invitation X raw d = Some i \<Longrightarrow> i \<in> set (invitations d) \<and> inv_token_hash i = hash_token X raw"
  by (auto simp: find_invitation_def dest: scalar_filter_SomeD)

lemma find_invitation_unique:
  assumes "wf_db d" "i \<in> set (invitations d)" "inv_token_hash i = hash_token X raw"
  shows "find_invitation X raw d = Some i"
  unfolding find_invitation_def
  by (rule scalar_filter_unique [OF wf_unique(10) [OF assms(1)] assms(2)]) (simp_all add: assms(3))

lemma accept_invitation_InrD:
  assumes "accept_invitation X E raw u d = Inr (m, d')"
  obtains i d1 e meta where "find_invitation X raw d = Some i" "inv_accepted_at i = None"
    "\<not> invitation_has_expired (inv_expires_at i) (rt_clock E 0)" "py_lower (inv_email i) = py_lower (usr_email u)"
    "select_membership d (inv_organization_id i) (usr_id u) = None"
    "add_membership m (save_invitation (i\<lparr>inv_accepted_at := Some (rt_clock E 0)\<rparr>) d) = Inr d1"
    "mem_user_id m = usr_id u" "mem_organization_id m = inv_organization_id i" "mem_role m = inv_role i"
    "write_audit (later_uuid 1 E) (inv_organization_id i) (Some (usr_id u)) ''invitation.accepted'' ''invitation'' (uuid_str (inv_id i)) meta None d1 = Inr (e, d')"
  using assms by (auto simp: accept_invitation_def Let_def)

section \<open>Well-formedness, confinement, completeness\<close>

lemma create_invitation_wf: "create_invitation X S E oid actor data d = Inr (p, d') \<Longrightarrow> wf_db d \<Longrightarrow> wf_db d'"
  by (cases p, simp, erule create_invitation_InrD, erule write_audit_wf, erule wf_add_invitation)

lemma create_invitation_view:
  assumes "create_invitation X S E oid actor data d = Inr (p, d')" "oid' \<noteq> oid"
  shows "tenant_view oid' d' = tenant_view oid' d"
proof -
  obtain i raw where p: "p = (i, raw)" by force
  from assms(1) [unfolded p] obtain d1 e meta where a: "add_invitation i d = Inr d1" "inv_organization_id i = oid"
    "write_audit (later_uuid 1 E) oid (Some actor) ''member.invited'' ''invitation'' (uuid_str (inv_id i)) meta None d1 = Inr (e, d')"
    by (rule create_invitation_InrD)
  show ?thesis using tenant_view_add(6) [OF a(1), of oid'] write_audit_view [OF a(3) assms(2)] a(2) assms(2) by simp
qed

lemma create_invitation_complete:
  "create_invitation X S E oid actor data d = Inr (p, d') \<Longrightarrow> orgs_complete d' = orgs_complete d"
  by (cases p, simp, erule create_invitation_InrD, drule add_invitation_InrD, drule write_audit_InrD(2), rule orgs_complete_cong)
    simp_all

lemma accept_row_wf:
  "wf_db d \<Longrightarrow> i \<in> set (invitations d) \<Longrightarrow> wf_db (save_invitation (i\<lparr>inv_accepted_at := x\<rparr>) d)"
  by (rule wf_save_invitation [of d i]) simp_all

lemma accept_invitation_wf:
  assumes "accept_invitation X E raw u d = Inr (m, d')" "wf_db d"
  shows "wf_db d'"
  using assms(1)
proof (rule accept_invitation_InrD)
  fix i d1 e meta
  assume a: "find_invitation X raw d = Some i"
    "add_membership m (save_invitation (i\<lparr>inv_accepted_at := Some (rt_clock E 0)\<rparr>) d) = Inr d1"
    "write_audit (later_uuid 1 E) (inv_organization_id i) (Some (usr_id u)) ''invitation.accepted'' ''invitation'' (uuid_str (inv_id i)) meta None d1 = Inr (e, d')"
  show ?thesis
    using write_audit_wf [OF a(3)] wf_add_membership [OF a(2)] accept_row_wf [OF assms(2)] find_invitationD [OF a(1)] by blast
qed

lemma accept_invitation_view:
  assumes "accept_invitation X E raw u d = Inr (m, d')" "wf_db d" "oid \<noteq> mem_organization_id m"
  shows "tenant_view oid d' = tenant_view oid d"
  using assms(1)
proof (rule accept_invitation_InrD)
  fix i d1 e meta
  assume a: "find_invitation X raw d = Some i" "mem_organization_id m = inv_organization_id i"
    "add_membership m (save_invitation (i\<lparr>inv_accepted_at := Some (rt_clock E 0)\<rparr>) d) = Inr d1"
    "write_audit (later_uuid 1 E) (inv_organization_id i) (Some (usr_id u)) ''invitation.accepted'' ''invitation'' (uuid_str (inv_id i)) meta None d1 = Inr (e, d')"
  have i: "i \<in> set (invitations d)" "oid \<noteq> inv_organization_id i" using find_invitationD [OF a(1)] a(2) assms(3) by auto
  show ?thesis
    using tenant_view_save(2) [OF assms(2) i(1), of "i\<lparr>inv_accepted_at := Some (rt_clock E 0)\<rparr>" oid]
      tenant_view_add(5) [OF a(3) assms(3)] write_audit_view [OF a(4) i(2)] i(2) by simp
qed

lemma accept_invitation_memberships:
  "accept_invitation X E raw u d = Inr (m, d') \<Longrightarrow> organizations d' = organizations d \<and> subscriptions d' = subscriptions d \<and>
     memberships d' = memberships d @ [m]"
  by (erule accept_invitation_InrD, drule add_membership_InrD, drule write_audit_InrD(2)) (simp add: save_invitation_def)

lemma accept_invitation_complete:
  assumes "accept_invitation X E raw u d = Inr (m, d')" "orgs_complete d"
  shows "orgs_complete d'"
  using accept_invitation_memberships [OF assms(1)] owned_mono [of d d']
  by (intro orgs_complete_memberships [OF assms(2)]) auto

section \<open>Invitations are accepted once\<close>

definition invitation_spent :: "ext \<Rightarrow> string \<Rightarrow> db \<Rightarrow> bool" where
  "invitation_spent X raw d = (\<exists>i \<in> set (invitations d). inv_token_hash i = hash_token X raw \<and> inv_accepted_at i \<noteq> None)"

lemma invitation_spent_accept:
  assumes "wf_db d" "i \<in> set (invitations d)" "invitation_spent X raw d \<or> inv_token_hash i = hash_token X raw" "x \<noteq> None"
  shows "invitation_spent X raw (save_invitation (i\<lparr>inv_accepted_at := x\<rparr>) d)"
proof -
  let ?i = "i\<lparr>inv_accepted_at := x\<rparr>"
  have s: "r \<in> set (invitations (save_invitation ?i d)) \<longleftrightarrow> (r \<in> set (invitations d) \<and> inv_id r \<noteq> inv_id i) \<or> r = ?i" for r
    using in_set_save_row [of i "invitations d" inv_id ?i r] assms(2) by (simp add: save_invitation_def)
  show ?thesis
  proof (cases "inv_token_hash i = hash_token X raw")
    case True
    then show ?thesis using s [of ?i] assms(4) unfolding invitation_spent_def by (intro bexI [of _ ?i]) simp_all
  next
    case False
    with assms(3) obtain r where r: "r \<in> set (invitations d)" "inv_token_hash r = hash_token X raw" "inv_accepted_at r \<noteq> None"
      by (auto simp: invitation_spent_def)
    have "inv_id r \<noteq> inv_id i" using unique_onD [OF wf_unique(9) [OF assms(1)] r(1) assms(2)] r(2) False by auto
    then show ?thesis using s [of r] r unfolding invitation_spent_def by blast
  qed
qed

lemma accept_spent:
  assumes "accept_invitation X E raw u d = Inr (m, d')" "wf_db d" "invitation_spent X raw' d \<or> raw' = raw"
  shows "invitation_spent X raw' d'"
  using assms(1)
proof (rule accept_invitation_InrD)
  fix i d1 e meta
  assume a: "find_invitation X raw d = Some i"
    "add_membership m (save_invitation (i\<lparr>inv_accepted_at := Some (rt_clock E 0)\<rparr>) d) = Inr d1"
    "write_audit (later_uuid 1 E) (inv_organization_id i) (Some (usr_id u)) ''invitation.accepted'' ''invitation'' (uuid_str (inv_id i)) meta None d1 = Inr (e, d')"
  have "invitation_spent X raw' (save_invitation (i\<lparr>inv_accepted_at := Some (rt_clock E 0)\<rparr>) d)"
    using find_invitationD [OF a(1)] assms(2,3) by (intro invitation_spent_accept) auto
  moreover have "invitations d' = invitations (save_invitation (i\<lparr>inv_accepted_at := Some (rt_clock E 0)\<rparr>) d)"
    using write_audit_InrD(2) [OF a(3)] add_membership_InrD [OF a(2)] by simp
  ultimately show ?thesis by (simp add: invitation_spent_def)
qed

lemma spent_invitation_refused:
  assumes "invitation_spent X raw d" "wf_db d"
  shows "accept_invitation X E raw u d = Inl (ConflictError ''invitation_used'' ''Invitation has already been accepted'')"
proof -
  obtain i where "i \<in> set (invitations d)" "inv_token_hash i = hash_token X raw" "inv_accepted_at i \<noteq> None"
    using assms(1) by (auto simp: invitation_spent_def)
  with find_invitation_unique [OF assms(2)] have "find_invitation X raw d = Some i" "inv_accepted_at i \<noteq> None" by blast+
  then show ?thesis by (auto simp: accept_invitation_def)
qed

section \<open>The contracts hold\<close>

interpretation accept: one_time_token "\<lambda>(E, raw, u). accept_invitation X E raw u" "\<lambda>(E, raw, u). raw" "invitation_spent X"
  for X :: ext
  by unfold_locales (auto intro: accept_invitation_wf accept_spent simp: spent_invitation_refused)

interpretation accept_service: complete_service "\<lambda>(X, E, raw, u). accept_invitation X E raw u"
  by unfold_locales (auto intro: accept_invitation_wf accept_invitation_complete)

interpretation create_invitation_service: complete_service "\<lambda>(X, S, E, oid, actor, data). create_invitation X S E oid actor data"
  by unfold_locales (auto intro: create_invitation_wf simp: create_invitation_complete)

interpretation create_invitation_tenant: tenant_service
  "\<lambda>(X, S, E, oid, actor, data). create_invitation X S E oid actor data" "\<lambda>(X, S, E, oid, actor, data). oid"
  by unfold_locales (auto intro: create_invitation_wf create_invitation_view)

section \<open>An invitation can be accepted\<close>

lemma create_invitation_no_member:
  assumes "create_invitation X S E oid actor_id data d = Inr (p, d')" "wf_db d" "u \<in> set (users d)" "py_lower (usr_email u) = ic_email data"
  shows "select_membership d oid (usr_id u) = None"
proof (rule ccontr)
  assume "select_membership d oid (usr_id u) \<noteq> None"
  then obtain m where "m \<in> set (memberships d)" "mem_organization_id m = oid" "mem_user_id m = usr_id u"
    using select_membershipD by blast
  then have "mem_id m \<in> set [mem_id m. m \<leftarrow> memberships d, u \<leftarrow> users d, usr_id u = mem_user_id m \<and>
           mem_organization_id m = oid \<and> py_lower (usr_email u) = ic_email data]" (is "_ \<in> set ?ids")
    using assms(3,4) by (auto intro!: bexI [of _ m])
  moreover have "scalar ?ids = None"
    using assms(1) unfolding create_invitation_def Let_def r_bind_eq_Inr raise_if_eq_Inr by blast
  ultimately show False unfolding scalar_eq_None by (simp only: list.set empty_iff)
qed

lemma mem_pair_free:
  assumes "select_membership d oid uid = None"
  shows "(uid, oid) \<notin> mem_pair ` set (memberships d)"
  using assms by (auto simp: select_membership_def mem_pair_def filter_empty_conv)

section \<open>Properties\<close>

text \<open>
  An invitation is accepted at most once, however often and by whomever its token is presented.
\<close>

lemma invitation_at_most_once:
  assumes "wf_db d"
  shows "length (filter (\<lambda>((E, raw, u), r). raw = t \<and> \<not> isl r)
    (zip requests (outcomes (\<lambda>(E, raw, u). accept_invitation X E raw u) requests d))) \<le> 1"
  using accept.at_most_once [OF assms, of t requests] by (simp add: case_prod_beta')

text \<open>
  C25. Only an owner invites with every role; an administrator invites plain members only. There is no
  other open invitation of the organization for the same address, only the hash of the token is
  stored, and the invitation runs for the configured number of days.
\<close>

theorem create_invitation_rules:
  assumes "create_invitation X S E oid actor_id data d = Inr ((i, raw), d')"
  shows "(\<exists>actor \<in> set (memberships d). mem_organization_id actor = oid \<and> mem_user_id actor = actor_id \<and>
      (mem_role actor = OWNER \<or> mem_role actor = ADMIN \<and> ic_role data = MEMBER)) \<and>
    (\<forall>j \<in> set (invitations d). inv_organization_id j = oid \<and> py_lower (inv_email j) = ic_email data \<and> inv_accepted_at j = None \<longrightarrow>
      \<not> dt_lt (rt_clock E 0) (inv_expires_at j)) \<and>
    invitations d' = invitations d @ [i] \<and> inv_token_hash i = hash_token X raw \<and>
    add_days (rt_clock E 0) (invitation_expire_days S) = Inr (inv_expires_at i)"
  using assms
proof (rule create_invitation_InrD)
  fix actor d1 e meta
  assume a: "lock_actor oid actor_id d = Inr actor" "mem_role actor = OWNER \<or> mem_role actor = ADMIN \<and> ic_role data = MEMBER"
    "\<forall>j \<in> set (invitations d). inv_organization_id j = oid \<and> py_lower (inv_email j) = ic_email data \<and> inv_accepted_at j = None \<longrightarrow>
        \<not> dt_lt (rt_clock E 0) (inv_expires_at j)"
    "add_invitation i d = Inr d1" "inv_token_hash i = hash_token X raw"
    "add_days (rt_clock E 0) (invitation_expire_days S) = Inr (inv_expires_at i)"
    "write_audit (later_uuid 1 E) oid (Some actor_id) ''member.invited'' ''invitation'' (uuid_str (inv_id i)) meta None d1 = Inr (e, d')"
  have "invitations d' = invitations d @ [i]" using add_invitation_InrD [OF a(4)] write_audit_InrD(2) [OF a(7)] by simp
  then show ?thesis using lock_actorD [OF a(1)] a(2,3,5,6) by (intro conjI bexI [of _ actor]) simp_all
qed

theorem create_invitation_rules_witness:
  "\<exists>i raw d'. create_invitation sample_ext default_settings sample_rt 10 2 \<lparr>ic_email = ''new@c.io'', ic_role = MEMBER\<rparr> sample_db =
      Inr ((i, raw), d') \<and> invitations d' = invitations sample_db @ [i]"
proof -
  have n: "add_days sample_now 7 = Inr (sample_now\<lparr>day := 22\<rparr>)" by code_simp
  have l: "py_lower ''ann@a.io'' = ''ann@a.io''" "py_lower ''bob@a.io'' = ''bob@a.io''" "py_lower ''cat@a.io'' = ''cat@a.io''"
    "py_lower ''dan@b.io'' = ''dan@b.io''" "py_lower ''eve@a.io'' = ''eve@a.io''" by code_simp+
  obtain i raw d' where c: "create_invitation sample_ext default_settings sample_rt 10 2 \<lparr>ic_email = ''new@c.io'', ic_role = MEMBER\<rparr> sample_db =
      Inr ((i, raw), d')"
    by (simp add: service_defs default_settings_def n l sample_token Let_def cong: r_bind_weak_cong)
  then show ?thesis using create_invitation_rules [OF c] by blast
qed

text \<open>
  C24. An invitation that was created can be accepted: the account with the invited address, with the
  token that was delivered, before the expiry, becomes a member of the inviting organization with
  the role of the invitation.
\<close>

theorem invite_then_accept:
  assumes "create_invitation X S E oid actor_id data d = Inr ((i, raw), d')" "wf_db d"
    "u \<in> set (users d)" "py_lower (usr_email u) = ic_email data" "\<not> invitation_has_expired (inv_expires_at i) (rt_clock E' 0)"
    "rt_uuid E' 0 \<notin> mem_id ` set (memberships d)" "rt_uuid E' 1 \<notin> aud_id ` set (audit_logs d')"
  shows "\<exists>m d''. accept_invitation X E' raw u d' = Inr (m, d'') \<and> mem_user_id m = usr_id u \<and> mem_organization_id m = oid \<and>
    mem_role m = ic_role data"
proof -
  obtain d1 e meta where a: "add_invitation i d = Inr d1" "inv_organization_id i = oid" "inv_email i = ic_email data"
    "inv_role i = ic_role data" "inv_token_hash i = hash_token X raw" "inv_accepted_at i = None"
    "write_audit (later_uuid 1 E) oid (Some actor_id) ''member.invited'' ''invitation'' (uuid_str (inv_id i)) meta None d1 = Inr (e, d')"
    using assms(1) by (rule create_invitation_InrD)
  have t: "memberships d' = memberships d" "users d' = users d" "organizations d' = organizations d" "i \<in> set (invitations d')"
    using add_invitation_InrD [OF a(1)] write_audit_InrD(2) [OF a(7)] by simp_all
  have wf: "wf_db d'" using create_invitation_wf [OF assms(1,2)] .
  note f = find_invitation_unique [OF wf t(4) a(5)]
  have "select_membership d oid (usr_id u) = None" using create_invitation_no_member [OF assms(1-4)] .
  then have n: "select_membership d' oid (usr_id u) = None" "(usr_id u, oid) \<notin> mem_pair ` set (memberships d)"
    using mem_pair_free by (simp_all add: select_membership_def t(1))
  have o: "oid \<in> org_ids d'" using wf_fk(3) [OF wf t(4)] a(2) by simp
  let ?m = "\<lparr>mem_id = rt_uuid E' 0, mem_user_id = usr_id u, mem_organization_id = oid, mem_role = inv_role i, mem_joined_at = rt_db_now E'\<rparr>"
  let ?d1 = "save_invitation (i\<lparr>inv_accepted_at := Some (rt_clock E' 0)\<rparr>) d'"
  have d1: "memberships ?d1 = memberships d" "users ?d1 = users d" "organizations ?d1 = organizations d'" "audit_logs ?d1 = audit_logs d'"
    by (simp_all add: save_invitation_def t)
  have m: "add_membership ?m ?d1 = Inr (?d1\<lparr>memberships := memberships d @ [?m]\<rparr>)"
    using assms(3,6) n(2) o by (simp add: add_membership_def d1 mem_pair_def user_ids_def org_ids_def)
  have w: "\<exists>e d''. write_audit (later_uuid 1 E') oid (Some (usr_id u)) ''invitation.accepted'' ''invitation'' (uuid_str (inv_id i))
      [(''membership_id'', JStr (uuid_str (rt_uuid E' 0)))] None (?d1\<lparr>memberships := memberships d @ [?m]\<rparr>) = Inr (e, d'')"
    using assms(3,7) o by (simp add: write_audit_def Let_def add_audit_log_def d1 user_ids_def org_ids_def)
  have e: "py_lower (ic_email data) = ic_email data" by (simp flip: assms(4))
  show ?thesis
    using f a(2-4,6) assms(4,5) n(1) m w e by (auto simp: accept_invitation_def Let_def on_integrity_error_def)
qed

theorem invite_then_accept_witness:
  "\<exists>i raw d' m d''. create_invitation sample_ext default_settings sample_rt 10 2 \<lparr>ic_email = ''dan@b.io'', ic_role = MEMBER\<rparr> sample_db =
      Inr ((i, raw), d') \<and> accept_invitation sample_ext (later_uuid 9 sample_rt) raw (sample_user 4 ''dan@b.io'') d' = Inr (m, d'') \<and>
      mem_organization_id m = 10 \<and> mem_role m = MEMBER"
proof -
  have n: "add_days sample_now 7 = Inr (sample_now\<lparr>day := 22\<rparr>)" by code_simp
  have l: "py_lower ''ann@a.io'' = ''ann@a.io''" "py_lower ''bob@a.io'' = ''bob@a.io''" "py_lower ''cat@a.io'' = ''cat@a.io''"
    "py_lower ''dan@b.io'' = ''dan@b.io''" "py_lower ''eve@a.io'' = ''eve@a.io''" by code_simp+
  obtain i raw d' where c: "create_invitation sample_ext default_settings sample_rt 10 2 \<lparr>ic_email = ''dan@b.io'', ic_role = MEMBER\<rparr> sample_db =
      Inr ((i, raw), d')" "inv_expires_at i = sample_now\<lparr>day := 22\<rparr>" "aud_id ` set (audit_logs d') = {1001}"
    by (simp add: service_defs default_settings_def n l sample_token Let_def cong: r_bind_weak_cong)
  have x: "\<not> invitation_has_expired (inv_expires_at i) (rt_clock (later_uuid 9 sample_rt) 0)"
    unfolding c(2) by (simp add: sample_rt_def) code_simp
  have u: "sample_user 4 ''dan@b.io'' \<in> set (users sample_db)" "rt_uuid (later_uuid 9 sample_rt) 0 \<notin> mem_id ` set (memberships sample_db)"
    "rt_uuid (later_uuid 9 sample_rt) 1 \<notin> aud_id ` set (audit_logs d')"
    unfolding c(3) by (simp_all add: sample_defs sample_rt_def)
  show ?thesis
    using invite_then_accept [OF c(1) sample_wf u(1) _ x u(2,3)] c(1) l(4) by (auto simp: sample_user_def)
qed

end
