(* ===== verification/Job_Queue.thy ===== *)
theory Job_Queue
  imports Redis Samples
begin

text \<open>
  The job queue on Redis lists, \<^verbatim>\<open>app/infrastructure/queue.py\<close>: jobs and their JSON text, the queue with
  its processing and dead letter lists, and the redaction of dead letters. The lemmas show that the
  text of a job reads back as the job, that the queue is first in, first out (\<open>fifo_queue\<close>), that
  \<open>acknowledge\<close> and \<open>retry\<close> find the entry \<open>dequeue\<close> left in the processing list, and that
  redaction leaves no credential at any depth of a dead letter and keeps everything else.
\<close>

section \<open>Exception names\<close>

text \<open>\<open>type(exc).__name__\<close>; the status tells the subclasses of \<open>AppError\<close> apart.\<close>

fun exc_name :: "exc \<Rightarrow> string" where
  "exc_name (AppError st _ _ _) = (if st = 404 then ''NotFoundError'' else if st = 403 then ''ForbiddenError''
     else if st = 409 then ''ConflictError'' else if st = 401 then ''AuthenticationError'' else ''AppError'')"
| "exc_name (ValueError _) = ''ValueError''"
| "exc_name (KeyError _) = ''KeyError''"
| "exc_name (IndexError _) = ''IndexError''"
| "exc_name (TypeError _) = ''TypeError''"
| "exc_name (AttributeError _) = ''AttributeError''"
| "exc_name (OverflowError _) = ''OverflowError''"
| "exc_name (IntegrityError _) = ''IntegrityError''"
| "exc_name (StaleDataError _) = ''StaleDataError''"
| "exc_name (JSONDecodeError _) = ''JSONDecodeError''"
| "exc_name (ValidationError _) = ''ValidationError''"
| "exc_name (InvalidAccessToken _) = ''InvalidAccessToken''"
| "exc_name (PyJWTError _) = ''PyJWTError''"
| "exc_name (RedisError _) = ''RedisError''"
| "exc_name (InvitationDeliveryError _) = ''InvitationDeliveryError''"
| "exc_name (RequestValidationError _) = ''RequestValidationError''"
| "exc_name (HTTPException _ _ _) = ''HTTPException''"

section \<open>Jobs\<close>

definition MAX_ATTEMPTS :: int where
  "MAX_ATTEMPTS = 3"

definition RETRY_DELAYS :: "int list" where
  "RETRY_DELAYS = [1, 2, 4]"

definition SENSITIVE_PAYLOAD_KEYS :: "string set" where
  "SENSITIVE_PAYLOAD_KEYS = {''api_key'', ''authorization'', ''password'', ''refresh_token'', ''token''}"

fun redact_payload :: "json \<Rightarrow> json"
  and redact_list :: "json list \<Rightarrow> json list"
  and redact_pairs :: "(string \<times> json) list \<Rightarrow> (string \<times> json) list"
where
  "redact_payload (JDict kvs) = JDict (redact_pairs kvs)"
| "redact_payload (JList xs) = JList (redact_list xs)"
| "redact_payload v = v"
| "redact_list [] = []"
| "redact_list (x # xs) = redact_payload x # redact_list xs"
| "redact_pairs [] = []"
| "redact_pairs (p # ps) =
     (fst p, if py_lower (fst p) \<in> SENSITIVE_PAYLOAD_KEYS then JStr ''[redacted]'' else redact_payload (snd p)) # redact_pairs ps"

record job =
  job_id :: string
  job_type :: string
  job_payload :: dict
  job_attempt :: int
  job_created_at :: string

definition create_job :: "runtime \<Rightarrow> string \<Rightarrow> dict \<Rightarrow> exc + job" where
  "create_job E jtype payload =
     (if jtype = [] then Inl (ValueError ''job type is required'')
      else Inr \<lparr>job_id = uuid_str (rt_uuid E 0), job_type = jtype, job_payload = payload, job_attempt = 0,
                job_created_at = isoformat (rt_clock E 0)\<rparr>)"

text \<open>\<open>int(v)\<close> of a decoded value; a float is truncated towards zero.\<close>

definition int_of_json :: "json \<Rightarrow> exc + int" where
  "int_of_json j = (case j of
       JInt i \<Rightarrow> Inr i
     | JBool b \<Rightarrow> Inr (if b then 1 else 0)
     | JFloat q \<Rightarrow> Inr (if q < 0 then \<lceil>q\<rceil> else \<lfloor>q\<rfloor>)
     | JStr s \<Rightarrow> require (py_int s) (ValueError ''invalid literal for int()'')
     | _ \<Rightarrow> Inl (TypeError ''int() argument must be a string or a number''))"

definition from_json :: "ext \<Rightarrow> string \<Rightarrow> exc + job" where
  "from_json X raw =
     r_bind (require (loads X raw) (JSONDecodeError raw)) (\<lambda>j.
     r_bind (case j of JDict data \<Rightarrow> (case dict_get data ''payload'' of Some (JDict p) \<Rightarrow> Inr (data, p)
               | _ \<Rightarrow> Inl (ValueError ''invalid job payload''))
             | _ \<Rightarrow> Inl (ValueError ''invalid job payload'')) (\<lambda>(data, p).
     r_bind (require (dict_get data ''id'') (KeyError ''id'')) (\<lambda>i.
     r_bind (require (dict_get data ''type'') (KeyError ''type'')) (\<lambda>ty.
     r_bind (require (dict_get data ''attempt'') (KeyError ''attempt'')) (\<lambda>tries.
     r_bind (int_of_json tries) (\<lambda>n.
     r_bind (require (dict_get data ''created_at'') (KeyError ''created_at'')) (\<lambda>cr.
     Inr \<lparr>job_id = py_str X i, job_type = py_str X ty, job_payload = p, job_attempt = n, job_created_at = py_str X cr\<rparr>)))))))"

definition next_attempt :: "job \<Rightarrow> job" where
  "next_attempt j = j\<lparr>job_attempt := job_attempt j + 1\<rparr>"

definition job_dict :: "job \<Rightarrow> json \<Rightarrow> json" where
  "job_dict j payload = JDict [(''id'', JStr (job_id j)), (''type'', JStr (job_type j)), (''payload'', payload),
     (''attempt'', JInt (job_attempt j)), (''created_at'', JStr (job_created_at j))]"

definition to_json :: "ext \<Rightarrow> job \<Rightarrow> string" where
  "to_json X j = dumps X (job_dict j (JDict (job_payload j)))"

section \<open>The queue\<close>

record job_queue =
  queue_name :: string
  dead_letter_queue :: string
  processing_queue :: string

definition RedisJobQueue :: "string \<Rightarrow> string \<Rightarrow> string option \<Rightarrow> job_queue" where
  "RedisJobQueue queue dead processing =
     \<lparr>queue_name = queue, dead_letter_queue = dead,
      processing_queue = (case processing of Some p \<Rightarrow> if p = [] then queue @ '':processing'' else p | None \<Rightarrow> queue @ '':processing'')\<rparr>"

definition default_queue :: job_queue where
  "default_queue = RedisJobQueue ''tenantforge:jobs'' ''tenantforge:jobs:dead'' None"

definition enqueue :: "ext \<Rightarrow> runtime \<Rightarrow> job_queue \<Rightarrow> string \<Rightarrow> dict \<Rightarrow> job option \<Rightarrow> redis \<Rightarrow> (exc + job) \<times> redis" where
  "enqueue X E Q jtype payload job r =
     (case (case job of Some j \<Rightarrow> Inr j | None \<Rightarrow> create_job E jtype payload) of
        Inl e \<Rightarrow> (Inl e, r)
      | Inr queued_job \<Rightarrow>
          (case command (\<lambda>r. ((), lpush (queue_name Q) (to_json X queued_job) r)) r of
             (Inl e, r') \<Rightarrow> (Inl e, r')
           | (Inr _, r') \<Rightarrow> (Inr queued_job, r')))"

text \<open>The exceptions \<open>dequeue\<close> turns into a dead letter before it raises them again.\<close>

fun bad_job :: "exc \<Rightarrow> bool" where
  "bad_job (KeyError _) = True"
| "bad_job e = (type_error e \<or> value_error e)"

definition dequeue :: "ext \<Rightarrow> runtime \<Rightarrow> job_queue \<Rightarrow> redis \<Rightarrow> (exc + job option) \<times> redis" where
  "dequeue X E Q r =
     (case command (rpoplpush (queue_name Q) (processing_queue Q)) r of
        (Inl e, r1) \<Rightarrow> (Inl e, r1)
      | (Inr None, r1) \<Rightarrow> (Inr None, r1)
      | (Inr (Some raw_job), r1) \<Rightarrow>
          (case from_json X raw_job of
             Inr job \<Rightarrow> (Inr (Some job), r1)
           | Inl exc \<Rightarrow>
               if bad_job exc then
                 let envelope = JDict [(''failed_at'', JStr (isoformat (rt_clock E 0))), (''error_type'', JStr (exc_name exc)),
                       (''raw_sha256'', JStr (sha256_hex X raw_job))] in
                 (case command (\<lambda>r. ((), lpush (dead_letter_queue Q) (dumps X envelope) (lrem1 (processing_queue Q) raw_job r))) r1 of
                    (Inl e, r2) \<Rightarrow> (Inl e, r2)
                  | (Inr _, r2) \<Rightarrow> (Inl exc, r2))
               else (Inl exc, r1)))"

definition acknowledge :: "ext \<Rightarrow> job_queue \<Rightarrow> job \<Rightarrow> redis \<Rightarrow> (exc + unit) \<times> redis" where
  "acknowledge X Q job r = command (\<lambda>r. ((), lrem1 (processing_queue Q) (to_json X job) r)) r"

definition retry :: "ext \<Rightarrow> job_queue \<Rightarrow> job \<Rightarrow> redis \<Rightarrow> (exc + job) \<times> redis" where
  "retry X Q job r =
     (let retry_job = next_attempt job in
      command (\<lambda>r. (retry_job, lpush (queue_name Q) (to_json X retry_job) (lrem1 (processing_queue Q) (to_json X job) r))) r)"

definition dead_letter :: "ext \<Rightarrow> runtime \<Rightarrow> job \<Rightarrow> exc \<Rightarrow> json" where
  "dead_letter X E job error =
     JDict [(''job'', job_dict job (redact_payload (JDict (job_payload job)))),
            (''failed_at'', JStr (isoformat (rt_clock E 0))), (''error_type'', JStr (exc_name error))]"

definition move_to_dead_letter :: "ext \<Rightarrow> runtime \<Rightarrow> job_queue \<Rightarrow> job \<Rightarrow> exc \<Rightarrow> redis \<Rightarrow> (exc + unit) \<times> redis" where
  "move_to_dead_letter X E Q job error r =
     command (\<lambda>r. ((), lpush (dead_letter_queue Q) (dumps X (dead_letter X E job error))
        (lrem1 (processing_queue Q) (to_json X job) r))) r"

text \<open>The loop of \<open>recover_in_flight\<close> with a bound on its turns; the length of the processing list is enough.\<close>

fun recover_loop :: "job_queue \<Rightarrow> nat \<Rightarrow> int \<Rightarrow> redis \<Rightarrow> (exc + int) option \<times> redis" where
  "recover_loop Q 0 recovered r = (None, r)"
| "recover_loop Q (Suc n) recovered r =
     (case command (rpoplpush (processing_queue Q) (queue_name Q)) r of
        (Inl e, r1) \<Rightarrow> (Some (Inl e), r1)
      | (Inr None, r1) \<Rightarrow> (Some (Inr recovered), r1)
      | (Inr (Some _), r1) \<Rightarrow> recover_loop Q n (recovered + 1) r1)"

definition recover_in_flight :: "job_queue \<Rightarrow> redis \<Rightarrow> (exc + int) option \<times> redis" where
  "recover_in_flight Q r = recover_loop Q (Suc (length (r_lists r (processing_queue Q)))) 0 r"

section \<open>Contract of a queue\<close>

fun drain :: "('s \<Rightarrow> 'j option \<times> 's) \<Rightarrow> nat \<Rightarrow> 's \<Rightarrow> 'j list \<times> 's" where
  "drain deq 0 s = ([], s)"
| "drain deq (Suc n) s = (case deq s of (None, s') \<Rightarrow> ([], s')
     | (Some j, s') \<Rightarrow> (case drain deq n s' of (js, s'') \<Rightarrow> (j # js, s'')))"

text \<open>
  A work queue as its clients see it: jobs pending in order and jobs taken but not finished. The
  state may be one the queue never produces (\<open>ok\<close> fails), and only some jobs can be stored (\<open>good\<close>).
\<close>

locale fifo_queue =
  fixes enq :: "'j \<Rightarrow> 's \<Rightarrow> 's" and deq :: "'s \<Rightarrow> 'j option \<times> 's"
    and pending :: "'s \<Rightarrow> 'j list" and taken :: "'s \<Rightarrow> 'j list" and ok :: "'s \<Rightarrow> bool" and good :: "'j \<Rightarrow> bool"
  assumes enq: "ok s \<Longrightarrow> good j \<Longrightarrow> ok (enq j s) \<and> pending (enq j s) = pending s @ [j] \<and> taken (enq j s) = taken s"
    and deq_empty: "ok s \<Longrightarrow> pending s = [] \<Longrightarrow> deq s = (None, s)"
    and deq: "ok s \<Longrightarrow> pending s = j # js \<Longrightarrow> fst (deq s) = Some j \<and> ok (snd (deq s)) \<and>
      pending (snd (deq s)) = js \<and> taken (snd (deq s)) = j # taken s"
begin

lemma enq_all: "ok s \<Longrightarrow> \<forall>j \<in> set js. good j \<Longrightarrow>
    ok (fold enq js s) \<and> pending (fold enq js s) = pending s @ js \<and> taken (fold enq js s) = taken s"
  using enq by (induction js arbitrary: s) auto

lemma drain_pending: "ok s \<Longrightarrow> pending s = js @ rest \<Longrightarrow>
    fst (drain deq (length js) s) = js \<and> ok (snd (drain deq (length js) s)) \<and>
    pending (snd (drain deq (length js) s)) = rest \<and> taken (snd (drain deq (length js) s)) = rev js @ taken s"
proof (induction js arbitrary: s)
  case (Cons j js)
  obtain s' where d: "deq s = (Some j, s')" "ok s'" "pending s' = js @ rest" "taken s' = j # taken s"
    using deq [of s j "js @ rest"] Cons.prems by (cases "deq s") auto
  show ?case using Cons.IH [OF d(2,3)] d(1,4) by (auto split: prod.splits)
qed simp

lemma first_in_first_out:
  "ok s \<Longrightarrow> pending s = [] \<Longrightarrow> \<forall>j \<in> set js. good j \<Longrightarrow> fst (drain deq (length js) (fold enq js s)) = js"
  using enq_all [of s js] drain_pending [of "fold enq js s" js "[]"] by simp

end

section \<open>Lemmas\<close>

definition job_clean :: "job \<Rightarrow> bool" where
  "job_clean j = (json_clean (JDict (job_payload j)) \<and> \<bar>job_attempt j\<bar> < 10 ^ int_max_str_digits)"

lemma loads_to_json: "job_clean j \<Longrightarrow> loads X (to_json X j) = Some (job_dict j (JDict (job_payload j)))"
  unfolding to_json_def by (rule loads_dumps) (simp add: job_clean_def job_dict_def)

lemma from_json_to_json: "job_clean j \<Longrightarrow> from_json X (to_json X j) = Inr j"
  by (simp add: from_json_def loads_to_json) (simp add: job_dict_def dict_get_def int_of_json_def py_str_def)

lemma to_json_inject: "job_clean i \<Longrightarrow> job_clean j \<Longrightarrow> to_json X i = to_json X j \<Longrightarrow> i = j"
  by (metis from_json_to_json sum.inject(2))

text \<open>The text of a job read back and the jobs stored in a list.\<close>

definition job_of :: "ext \<Rightarrow> string \<Rightarrow> job" where
  "job_of X raw = projr (from_json X raw)"

lemma job_of_to_json [simp]: "job_clean j \<Longrightarrow> job_of X (to_json X j) = j"
  by (simp add: job_of_def from_json_to_json)

definition stores_jobs :: "ext \<Rightarrow> string list \<Rightarrow> bool" where
  "stores_jobs X raws = (\<forall>raw \<in> set raws. \<exists>j. job_clean j \<and> raw = to_json X j)"

lemma stores_jobs_simps [simp]:
  "stores_jobs X []" "stores_jobs X (x # xs) \<longleftrightarrow> (\<exists>j. job_clean j \<and> x = to_json X j) \<and> stores_jobs X xs"
  "stores_jobs X (xs @ ys) \<longleftrightarrow> stores_jobs X xs \<and> stores_jobs X ys"
  by (auto simp: stores_jobs_def)

definition queue_ok :: "ext \<Rightarrow> job_queue \<Rightarrow> redis \<Rightarrow> bool" where
  "queue_ok X Q r = (r_up r \<and> stores_jobs X (r_lists r (queue_name Q)) \<and> stores_jobs X (r_lists r (processing_queue Q)))"

definition pending_jobs :: "ext \<Rightarrow> job_queue \<Rightarrow> redis \<Rightarrow> job list" where
  "pending_jobs X Q r = rev (map (job_of X) (r_lists r (queue_name Q)))"

definition taken_jobs :: "ext \<Rightarrow> job_queue \<Rightarrow> redis \<Rightarrow> job list" where
  "taken_jobs X Q r = map (job_of X) (r_lists r (processing_queue Q))"

definition distinct_names :: "job_queue \<Rightarrow> bool" where
  "distinct_names Q = distinct [queue_name Q, dead_letter_queue Q, processing_queue Q]"

lemma default_queue_names [simp]: "distinct_names default_queue"
  by (simp add: distinct_names_def default_queue_def RedisJobQueue_def)

lemma enqueue_job:
  "r_up r \<Longrightarrow> enqueue X E Q ty p (Some j) r = (Inr j, lpush (queue_name Q) (to_json X j) r)"
  by (simp add: enqueue_def)

lemma enqueue_pending:
  assumes "queue_ok X Q r" "job_clean j" "distinct_names Q"
  shows "queue_ok X Q (lpush (queue_name Q) (to_json X j) r) \<and>
    pending_jobs X Q (lpush (queue_name Q) (to_json X j) r) = pending_jobs X Q r @ [j] \<and>
    taken_jobs X Q (lpush (queue_name Q) (to_json X j) r) = taken_jobs X Q r"
  using assms by (auto simp: queue_ok_def pending_jobs_def taken_jobs_def distinct_names_def)

lemma dequeue_pending:
  assumes "queue_ok X Q r" "distinct_names Q" "pending_jobs X Q r = j # js"
  obtains r' where "dequeue X E Q r = (Inr (Some j), r')" "queue_ok X Q r'" "pending_jobs X Q r' = js"
    "taken_jobs X Q r' = j # taken_jobs X Q r" "r_lists r' (processing_queue Q) = to_json X j # r_lists r (processing_queue Q)"
    "\<And>k. k \<noteq> queue_name Q \<Longrightarrow> k \<noteq> processing_queue Q \<Longrightarrow> r_lists r' k = r_lists r k"
    "r_lists r (queue_name Q) = r_lists r' (queue_name Q) @ [to_json X j]"
proof -
  have "r_lists r (queue_name Q) \<noteq> []" using assms(3) by (auto simp: pending_jobs_def)
  then obtain xs v where q: "r_lists r (queue_name Q) = xs @ [v]" by (metis rev_exhaust)
  have ne: "queue_name Q \<noteq> processing_queue Q" using assms(2) by (simp add: distinct_names_def)
  obtain i where i: "job_clean i" "v = to_json X i" using assms(1) q by (auto simp: queue_ok_def)
  have j: "i = j" "rev (map (job_of X) xs) = js" using assms(3) q i by (simp_all add: pending_jobs_def)
  let ?r = "snd (rpoplpush (queue_name Q) (processing_queue Q) r)"
  note s = rpoplpush_snoc [OF q ne]
  have "dequeue X E Q r = (Inr (Some j), ?r)"
    using assms(1) s(1) i j by (simp add: dequeue_def queue_ok_def from_json_to_json)
  then show thesis
    using that [of ?r] s i j assms(1) q by (simp add: queue_ok_def pending_jobs_def taken_jobs_def)
qed

lemma dequeue_empty: "queue_ok X Q r \<Longrightarrow> pending_jobs X Q r = [] \<Longrightarrow> dequeue X E Q r = (Inr None, r)"
  by (simp add: dequeue_def queue_ok_def pending_jobs_def)

definition take_job :: "ext \<Rightarrow> runtime \<Rightarrow> job_queue \<Rightarrow> redis \<Rightarrow> job option \<times> redis" where
  "take_job X E Q r = (case dequeue X E Q r of (Inr x, r') \<Rightarrow> (x, r') | (Inl _, r') \<Rightarrow> (None, r'))"

interpretation jobs: fifo_queue "\<lambda>j r. snd (enqueue X E default_queue [] [] (Some j) r)" "take_job X E default_queue"
  "pending_jobs X default_queue" "taken_jobs X default_queue" "queue_ok X default_queue" job_clean
  for X :: ext and E :: runtime
proof
  fix r j
  assume "queue_ok X default_queue r" "job_clean j"
  then show "queue_ok X default_queue (snd (enqueue X E default_queue [] [] (Some j) r)) \<and>
     pending_jobs X default_queue (snd (enqueue X E default_queue [] [] (Some j) r)) = pending_jobs X default_queue r @ [j] \<and>
     taken_jobs X default_queue (snd (enqueue X E default_queue [] [] (Some j) r)) = taken_jobs X default_queue r"
    using enqueue_pending [of X default_queue r j] enqueue_job [of r] by (simp add: queue_ok_def)
next
  fix r
  assume "queue_ok X default_queue r" "pending_jobs X default_queue r = []"
  then show "take_job X E default_queue r = (None, r)" by (simp add: take_job_def dequeue_empty)
next
  fix r j js
  assume a: "queue_ok X default_queue r" "pending_jobs X default_queue r = j # js"
  obtain r' where "dequeue X E default_queue r = (Inr (Some j), r')" "queue_ok X default_queue r'"
    "pending_jobs X default_queue r' = js" "taken_jobs X default_queue r' = j # taken_jobs X default_queue r"
    by (rule dequeue_pending [OF a(1) default_queue_names a(2)])
  then show "fst (take_job X E default_queue r) = Some j \<and> queue_ok X default_queue (snd (take_job X E default_queue r)) \<and>
     pending_jobs X default_queue (snd (take_job X E default_queue r)) = js \<and>
     taken_jobs X default_queue (snd (take_job X E default_queue r)) = j # taken_jobs X default_queue r"
    by (simp add: take_job_def)
qed

text \<open>Finishing the job that was dequeued last finds its entry.\<close>

lemma acknowledge_taken:
  assumes "r_up r" "r_lists r (processing_queue Q) = to_json X j # ps"
  shows "acknowledge X Q j r = (Inr (), lrem1 (processing_queue Q) (to_json X j) r)"
    "r_lists (lrem1 (processing_queue Q) (to_json X j) r) (processing_queue Q) = ps"
  using assms by (simp_all add: acknowledge_def)

lemma recover_loop_all:
  assumes "queue_name Q \<noteq> processing_queue Q" "r_up r" "r_lists r (processing_queue Q) = ps" "length ps < n"
  shows "\<exists>r'. recover_loop Q n k r = (Some (Inr (k + int (length ps))), r') \<and> r_up r' \<and> r_lists r' (processing_queue Q) = [] \<and>
    r_lists r' (queue_name Q) = ps @ r_lists r (queue_name Q) \<and>
    (\<forall>x. x \<noteq> queue_name Q \<longrightarrow> x \<noteq> processing_queue Q \<longrightarrow> r_lists r' x = r_lists r x)"
  using assms(2-4)
proof (induction ps arbitrary: n k r rule: rev_induct)
  case Nil
  then show ?case by (cases n) simp_all
next
  case (snoc v ps)
  then obtain m where n: "n = Suc m" "length ps < m" by (cases n) auto
  let ?r = "snd (rpoplpush (processing_queue Q) (queue_name Q) r)"
  note s = rpoplpush_snoc [OF snoc.prems(2) assms(1) [symmetric]]
  have "recover_loop Q n k r = recover_loop Q m (k + 1) ?r" using snoc.prems(1) s(1) by (simp add: n)
  then show ?case using snoc.IH [of ?r m "k + 1"] snoc.prems(1) s n by auto
qed

section \<open>Redaction\<close>

text \<open>
  What redaction promises is stated over paths into a value: the keys and positions that lead to a
  part of it. A path is sensitive when one of its keys is, whatever the case of its letters.
\<close>

datatype step = Key string | Index nat

fun at_path :: "json \<Rightarrow> step list \<Rightarrow> json option" where
  "at_path j [] = Some j"
| "at_path (JDict kvs) (Key k # p) = (case map_of kvs k of None \<Rightarrow> None | Some v \<Rightarrow> at_path v p)"
| "at_path (JList xs) (Index i # p) = (if i < length xs then at_path (xs ! i) p else None)"
| "at_path _ _ = None"

definition secret_key :: "string \<Rightarrow> bool" where
  "secret_key k \<longleftrightarrow> py_lower k = ''api_key'' \<or> py_lower k = ''authorization'' \<or> py_lower k = ''password'' \<or>
     py_lower k = ''refresh_token'' \<or> py_lower k = ''token''"

definition secret_path :: "step list \<Rightarrow> bool" where
  "secret_path p \<longleftrightarrow> (\<exists>k. Key k \<in> set p \<and> secret_key k)"

definition hides_secrets :: "json \<Rightarrow> bool" where
  "hides_secrets j \<longleftrightarrow> (\<forall>p k v. secret_key k \<longrightarrow> at_path j (p @ [Key k]) = Some v \<longrightarrow> v = JStr ''[redacted]'')"

definition scalar_json :: "json \<Rightarrow> bool" where
  "scalar_json j = (case j of JDict _ \<Rightarrow> False | JList _ \<Rightarrow> False | _ \<Rightarrow> True)"

lemma secret_key_sensitive: "py_lower k \<in> SENSITIVE_PAYLOAD_KEYS \<longleftrightarrow> secret_key k"
  by (simp add: SENSITIVE_PAYLOAD_KEYS_def secret_key_def)

lemma secret_path_simps [simp]:
  "\<not> secret_path []" "secret_path (Key k # p) \<longleftrightarrow> secret_key k \<or> secret_path p" "secret_path (Index i # p) \<longleftrightarrow> secret_path p"
  by (auto simp: secret_path_def)

lemma redact_list_map: "redact_list xs = map redact_payload xs"
  by (induction xs) simp_all

lemma map_of_redact_pairs:
  "map_of (redact_pairs ps) k = (case map_of ps k of None \<Rightarrow> None
     | Some v \<Rightarrow> Some (if secret_key k then JStr ''[redacted]'' else redact_payload v))"
  by (induction ps) (auto simp: secret_key_sensitive split: option.split)

lemma redact_keys: "map fst (redact_pairs ps) = map fst ps"
  by (induction ps) simp_all

lemma at_path_string: "at_path (JStr s) (p @ [Key k]) = None"
  by (cases p) simp_all

lemma at_path_redact: "\<not> secret_path p \<Longrightarrow> at_path (redact_payload j) p = map_option redact_payload (at_path j p)"
proof (induction p arbitrary: j)
  case (Cons a p)
  then show ?case
    by (cases j; cases a) (simp_all add: map_of_redact_pairs redact_list_map split: option.split)
qed simp

lemma redact_hides: "hides_secrets (redact_payload j)"
proof -
  have "secret_key k \<Longrightarrow> at_path (redact_payload j) (p @ [Key k]) = Some v \<Longrightarrow> v = JStr ''[redacted]''" for p k v
  proof (induction p arbitrary: j)
    case Nil
    then show ?case by (cases j) (auto simp: map_of_redact_pairs split: option.splits)
  next
    case (Cons a p)
    then show ?case
      by (cases j; cases a) (auto simp: map_of_redact_pairs redact_list_map at_path_string split: option.splits if_splits)
  qed
  then show ?thesis by (simp add: hides_secrets_def)
qed

lemma redact_scalar: "scalar_json v \<Longrightarrow> redact_payload w = v \<longleftrightarrow> w = v"
  by (cases w; cases v) (auto simp: scalar_json_def)

lemma redact_clean:
  "json_clean j \<Longrightarrow> json_clean (redact_payload j)" "clean_list xs \<Longrightarrow> clean_list (redact_list xs)"
  "clean_pairs ps \<Longrightarrow> clean_pairs (redact_pairs ps)"
  by (induction j and xs and ps rule: redact_payload_redact_list_redact_pairs.induct) (simp_all add: redact_keys)

text \<open>A value hides its secrets when its members do and none of its own keys is sensitive.\<close>

lemma hides_dict:
  assumes "\<forall>(k, v) \<in> set kvs. \<not> secret_key k \<and> hides_secrets v"
  shows "hides_secrets (JDict kvs)"
proof -
  have "at_path (JDict kvs) (p @ [Key k]) = Some v \<Longrightarrow> secret_key k \<Longrightarrow> v = JStr ''[redacted]''" for p k v
    using assms map_of_SomeD [of kvs]
    by (cases p) (fastforce split: option.splits, rename_tac a q, case_tac a, fastforce simp: hides_secrets_def split: option.splits, simp)
  then show ?thesis by (simp add: hides_secrets_def)
qed

lemma hides_scalar: "scalar_json j \<Longrightarrow> hides_secrets j"
proof -
  assume "scalar_json j"
  then have "at_path j (p @ [Key k]) = None" for p k by (cases j; cases p) (simp_all add: scalar_json_def)
  then show ?thesis by (simp add: hides_secrets_def)
qed

lemma dead_letter_hides: "hides_secrets (dead_letter X E j e)"
proof -
  have k: "\<not> secret_key k" if "k \<in> {''job'', ''failed_at'', ''error_type'', ''id'', ''type'', ''payload'', ''attempt'', ''created_at''}" for k
    using that by (auto simp: secret_key_def py_lower_def lower_char_def cp_def)
  have "hides_secrets (job_dict j (redact_payload (JDict (job_payload j))))"
    unfolding job_dict_def by (rule hides_dict) (simp add: k redact_hides hides_scalar scalar_json_def del: redact_payload.simps)
  then show ?thesis unfolding dead_letter_def by (intro hides_dict) (simp add: k hides_scalar scalar_json_def)
qed

text \<open>The commands that change the lists of a queue.\<close>

inductive queue_step :: "ext \<Rightarrow> job_queue \<Rightarrow> redis \<Rightarrow> redis \<Rightarrow> bool" for X Q where
  step_enqueue: "enqueue X E Q ty p job r = (res, r') \<Longrightarrow> queue_step X Q r r'"
| step_dequeue: "dequeue X E Q r = (res', r') \<Longrightarrow> queue_step X Q r r'"
| step_acknowledge: "acknowledge X Q j r = (done, r') \<Longrightarrow> queue_step X Q r r'"
| step_retry: "retry X Q j r = (again, r') \<Longrightarrow> queue_step X Q r r'"
| step_dead: "move_to_dead_letter X E Q j e r = (done, r') \<Longrightarrow> queue_step X Q r r'"
| step_recover: "recover_in_flight Q r = (recovered, r') \<Longrightarrow> queue_step X Q r r'"
| step_server: "queue_step X Q r (r\<lparr>r_up := up\<rparr>)"

definition dead_letters_hide :: "ext \<Rightarrow> job_queue \<Rightarrow> redis \<Rightarrow> bool" where
  "dead_letters_hide X Q r \<longleftrightarrow> (\<forall>raw \<in> set (r_lists r (dead_letter_queue Q)). \<exists>env. raw = dumps X env \<and> hides_secrets env)"

lemma rpoplpush_other: "k \<noteq> src \<Longrightarrow> k \<noteq> dst \<Longrightarrow> r_lists (snd (rpoplpush src dst r)) k = r_lists r k"
  by (simp add: rpoplpush_def lpush_def Let_def)

lemma command_other:
  assumes "command f r = (res, r')" "\<And>r. r_lists (snd (f r)) k = r_lists r k"
  shows "r_lists r' k = r_lists r k"
  using assms(1) assms(2) [of r] by (auto simp: command_def split: if_splits prod.splits)

lemma recover_loop_dead:
  assumes "k \<noteq> queue_name Q" "k \<noteq> processing_queue Q"
  shows "recover_loop Q n m r = (res, r') \<Longrightarrow> r_lists r' k = r_lists r k"
proof (induction n arbitrary: m r)
  case (Suc n)
  obtain x r1 where c: "command (rpoplpush (processing_queue Q) (queue_name Q)) r = (x, r1)" by (metis surj_pair)
  have "r_lists r1 k = r_lists r k" by (rule command_other [OF c]) (simp add: rpoplpush_other assms)
  then show ?case using Suc c by (auto split: sum.splits option.splits)
qed simp

lemma dequeue_dead:
  assumes "dequeue X E Q r = (res, r')" "distinct_names Q"
  shows "r_lists r' (dead_letter_queue Q) = r_lists r (dead_letter_queue Q) \<or>
    (\<exists>t n h. r_lists r' (dead_letter_queue Q) = dumps X (JDict [(''failed_at'', JStr t), (''error_type'', JStr n), (''raw_sha256'', JStr h)]) #
       r_lists r (dead_letter_queue Q))"
proof -
  have n: "dead_letter_queue Q \<noteq> queue_name Q" "dead_letter_queue Q \<noteq> processing_queue Q" using assms(2) by (auto simp: distinct_names_def)
  obtain x r1 where c: "command (rpoplpush (queue_name Q) (processing_queue Q)) r = (x, r1)" by (metis surj_pair)
  have "r_lists r1 (dead_letter_queue Q) = r_lists r (dead_letter_queue Q)"
    by (rule command_other [OF c]) (simp add: rpoplpush_other n)
  note r1 = this
  consider "r' = r1" | raw e where "from_json X raw = Inl e" "r' = lpush (dead_letter_queue Q) (dumps X (JDict [(''failed_at'', JStr (isoformat (rt_clock E 0))),
      (''error_type'', JStr (exc_name e)), (''raw_sha256'', JStr (sha256_hex X raw))])) (lrem1 (processing_queue Q) raw r1)"
    using assms(1) c unfolding dequeue_def
    by (cases x) (auto simp: command_def Let_def simp del: dumps.simps split: sum.splits option.splits if_splits)
  then show ?thesis
  proof cases
    case 1
    then show ?thesis using r1 by simp
  next
    case (2 raw e)
    have "r_lists r' (dead_letter_queue Q) = dumps X (JDict [(''failed_at'', JStr (isoformat (rt_clock E 0))),
      (''error_type'', JStr (exc_name e)), (''raw_sha256'', JStr (sha256_hex X raw))]) # r_lists r (dead_letter_queue Q)"
      using 2(2) n r1 by (simp del: dumps.simps)
    then show ?thesis by blast
  qed
qed

lemma enqueue_dead:
  assumes "enqueue X E Q ty p job r = (res, r')" "k \<noteq> queue_name Q"
  shows "r_lists r' k = r_lists r k"
proof (cases "case job of Some j \<Rightarrow> Inr j | None \<Rightarrow> create_job E ty p")
  case (Inl e)
  then show ?thesis using assms(1) by (simp add: enqueue_def)
next
  case (Inr queued)
  obtain y r1 where c: "command (\<lambda>r. ((), lpush (queue_name Q) (to_json X queued) r)) r = (y, r1)" by (metis surj_pair)
  have "r_lists r1 k = r_lists r k" by (rule command_other [OF c]) (simp add: assms(2))
  moreover have "r' = r1" using assms(1) Inr c by (cases y) (simp_all add: enqueue_def)
  ultimately show ?thesis by simp
qed

lemma bad_entry_hides: "hides_secrets (JDict [(''failed_at'', JStr t), (''error_type'', JStr n), (''raw_sha256'', JStr h)])"
  by (rule hides_dict) (auto simp: secret_key_def py_lower_def lower_char_def cp_def intro!: hides_scalar simp: scalar_json_def)

lemma queue_step_hides:
  assumes "queue_step X Q r r'" "distinct_names Q" "dead_letters_hide X Q r"
  shows "dead_letters_hide X Q r'"
proof -
  let ?k = "dead_letter_queue Q"
  have n: "?k \<noteq> queue_name Q" "?k \<noteq> processing_queue Q" using assms(2) by (auto simp: distinct_names_def)
  have keep: "r_lists r' ?k = r_lists r ?k \<Longrightarrow> dead_letters_hide X Q r'" using assms(3) by (simp add: dead_letters_hide_def)
  have add: "hides_secrets env \<Longrightarrow> r_lists r' ?k = dumps X env # r_lists r ?k \<Longrightarrow> dead_letters_hide X Q r'" for env
    using assms(3) by (auto simp: dead_letters_hide_def)
  show ?thesis
    using assms(1)
  proof cases
    case (step_enqueue E ty p job res)
    show ?thesis by (rule keep) (rule enqueue_dead [OF step_enqueue n(1)])
  next
    case (step_dequeue E res')
    show ?thesis using dequeue_dead [OF step_dequeue assms(2)] keep add [OF bad_entry_hides] by blast
  next
    case (step_acknowledge j d)
    show ?thesis by (rule keep, rule command_other [OF step_acknowledge [unfolded acknowledge_def]]) (simp add: n)
  next
    case (step_retry j again)
    show ?thesis by (rule keep, rule command_other [OF step_retry [unfolded retry_def Let_def]]) (simp add: n)
  next
    case (step_dead E j e d)
    then have "r_lists r' ?k = r_lists r ?k \<or> r_lists r' ?k = dumps X (dead_letter X E j e) # r_lists r ?k"
      using n unfolding move_to_dead_letter_def by (cases "r_up r") (simp, fastforce, simp)
    then show ?thesis using keep add [OF dead_letter_hides] by blast
  next
    case (step_recover recovered)
    show ?thesis by (rule keep, rule recover_loop_dead [OF n step_recover [unfolded recover_in_flight_def]])
  next
    case (step_server up)
    then show ?thesis by (intro keep) simp
  qed
qed

lemma queue_steps_hide:
  assumes "(queue_step X Q)\<^sup>*\<^sup>* r r'" "distinct_names Q" "dead_letters_hide X Q r"
  shows "dead_letters_hide X Q r'"
  using assms by induction (auto intro: queue_step_hides)

text \<open>The redacted copy of a job differs from it under sensitive keys only.\<close>

definition redacted_copy :: "json \<Rightarrow> json \<Rightarrow> bool" where
  "redacted_copy j copy \<longleftrightarrow> (\<forall>p v. \<not> secret_path p \<and> scalar_json v \<longrightarrow> at_path copy p = Some v \<longleftrightarrow> at_path j p = Some v)"

section \<open>Properties\<close>

lemma small_int: "\<bar>i\<bar> < 10 \<Longrightarrow> \<bar>i\<bar> < 10 ^ int_max_str_digits" for i :: int
proof -
  assume i: "\<bar>i\<bar> < 10"
  have "1 \<le> int_max_str_digits" by (simp add: int_max_str_digits_def)
  then have "(10::int) ^ 1 \<le> 10 ^ int_max_str_digits" by (intro power_increasing) simp_all
  with i show ?thesis by simp
qed

definition sample_job :: job where
  "sample_job = \<lparr>job_id = ''j1'', job_type = ''send_invitation_email'',
     job_payload = [(''email'', JStr ''eve@a.io''), (''token'', JStr ''iii'')], job_attempt = 0, job_created_at = ''2024-05-15''\<rparr>"

lemma sample_job_clean: "job_clean sample_job"
  by (simp add: sample_job_def job_clean_def)

text \<open>
  JSON text written by the program reads back as the value it was written from, for every
  value with distinct keys, integers within the interpreter's digit limit and no fractional number.
\<close>

lemma json_round_trip:
  assumes "json_clean j"
  shows "loads X (dumps X j) = Some j"
  using assms by (rule loads_dumps)

lemma json_round_trip_witness:
  "loads plain_ext (dumps plain_ext (JDict [(''k'', JList [JInt (- 7), JNull, JStr [CHR 0x22, CHR 0xE9]])])) =
     Some (JDict [(''k'', JList [JInt (- 7), JNull, JStr [CHR 0x22, CHR 0xE9]])])"
  using small_int [of "- 7"] by (intro json_round_trip) simp

text \<open>
  A job survives the queue: the text stored for it parses back to the same job.
\<close>

lemma job_round_trip:
  assumes "job_clean j"
  shows "from_json X (to_json X j) = Inr j"
  using assms by (rule from_json_to_json)

text \<open>
  C30. The queue is first in, first out: jobs enqueued on an empty queue are dequeued in the order of
  their enqueueing, and each is then recorded as in flight.
\<close>

theorem queue_first_in_first_out:
  assumes "queue_ok X default_queue r" "pending_jobs X default_queue r = []" "\<forall>j \<in> set js. job_clean j"
  shows "fst (drain (take_job X E default_queue) (length js) (fold (\<lambda>j r. snd (enqueue X E default_queue [] [] (Some j) r)) js r)) = js \<and>
    taken_jobs X default_queue (snd (drain (take_job X E default_queue) (length js)
      (fold (\<lambda>j r. snd (enqueue X E default_queue [] [] (Some j) r)) js r))) = rev js @ taken_jobs X default_queue r"
proof -
  note e = jobs.enq_all [OF assms(1,3), of E]
  then have "pending_jobs X default_queue (fold (\<lambda>j r. snd (enqueue X E default_queue [] [] (Some j) r)) js r) = js @ []"
    using assms(2) by simp
  with jobs.drain_pending [of X "fold (\<lambda>j r. snd (enqueue X E default_queue [] [] (Some j) r)) js r" js "[]" E] e show ?thesis by simp
qed

theorem queue_first_in_first_out_witness:
  "fst (drain (take_job plain_ext sample_rt default_queue) (length [sample_job, next_attempt sample_job])
     (fold (\<lambda>j r. snd (enqueue plain_ext sample_rt default_queue [] [] (Some j) r)) [sample_job, next_attempt sample_job] empty_redis)) =
     [sample_job, next_attempt sample_job]"
proof -
  have "queue_ok plain_ext default_queue empty_redis" "pending_jobs plain_ext default_queue empty_redis = []"
    by (simp_all add: queue_ok_def empty_redis_def pending_jobs_def)
  moreover have "\<forall>j \<in> set [sample_job, next_attempt sample_job]. job_clean j"
    using sample_job_clean small_int [of 1] by (simp add: job_clean_def next_attempt_def sample_job_def)
  ultimately show ?thesis
    using queue_first_in_first_out [of plain_ext empty_redis "[sample_job, next_attempt sample_job]" sample_rt] by blast
qed

text \<open>
  C31. Recovery after a crash ends and loses nothing: every job that was in flight is back in the
  queue, once, the processing list is empty, and the number of jobs recovered is reported.
\<close>

theorem recover_in_flight_complete:
  assumes "distinct_names Q" "r_up r"
  shows "\<exists>r'. recover_in_flight Q r = (Some (Inr (int (length (r_lists r (processing_queue Q))))), r') \<and>
    r_lists r' (processing_queue Q) = [] \<and>
    r_lists r' (queue_name Q) = r_lists r (processing_queue Q) @ r_lists r (queue_name Q) \<and>
    r_lists r' (dead_letter_queue Q) = r_lists r (dead_letter_queue Q)"
proof -
  have n: "queue_name Q \<noteq> processing_queue Q" "dead_letter_queue Q \<noteq> queue_name Q" "dead_letter_queue Q \<noteq> processing_queue Q"
    using assms(1) by (auto simp: distinct_names_def)
  show ?thesis
    using recover_loop_all [OF n(1) assms(2) refl lessI, of 0] n(2,3) unfolding recover_in_flight_def by auto
qed

theorem recover_in_flight_complete_witness:
  "\<exists>r'. recover_in_flight default_queue (lpush (processing_queue default_queue) ''a'' empty_redis) = (Some (Inr 1), r') \<and>
     r_lists r' (queue_name default_queue) = [''a'']"
proof -
  have "r_up (lpush (processing_queue default_queue) ''a'' empty_redis)" by (simp add: empty_redis_def)
  moreover have "r_lists (lpush (processing_queue default_queue) ''a'' empty_redis) (processing_queue default_queue) = [''a'']"
    "r_lists (lpush (processing_queue default_queue) ''a'' empty_redis) (queue_name default_queue) = []"
    using default_queue_names by (auto simp: empty_redis_def distinct_names_def)
  ultimately show ?thesis
    using recover_in_flight_complete [OF default_queue_names, of "lpush (processing_queue default_queue) ''a'' empty_redis"] by auto
qed

text \<open>
  C32. No credential reaches the dead letter list: after any sequence of queue operations, whatever jobs
  and unreadable entries passed through the queue and whether or not the server answered, in every
  entry of the list each value under a sensitive key, at any depth and in any spelling of case, is the
  marker. A job that is moved there is taken out of the processing list and added to the list as
  text that reads back as the envelope, in which everything else of the job is kept.
\<close>

theorem dead_letter_redacted:
  assumes "distinct_names Q" "(queue_step X Q)\<^sup>*\<^sup>* r r'" "r_lists r (dead_letter_queue Q) = []"
  shows "(\<forall>raw \<in> set (r_lists r' (dead_letter_queue Q)). \<exists>env. raw = dumps X env \<and> hides_secrets env) \<and>
    (\<forall>E j e r''. move_to_dead_letter X E Q j e r' = (Inr (), r'') \<longrightarrow>
      (\<exists>env copy. r_lists r'' (dead_letter_queue Q) = dumps X env # r_lists r' (dead_letter_queue Q) \<and>
        r_lists r'' (processing_queue Q) = remove1 (to_json X j) (r_lists r' (processing_queue Q)) \<and>
        env = JDict [(''job'', copy), (''failed_at'', JStr (isoformat (rt_clock E 0))), (''error_type'', JStr (exc_name e))] \<and>
        hides_secrets env \<and> redacted_copy (job_dict j (JDict (job_payload j))) copy \<and>
        (job_clean j \<longrightarrow> loads X (dumps X env) = Some env)))"
proof -
  have "dead_letters_hide X Q r'"
    using assms(3) by (intro queue_steps_hide [OF assms(2,1)]) (simp add: dead_letters_hide_def)
  moreover {
    fix E j e r''
    assume m: "move_to_dead_letter X E Q j e r' = (Inr (), r'')"
    let ?copy = "job_dict j (redact_payload (JDict (job_payload j)))"
    have n: "dead_letter_queue Q \<noteq> processing_queue Q" using assms(1) by (auto simp: distinct_names_def)
    have l: "r_lists r'' (dead_letter_queue Q) = dumps X (dead_letter X E j e) # r_lists r' (dead_letter_queue Q)"
      "r_lists r'' (processing_queue Q) = remove1 (to_json X j) (r_lists r' (processing_queue Q))"
      using m n unfolding move_to_dead_letter_def by (cases "r_up r'"; simp; fastforce)+
    have c: "redacted_copy (job_dict j (JDict (job_payload j))) ?copy"
      unfolding redacted_copy_def
    proof (intro allI impI)
      fix p v
      assume p: "\<not> secret_path p \<and> scalar_json v"
      then show "at_path ?copy p = Some v \<longleftrightarrow> at_path (job_dict j (JDict (job_payload j))) p = Some v"
      proof (cases p)
        case (Cons a q)
        have "at_path (redact_payload (JDict (job_payload j))) q = Some v \<longleftrightarrow> at_path (JDict (job_payload j)) q = Some v"
          using p Cons at_path_redact [of q "JDict (job_payload j)"] redact_scalar [of v] by (cases a) auto
        then show ?thesis using Cons by (cases a) (simp_all add: job_dict_def del: redact_payload.simps)
      qed (cases v; simp add: job_dict_def scalar_json_def)
    qed
    have "job_clean j \<Longrightarrow> json_clean (dead_letter X E j e)"
      using redact_clean(1) [of "JDict (job_payload j)"] by (simp add: job_clean_def dead_letter_def job_dict_def del: redact_payload.simps json_clean.simps(4)) (simp del: redact_payload.simps)
    then have "job_clean j \<longrightarrow> loads X (dumps X (dead_letter X E j e)) = Some (dead_letter X E j e)" using loads_dumps by blast
    then have "\<exists>env copy. r_lists r'' (dead_letter_queue Q) = dumps X env # r_lists r' (dead_letter_queue Q) \<and>
        r_lists r'' (processing_queue Q) = remove1 (to_json X j) (r_lists r' (processing_queue Q)) \<and>
        env = JDict [(''job'', copy), (''failed_at'', JStr (isoformat (rt_clock E 0))), (''error_type'', JStr (exc_name e))] \<and>
        hides_secrets env \<and> redacted_copy (job_dict j (JDict (job_payload j))) copy \<and>
        (job_clean j \<longrightarrow> loads X (dumps X env) = Some env)"
      using l c dead_letter_hides [of X E j e] by (intro exI [of _ "dead_letter X E j e"] exI [of _ ?copy] conjI) (simp_all add: dead_letter_def)
  }
  ultimately show ?thesis unfolding dead_letters_hide_def by blast
qed

theorem dead_letter_redacted_witness:
  "\<exists>r' env. move_to_dead_letter plain_ext sample_rt default_queue sample_job (ValueError []) empty_redis = (Inr (), r') \<and>
     r_lists r' (dead_letter_queue default_queue) = [dumps plain_ext env] \<and>
     at_path env [Key ''job'', Key ''payload'', Key ''email''] = Some (JStr ''eve@a.io'') \<and>
     (\<forall>v. at_path env [Key ''job'', Key ''payload'', Key ''token''] = Some v \<longrightarrow> v = JStr ''[redacted]'')"
proof -
  have "r_up empty_redis" by (simp add: empty_redis_def)
  then obtain r' where m: "move_to_dead_letter plain_ext sample_rt default_queue sample_job (ValueError []) empty_redis = (Inr (), r')"
    by (simp add: move_to_dead_letter_def)
  have start: "(queue_step plain_ext default_queue)\<^sup>*\<^sup>* empty_redis empty_redis" by simp
  have no_letters: "r_lists empty_redis (dead_letter_queue default_queue) = []" by (simp add: empty_redis_def)
  obtain env copy where e: "r_lists r' (dead_letter_queue default_queue) = dumps plain_ext env # r_lists empty_redis (dead_letter_queue default_queue)"
    "env = JDict [(''job'', copy), (''failed_at'', JStr (isoformat (rt_clock sample_rt 0))), (''error_type'', JStr (exc_name (ValueError [])))]"
    "hides_secrets env" "redacted_copy (job_dict sample_job (JDict (job_payload sample_job))) copy"
    using dead_letter_redacted [OF default_queue_names start no_letters, THEN conjunct2, rule_format, OF m]
    by blast
  have k: "\<not> secret_path [Key ''payload'', Key ''email'']" "secret_key ''token''"
    by (simp_all add: secret_key_def py_lower_def lower_char_def cp_def)
  have "at_path (job_dict sample_job (JDict (job_payload sample_job))) [Key ''payload'', Key ''email''] = Some (JStr ''eve@a.io'')"
    by (simp add: job_dict_def sample_job_def)
  then have "at_path copy [Key ''payload'', Key ''email''] = Some (JStr ''eve@a.io'')"
    using e(4) k(1) by (simp add: redacted_copy_def scalar_json_def)
  then have "at_path env [Key ''job'', Key ''payload'', Key ''email''] = Some (JStr ''eve@a.io'')" by (simp add: e(2))
  moreover have "\<forall>v. at_path env [Key ''job'', Key ''payload'', Key ''token''] = Some v \<longrightarrow> v = JStr ''[redacted]''"
    using e(3) k(2) unfolding hides_secrets_def by (metis append_Cons append_Nil)
  ultimately show ?thesis using m e(1) by (intro exI [of _ r'] exI [of _ env]) (simp add: empty_redis_def)
qed

end
