(* ===== verification/Webhooks.thy ===== *)
theory Webhooks
  imports Organizations
begin

text \<open>
  The billing webhooks, \<^verbatim>\<open>app/services/webhooks.py\<close>: the signature header, validation of an event,
  its idempotent storage, and its processing, which updates the subscription of one organization
  and marks the event processed. A byte string is a string of characters below 256.
\<close>

section \<open>Signatures\<close>

definition SUPPORTED_EVENTS :: "string set" where
  "SUPPORTED_EVENTS = {''subscription.created'', ''subscription.updated'', ''subscription.cancelled'', ''invoice.payment_failed''}"

definition SIGNATURE_TOLERANCE_SECONDS :: int where
  "SIGNATURE_TOLERANCE_SECONDS = 300"

definition PROVIDER :: string where
  "PROVIDER = ''stripe-like''"

definition build_webhook_signature :: "ext \<Rightarrow> string \<Rightarrow> string \<Rightarrow> int \<Rightarrow> string" where
  "build_webhook_signature X payload secret timestamp =
     (let signed_payload = int_str timestamp @ ''.'' @ payload;
          digest = hmac_sha256_hex X secret signed_payload
      in ''t='' @ int_str timestamp @ '',v1='' @ digest)"

text \<open>The header's \<open>key=value\<close> parts in order; \<open>values[k]\<close> is the list of the values of key \<open>k\<close>.\<close>

definition signature_values :: "string \<Rightarrow> (string \<times> string) list" where
  "signature_values header =
     [(key, v). part \<leftarrow> py_split (CHR '','') header,
                (key, sep, v) \<leftarrow> [py_partition (CHR ''='') (py_strip part)], sep \<and> v \<noteq> []]"

definition values_of :: "string \<Rightarrow> (string \<times> string) list \<Rightarrow> string list" where
  "values_of k vs = map snd (filter (\<lambda>(k', _). k' = k) vs)"

text \<open>Integers from here on do not convert to a double.\<close>

definition float_limit :: int where
  "float_limit = 2 ^ 1024 - 2 ^ 970"

text \<open>\<open>any(hmac.compare_digest(expected, v) for v in signatures)\<close>; a non-ASCII string is a \<open>TypeError\<close>.\<close>

fun any_digest :: "string \<Rightarrow> string list \<Rightarrow> exc + bool" where
  "any_digest expected [] = Inr False"
| "any_digest expected (v # vs) =
     (if \<exists>c \<in> set v. 128 \<le> cp c then Inl (TypeError ''comparing strings with non-ASCII characters is not supported'')
      else if v = expected then Inr True else any_digest expected vs)"

definition invalid_signature :: "string \<Rightarrow> exc" where
  "invalid_signature m = AppError 400 ''invalid_webhook_signature'' m None"

definition verify_webhook_signature :: "ext \<Rightarrow> string \<Rightarrow> string option \<Rightarrow> string \<Rightarrow> rat \<Rightarrow> int \<Rightarrow> exc + unit" where
  "verify_webhook_signature X payload signature_header secret current_time tolerance =
     (case signature_header of
        None \<Rightarrow> Inl (invalid_signature ''Missing webhook signature'')
      | Some header \<Rightarrow>
          if header = [] then Inl (invalid_signature ''Missing webhook signature'') else
          let vs = signature_values header in
          (case (case values_of ''t'' vs of [] \<Rightarrow> None | t # _ \<Rightarrow> py_int t) of
             None \<Rightarrow> Inl (invalid_signature ''Invalid webhook signature'')
           | Some timestamp \<Rightarrow>
               if tolerance < 0 then Inl (invalid_signature ''Webhook signature has expired'')
               else if float_limit \<le> \<bar>timestamp\<bar> then Inl (OverflowError ''int too large to convert to float'')
               else if \<bar>current_time - of_int timestamp\<bar> > of_int tolerance
               then Inl (invalid_signature ''Webhook signature has expired'')
               else
                 let signed_payload = int_str timestamp @ ''.'' @ payload;
                     expected = hmac_sha256_hex X secret signed_payload;
                     signatures = values_of ''v1'' vs in
                 if signatures = [] then Inl (invalid_signature ''Invalid webhook signature'')
                 else r_bind (any_digest expected signatures) (\<lambda>found.
                        raise_if (\<not> found) (invalid_signature ''Invalid webhook signature''))))"

section \<open>Validation\<close>

definition round_half_even :: "rat \<Rightarrow> int" where
  "round_half_even q = (let f = \<lfloor>q\<rfloor>; r = q - of_int f in
     if r < 1 / 2 then f else if r > 1 / 2 then f + 1 else if even f then f else f + 1)"

definition parse_datetime :: "json option \<Rightarrow> datetime \<Rightarrow> exc + datetime" where
  "parse_datetime value fallback = (case value of
       None \<Rightarrow> Inr fallback
     | Some JNull \<Rightarrow> Inr fallback
     | Some (JInt i) \<Rightarrow> fromtimestamp_micros (i * 1000000)
     | Some (JBool b) \<Rightarrow> fromtimestamp_micros (if b then 1000000 else 0)
     | Some (JFloat q) \<Rightarrow> fromtimestamp_micros (round_half_even (q * 1000000))
     | Some (JStr s) \<Rightarrow>
         r_bind (require (fromisoformat (py_replace ''Z'' ''+00:00'' s)) (ValueError ''Invalid isoformat string'')) (\<lambda>parsed.
         (case tzinfo parsed of None \<Rightarrow> Inr (replace_tzinfo parsed (Some utc_offset)) | Some off \<Rightarrow> astimezone_utc parsed off))
     | Some _ \<Rightarrow> Inl (ValueError ''invalid billing period timestamp''))"

definition invalid_event :: "string \<Rightarrow> exc" where
  "invalid_event m = AppError 400 ''invalid_webhook_event'' m None"

definition upper_enum :: "ext \<Rightarrow> (string \<Rightarrow> 'e option) \<Rightarrow> json option \<Rightarrow> exc + 'e" where
  "upper_enum X of_value j = r_bind (require j (KeyError ''key'')) (\<lambda>v.
     require (of_value (py_upper (py_str X v))) (ValueError ''not a valid member''))"

definition period_change :: "string \<Rightarrow> bool" where
  "period_change ty = (ty = ''subscription.created'' \<or> ty = ''subscription.updated'')"

text \<open>The \<open>try\<close> block on status and period; every exception it raises is turned into a 400.\<close>

definition check_status_and_period :: "ext \<Rightarrow> runtime \<Rightarrow> dict \<Rightarrow> exc + unit" where
  "check_status_and_period X E obj =
     r_bind (case dict_get obj ''status'' of None \<Rightarrow> Inr ()
             | Some v \<Rightarrow> r_bind (upper_enum X subscription_status_of (Some v)) (\<lambda>_. Inr ())) (\<lambda>_.
     let has_start = (dict_get obj ''current_period_start'' \<noteq> None);
         has_end = (dict_get obj ''current_period_end'' \<noteq> None) in
     r_bind (raise_if (has_start \<noteq> has_end) (ValueError ''billing period boundaries must be provided together'')) (\<lambda>_.
     if has_start then
       r_bind (parse_datetime (dict_get obj ''current_period_start'') (rt_clock E 0)) (\<lambda>period_start.
       r_bind (parse_datetime (dict_get obj ''current_period_end'') (rt_clock E 1)) (\<lambda>period_end.
       raise_if (dt_le period_end period_start) (ValueError ''billing period end must be after its start'')))
     else Inr ()))"

definition check_external_id :: "dict \<Rightarrow> string \<Rightarrow> exc + unit" where
  "check_external_id obj field = (case dict_get obj field of
       None \<Rightarrow> Inr ()
     | Some JNull \<Rightarrow> Inr ()
     | Some (JStr s) \<Rightarrow> raise_if (\<not> (1 \<le> length s \<and> length s \<le> 120)) (invalid_event (''Webhook '' @ field @ '' is invalid''))
     | Some _ \<Rightarrow> Inl (invalid_event (''Webhook '' @ field @ '' is invalid'')))"

definition on_error :: "exc \<Rightarrow> exc + 'a \<Rightarrow> exc + 'a" where
  "on_error e m = (case m of Inl _ \<Rightarrow> Inl e | Inr x \<Rightarrow> Inr x)"

definition webhook_organization :: "ext \<Rightarrow> dict \<Rightarrow> exc + uuid" where
  "webhook_organization X obj = r_bind (require (dict_get obj ''organization_id'') (KeyError ''organization_id'')) (\<lambda>v.
     require (parse_uuid (py_str X v)) (ValueError ''badly formed hexadecimal UUID string''))"

definition validate_webhook :: "ext \<Rightarrow> runtime \<Rightarrow> billing_webhook \<Rightarrow> exc + dict" where
  "validate_webhook X E event =
     r_bind (raise_if (bw_type event \<notin> SUPPORTED_EVENTS)
       (AppError 400 ''unsupported_webhook_event'' ''Unsupported webhook event'' None)) (\<lambda>_.
     case dict_get (bw_data event) ''object'' of
       Some (JDict event_object) \<Rightarrow>
         r_bind (on_error (invalid_event ''Webhook organization_id is invalid'') (webhook_organization X event_object)) (\<lambda>_.
         if period_change (bw_type event) then
           r_bind (on_error (invalid_event ''Webhook plan is invalid'')
             (upper_enum X plan_of (dict_get event_object ''plan''))) (\<lambda>_.
           r_bind (on_error (invalid_event ''Webhook subscription status or period is invalid'')
             (check_status_and_period X E event_object)) (\<lambda>_.
           r_bind (check_external_id event_object ''customer_id'') (\<lambda>_.
           r_bind (check_external_id event_object ''subscription_id'') (\<lambda>_.
           Inr event_object))))
         else Inr event_object)
     | _ \<Rightarrow> Inl (invalid_event ''Webhook data.object must be an object''))"

section \<open>Storage and processing\<close>

definition find_webhook :: "string \<Rightarrow> db \<Rightarrow> webhook_event option" where
  "find_webhook external_id d =
     scalar (filter (\<lambda>w. whk_provider w = PROVIDER \<and> whk_external_event_id w = external_id) (webhook_events d))"

definition model_dump :: "billing_webhook \<Rightarrow> dict" where
  "model_dump event = [(''id'', JStr (bw_id event)), (''type'', JStr (bw_type event)), (''data'', JDict (bw_data event))]"

definition store_webhook_event :: "runtime \<Rightarrow> billing_webhook \<Rightarrow> db \<Rightarrow> exc + (webhook_event \<times> bool) \<times> db" where
  "store_webhook_event E event d =
     (case find_webhook (bw_id event) d of
        Some existing \<Rightarrow> Inr ((existing, False), d)
      | None \<Rightarrow>
          let webhook = \<lparr>whk_id = rt_uuid E 0, whk_provider = PROVIDER, whk_external_event_id = bw_id event,
                whk_event_type = bw_type event, whk_payload = model_dump event, whk_status = PENDING,
                whk_received_at = rt_db_now E, whk_processed_at = None\<rparr> in
          (case add_webhook_event webhook d of
             Inl (IntegrityError m) \<Rightarrow>
               (case find_webhook (bw_id event) d of None \<Rightarrow> Inl (IntegrityError m) | Some existing \<Rightarrow> Inr ((existing, False), d))
           | Inl e \<Rightarrow> Inl e
           | Inr d1 \<Rightarrow> Inr ((webhook, True), d1)))"

definition locked_subscription :: "runtime \<Rightarrow> uuid \<Rightarrow> db \<Rightarrow> exc + subscription \<times> db" where
  "locked_subscription E organization_id d =
     r_bind (require (find_organization d organization_id) (ValueError ''webhook organization does not exist'')) (\<lambda>_.
     case find_subscription d organization_id of
       Some s \<Rightarrow> Inr (s, d)
     | None \<Rightarrow> create_default_subscription E organization_id None d)"

definition json_str_opt :: "json \<Rightarrow> string option" where
  "json_str_opt j = (case j of JStr s \<Rightarrow> Some s | _ \<Rightarrow> None)"

text \<open>The branch for \<open>subscription.created\<close> and \<open>subscription.updated\<close>.\<close>

definition apply_subscription_event :: "ext \<Rightarrow> dict \<Rightarrow> datetime \<Rightarrow> datetime \<Rightarrow> subscription \<Rightarrow> exc + subscription" where
  "apply_subscription_event X obj period_start period_end s =
     r_bind (upper_enum X plan_of (dict_get obj ''plan'')) (\<lambda>p.
     r_bind (upper_enum X subscription_status_of
       (case dict_get obj ''status'' of None \<Rightarrow> Some (JStr (subscription_status_value ACTIVE)) | Some v \<Rightarrow> Some v)) (\<lambda>st.
     let s1 = s\<lparr>sub_plan := p, sub_status := st\<rparr>;
         s2 = (case dict_get obj ''customer_id'' of None \<Rightarrow> s1 | Some v \<Rightarrow> s1\<lparr>sub_external_customer_id := json_str_opt v\<rparr>);
         s3 = (case dict_get obj ''subscription_id'' of None \<Rightarrow> s2 | Some v \<Rightarrow> s2\<lparr>sub_external_subscription_id := json_str_opt v\<rparr>) in
     r_bind (parse_datetime (dict_get obj ''current_period_start'') period_start) (\<lambda>start.
     r_bind (parse_datetime (dict_get obj ''current_period_end'') period_end) (\<lambda>end.
     r_bind (raise_if (dt_le end start) (ValueError ''billing period end must be after its start'')) (\<lambda>_.
     Inr (s3\<lparr>sub_current_period_start := start, sub_current_period_end := end\<rparr>))))))"

definition apply_event :: "ext \<Rightarrow> string \<Rightarrow> dict \<Rightarrow> datetime \<Rightarrow> datetime \<Rightarrow> subscription \<Rightarrow> exc + subscription" where
  "apply_event X ty obj period_start period_end s =
     (if period_change ty then apply_subscription_event X obj period_start period_end s
      else if ty = ''subscription.cancelled'' then Inr (s\<lparr>sub_status := CANCELED\<rparr>)
      else if ty = ''invoice.payment_failed'' then Inr (s\<lparr>sub_status := PAST_DUE\<rparr>)
      else Inr s)"

definition find_webhook_by_id :: "string \<Rightarrow> db \<Rightarrow> exc + webhook_event option" where
  "find_webhook_by_id webhook_event_id d =
     r_bind (require (parse_uuid webhook_event_id) (ValueError ''badly formed hexadecimal UUID string'')) (\<lambda>event_id.
     Inr (scalar (filter (\<lambda>w. whk_id w = event_id) (webhook_events d))))"

definition process_webhook_event ::
  "ext \<Rightarrow> runtime \<Rightarrow> string \<Rightarrow> datetime option \<Rightarrow> db \<Rightarrow> exc + (webhook_event \<times> bool) \<times> db" where
  "process_webhook_event X E webhook_event_id now d =
     r_bind (find_webhook_by_id webhook_event_id d) (\<lambda>found.
     r_bind (require found (NotFoundError ''webhook_event_not_found'' ''Webhook event not found'')) (\<lambda>event.
     if whk_status event = PROCESSED then Inr ((event, False), d) else
     r_bind (BillingWebhook (JDict (whk_payload event))) (\<lambda>parsed_event.
     r_bind (validate_webhook X E parsed_event) (\<lambda>event_object.
     r_bind (webhook_organization X event_object) (\<lambda>organization_id.
     r_bind (locked_subscription (later_clock 2 E) organization_id d) (\<lambda>(subscription, d1).
     let previous_plan = sub_plan subscription; previous_status = sub_status subscription in
     r_bind (calendar_period (now_or E 3 now)) (\<lambda>(period_start, period_end).
     r_bind (apply_event X (whk_event_type event) event_object period_start period_end subscription) (\<lambda>changed0.
     let changed = touch_subscription E subscription changed0 in
     r_bind (save_subscription changed d1) (\<lambda>d2.
     r_bind (write_audit (later_uuid 1 E) organization_id None ''subscription.changed'' ''subscription'' (uuid_str (sub_id changed))
       [(''event_id'', JStr (whk_external_event_id event)), (''event_type'', JStr (whk_event_type event)),
        (''from_plan'', JStr (plan_value previous_plan)), (''to_plan'', JStr (plan_value (sub_plan changed))),
        (''from_status'', JStr (subscription_status_value previous_status)),
        (''to_status'', JStr (subscription_status_value (sub_status changed)))] None d2) (\<lambda>(_, d3).
     let event' = event\<lparr>whk_status := PROCESSED, whk_processed_at := Some (now_or E 4 now)\<rparr> in
     Inr ((event', True), save_webhook_event event' d3)))))))))))"

definition mark_webhook_failed :: "string \<Rightarrow> db \<Rightarrow> exc + unit \<times> db" where
  "mark_webhook_failed webhook_event_id d =
     r_bind (find_webhook_by_id webhook_event_id d) (\<lambda>found.
     case found of
       None \<Rightarrow> Inr ((), d)
     | Some event \<Rightarrow> if whk_status event \<noteq> PROCESSED then Inr ((), save_webhook_event (event\<lparr>whk_status := FAILED\<rparr>) d) else Inr ((), d))"

declare find_webhook_def [service_defs] model_dump_def [service_defs] store_webhook_event_def [service_defs]
  locked_subscription_def [service_defs] apply_subscription_event_def [service_defs] apply_event_def [service_defs]
  find_webhook_by_id_def [service_defs] process_webhook_event_def [service_defs] mark_webhook_failed_def [service_defs]
  validate_webhook_def [service_defs] check_status_and_period_def [service_defs] check_external_id_def [service_defs]
  on_error_def [service_defs] webhook_organization_def [service_defs] upper_enum_def [service_defs] period_change_def [service_defs]

section \<open>Lemmas on signatures\<close>

lemma py_split_absent: "sep \<notin> set s \<Longrightarrow> py_split sep s = [s]"
  by (induction s) auto

lemma py_split_sep: "sep \<notin> set xs \<Longrightarrow> py_split sep (xs @ sep # ys) = xs # py_split sep ys"
  by (induction xs) auto

lemma py_partition_sep: "sep \<notin> set xs \<Longrightarrow> py_partition sep (xs @ sep # ys) = (xs, True, ys)"
proof -
  assume "sep \<notin> set xs"
  then have "takeWhile (\<lambda>c. c \<noteq> sep) (xs @ sep # ys) = xs" by (subst takeWhile_append2) auto
  then show ?thesis by (simp add: py_partition_def)
qed

text \<open>The parts of a header that was built here. The digest is hexadecimal text.\<close>

definition hex_hmac :: "ext \<Rightarrow> bool" where
  "hex_hmac X = (\<forall>k m. hmac_sha256_hex X k m \<noteq> [] \<and> digit_str 16 (hmac_sha256_hex X k m))"

lemma digit_char_ascii: "n < 16 \<Longrightarrow> cp (digit_char n) < 128"
  by (simp add: cp_digit_char)

lemma digit_str_chars:
  assumes "digit_str base s" "base \<le> 16"
  shows "CHR '','' \<notin> set s" "CHR ''='' \<notin> set s" "\<forall>c \<in> set s. cp c < 128" "\<forall>c \<in> set s. \<not> is_space c"
proof -
  have d: "digit_char n \<noteq> CHR '',''" "digit_char n \<noteq> CHR ''=''" if "n < 16" for n
    using that by (auto simp: cp_digit_char simp flip: cp_eq_iff) (simp_all add: cp_def split: if_splits)
  show "CHR '','' \<notin> set s" "CHR ''='' \<notin> set s"
    using digit_str_absent [OF assms, of "CHR '',''"] digit_str_absent [OF assms, of "CHR ''=''"] d by blast+
  show "\<forall>c \<in> set s. cp c < 128" "\<forall>c \<in> set s. \<not> is_space c"
    using digit_strD [OF assms] digit_char_ascii digit_str_no_space [OF assms] by blast+
qed

lemma int_str_chars: "CHR '','' \<notin> set (int_str i)" "\<forall>c \<in> set (int_str i). \<not> is_space c" "int_str i \<noteq> []"
  using digit_str_chars [OF digit_str_nat_str, of "nat i"] digit_str_chars [OF digit_str_nat_str, of "nat (- i)"]
  by (auto simp: int_str_def is_space_def cp_def)

lemma part_of:
  assumes "\<forall>c \<in> set v. \<not> is_space c" "k \<noteq> []" "\<forall>c \<in> set k. \<not> is_space c" "CHR ''='' \<notin> set k"
  shows "py_partition (CHR ''='') (py_strip (k @ CHR ''='' # v)) = (k, True, v)"
proof -
  have "py_strip (k @ CHR ''='' # v) = k @ CHR ''='' # v"
    using assms by (intro py_strip_no_space) (auto simp: is_space_def cp_def)
  then show ?thesis using py_partition_sep assms(4) by simp
qed

lemma signature_values_built:
  assumes "digit_str 16 dg" "dg \<noteq> []"
  shows "signature_values (''t='' @ int_str i @ '',v1='' @ dg) = [(''t'', int_str i), (''v1'', dg)]"
proof -
  have "py_split (CHR '','') ((''t='' @ int_str i) @ CHR '','' # ''v1='' @ dg) = [''t='' @ int_str i, ''v1='' @ dg]"
    using int_str_chars(1) [of i] digit_str_chars(1) [OF assms(1)]
    by (subst py_split_sep) (simp_all add: py_split_absent)
  moreover have "py_partition (CHR ''='') (py_strip (''t='' @ int_str i)) = (''t'', True, int_str i)"
    using part_of [of "int_str i" "''t''"] int_str_chars(2) [of i] by (simp add: is_space_def cp_def)
  moreover have "py_partition (CHR ''='') (py_strip (''v1='' @ dg)) = (''v1'', True, dg)"
    using part_of [of dg "''v1''"] digit_str_chars(4) [OF assms(1)] by (simp add: is_space_def cp_def)
  ultimately show ?thesis using int_str_chars(3) [of i] assms(2) by (simp add: signature_values_def)
qed

lemma verify_built_signature:
  assumes "hex_hmac X" "0 \<le> timestamp" "timestamp < 10 ^ 18" "\<bar>current_time - of_int timestamp\<bar> \<le> of_int tolerance"
  shows "verify_webhook_signature X payload (Some (build_webhook_signature X payload secret timestamp)) secret current_time tolerance = Inr ()"
proof -
  let ?m = "int_str timestamp @ ''.'' @ payload"
  let ?dg = "hmac_sha256_hex X secret ?m"
  have dg: "?dg \<noteq> []" "digit_str 16 ?dg" using assms(1) by (simp_all add: hex_hmac_def)
  have h: "build_webhook_signature X payload secret timestamp = ''t='' @ int_str timestamp @ '',v1='' @ ?dg"
    by (simp add: build_webhook_signature_def)
  have v: "signature_values (build_webhook_signature X payload secret timestamp) = [(''t'', int_str timestamp), (''v1'', ?dg)]"
    unfolding h by (rule signature_values_built [OF dg(2,1)])
  have t: "py_int (int_str timestamp) = Some timestamp"
    by (rule py_int_int_str [OF assms(2,3)]) (simp_all add: int_max_str_digits_def)
  have tol: "0 \<le> tolerance" using assms(4) by (metis abs_ge_zero of_int_0_le_iff order_trans)
  have "(10::int) ^ 18 \<le> float_limit" by (simp add: float_limit_def)
  then have f: "\<not> float_limit \<le> \<bar>timestamp\<bar>" using assms(2,3) by linarith
  have a: "any_digest ?dg [?dg] = Inr True" using digit_str_chars(3) [OF dg(2)] by (auto simp: not_le)
  have e: "build_webhook_signature X payload secret timestamp \<noteq> []" by (simp add: h)
  show ?thesis
    using e v t tol f a assms(4) unfolding verify_webhook_signature_def option.case
    by (simp add: values_of_def Let_def del: any_digest.simps)
qed

lemma any_digest_Inr: "any_digest e vs = Inr True \<Longrightarrow> e \<in> set vs"
  by (induction vs) (auto split: if_splits)

section \<open>Lemmas on storage\<close>

lemma find_webhookD:
  "find_webhook i d = Some w \<Longrightarrow> w \<in> set (webhook_events d) \<and> whk_provider w = PROVIDER \<and> whk_external_event_id w = i"
  by (auto simp: find_webhook_def dest: scalar_filter_SomeD)

lemma find_webhook_unique:
  assumes "wf_db d" "w \<in> set (webhook_events d)" "whk_provider w = PROVIDER"
  shows "find_webhook (whk_external_event_id w) d = Some w"
  unfolding find_webhook_def
  by (rule scalar_filter_unique [OF wf_unique(18) [OF assms(1)] assms(2)]) (simp_all add: assms(3) whk_pair_def)

lemma add_webhook_event_InrD: "add_webhook_event w d = Inr d' \<Longrightarrow> d' = d\<lparr>webhook_events := webhook_events d @ [w]\<rparr>"
  by (auto simp: add_webhook_event_def split: if_splits)

lemma store_webhook_event_InrD:
  assumes "store_webhook_event E event d = Inr ((w, created), d')"
  shows "(\<not> created \<and> d' = d \<and> find_webhook (bw_id event) d = Some w) \<or>
    (created \<and> find_webhook (bw_id event) d = None \<and> add_webhook_event w d = Inr d' \<and> whk_provider w = PROVIDER \<and>
      whk_external_event_id w = bw_id event \<and> whk_event_type w = bw_type event \<and> whk_payload w = model_dump event \<and>
      whk_status w = PENDING \<and> whk_id w = rt_uuid E 0)"
  using assms by (auto simp: store_webhook_event_def Let_def split: option.splits sum.splits exc.splits)

lemma store_webhook_event_wf: "store_webhook_event E event d = Inr (p, d') \<Longrightarrow> wf_db d \<Longrightarrow> wf_db d'"
  using store_webhook_event_InrD [of E event d "fst p" "snd p" d'] wf_add_webhook_event by (cases p) auto

lemma store_webhook_event_view: "store_webhook_event E event d = Inr (p, d') \<Longrightarrow> tenant_view oid d' = tenant_view oid d"
  using store_webhook_event_InrD [of E event d "fst p" "snd p" d'] tenant_view_add(3) by (cases p) auto

lemma store_webhook_event_complete: "store_webhook_event E event d = Inr (p, d') \<Longrightarrow> orgs_complete d' = orgs_complete d"
proof -
  assume "store_webhook_event E event d = Inr (p, d')"
  then have "d' = d \<or> add_webhook_event (fst p) d = Inr d'"
    using store_webhook_event_InrD [of E event d "fst p" "snd p" d'] by auto
  then have "d' = d \<or> d' = d\<lparr>webhook_events := webhook_events d @ [fst p]\<rparr>" using add_webhook_event_InrD by blast
  then show ?thesis using orgs_complete_cong [of d' d] by auto
qed

lemma store_webhook_event_stored:
  assumes "store_webhook_event E event d = Inr ((w, created), d')"
  shows "w \<in> set (webhook_events d') \<and> whk_provider w = PROVIDER \<and> whk_external_event_id w = bw_id event"
  using store_webhook_event_InrD [OF assms] find_webhookD add_webhook_event_InrD by fastforce

section \<open>Lemmas on processing\<close>

lemma find_webhook_by_idD:
  "find_webhook_by_id i d = Inr (Some w) \<Longrightarrow> w \<in> set (webhook_events d) \<and> parse_uuid i = Some (whk_id w)"
  by (auto simp: find_webhook_by_id_def dest!: scalar_filter_SomeD)

lemma find_webhook_by_id_unique:
  assumes "wf_db d" "w \<in> set (webhook_events d)" "parse_uuid i = Some (whk_id w)"
  shows "find_webhook_by_id i d = Inr (Some w)"
  using scalar_filter_unique [OF wf_unique(17) [OF assms(1)] assms(2), of "\<lambda>x. whk_id x = whk_id w"] assms(3)
  by (simp add: find_webhook_by_id_def)

lemma locked_subscription_InrD:
  assumes "locked_subscription E oid d = Inr (s, d')"
  shows "find_organization d oid \<noteq> None \<and> ((d' = d \<and> find_subscription d oid = Some s) \<or>
    (find_subscription d oid = None \<and> create_default_subscription E oid None d = Inr (s, d')))"
  using assms by (auto simp: locked_subscription_def split: option.splits)

lemma locked_subscription_facts:
  assumes "locked_subscription E oid d = Inr (s, d')"
  shows "s \<in> set (subscriptions d') \<and> sub_organization_id s = oid \<and> (wf_db d \<longrightarrow> wf_db d') \<and> (orgs_complete d \<longrightarrow> orgs_complete d') \<and>
    (\<forall>oid'. oid' \<noteq> oid \<longrightarrow> tenant_view oid' d' = tenant_view oid' d) \<and> webhook_events d' = webhook_events d"
proof -
  consider "d' = d" "find_subscription d oid = Some s" | "add_subscription s d = Inr d'" "sub_organization_id s = oid"
    using locked_subscription_InrD [OF assms] create_default_subscription_InrD(1,2) [of E oid None d s d'] by blast
  then show ?thesis
  proof cases
    case 1
    then show ?thesis using find_subscriptionD [of d oid s] by simp
  next
    case 2
    then show ?thesis
      using add_subscription_InrD [OF 2(1)] wf_add_subscription [OF 2(1)] orgs_complete_add_subscription [OF 2(1)]
        tenant_view_add(9) [OF 2(1)] by simp
  qed
qed

lemma apply_event_keys:
  assumes "apply_event X ty obj a b s = Inr s'"
  shows "sub_id s' = sub_id s" "sub_organization_id s' = sub_organization_id s"
  using assms by (auto simp: apply_event_def apply_subscription_event_def Let_def split: if_splits option.splits)

lemma process_webhook_event_InrD:
  assumes "process_webhook_event X E i now d = Inr ((w', done), d')"
  obtains (again) "\<not> done" "d' = d" "find_webhook_by_id i d = Inr (Some w')" "whk_status w' = PROCESSED"
  | (first) w ev obj oid s d1 ps pe s' d2 e meta d3 where "done" "find_webhook_by_id i d = Inr (Some w)" "whk_status w \<noteq> PROCESSED"
    "BillingWebhook (JDict (whk_payload w)) = Inr ev" "validate_webhook X E ev = Inr obj" "webhook_organization X obj = Inr oid"
    "locked_subscription (later_clock 2 E) oid d = Inr (s, d1)" "calendar_period (now_or E 3 now) = Inr (ps, pe)"
    "apply_event X (whk_event_type w) obj ps pe s = Inr s'"
    "save_subscription (touch_subscription E s s') d1 = Inr d2"
    "write_audit (later_uuid 1 E) oid None ''subscription.changed'' ''subscription'' (uuid_str (sub_id s')) meta None d2 = Inr (e, d3)"
    "w' = w\<lparr>whk_status := PROCESSED, whk_processed_at := Some (now_or E 4 now)\<rparr>" "d' = save_webhook_event w' d3"
proof -
  obtain w where w: "find_webhook_by_id i d = Inr (Some w)" using assms by (auto simp: process_webhook_event_def)
  show thesis
  proof (cases "whk_status w = PROCESSED")
    case True
    then show thesis using assms w again by (auto simp: process_webhook_event_def)
  next
    case False
    then show thesis using assms w first [OF _ w False] by (auto simp: process_webhook_event_def Let_def)
  qed
qed

text \<open>The states a processed event goes through, with what each keeps.\<close>

lemma process_webhook_event_effect:
  assumes "process_webhook_event X E i now d = Inr ((w', done), d')" "wf_db d"
  shows "wf_db d' \<and> (orgs_complete d \<longrightarrow> orgs_complete d') \<and> w' \<in> set (webhook_events d') \<and> whk_status w' = PROCESSED \<and>
    parse_uuid i = Some (whk_id w') \<and> (done \<longrightarrow> (\<exists>oid. oid \<in> org_ids d \<and> (\<forall>oid'. oid' \<noteq> oid \<longrightarrow> tenant_view oid' d' = tenant_view oid' d))) \<and>
    (\<not> done \<longrightarrow> d' = d) \<and> whk_provider w' \<in> whk_provider ` set (webhook_events d) \<and>
    (\<forall>v \<in> set (webhook_events d). whk_id v \<noteq> whk_id w' \<longrightarrow> v \<in> set (webhook_events d'))"
  using assms(1)
proof (cases rule: process_webhook_event_InrD)
  case again
  then show ?thesis using find_webhook_by_idD [OF again(3)] assms(2) by auto
next
  case (first w ev obj oid s d1 ps pe s' d2 e meta d3)
  note l = locked_subscription_facts [OF first(7)]
  note k = apply_event_keys [OF first(9)]
  have w: "w \<in> set (webhook_events d)" "parse_uuid i = Some (whk_id w)" using find_webhook_by_idD [OF first(2)] by auto
  have "find_organization d oid \<noteq> None" by (rule conjunct1 [OF locked_subscription_InrD [OF first(7)]])
  then have o: "oid \<in> org_ids d" by (simp only: find_organization_None not_not)
  let ?s = "touch_subscription E s s'"
  have ks: "s \<in> set (subscriptions d1)" "sub_id ?s = sub_id s" "sub_organization_id ?s = sub_organization_id s" using l k by simp_all
  have w1: "wf_db d1" using l assms(2) by simp
  have w3: "wf_db d3" by (rule write_audit_wf [OF first(11) wf_save_subscription [OF first(10) w1 ks]])
  have c3: "orgs_complete d \<longrightarrow> orgs_complete d3"
    using l orgs_complete_save_subscription [OF first(10) _ ks w1] write_audit_complete [OF first(11)] by simp
  have v3: "tenant_view oid' d3 = tenant_view oid' d" if "oid' \<noteq> oid" for oid'
    using write_audit_view [OF first(11) that] tenant_view_save_subscription [OF first(10) w1 ks, of oid'] l that by simp
  have e3: "webhook_events d3 = webhook_events d"
    using write_audit_InrD(2) [OF first(11)] save_subscription_InrD [OF first(10)] l by simp
  have wf: "wf_db d'" using wf_save_webhook_event [OF w3, of w w'] w e3 first(12,13) by (simp add: whk_pair_def)
  have "orgs_complete d' = orgs_complete d3"
    unfolding first(13) by (rule orgs_complete_cong) (simp_all add: save_webhook_event_def)
  then have c: "orgs_complete d \<longrightarrow> orgs_complete d'" using c3 by simp
  have m: "x \<in> set (webhook_events d') \<longleftrightarrow> (x \<in> set (webhook_events d) \<and> whk_id x \<noteq> whk_id w') \<or> x = w'" for x
    using in_set_save_row [of w "webhook_events d" whk_id w' x] w e3 first(12,13) by (simp add: save_webhook_event_def)
  have v: "\<exists>oid. oid \<in> org_ids d \<and> (\<forall>oid'. oid' \<noteq> oid \<longrightarrow> tenant_view oid' d' = tenant_view oid' d)"
    using v3 o by (intro exI [of _ oid]) (simp add: first(13))
  have p: "whk_status w' = PROCESSED" "parse_uuid i = Some (whk_id w')" "whk_provider w' \<in> whk_provider ` set (webhook_events d)"
    using w by (simp_all add: first(12))
  have n: "w' \<in> set (webhook_events d')" "\<forall>v \<in> set (webhook_events d). whk_id v \<noteq> whk_id w' \<longrightarrow> v \<in> set (webhook_events d')"
    using m by blast+
  show ?thesis by (intro conjI wf c n p impI v) (use first(1) in simp)
qed

lemma mark_webhook_failed_InrD:
  assumes "mark_webhook_failed i d = Inr (u, d')"
  obtains "d' = d" | w where "find_webhook_by_id i d = Inr (Some w)" "whk_status w \<noteq> PROCESSED" "d' = save_webhook_event (w\<lparr>whk_status := FAILED\<rparr>) d"
proof -
  obtain found where f: "find_webhook_by_id i d = Inr found" using assms by (auto simp: mark_webhook_failed_def)
  show thesis
  proof (cases found)
    case None
    then show thesis using that(1) assms f by (simp add: mark_webhook_failed_def)
  next
    case (Some w)
    then show thesis using that(1) that(2) [of w] assms f by (cases "whk_status w = PROCESSED") (simp_all add: mark_webhook_failed_def)
  qed
qed

lemma mark_webhook_failed_wf: "mark_webhook_failed i d = Inr (u, d') \<Longrightarrow> wf_db d \<Longrightarrow> wf_db d'"
proof (erule mark_webhook_failed_InrD)
  fix w
  assume "wf_db d" "find_webhook_by_id i d = Inr (Some w)" "d' = save_webhook_event (w\<lparr>whk_status := FAILED\<rparr>) d"
  then show "wf_db d'" using wf_save_webhook_event [of d w "w\<lparr>whk_status := FAILED\<rparr>"] find_webhook_by_idD by (auto simp: whk_pair_def)
qed simp

lemma mark_webhook_failed_view: "mark_webhook_failed i d = Inr (u, d') \<Longrightarrow> tenant_view oid d' = tenant_view oid d"
  by (erule mark_webhook_failed_InrD) simp_all

lemma mark_webhook_failed_complete: "mark_webhook_failed i d = Inr (u, d') \<Longrightarrow> orgs_complete d' = orgs_complete d"
  by (erule mark_webhook_failed_InrD, simp) (rule orgs_complete_cong; simp add: save_webhook_event_def)

lemma processed_stays_processed:
  assumes "mark_webhook_failed i d = Inr (u, d')" "wf_db d" "w \<in> set (webhook_events d)" "whk_status w = PROCESSED"
  shows "w \<in> set (webhook_events d')"
  using assms(1)
proof (rule mark_webhook_failed_InrD)
  fix v
  assume v: "find_webhook_by_id i d = Inr (Some v)" "whk_status v \<noteq> PROCESSED" "d' = save_webhook_event (v\<lparr>whk_status := FAILED\<rparr>) d"
  have "v \<in> set (webhook_events d)" using find_webhook_by_idD [OF v(1)] by simp
  moreover have "whk_id w \<noteq> whk_id v" using unique_onD [OF wf_unique(17) [OF assms(2)] assms(3)] calculation v(2) assms(4) by auto
  ultimately show ?thesis
    using in_set_save_row [of v "webhook_events d" whk_id "v\<lparr>whk_status := FAILED\<rparr>" w] assms(3) v(3)
    by (simp add: save_webhook_event_def)
qed (use assms(3) in simp)

section \<open>The contracts hold\<close>

interpretation store_webhook_service: complete_service "\<lambda>(E, event). store_webhook_event E event"
  by unfold_locales (auto intro: store_webhook_event_wf simp: store_webhook_event_complete)

interpretation process_webhook_service: complete_service "\<lambda>(X, E, i, now). process_webhook_event X E i now"
  by unfold_locales (use process_webhook_event_effect in \<open>fastforce\<close>)+

interpretation mark_webhook_service: complete_service mark_webhook_failed
  by unfold_locales (auto intro: mark_webhook_failed_wf simp: mark_webhook_failed_complete)

lemma validate_webhook_object: "validate_webhook X E ev = Inr obj \<Longrightarrow> dict_get (bw_data ev) ''object'' = Some (JDict obj)"
  by (auto simp: validate_webhook_def split: option.splits json.splits if_splits)

section \<open>What an event asks for\<close>

text \<open>
  The subscription \<open>s'\<close> that a created or updated event with the given object leaves of \<open>s\<close>: its plan is
  the event's; its status is the event's, or ACTIVE when the event names none; a customer or
  subscription id is replaced when the event carries one; its period is the event's, or the calendar
  month given when the event names none; and it is still the same row of the same organization.
\<close>

definition follows_event :: "ext \<Rightarrow> dict \<Rightarrow> datetime \<times> datetime \<Rightarrow> subscription \<Rightarrow> subscription \<Rightarrow> bool" where
  "follows_event X obj calendar s s' \<longleftrightarrow>
     (\<exists>v. dict_get obj ''plan'' = Some v \<and> plan_of (py_upper (py_str X v)) = Some (sub_plan s')) \<and>
     (case dict_get obj ''status'' of
        None \<Rightarrow> sub_status s' = ACTIVE
      | Some v \<Rightarrow> subscription_status_of (py_upper (py_str X v)) = Some (sub_status s')) \<and>
     sub_external_customer_id s' =
       (case dict_get obj ''customer_id'' of None \<Rightarrow> sub_external_customer_id s | Some v \<Rightarrow> json_str_opt v) \<and>
     sub_external_subscription_id s' =
       (case dict_get obj ''subscription_id'' of None \<Rightarrow> sub_external_subscription_id s | Some v \<Rightarrow> json_str_opt v) \<and>
     parse_datetime (dict_get obj ''current_period_start'') (fst calendar) = Inr (sub_current_period_start s') \<and>
     parse_datetime (dict_get obj ''current_period_end'') (snd calendar) = Inr (sub_current_period_end s') \<and>
     \<not> dt_le (sub_current_period_end s') (sub_current_period_start s') \<and>
     sub_id s' = sub_id s \<and> sub_organization_id s' = sub_organization_id s \<and> sub_created_at s' = sub_created_at s"

lemma apply_subscription_event_follows:
  assumes "apply_subscription_event X obj ps pe s = Inr s'"
  shows "follows_event X obj (ps, pe) s s'"
proof -
  obtain v p where p: "dict_get obj ''plan'' = Some v" "plan_of (py_upper (py_str X v)) = Some p"
    using assms by (auto simp: apply_subscription_event_def upper_enum_def split: option.splits)
  show ?thesis
  proof (cases "dict_get obj ''status''")
    case None
    have st: "subscription_status_of (py_upper (py_str X (JStr (subscription_status_value ACTIVE)))) = Some ACTIVE"
      by (simp add: py_str_def subscription_status_of_def py_upper_def upper_char_def cp_def)
    show ?thesis
      using assms p None st by (auto simp: apply_subscription_event_def upper_enum_def Let_def follows_event_def split: option.splits)
  next
    case (Some w)
    then obtain st where st: "subscription_status_of (py_upper (py_str X w)) = Some st"
      using assms p by (auto simp: apply_subscription_event_def upper_enum_def split: option.splits)
    show ?thesis
      using assms p Some st by (auto simp: apply_subscription_event_def upper_enum_def Let_def follows_event_def split: option.splits)
  qed
qed

text \<open>An event that sets a plan, a status and a period.\<close>

definition update_object :: dict where
  "update_object = [(''organization_id'', JStr (uuid_str 10)), (''plan'', JStr ''pro''), (''status'', JStr ''past_due''),
     (''current_period_start'', JStr ''2024-05-10T00:00:00Z''), (''current_period_end'', JStr ''2024-06-10T00:00:00Z'')]"

definition update_webhook :: billing_webhook where
  "update_webhook = \<lparr>bw_id = ''evt_2'', bw_type = ''subscription.updated'', bw_data = [(''object'', JDict update_object)]\<rparr>"

definition update_event :: webhook_event where
  "update_event = \<lparr>whk_id = 81, whk_provider = PROVIDER, whk_external_event_id = ''evt_2'', whk_event_type = ''subscription.updated'',
     whk_payload = model_dump update_webhook, whk_status = PENDING, whk_received_at = sample_now, whk_processed_at = None\<rparr>"

definition updated_sub :: subscription where
  "updated_sub = (sample_sub 21 10 FREE)\<lparr>sub_plan := PRO, sub_status := PAST_DUE,
     sub_current_period_start := sample_now\<lparr>day := 10, hour := 0\<rparr>, sub_current_period_end := sample_now\<lparr>month := 6, day := 10, hour := 0\<rparr>\<rparr>"

lemma update_event_wf: "wf_db (sample_db\<lparr>webhook_events := [update_event]\<rparr>)"
  using sample_wf unique_on_append1 [of whk_id "[]" update_event] unique_on_append1 [of whk_pair "[]" update_event]
  by (simp add: wf_defs user_ids_def org_ids_def)

lemma update_object_get:
  "dict_get update_object ''organization_id'' = Some (JStr (uuid_str 10))" "dict_get update_object ''plan'' = Some (JStr ''pro'')"
  "dict_get update_object ''status'' = Some (JStr ''past_due'')" "dict_get update_object ''customer_id'' = None"
  "dict_get update_object ''subscription_id'' = None"
  "dict_get update_object ''current_period_start'' = Some (JStr ''2024-05-10T00:00:00Z'')"
  "dict_get update_object ''current_period_end'' = Some (JStr ''2024-06-10T00:00:00Z'')"
  by (simp_all add: update_object_def dict_get_def)

lemma update_object_period:
  "parse_datetime (Some (JStr ''2024-05-10T00:00:00Z'')) f = Inr (sample_now\<lparr>day := 10, hour := 0\<rparr>)"
  "parse_datetime (Some (JStr ''2024-06-10T00:00:00Z'')) f = Inr (sample_now\<lparr>month := 6, day := 10, hour := 0\<rparr>)"
  "\<not> dt_le (sample_now\<lparr>month := 6, day := 10, hour := 0\<rparr>) (sample_now\<lparr>day := 10, hour := 0\<rparr>)"
  by code_simp+

lemma update_object_status:
  "plan_of (py_upper ''pro'') = Some PRO" "subscription_status_of (py_upper ''past_due'') = Some PAST_DUE"
  by code_simp+

lemma update_event_processed:
  "\<exists>w d'. process_webhook_event sample_ext sample_rt (uuid_str 81) None (sample_db\<lparr>webhook_events := [update_event]\<rparr>) = Inr ((w, True), d') \<and>
     whk_payload w = model_dump update_webhook \<and> whk_event_type w = ''subscription.updated''"
proof -
  let ?d = "sample_db\<lparr>webhook_events := [update_event]\<rparr>"
  have n: "calendar_period (now_or sample_rt 3 None) = Inr (sample_now\<lparr>day := 1, hour := 0\<rparr>, sample_now\<lparr>month := 6, day := 1, hour := 0\<rparr>)"
    by code_simp
  have b: "BillingWebhook (JDict (model_dump update_webhook)) = Inr update_webhook"
    by (simp add: BillingWebhook_def model_dump_def update_webhook_def str_field_def dict_get_def length_between_def)
  have wo: "webhook_organization sample_ext update_object = Inr 10"
    by (simp add: webhook_organization_def update_object_get py_str_def)
  have cs: "check_status_and_period sample_ext sample_rt update_object = Inr ()"
    by (simp add: check_status_and_period_def update_object_get upper_enum_def py_str_def update_object_status update_object_period)
  have ty: "period_change ''subscription.updated''" by (simp add: period_change_def)
  have ob: "dict_get (bw_data update_webhook) ''object'' = Some (JDict update_object)" "bw_type update_webhook = ''subscription.updated''"
    by (simp_all add: update_webhook_def dict_get_def)
  have v: "validate_webhook sample_ext sample_rt update_webhook = Inr update_object"
    using wo cs ty ob by (simp add: validate_webhook_def SUPPORTED_EVENTS_def on_error_def upper_enum_def
        update_object_get py_str_def update_object_status check_external_id_def)
  have w: "find_webhook_by_id (uuid_str 81) ?d = Inr (Some update_event)" by (simp add: find_webhook_by_id_def update_event_def)
  have e: "whk_status update_event = PENDING" "whk_payload update_event = model_dump update_webhook"
    "whk_event_type update_event = ''subscription.updated''"
    by (simp_all add: update_event_def)
  have s: "locked_subscription (later_clock 2 sample_rt) 10 ?d = Inr (sample_sub 21 10 FREE, ?d)"
    by (simp add: locked_subscription_def find_organization_def find_subscription_def sample_defs)
  have ap: "apply_event sample_ext ''subscription.updated'' update_object ps pe (sample_sub 21 10 FREE) = Inr updated_sub" for ps pe
    using ty by (simp add: apply_event_def apply_subscription_event_def update_object_get upper_enum_def py_str_def
        update_object_status update_object_period updated_sub_def Let_def)
  obtain d2 where d2: "save_subscription (touch_subscription sample_rt (sample_sub 21 10 FREE) updated_sub) ?d = Inr d2"
      "audit_logs d2 = []" "organizations d2 = organizations sample_db"
    by (simp add: save_subscription_def touch_subscription_def updated_sub_def sample_defs)
  have a: "\<exists>y d3. write_audit F 10 None act rt rid m None d2 = Inr (y, d3)" for F act rt rid m
    using d2(2,3) by (simp add: write_audit_def add_audit_log_def org_ids_def sample_defs Let_def)
  show ?thesis
    unfolding process_webhook_event_def w r_bind_Inr require_simps e b v wo s n ap prod.case Let_def d2(1) using a e by auto
qed

section \<open>Properties\<close>

text \<open>
  C15. A signature header made for a payload with the shared secret is accepted for that payload
  within the tolerance around its timestamp.
\<close>

theorem webhook_signature_round_trip:
  assumes "hex_hmac X" "0 \<le> timestamp" "timestamp < 10 ^ 18" "\<bar>current_time - of_int timestamp\<bar> \<le> of_int tolerance"
  shows "verify_webhook_signature X payload (Some (build_webhook_signature X payload secret timestamp)) secret current_time tolerance = Inr ()"
  using assms by (rule verify_built_signature)

theorem webhook_signature_round_trip_witness:
  "verify_webhook_signature sample_ext ''{}'' (Some (build_webhook_signature sample_ext ''{}'' ''whsec'' 1700000000)) ''whsec''
     1700000100 SIGNATURE_TOLERANCE_SECONDS = Inr ()"
  by (rule webhook_signature_round_trip)
    (simp_all add: hex_hmac_def digit_str_hex_digits SIGNATURE_TOLERANCE_SECONDS_def flip: length_0_conv)

text \<open>
  C14. A webhook body is accepted only with a header whose timestamp is within the tolerance and that
  carries the keyed digest of exactly this timestamp and body under the shared secret.
\<close>

theorem webhook_signature_sound:
  assumes "verify_webhook_signature X payload signature_header secret current_time tolerance = Inr u"
  shows "\<exists>header t timestamp. signature_header = Some header \<and> (''t'', t) \<in> set (signature_values header) \<and> py_int t = Some timestamp \<and>
    \<bar>current_time - of_int timestamp\<bar> \<le> of_int tolerance \<and>
    (''v1'', hmac_sha256_hex X secret (int_str timestamp @ ''.'' @ payload)) \<in> set (signature_values header)"
proof -
  obtain header where h: "signature_header = Some header" using assms by (auto simp: verify_webhook_signature_def split: option.splits)
  let ?vs = "signature_values header"
  obtain t ts where t: "values_of ''t'' ?vs = t # ts"
    using assms h by (cases "values_of ''t'' ?vs") (auto simp: verify_webhook_signature_def Let_def split: if_splits)
  obtain timestamp where ts: "py_int t = Some timestamp"
    using assms h t by (cases "py_int t") (auto simp: verify_webhook_signature_def Let_def split: if_splits)
  have v: "\<bar>current_time - of_int timestamp\<bar> \<le> of_int tolerance"
    "any_digest (hmac_sha256_hex X secret (int_str timestamp @ ''.'' @ payload)) (values_of ''v1'' ?vs) = Inr True"
    using assms h t ts by (auto simp: verify_webhook_signature_def Let_def not_less split: if_splits)
  have s: "w \<in> set (values_of k vs) \<Longrightarrow> (k, w) \<in> set vs" for w k vs by (auto simp: values_of_def)
  have "(''t'', t) \<in> set ?vs" using t by (intro s) simp
  moreover have "(''v1'', hmac_sha256_hex X secret (int_str timestamp @ ''.'' @ payload)) \<in> set ?vs"
    using any_digest_Inr [OF v(2)] by (rule s)
  ultimately show ?thesis using h ts v(1) by blast
qed

theorem webhook_signature_sound_witness:
  "\<exists>header. Some (build_webhook_signature sample_ext ''{}'' ''whsec'' 1700000000) = Some header \<and>
     (\<exists>timestamp. (''v1'', hmac_sha256_hex sample_ext ''whsec'' (int_str timestamp @ ''.'' @ ''{}'')) \<in> set (signature_values header))"
proof -
  have "hex_hmac sample_ext" by (simp add: hex_hmac_def digit_str_hex_digits flip: length_0_conv)
  then have "verify_webhook_signature sample_ext ''{}'' (Some (build_webhook_signature sample_ext ''{}'' ''whsec'' 1700000000)) ''whsec''
     1700000000 0 = Inr ()" by (rule webhook_signature_round_trip) simp_all
  from webhook_signature_sound [OF this] show ?thesis by blast
qed

text \<open>
  Storing a webhook is idempotent: a later delivery with the same event id, whatever its content,
  returns the stored row, reports it as a duplicate and changes nothing.
\<close>

lemma webhook_store_idempotent:
  assumes "store_webhook_event E event d = Inr ((w, created), d')" "wf_db d" "bw_id event' = bw_id event"
  shows "store_webhook_event E' event' d' = Inr ((w, False), d')"
proof -
  note s = store_webhook_event_stored [OF assms(1)]
  have "find_webhook (bw_id event') d' = Some w"
    using find_webhook_unique [OF store_webhook_event_wf [OF assms(1,2)], of w] s assms(3) by simp
  then show ?thesis by (simp add: store_webhook_event_def)
qed

definition sample_webhook :: billing_webhook where
  "sample_webhook = \<lparr>bw_id = ''evt_1'', bw_type = ''subscription.cancelled'',
     bw_data = [(''object'', JDict [(''organization_id'', JStr (uuid_str 10))])]\<rparr>"

definition sample_event :: webhook_event where
  "sample_event = \<lparr>whk_id = 80, whk_provider = PROVIDER, whk_external_event_id = ''evt_1'', whk_event_type = ''subscription.cancelled'',
     whk_payload = model_dump sample_webhook, whk_status = PENDING, whk_received_at = sample_now, whk_processed_at = None\<rparr>"

lemma sample_event_wf: "wf_db (sample_db\<lparr>webhook_events := [sample_event]\<rparr>)"
  using sample_wf unique_on_append1 [of whk_id "[]" sample_event] unique_on_append1 [of whk_pair "[]" sample_event]
  by (simp add: wf_defs user_ids_def org_ids_def)

lemma sample_event_processed:
  "\<exists>w d'. process_webhook_event sample_ext sample_rt (uuid_str 80) None (sample_db\<lparr>webhook_events := [sample_event]\<rparr>) = Inr ((w, True), d')"
proof -
  have c: "calendar_period sample_now = Inr (sample_now\<lparr>day := 1, hour := 0\<rparr>, sample_now\<lparr>month := 6, day := 1, hour := 0\<rparr>)" by code_simp
  have b: "BillingWebhook (JDict (model_dump sample_webhook)) = Inr sample_webhook"
    by (simp add: BillingWebhook_def model_dump_def sample_webhook_def str_field_def dict_get_def length_between_def)
  have v: "validate_webhook sample_ext sample_rt sample_webhook = Inr [(''organization_id'', JStr (uuid_str 10))]"
    by (simp add: validate_webhook_def sample_webhook_def SUPPORTED_EVENTS_def dict_get_def on_error_def webhook_organization_def
        py_str_def period_change_def)
  have o: "webhook_organization sample_ext [(''organization_id'', JStr (uuid_str 10))] = Inr 10"
    by (simp add: webhook_organization_def dict_get_def py_str_def)
  have w: "find_webhook_by_id (uuid_str 80) (sample_db\<lparr>webhook_events := [sample_event]\<rparr>) = Inr (Some sample_event)"
    by (simp add: find_webhook_by_id_def sample_event_def)
  have e: "whk_status sample_event = PENDING" "whk_payload sample_event = model_dump sample_webhook" "whk_event_type sample_event = ''subscription.cancelled''"
    by (simp_all add: sample_event_def)
  have s: "locked_subscription (later_clock 2 sample_rt) 10 (sample_db\<lparr>webhook_events := [sample_event]\<rparr>) =
      Inr (sample_sub 21 10 FREE, sample_db\<lparr>webhook_events := [sample_event]\<rparr>)"
    by (simp add: locked_subscription_def find_organization_def find_subscription_def sample_defs)
  obtain d2 where d2: "save_subscription (touch_subscription sample_rt (sample_sub 21 10 FREE) (sample_sub 21 10 FREE\<lparr>sub_status := CANCELED\<rparr>))
      (sample_db\<lparr>webhook_events := [sample_event]\<rparr>) = Inr d2" "audit_logs d2 = []" "organizations d2 = organizations sample_db"
    by (simp add: save_subscription_def touch_subscription_def sample_defs)
  have a: "\<exists>y d3. write_audit F 10 None act rt rid m None d2 = Inr (y, d3)" for F act rt rid m
    using d2(2,3) by (simp add: write_audit_def add_audit_log_def org_ids_def sample_defs Let_def)
  have ap: "apply_event sample_ext ''subscription.cancelled'' obj ps pe t = Inr (t\<lparr>sub_status := CANCELED\<rparr>)" for obj ps pe t
    by (simp add: apply_event_def period_change_def)
  have n: "calendar_period (now_or sample_rt 3 None) = Inr (sample_now\<lparr>day := 1, hour := 0\<rparr>, sample_now\<lparr>month := 6, day := 1, hour := 0\<rparr>)"
    using c by (simp add: now_or_def sample_rt_def)
  show ?thesis
    unfolding process_webhook_event_def w r_bind_Inr require_simps e b v o s n ap prod.case Let_def d2(1) using a by auto
qed

text \<open>
  C12. Processing is exactly-once: after a webhook has been processed, processing it again, at any
  time, changes nothing and says so, and a failure report for it is ignored.
\<close>

theorem webhook_process_once:
  assumes "process_webhook_event X E i now d = Inr ((w, first), d')" "wf_db d"
  shows "whk_status w = PROCESSED \<and> process_webhook_event X' E' i now' d' = Inr ((w, False), d') \<and> mark_webhook_failed i d' = Inr ((), d')"
proof -
  note e = process_webhook_event_effect [OF assms]
  have w: "wf_db d'" "w \<in> set (webhook_events d')" "whk_status w = PROCESSED" "parse_uuid i = Some (whk_id w)" using e by blast+
  have "find_webhook_by_id i d' = Inr (Some w)" by (rule find_webhook_by_id_unique [OF w(1,2,4)])
  then show ?thesis using w(3) by (simp add: process_webhook_event_def mark_webhook_failed_def)
qed

theorem webhook_process_once_witness:
  "\<exists>w d'. process_webhook_event sample_ext sample_rt (uuid_str 80) None (sample_db\<lparr>webhook_events := [sample_event]\<rparr>) = Inr ((w, True), d') \<and>
     process_webhook_event sample_ext sample_rt (uuid_str 80) None d' = Inr ((w, False), d')"
proof -
  obtain w d' where p: "process_webhook_event sample_ext sample_rt (uuid_str 80) None (sample_db\<lparr>webhook_events := [sample_event]\<rparr>) = Inr ((w, True), d')"
    using sample_event_processed by blast
  show ?thesis using p webhook_process_once [OF p sample_event_wf] by blast
qed

text \<open>
  C13. What a processed event does to the subscription of its organization: a cancellation and a
  failed payment set the status and nothing else but the time stamp; the other events set plan,
  status, external identifiers and period as \<open>follows_event\<close> says, from the event where it has them. In
  every case the event is stored as processed, the change is audited once, in the organization of the
  event, and no other tenant is touched.
\<close>

theorem webhook_process_effect:
  assumes "process_webhook_event X E i now d = Inr ((w, True), d')" "wf_db d"
  shows "\<exists>ev obj oid s d1 s'. BillingWebhook (JDict (whk_payload w)) = Inr ev \<and> dict_get (bw_data ev) ''object'' = Some (JDict obj) \<and>
    webhook_organization X obj = Inr oid \<and> locked_subscription (later_clock 2 E) oid d = Inr (s, d1) \<and>
    find_subscription d' oid = Some (touch_subscription E s s') \<and>
    (whk_event_type w = ''subscription.cancelled'' \<longrightarrow> s' = s\<lparr>sub_status := CANCELED\<rparr>) \<and>
    (whk_event_type w = ''invoice.payment_failed'' \<longrightarrow> s' = s\<lparr>sub_status := PAST_DUE\<rparr>) \<and>
    (period_change (whk_event_type w) \<longrightarrow>
       (\<exists>calendar. calendar_period (now_or E 3 now) = Inr calendar \<and> follows_event X obj calendar s s')) \<and>
    w \<in> set (webhook_events d') \<and> whk_status w = PROCESSED \<and> whk_processed_at w = Some (now_or E 4 now) \<and>
    (\<exists>entry. audit_logs d' = audit_logs d1 @ [entry] \<and> aud_organization_id entry = oid \<and> aud_action entry = ''subscription.changed'') \<and>
    (\<forall>oid'. oid' \<noteq> oid \<longrightarrow> tenant_view oid' d' = tenant_view oid' d)"
  using assms(1)
proof (cases rule: process_webhook_event_InrD)
  case (first w0 ev obj oid s d1 ps pe s' d2 e meta d3)
  note l = locked_subscription_facts [OF first(7)]
  note k = apply_event_keys [OF first(9)]
  note pe = process_webhook_event_effect [OF assms]
  let ?s = "touch_subscription E s s'"
  have ty: "whk_event_type w = whk_event_type w0" "whk_payload w = whk_payload w0" by (simp_all add: first(12))
  have ks: "s \<in> set (subscriptions d1)" "sub_id ?s = sub_id s" "sub_organization_id ?s = oid" using l k by simp_all
  have d3: "subscriptions d3 = save_row sub_id ?s (subscriptions d1)" "audit_logs d3 = audit_logs d1 @ [e]"
    using write_audit_InrD(2) [OF first(11)] save_subscription_InrD [OF first(10)] by simp_all
  have t: "subscriptions d' = subscriptions d3" "audit_logs d' = audit_logs d3" by (simp_all add: first(13) save_webhook_event_def)
  have "?s \<in> set (subscriptions d')" using in_set_save_row [of s "subscriptions d1" sub_id ?s ?s] ks d3 t by simp
  moreover have "wf_db d'" using pe by blast
  ultimately have f: "find_subscription d' oid = Some ?s"
    unfolding find_subscription_def
    using scalar_filter_unique [OF wf_unique(15), of d' ?s "\<lambda>x. sub_organization_id x = oid"] ks(3) by simp
  have w1: "wf_db d1" using l assms(2) by simp
  have v: "tenant_view oid' d' = tenant_view oid' d" if "oid' \<noteq> oid" for oid'
    using write_audit_view [OF first(11) that] tenant_view_save_subscription [OF first(10) w1 ks(1,2), of oid'] l that
    by (simp add: first(13) k)
  have c: "whk_event_type w0 = ''subscription.cancelled'' \<longrightarrow> s' = s\<lparr>sub_status := CANCELED\<rparr>"
    "whk_event_type w0 = ''invoice.payment_failed'' \<longrightarrow> s' = s\<lparr>sub_status := PAST_DUE\<rparr>"
    using first(9) by (auto simp: apply_event_def period_change_def)
  have p: "\<exists>calendar. calendar_period (now_or E 3 now) = Inr calendar \<and> follows_event X obj calendar s s'" if "period_change (whk_event_type w0)"
    using first(8,9) that apply_subscription_event_follows [of X obj ps pe s s'] by (simp add: apply_event_def)
  have a: "\<exists>entry. audit_logs d' = audit_logs d1 @ [entry] \<and> aud_organization_id entry = oid \<and> aud_action entry = ''subscription.changed''"
    using d3(2) t(2) write_audit_InrD(3,4) [OF first(11)] by (intro exI [of _ e]) simp
  have m: "w \<in> set (webhook_events d')" "whk_status w = PROCESSED" "whk_processed_at w = Some (now_or E 4 now)"
    using pe by (blast, blast) (simp add: first(12))
  have b: "BillingWebhook (JDict (whk_payload w)) = Inr ev" using first(4) ty by simp
  show ?thesis
    by (rule exI [of _ ev], rule exI [of _ obj], rule exI [of _ oid], rule exI [of _ s], rule exI [of _ d1], rule exI [of _ s'])
      (intro conjI b validate_webhook_object [OF first(5)] first(6,7) f a m; use c p v ty in simp)
qed simp

theorem webhook_process_effect_witness:
  "\<exists>w d' s'. process_webhook_event sample_ext sample_rt (uuid_str 81) None (sample_db\<lparr>webhook_events := [update_event]\<rparr>) = Inr ((w, True), d') \<and>
     w \<in> set (webhook_events d') \<and> find_subscription d' 10 = Some s' \<and> sub_plan s' = PRO \<and> sub_status s' = PAST_DUE \<and>
     sub_current_period_start s' = sample_now\<lparr>day := 10, hour := 0\<rparr> \<and> sub_current_period_end s' = sample_now\<lparr>month := 6, day := 10, hour := 0\<rparr>"
proof -
  obtain w d' where p: "process_webhook_event sample_ext sample_rt (uuid_str 81) None (sample_db\<lparr>webhook_events := [update_event]\<rparr>) = Inr ((w, True), d')"
    "whk_payload w = model_dump update_webhook" "whk_event_type w = ''subscription.updated''"
    using update_event_processed by blast
  have b: "BillingWebhook (JDict (whk_payload w)) = Inr update_webhook" unfolding p(2)
    by (simp add: BillingWebhook_def model_dump_def update_webhook_def str_field_def dict_get_def length_between_def)
  have ob: "dict_get (bw_data update_webhook) ''object'' = Some (JDict update_object)" by (simp add: update_webhook_def dict_get_def)
  have wo: "webhook_organization sample_ext update_object = Inr 10"
    by (simp add: webhook_organization_def update_object_get py_str_def)
  have ty: "period_change (whk_event_type w)" by (simp add: p(3) period_change_def)
  obtain s s' cal where s: "find_subscription d' 10 = Some (touch_subscription sample_rt s s')" "follows_event sample_ext update_object cal s s'"
    "w \<in> set (webhook_events d')"
    using webhook_process_effect [OF p(1) update_event_wf] b ob wo ty by auto
  have f: "sub_plan s' = PRO" "sub_status s' = PAST_DUE" "sub_current_period_start s' = sample_now\<lparr>day := 10, hour := 0\<rparr>"
    "sub_current_period_end s' = sample_now\<lparr>month := 6, day := 10, hour := 0\<rparr>"
    using s(2) by (simp_all add: follows_event_def update_object_get update_object_status update_object_period py_str_def)
  show ?thesis using p(1) s(1,3) f by (intro exI [of _ w] exI [of _ d'] exI [of _ "touch_subscription sample_rt s s'"]) (auto simp: touch_subscription_def)
qed

end
