(* ===== verification/Workers.thy ===== *)
theory Workers
  imports Job_Queue Webhooks
begin

text \<open>
  The background worker: the invitation mail adapter \<^verbatim>\<open>app/services/email.py\<close>, the job handlers
  \<^verbatim>\<open>app/workers/jobs.py\<close> and the worker loop \<^verbatim>\<open>app/workers/worker.py\<close>. The state of a worker is
  the database, Redis and the seconds it has slept. A handler that only logs
  returns what it logs; metrics and log lines are in \<open>Worker_Telemetry\<close>.
\<close>

section \<open>Sending invitations\<close>

definition send_invitation ::
  "ext \<Rightarrow> runtime \<Rightarrow> string \<Rightarrow> uuid \<Rightarrow> uuid \<Rightarrow> string \<Rightarrow> redis \<Rightarrow> (exc + unit) \<times> redis" where
  "send_invitation X E email organization_id invitation_id token r =
     (if token = [] then (Inl (ValueError ''invitation token is required''), r)
      else case enqueue X E default_queue ''send_invitation_email''
          [(''email'', JStr email), (''organization_id'', JStr (uuid_str organization_id)),
           (''invitation_id'', JStr (uuid_str invitation_id))] None r of
        (Inl (RedisError m), r') \<Rightarrow> (Inl (InvitationDeliveryError ''Invitation delivery is unavailable''), r')
      | (Inl e, r') \<Rightarrow> (Inl e, r')
      | (Inr _, r') \<Rightarrow> (Inr (), r'))"

section \<open>Handlers\<close>

definition required :: "dict \<Rightarrow> string \<Rightarrow> exc + json" where
  "required payload key = (case dict_get payload key of
       None \<Rightarrow> Inl (ValueError (''job payload is missing '' @ key))
     | Some v \<Rightarrow> if v = JNull \<or> v = JStr [] then Inl (ValueError (''job payload is missing '' @ key)) else Inr v)"

definition send_invitation_email :: "ext \<Rightarrow> dict \<Rightarrow> exc + string \<times> string \<times> string" where
  "send_invitation_email X payload =
     r_bind (required payload ''email'') (\<lambda>recipient.
     r_bind (required payload ''organization_id'') (\<lambda>organization_id.
     r_bind (required payload ''invitation_id'') (\<lambda>invitation_id.
     Inr (py_str X recipient, py_str X organization_id, py_str X invitation_id))))"

definition process_billing_webhook_job :: "ext \<Rightarrow> runtime \<Rightarrow> dict \<Rightarrow> db \<Rightarrow> (exc + unit) \<times> db" where
  "process_billing_webhook_job X E payload d =
     (case required payload ''webhook_event_id'' of
        Inl e \<Rightarrow> (Inl e, d)
      | Inr v \<Rightarrow>
          let event_id = py_str X v in
          (case process_webhook_event X E event_id None d of
             Inr (_, d1) \<Rightarrow> (Inr (), d1)
           | Inl exc \<Rightarrow>
               (case mark_webhook_failed event_id d of
                  Inl e \<Rightarrow> (Inl e, d)
                | Inr (_, d1) \<Rightarrow> (Inl exc, d1))))"

definition parse_time :: "json option \<Rightarrow> datetime \<Rightarrow> exc + datetime" where
  "parse_time value fallback = (case value of
       None \<Rightarrow> Inr fallback
     | Some JNull \<Rightarrow> Inr fallback
     | Some (JStr s) \<Rightarrow>
         r_bind (require (fromisoformat (py_replace ''Z'' ''+00:00'' s)) (ValueError ''Invalid isoformat string'')) (\<lambda>parsed.
         (case tzinfo parsed of None \<Rightarrow> Inr (replace_tzinfo parsed (Some utc_offset)) | Some off \<Rightarrow> astimezone_utc parsed off))
     | Some _ \<Rightarrow> Inl (ValueError ''period timestamp must be an ISO-8601 string''))"

record usage_rollup =
  ru_organization_id :: string
  ru_metric :: string
  ru_quantity :: int
  ru_period_start :: string
  ru_period_end :: string

definition write_usage_rollup :: "ext \<Rightarrow> runtime \<Rightarrow> dict \<Rightarrow> db \<Rightarrow> exc + usage_rollup" where
  "write_usage_rollup X E payload d =
     r_bind (required payload ''organization_id'') (\<lambda>v.
     r_bind (require (parse_uuid (py_str X v)) (ValueError ''badly formed hexadecimal UUID string'')) (\<lambda>organization_id.
     let metric = (case dict_get payload ''metric'' of None \<Rightarrow> ''api_requests'' | Some m \<Rightarrow> py_str X m) in
     r_bind (parse_time (dict_get payload ''period_end'') (rt_clock E 0)) (\<lambda>period_end.
     r_bind (parse_time (dict_get payload ''period_start'')
       (period_end\<lparr>day := 1, hour := 0, minute := 0, second := 0, microsecond := 0\<rparr>)) (\<lambda>period_start.
     r_bind (raise_if (dt_le period_end period_start) (ValueError ''period_end must be after period_start'')) (\<lambda>_.
     Inr \<lparr>ru_organization_id = uuid_str organization_id, ru_metric = metric,
          ru_quantity = usage_total d organization_id metric period_start period_end,
          ru_period_start = isoformat period_start, ru_period_end = isoformat period_end\<rparr>)))))"

type_synonym handler = "dict \<Rightarrow> db \<Rightarrow> (exc + unit) \<times> db"

definition log_only :: "exc + 'a \<Rightarrow> db \<Rightarrow> (exc + unit) \<times> db" where
  "log_only m d = (case m of Inl e \<Rightarrow> (Inl e, d) | Inr _ \<Rightarrow> (Inr (), d))"

definition build_handlers :: "ext \<Rightarrow> runtime \<Rightarrow> string \<Rightarrow> handler option" where
  "build_handlers X E ty =
     (if ty = ''send_invitation_email'' then Some (\<lambda>payload d. log_only (send_invitation_email X payload) d)
      else if ty = ''process_billing_webhook'' then Some (process_billing_webhook_job X E)
      else if ty = ''write_usage_rollup'' then Some (\<lambda>payload d. log_only (write_usage_rollup X E payload d) d)
      else None)"

section \<open>The worker\<close>

record worker =
  max_attempts :: int
  retry_delays :: "int list"

definition Worker :: "int \<Rightarrow> int list \<Rightarrow> exc + worker" where
  "Worker attempts delays =
     (if attempts < 1 \<or> delays = [] then Inl (ValueError ''worker retry settings must be positive'')
      else Inr \<lparr>max_attempts = attempts, retry_delays = delays\<rparr>)"

definition default_worker :: worker where
  "default_worker = \<lparr>max_attempts = MAX_ATTEMPTS, retry_delays = RETRY_DELAYS\<rparr>"

text \<open>\<open>xs[i]\<close> with Python's negative indices.\<close>

definition py_index :: "'a list \<Rightarrow> int \<Rightarrow> exc + 'a" where
  "py_index xs i =
     (if 0 \<le> i \<and> i < int (length xs) then Inr (xs ! nat i)
      else if i < 0 \<and> - int (length xs) \<le> i then Inr (xs ! nat (int (length xs) + i))
      else Inl (IndexError ''tuple index out of range''))"

record world =
  w_db :: db
  w_redis :: redis
  w_sleeps :: "int list"

definition handle_job :: "(string \<Rightarrow> handler option) \<Rightarrow> job \<Rightarrow> db \<Rightarrow> (exc + unit) \<times> db" where
  "handle_job handlers job d = (case handlers (job_type job) of
       None \<Rightarrow> (Inl (ValueError (''unknown job type: '' @ job_type job)), d)
     | Some h \<Rightarrow> h (job_payload job) d)"

definition run_once ::
  "ext \<Rightarrow> runtime \<Rightarrow> worker \<Rightarrow> job_queue \<Rightarrow> (string \<Rightarrow> handler option) \<Rightarrow> world \<Rightarrow> (exc + bool) \<times> world" where
  "run_once X E W Q handlers w =
     (case dequeue X E Q (w_redis w) of
        (Inl e, r1) \<Rightarrow> (Inl e, w\<lparr>w_redis := r1\<rparr>)
      | (Inr None, r1) \<Rightarrow> (Inr False, w\<lparr>w_redis := r1\<rparr>)
      | (Inr (Some job), r1) \<Rightarrow>
          (case handle_job handlers job (w_db w) of
             (Inr _, d1) \<Rightarrow>
               (case acknowledge X Q job r1 of
                  (Inl e, r2) \<Rightarrow> (Inl e, w\<lparr>w_db := d1, w_redis := r2\<rparr>)
                | (Inr _, r2) \<Rightarrow> (Inr True, w\<lparr>w_db := d1, w_redis := r2\<rparr>))
           | (Inl exc, d1) \<Rightarrow>
               if max_attempts W \<le> job_attempt job then
                 (case move_to_dead_letter X E Q job exc r1 of
                    (Inl e, r2) \<Rightarrow> (Inl e, w\<lparr>w_db := d1, w_redis := r2\<rparr>)
                  | (Inr _, r2) \<Rightarrow> (Inr True, w\<lparr>w_db := d1, w_redis := r2\<rparr>))
               else
                 (case py_index (retry_delays W) (min (job_attempt job) (int (length (retry_delays W)) - 1)) of
                    Inl e \<Rightarrow> (Inl e, w\<lparr>w_db := d1, w_redis := r1\<rparr>)
                  | Inr delay \<Rightarrow>
                      (case retry X Q job r1 of
                         (Inl e, r2) \<Rightarrow> (Inl e, w\<lparr>w_db := d1, w_redis := r2, w_sleeps := w_sleeps w @ [delay]\<rparr>)
                       | (Inr _, r2) \<Rightarrow> (Inr True, w\<lparr>w_db := d1, w_redis := r2, w_sleeps := w_sleeps w @ [delay]\<rparr>)))))"

text \<open>
  The polling loop of \<open>run_forever\<close> for as many polls as there are environments; by itself it never
  ends. The handlers see the environment of their poll.
\<close>

fun poll :: "ext \<Rightarrow> worker \<Rightarrow> job_queue \<Rightarrow> (runtime \<Rightarrow> string \<Rightarrow> handler option) \<Rightarrow> runtime list \<Rightarrow> world \<Rightarrow> world" where
  "poll X W Q handlers [] w = w"
| "poll X W Q handlers (E # Es) w =
     (case run_once X E W Q (handlers E) w of
        (Inr _, w1) \<Rightarrow> poll X W Q handlers Es w1
      | (Inl _, w1) \<Rightarrow> poll X W Q handlers Es (w1\<lparr>w_sleeps := w_sleeps w1 @ [1]\<rparr>))"

text \<open>The second component is the exception that ends the worker, if the recovery raises one.\<close>

definition run_forever ::
  "ext \<Rightarrow> worker \<Rightarrow> job_queue \<Rightarrow> (runtime \<Rightarrow> string \<Rightarrow> handler option) \<Rightarrow> runtime list \<Rightarrow> world \<Rightarrow> world \<times> exc option" where
  "run_forever X W Q handlers Es w =
     (case recover_in_flight Q (w_redis w) of
        (Some (Inl e), r1) \<Rightarrow> (w\<lparr>w_redis := r1\<rparr>, Some e)
      | (_, r1) \<Rightarrow> (poll X W Q handlers Es (w\<lparr>w_redis := r1\<rparr>), None))"

section \<open>Lemmas\<close>

text \<open>One turn of the worker on a stored job, for each outcome of its handler.\<close>

lemma run_once_success:
  assumes "queue_ok X Q (w_redis w)" "distinct_names Q" "pending_jobs X Q (w_redis w) = j # js"
    "handle_job handlers j (w_db w) = (Inr u, d1)"
  obtains r2 where "run_once X E W Q handlers w = (Inr True, w\<lparr>w_db := d1, w_redis := r2\<rparr>)" "queue_ok X Q r2"
    "pending_jobs X Q r2 = js" "taken_jobs X Q r2 = taken_jobs X Q (w_redis w)"
    "r_lists r2 (dead_letter_queue Q) = r_lists (w_redis w) (dead_letter_queue Q)"
proof (rule dequeue_pending [OF assms(1-3)])
  fix r1
  assume r1: "dequeue X E Q (w_redis w) = (Inr (Some j), r1)" "queue_ok X Q r1" "pending_jobs X Q r1 = js"
    "r_lists r1 (processing_queue Q) = to_json X j # r_lists (w_redis w) (processing_queue Q)"
    "\<And>k. k \<noteq> queue_name Q \<Longrightarrow> k \<noteq> processing_queue Q \<Longrightarrow> r_lists r1 k = r_lists (w_redis w) k"
  have up: "r_up r1" using r1(2) by (simp add: queue_ok_def)
  note ack = acknowledge_taken [OF up r1(4)]
  let ?r2 = "lrem1 (processing_queue Q) (to_json X j) r1"
  have ne: "queue_name Q \<noteq> processing_queue Q" "dead_letter_queue Q \<noteq> processing_queue Q" "dead_letter_queue Q \<noteq> queue_name Q"
    using assms(2) by (auto simp: distinct_names_def)
  have "run_once X E W Q handlers w = (Inr True, w\<lparr>w_db := d1, w_redis := ?r2\<rparr>)"
    using r1(1) assms(4) ack(1) by (simp add: run_once_def)
  moreover have "queue_ok X Q ?r2" using r1(2) ack(2) ne assms(1) by (simp add: queue_ok_def)
  moreover have "pending_jobs X Q ?r2 = js" using r1(3) ne by (simp add: pending_jobs_def)
  moreover have "taken_jobs X Q ?r2 = taken_jobs X Q (w_redis w)" using ack(2) by (simp add: taken_jobs_def)
  moreover have "r_lists ?r2 (dead_letter_queue Q) = r_lists (w_redis w) (dead_letter_queue Q)" using r1(5) ne by simp
  ultimately show thesis by (rule that)
qed

lemma run_once_retry:
  assumes "queue_ok X Q (w_redis w)" "distinct_names Q" "pending_jobs X Q (w_redis w) = j # js"
    "handle_job handlers j (w_db w) = (Inl e, d1)" "job_attempt j < max_attempts W" "job_clean (next_attempt j)"
    "py_index (retry_delays W) (min (job_attempt j) (int (length (retry_delays W)) - 1)) = Inr delay"
  obtains r2 where "run_once X E W Q handlers w = (Inr True, w\<lparr>w_db := d1, w_redis := r2, w_sleeps := w_sleeps w @ [delay]\<rparr>)"
    "queue_ok X Q r2" "pending_jobs X Q r2 = js @ [next_attempt j]" "taken_jobs X Q r2 = taken_jobs X Q (w_redis w)"
    "r_lists r2 (dead_letter_queue Q) = r_lists (w_redis w) (dead_letter_queue Q)"
proof (rule dequeue_pending [OF assms(1-3)])
  fix r1
  assume r1: "dequeue X E Q (w_redis w) = (Inr (Some j), r1)" "queue_ok X Q r1" "pending_jobs X Q r1 = js"
    "r_lists r1 (processing_queue Q) = to_json X j # r_lists (w_redis w) (processing_queue Q)"
    "\<And>k. k \<noteq> queue_name Q \<Longrightarrow> k \<noteq> processing_queue Q \<Longrightarrow> r_lists r1 k = r_lists (w_redis w) k"
  have up: "r_up r1" using r1(2) by (simp add: queue_ok_def)
  let ?r = "lrem1 (processing_queue Q) (to_json X j) r1"
  let ?r2 = "lpush (queue_name Q) (to_json X (next_attempt j)) ?r"
  have ne: "queue_name Q \<noteq> processing_queue Q" "dead_letter_queue Q \<noteq> processing_queue Q" "dead_letter_queue Q \<noteq> queue_name Q"
    using assms(2) by (auto simp: distinct_names_def)
  have ok: "queue_ok X Q ?r" using r1(2,4) ne assms(1) by (simp add: queue_ok_def)
  note p = enqueue_pending [OF ok assms(6,2)]
  have "run_once X E W Q handlers w = (Inr True, w\<lparr>w_db := d1, w_redis := ?r2, w_sleeps := w_sleeps w @ [delay]\<rparr>)"
    using r1(1) assms(4,5,7) up by (simp add: run_once_def retry_def Let_def)
  moreover have "pending_jobs X Q ?r = js" using r1(3) ne by (simp add: pending_jobs_def)
  moreover have "taken_jobs X Q ?r = taken_jobs X Q (w_redis w)" using r1(4) by (simp add: taken_jobs_def)
  moreover have "r_lists ?r2 (dead_letter_queue Q) = r_lists (w_redis w) (dead_letter_queue Q)" using r1(5) ne by simp
  ultimately show thesis using that [of ?r2] p by simp
qed

lemma run_once_dead:
  assumes "queue_ok X Q (w_redis w)" "distinct_names Q" "pending_jobs X Q (w_redis w) = j # js"
    "handle_job handlers j (w_db w) = (Inl e, d1)" "max_attempts W \<le> job_attempt j"
  obtains r2 where "run_once X E W Q handlers w = (Inr True, w\<lparr>w_db := d1, w_redis := r2\<rparr>)"
    "queue_ok X Q r2" "pending_jobs X Q r2 = js" "taken_jobs X Q r2 = taken_jobs X Q (w_redis w)"
    "r_lists r2 (dead_letter_queue Q) = dumps X (dead_letter X E j e) # r_lists (w_redis w) (dead_letter_queue Q)"
proof (rule dequeue_pending [OF assms(1-3)])
  fix r1
  assume r1: "dequeue X E Q (w_redis w) = (Inr (Some j), r1)" "queue_ok X Q r1" "pending_jobs X Q r1 = js"
    "r_lists r1 (processing_queue Q) = to_json X j # r_lists (w_redis w) (processing_queue Q)"
    "\<And>k. k \<noteq> queue_name Q \<Longrightarrow> k \<noteq> processing_queue Q \<Longrightarrow> r_lists r1 k = r_lists (w_redis w) k"
  have up: "r_up r1" using r1(2) by (simp add: queue_ok_def)
  let ?r2 = "lpush (dead_letter_queue Q) (dumps X (dead_letter X E j e)) (lrem1 (processing_queue Q) (to_json X j) r1)"
  have ne: "queue_name Q \<noteq> processing_queue Q" "dead_letter_queue Q \<noteq> processing_queue Q" "dead_letter_queue Q \<noteq> queue_name Q"
    using assms(2) by (auto simp: distinct_names_def)
  have "run_once X E W Q handlers w = (Inr True, w\<lparr>w_db := d1, w_redis := ?r2\<rparr>)"
    using r1(1) assms(4,5) up by (simp add: run_once_def move_to_dead_letter_def)
  moreover have "queue_ok X Q ?r2" using r1(2,4) ne ne [symmetric] assms(1) by (simp add: queue_ok_def)
  moreover have "pending_jobs X Q ?r2 = js" using r1(3) ne ne [symmetric] by (simp add: pending_jobs_def)
  moreover have "taken_jobs X Q ?r2 = taken_jobs X Q (w_redis w)" using r1(4) ne ne [symmetric] by (simp add: taken_jobs_def)
  moreover have "r_lists ?r2 (dead_letter_queue Q) = dumps X (dead_letter X E j e) # r_lists (w_redis w) (dead_letter_queue Q)"
    using r1(5) ne by simp
  ultimately show thesis by (rule that)
qed

section \<open>Properties\<close>

text \<open>One turn on a job whose handler fails and that has attempts left.\<close>

lemma failing_turn:
  assumes "queue_ok X Q (w_redis w)" "distinct_names Q" "pending_jobs X Q (w_redis w) = [j\<lparr>job_attempt := n\<rparr>]" "job_clean j"
    "handle_job handlers (j\<lparr>job_attempt := n\<rparr>) (w_db w) = (Inl e, w_db w)" "0 \<le> n" "n < 3"
  obtains r where "run_once X E default_worker Q handlers w = (Inr True, w\<lparr>w_redis := r, w_sleeps := w_sleeps w @ [RETRY_DELAYS ! nat n]\<rparr>)"
    "queue_ok X Q r" "pending_jobs X Q r = [j\<lparr>job_attempt := n + 1\<rparr>]" "taken_jobs X Q r = taken_jobs X Q (w_redis w)"
    "r_lists r (dead_letter_queue Q) = r_lists (w_redis w) (dead_letter_queue Q)"
proof (rule run_once_retry [where E = E, OF assms(1-3,5)])
  show "job_attempt (j\<lparr>job_attempt := n\<rparr>) < max_attempts default_worker" using assms(7) by (simp add: default_worker_def MAX_ATTEMPTS_def)
  show "job_clean (next_attempt (j\<lparr>job_attempt := n\<rparr>))"
    using assms(4,6,7) small_int [of "n + 1"] by (simp add: job_clean_def next_attempt_def)
  show "py_index (retry_delays default_worker) (min (job_attempt (j\<lparr>job_attempt := n\<rparr>)) (int (length (retry_delays default_worker)) - 1)) =
      Inr (RETRY_DELAYS ! nat n)"
    using assms(6,7) by (simp add: default_worker_def RETRY_DELAYS_def py_index_def)
qed (simp add: next_attempt_def that)

text \<open>
  C29. A job whose handler keeps failing is run four times: the worker waits one, two and four
  seconds, then moves the job, with its credentials redacted, to the dead letter list; nothing of it
  stays in the queue or in flight, and the database is as it was.
\<close>

theorem failing_job_dead_lettered:
  assumes "queue_ok X Q (w_redis w)" "distinct_names Q" "pending_jobs X Q (w_redis w) = [j]" "job_clean j" "job_attempt j = 0"
    "\<And>E n d. handle_job (handlers E) (j\<lparr>job_attempt := n\<rparr>) d = (Inl e, d)"
  shows "\<exists>r. poll X default_worker Q handlers [E1, E2, E3, E4] w = w\<lparr>w_redis := r, w_sleeps := w_sleeps w @ [1, 2, 4]\<rparr> \<and>
    pending_jobs X Q r = [] \<and> taken_jobs X Q r = taken_jobs X Q (w_redis w) \<and>
    r_lists r (dead_letter_queue Q) =
      dumps X (dead_letter X E4 (j\<lparr>job_attempt := 3\<rparr>) e) # r_lists (w_redis w) (dead_letter_queue Q)"
proof -
  have m: "max_attempts default_worker = 3" by (simp add: default_worker_def MAX_ATTEMPTS_def)
  have j0: "pending_jobs X Q (w_redis w) = [j\<lparr>job_attempt := 0\<rparr>]" using assms(3,5) by simp
  obtain r1 where 1: "run_once X E1 default_worker Q (handlers E1) w = (Inr True, w\<lparr>w_redis := r1, w_sleeps := w_sleeps w @ [RETRY_DELAYS ! nat 0]\<rparr>)"
    "queue_ok X Q r1" "pending_jobs X Q r1 = [j\<lparr>job_attempt := 0 + 1\<rparr>]" "taken_jobs X Q r1 = taken_jobs X Q (w_redis w)"
    "r_lists r1 (dead_letter_queue Q) = r_lists (w_redis w) (dead_letter_queue Q)"
    by (rule failing_turn [where E = E1 and handlers = "handlers E1", OF assms(1,2) j0 assms(4,6)]) simp_all
  let ?w1 = "w\<lparr>w_redis := r1, w_sleeps := w_sleeps w @ [RETRY_DELAYS ! nat 0]\<rparr>"
  obtain r2 where 2: "run_once X E2 default_worker Q (handlers E2) ?w1 = (Inr True, ?w1\<lparr>w_redis := r2, w_sleeps := w_sleeps ?w1 @ [RETRY_DELAYS ! nat 1]\<rparr>)"
    "queue_ok X Q r2" "pending_jobs X Q r2 = [j\<lparr>job_attempt := 1 + 1\<rparr>]" "taken_jobs X Q r2 = taken_jobs X Q (w_redis ?w1)"
    "r_lists r2 (dead_letter_queue Q) = r_lists (w_redis ?w1) (dead_letter_queue Q)"
    by (rule failing_turn [where X = X and E = E2 and handlers = "handlers E2" and w = ?w1 and n = 1, OF _ assms(2) _ assms(4,6)]) (simp_all add: 1)
  let ?w2 = "?w1\<lparr>w_redis := r2, w_sleeps := w_sleeps ?w1 @ [RETRY_DELAYS ! nat 1]\<rparr>"
  obtain r3 where 3: "run_once X E3 default_worker Q (handlers E3) ?w2 = (Inr True, ?w2\<lparr>w_redis := r3, w_sleeps := w_sleeps ?w2 @ [RETRY_DELAYS ! nat 2]\<rparr>)"
    "queue_ok X Q r3" "pending_jobs X Q r3 = [j\<lparr>job_attempt := 2 + 1\<rparr>]" "taken_jobs X Q r3 = taken_jobs X Q (w_redis ?w2)"
    "r_lists r3 (dead_letter_queue Q) = r_lists (w_redis ?w2) (dead_letter_queue Q)"
    by (rule failing_turn [where X = X and E = E3 and handlers = "handlers E3" and w = ?w2 and n = 2, OF _ assms(2) _ assms(4,6)]) (simp_all add: 2)
  let ?w3 = "?w2\<lparr>w_redis := r3, w_sleeps := w_sleeps ?w2 @ [RETRY_DELAYS ! nat 2]\<rparr>"
  obtain r4 where 4: "run_once X E4 default_worker Q (handlers E4) ?w3 = (Inr True, ?w3\<lparr>w_db := w_db ?w3, w_redis := r4\<rparr>)"
    "pending_jobs X Q r4 = []" "taken_jobs X Q r4 = taken_jobs X Q (w_redis ?w3)"
    "r_lists r4 (dead_letter_queue Q) = dumps X (dead_letter X E4 (j\<lparr>job_attempt := 3\<rparr>) e) # r_lists (w_redis ?w3) (dead_letter_queue Q)"
    by (rule run_once_dead [where W = default_worker and X = X and E = E4 and handlers = "handlers E4" and w = ?w3 and j = "j\<lparr>job_attempt := 3\<rparr>" and js = "[]", OF _ assms(2) _ assms(6)]) (simp_all add: 3 m)
  have "poll X default_worker Q handlers [E1, E2, E3, E4] w = ?w3\<lparr>w_db := w_db ?w3, w_redis := r4\<rparr>" using 1(1) 2(1) 3(1) 4(1) by simp
  then show ?thesis using 1 2 3 4 by (intro exI [of _ r4]) (simp add: RETRY_DELAYS_def)
qed

text \<open>An installation whose queue holds one job of an unknown type.\<close>

definition sample_world :: world where
  "sample_world = \<lparr>w_db = sample_db, w_redis = lpush (queue_name default_queue) (to_json plain_ext (sample_job\<lparr>job_type := ''mystery''\<rparr>)) empty_redis,
     w_sleeps = []\<rparr>"

theorem failing_job_dead_lettered_witness:
  "\<exists>r. poll plain_ext default_worker default_queue (build_handlers plain_ext) [sample_rt, sample_rt, sample_rt, sample_rt] sample_world =
     sample_world\<lparr>w_redis := r, w_sleeps := [1, 2, 4]\<rparr> \<and> length (r_lists r (dead_letter_queue default_queue)) = 1"
proof -
  let ?j = "sample_job\<lparr>job_type := ''mystery''\<rparr>"
  have c: "job_clean ?j" using sample_job_clean by (simp add: job_clean_def)
  have q: "queue_ok plain_ext default_queue empty_redis" "pending_jobs plain_ext default_queue empty_redis = []"
    by (simp_all add: queue_ok_def empty_redis_def pending_jobs_def)
  note e = enqueue_pending [OF q(1) c default_queue_names]
  have w: "w_redis sample_world = lpush (queue_name default_queue) (to_json plain_ext ?j) empty_redis" "w_sleeps sample_world = []"
    by (simp_all add: sample_world_def)
  have h: "handle_job (build_handlers plain_ext E) (?j\<lparr>job_attempt := n\<rparr>) d = (Inl (ValueError ''unknown job type: mystery''), d)" for E n d
    by (simp add: handle_job_def build_handlers_def)
  have d: "r_lists (lpush (queue_name default_queue) (to_json plain_ext ?j) empty_redis) (dead_letter_queue default_queue) = []"
    by (simp add: empty_redis_def default_queue_def RedisJobQueue_def)
  from failing_job_dead_lettered [of plain_ext default_queue sample_world ?j "build_handlers plain_ext", OF _ default_queue_names _ c _ h,
      of sample_rt sample_rt sample_rt sample_rt]
  show ?thesis using e q(2) d by (auto simp: w sample_job_def)
qed

section \<open>Rollups\<close>

text \<open>The time stamps of jobs and webhooks: with an offset, with \<open>Z\<close> and without either.\<close>

lemma parse_time_isoformat:
  assumes "valid_dt t" "readable_zone (tzinfo t)"
  shows "parse_time (Some (JStr (isoformat t))) fallback =
    (case tzinfo t of None \<Rightarrow> Inr (replace_tzinfo t (Some utc_offset)) | Some off \<Rightarrow> astimezone_utc t off)"
  using isoformat_no_Z [of t] by (simp add: parse_time_def py_replace_absent fromisoformat_isoformat [OF assms] require_def)

lemma parse_time_utc [simp]: "valid_dt t \<Longrightarrow> is_utc t \<Longrightarrow> parse_time (Some (JStr (isoformat t))) fallback = Inr t"
  by (simp add: parse_time_isoformat readable_zone_def utc_offset_def astimezone_utc_def)

lemma parse_time_Z:
  assumes "valid_dt t" "tzinfo t = None"
  shows "parse_time (Some (JStr (isoformat t @ ''Z''))) fallback = Inr (t\<lparr>tzinfo := Some utc_offset\<rparr>)"
proof -
  let ?u = "t\<lparr>tzinfo := Some utc_offset\<rparr>"
  have u: "valid_dt ?u" "is_utc ?u" "t\<lparr>tzinfo := None\<rparr> = t" using assms by (simp_all add: valid_dt_def)
  have "py_replace ''Z'' ''+00:00'' (isoformat t @ ''Z'') = py_replace ''Z'' ''+00:00'' (isoformat ?u)"
    using isoformat_no_Z [of t] isoformat_no_Z [of ?u] isoformat_utc [of t] u(3)
    by (simp add: py_replace_last py_replace_absent)
  then show ?thesis using parse_time_utc [OF u(1,2), of fallback] by (simp add: parse_time_def)
qed

lemma parse_time_valid:
  assumes "parse_time v fallback = Inr t" "valid_dt fallback" "is_utc fallback"
  shows "valid_dt t \<and> is_utc t"
proof -
  have of_zone: "valid_dt t \<and> is_utc t" if "astimezone_utc p off = Inr t" "valid_dt p" "tzinfo p = Some off" for p off
    using that of_wall_micros_valid [of "wall_micros p - off" "Some utc_offset" t] by (auto simp: astimezone_utc_def split: if_splits)
  show ?thesis
    using assms of_zone
    by (auto simp: parse_time_def require_def replace_tzinfo_def valid_dt_def r_bind_eq_Inr dest!: fromisoformat_valid
        split: option.splits json.splits)
qed

text \<open>A job that asks for the rollup of the organization, metric and period of a result.\<close>

definition rollup_payload :: "usage_rollup \<Rightarrow> dict" where
  "rollup_payload r =
     [(''organization_id'', JStr (ru_organization_id r)), (''metric'', JStr (ru_metric r)),
      (''period_start'', JStr (ru_period_start r)), (''period_end'', JStr (ru_period_end r))]"

lemma uuid_str_nonempty: "uuid_str u \<noteq> []"
  by (simp add: uuid_str_def Let_def)

lemma parse_datetime_str: "parse_datetime (Some (JStr s)) fallback = parse_time (Some (JStr s)) fallback"
  by (simp add: parse_datetime_def parse_time_def)

text \<open>
  C33. A rollup names its organization, metric and period, however the job asked for them: the period in
  the result is a proper one in UTC, the quantity is the total of that metric within it, and a job
  with exactly these values, at any time and with any clock, gives the same rollup on the same data.
\<close>

theorem rollup_reproducible:
  assumes "write_usage_rollup X E payload d = Inr r" "utc_clock E"
  shows "(\<exists>org start until. parse_uuid (ru_organization_id r) = Some org \<and>
      parse_time (Some (JStr (ru_period_start r))) fallback = Inr start \<and>
      parse_datetime (Some (JStr (ru_period_end r))) fallback = Inr until \<and>
      is_utc start \<and> is_utc until \<and> instant start < instant until \<and>
      ru_quantity r = usage_total d org (ru_metric r) start until) \<and>
    write_usage_rollup X E' (rollup_payload r) d = Inr r"
proof -
  have c: "valid_dt (rt_clock E 0)" "is_utc (rt_clock E 0)" using assms(2) by (auto simp: utc_clock_def)
  obtain org metric start until where
    ends: "parse_time (dict_get payload ''period_end'') (rt_clock E 0) = Inr until" and
    begins: "parse_time (dict_get payload ''period_start'') (until\<lparr>day := 1, hour := 0, minute := 0, second := 0, microsecond := 0\<rparr>) = Inr start" and
    less: "\<not> dt_le until start" and
    r: "r = \<lparr>ru_organization_id = uuid_str org, ru_metric = metric, ru_quantity = usage_total d org metric start until,
      ru_period_start = isoformat start, ru_period_end = isoformat until\<rparr>"
    using assms(1) by (auto simp: write_usage_rollup_def Let_def raise_if_def split: if_splits)
  have u: "valid_dt until" "is_utc until" using parse_time_valid [OF ends c] by auto
  have "valid_dt (until\<lparr>day := 1, hour := 0, minute := 0, second := 0, microsecond := 0\<rparr>)"
    using u(1) days_in_month_bounds [of "year until" "month until"] by (auto simp: valid_dt_def valid_ymd_def)
  with parse_time_valid [OF begins] u have f: "valid_dt start" "is_utc start" by auto
  have "write_usage_rollup X E' (rollup_payload r) d = Inr r"
    using less by (simp add: write_usage_rollup_def rollup_payload_def required_def dict_get_def uuid_str_nonempty r py_str_def
        require_def raise_if_def u f Let_def)
  then show ?thesis
    using less u f by (auto simp: r parse_datetime_str dt_le_def)
qed

theorem rollup_reproducible_witness:
  "\<exists>r. write_usage_rollup sample_ext sample_rt [(''organization_id'', JStr (uuid_str 10)), (''period_end'', JStr ''2026-07-01T02:30:00.5+02:00'')] sample_db = Inr r \<and>
     write_usage_rollup sample_ext sample_rt (rollup_payload r) sample_db = Inr r"
proof -
  let ?r = "write_usage_rollup sample_ext sample_rt
      [(''organization_id'', JStr (uuid_str 10)), (''period_end'', JStr ''2026-07-01T02:30:00.5+02:00'')] sample_db"
  let ?t = "\<lparr>year = 2026, month = 7, day = 1, hour = 0, minute = 30, second = 0, microsecond = 500000, tzinfo = Some 0\<rparr>"
  have f: "fromisoformat ''2026-07-01T02:30:00.5+02:00'' = Some (?t\<lparr>hour := 2, tzinfo := Some 7200000000\<rparr>)" by code_simp
  have a: "astimezone_utc (?t\<lparr>hour := 2, tzinfo := Some 7200000000\<rparr>) 7200000000 = Inr ?t" by code_simp
  have "parse_time (Some (JStr ''2026-07-01T02:30:00.5+02:00'')) (rt_clock sample_rt 0) = Inr ?t"
    using f a by (simp add: parse_time_def require_def py_replace_absent)
  moreover have "\<not> dt_le ?t (?t\<lparr>day := 1, hour := 0, minute := 0, second := 0, microsecond := 0\<rparr>)" by code_simp
  ultimately have "\<exists>r. ?r = Inr r"
    by (simp add: write_usage_rollup_def required_def dict_get_def uuid_str_nonempty py_str_def require_def raise_if_def parse_time_def [of None] Let_def)
  then obtain r where r: "?r = Inr r" by blast
  show ?thesis
    using r rollup_reproducible [OF r sample_clock, of "rt_clock sample_rt 0" sample_rt] by blast
qed

end
