(* ===== verification/Routes.thy ===== *)
theory Routes
  imports Deps Projects Invitations Workers
begin

text \<open>
  The HTTP routes under \<^verbatim>\<open>app/api/routes\<close>: one definition per endpoint, composed of its dependencies
  in the order FastAPI resolves them, the validation of its body, the service it calls and the
  commits it makes; \<open>handle\<close> dispatches a request. FastAPI resolves dependencies before it validates
  the body, and calls a dependency once per request. A request carries its parts as parsed by the
  framework; clock readings are taken in the order the endpoint takes them.
\<close>

datatype response =
    UserRead user
  | TokenPair issued_tokens
  | NoContent
  | OrganizationRead organization
  | OrganizationList "organization list"
  | MemberList "(membership \<times> string) list"
  | MembershipRead membership
  | InvitationCreated invitation string
  | ApiKeyCreated api_key string
  | ApiKeyList "api_key list"
  | ProjectRead project
  | ProjectList "project list"
  | UsageSummary usage_snapshot
  | UsageEventRead usage_event
  | SubscriptionRead subscription
  | WebhookReceipt uuid webhook_status bool
  | AuditLogList "audit_log list"
  | Live
  | Health bool bool

section \<open>Authentication\<close>

definition register_route :: "ext \<Rightarrow> runtime \<Rightarrow> string \<Rightarrow> string \<Rightarrow> response action" where
  "register_route X E email password = session (
     a_bind (body (RegisterRequest email password)) (\<lambda>payload.
     a_bind (service (register_user X E (reg_email payload) (reg_password payload))) (\<lambda>user.
     ret (UserRead user))))"

definition login_route :: "ext \<Rightarrow> settings \<Rightarrow> runtime \<Rightarrow> string \<Rightarrow> string \<Rightarrow> string \<Rightarrow> response action" where
  "login_route X S E dummy_hash email password = session (
     a_bind (body (LoginRequest email password)) (\<lambda>payload.
     a_bind (query (authenticate_user X dummy_hash (reg_email payload) (reg_password payload))) (\<lambda>user.
     a_bind (service (issue_tokens X S E user)) (\<lambda>tokens.
     ret (TokenPair tokens)))))"

definition refresh_route :: "ext \<Rightarrow> settings \<Rightarrow> runtime \<Rightarrow> string \<Rightarrow> response action" where
  "refresh_route X S E token = session (
     a_bind (body (RefreshRequest token)) (\<lambda>refresh_token.
     a_bind (service (rotate_refresh_token X S E refresh_token)) (\<lambda>tokens.
     ret (TokenPair tokens))))"

definition logout_route :: "ext \<Rightarrow> runtime \<Rightarrow> string \<Rightarrow> response action" where
  "logout_route X E token = session (
     a_bind (body (RefreshRequest token)) (\<lambda>refresh_token.
     a_bind (service (revoke_refresh_token X E refresh_token)) (\<lambda>_.
     ret NoContent)))"

definition me_route :: "ext \<Rightarrow> settings \<Rightarrow> runtime \<Rightarrow> credentials \<Rightarrow> response action" where
  "me_route X S E c = session (a_bind (get_current_user X S E c) (\<lambda>user. ret (UserRead user)))"

section \<open>Organizations and members\<close>

abbreviation everyone :: "role list" where
  "everyone \<equiv> [OWNER, ADMIN, MEMBER]"

definition create_organization_route :: "ext \<Rightarrow> settings \<Rightarrow> runtime \<Rightarrow> credentials \<Rightarrow> string \<Rightarrow> string \<Rightarrow> response action" where
  "create_organization_route X S E c name slug = session (
     a_bind (get_current_user X S E c) (\<lambda>user.
     a_bind (body (OrganizationCreate name slug)) (\<lambda>payload.
     a_bind (service (create_organization (later_clock 2 E) (usr_id user) payload)) (\<lambda>organization.
     ret (OrganizationRead organization)))))"

definition list_organizations_route :: "ext \<Rightarrow> settings \<Rightarrow> runtime \<Rightarrow> credentials \<Rightarrow> response action" where
  "list_organizations_route X S E c = session (
     a_bind (get_current_user X S E c) (\<lambda>user.
     a_bind (query (\<lambda>d. Inr (list_organizations (usr_id user) d))) (\<lambda>organizations.
     ret (OrganizationList organizations))))"

definition get_organization_route :: "ext \<Rightarrow> settings \<Rightarrow> runtime \<Rightarrow> credentials \<Rightarrow> uuid \<Rightarrow> response action" where
  "get_organization_route X S E c organization_id = session (
     a_bind (current_member X S E c organization_id everyone) (\<lambda>(user, _).
     a_bind (query (get_organization organization_id (usr_id user))) (\<lambda>organization.
     ret (OrganizationRead organization))))"

definition update_organization_route ::
  "ext \<Rightarrow> settings \<Rightarrow> runtime \<Rightarrow> credentials \<Rightarrow> uuid \<Rightarrow> string option option \<Rightarrow> string option option \<Rightarrow> response action" where
  "update_organization_route X S E c organization_id name slug = session (
     a_bind (current_member X S E c organization_id [OWNER, ADMIN]) (\<lambda>(user, _).
     a_bind (body (OrganizationUpdate name slug)) (\<lambda>payload.
     a_bind (service (update_organization E organization_id (usr_id user) payload)) (\<lambda>organization.
     ret (OrganizationRead organization)))))"

definition delete_organization_route :: "ext \<Rightarrow> settings \<Rightarrow> runtime \<Rightarrow> credentials \<Rightarrow> uuid \<Rightarrow> response action" where
  "delete_organization_route X S E c organization_id = session (
     a_bind (current_member X S E c organization_id [OWNER]) (\<lambda>(user, _).
     a_bind (service (delete_organization E organization_id (usr_id user))) (\<lambda>_.
     ret NoContent)))"

definition list_members_route :: "ext \<Rightarrow> settings \<Rightarrow> runtime \<Rightarrow> credentials \<Rightarrow> uuid \<Rightarrow> response action" where
  "list_members_route X S E c organization_id = session (
     a_bind (current_member X S E c organization_id everyone) (\<lambda>_.
     a_bind (query (\<lambda>d. Inr (list_members organization_id d))) (\<lambda>members.
     ret (MemberList members))))"

definition update_member_route ::
  "ext \<Rightarrow> settings \<Rightarrow> runtime \<Rightarrow> credentials \<Rightarrow> uuid \<Rightarrow> uuid \<Rightarrow> role \<Rightarrow> response action" where
  "update_member_route X S E c organization_id membership_id new_role = session (
     a_bind (current_member X S E c organization_id [OWNER, ADMIN]) (\<lambda>(user, _).
     a_bind (service (update_membership E organization_id membership_id (usr_id user) new_role)) (\<lambda>membership.
     ret (MembershipRead membership))))"

definition delete_member_route :: "ext \<Rightarrow> settings \<Rightarrow> runtime \<Rightarrow> credentials \<Rightarrow> uuid \<Rightarrow> uuid \<Rightarrow> response action" where
  "delete_member_route X S E c organization_id membership_id = session (
     a_bind (current_member X S E c organization_id [OWNER, ADMIN]) (\<lambda>(user, _).
     a_bind (service (remove_membership E organization_id membership_id (usr_id user))) (\<lambda>_.
     ret NoContent)))"

section \<open>Invitations\<close>

text \<open>The invitation is committed before it is handed to delivery, whose failure is only logged.\<close>

definition deliver :: "(redis \<Rightarrow> (exc + unit) \<times> redis) \<Rightarrow> unit action" where
  "deliver send = on_redis (\<lambda>r. case send r of (Inl (InvitationDeliveryError _), r') \<Rightarrow> (Inr (), r') | x \<Rightarrow> x)"

definition create_invitation_route ::
  "ext \<Rightarrow> settings \<Rightarrow> runtime \<Rightarrow> credentials \<Rightarrow> uuid \<Rightarrow> string \<Rightarrow> role option \<Rightarrow> response action" where
  "create_invitation_route X S E c organization_id email role =
     a_bind (session (
       a_bind (current_member X S E c organization_id [OWNER, ADMIN]) (\<lambda>(user, _).
       a_bind (body (InvitationCreate email role)) (\<lambda>payload.
       service (create_invitation X S (later_clock 2 E) organization_id (usr_id user) payload))))) (\<lambda>(invitation, raw_token).
     session (
       a_bind (deliver (send_invitation X (later_uuid 2 (later_clock 3 E)) (inv_email invitation)
         (inv_organization_id invitation) (inv_id invitation) raw_token)) (\<lambda>_.
       ret (InvitationCreated invitation raw_token))))"

definition accept_invitation_route :: "ext \<Rightarrow> settings \<Rightarrow> runtime \<Rightarrow> credentials \<Rightarrow> string \<Rightarrow> response action" where
  "accept_invitation_route X S E c token = session (
     a_bind (get_current_user X S E c) (\<lambda>user.
     a_bind (service (accept_invitation X (later_clock 2 E) token user)) (\<lambda>membership.
     ret (MembershipRead membership))))"

section \<open>API keys\<close>

definition create_api_key_route :: "ext \<Rightarrow> settings \<Rightarrow> runtime \<Rightarrow> credentials \<Rightarrow> uuid \<Rightarrow> string \<Rightarrow> response action" where
  "create_api_key_route X S E c organization_id name = session (
     a_bind (current_member X S E c organization_id [OWNER]) (\<lambda>(user, _).
     a_bind (body (ApiKeyCreate name)) (\<lambda>name'.
     a_bind (service (create_api_key X E organization_id (usr_id user) name')) (\<lambda>(api_key, raw_key).
     ret (ApiKeyCreated api_key raw_key)))))"

definition list_api_keys_route :: "ext \<Rightarrow> settings \<Rightarrow> runtime \<Rightarrow> credentials \<Rightarrow> uuid \<Rightarrow> response action" where
  "list_api_keys_route X S E c organization_id = session (
     a_bind (current_member X S E c organization_id [OWNER]) (\<lambda>(user, _).
     a_bind (query (\<lambda>d. Inr (list_api_keys organization_id (usr_id user) d))) (\<lambda>api_keys.
     ret (ApiKeyList api_keys))))"

definition delete_api_key_route :: "ext \<Rightarrow> settings \<Rightarrow> runtime \<Rightarrow> credentials \<Rightarrow> uuid \<Rightarrow> uuid \<Rightarrow> response action" where
  "delete_api_key_route X S E c organization_id key_id' = session (
     a_bind (current_member X S E c organization_id [OWNER]) (\<lambda>(user, _).
     a_bind (service (revoke_api_key (later_clock 2 E) organization_id key_id' (usr_id user))) (\<lambda>_.
     ret NoContent)))"

section \<open>Projects\<close>

definition create_project_route ::
  "ext \<Rightarrow> settings \<Rightarrow> runtime \<Rightarrow> credentials \<Rightarrow> uuid \<Rightarrow> string \<Rightarrow> string option \<Rightarrow> response action" where
  "create_project_route X S E c organization_id name description = session (
     a_bind (current_member X S E c organization_id everyone) (\<lambda>(user, _).
     a_bind (body (ProjectCreate name description)) (\<lambda>payload.
     a_bind (service (create_project E organization_id (usr_id user) payload)) (\<lambda>project.
     ret (ProjectRead project)))))"

definition list_projects_route :: "ext \<Rightarrow> settings \<Rightarrow> runtime \<Rightarrow> credentials \<Rightarrow> uuid \<Rightarrow> response action" where
  "list_projects_route X S E c organization_id = session (
     a_bind (current_member X S E c organization_id everyone) (\<lambda>(user, _).
     a_bind (query (\<lambda>d. Inr (list_projects organization_id (usr_id user) d))) (\<lambda>projects.
     ret (ProjectList projects))))"

definition get_project_route :: "ext \<Rightarrow> settings \<Rightarrow> runtime \<Rightarrow> credentials \<Rightarrow> uuid \<Rightarrow> uuid \<Rightarrow> response action" where
  "get_project_route X S E c organization_id project_id = session (
     a_bind (current_member X S E c organization_id everyone) (\<lambda>(user, _).
     a_bind (query (get_project organization_id project_id (usr_id user))) (\<lambda>project.
     ret (ProjectRead project))))"

definition update_project_route ::
  "ext \<Rightarrow> settings \<Rightarrow> runtime \<Rightarrow> credentials \<Rightarrow> uuid \<Rightarrow> uuid \<Rightarrow> string option option \<Rightarrow> string option option \<Rightarrow>
     project_status option option \<Rightarrow> response action" where
  "update_project_route X S E c organization_id project_id name description status = session (
     a_bind (current_member X S E c organization_id everyone) (\<lambda>(user, _).
     a_bind (body (ProjectUpdate name description status)) (\<lambda>payload.
     a_bind (service (update_project E organization_id project_id (usr_id user) payload)) (\<lambda>project.
     ret (ProjectRead project)))))"

definition delete_project_route :: "ext \<Rightarrow> settings \<Rightarrow> runtime \<Rightarrow> credentials \<Rightarrow> uuid \<Rightarrow> uuid \<Rightarrow> response action" where
  "delete_project_route X S E c organization_id project_id = session (
     a_bind (current_member X S E c organization_id everyone) (\<lambda>(user, _).
     a_bind (service (delete_project E organization_id project_id (usr_id user))) (\<lambda>_.
     ret NoContent)))"

section \<open>Usage, billing, audit, health\<close>

definition read_usage_route :: "ext \<Rightarrow> settings \<Rightarrow> runtime \<Rightarrow> credentials \<Rightarrow> uuid \<Rightarrow> response action" where
  "read_usage_route X S E c organization_id = session (
     a_bind (current_member X S E c organization_id everyone) (\<lambda>(_, membership).
     a_bind (query (get_usage_summary (later_clock 2 E) (mem_organization_id membership) API_REQUESTS_METRIC None)) (\<lambda>summary.
     ret (UsageSummary summary))))"

definition create_usage_event_route :: "ext \<Rightarrow> settings \<Rightarrow> runtime \<Rightarrow> string option \<Rightarrow> uuid \<Rightarrow> int \<Rightarrow> response action" where
  "create_usage_event_route X S E raw_key organization_id quantity = session (
     a_bind (get_api_key_principal X S E raw_key) (\<lambda>principal.
     a_bind (body (UsageEventCreate quantity)) (\<lambda>q.
     a_bind (checked (raise_if (principal_organization_id principal \<noteq> organization_id)
       (NotFoundError ''organization_not_found'' ''Organization not found''))) (\<lambda>_.
     a_bind (service (record_usage (later_clock 2 E) (principal_organization_id principal) API_REQUESTS_METRIC q None)) (\<lambda>event.
     ret (UsageEventRead event))))))"

definition read_subscription_route :: "ext \<Rightarrow> settings \<Rightarrow> runtime \<Rightarrow> credentials \<Rightarrow> uuid \<Rightarrow> response action" where
  "read_subscription_route X S E c organization_id = session (
     a_bind (current_member X S E c organization_id [OWNER]) (\<lambda>(_, membership).
     a_bind (query (get_subscription (mem_organization_id membership))) (\<lambda>subscription.
     ret (SubscriptionRead subscription))))"

definition require_development_billing :: "settings \<Rightarrow> exc + settings" where
  "require_development_billing S =
     (if py_lower (app_env S) \<notin> {''development'', ''test''}
      then Inl (NotFoundError ''billing_adapter_unavailable'' ''Development billing adapter is unavailable'') else Inr S)"

definition update_plan_route ::
  "ext \<Rightarrow> settings \<Rightarrow> runtime \<Rightarrow> credentials \<Rightarrow> uuid \<Rightarrow> plan \<Rightarrow> string option \<Rightarrow> response action" where
  "update_plan_route X S E c organization_id plan ip_address = session (
     a_bind (current_member X S E c organization_id [OWNER]) (\<lambda>(_, membership).
     a_bind (checked (require_development_billing S)) (\<lambda>_.
     a_bind (service (change_plan (later_clock 2 E) (mem_organization_id membership) plan (mem_user_id membership) ip_address None))
       (\<lambda>subscription.
     ret (SubscriptionRead subscription)))))"

definition read_audit_log_route :: "ext \<Rightarrow> settings \<Rightarrow> runtime \<Rightarrow> credentials \<Rightarrow> uuid \<Rightarrow> int \<Rightarrow> int \<Rightarrow> response action" where
  "read_audit_log_route X S E c organization_id limit offset = session (
     a_bind (current_member X S E c organization_id [OWNER, ADMIN]) (\<lambda>(_, membership).
     a_bind (checked (raise_if (\<not> (1 \<le> limit \<and> limit \<le> 100 \<and> 0 \<le> offset)) (RequestValidationError ''limit or offset''))) (\<lambda>_.
     a_bind (query (\<lambda>d. Inr (list_audit_logs (mem_organization_id membership) (nat limit) (nat offset) d))) (\<lambda>entries.
     ret (AuditLogList entries)))))"

text \<open>The webhook body is a byte string; a body pydantic refuses is a 400.\<close>

definition parse_webhook :: "ext \<Rightarrow> settings \<Rightarrow> runtime \<Rightarrow> string \<Rightarrow> string option \<Rightarrow> exc + billing_webhook" where
  "parse_webhook X S E raw_body signature =
     (case r_bind (verify_webhook_signature X raw_body signature (billing_webhook_secret S) (unix_time (rt_clock E 0))
             SIGNATURE_TOLERANCE_SECONDS) (\<lambda>_.
           r_bind (case loads X raw_body of None \<Rightarrow> Inl (ValidationError ''json_invalid'') | Some j \<Rightarrow> BillingWebhook j) (\<lambda>event.
           r_bind (validate_webhook X (later_clock 1 E) event) (\<lambda>_. Inr event))) of
        Inl (ValidationError _) \<Rightarrow> Inl (AppError 400 ''invalid_webhook_event'' ''Invalid webhook payload'' None)
      | r \<Rightarrow> r)"

definition billing_webhook_route :: "ext \<Rightarrow> settings \<Rightarrow> runtime \<Rightarrow> string \<Rightarrow> string option \<Rightarrow> response action" where
  "billing_webhook_route X S E raw_body signature =
     a_bind (session (
       a_bind (checked (parse_webhook X S E raw_body signature)) (\<lambda>event.
       service (store_webhook_event E event)))) (\<lambda>(stored_event, created).
     session (
       a_bind (if created \<or> whk_status stored_event \<noteq> PROCESSED
               then a_bind (on_redis (enqueue X (later_uuid 1 (later_clock 3 E)) default_queue ''process_billing_webhook''
                      [(''webhook_event_id'', JStr (uuid_str (whk_id stored_event)))] None)) (\<lambda>_. ret ())
               else ret ()) (\<lambda>_.
       ret (WebhookReceipt (whk_id stored_event) (whk_status stored_event) (\<not> created)))))"

text \<open>An exception of either check is caught; after a failed statement the session is rolled back, with nothing to undo.\<close>

definition ready_route :: "runtime \<Rightarrow> response action" where
  "ready_route E = session (\<lambda>s. (Inr (Health (rt_db_up E) (r_up (snd s))), s))"

definition live_route :: "response action" where
  "live_route = ret Live"

section \<open>Requests\<close>

text \<open>One datatype per router, and the application's router over them.\<close>

datatype auth_request =
    Register string string
  | Login string string
  | Refresh string
  | Logout string
  | Me credentials

datatype organization_request =
    CreateOrganization credentials string string
  | ListOrganizations credentials
  | GetOrganization credentials uuid
  | UpdateOrganization credentials uuid "string option option" "string option option"
  | DeleteOrganization credentials uuid

datatype member_request =
    ListMembers credentials uuid
  | UpdateMember credentials uuid uuid role
  | DeleteMember credentials uuid uuid
  | CreateInvitation credentials uuid string "role option"
  | AcceptInvitation credentials string

datatype key_request =
    CreateApiKey credentials uuid string
  | ListApiKeys credentials uuid
  | DeleteApiKey credentials uuid uuid

datatype project_request =
    CreateProject credentials uuid string "string option"
  | ListProjects credentials uuid
  | GetProject credentials uuid uuid
  | UpdateProject credentials uuid uuid "string option option" "string option option" "project_status option option"
  | DeleteProject credentials uuid uuid

datatype billing_request =
    ReadUsage credentials uuid
  | CreateUsageEvent "string option" uuid int
  | ReadSubscription credentials uuid
  | UpdatePlan credentials uuid plan "string option"
  | ReadAuditLog credentials uuid int int
  | BillingWebhookPost string "string option"

datatype request =
    AuthRequest auth_request
  | OrganizationRequest organization_request
  | MemberRequest member_request
  | KeyRequest key_request
  | ProjectRequest project_request
  | BillingRequest billing_request
  | GetLive
  | GetReady

primrec handle_auth :: "ext \<Rightarrow> settings \<Rightarrow> string \<Rightarrow> runtime \<Rightarrow> auth_request \<Rightarrow> response action" where
  "handle_auth X S dh E (Register email pw) = register_route X E email pw"
| "handle_auth X S dh E (Login email pw) = login_route X S E dh email pw"
| "handle_auth X S dh E (Refresh token) = refresh_route X S E token"
| "handle_auth X S dh E (Logout token) = logout_route X E token"
| "handle_auth X S dh E (Me c) = me_route X S E c"

primrec handle_organization :: "ext \<Rightarrow> settings \<Rightarrow> runtime \<Rightarrow> organization_request \<Rightarrow> response action" where
  "handle_organization X S E (CreateOrganization c name slug) = create_organization_route X S E c name slug"
| "handle_organization X S E (ListOrganizations c) = list_organizations_route X S E c"
| "handle_organization X S E (GetOrganization c oid) = get_organization_route X S E c oid"
| "handle_organization X S E (UpdateOrganization c oid name slug) = update_organization_route X S E c oid name slug"
| "handle_organization X S E (DeleteOrganization c oid) = delete_organization_route X S E c oid"

primrec handle_member :: "ext \<Rightarrow> settings \<Rightarrow> runtime \<Rightarrow> member_request \<Rightarrow> response action" where
  "handle_member X S E (ListMembers c oid) = list_members_route X S E c oid"
| "handle_member X S E (UpdateMember c oid mid r) = update_member_route X S E c oid mid r"
| "handle_member X S E (DeleteMember c oid mid) = delete_member_route X S E c oid mid"
| "handle_member X S E (CreateInvitation c oid email r) = create_invitation_route X S E c oid email r"
| "handle_member X S E (AcceptInvitation c token) = accept_invitation_route X S E c token"

primrec handle_key :: "ext \<Rightarrow> settings \<Rightarrow> runtime \<Rightarrow> key_request \<Rightarrow> response action" where
  "handle_key X S E (CreateApiKey c oid name) = create_api_key_route X S E c oid name"
| "handle_key X S E (ListApiKeys c oid) = list_api_keys_route X S E c oid"
| "handle_key X S E (DeleteApiKey c oid kid) = delete_api_key_route X S E c oid kid"

primrec handle_project :: "ext \<Rightarrow> settings \<Rightarrow> runtime \<Rightarrow> project_request \<Rightarrow> response action" where
  "handle_project X S E (CreateProject c oid name de) = create_project_route X S E c oid name de"
| "handle_project X S E (ListProjects c oid) = list_projects_route X S E c oid"
| "handle_project X S E (GetProject c oid pid) = get_project_route X S E c oid pid"
| "handle_project X S E (UpdateProject c oid pid name de st) = update_project_route X S E c oid pid name de st"
| "handle_project X S E (DeleteProject c oid pid) = delete_project_route X S E c oid pid"

primrec handle_billing :: "ext \<Rightarrow> settings \<Rightarrow> runtime \<Rightarrow> billing_request \<Rightarrow> response action" where
  "handle_billing X S E (ReadUsage c oid) = read_usage_route X S E c oid"
| "handle_billing X S E (CreateUsageEvent k oid q) = create_usage_event_route X S E k oid q"
| "handle_billing X S E (ReadSubscription c oid) = read_subscription_route X S E c oid"
| "handle_billing X S E (UpdatePlan c oid p ip) = update_plan_route X S E c oid p ip"
| "handle_billing X S E (ReadAuditLog c oid l k) = read_audit_log_route X S E c oid l k"
| "handle_billing X S E (BillingWebhookPost b sig) = billing_webhook_route X S E b sig"

primrec handle :: "ext \<Rightarrow> settings \<Rightarrow> string \<Rightarrow> runtime \<Rightarrow> request \<Rightarrow> response action" where
  "handle X S dh E (AuthRequest q) = handle_auth X S dh E q"
| "handle X S dh E (OrganizationRequest q) = handle_organization X S E q"
| "handle X S dh E (MemberRequest q) = handle_member X S E q"
| "handle X S dh E (KeyRequest q) = handle_key X S E q"
| "handle X S dh E (ProjectRequest q) = handle_project X S E q"
| "handle X S dh E (BillingRequest q) = handle_billing X S E q"
| "handle X S dh E GetLive = live_route"
| "handle X S dh E GetReady = ready_route E"

lemmas route_defs = register_route_def login_route_def refresh_route_def logout_route_def me_route_def
  create_organization_route_def list_organizations_route_def get_organization_route_def update_organization_route_def
  delete_organization_route_def list_members_route_def update_member_route_def delete_member_route_def
  create_invitation_route_def accept_invitation_route_def create_api_key_route_def list_api_keys_route_def
  delete_api_key_route_def create_project_route_def list_projects_route_def get_project_route_def update_project_route_def
  delete_project_route_def read_usage_route_def create_usage_event_route_def read_subscription_route_def update_plan_route_def
  read_audit_log_route_def billing_webhook_route_def live_route_def ready_route_def

end
