(* ===== verification/System.thy ===== *)
theory System
  imports Routes
begin

text \<open>
  The whole service: every request and every turn of the worker as a step on the database and Redis,
  and the states reachable from an empty installation. Redis may fail or lose data at any time. The
  invariants hold in every reachable state, because every action is built from services that keep them.
\<close>

section \<open>Steps and reachable states\<close>

inductive system_step :: "ext \<Rightarrow> settings \<Rightarrow> string \<Rightarrow> app \<Rightarrow> app \<Rightarrow> bool" for X S dummy_hash where
  api: "handle X S dummy_hash E req s = (res, s') \<Longrightarrow> system_step X S dummy_hash s s'"
| work: "run_once X E W Q (build_handlers X E) \<lparr>w_db = d, w_redis = r, w_sleeps = z\<rparr> = (res, w') \<Longrightarrow>
    system_step X S dummy_hash (d, r) (w_db w', w_redis w')"
| redis_event: "system_step X S dummy_hash (d, r) (d, r')"

inductive reachable :: "ext \<Rightarrow> settings \<Rightarrow> string \<Rightarrow> app \<Rightarrow> bool" for X S dummy_hash where
  init: "reachable X S dummy_hash (empty_db, empty_redis)"
| step: "reachable X S dummy_hash s \<Longrightarrow> system_step X S dummy_hash s s' \<Longrightarrow> reachable X S dummy_hash s'"

inductive_cases system_stepE: "system_step X S dummy_hash s s'"

section \<open>Preservation, by the structure of actions\<close>

text \<open>
  What holds between the databases before and after an action, whatever its outcome: a relation that
  every service of the action establishes, when it is reflexive and transitive. The contract is used
  for the invariants below and for the sizes of columns in \<open>Column_Sizes\<close>.
\<close>

definition preserves :: "(db \<Rightarrow> db \<Rightarrow> bool) \<Rightarrow> 'a action \<Rightarrow> bool" where
  "preserves R m = (\<forall>s. R (fst s) (fst (snd (m s))))"

definition keeps :: "(db \<Rightarrow> db \<Rightarrow> bool) \<Rightarrow> (db \<Rightarrow> exc + 'a \<times> db) \<Rightarrow> bool" where
  "keeps R op = (\<forall>d x d'. op d = Inr (x, d') \<longrightarrow> R d d')"

locale db_relation =
  fixes R :: "db \<Rightarrow> db \<Rightarrow> bool"
  assumes R_refl: "R d d"
    and R_trans: "R d d' \<Longrightarrow> R d' d'' \<Longrightarrow> R d d''"
begin

lemma preserves_bind_result:
  assumes m: "preserves R m" and f: "\<And>x s s'. m s = (Inr x, s') \<Longrightarrow> preserves R (f x)"
  shows "preserves R (a_bind m f)"
  unfolding preserves_def
proof
  fix s
  obtain r s1 where p: "m s = (r, s1)" by (metis surj_pair)
  then have k: "R (fst s) (fst s1)" using m by (metis preserves_def snd_conv)
  show "R (fst s) (fst (snd (a_bind m f s)))"
  proof (cases r)
    case (Inr x)
    have "R (fst s1) (fst (snd (f x s1)))" using f [OF p [unfolded Inr]] unfolding preserves_def by (rule spec)
    then show ?thesis using R_trans [OF k] p Inr by (simp add: a_bind_def)
  qed (use k p in \<open>simp add: a_bind_def\<close>)
qed

lemma preserves_bind: "preserves R m \<Longrightarrow> (\<And>x. preserves R (f x)) \<Longrightarrow> preserves R (a_bind m f)"
  by (rule preserves_bind_result)

lemma preserves_simple:
  "preserves R (ret x)" "preserves R (checked m)" "preserves R (query q)" "preserves R (body b)" "preserves R (on_redis f)"
  by (auto simp: preserves_def ret_def checked_def query_def body_def on_redis_def R_refl split: prod.splits)

text \<open>What follows a check or the validation of a body may rely on the result being valid.\<close>

lemma preserves_validated:
  "(\<And>x. b = Inr x \<Longrightarrow> preserves R (f x)) \<Longrightarrow> preserves R (a_bind (body b) f)"
  "(\<And>x. b = Inr x \<Longrightarrow> preserves R (f x)) \<Longrightarrow> preserves R (a_bind (checked b) f)"
  by (auto intro!: preserves_bind_result preserves_simple)

lemma preserves_service: "keeps R op \<Longrightarrow> preserves R (service op)"
  unfolding preserves_def service_def keeps_def by (auto simp: R_refl split: sum.splits)

lemma preserves_session: "preserves R m \<Longrightarrow> preserves R (session m)"
  by (simp add: preserves_def session_def R_refl split: prod.splits sum.splits) (metis fst_conv snd_conv)

lemma preserves_if: "preserves R a \<Longrightarrow> preserves R b \<Longrightarrow> preserves R (if c then a else b)"
  by simp

lemma preserves_split: "(\<And>x y. preserves R (f x y)) \<Longrightarrow> preserves R (case p of (x, y) \<Rightarrow> f x y)"
  by (cases p) simp

lemma preserves_ready: "preserves R (ready_route E)"
  unfolding ready_route_def by (rule preserves_session) (simp add: preserves_def R_refl)

lemmas preserves_structure = preserves_session preserves_split preserves_if preserves_simple preserves_service preserves_ready

end

definition kept :: "db \<Rightarrow> db \<Rightarrow> bool" where
  "kept d d' = (wf_db d \<longrightarrow> wf_db d' \<and> (orgs_complete d \<longrightarrow> orgs_complete d'))"

interpretation kept: db_relation kept
  by unfold_locales (simp_all add: kept_def)

lemma keepsI:
  assumes "\<And>d x d'. op d = Inr (x, d') \<Longrightarrow> wf_db d \<Longrightarrow> wf_db d'"
    "\<And>d x d'. op d = Inr (x, d') \<Longrightarrow> wf_db d \<Longrightarrow> orgs_complete d \<Longrightarrow> orgs_complete d'"
  shows "keeps kept op"
  using assms by (auto simp: keeps_def kept_def)

lemma record_usage_keeps: "keeps kept (record_usage E oid metric q now)"
proof (rule keepsI)
  fix d ev d'
  assume "record_usage E oid metric q now d = Inr (ev, d')"
  then have a: "add_usage_event ev d = Inr d'" using record_usage_InrD by blast
  show "wf_db d \<Longrightarrow> wf_db d'" by (rule wf_add_usage_event [OF a])
  show "orgs_complete d \<Longrightarrow> orgs_complete d'"
    using add_usage_event_InrD [OF a] orgs_complete_cong [of d' d] by simp
qed

lemma service_keeps:
  "keeps kept (register_user X E email pw)" "keeps kept (issue_tokens X S E u)" "keeps kept (rotate_refresh_token X S E raw)"
  "keeps kept (revoke_refresh_token X E raw)" "keeps kept (create_organization E actor cdata)"
  "keeps kept (update_organization E oid actor udata)" "keeps kept (delete_organization E oid actor)"
  "keeps kept (update_membership E oid mid actor ro)" "keeps kept (remove_membership E oid mid actor)"
  "keeps kept (create_invitation X S E oid actor idata)" "keeps kept (accept_invitation X E raw u)"
  "keeps kept (create_api_key X E oid actor name)" "keeps kept (revoke_api_key E oid kid actor)" "keeps kept (authenticate_api_key X E raw)"
  "keeps kept (create_project E oid actor pdata)" "keeps kept (update_project E oid pid actor qdata)" "keeps kept (delete_project E oid pid actor)"
  "keeps kept (change_plan E oid p actor ip now)" "keeps kept (store_webhook_event E ev)"
  by (rule keepsI;
      simp add: register_user_wf issue_tokens_wf rotate_refresh_token_wf revoke_refresh_token_wf auth_complete
        create_organization_wf create_organization_complete update_organization_wf update_organization_complete
        delete_organization_wf delete_organization_complete update_membership_wf update_membership_complete
        remove_membership_wf remove_membership_complete create_invitation_wf create_invitation_complete
        accept_invitation_wf accept_invitation_complete create_api_key_wf revoke_api_key_wf authenticate_api_key_wf
        api_key_complete create_project_wf update_project_wf delete_project_wf project_complete change_plan_wf
        change_plan_complete store_webhook_event_wf store_webhook_event_complete)+

lemma preserves_deps:
  "preserves kept (get_current_user X S E c)" "preserves kept (current_member X S E c oid roles)" "preserves kept (get_api_key_principal X S E k)"
  unfolding get_current_user_def current_member_def get_api_key_principal_def get_current_membership_def require_roles_def
  by (intro kept.preserves_bind kept.preserves_structure service_keeps)+

lemmas preserves_intros = kept.preserves_bind kept.preserves_structure preserves_deps service_keeps record_usage_keeps

lemma preserves_handle: "preserves kept (handle X S dh E req)"
proof (cases req)
  case (AuthRequest q)
  then show ?thesis by (cases q) (simp_all add: route_defs preserves_intros)
next
  case (OrganizationRequest q)
  then show ?thesis by (cases q) (simp_all add: route_defs preserves_intros)
next
  case (MemberRequest q)
  then show ?thesis by (cases q) (simp_all add: route_defs deliver_def preserves_intros)
next
  case (KeyRequest q)
  then show ?thesis by (cases q) (simp_all add: route_defs preserves_intros)
next
  case (ProjectRequest q)
  then show ?thesis by (cases q) (simp_all add: route_defs preserves_intros)
next
  case (BillingRequest q)
  then show ?thesis by (cases q) (simp_all add: route_defs preserves_intros)
qed (simp_all add: live_route_def preserves_intros)

section \<open>Steps preserve\<close>

lemma run_once_db:
  "run_once X E W Q hs w = (res, w') \<Longrightarrow> w_db w' = w_db w \<or> (\<exists>j. w_db w' = snd (handle_job hs j (w_db w)))"
  by (auto simp: run_once_def split: prod.splits sum.splits option.splits if_splits) (metis snd_conv)+

context db_relation
begin

lemma job_relation:
  assumes "\<And>i now. keeps R (process_webhook_event X E i now)" "\<And>i. keeps R (mark_webhook_failed i)"
  shows "R d (snd (process_billing_webhook_job X E payload d))"
proof -
  have p: "R d d'" if "process_webhook_event X E i now d = Inr (x, d')" for i now x d'
    using assms(1) [of i now] that unfolding keeps_def by blast
  have m: "R d d'" if "mark_webhook_failed i d = Inr (u, d')" for i u d'
    using assms(2) [of i] that unfolding keeps_def by blast
  show ?thesis
    by (auto simp: process_billing_webhook_job_def Let_def R_refl split: sum.splits prod.splits dest: p m)
qed

lemma handle_job_relation:
  assumes "\<And>i now. keeps R (process_webhook_event X E i now)" "\<And>i. keeps R (mark_webhook_failed i)"
  shows "R d (snd (handle_job (build_handlers X E) j d))"
  using job_relation [OF assms]
  by (auto simp: handle_job_def build_handlers_def log_only_def R_refl split: option.splits if_splits sum.splits)

lemma worker_turn_relation:
  assumes "run_once X E W Q (build_handlers X E) w = (res, w')"
    "\<And>i now. keeps R (process_webhook_event X E i now)" "\<And>i. keeps R (mark_webhook_failed i)"
  shows "R (w_db w) (w_db w')"
  using run_once_db [OF assms(1)] handle_job_relation [OF assms(2,3)] R_refl by auto

lemma step_relation:
  assumes "system_step X S dh s s'" "\<And>E req. preserves R (handle X S dh E req)"
    "\<And>E i now. keeps R (process_webhook_event X E i now)" "\<And>i. keeps R (mark_webhook_failed i)"
  shows "R (fst s) (fst s')"
  using assms(1)
proof (rule system_stepE)
  fix E req res
  assume "handle X S dh E req s = (res, s')"
  then show ?thesis using assms(2) [of E req] by (metis preserves_def snd_conv)
next
  fix E W Q d r z res w'
  assume "s = (d, r)" "s' = (w_db w', w_redis w')"
    "run_once X E W Q (build_handlers X E) \<lparr>w_db = d, w_redis = r, w_sleeps = z\<rparr> = (res, w')"
  then show ?thesis using worker_turn_relation [OF _ assms(3,4)] by fastforce
qed (simp add: R_refl)

end

section \<open>Invariants of reachable states\<close>

lemma webhook_keeps: "keeps kept (process_webhook_event X E i now)" "keeps kept (mark_webhook_failed i)"
  using process_webhook_event_effect [of X E i now] mark_webhook_failed_wf [of i] mark_webhook_failed_complete [of i]
  by (auto simp: keeps_def kept_def)

lemma system_step_kept: "system_step X S dh s s' \<Longrightarrow> kept (fst s) (fst s')"
  by (rule kept.step_relation [OF _ preserves_handle webhook_keeps])

lemma reachable_invariant:
  assumes "reachable X S dh s"
  shows "wf_db (fst s) \<and> orgs_complete (fst s)"
  using assms
proof induction
  case init
  then show ?case by (simp add: orgs_complete_def empty_db_def [THEN arg_cong, of organizations])
next
  case (step s s')
  then show ?case using system_step_kept [OF step.hyps(2)] by (simp add: kept_def)
qed

end
