(* ===== verification/Authorization.thy ===== *)
theory Authorization
  imports System
begin

text \<open>
  Who may write what. \<open>may_write\<close> says, request by request, under which authority the data of an
  organization may change: an active user with a valid access token and a membership of sufficient
  role, an unrevoked API key of the organization, an open invitation to it, or nobody. The lemmas
  show that no request changes the data of an organization without that authority, and that what a
  member reads depends on the organization's own rows only.
\<close>

section \<open>Authority\<close>

definition authenticated :: "ext \<Rightarrow> settings \<Rightarrow> runtime \<Rightarrow> credentials \<Rightarrow> user \<Rightarrow> db \<Rightarrow> bool" where
  "authenticated X S E c u d = (u \<in> set (users d) \<and> usr_is_active u \<and>
     (\<exists>scheme token. c = Some (scheme, token) \<and> decode_access_token X S E token = Inr (usr_id u)))"

definition acts_as :: "ext \<Rightarrow> settings \<Rightarrow> runtime \<Rightarrow> credentials \<Rightarrow> uuid \<Rightarrow> role list \<Rightarrow> db \<Rightarrow> bool" where
  "acts_as X S E c oid roles d =
     (\<exists>u m. authenticated X S E c u d \<and> select_membership d oid (usr_id u) = Some m \<and> mem_role m \<in> set roles)"

definition holds_key :: "ext \<Rightarrow> string option \<Rightarrow> uuid \<Rightarrow> db \<Rightarrow> bool" where
  "holds_key X raw oid d = (\<exists>k. raw = Some k \<and>
     (\<exists>a \<in> set (api_keys d). key_hash a = hash_token X k \<and> key_revoked_at a = None \<and> key_organization_id a = oid))"

text \<open>An invitation is open until it is accepted or expires; the request reads the clock after its access token.\<close>

definition is_invited :: "ext \<Rightarrow> runtime \<Rightarrow> string \<Rightarrow> user \<Rightarrow> uuid \<Rightarrow> db \<Rightarrow> bool" where
  "is_invited X E raw u oid d = (\<exists>i \<in> set (invitations d). inv_token_hash i = hash_token X raw \<and> inv_accepted_at i = None \<and>
     \<not> invitation_has_expired (inv_expires_at i) (rt_clock E 2) \<and>
     py_lower (inv_email i) = py_lower (usr_email u) \<and> inv_organization_id i = oid)"

definition may_write :: "ext \<Rightarrow> settings \<Rightarrow> runtime \<Rightarrow> request \<Rightarrow> uuid \<Rightarrow> db \<Rightarrow> bool" where
  "may_write X S E req oid d = (case req of
       OrganizationRequest (CreateOrganization c _ _) \<Rightarrow> oid \<notin> org_ids d \<and> (\<exists>u. authenticated X S E c u d)
     | OrganizationRequest (UpdateOrganization c o' _ _) \<Rightarrow> oid = o' \<and> acts_as X S E c oid [OWNER, ADMIN] d
     | OrganizationRequest (DeleteOrganization c o') \<Rightarrow> oid = o' \<and> acts_as X S E c oid [OWNER] d
     | MemberRequest (UpdateMember c o' _ _) \<Rightarrow> oid = o' \<and> acts_as X S E c oid [OWNER, ADMIN] d
     | MemberRequest (DeleteMember c o' _) \<Rightarrow> oid = o' \<and> acts_as X S E c oid [OWNER, ADMIN] d
     | MemberRequest (CreateInvitation c o' _ _) \<Rightarrow> oid = o' \<and> acts_as X S E c oid [OWNER, ADMIN] d
     | MemberRequest (AcceptInvitation c token) \<Rightarrow> (\<exists>u. authenticated X S E c u d \<and> is_invited X E token u oid d)
     | KeyRequest (CreateApiKey c o' _) \<Rightarrow> oid = o' \<and> acts_as X S E c oid [OWNER] d
     | KeyRequest (DeleteApiKey c o' _) \<Rightarrow> oid = o' \<and> acts_as X S E c oid [OWNER] d
     | ProjectRequest (CreateProject c o' _ _) \<Rightarrow> oid = o' \<and> acts_as X S E c oid everyone d
     | ProjectRequest (UpdateProject c o' _ _ _ _) \<Rightarrow> oid = o' \<and> acts_as X S E c oid everyone d
     | ProjectRequest (DeleteProject c o' _) \<Rightarrow> oid = o' \<and> acts_as X S E c oid everyone d
     | BillingRequest (CreateUsageEvent k o' _) \<Rightarrow> oid = o' \<and> holds_key X k oid d
     | BillingRequest (UpdatePlan c o' _ _) \<Rightarrow> oid = o' \<and> acts_as X S E c oid [OWNER] d \<and>
         py_lower (app_env S) \<in> {''development'', ''test''}
     | _ \<Rightarrow> False)"

section \<open>Reads\<close>

definition reads :: "'a action \<Rightarrow> bool" where
  "reads m = (\<forall>s. fst (snd (m s)) = fst s)"

lemma reads_bind: "reads m \<Longrightarrow> (\<And>x. reads (f x)) \<Longrightarrow> reads (a_bind m f)"
proof -
  assume m: "reads m" and f: "\<And>x. reads (f x)"
  have "fst (snd (a_bind m f s)) = fst s" for s
  proof -
    obtain r s1 where p: "m s = (r, s1)" by (metis surj_pair)
    then have k: "fst s1 = fst s" using m by (metis reads_def snd_conv)
    show ?thesis
    proof (cases r)
      case (Inr x)
      have "fst (snd (f x s1)) = fst s1" using f [of x] unfolding reads_def by (rule spec)
      then show ?thesis using k p Inr by (simp add: a_bind_def)
    qed (use k p in \<open>simp add: a_bind_def\<close>)
  qed
  then show ?thesis by (simp add: reads_def)
qed

lemma reads_simple:
  "reads (ret x)" "reads (checked m)" "reads (query q)" "reads (body b)" "reads (on_redis f)"
  by (auto simp: reads_def ret_def checked_def query_def body_def on_redis_def split: prod.splits)

lemma reads_session: "reads m \<Longrightarrow> reads (session m)"
  by (simp add: reads_def session_def split: prod.splits sum.splits) (metis fst_conv snd_conv)

lemma reads_split: "(\<And>x y. reads (f x y)) \<Longrightarrow> reads (case p of (x, y) \<Rightarrow> f x y)"
  by (cases p) simp

lemma reads_if: "reads a \<Longrightarrow> reads b \<Longrightarrow> reads (if c then a else b)"
  by simp

lemma reads_deps: "reads (get_current_user X S E c)" "reads (current_member X S E c oid roles)"
  unfolding get_current_user_def current_member_def get_current_membership_def require_roles_def
  by (intro reads_bind reads_simple)+

lemmas reads_intros = reads_session reads_bind reads_split reads_if reads_deps reads_simple

lemma readsD: "reads m \<Longrightarrow> m (d, r) = (res, (d', r')) \<Longrightarrow> d' = d"
  by (metis fst_conv reads_def snd_conv)

section \<open>Confined actions\<close>

text \<open>An action that keeps the database well-formed and leaves every organization but one alone.\<close>

definition confined :: "uuid \<Rightarrow> 'a action \<Rightarrow> bool" where
  "confined o' m = (\<forall>s. wf_db (fst s) \<longrightarrow> wf_db (fst (snd (m s))) \<and>
     (\<forall>oid. oid \<noteq> o' \<longrightarrow> tenant_view oid (fst (snd (m s))) = tenant_view oid (fst s)))"

lemma confinedD:
  "confined o' m \<Longrightarrow> m (d, r) = (res, (d', r')) \<Longrightarrow> wf_db d \<Longrightarrow> oid \<noteq> o' \<Longrightarrow> tenant_view oid d' = tenant_view oid d"
  unfolding confined_def by (metis fst_conv snd_conv)

lemma confined_reads: "reads m \<Longrightarrow> confined o' m"
  by (simp add: reads_def confined_def)

lemma confined_bind_on:
  assumes m: "confined o' m" and f: "\<And>s x s1. m s = (Inr x, s1) \<Longrightarrow> confined o' (f x)"
  shows "confined o' (a_bind m f)"
proof -
  have "wf_db (fst (snd (a_bind m f s))) \<and> (oid \<noteq> o' \<longrightarrow> tenant_view oid (fst (snd (a_bind m f s))) = tenant_view oid (fst s))"
    if w: "wf_db (fst s)" for s oid
  proof -
    obtain r s1 where p: "m s = (r, s1)" by (metis surj_pair)
    have k: "wf_db (fst s1)" "oid \<noteq> o' \<longrightarrow> tenant_view oid (fst s1) = tenant_view oid (fst s)"
      using m w p unfolding confined_def by (metis snd_conv)+
    show ?thesis
    proof (cases r)
      case (Inr x)
      have "confined o' (f x)" using f p Inr by simp
      then have "wf_db (fst (snd (f x s1))) \<and> (oid \<noteq> o' \<longrightarrow> tenant_view oid (fst (snd (f x s1))) = tenant_view oid (fst s1))"
        using k(1) unfolding confined_def by blast
      then show ?thesis using k p Inr by (simp add: a_bind_def)
    qed (use k p in \<open>simp add: a_bind_def\<close>)
  qed
  then show ?thesis unfolding confined_def by blast
qed

lemma confined_bind: "confined o' m \<Longrightarrow> (\<And>x. confined o' (f x)) \<Longrightarrow> confined o' (a_bind m f)"
  by (rule confined_bind_on)

lemma confined_split: "(\<And>x y. confined o' (f x y)) \<Longrightarrow> confined o' (case p of (x, y) \<Rightarrow> f x y)"
  by (cases p) simp

lemma confined_session: "confined o' m \<Longrightarrow> confined o' (session m)"
  by (simp add: confined_def session_def split: prod.splits sum.splits) (metis fst_conv snd_conv)

lemma confined_member:
  assumes "\<And>u m. mem_organization_id m = o' \<Longrightarrow> confined o' (f u m)"
  shows "confined o' (a_bind (current_member X S E c o' roles) (\<lambda>(u, m). f u m))"
proof (rule confined_bind_on)
  fix s x s1
  assume a: "current_member X S E c o' roles s = (Inr x, s1)"
  obtain d r d1 r1 u m where p: "s = (d, r)" "s1 = (d1, r1)" "x = (u, m)" by (metis surj_pair)
  have "select_membership d o' (usr_id u) = Some m" using a p by (simp add: current_member_InrD(4))
  then have "mem_organization_id m = o'" by (simp add: select_membershipD)
  then show "confined o' (case x of (u, m) \<Rightarrow> f u m)" using assms p(3) by simp
qed (simp add: confined_reads reads_deps)

text \<open>A service operation is confined when it keeps the database well-formed and touches one tenant.\<close>

lemma confined_service:
  assumes "\<And>d x d'. op d = Inr (x, d') \<Longrightarrow> wf_db d \<Longrightarrow> wf_db d'"
    "\<And>d x d' oid. op d = Inr (x, d') \<Longrightarrow> wf_db d \<Longrightarrow> oid \<noteq> o' \<Longrightarrow> tenant_view oid d' = tenant_view oid d"
  shows "confined o' (service op)"
proof -
  have "wf_db (fst (snd (service op s))) \<and> (oid \<noteq> o' \<longrightarrow> tenant_view oid (fst (snd (service op s))) = tenant_view oid (fst s))"
    if w: "wf_db (fst s)" for s oid
  proof (cases "op (fst s)")
    case (Inr p)
    then obtain x d' where "op (fst s) = Inr (x, d')" by (metis surj_pair)
    then show ?thesis using assms(1) [of "fst s" x d'] assms(2) [of "fst s" x d' oid] w by (simp add: service_def)
  qed (use w in \<open>simp add: service_def\<close>)
  then show ?thesis unfolding confined_def by blast
qed

lemma confined_services:
  "confined o' (service (update_organization E o' actor udata))" "confined o' (service (delete_organization E o' actor))"
  "confined o' (service (update_membership E o' mid actor ro))" "confined o' (service (remove_membership E o' mid actor))"
  "confined o' (service (create_invitation X S E o' actor idata))"
  "confined o' (service (create_api_key X E o' actor name))" "confined o' (service (revoke_api_key E o' kid actor))"
  "confined o' (service (create_project E o' actor pdata))" "confined o' (service (update_project E o' pid actor qdata))"
  "confined o' (service (delete_project E o' pid actor))" "confined o' (service (change_plan E o' p actor ip now))"
  by (rule confined_service;
      simp add: update_organization_wf update_organization_view delete_organization_wf delete_organization_view
        update_membership_wf update_membership_view remove_membership_wf remove_membership_view
        create_invitation_wf create_invitation_view create_api_key_wf create_api_key_view revoke_api_key_wf revoke_api_key_view
        create_project_wf create_project_view update_project_wf update_project_view delete_project_wf delete_project_view
        change_plan_wf change_plan_view)+

lemma confined_auth:
  "confined o' (service (register_user X E email pw))" "confined o' (service (issue_tokens X S E u))"
  "confined o' (service (rotate_refresh_token X S E raw))" "confined o' (service (revoke_refresh_token X E raw))"
  "confined o' (service (store_webhook_event E ev))"
  by (rule confined_service;
      simp add: register_user_wf issue_tokens_wf rotate_refresh_token_wf revoke_refresh_token_wf auth_view
        store_webhook_event_wf store_webhook_event_view)+

lemmas confined_simple = reads_simple [THEN confined_reads]

lemmas confined_intros = confined_session confined_member confined_bind confined_split confined_simple
  reads_deps [THEN confined_reads] confined_services confined_auth

section \<open>Routes that write\<close>

text \<open>A member route changes nothing unless its dependencies admitted the caller.\<close>

lemma current_member_acts:
  assumes "current_member X S E c oid roles (d, r) = (Inr (u, m), (d', r'))"
  shows "d' = d \<and> acts_as X S E c oid roles d"
  using current_member_InrD [OF assms] by (auto simp: acts_as_def authenticated_def)

lemma member_route_acts:
  assumes "session (a_bind (current_member X S E c o' roles) f) (d, r) = (res, (d', r'))" "d' \<noteq> d"
  shows "acts_as X S E c o' roles d \<and> (\<exists>p r1 x. f p (d, r1) = (Inr x, (d', r')))"
proof -
  obtain x where "a_bind (current_member X S E c o' roles) f (d, r) = (Inr x, (d', r'))"
    using session_db [OF assms(1)] assms(2) by auto
  then obtain p d1 r1 where cm: "current_member X S E c o' roles (d, r) = (Inr p, (d1, r1))" "f p (d1, r1) = (Inr x, (d', r'))"
    by (auto simp: a_bind_Inr)
  obtain u m where "p = (u, m)" by (metis surj_pair)
  then show ?thesis using current_member_acts [of X S E c o' roles d r u m d1 r1] cm by blast
qed

lemma member_route_write:
  assumes "session (a_bind (current_member X S E c o' roles) f) (d, r) = (res, (d', r'))" "wf_db d"
    "tenant_view oid d' \<noteq> tenant_view oid d" "confined o' (session (a_bind (current_member X S E c o' roles) f))"
  shows "oid = o' \<and> acts_as X S E c oid roles d"
  using confinedD [OF assms(4,1,2), of oid] member_route_acts [OF assms(1)] assms(3) by auto

lemma reads_after:
  assumes "a_bind m f (d, r) = (res, (d', r'))" "\<And>x. reads (f x)"
  shows "\<exists>res1 r1. m (d, r) = (res1, (d', r1))"
proof -
  obtain res1 d1 r1 where m: "m (d, r) = (res1, (d1, r1))" by (metis surj_pair)
  have "d1 = d'"
  proof (cases res1)
    case (Inr x)
    then show ?thesis using readsD [OF assms(2) [of x], of d1 r1 res d' r'] assms(1) m by (simp add: a_bind_def)
  qed (use assms(1) m in \<open>simp add: a_bind_def\<close>)
  then show ?thesis using m by blast
qed

lemma two_sessions_acts:
  assumes "a_bind (session (a_bind (current_member X S E c o' roles) f)) g (d, r) = (res, (d', r'))" "wf_db d"
    "tenant_view oid d' \<noteq> tenant_view oid d" "confined o' (session (a_bind (current_member X S E c o' roles) f))" "\<And>x. reads (g x)"
  shows "oid = o' \<and> acts_as X S E c oid roles d"
proof -
  obtain res1 r1 where "session (a_bind (current_member X S E c o' roles) f) (d, r) = (res1, (d', r1))"
    using reads_after [OF assms(1,5)] by blast
  then show ?thesis using assms(2-4) by (rule member_route_write)
qed

text \<open>The routes that are not behind a membership.\<close>

lemma create_organization_route_write:
  assumes "create_organization_route X S E c name slug (d, r) = (res, (d', r'))" "tenant_view oid d' \<noteq> tenant_view oid d"
  shows "oid \<notin> org_ids d \<and> (\<exists>u. authenticated X S E c u d)"
proof -
  have "d' \<noteq> d" using assms(2) by auto
  then obtain x where "a_bind (get_current_user X S E c) (\<lambda>user. a_bind (body (OrganizationCreate name slug)) (\<lambda>payload.
     a_bind (service (create_organization (later_clock 2 E) (usr_id user) payload)) (\<lambda>organization. ret (OrganizationRead organization))))
       (d, r) = (Inr x, (d', r'))"
    using session_db [OF assms(1) [unfolded create_organization_route_def]] by auto
  then obtain u d1 r1 p o' where u: "get_current_user X S E c (d, r) = (Inr u, (d1, r1))"
    "create_organization (later_clock 2 E) (usr_id u) p d1 = Inr (o', d')"
    by (auto simp: a_bind_Inr service_Inr)
  have c: "create_organization (later_clock 2 E) (usr_id u) p d = Inr (o', d')"
    using u(2) get_current_user_InrD(1) [OF u(1)] by simp
  have "authenticated X S E c u d" using get_current_user_InrD(2-) [OF u(1)] by (simp add: authenticated_def)
  moreover have "oid = org_id o'" using create_organization_view [OF c, of oid] assms(2) by blast
  moreover have "org_id o' \<notin> org_ids d" using create_organization_tables [OF c] by blast
  ultimately show ?thesis by blast
qed

lemma accept_invitation_route_write:
  assumes "accept_invitation_route X S E c token (d, r) = (res, (d', r'))" "wf_db d" "tenant_view oid d' \<noteq> tenant_view oid d"
  shows "\<exists>u. authenticated X S E c u d \<and> is_invited X E token u oid d"
proof -
  have "d' \<noteq> d" using assms(3) by auto
  then obtain x where "a_bind (get_current_user X S E c) (\<lambda>user. a_bind (service (accept_invitation X (later_clock 2 E) token user))
      (\<lambda>membership. ret (MembershipRead membership))) (d, r) = (Inr x, (d', r'))"
    using session_db [OF assms(1) [unfolded accept_invitation_route_def]] by auto
  then obtain u d1 r1 m where u: "get_current_user X S E c (d, r) = (Inr u, (d1, r1))"
    "accept_invitation X (later_clock 2 E) token u d1 = Inr (m, d')"
    by (auto simp: a_bind_Inr service_Inr)
  have a: "accept_invitation X (later_clock 2 E) token u d = Inr (m, d')"
    using u(2) get_current_user_InrD(1) [OF u(1)] by simp
  have "authenticated X S E c u d" using get_current_user_InrD(2-) [OF u(1)] by (simp add: authenticated_def)
  moreover have "oid = mem_organization_id m" using accept_invitation_view [OF a assms(2), of oid] assms(3) by blast
  moreover obtain i where i: "find_invitation X token d = Some i" "inv_accepted_at i = None"
    "\<not> invitation_has_expired (inv_expires_at i) (rt_clock (later_clock 2 E) 0)"
    "py_lower (inv_email i) = py_lower (usr_email u)" "mem_organization_id m = inv_organization_id i"
    using a by (rule accept_invitation_InrD)
  have "rt_clock (later_clock 2 E) 0 = rt_clock E 2" by (simp add: later_clock_def numeral_2_eq_2)
  then have "is_invited X E token u (inv_organization_id i) d"
    using i(2-4) find_invitationD [OF i(1)] unfolding is_invited_def by (intro bexI [of _ i]) simp_all
  ultimately show ?thesis using i(5) by auto
qed

lemma create_usage_event_route_write:
  assumes "create_usage_event_route X S E k o' q (d, r) = (res, (d', r'))" "wf_db d" "tenant_view oid d' \<noteq> tenant_view oid d"
  shows "oid = o' \<and> holds_key X k oid d"
proof -
  have "d' \<noteq> d" using assms(3) by auto
  with session_db [OF assms(1) [unfolded create_usage_event_route_def]] obtain p d1 r1 q' ev where
    p: "get_api_key_principal X S E k (d, r) = (Inr p, (d1, r1))" "principal_organization_id p = o'"
      "record_usage (later_clock 2 E) (principal_organization_id p) API_REQUESTS_METRIC q' None d1 = Inr (ev, d')"
    by (auto simp: a_bind_Inr service_Inr)
  obtain raw where raw: "k = Some raw" "authenticate_api_key X E raw d = Inr (p, d1)"
    using get_api_key_principal_InrD [OF p(1)] by blast
  have "add_usage_event ev d1 = Inr d'" "use_organization_id ev = o'" using record_usage_InrD [OF p(3)] p(2) by auto
  then have v: "tenant_view oid' d' = tenant_view oid' d" if "oid' \<noteq> o'" for oid'
    using authenticate_api_key_view [OF raw(2) assms(2), of oid'] tenant_view_add(10) [of ev d1 d' oid'] that p(2) by simp
  have "holds_key X k o' d" using raw(2) by (rule authenticate_api_key_InrD) (use p(2) raw(1) in \<open>auto simp: holds_key_def\<close>)
  then show ?thesis using v [of oid] assms(3) by blast
qed

section \<open>Every request\<close>

lemma auth_writes_nothing:
  assumes "handle_auth X S dh E q (d, r) = (res, (d', r'))" "wf_db d"
  shows "tenant_view oid d' = tenant_view oid d"
proof -
  have "confined (oid + 1) (handle_auth X S dh E q)"
    by (cases q) (simp_all add: route_defs confined_intros)
  from confinedD [OF this assms, of oid] show ?thesis by simp
qed

lemma webhook_writes_nothing:
  assumes "billing_webhook_route X S E b sig (d, r) = (res, (d', r'))" "wf_db d"
  shows "tenant_view oid d' = tenant_view oid d"
proof -
  have "confined (oid + 1) (billing_webhook_route X S E b sig)"
    unfolding billing_webhook_route_def
    by (intro confined_bind confined_session confined_split confined_intros confined_reads [OF reads_if] reads_intros)
  from confinedD [OF this assms, of oid] show ?thesis by simp
qed

text \<open>The requests to one organization: each is confined to it and behind a membership of the roles named.\<close>

lemma organization_request_write:
  assumes "handle_organization X S E q (d, r) = (res, (d', r'))" "wf_db d" "tenant_view oid d' \<noteq> tenant_view oid d"
  shows "may_write X S E (OrganizationRequest q) oid d"
proof (cases q)
  case (CreateOrganization c name slug)
  then show ?thesis using create_organization_route_write assms by (simp add: may_write_def)
next
  case (ListOrganizations c)
  then have "reads (handle_organization X S E q)" by (simp add: route_defs reads_intros)
  then show ?thesis using readsD assms(1,3) by blast
next
  case (GetOrganization c o')
  then have "reads (handle_organization X S E q)" by (simp add: route_defs reads_intros)
  then show ?thesis using readsD assms(1,3) by blast
next
  case (UpdateOrganization c o' name slug)
  from assms(1) [unfolded this handle_organization.simps update_organization_route_def]
  have "oid = o' \<and> acts_as X S E c oid [OWNER, ADMIN] d"
    by (rule member_route_write [OF _ assms(2,3)]) (simp add: confined_intros)
  with UpdateOrganization show ?thesis by (auto simp: may_write_def)
next
  case (DeleteOrganization c o')
  from assms(1) [unfolded this handle_organization.simps delete_organization_route_def]
  have "oid = o' \<and> acts_as X S E c oid [OWNER] d"
    by (rule member_route_write [OF _ assms(2,3)]) (simp add: confined_intros)
  with DeleteOrganization show ?thesis by (auto simp: may_write_def)
qed

lemma member_request_write:
  assumes "handle_member X S E q (d, r) = (res, (d', r'))" "wf_db d" "tenant_view oid d' \<noteq> tenant_view oid d"
  shows "may_write X S E (MemberRequest q) oid d"
proof (cases q)
  case (ListMembers c o')
  then have "reads (handle_member X S E q)" by (simp add: route_defs reads_intros)
  then show ?thesis using readsD assms(1,3) by blast
next
  case (UpdateMember c o' mid ro)
  from assms(1) [unfolded this handle_member.simps update_member_route_def]
  have "oid = o' \<and> acts_as X S E c oid [OWNER, ADMIN] d"
    by (rule member_route_write [OF _ assms(2,3)]) (simp add: confined_intros)
  with UpdateMember show ?thesis by (auto simp: may_write_def)
next
  case (DeleteMember c o' mid)
  from assms(1) [unfolded this handle_member.simps delete_member_route_def]
  have "oid = o' \<and> acts_as X S E c oid [OWNER, ADMIN] d"
    by (rule member_route_write [OF _ assms(2,3)]) (simp add: confined_intros)
  with DeleteMember show ?thesis by (auto simp: may_write_def)
next
  case (CreateInvitation c o' email ro)
  from assms(1) [unfolded this handle_member.simps create_invitation_route_def]
  have "oid = o' \<and> acts_as X S E c oid [OWNER, ADMIN] d"
    by (rule two_sessions_acts [OF _ assms(2,3)]) (simp_all add: confined_intros reads_intros deliver_def)
  with CreateInvitation show ?thesis by (auto simp: may_write_def)
next
  case (AcceptInvitation c token)
  then show ?thesis using accept_invitation_route_write assms by (simp add: may_write_def)
qed

lemma key_request_write:
  assumes "handle_key X S E q (d, r) = (res, (d', r'))" "wf_db d" "tenant_view oid d' \<noteq> tenant_view oid d"
  shows "may_write X S E (KeyRequest q) oid d"
proof (cases q)
  case (CreateApiKey c o' name)
  from assms(1) [unfolded this handle_key.simps create_api_key_route_def]
  have "oid = o' \<and> acts_as X S E c oid [OWNER] d"
    by (rule member_route_write [OF _ assms(2,3)]) (simp add: confined_intros)
  with CreateApiKey show ?thesis by (auto simp: may_write_def)
next
  case (ListApiKeys c o')
  then have "reads (handle_key X S E q)" by (simp add: route_defs reads_intros)
  then show ?thesis using readsD assms(1,3) by blast
next
  case (DeleteApiKey c o' kid)
  from assms(1) [unfolded this handle_key.simps delete_api_key_route_def]
  have "oid = o' \<and> acts_as X S E c oid [OWNER] d"
    by (rule member_route_write [OF _ assms(2,3)]) (simp add: confined_intros)
  with DeleteApiKey show ?thesis by (auto simp: may_write_def)
qed

lemma project_request_write:
  assumes "handle_project X S E q (d, r) = (res, (d', r'))" "wf_db d" "tenant_view oid d' \<noteq> tenant_view oid d"
  shows "may_write X S E (ProjectRequest q) oid d"
proof (cases q)
  case (CreateProject c o' name de)
  from assms(1) [unfolded this handle_project.simps create_project_route_def]
  have "oid = o' \<and> acts_as X S E c oid everyone d"
    by (rule member_route_write [OF _ assms(2,3)]) (simp add: confined_intros)
  with CreateProject show ?thesis by (auto simp: may_write_def)
next
  case (ListProjects c o')
  then have "reads (handle_project X S E q)" by (simp add: route_defs reads_intros)
  then show ?thesis using readsD assms(1,3) by blast
next
  case (GetProject c o' pid)
  then have "reads (handle_project X S E q)" by (simp add: route_defs reads_intros)
  then show ?thesis using readsD assms(1,3) by blast
next
  case (UpdateProject c o' pid name de st)
  from assms(1) [unfolded this handle_project.simps update_project_route_def]
  have "oid = o' \<and> acts_as X S E c oid everyone d"
    by (rule member_route_write [OF _ assms(2,3)]) (simp add: confined_intros)
  with UpdateProject show ?thesis by (auto simp: may_write_def)
next
  case (DeleteProject c o' pid)
  from assms(1) [unfolded this handle_project.simps delete_project_route_def]
  have "oid = o' \<and> acts_as X S E c oid everyone d"
    by (rule member_route_write [OF _ assms(2,3)]) (simp add: confined_intros)
  with DeleteProject show ?thesis by (auto simp: may_write_def)
qed

lemma billing_request_write:
  assumes "handle_billing X S E q (d, r) = (res, (d', r'))" "wf_db d" "tenant_view oid d' \<noteq> tenant_view oid d"
  shows "may_write X S E (BillingRequest q) oid d"
proof (cases q)
  case (ReadUsage c o')
  then have "reads (handle_billing X S E q)" by (simp add: route_defs reads_intros)
  then show ?thesis using readsD assms(1,3) by blast
next
  case (CreateUsageEvent k o' n)
  then show ?thesis using create_usage_event_route_write assms by (simp add: may_write_def)
next
  case (ReadSubscription c o')
  then have "reads (handle_billing X S E q)" by (simp add: route_defs reads_intros)
  then show ?thesis using readsD assms(1,3) by blast
next
  case (UpdatePlan c o' p ip)
  note route = assms(1) [unfolded this handle_billing.simps update_plan_route_def]
  from route have "oid = o' \<and> acts_as X S E c oid [OWNER] d"
    by (rule member_route_write [OF _ assms(2,3)]) (rule confined_session, rule confined_member, simp add: confined_intros)
  moreover have "d' \<noteq> d" using assms(3) by auto
  with member_route_acts [OF route] have "py_lower (app_env S) \<in> {''development'', ''test''}"
    by (auto simp: a_bind_Inr require_development_billing_def split: if_splits)
  ultimately show ?thesis using UpdatePlan by (auto simp: may_write_def)
next
  case (ReadAuditLog c o' l k)
  then have "reads (handle_billing X S E q)" by (simp add: route_defs reads_intros)
  then show ?thesis using readsD assms(1,3) by blast
next
  case (BillingWebhookPost b sig)
  then show ?thesis using webhook_writes_nothing assms by simp
qed

lemma handle_write:
  assumes "handle X S dh E req (d, r) = (res, (d', r'))" "wf_db d" "tenant_view oid d' \<noteq> tenant_view oid d"
  shows "may_write X S E req oid d"
proof (cases req)
  case (AuthRequest q)
  then show ?thesis using assms auth_writes_nothing by simp
next
  case GetReady
  then have "d' = d" using assms(1) by (simp add: ready_route_def session_def)
  then show ?thesis using assms(3) by simp
next
  case GetLive
  then show ?thesis using assms(1,3) by (simp add: live_route_def)
qed (use assms in \<open>simp_all add: organization_request_write member_request_write key_request_write project_request_write
  billing_request_write\<close>)

end
