(* ===== verification/Isolation.thy ===== *)
theory Isolation
  imports Authorization
begin

text \<open>
  What a request may see. The requests that read one organization are collected by \<open>read_of\<close>; their
  answers are a function of that organization's own rows and of the user table, so no other tenant's
  data can influence them. The proof follows the structure of the routes: \<open>agreeing\<close> actions give equal
  results on databases that agree on one tenant, and are closed under sequencing.
\<close>

section \<open>Queries as functions of the tenant's rows\<close>

definition agree_on :: "uuid \<Rightarrow> db \<Rightarrow> db \<Rightarrow> bool" where
  "agree_on oid d1 d2 = (tenant_view oid d1 = tenant_view oid d2 \<and> users d1 = users d2)"

lemma tenant_view_sel [simp]:
  "tv_organization (tenant_view oid d) = filter (\<lambda>r. org_id r = oid) (organizations d)"
  "tv_memberships (tenant_view oid d) = filter (\<lambda>r. mem_organization_id r = oid) (memberships d)"
  "tv_api_keys (tenant_view oid d) = filter (\<lambda>r. key_organization_id r = oid) (api_keys d)"
  "tv_projects (tenant_view oid d) = filter (\<lambda>r. prj_organization_id r = oid) (projects d)"
  "tv_subscriptions (tenant_view oid d) = filter (\<lambda>r. sub_organization_id r = oid) (subscriptions d)"
  "tv_usage_events (tenant_view oid d) = filter (\<lambda>r. use_organization_id r = oid) (usage_events d)"
  "tv_audit_logs (tenant_view oid d) = filter (\<lambda>r. aud_organization_id r = oid) (audit_logs d)"
  by (simp_all add: tenant_view_def)

lemma agree_onD:
  assumes "agree_on oid d1 d2"
  shows "users d1 = users d2"
    "filter (\<lambda>r. org_id r = oid) (organizations d1) = filter (\<lambda>r. org_id r = oid) (organizations d2)"
    "filter (\<lambda>r. mem_organization_id r = oid) (memberships d1) = filter (\<lambda>r. mem_organization_id r = oid) (memberships d2)"
    "filter (\<lambda>r. key_organization_id r = oid) (api_keys d1) = filter (\<lambda>r. key_organization_id r = oid) (api_keys d2)"
    "filter (\<lambda>r. prj_organization_id r = oid) (projects d1) = filter (\<lambda>r. prj_organization_id r = oid) (projects d2)"
    "filter (\<lambda>r. sub_organization_id r = oid) (subscriptions d1) = filter (\<lambda>r. sub_organization_id r = oid) (subscriptions d2)"
    "filter (\<lambda>r. use_organization_id r = oid) (usage_events d1) = filter (\<lambda>r. use_organization_id r = oid) (usage_events d2)"
    "filter (\<lambda>r. aud_organization_id r = oid) (audit_logs d1) = filter (\<lambda>r. aud_organization_id r = oid) (audit_logs d2)"
  using assms unfolding agree_on_def by (metis tenant_view_sel)+

text \<open>A selection of rows that all belong to one tenant sees that tenant's rows only.\<close>

lemma filter_tenant:
  assumes "filter (\<lambda>r. k r = oid) xs = filter (\<lambda>r. k r = oid) ys" "\<And>r. Q r \<Longrightarrow> k r = oid"
  shows "filter Q xs = filter Q ys"
proof -
  have "filter Q zs = filter Q (filter (\<lambda>r. k r = oid) zs)" for zs
    using assms(2) by (auto intro!: filter_cong)
  then show ?thesis using assms(1) by metis
qed

lemma nested_tenant:
  assumes "filter (\<lambda>r. k r = oid) xs = filter (\<lambda>r. k r = oid) ys"
    "\<And>r. k r = oid \<Longrightarrow> f r = g r" "\<And>r. k r \<noteq> oid \<Longrightarrow> f r = []" "\<And>r. k r \<noteq> oid \<Longrightarrow> g r = []"
  shows "concat (map f xs) = concat (map g ys)"
proof -
  have "concat (map h zs) = concat (map h (filter (\<lambda>r. k r = oid) zs))" if "\<And>r. k r \<noteq> oid \<Longrightarrow> h r = []" for h and zs
    using that by (induction zs) auto
  then have "concat (map f xs) = concat (map f (filter (\<lambda>r. k r = oid) xs))" "concat (map g ys) = concat (map g (filter (\<lambda>r. k r = oid) ys))"
    using assms(3,4) by blast+
  moreover have "map f (filter (\<lambda>r. k r = oid) xs) = map g (filter (\<lambda>r. k r = oid) xs)" using assms(2) by simp
  ultimately show ?thesis unfolding assms(1) by (simp only:)
qed

lemmas comprehension_tenant = nested_tenant [where f = f and g = f for f, OF _ refl]

lemma joined_organizations_agree:
  assumes "agree_on oid d1 d2"
  shows "filter (\<lambda>o'. org_id o' = oid) (joined_organizations d1 uid ok) = filter (\<lambda>o'. org_id o' = oid) (joined_organizations d2 uid ok)"
  unfolding joined_organizations_def filter_concat map_map
proof (rule nested_tenant [OF agree_onD(2) [OF assms]])
  fix o' :: organization
  let ?row = "\<lambda>m. if mem_organization_id m = org_id o' \<and> mem_user_id m = uid \<and> ok (mem_role m) then [o'] else []"
  assume "org_id o' = oid"
  then have "concat (map ?row (memberships d1)) = concat (map ?row (memberships d2))"
    by (intro comprehension_tenant [OF agree_onD(3) [OF assms]]) simp_all
  then show "(filter (\<lambda>o'. org_id o' = oid) \<circ> (\<lambda>o'. concat (map (\<lambda>m. if mem_organization_id m = org_id o' \<and> mem_user_id m = uid \<and>
      ok (mem_role m) then [o'] else []) (memberships d1)))) o' =
    (filter (\<lambda>o'. org_id o' = oid) \<circ> (\<lambda>o'. concat (map (\<lambda>m. if mem_organization_id m = org_id o' \<and> mem_user_id m = uid \<and>
      ok (mem_role m) then [o'] else []) (memberships d2)))) o'" by simp
qed (auto simp: filter_empty_conv split: if_splits)

lemma queries_agree:
  assumes "agree_on oid d1 d2"
  shows "select_membership d1 oid uid = select_membership d2 oid uid" "is_member oid uid d1 = is_member oid uid d2"
    "find_organization d1 oid = find_organization d2 oid" "find_subscription d1 oid = find_subscription d2 oid"
    "usage_total d1 oid metric s e = usage_total d2 oid metric s e"
    "list_audit_logs oid l k d1 = list_audit_logs oid l k d2"
proof -
  note a = agree_onD [OF assms]
  show "select_membership d1 oid uid = select_membership d2 oid uid"
    unfolding select_membership_def by (subst filter_tenant [OF a(3)]) auto
  show "is_member oid uid d1 = is_member oid uid d2" using assms by (simp add: is_member_view agree_on_def)
  show "find_organization d1 oid = find_organization d2 oid" "find_subscription d1 oid = find_subscription d2 oid"
    by (simp_all add: find_organization_def find_subscription_def a)
  show "usage_total d1 oid metric s e = usage_total d2 oid metric s e"
    unfolding usage_total_def by (subst filter_tenant [OF a(7)]) auto
  show "list_audit_logs oid l k d1 = list_audit_logs oid l k d2"
    unfolding list_audit_logs_def by (simp add: a)
qed

lemma reads_agree:
  assumes "agree_on oid d1 d2"
  shows "get_organization oid uid d1 = get_organization oid uid d2" "list_members oid d1 = list_members oid d2"
    "list_api_keys oid uid d1 = list_api_keys oid uid d2" "list_projects oid uid d1 = list_projects oid uid d2"
    "get_project oid pid uid d1 = get_project oid pid uid d2" "get_usage_summary E oid metric now d1 = get_usage_summary E oid metric now d2"
    "get_subscription oid d1 = get_subscription oid d2"
proof -
  note a = agree_onD [OF assms] and q = queries_agree [OF assms]
  show "get_organization oid uid d1 = get_organization oid uid d2"
    by (simp add: get_organization_def select_organization_def joined_organizations_agree [OF assms])
  show "list_members oid d1 = list_members oid d2"
    unfolding list_members_def a(1) by (subst comprehension_tenant [OF a(3)]) auto
  show "list_projects oid uid d1 = list_projects oid uid d2"
    unfolding list_projects_def q(2) by (subst filter_tenant [OF a(5)]) auto
  show "get_project oid pid uid d1 = get_project oid pid uid d2"
    unfolding get_project_def q(2) by (subst filter_tenant [OF a(5)]) auto
  show "get_usage_summary E oid metric now d1 = get_usage_summary E oid metric now d2"
    by (simp add: get_usage_summary_def q)
  show "get_subscription oid d1 = get_subscription oid d2" by (simp add: get_subscription_def q)
  show "list_api_keys oid uid d1 = list_api_keys oid uid d2"
    unfolding list_api_keys_def
    by (rule arg_cong [OF nested_tenant [OF a(4)]]) (auto intro!: comprehension_tenant [OF a(3)])
qed

section \<open>Actions that see one tenant\<close>

definition agreeing :: "uuid \<Rightarrow> 'a action \<Rightarrow> bool" where
  "agreeing oid m = (\<forall>d1 d2 r. agree_on oid d1 d2 \<longrightarrow> (\<exists>x r'. m (d1, r) = (x, (d1, r')) \<and> m (d2, r) = (x, (d2, r'))))"

lemma agreeingE:
  assumes "agreeing oid m" "agree_on oid d1 d2"
  obtains x r' where "m (d1, r) = (x, (d1, r'))" "m (d2, r) = (x, (d2, r'))"
  using assms unfolding agreeing_def by blast

lemma agreeing_bind_on:
  assumes m: "agreeing oid m" and f: "\<And>s x s1. m s = (Inr x, s1) \<Longrightarrow> agreeing oid (f x)"
  shows "agreeing oid (a_bind m f)"
  unfolding agreeing_def
proof (intro allI impI)
  fix d1 d2 :: db and r :: redis
  assume a: "agree_on oid d1 d2"
  obtain x r1 where p: "m (d1, r) = (x, (d1, r1))" "m (d2, r) = (x, (d2, r1))" by (rule agreeingE [OF m a])
  show "\<exists>x r'. a_bind m f (d1, r) = (x, (d1, r')) \<and> a_bind m f (d2, r) = (x, (d2, r'))"
  proof (cases x)
    case (Inr y)
    with f p(1) have "agreeing oid (f y)" by blast
    then obtain z r2 where "f y (d1, r1) = (z, (d1, r2))" "f y (d2, r1) = (z, (d2, r2))" by (rule agreeingE [OF _ a])
    then show ?thesis using p Inr by (simp add: a_bind_def)
  qed (use p in \<open>simp add: a_bind_def\<close>)
qed

lemma agreeing_bind: "agreeing oid m \<Longrightarrow> (\<And>x. agreeing oid (f x)) \<Longrightarrow> agreeing oid (a_bind m f)"
  by (rule agreeing_bind_on)

lemma agreeing_simple: "agreeing oid (ret x)" "agreeing oid (checked e)" "agreeing oid (body b)" "agreeing oid (on_redis g)"
  by (auto simp: agreeing_def body_def on_redis_def ret_def checked_def split: prod.splits)

lemma agreeing_query: "(\<And>d1 d2. agree_on oid d1 d2 \<Longrightarrow> q d1 = q d2) \<Longrightarrow> agreeing oid (query q)"
  by (simp add: agreeing_def)

lemma agreeing_split: "(\<And>x y. agreeing oid (f x y)) \<Longrightarrow> agreeing oid (case p of (x, y) \<Rightarrow> f x y)"
  by (cases p) simp

lemma agreeing_session: 
  assumes "agreeing oid m"
  shows "agreeing oid (session m)"
  unfolding agreeing_def
proof (intro allI impI)
  fix d1 d2 :: db and r :: redis
  assume "agree_on oid d1 d2"
  then obtain x r1 where "m (d1, r) = (x, (d1, r1))" "m (d2, r) = (x, (d2, r1))" by (rule agreeingE [OF assms])
  then show "\<exists>x r'. session m (d1, r) = (x, (d1, r')) \<and> session m (d2, r) = (x, (d2, r'))"
    by (cases x) (simp_all add: session_def)
qed

lemma agreeing_current_user: "agreeing oid (get_current_user X S E c)"
  unfolding get_current_user_def by (intro agreeing_bind agreeing_simple agreeing_query) (simp add: agree_on_def)

lemma agreeing_current_member: "agreeing oid (current_member X S E c oid roles)"
  unfolding current_member_def get_current_membership_def require_roles_def
  by (intro agreeing_bind agreeing_current_user agreeing_simple agreeing_query arg_cong2 [of _ _ _ _ require] queries_agree refl)

text \<open>The membership a route obtains belongs to the organization in its path.\<close>

lemma agreeing_member:
  assumes "\<And>u m. mem_organization_id m = oid \<Longrightarrow> agreeing oid (f u m)"
  shows "agreeing oid (a_bind (current_member X S E c oid roles) (\<lambda>(u, m). f u m))"
proof (rule agreeing_bind_on [OF agreeing_current_member])
  fix s x s1
  assume a: "current_member X S E c oid roles s = (Inr x, s1)"
  obtain d r d1 r1 u m where p: "s = (d, r)" "s1 = (d1, r1)" "x = (u, m)" by (metis surj_pair)
  have "select_membership d oid (usr_id u) = Some m" using a p by (simp add: current_member_InrD(4))
  then have "mem_organization_id m = oid" by (simp add: select_membershipD)
  then show "agreeing oid (case x of (u, m) \<Rightarrow> f u m)" using assms p(3) by simp
qed

lemmas agreeing_intros = agreeing_session agreeing_member agreeing_bind agreeing_split agreeing_simple agreeing_query
  agreeing_current_member reads_agree queries_agree

section \<open>Requests that read one organization\<close>

definition read_of :: "request \<Rightarrow> uuid option" where
  "read_of req = (case req of
       OrganizationRequest (GetOrganization _ oid) \<Rightarrow> Some oid
     | MemberRequest (ListMembers _ oid) \<Rightarrow> Some oid
     | KeyRequest (ListApiKeys _ oid) \<Rightarrow> Some oid
     | ProjectRequest (ListProjects _ oid) \<Rightarrow> Some oid
     | ProjectRequest (GetProject _ oid _) \<Rightarrow> Some oid
     | BillingRequest (ReadUsage _ oid) \<Rightarrow> Some oid
     | BillingRequest (ReadSubscription _ oid) \<Rightarrow> Some oid
     | BillingRequest (ReadAuditLog _ oid _ _) \<Rightarrow> Some oid
     | _ \<Rightarrow> None)"

lemma handle_agreeing: "read_of req = Some oid \<Longrightarrow> agreeing oid (handle X S dh E req)"
  by (auto simp: read_of_def route_defs intro!: agreeing_intros split: request.splits organization_request.splits
      member_request.splits key_request.splits project_request.splits billing_request.splits)

end
