(* ===== verification/Metering.thy ===== *)
theory Metering
  imports Billing Samples
begin

text \<open>
  The guarantees of usage metering and billing: quotas are never exceeded and refusals are exact, the
  billing period of an instant always exists and contains it, and a plan change has the effect
  asked for and no other.
\<close>

section \<open>Sequences of usage events\<close>

text \<open>A usage report of a client: its environment, organization, metric and quantity.\<close>

definition report_usage :: "runtime \<times> uuid \<times> string \<times> int \<Rightarrow> db \<Rightarrow> exc + usage_event \<times> db" where
  "report_usage = (\<lambda>(E, oid, metric, q). record_usage E oid metric q None)"

lemma report_usage_step:
  assumes "report_usage (E, oid', metric', q) d = Inr (ev, d')" "usage_total d oid metric s e \<le> plan_quota (plan_of_subscription (find_subscription d oid))"
    "oid' = oid \<and> metric' = metric \<longrightarrow> subscription_period E (find_subscription d oid) None = Inr (s, e)"
  shows "usage_total d' oid metric s e \<le> plan_quota (plan_of_subscription (find_subscription d oid)) \<and> find_subscription d' oid = find_subscription d oid"
proof -
  obtain s' e' where r: "subscription_period E (find_subscription d oid') None = Inr (s', e')" "1 \<le> q"
    "usage_total d oid' metric' s' e' + q \<le> plan_quota (plan_of_subscription (find_subscription d oid'))"
    "use_organization_id ev = oid'" "use_metric ev = metric'" "use_quantity ev = q" "add_usage_event ev d = Inr d'"
    using record_usage_InrD [OF assms(1) [unfolded report_usage_def case_prod_conv]] by blast
  have d': "d' = d\<lparr>usage_events := usage_events d @ [ev]\<rparr>" using add_usage_event_InrD [OF r(7)] by simp
  have "usage_total d' oid metric s e \<le> plan_quota (plan_of_subscription (find_subscription d oid))"
    unfolding d' usage_total_append using assms(2,3) r(1-6) by (auto simp: in_window_def)
  then show ?thesis by (simp add: d' find_subscription_def)
qed

section \<open>One report\<close>

text \<open>
  A report of at least one unit for an existing organization is refused exactly when it would
  exceed the quota, as a 429 whose \<open>Retry-After\<close> is the time to the end of the period and at least
  a second; otherwise the event is stored with the quantity reported.
\<close>

lemma record_usage_decision:
  assumes "find_organization d oid \<noteq> None" "1 \<le> q" "subscription_period E (find_subscription d oid) now = Inr (s, e)"
    "as_utc (now_or E 1 now) = Inr c" "rt_uuid E 0 \<notin> use_id ` set (usage_events d)"
  shows "record_usage E oid metric q now d =
    (if plan_quota (plan_of_subscription (find_subscription d oid)) < usage_total d oid metric s e + q
     then Inl (AppError 429 ''quota_exceeded'' (''Monthly '' @ metric @ '' quota exceeded'')
       (Some [(''Retry-After'', int_str (max 1 ((instant e - instant c) div 1000000)))]))
     else let ev = \<lparr>use_id = rt_uuid E 0, use_organization_id = oid, use_metric = metric, use_quantity = q, use_created_at = c\<rparr>
       in Inr (ev, d\<lparr>usage_events := usage_events d @ [ev]\<rparr>))"
proof -
  obtain o' where o: "find_organization d oid = Some o'" using assms(1) by blast
  have "oid \<in> org_ids d" using assms(1) unfolding find_organization_None by simp
  then show ?thesis
    using assms(2-5) o by (simp add: record_usage_def add_usage_event_def Let_def)
qed

section \<open>Reports of one period\<close>

text \<open>The reports of one organization and metric; \<open>serve\<close> and \<open>outcomes\<close> run them one after the other.\<close>

definition report_of :: "uuid \<Rightarrow> string \<Rightarrow> runtime \<times> int \<Rightarrow> db \<Rightarrow> exc + usage_event \<times> db" where
  "report_of oid metric = (\<lambda>(E, q). record_usage E oid metric q None)"

text \<open>Which quantities fit into what remains of an allowance when each takes its share in turn.\<close>

fun fitting :: "int \<Rightarrow> int list \<Rightarrow> bool list" where
  "fitting remaining [] = []"
| "fitting remaining (q # qs) = (if q \<le> remaining then True # fitting (remaining - q) qs else False # fitting remaining qs)"

lemma fitting_units:
  "0 \<le> remaining \<Longrightarrow> set qs \<subseteq> {1} \<Longrightarrow> length (filter (\<lambda>b. b) (fitting remaining qs)) = min (length qs) (nat remaining)"
  by (induction remaining qs rule: fitting.induct) (auto simp: min_def)

definition report_ready :: "uuid \<Rightarrow> datetime \<Rightarrow> datetime \<Rightarrow> db \<Rightarrow> runtime \<times> int \<Rightarrow> bool" where
  "report_ready oid s e d = (\<lambda>(E, q). 1 \<le> q \<and> subscription_period E (find_subscription d oid) None = Inr (s, e) \<and>
     (\<exists>c. as_utc (rt_clock E 1) = Inr c \<and> instant s \<le> instant c \<and> instant c < instant e) \<and> rt_uuid E 0 \<notin> use_id ` set (usage_events d))"

text \<open>The two possible answers to a report: 429 with the time to the end of the period, and at least a second, or the event.\<close>

definition answered :: "uuid \<Rightarrow> string \<Rightarrow> datetime \<Rightarrow> runtime \<times> int \<Rightarrow> exc + usage_event \<Rightarrow> bool" where
  "answered oid metric e = (\<lambda>(E, q) answer. \<exists>c. as_utc (rt_clock E 1) = Inr c \<and>
     (answer = Inl (AppError 429 ''quota_exceeded'' (''Monthly '' @ metric @ '' quota exceeded'')
        (Some [(''Retry-After'', int_str (max 1 ((instant e - instant c) div 1000000)))])) \<or>
      answer = Inr \<lparr>use_id = rt_uuid E 0, use_organization_id = oid, use_metric = metric, use_quantity = q, use_created_at = c\<rparr>))"

lemma reports_fitting:
  assumes "find_organization d oid \<noteq> None" "\<forall>r \<in> set reports. report_ready oid s e d r" "distinct (map (\<lambda>(E, q). rt_uuid E 0) reports)"
    "remaining = plan_quota (plan_of_subscription (find_subscription d oid)) - usage_total d oid metric s e"
  shows "map (\<lambda>x. \<not> isl x) (outcomes (report_of oid metric) reports d) = fitting remaining (map snd reports) \<and>
    list_all2 (answered oid metric e) reports (outcomes (report_of oid metric) reports d) \<and>
    usage_total (serve (report_of oid metric) reports d) oid metric s e =
      usage_total d oid metric s e + sum_list [use_quantity ev. Inr ev \<leftarrow> outcomes (report_of oid metric) reports d] \<and>
    (0 \<le> remaining \<longrightarrow> usage_total (serve (report_of oid metric) reports d) oid metric s e \<le> plan_quota (plan_of_subscription (find_subscription d oid)))"
  using assms
proof (induction reports arbitrary: d remaining)
  case (Cons r reports)
  obtain E q where r: "r = (E, q)" by (metis surj_pair)
  let ?used = "usage_total d oid metric s e" and ?limit = "plan_quota (plan_of_subscription (find_subscription d oid))"
  obtain c where c: "1 \<le> q" "subscription_period E (find_subscription d oid) None = Inr (s, e)" "as_utc (now_or E 1 None) = Inr c"
    "instant s \<le> instant c" "instant c < instant e" "rt_uuid E 0 \<notin> use_id ` set (usage_events d)"
    using Cons.prems(2) by (auto simp: r report_ready_def now_or_def)
  note dec = record_usage_decision [OF Cons.prems(1) c(1-3,6), of metric]
  show ?case
  proof (cases "?limit < ?used + q")
    case True
    let ?err = "AppError 429 ''quota_exceeded'' (''Monthly '' @ metric @ '' quota exceeded'')
       (Some [(''Retry-After'', int_str (max 1 ((instant e - instant c) div 1000000)))])"
    have g: "get_session (report_of oid metric r) d = (Inl ?err, d)"
      using True by (simp add: r report_of_def get_session_def dec)
    have "answered oid metric e r (Inl ?err)" using c(3) by (simp add: r answered_def now_or_def)
    moreover have "\<forall>r \<in> set reports. report_ready oid s e d r" "distinct (map (\<lambda>(E, q). rt_uuid E 0) reports)" using Cons.prems by auto
    note Cons.IH [OF Cons.prems(1) this Cons.prems(4)]
    ultimately show ?thesis using True Cons.prems(4) by (auto simp: r g [unfolded r])
  next
    case False
    let ?ev = "\<lparr>use_id = rt_uuid E 0, use_organization_id = oid, use_metric = metric, use_quantity = q, use_created_at = c\<rparr>"
    let ?d = "d\<lparr>usage_events := usage_events d @ [?ev]\<rparr>"
    have g: "get_session (report_of oid metric r) d = (Inr ?ev, ?d)"
      using False by (simp add: r report_of_def get_session_def dec Let_def)
    have u: "usage_total ?d oid metric s e = ?used + q"
      using c by (simp add: usage_total_append in_window_def dt_le_def dt_lt_def)
    have f: "find_organization ?d oid \<noteq> None" "find_subscription ?d oid = find_subscription d oid"
      using Cons.prems(1) by (simp_all add: find_organization_def find_subscription_def)
    have "\<forall>r \<in> set reports. report_ready oid s e ?d r" "distinct (map (\<lambda>(E, q). rt_uuid E 0) reports)"
      using Cons.prems(2,3) f(2) by (auto simp: r report_ready_def rev_image_eqI)
    note ready = this
    have "remaining - q = plan_quota (plan_of_subscription (find_subscription ?d oid)) - usage_total ?d oid metric s e"
      using Cons.prems(4) by (simp add: u f(2))
    note Cons.IH [OF f(1) ready this]
    moreover have "answered oid metric e r (Inr ?ev)" using c(3) by (simp add: r answered_def now_or_def)
    moreover have "q \<le> remaining" using False Cons.prems(4) by simp
    ultimately show ?thesis by (simp add: r g [unfolded r] u f(2))
  qed
qed simp

section \<open>Properties\<close>

text \<open>
  The quota holds: whatever sequence of usage reports is served, of any organizations and
  quantities, the usage of an organization in its billing period never exceeds the quota of its plan.
\<close>

lemma quota_never_exceeded:
  assumes "usage_total d oid metric s e \<le> plan_quota (plan_of_subscription (find_subscription d oid))"
    "\<forall>(E, oid', metric', q) \<in> set reports. oid' = oid \<and> metric' = metric \<longrightarrow> subscription_period E (find_subscription d oid) None = Inr (s, e)"
  shows "usage_total (serve report_usage reports d) oid metric s e \<le> plan_quota (plan_of_subscription (find_subscription d oid))"
  using assms
proof (induction reports arbitrary: d)
  case (Cons a reports)
  obtain E oid' metric' q where a: "a = (E, oid', metric', q)" by (metis surj_pair)
  show ?case
  proof (cases "report_usage a d")
    case (Inl x)
    then show ?thesis using Cons by (simp add: get_session_def)
  next
    case (Inr p)
    obtain ev d' where p: "p = (ev, d')" by (metis surj_pair)
    have s: "usage_total d' oid metric s e \<le> plan_quota (plan_of_subscription (find_subscription d oid))" "find_subscription d' oid = find_subscription d oid"
      using report_usage_step [of E oid' metric' q d ev d' oid metric s e] Inr Cons.prems p a by simp_all
    then show ?thesis using Cons.IH [of d'] Cons.prems Inr p by (simp add: get_session_def)
  qed
qed simp

text \<open>
  C21. The quota is exact: of the reports of one organization, metric and billing period, in any number
  and of any quantities, each that fits into what is left of the quota when its turn comes is stored,
  and each that does not is refused with a 429 whose \<open>Retry-After\<close> is the time to the end of the period
  and at least a second; what was refused does not count. The usage grows by what was stored and never
  passes the quota, and of reports of one unit exactly as many are stored as units were left.
\<close>

theorem quota_exact:
  assumes "find_organization d oid \<noteq> None" "\<forall>r \<in> set reports. report_ready oid s e d r" "distinct (map (\<lambda>(E, q). rt_uuid E 0) reports)"
    "remaining = plan_quota (plan_of_subscription (find_subscription d oid)) - usage_total d oid metric s e"
  shows "map (\<lambda>x. \<not> isl x) (outcomes (report_of oid metric) reports d) = fitting remaining (map snd reports) \<and>
    list_all2 (answered oid metric e) reports (outcomes (report_of oid metric) reports d) \<and>
    usage_total (serve (report_of oid metric) reports d) oid metric s e =
      usage_total d oid metric s e + sum_list [use_quantity ev. Inr ev \<leftarrow> outcomes (report_of oid metric) reports d] \<and>
    (0 \<le> remaining \<longrightarrow> usage_total (serve (report_of oid metric) reports d) oid metric s e \<le> plan_quota (plan_of_subscription (find_subscription d oid))) \<and>
    (0 \<le> remaining \<and> snd ` set reports \<subseteq> {1} \<longrightarrow>
       length (filter (\<lambda>x. \<not> isl x) (outcomes (report_of oid metric) reports d)) = min (length reports) (nat remaining))"
proof -
  note r = reports_fitting [OF assms]
  have n: "length (filter (\<lambda>x. \<not> isl x) (outcomes (report_of oid metric) reports d)) = length (filter (\<lambda>b. b) (fitting remaining (map snd reports)))"
    unfolding conjunct1 [OF r, symmetric] by (simp only: filter_map length_map comp_def)
  have "0 \<le> remaining \<and> snd ` set reports \<subseteq> {1} \<longrightarrow>
      length (filter (\<lambda>x. \<not> isl x) (outcomes (report_of oid metric) reports d)) = min (length reports) (nat remaining)"
    unfolding n using fitting_units [of remaining "map snd reports"] by simp
  with r show ?thesis by (elim conjE) (intro conjI)
qed

theorem quota_exact_witness:
  "map (\<lambda>x. \<not> isl x) (outcomes (report_of 10 ''api_requests'') [(sample_rt, 990), (later_uuid 1 sample_rt, 10), (later_uuid 2 sample_rt, 5)] sample_db) =
    [True, False, True]"
proof -
  let ?s = "sample_now\<lparr>day := 1, hour := 0\<rparr>" and ?e = "sample_now\<lparr>month := 6, day := 1, hour := 0\<rparr>"
  have f: "find_subscription sample_db 10 = Some (sample_sub 21 10 FREE)" "find_organization sample_db 10 \<noteq> None" by (simp_all add: service_defs)
  have p: "subscription_period sample_rt (Some (sample_sub 21 10 FREE)) None = Inr (?s, ?e)" by code_simp
  have p': "subscription_period (later_uuid k sample_rt) (Some (sample_sub 21 10 FREE)) None = Inr (?s, ?e)" for k
    using p by (simp add: subscription_period_def now_or_def later_uuid_def)
  have u: "as_utc (rt_clock sample_rt 1) = Inr sample_now" "instant ?s \<le> instant sample_now" "instant sample_now < instant ?e" by code_simp+
  have t: "plan_quota (plan_of_subscription (find_subscription sample_db 10)) - usage_total sample_db 10 ''api_requests'' ?s ?e = 995"
    by code_simp
  have i: "rt_uuid sample_rt k \<notin> use_id ` set (usage_events sample_db)" if "k < 3" for k
    using that by (auto simp: service_defs less_Suc_eq numeral_3_eq_3)
  have "report_ready 10 ?s ?e sample_db (later_uuid k sample_rt, q)" if "k < 3" "1 \<le> q" for k q
    using u p' i that by (auto simp: report_ready_def f later_uuid_def)
  from this [of 0] this [of 1] this [of 2]
  have "\<forall>r \<in> set [(sample_rt, 990), (later_uuid 1 sample_rt, 10), (later_uuid 2 sample_rt, 5)]. report_ready 10 ?s ?e sample_db r"
    by (simp add: later_uuid_def)
  moreover have "distinct (map (\<lambda>(E, q :: int). rt_uuid E 0) [(sample_rt, 990), (later_uuid 1 sample_rt, 10), (later_uuid 2 sample_rt, 5)])"
    by (simp add: later_uuid_def sample_rt_def)
  ultimately show ?thesis using quota_exact [OF f(2) _ _ t [symmetric]] by (simp del: outcomes.simps)
qed

text \<open>
  C20. The billing period of an organization is always determined, for every clock reading up to the
  year 9998, and contains the reading, unless the stored period begins in the future, in which case
  it is the stored one. In particular the loop over the months ends.
\<close>

theorem subscription_period_contains_now:
  assumes "valid_dt (rt_clock E 0)" "is_utc (rt_clock E 0)" "year (rt_clock E 0) \<le> 9998"
    "\<forall>sub. subscription = Some sub \<longrightarrow> valid_dt (sub_current_period_start sub) \<and> is_utc (sub_current_period_start sub) \<and>
       valid_dt (sub_current_period_end sub) \<and> is_utc (sub_current_period_end sub)"
  shows "\<exists>s e. subscription_period E subscription None = Inr (s, e) \<and>
    (instant s \<le> instant (rt_clock E 0) \<and> instant (rt_clock E 0) < instant e \<or>
     (\<exists>sub. subscription = Some sub \<and> s = sub_current_period_start sub \<and> e = sub_current_period_end sub \<and>
        instant (rt_clock E 0) < instant s \<and> instant s < instant e))"
proof (cases subscription)
  case None
  then show ?thesis
    using calendar_period_contains [OF assms(1-3)] assms(2) by (auto simp: subscription_period_def now_or_def)
next
  case (Some sub)
  let ?s = "sub_current_period_start sub" and ?e = "sub_current_period_end sub" and ?c = "rt_clock E 0"
  have v: "valid_dt ?s" "is_utc ?s" "valid_dt ?e" "is_utc ?e" using assms(4) Some by simp_all
  have d: "subscription_period E subscription None =
      (if dt_le ?e ?s then calendar_period ?c else if dt_lt ?c ?s then Inr (?s, ?e) else period_loop ?c ?s ?e)"
    using Some v assms(2) by (simp add: subscription_period_def now_or_def)
  obtain p where "period_loop ?c ?s ?e = Inr p" using period_loop_returns [OF assms(1-3) v(3,4)] by blast
  then obtain s e where l: "period_loop ?c ?s ?e = Inr (s, e)" by (metis surj_pair)
  note c = calendar_period_contains [OF assms(1-3)]
  show ?thesis
    unfolding d using c l period_loop_contains [OF l v] Some by (auto simp: dt_le_def dt_lt_def not_le not_less)
qed

theorem subscription_period_contains_now_witness:
  "\<exists>s e. subscription_period (sample_rt\<lparr>rt_clock := \<lambda>_. sample_now\<lparr>year := 2026\<rparr>\<rparr>) (Some (sample_sub 21 10 FREE)) None = Inr (s, e) \<and>
    (instant s \<le> instant (sample_now\<lparr>year := 2026\<rparr>) \<and> instant (sample_now\<lparr>year := 2026\<rparr>) < instant e \<or>
     instant (sample_now\<lparr>year := 2026\<rparr>) < instant (sub_current_period_start (sample_sub 21 10 FREE)))"
proof -
  have "valid_dt (sample_now\<lparr>year := 2026\<rparr>)" "is_utc (sample_now\<lparr>year := 2026\<rparr>)" "year (sample_now\<lparr>year := 2026\<rparr>) \<le> 9998"
    "valid_dt (sub_current_period_start (sample_sub 21 10 FREE))" "is_utc (sub_current_period_start (sample_sub 21 10 FREE))"
    "valid_dt (sub_current_period_end (sample_sub 21 10 FREE))" "is_utc (sub_current_period_end (sample_sub 21 10 FREE))"
    by code_simp+
  then show ?thesis
    using subscription_period_contains_now [of "sample_rt\<lparr>rt_clock := \<lambda>_. sample_now\<lparr>year := 2026\<rparr>\<rparr>" "Some (sample_sub 21 10 FREE)"] by auto
qed

text \<open>
  A month later than a UTC time is the same time of day in the following month, on the same day
  or on that month's last day when it is shorter, and later than the time itself; only December of
  the year 9999 has no successor.
\<close>

lemma add_month_next:
  assumes "valid_dt v" "is_utc v" "year v < 9999 \<or> month v < 12"
  shows "\<exists>w. add_month v = Inr w \<and> valid_dt w \<and> is_utc w \<and> time_micros w = time_micros v \<and>
    year w * 12 + month w = year v * 12 + month v + 1 \<and> day w = min (day v) (days_in_month (year w) (month w)) \<and>
    instant v < instant w"
proof -
  have "month_index v \<le> 9999 * 12 + 11" using assms(1,3) by (auto simp: month_index_def valid_dt_def valid_ymd_def)
  then obtain w where "add_month v = Inr w" "valid_dt w" "is_utc w" "time_micros w = time_micros v"
    "month_index w = month_index v + 1" "day w = min (day v) (days_in_month (year w) (month w))"
    using add_month_utc [OF assms(1,2)] by blast
  then show ?thesis using add_month_increases [OF assms(1,2), of w] by (auto simp: month_index_def)
qed

text \<open>
  After a successful plan change the organization has exactly one subscription, active, on the
  requested plan and with the period the service computed; the change is audited exactly when the
  plan differs from the previous one; no other tenant is touched.
\<close>

lemma change_plan_effect:
  assumes "change_plan E oid p actor_id ip now d = Inr (s, d')" "wf_db d" "find_subscription d oid = Some s0"
  shows "find_subscription d' oid = Some s \<and> sub_plan s = p \<and> sub_status s = ACTIVE \<and> sub_id s = sub_id s0 \<and>
    subscription_period (later_clock 1 E) (Some s0) now = Inr (sub_current_period_start s, sub_current_period_end s) \<and>
    length (audit_logs d') = length (audit_logs d) + (if sub_plan s0 = p then 0 else 1) \<and>
    (\<forall>oid'. oid' \<noteq> oid \<longrightarrow> tenant_view oid' d' = tenant_view oid' d)"
  using assms(1)
proof (rule change_plan_InrD)
  fix s1 d1 d2 ps pe
  assume a: "get_or_create_subscription E oid now d = Inr (s1, d1)" "subscription_period (later_clock 1 E) (Some s1) now = Inr (ps, pe)"
    "sub_id s = sub_id s1" "sub_organization_id s = sub_organization_id s1" "sub_plan s = p" "sub_status s = ACTIVE"
    "sub_current_period_start s = ps" "sub_current_period_end s = pe" "save_subscription s d1 = Inr d2"
    "if sub_plan s1 = p then d' = d2 else \<exists>e. write_audit (later_uuid 1 E) oid (Some actor_id) ''subscription.changed''
           ''subscription'' (uuid_str (sub_id s1)) [(''from_plan'', JStr (plan_value (sub_plan s1))), (''to_plan'', JStr (plan_value p))] ip d2 = Inr (e, d')"
  have s: "s1 = s0" "d1 = d" using get_or_create_subscription_InrD [OF a(1)] assms(3) by auto
  have m: "s0 \<in> set (subscriptions d)" "sub_organization_id s0 = oid" using find_subscriptionD [OF assms(3)] by auto
  note d2 = save_subscription_InrD [OF a(9)]
  have t: "subscriptions d' = subscriptions d2" "length (audit_logs d') = length (audit_logs d) + (if sub_plan s0 = p then 0 else 1)"
    using a(10) d2 s by (auto split: if_splits dest: write_audit_InrD(2))
  have w: "wf_db d'" using change_plan_wf [OF assms(1,2)] .
  have "s \<in> set (subscriptions d')"
    using in_set_save_row [of s0 "subscriptions d" sub_id s s] m s a(3) t(1) d2 by simp
  then have "find_subscription d' oid = Some s"
    unfolding find_subscription_def
    using scalar_filter_unique [OF wf_unique(15) [OF w], of s "\<lambda>x. sub_organization_id x = oid"] m s a(4) by simp
  then show ?thesis using a t s change_plan_view [OF assms(1,2)] by simp
qed

end
