(* ===== verification/Seed.thy ===== *)
theory Seed
  imports Organizations Projects Security Samples
begin

text \<open>
  The demo data script, \<^verbatim>\<open>scripts/seed_demo.py\<close>: in one transaction it looks up or creates three users, an
  organization, their memberships, three projects and a subscription on the PRO plan. The query before
  each object flushes the objects added so far, so every \<open>session.add\<close> is an insert at once.
  The \<open>k\<close>-th object of its kind takes the \<open>k\<close>-th identifier of its block of the environment's identifiers.
\<close>

section \<open>The script\<close>

definition DEMO_PASSWORD :: string where
  "DEMO_PASSWORD = ''tenantforge-demo''"

definition DEMO_USERS :: "(string \<times> role) list" where
  "DEMO_USERS =
     [(''owner@tenantforge.local'', OWNER), (''admin@tenantforge.local'', ADMIN), (''member@tenantforge.local'', MEMBER)]"

definition DEMO_PROJECTS :: "(string \<times> string) list" where
  "DEMO_PROJECTS =
     [(''Public API'', ''Customer-facing API surface and integrations.''),
      (''Usage Dashboard'', ''Monthly usage and quota reporting.''),
      (''Billing Adapter'', ''Development billing workflow and webhook handling.'')]"

definition later_token :: "nat \<Rightarrow> runtime \<Rightarrow> runtime" where
  "later_token k E = E\<lparr>rt_token := (\<lambda>n. rt_token E (n + k))\<rparr>"

definition find_email :: "string \<Rightarrow> db \<Rightarrow> user option" where
  "find_email email d = scalar (filter (\<lambda>u. usr_email u = email) (users d))"

definition demo_user :: "ext \<Rightarrow> runtime \<Rightarrow> string \<Rightarrow> user" where
  "demo_user X E email = \<lparr>usr_id = rt_uuid E 0, usr_email = email, usr_password_hash = hash_password X E DEMO_PASSWORD,
     usr_is_active = True, usr_is_verified = True, usr_created_at = rt_db_now E, usr_updated_at = rt_db_now E\<rparr>"

definition get_or_create_user :: "ext \<Rightarrow> runtime \<Rightarrow> string \<Rightarrow> db \<Rightarrow> exc + user \<times> db" where
  "get_or_create_user X E email d =
     (case find_email email d of
        Some user \<Rightarrow> Inr (user, d)
      | None \<Rightarrow> let user = demo_user X E email in r_bind (add_user user d) (\<lambda>d'. Inr (user, d')))"

fun seed_users :: "ext \<Rightarrow> runtime \<Rightarrow> (string \<times> role) list \<Rightarrow> (role \<Rightarrow> user option) \<Rightarrow> db \<Rightarrow> exc + (role \<Rightarrow> user option) \<times> db" where
  "seed_users X E [] us d = Inr (us, d)"
| "seed_users X E ((email, role) # rest) us d =
     r_bind (get_or_create_user X E email d) (\<lambda>(user, d1).
     seed_users X (later_uuid 1 (later_token 1 E)) rest (us(role \<mapsto> user)) d1)"

definition find_slug :: "string \<Rightarrow> db \<Rightarrow> organization option" where
  "find_slug slug d = scalar (filter (\<lambda>g. org_slug g = slug) (organizations d))"

definition seed_organization :: "runtime \<Rightarrow> db \<Rightarrow> exc + organization \<times> db" where
  "seed_organization E d =
     (case find_slug ''acme-labs'' d of
        Some organization \<Rightarrow> Inr (organization, d)
      | None \<Rightarrow>
          let organization = \<lparr>org_id = rt_uuid E 0, org_name = ''Acme Labs'', org_slug = ''acme-labs'',
                org_created_at = rt_db_now E, org_updated_at = rt_db_now E\<rparr>
          in r_bind (add_organization organization d) (\<lambda>d'. Inr (organization, d')))"

fun seed_memberships :: "runtime \<Rightarrow> uuid \<Rightarrow> (role \<Rightarrow> user option) \<Rightarrow> (string \<times> role) list \<Rightarrow> db \<Rightarrow> exc + db" where
  "seed_memberships E oid us [] d = Inr d"
| "seed_memberships E oid us ((email, role) # rest) d =
     r_bind (require (us role) (KeyError ''role'')) (\<lambda>user.
     r_bind (case select_membership d oid (usr_id user) of
               Some _ \<Rightarrow> Inr d
             | None \<Rightarrow> add_membership \<lparr>mem_id = rt_uuid E 0, mem_user_id = usr_id user, mem_organization_id = oid,
                         mem_role = role, mem_joined_at = rt_db_now E\<rparr> d) (\<lambda>d1.
     seed_memberships (later_uuid 1 E) oid us rest d1))"

definition find_project :: "uuid \<Rightarrow> string \<Rightarrow> db \<Rightarrow> project option" where
  "find_project oid name d = scalar (filter (\<lambda>p. prj_organization_id p = oid \<and> prj_name p = name) (projects d))"

fun seed_projects :: "runtime \<Rightarrow> uuid \<Rightarrow> uuid \<Rightarrow> (string \<times> string) list \<Rightarrow> db \<Rightarrow> exc + db" where
  "seed_projects E oid owner_id [] d = Inr d"
| "seed_projects E oid owner_id ((name, description) # rest) d =
     r_bind (case find_project oid name d of
               Some _ \<Rightarrow> Inr d
             | None \<Rightarrow> add_project \<lparr>prj_id = rt_uuid E 0, prj_organization_id = oid, prj_name = name,
                         prj_description = Some description, prj_status = ACTIVE_PROJECT, prj_created_by = owner_id,
                         prj_created_at = rt_db_now E, prj_updated_at = rt_db_now E\<rparr> d) (\<lambda>d1.
     seed_projects (later_uuid 1 E) oid owner_id rest d1)"

definition seed_subscription :: "runtime \<Rightarrow> uuid \<Rightarrow> db \<Rightarrow> exc + db" where
  "seed_subscription E oid d =
     (case find_subscription d oid of
        None \<Rightarrow>
          let period_start = rt_clock E 0 in
          r_bind (add_days period_start 30) (\<lambda>period_end.
          add_subscription \<lparr>sub_id = rt_uuid E 0, sub_organization_id = oid, sub_plan = PRO, sub_status = ACTIVE,
            sub_external_customer_id = None, sub_external_subscription_id = None,
            sub_current_period_start = period_start, sub_current_period_end = period_end,
            sub_created_at = rt_db_now E, sub_updated_at = rt_db_now E\<rparr> d)
      | Some subscription \<Rightarrow>
          save_subscription (touch_subscription E subscription (subscription\<lparr>sub_plan := PRO, sub_status := ACTIVE\<rparr>)) d)"

definition seed :: "ext \<Rightarrow> runtime \<Rightarrow> db \<Rightarrow> exc + unit \<times> db" where
  "seed X E d =
     r_bind (seed_users X E DEMO_USERS Map.empty d) (\<lambda>(us, d1).
     r_bind (seed_organization (later_uuid 3 E) d1) (\<lambda>(organization, d2).
     r_bind (seed_memberships (later_uuid 4 E) (org_id organization) us DEMO_USERS d2) (\<lambda>d3.
     r_bind (require (us OWNER) (KeyError ''owner'')) (\<lambda>owner.
     r_bind (seed_projects (later_uuid 7 E) (org_id organization) (usr_id owner) DEMO_PROJECTS d3) (\<lambda>d4.
     r_bind (seed_subscription (later_uuid 10 E) (org_id organization) d4) (\<lambda>d5.
     Inr ((), d5)))))))"

section \<open>What each step leaves behind\<close>

lemma scalar_append: "scalar xs = Some x \<Longrightarrow> scalar (xs @ ys) = Some x"
  by (cases xs) simp_all

lemma scalar_filter_append: "scalar (filter P xs) = Some x \<Longrightarrow> scalar (filter P (xs @ ys)) = Some x"
  by (simp add: scalar_append)

lemma add_InrD:
  "add_user u d = Inr d' \<Longrightarrow> d' = d\<lparr>users := users d @ [u]\<rparr>"
  "add_organization g d = Inr d' \<Longrightarrow> d' = d\<lparr>organizations := organizations d @ [g]\<rparr>"
  "add_membership m d = Inr d' \<Longrightarrow> d' = d\<lparr>memberships := memberships d @ [m]\<rparr>"
  "add_project p d = Inr d' \<Longrightarrow> d' = d\<lparr>projects := projects d @ [p]\<rparr>"
  by (auto simp: add_defs split: if_splits)

lemma get_or_create_user_InrD:
  assumes "get_or_create_user X E email d = Inr (u, d')"
  shows "(\<exists>ys. d' = d\<lparr>users := users d @ ys\<rparr>) \<and> find_email email d' = Some u \<and> (wf_db d \<longrightarrow> wf_db d')"
proof (cases "find_email email d")
  case None
  then have a: "u = demo_user X E email" "add_user u d = Inr d'"
    using assms by (auto simp: get_or_create_user_def Let_def)
  moreover have "find_email email d' = Some u"
    using None a(1) unfolding add_InrD(1) [OF a(2)] by (simp add: find_email_def demo_user_def)
  ultimately show ?thesis using add_InrD(1) wf_add_user by blast
next
  case (Some v)
  then show ?thesis using assms by (auto simp: get_or_create_user_def intro: exI [of _ "[]"])
qed

lemma seed_users_InrD:
  assumes "seed_users X E xs us d = Inr (us', d')" "distinct (map snd xs)"
  shows "(\<exists>ys. d' = d\<lparr>users := users d @ ys\<rparr>) \<and> (wf_db d \<longrightarrow> wf_db d') \<and>
    (\<forall>(email, role) \<in> set xs. us' role \<noteq> None \<and> find_email email d' = us' role) \<and> (\<forall>role. role \<notin> snd ` set xs \<longrightarrow> us' role = us role)"
  using assms
proof (induction X E xs us d rule: seed_users.induct)
  case (1 X E us d)
  then show ?case by (auto intro: exI [of _ "[]"])
next
  case (2 X E email role rest us d)
  obtain u d1 where g: "get_or_create_user X E email d = Inr (u, d1)"
    and r: "seed_users X (later_uuid 1 (later_token 1 E)) rest (us(role \<mapsto> u)) d1 = Inr (us', d')"
    using "2.prems"(1) by auto
  obtain ys where ys: "d1 = d\<lparr>users := users d @ ys\<rparr>" "find_email email d1 = Some u" "wf_db d \<longrightarrow> wf_db d1"
    using get_or_create_user_InrD [OF g] by blast
  obtain zs where zs: "d' = d1\<lparr>users := users d1 @ zs\<rparr>" "wf_db d1 \<longrightarrow> wf_db d'"
      "\<forall>(email, role) \<in> set rest. us' role \<noteq> None \<and> find_email email d' = us' role"
      "\<forall>role'. role' \<notin> snd ` set rest \<longrightarrow> us' role' = (us(role \<mapsto> u)) role'"
    using "2.IH" [OF r] "2.prems"(2) by auto
  have "us' role = Some u" using zs(4) "2.prems"(2) by simp
  moreover have "find_email email d' = Some u"
    using ys(2) unfolding zs(1) find_email_def by (simp add: scalar_append)
  moreover have "d' = d\<lparr>users := users d @ (ys @ zs)\<rparr>" using ys(1) zs(1) by simp
  ultimately show ?case using ys(3) zs(2,3,4) by auto
qed

lemma seed_users_found:
  assumes "\<forall>(email, role) \<in> set xs. f role \<noteq> None \<and> find_email email d = f role"
  shows "seed_users X E xs us d = Inr (\<lambda>role. if role \<in> snd ` set xs then f role else us role, d)"
  using assms
proof (induction X E xs us d rule: seed_users.induct)
  case (2 X E email role rest us d)
  then obtain u where u: "f role = Some u" "find_email email d = Some u" by auto
  then have g: "get_or_create_user X E email d = Inr (u, d)" by (simp add: get_or_create_user_def)
  have "seed_users X (later_uuid 1 (later_token 1 E)) rest (us(role \<mapsto> u)) d =
      Inr (\<lambda>role'. if role' \<in> snd ` set rest then f role' else (us(role \<mapsto> u)) role', d)"
    by (rule "2.IH") (use "2.prems" in simp)
  then show ?case using g u(1) by (auto simp: fun_eq_iff)
qed simp

lemma seed_organization_InrD:
  assumes "seed_organization E d = Inr (g, d')"
  shows "(d' = d \<and> find_slug ''acme-labs'' d = Some g) \<or> (add_organization g d = Inr d' \<and> find_slug ''acme-labs'' d' = Some g)"
proof (cases "find_slug ''acme-labs'' d")
  case None
  then have a: "add_organization g d = Inr d'" "org_slug g = ''acme-labs''"
    using assms by (auto simp: seed_organization_def Let_def)
  then have "find_slug ''acme-labs'' d' = Some g"
    using None unfolding add_InrD(2) [OF a(1)] by (simp add: find_slug_def)
  then show ?thesis using a(1) by blast
qed (use assms in \<open>simp add: seed_organization_def\<close>)

lemma select_membership_append:
  "select_membership d oid uid = Some m \<Longrightarrow> select_membership (d\<lparr>memberships := memberships d @ ms\<rparr>) oid uid = Some m"
  by (simp add: select_membership_def scalar_append)

lemma seed_memberships_InrD:
  assumes "seed_memberships E oid us xs d = Inr d'"
  shows "(\<exists>ms. d' = d\<lparr>memberships := memberships d @ ms\<rparr>) \<and> (wf_db d \<longrightarrow> wf_db d') \<and>
    (\<forall>(email, role) \<in> set xs. \<exists>u m. us role = Some u \<and> select_membership d' oid (usr_id u) = Some m)"
  using assms
proof (induction E oid us xs d rule: seed_memberships.induct)
  case (1 E oid us d)
  then show ?case by (auto intro: exI [of _ "[]"])
next
  case (2 E oid us email role rest d)
  obtain u where u: "us role = Some u" using "2.prems" by auto
  obtain d1 where s: "(case select_membership d oid (usr_id u) of Some _ \<Rightarrow> Inr d
      | None \<Rightarrow> add_membership \<lparr>mem_id = rt_uuid E 0, mem_user_id = usr_id u, mem_organization_id = oid, mem_role = role, mem_joined_at = rt_db_now E\<rparr> d) = Inr d1"
    and r: "seed_memberships (later_uuid 1 E) oid us rest d1 = Inr d'" using "2.prems" u by auto
  have "(\<exists>ms. d1 = d\<lparr>memberships := memberships d @ ms\<rparr>) \<and> (wf_db d \<longrightarrow> wf_db d1) \<and> (\<exists>m. select_membership d1 oid (usr_id u) = Some m)"
  proof (cases "select_membership d oid (usr_id u)")
    case None
    then have a: "add_membership \<lparr>mem_id = rt_uuid E 0, mem_user_id = usr_id u, mem_organization_id = oid, mem_role = role, mem_joined_at = rt_db_now E\<rparr> d = Inr d1"
      using s by simp
    have "\<exists>m. select_membership d1 oid (usr_id u) = Some m"
      using None unfolding add_InrD(3) [OF a] by (simp add: select_membership_def)
    then show ?thesis using add_InrD(3) [OF a] wf_add_membership [OF a] by blast
  next
    case (Some m)
    then show ?thesis using s by (auto intro: exI [of _ "[]"])
  qed
  then obtain ms m where ms: "d1 = d\<lparr>memberships := memberships d @ ms\<rparr>" "wf_db d \<longrightarrow> wf_db d1" "select_membership d1 oid (usr_id u) = Some m"
    by blast
  obtain ns where ns: "d' = d1\<lparr>memberships := memberships d1 @ ns\<rparr>" "wf_db d1 \<longrightarrow> wf_db d'"
      "\<forall>(email, role) \<in> set rest. \<exists>u m. us role = Some u \<and> select_membership d' oid (usr_id u) = Some m"
    using "2.IH" [OF r] by blast
  have "select_membership d' oid (usr_id u) = Some m" using select_membership_append [OF ms(3)] ns(1) by simp
  moreover have "d' = d\<lparr>memberships := memberships d @ (ms @ ns)\<rparr>" using ms(1) ns(1) by simp
  ultimately show ?case using ms(2) ns(2,3) u by auto
qed

lemma seed_memberships_found:
  assumes "\<forall>(email, role) \<in> set xs. \<exists>u m. us role = Some u \<and> select_membership d oid (usr_id u) = Some m"
  shows "seed_memberships E oid us xs d = Inr d"
  using assms
proof (induction E oid us xs d rule: seed_memberships.induct)
  case (2 E oid us email role rest d)
  then obtain u m where u: "us role = Some u" "select_membership d oid (usr_id u) = Some m" by auto
  have "seed_memberships (later_uuid 1 E) oid us rest d = Inr d" by (rule "2.IH") (use u "2.prems" in auto)
  then show ?case using u by simp
qed simp

lemma seed_projects_InrD:
  assumes "seed_projects E oid owner xs d = Inr d'"
  shows "(\<exists>ps. d' = d\<lparr>projects := projects d @ ps\<rparr>) \<and> (wf_db d \<longrightarrow> wf_db d') \<and>
    (\<forall>(name, description) \<in> set xs. find_project oid name d' \<noteq> None)"
  using assms
proof (induction E oid owner xs d rule: seed_projects.induct)
  case (1 E oid owner d)
  then show ?case by (auto intro: exI [of _ "[]"])
next
  case (2 E oid owner name description rest d)
  let ?p = "\<lparr>prj_id = rt_uuid E 0, prj_organization_id = oid, prj_name = name, prj_description = Some description,
    prj_status = ACTIVE_PROJECT, prj_created_by = owner, prj_created_at = rt_db_now E, prj_updated_at = rt_db_now E\<rparr>"
  obtain d1 where s: "(case find_project oid name d of Some _ \<Rightarrow> Inr d | None \<Rightarrow> add_project ?p d) = Inr d1"
    and r: "seed_projects (later_uuid 1 E) oid owner rest d1 = Inr d'" using "2.prems" by auto
  have "(\<exists>ps. d1 = d\<lparr>projects := projects d @ ps\<rparr>) \<and> (wf_db d \<longrightarrow> wf_db d1) \<and> (\<exists>p. find_project oid name d1 = Some p)"
  proof (cases "find_project oid name d")
    case None
    then have a: "add_project ?p d = Inr d1" using s by simp
    have "\<exists>p. find_project oid name d1 = Some p" using None unfolding add_InrD(4) [OF a] by (simp add: find_project_def)
    then show ?thesis using add_InrD(4) [OF a] wf_add_project [OF a] by blast
  qed (use s in \<open>auto intro: exI [of _ "[]"]\<close>)
  then obtain ps p where ps: "d1 = d\<lparr>projects := projects d @ ps\<rparr>" "wf_db d \<longrightarrow> wf_db d1" "find_project oid name d1 = Some p" by blast
  obtain qs where qs: "d' = d1\<lparr>projects := projects d1 @ qs\<rparr>" "wf_db d1 \<longrightarrow> wf_db d'"
      "\<forall>(name, description) \<in> set rest. find_project oid name d' \<noteq> None"
    using "2.IH" [OF r] by blast
  have "find_project oid name d' = Some p" using ps(3) unfolding qs(1) find_project_def by (simp add: scalar_append)
  moreover have "d' = d\<lparr>projects := projects d @ (ps @ qs)\<rparr>" using ps(1) qs(1) by simp
  ultimately show ?case using ps(2) qs(2,3) by auto
qed

lemma seed_projects_found:
  assumes "\<forall>(name, description) \<in> set xs. find_project oid name d \<noteq> None"
  shows "seed_projects E oid owner xs d = Inr d"
  using assms by (induction E oid owner xs d rule: seed_projects.induct) auto

lemma seed_subscription_InrD:
  assumes "seed_subscription E oid d = Inr d'" "wf_db d"
  shows "wf_db d'" "\<exists>ss. d' = d\<lparr>subscriptions := ss\<rparr> \<and> sub_organization_id ` set (subscriptions d) \<subseteq> sub_organization_id ` set ss"
    "\<exists>s. find_subscription d' oid = Some s \<and> sub_plan s = PRO \<and> sub_status s = ACTIVE"
proof -
  have "wf_db d' \<and> (\<exists>ss. d' = d\<lparr>subscriptions := ss\<rparr> \<and> sub_organization_id ` set (subscriptions d) \<subseteq> sub_organization_id ` set ss) \<and>
    (\<exists>s. find_subscription d' oid = Some s \<and> sub_plan s = PRO \<and> sub_status s = ACTIVE)"
  proof (cases "find_subscription d oid")
    case None
    then obtain s where s: "add_subscription s d = Inr d'" "sub_plan s = PRO" "sub_status s = ACTIVE" "sub_organization_id s = oid"
      using assms(1) by (auto simp: seed_subscription_def Let_def)
    have d': "d' = d\<lparr>subscriptions := subscriptions d @ [s]\<rparr>" using add_subscription_InrD [OF s(1)] by simp
    have "find_subscription d' oid = Some s" using None s(4) unfolding d' by (simp add: find_subscription_def)
    then show ?thesis using wf_add_subscription [OF s(1) assms(2)] s(2,3) d' by auto
  next
    case (Some s)
    let ?s = "touch_subscription E s (s\<lparr>sub_plan := PRO, sub_status := ACTIVE\<rparr>)"
    have sv: "save_subscription ?s d = Inr d'" using assms(1) Some by (simp add: seed_subscription_def)
    have m: "s \<in> set (subscriptions d)" "sub_organization_id s = oid" using find_subscriptionD [OF Some] by simp_all
    have w: "wf_db d'" by (rule wf_save_subscription [OF sv assms(2) m(1)]) simp_all
    have d': "d' = d\<lparr>subscriptions := save_row sub_id ?s (subscriptions d)\<rparr>" by (rule save_subscription_InrD [OF sv])
    have "map sub_organization_id (save_row sub_id ?s (subscriptions d)) = map sub_organization_id (subscriptions d)"
      by (rule map_save_row_other [OF wf_unique(14) [OF assms(2)] m(1)]) simp_all
    then have o: "sub_organization_id ` set (save_row sub_id ?s (subscriptions d)) = sub_organization_id ` set (subscriptions d)"
      by (metis list.set_map)
    have "?s \<in> set (subscriptions d')" unfolding d' using m(1) by (simp add: in_set_save_row [OF m(1)])
    then have "find_subscription d' oid = Some ?s"
      unfolding find_subscription_def using m(2) by (intro scalar_filter_unique [OF wf_unique(15) [OF w]]) auto
    then show ?thesis using w o d' by (intro conjI exI [of _ "?s"]) auto
  qed
  then show "wf_db d'" "\<exists>ss. d' = d\<lparr>subscriptions := ss\<rparr> \<and> sub_organization_id ` set (subscriptions d) \<subseteq> sub_organization_id ` set ss"
    "\<exists>s. find_subscription d' oid = Some s \<and> sub_plan s = PRO \<and> sub_status s = ACTIVE" by blast+
qed

lemma save_subscription_unchanged:
  assumes "wf_db d" "s \<in> set (subscriptions d)"
  shows "save_subscription s d = Inr d"
proof -
  have "x = s" if "x \<in> set (subscriptions d)" "sub_external_subscription_id x = sub_external_subscription_id s"
      "sub_external_subscription_id s \<noteq> None" for x
    using assms that unique_onD [of sub_external_subscription_id "filter (\<lambda>r. sub_external_subscription_id r \<noteq> None) (subscriptions d)" x s]
    by (simp add: wf_defs unique_opt_def)
  then show ?thesis
    using save_row_id [OF wf_unique(14) [OF assms(1)] assms(2)] by (auto simp: save_subscription_def)
qed

lemma seed_subscription_found:
  assumes "wf_db d" "find_subscription d oid = Some s" "sub_plan s = PRO" "sub_status s = ACTIVE"
  shows "seed_subscription E oid d = Inr d"
proof -
  have "s\<lparr>sub_plan := PRO, sub_status := ACTIVE\<rparr> = s" using assms(3,4) by simp
  then show ?thesis
    using save_subscription_unchanged [OF assms(1)] find_subscriptionD [OF assms(2)] assms(2)
    by (simp add: seed_subscription_def touch_subscription_def)
qed

lemma seed_memberships_first_owner:
  assumes "seed_memberships E oid us ((email, OWNER) # rest) d = Inr d'" "\<forall>m \<in> set (memberships d). mem_organization_id m \<noteq> oid"
  shows "owned d' oid"
proof -
  have n: "select_membership d oid uid = None" for uid using assms(2) by (simp add: select_membership_def filter_empty_conv)
  obtain u where u: "us OWNER = Some u" using assms(1) by auto
  obtain d1 where a: "add_membership \<lparr>mem_id = rt_uuid E 0, mem_user_id = usr_id u, mem_organization_id = oid, mem_role = OWNER, mem_joined_at = rt_db_now E\<rparr> d = Inr d1"
    and r: "seed_memberships (later_uuid 1 E) oid us rest d1 = Inr d'"
    using assms(1) n u by auto
  have "owned d1 oid" unfolding add_InrD(3) [OF a] by (simp add: owned_def)
  moreover obtain ms where "d' = d1\<lparr>memberships := memberships d1 @ ms\<rparr>" using seed_memberships_InrD [OF r] by blast
  ultimately show ?thesis by (auto simp: owned_def)
qed

text \<open>The states between the steps of a successful run.\<close>

lemma seed_InrD:
  assumes "seed X E d = Inr ((), d')" "wf_db d"
  obtains us d1 g d2 d3 owner d4 where
    "seed_users X E DEMO_USERS Map.empty d = Inr (us, d1)" "seed_organization (later_uuid 3 E) d1 = Inr (g, d2)"
    "seed_memberships (later_uuid 4 E) (org_id g) us DEMO_USERS d2 = Inr d3" "us OWNER = Some owner"
    "seed_projects (later_uuid 7 E) (org_id g) (usr_id owner) DEMO_PROJECTS d3 = Inr d4"
    "seed_subscription (later_uuid 10 E) (org_id g) d4 = Inr d'"
    "wf_db d1" "wf_db d2" "wf_db d3" "wf_db d4" "wf_db d'"
    "users d' = users d1" "organizations d' = organizations d2" "memberships d' = memberships d3" "projects d' = projects d4"
    "organizations d1 = organizations d" "memberships d1 = memberships d" "memberships d2 = memberships d" "subscriptions d4 = subscriptions d"
proof -
  obtain us d1 g d2 d3 owner d4 where s: "seed_users X E DEMO_USERS Map.empty d = Inr (us, d1)"
    "seed_organization (later_uuid 3 E) d1 = Inr (g, d2)" "seed_memberships (later_uuid 4 E) (org_id g) us DEMO_USERS d2 = Inr d3"
    "us OWNER = Some owner" "seed_projects (later_uuid 7 E) (org_id g) (usr_id owner) DEMO_PROJECTS d3 = Inr d4"
    "seed_subscription (later_uuid 10 E) (org_id g) d4 = Inr d'"
    using assms(1) by (auto simp: seed_def)
  have "distinct (map snd DEMO_USERS)" by (simp add: DEMO_USERS_def)
  then obtain us' where d1: "d1 = d\<lparr>users := us'\<rparr>" and w1: "wf_db d1" using seed_users_InrD [OF s(1)] assms(2) by blast
  have "wf_db d2 \<and> (\<exists>gs. d2 = d1\<lparr>organizations := gs\<rparr>)"
    using seed_organization_InrD [OF s(2)] w1 add_InrD(2) wf_add_organization by (metis db.surjective db.update_convs(3))
  then obtain gs where d2: "d2 = d1\<lparr>organizations := gs\<rparr>" and w2: "wf_db d2" by blast
  obtain ms where d3: "d3 = d2\<lparr>memberships := ms\<rparr>" and w3: "wf_db d3" using seed_memberships_InrD [OF s(3)] w2 by blast
  obtain ps where d4: "d4 = d3\<lparr>projects := ps\<rparr>" and w4: "wf_db d4" using seed_projects_InrD [OF s(5)] w3 by blast
  obtain ss where d5: "d' = d4\<lparr>subscriptions := ss\<rparr>" using seed_subscription_InrD(2) [OF s(6) w4] by blast
  show thesis
    by (rule that [OF s w1 w2 w3 w4 seed_subscription_InrD(1) [OF s(6) w4]]) (simp_all add: d1 d2 d3 d4 d5)
qed

lemma seed_complete:
  assumes "seed X E d = Inr ((), d')" "wf_db d" "orgs_complete d"
  shows "orgs_complete d'"
proof -
  obtain us d1 g d2 d3 owner d4 where s: "seed_organization (later_uuid 3 E) d1 = Inr (g, d2)"
      "seed_memberships (later_uuid 4 E) (org_id g) us DEMO_USERS d2 = Inr d3"
      "seed_subscription (later_uuid 10 E) (org_id g) d4 = Inr d'" "wf_db d1" "wf_db d4"
    and t: "organizations d' = organizations d2" "memberships d' = memberships d3"
      "organizations d1 = organizations d" "memberships d1 = memberships d" "memberships d2 = memberships d" "subscriptions d4 = subscriptions d"
    by (rule seed_InrD [OF assms(1,2)]) blast
  have own: "owned d' oid" if "owned d oid" for oid
    using that seed_memberships_InrD [OF s(2)] t(2,5) by (auto simp: owned_def)
  have "subscribed d' oid" if "subscribed d oid" for oid
    using that seed_subscription_InrD(2) [OF s(3,5)] t(6) by (auto simp: subscribed_iff)
  note kept = own this
  have sub: "subscribed d' (org_id g)"
    using seed_subscription_InrD(3) [OF s(3,5)] by (auto simp: subscribed_def dest: find_subscriptionD)
  show ?thesis
  proof (cases "d2 = d1")
    case True
    then show ?thesis using assms(3) kept t(1,3) by (simp add: orgs_complete_def)
  next
    case False
    then have a: "add_organization g d1 = Inr d2" using seed_organization_InrD [OF s(1)] by blast
    then have "org_id g \<notin> org_ids d1" by (simp add: add_organization_def split: if_splits)
    then have "\<forall>m \<in> set (memberships d2). mem_organization_id m \<noteq> org_id g"
      using wf_fk(2) [OF s(4)] t(4,5) by metis
    then have "owned d3 (org_id g)" using s(2) seed_memberships_first_owner by (simp add: DEMO_USERS_def del: seed_memberships.simps)
    then have "owned d' (org_id g)" using t(2) by (simp add: owned_def)
    then show ?thesis using assms(3) kept sub t(1,3) add_InrD(2) [OF a] by (auto simp: orgs_complete_def)
  qed
qed

interpretation seed_service: complete_service "\<lambda>(X, E). seed X E"
  by unfold_locales (auto elim: seed_InrD intro: seed_complete)

section \<open>Properties\<close>

text \<open>
  C34. The demo script can be run again: after a successful run on any installation, a second run, in
  whatever environment, succeeds and changes nothing; the run keeps the database constraints and
  leaves every organization an owner and a subscription.
\<close>

theorem seed_idempotent:
  assumes "seed X E d = Inr ((), d')" "wf_db d" "orgs_complete d"
  shows "seed X' E' d' = Inr ((), d') \<and> wf_db d' \<and> orgs_complete d'"
proof -
  obtain us d1 g d2 d3 owner d4 where s: "seed_users X E DEMO_USERS Map.empty d = Inr (us, d1)" "seed_organization (later_uuid 3 E) d1 = Inr (g, d2)"
      "seed_memberships (later_uuid 4 E) (org_id g) us DEMO_USERS d2 = Inr d3" "us OWNER = Some owner"
      "seed_projects (later_uuid 7 E) (org_id g) (usr_id owner) DEMO_PROJECTS d3 = Inr d4" "seed_subscription (later_uuid 10 E) (org_id g) d4 = Inr d'"
    and w: "wf_db d4" "wf_db d'"
    and t: "users d' = users d1" "organizations d' = organizations d2" "memberships d' = memberships d3" "projects d' = projects d4"
    by (rule seed_InrD [OF assms(1,2)]) blast
  have "distinct (map snd DEMO_USERS)" by (simp add: DEMO_USERS_def)
  then have "\<forall>(email, role) \<in> set DEMO_USERS. us role \<noteq> None \<and> find_email email d' = us role"
    using seed_users_InrD [OF s(1)] t(1) by (simp add: find_email_def)
  then have "seed_users X' E' DEMO_USERS Map.empty d' = Inr (\<lambda>role. if role \<in> snd ` set DEMO_USERS then us role else None, d')"
    by (rule seed_users_found)
  moreover have "(\<lambda>role. if role \<in> snd ` set DEMO_USERS then us role else None) = us"
    by (rule ext) (rename_tac role, case_tac role; simp add: DEMO_USERS_def)
  ultimately have users: "seed_users X' E' DEMO_USERS Map.empty d' = Inr (us, d')" by simp
  have "find_slug ''acme-labs'' d' = Some g" using seed_organization_InrD [OF s(2)] t(2) by (auto simp: find_slug_def)
  then have org: "seed_organization (later_uuid 3 E') d' = Inr (g, d')" by (simp add: seed_organization_def)
  have "\<forall>(email, role) \<in> set DEMO_USERS. \<exists>u m. us role = Some u \<and> select_membership d' (org_id g) (usr_id u) = Some m"
    using seed_memberships_InrD [OF s(3)] t(3) by (simp add: select_membership_def)
  then have mem: "seed_memberships (later_uuid 4 E') (org_id g) us DEMO_USERS d' = Inr d'" by (rule seed_memberships_found)
  have "\<forall>(name, description) \<in> set DEMO_PROJECTS. find_project (org_id g) name d' \<noteq> None"
    using seed_projects_InrD [OF s(5)] t(4) by (simp add: find_project_def)
  then have prj: "seed_projects (later_uuid 7 E') (org_id g) (usr_id owner) DEMO_PROJECTS d' = Inr d'" by (rule seed_projects_found)
  have "seed_subscription (later_uuid 10 E') (org_id g) d' = Inr d'"
    using seed_subscription_InrD(3) [OF s(6) w(1)] seed_subscription_found [OF w(2)] by blast
  then show ?thesis
    using users org mem prj s(4) w(2) seed_complete [OF assms] by (simp add: seed_def)
qed

theorem seed_idempotent_witness:
  "\<exists>d. seed sample_ext sample_rt sample_db = Inr ((), d) \<and> seed sample_ext sample_rt d = Inr ((), d)"
proof -
  have "add_days sample_now 30 = Inr (sample_now\<lparr>month := 6, day := 14\<rparr>)" by code_simp
  then have "\<exists>d. seed sample_ext sample_rt sample_db = Inr ((), d)"
    by (simp add: mem_pair_def seed_def DEMO_USERS_def DEMO_PROJECTS_def get_or_create_user_def find_email_def demo_user_def
        later_token_def seed_organization_def find_slug_def find_project_def seed_subscription_def service_defs cong: r_bind_weak_cong)
  moreover have "orgs_complete sample_db" by code_simp
  ultimately show ?thesis using seed_idempotent [OF _ sample_wf] by blast
qed

end
