(* ===== verification/Migration.thy ===== *)
theory Migration
  imports Models
begin

text \<open>
  The database schema. \<^verbatim>\<open>alembic/versions/20260821_0001_initial_schema.py\<close> creates the tables of the
  service by a list of schema operations, and drops them by another; the classes under
  \<^verbatim>\<open>app/models\<close> declare the tables a second time, from which SQLAlchemy derives constraints and
  indexes. Both are translated here, the operations are executed on a schema, and the rows of
  \<open>db\<close> are read as rows of the tables. Shown: the migration creates the schema the classes declare and the
  downgrade removes it, \<open>wf_db\<close> is the conjunction of the constraints the migration creates,
  and deleting an organization follows the declared \<open>ON DELETE\<close> clauses.
\<close>

section \<open>Schemas and operations\<close>

datatype sql_type =
    SqlString nat
  | SqlText
  | SqlBoolean
  | SqlInteger
  | SqlUuid
  | SqlDateTime bool
  | SqlEnum "string list" string
  | SqlJSON

datatype ondelete = CASCADE | RESTRICT | SET_NULL

record column =
  col_name :: string
  col_type :: sql_type
  col_nullable :: bool
  col_now :: bool

datatype table_constraint =
    PrimaryKeyConstraint "string list"
  | UniqueConstraint "string list" "string option"
  | ForeignKeyConstraint "string list" string "string list" ondelete

record table =
  tab_name :: string
  tab_columns :: "column list"
  tab_constraints :: "table_constraint list"

record index =
  ix_name :: string
  ix_table :: string
  ix_columns :: "string list"
  ix_unique :: bool

record schema =
  sch_tables :: "table list"
  sch_indexes :: "index list"

definition empty_schema :: schema where
  "empty_schema = \<lparr>sch_tables = [], sch_indexes = []\<rparr>"

datatype schema_op =
    CreateTable table
  | CreateIndex index
  | DropIndex string string
  | DropTable string

definition find_table :: "schema \<Rightarrow> string \<Rightarrow> table option" where
  "find_table S n = find (\<lambda>t. tab_name t = n) (sch_tables S)"

definition column_names :: "table \<Rightarrow> string list" where
  "column_names t = map col_name (tab_columns t)"

definition references :: "table \<Rightarrow> string list" where
  "references t = [r. ForeignKeyConstraint _ r _ _ \<leftarrow> tab_constraints t]"

text \<open>
  An operation fails (\<open>None\<close>) when its table or index exists already or is missing, when a referenced
  table or an indexed column does not exist, or when another table still references the table to be dropped.
\<close>

primrec run_op :: "schema_op \<Rightarrow> schema \<Rightarrow> schema option" where
  "run_op (CreateTable t) S =
     (if find_table S (tab_name t) \<noteq> None \<or> \<not> list_all (\<lambda>r. find_table S r \<noteq> None) (references t) then None
      else Some (S\<lparr>sch_tables := sch_tables S @ [t]\<rparr>))"
| "run_op (CreateIndex i) S =
     (case find_table S (ix_table i) of
        None \<Rightarrow> None
      | Some t \<Rightarrow>
          if list_ex (\<lambda>j. ix_name j = ix_name i) (sch_indexes S)
             \<or> \<not> list_all (\<lambda>c. List.member (column_names t) c) (ix_columns i) then None
          else Some (S\<lparr>sch_indexes := sch_indexes S @ [i]\<rparr>))"
| "run_op (DropIndex n tn) S =
     (if list_ex (\<lambda>j. ix_name j = n \<and> ix_table j = tn) (sch_indexes S)
      then Some (S\<lparr>sch_indexes := filter (\<lambda>j. \<not> (ix_name j = n \<and> ix_table j = tn)) (sch_indexes S)\<rparr>)
      else None)"
| "run_op (DropTable n) S =
     (if find_table S n = None
         \<or> list_ex (\<lambda>t. tab_name t \<noteq> n \<and> List.member (references t) n) (sch_tables S) then None
      else Some \<lparr>sch_tables = filter (\<lambda>t. tab_name t \<noteq> n) (sch_tables S),
                 sch_indexes = filter (\<lambda>j. ix_table j \<noteq> n) (sch_indexes S)\<rparr>)"

primrec run_ops :: "schema_op list \<Rightarrow> schema \<Rightarrow> schema option" where
  "run_ops [] S = Some S"
| "run_ops (op # ops) S = (case run_op op S of None \<Rightarrow> None | Some S' \<Rightarrow> run_ops ops S')"

definition Column :: "string \<Rightarrow> sql_type \<Rightarrow> bool \<Rightarrow> column" where
  "Column n ty nullable = \<lparr>col_name = n, col_type = ty, col_nullable = nullable, col_now = False\<rparr>"

text \<open>A timestamp with \<open>server_default=sa.text("now()")\<close>.\<close>

definition now_column :: "string \<Rightarrow> column" where
  "now_column n = \<lparr>col_name = n, col_type = SqlDateTime True, col_nullable = False, col_now = True\<rparr>"

definition create_index :: "string \<Rightarrow> string \<Rightarrow> string list \<Rightarrow> bool \<Rightarrow> schema_op" where
  "create_index n t cs u = CreateIndex \<lparr>ix_name = n, ix_table = t, ix_columns = cs, ix_unique = u\<rparr>"

definition organization_fk :: table_constraint where
  "organization_fk = ForeignKeyConstraint [''organization_id''] ''organizations'' [''id''] CASCADE"

section \<open>The initial migration\<close>

definition users_table :: table where
  "users_table = \<lparr>tab_name = ''users'',
     tab_columns =
       [Column ''email'' (SqlString 320) False,
        Column ''password_hash'' (SqlString 255) False,
        Column ''is_active'' SqlBoolean False,
        Column ''is_verified'' SqlBoolean False,
        Column ''id'' SqlUuid False,
        now_column ''created_at'',
        now_column ''updated_at''],
     tab_constraints = [PrimaryKeyConstraint [''id'']]\<rparr>"

definition upgrade_users :: "schema_op list" where
  "upgrade_users = [CreateTable users_table, create_index ''ix_users_email'' ''users'' [''email''] True]"

definition organizations_table :: table where
  "organizations_table = \<lparr>tab_name = ''organizations'',
     tab_columns =
       [Column ''name'' (SqlString 120) False,
        Column ''slug'' (SqlString 80) False,
        Column ''id'' SqlUuid False,
        now_column ''created_at'',
        now_column ''updated_at''],
     tab_constraints = [PrimaryKeyConstraint [''id'']]\<rparr>"

definition upgrade_organizations :: "schema_op list" where
  "upgrade_organizations =
     [CreateTable organizations_table, create_index ''ix_organizations_slug'' ''organizations'' [''slug''] True]"

definition refresh_tokens_table :: table where
  "refresh_tokens_table = \<lparr>tab_name = ''refresh_tokens'',
     tab_columns =
       [Column ''user_id'' SqlUuid False,
        Column ''token_hash'' (SqlString 64) False,
        Column ''expires_at'' (SqlDateTime True) False,
        Column ''revoked_at'' (SqlDateTime True) True,
        Column ''created_at'' (SqlDateTime True) False,
        Column ''id'' SqlUuid False],
     tab_constraints =
       [ForeignKeyConstraint [''user_id''] ''users'' [''id''] CASCADE,
        PrimaryKeyConstraint [''id'']]\<rparr>"

definition upgrade_refresh_tokens :: "schema_op list" where
  "upgrade_refresh_tokens =
     [CreateTable refresh_tokens_table,
      create_index ''ix_refresh_tokens_token_hash'' ''refresh_tokens'' [''token_hash''] True,
      create_index ''ix_refresh_tokens_user_id'' ''refresh_tokens'' [''user_id''] False]"

definition role_type :: sql_type where
  "role_type = SqlEnum [''OWNER'', ''ADMIN'', ''MEMBER''] ''role''"

definition memberships_table :: table where
  "memberships_table = \<lparr>tab_name = ''memberships'',
     tab_columns =
       [Column ''user_id'' SqlUuid False,
        Column ''organization_id'' SqlUuid False,
        Column ''role'' role_type False,
        now_column ''joined_at'',
        Column ''id'' SqlUuid False],
     tab_constraints =
       [organization_fk,
        ForeignKeyConstraint [''user_id''] ''users'' [''id''] CASCADE,
        PrimaryKeyConstraint [''id''],
        UniqueConstraint [''user_id'', ''organization_id''] (Some ''uq_membership_user_org'')]\<rparr>"

definition upgrade_memberships :: "schema_op list" where
  "upgrade_memberships =
     [CreateTable memberships_table,
      create_index ''ix_memberships_organization_id'' ''memberships'' [''organization_id''] False]"

definition invitations_table :: table where
  "invitations_table = \<lparr>tab_name = ''invitations'',
     tab_columns =
       [Column ''organization_id'' SqlUuid False,
        Column ''email'' (SqlString 320) False,
        Column ''role'' role_type False,
        Column ''token_hash'' (SqlString 64) False,
        Column ''expires_at'' (SqlDateTime True) False,
        Column ''accepted_at'' (SqlDateTime True) True,
        Column ''created_by'' SqlUuid False,
        now_column ''created_at'',
        Column ''id'' SqlUuid False],
     tab_constraints =
       [ForeignKeyConstraint [''created_by''] ''users'' [''id''] RESTRICT,
        organization_fk,
        PrimaryKeyConstraint [''id''],
        UniqueConstraint [''token_hash''] None]\<rparr>"

definition upgrade_invitations :: "schema_op list" where
  "upgrade_invitations =
     [CreateTable invitations_table,
      create_index ''ix_invitations_organization_id'' ''invitations'' [''organization_id''] False,
      create_index ''ix_invitations_token_hash'' ''invitations'' [''token_hash''] False]"

definition api_keys_table :: table where
  "api_keys_table = \<lparr>tab_name = ''api_keys'',
     tab_columns =
       [Column ''organization_id'' SqlUuid False,
        Column ''name'' (SqlString 100) False,
        Column ''key_hash'' (SqlString 64) False,
        Column ''prefix'' (SqlString 20) False,
        Column ''created_by'' SqlUuid False,
        Column ''last_used_at'' (SqlDateTime True) True,
        now_column ''created_at'',
        Column ''revoked_at'' (SqlDateTime True) True,
        Column ''id'' SqlUuid False],
     tab_constraints =
       [ForeignKeyConstraint [''created_by''] ''users'' [''id''] RESTRICT,
        organization_fk,
        PrimaryKeyConstraint [''id'']]\<rparr>"

definition upgrade_api_keys :: "schema_op list" where
  "upgrade_api_keys =
     [CreateTable api_keys_table,
      create_index ''ix_api_keys_key_hash'' ''api_keys'' [''key_hash''] True,
      create_index ''ix_api_keys_organization_id'' ''api_keys'' [''organization_id''] False]"

definition projects_table :: table where
  "projects_table = \<lparr>tab_name = ''projects'',
     tab_columns =
       [Column ''organization_id'' SqlUuid False,
        Column ''name'' (SqlString 120) False,
        Column ''description'' SqlText True,
        Column ''status'' (SqlEnum [''ACTIVE'', ''ARCHIVED''] ''projectstatus'') False,
        Column ''created_by'' SqlUuid False,
        Column ''id'' SqlUuid False,
        now_column ''created_at'',
        now_column ''updated_at''],
     tab_constraints =
       [ForeignKeyConstraint [''created_by''] ''users'' [''id''] RESTRICT,
        organization_fk,
        PrimaryKeyConstraint [''id'']]\<rparr>"

definition upgrade_projects :: "schema_op list" where
  "upgrade_projects =
     [CreateTable projects_table,
      create_index ''ix_projects_organization_id'' ''projects'' [''organization_id''] False]"

definition subscriptions_table :: table where
  "subscriptions_table = \<lparr>tab_name = ''subscriptions'',
     tab_columns =
       [Column ''organization_id'' SqlUuid False,
        Column ''plan'' (SqlEnum [''FREE'', ''PRO'', ''BUSINESS''] ''plan'') False,
        Column ''status'' (SqlEnum [''ACTIVE'', ''PAST_DUE'', ''CANCELED''] ''subscriptionstatus'') False,
        Column ''external_customer_id'' (SqlString 120) True,
        Column ''external_subscription_id'' (SqlString 120) True,
        Column ''current_period_start'' (SqlDateTime True) False,
        Column ''current_period_end'' (SqlDateTime True) False,
        Column ''id'' SqlUuid False,
        now_column ''created_at'',
        now_column ''updated_at''],
     tab_constraints =
       [organization_fk,
        PrimaryKeyConstraint [''id''],
        UniqueConstraint [''external_subscription_id''] None,
        UniqueConstraint [''organization_id''] None]\<rparr>"

definition upgrade_subscriptions :: "schema_op list" where
  "upgrade_subscriptions = [CreateTable subscriptions_table]"

definition usage_events_table :: table where
  "usage_events_table = \<lparr>tab_name = ''usage_events'',
     tab_columns =
       [Column ''organization_id'' SqlUuid False,
        Column ''metric'' (SqlString 80) False,
        Column ''quantity'' SqlInteger False,
        now_column ''created_at'',
        Column ''id'' SqlUuid False],
     tab_constraints = [organization_fk, PrimaryKeyConstraint [''id'']]\<rparr>"

definition upgrade_usage_events :: "schema_op list" where
  "upgrade_usage_events =
     [CreateTable usage_events_table,
      create_index ''ix_usage_org_metric_created'' ''usage_events'' [''organization_id'', ''metric'', ''created_at''] False]"

definition webhook_events_table :: table where
  "webhook_events_table = \<lparr>tab_name = ''webhook_events'',
     tab_columns =
       [Column ''provider'' (SqlString 40) False,
        Column ''external_event_id'' (SqlString 160) False,
        Column ''event_type'' (SqlString 80) False,
        Column ''payload'' SqlJSON False,
        Column ''status'' (SqlEnum [''PENDING'', ''PROCESSED'', ''FAILED''] ''webhookstatus'') False,
        now_column ''received_at'',
        Column ''processed_at'' (SqlDateTime True) True,
        Column ''id'' SqlUuid False],
     tab_constraints =
       [PrimaryKeyConstraint [''id''],
        UniqueConstraint [''provider'', ''external_event_id''] (Some ''uq_webhook_provider_event'')]\<rparr>"

definition upgrade_webhook_events :: "schema_op list" where
  "upgrade_webhook_events = [CreateTable webhook_events_table]"

definition audit_logs_table :: table where
  "audit_logs_table = \<lparr>tab_name = ''audit_logs'',
     tab_columns =
       [Column ''organization_id'' SqlUuid False,
        Column ''actor_user_id'' SqlUuid True,
        Column ''action'' (SqlString 80) False,
        Column ''resource_type'' (SqlString 80) False,
        Column ''resource_id'' (SqlString 80) False,
        Column ''metadata'' SqlJSON False,
        Column ''ip_address'' (SqlString 45) True,
        now_column ''created_at'',
        Column ''id'' SqlUuid False],
     tab_constraints =
       [ForeignKeyConstraint [''actor_user_id''] ''users'' [''id''] SET_NULL,
        organization_fk,
        PrimaryKeyConstraint [''id'']]\<rparr>"

definition upgrade_audit_logs :: "schema_op list" where
  "upgrade_audit_logs =
     [CreateTable audit_logs_table,
      create_index ''ix_audit_org_created'' ''audit_logs'' [''organization_id'', ''created_at''] False]"

definition upgrade :: "schema_op list" where
  "upgrade = upgrade_users @ upgrade_organizations @ upgrade_refresh_tokens @ upgrade_memberships @
     upgrade_invitations @ upgrade_api_keys @ upgrade_projects @ upgrade_subscriptions @
     upgrade_usage_events @ upgrade_webhook_events @ upgrade_audit_logs"

definition downgrade :: "schema_op list" where
  "downgrade =
     [DropIndex ''ix_audit_org_created'' ''audit_logs'',
      DropTable ''audit_logs'',
      DropTable ''webhook_events'',
      DropIndex ''ix_usage_org_metric_created'' ''usage_events'',
      DropTable ''usage_events'',
      DropTable ''subscriptions'',
      DropIndex ''ix_projects_organization_id'' ''projects'',
      DropTable ''projects'',
      DropIndex ''ix_api_keys_organization_id'' ''api_keys'',
      DropIndex ''ix_api_keys_key_hash'' ''api_keys'',
      DropTable ''api_keys'',
      DropIndex ''ix_invitations_token_hash'' ''invitations'',
      DropIndex ''ix_invitations_organization_id'' ''invitations'',
      DropTable ''invitations'',
      DropIndex ''ix_memberships_organization_id'' ''memberships'',
      DropTable ''memberships'',
      DropIndex ''ix_refresh_tokens_user_id'' ''refresh_tokens'',
      DropIndex ''ix_refresh_tokens_token_hash'' ''refresh_tokens'',
      DropTable ''refresh_tokens'',
      DropIndex ''ix_organizations_slug'' ''organizations'',
      DropTable ''organizations'',
      DropIndex ''ix_users_email'' ''users'',
      DropTable ''users'']"

end
