(* ===== verification/Declarations.thy ===== *)
theory Declarations
  imports Migration
begin

text \<open>
  The classes under \<^verbatim>\<open>app/models\<close> as declarations of tables. A class lists its mapped columns with their
  options; \<open>declared_table\<close> and \<open>declared_indexes\<close> are the rules by which SQLAlchemy turns the
  options into constraints and indexes: \<open>index=True\<close> is an index named after table and column, which is
  unique when \<open>unique=True\<close> is given too; \<open>unique=True\<close> alone is a unique constraint.
\<close>

section \<open>Mapped classes\<close>

record mapped_column =
  mc_name :: string
  mc_type :: sql_type
  mc_nullable :: bool
  mc_primary_key :: bool
  mc_unique :: bool
  mc_index :: bool
  mc_now :: bool
  mc_foreign_key :: "(string \<times> string \<times> ondelete) option"

datatype table_arg =
    ArgUnique "string list" string
  | ArgIndex string "string list"

record mapped_class =
  cls_tablename :: string
  cls_table_args :: "table_arg list"
  cls_columns :: "mapped_column list"

definition col :: "string \<Rightarrow> sql_type \<Rightarrow> mapped_column" where
  "col n ty = \<lparr>mc_name = n, mc_type = ty, mc_nullable = False, mc_primary_key = False, mc_unique = False,
     mc_index = False, mc_now = False, mc_foreign_key = None\<rparr>"

definition foreign_key :: "string \<Rightarrow> string \<Rightarrow> ondelete \<Rightarrow> mapped_column" where
  "foreign_key n target od = (col n SqlUuid)\<lparr>mc_foreign_key := Some (target, ''id'', od)\<rparr>"

definition declared_constraints :: "mapped_column \<Rightarrow> table_constraint list" where
  "declared_constraints c =
     (case mc_foreign_key c of None \<Rightarrow> [] | Some (t, k, od) \<Rightarrow> [ForeignKeyConstraint [mc_name c] t [k] od]) @
     (if mc_primary_key c then [PrimaryKeyConstraint [mc_name c]] else []) @
     (if mc_unique c \<and> \<not> mc_index c then [UniqueConstraint [mc_name c] None] else [])"

definition declared_table :: "mapped_class \<Rightarrow> table" where
  "declared_table cls = \<lparr>tab_name = cls_tablename cls,
     tab_columns = map (\<lambda>c. \<lparr>col_name = mc_name c, col_type = mc_type c, col_nullable = mc_nullable c, col_now = mc_now c\<rparr>)
       (cls_columns cls),
     tab_constraints = concat (map declared_constraints (cls_columns cls)) @
       [UniqueConstraint cs (Some n). ArgUnique cs n \<leftarrow> cls_table_args cls]\<rparr>"

definition declared_indexes :: "mapped_class \<Rightarrow> index list" where
  "declared_indexes cls =
     [\<lparr>ix_name = ''ix_'' @ cls_tablename cls @ ''_'' @ mc_name c, ix_table = cls_tablename cls,
       ix_columns = [mc_name c], ix_unique = mc_unique c\<rparr>. c \<leftarrow> cls_columns cls, mc_index c] @
     [\<lparr>ix_name = n, ix_table = cls_tablename cls, ix_columns = cs, ix_unique = False\<rparr>. ArgIndex n cs \<leftarrow> cls_table_args cls]"

section \<open>The classes of the program\<close>

definition UUIDPrimaryKey :: "mapped_column list" where
  "UUIDPrimaryKey = [(col ''id'' SqlUuid)\<lparr>mc_primary_key := True\<rparr>]"

definition created_now :: "string \<Rightarrow> mapped_column" where
  "created_now n = (col n (SqlDateTime True))\<lparr>mc_now := True\<rparr>"

definition Timestamped :: "mapped_column list" where
  "Timestamped = [created_now ''created_at'', created_now ''updated_at'']"

definition nullable :: "mapped_column \<Rightarrow> mapped_column" where
  "nullable c = c\<lparr>mc_nullable := True\<rparr>"

definition unique :: "mapped_column \<Rightarrow> mapped_column" where
  "unique c = c\<lparr>mc_unique := True\<rparr>"

definition indexed :: "mapped_column \<Rightarrow> mapped_column" where
  "indexed c = c\<lparr>mc_index := True\<rparr>"

definition User :: mapped_class where
  "User = \<lparr>cls_tablename = ''users'', cls_table_args = [],
     cls_columns = UUIDPrimaryKey @ Timestamped @
       [indexed (unique (col ''email'' (SqlString 320))),
        col ''password_hash'' (SqlString 255),
        col ''is_active'' SqlBoolean,
        col ''is_verified'' SqlBoolean]\<rparr>"

definition RefreshToken :: mapped_class where
  "RefreshToken = \<lparr>cls_tablename = ''refresh_tokens'', cls_table_args = [],
     cls_columns = UUIDPrimaryKey @
       [indexed (foreign_key ''user_id'' ''users'' CASCADE),
        indexed (unique (col ''token_hash'' (SqlString 64))),
        col ''expires_at'' (SqlDateTime True),
        nullable (col ''revoked_at'' (SqlDateTime True)),
        col ''created_at'' (SqlDateTime True)]\<rparr>"

definition Organization :: mapped_class where
  "Organization = \<lparr>cls_tablename = ''organizations'', cls_table_args = [],
     cls_columns = UUIDPrimaryKey @ Timestamped @
       [col ''name'' (SqlString 120),
        indexed (unique (col ''slug'' (SqlString 80)))]\<rparr>"

text \<open>\<open>Enum(Role, native_enum=False)\<close> is named after the class in lower case and lists the member names.\<close>

definition role_enum :: sql_type where
  "role_enum = SqlEnum (map role_value [OWNER, ADMIN, MEMBER]) ''role''"

definition Membership :: mapped_class where
  "Membership = \<lparr>cls_tablename = ''memberships'',
     cls_table_args =
       [ArgUnique [''user_id'', ''organization_id''] ''uq_membership_user_org'',
        ArgIndex ''ix_memberships_organization_id'' [''organization_id'']],
     cls_columns = UUIDPrimaryKey @
       [foreign_key ''user_id'' ''users'' CASCADE,
        foreign_key ''organization_id'' ''organizations'' CASCADE,
        col ''role'' role_enum,
        created_now ''joined_at'']\<rparr>"

definition Invitation :: mapped_class where
  "Invitation = \<lparr>cls_tablename = ''invitations'',
     cls_table_args = [ArgIndex ''ix_invitations_token_hash'' [''token_hash'']],
     cls_columns = UUIDPrimaryKey @
       [indexed (foreign_key ''organization_id'' ''organizations'' CASCADE),
        col ''email'' (SqlString 320),
        col ''role'' role_enum,
        unique (col ''token_hash'' (SqlString 64)),
        col ''expires_at'' (SqlDateTime True),
        nullable (col ''accepted_at'' (SqlDateTime True)),
        foreign_key ''created_by'' ''users'' RESTRICT,
        created_now ''created_at'']\<rparr>"

definition ApiKey :: mapped_class where
  "ApiKey = \<lparr>cls_tablename = ''api_keys'', cls_table_args = [],
     cls_columns = UUIDPrimaryKey @
       [indexed (foreign_key ''organization_id'' ''organizations'' CASCADE),
        col ''name'' (SqlString 100),
        indexed (unique (col ''key_hash'' (SqlString 64))),
        col ''prefix'' (SqlString 20),
        foreign_key ''created_by'' ''users'' RESTRICT,
        nullable (col ''last_used_at'' (SqlDateTime True)),
        created_now ''created_at'',
        nullable (col ''revoked_at'' (SqlDateTime True))]\<rparr>"

definition Project :: mapped_class where
  "Project = \<lparr>cls_tablename = ''projects'',
     cls_table_args = [ArgIndex ''ix_projects_organization_id'' [''organization_id'']],
     cls_columns = UUIDPrimaryKey @ Timestamped @
       [foreign_key ''organization_id'' ''organizations'' CASCADE,
        col ''name'' (SqlString 120),
        nullable (col ''description'' SqlText),
        col ''status'' (SqlEnum [''ACTIVE'', ''ARCHIVED''] ''projectstatus''),
        foreign_key ''created_by'' ''users'' RESTRICT]\<rparr>"

definition Subscription :: mapped_class where
  "Subscription = \<lparr>cls_tablename = ''subscriptions'', cls_table_args = [],
     cls_columns = UUIDPrimaryKey @ Timestamped @
       [unique (foreign_key ''organization_id'' ''organizations'' CASCADE),
        col ''plan'' (SqlEnum (map plan_value [FREE, PRO, BUSINESS]) ''plan''),
        col ''status'' (SqlEnum (map subscription_status_value [ACTIVE, PAST_DUE, CANCELED]) ''subscriptionstatus''),
        nullable (col ''external_customer_id'' (SqlString 120)),
        nullable (unique (col ''external_subscription_id'' (SqlString 120))),
        col ''current_period_start'' (SqlDateTime True),
        col ''current_period_end'' (SqlDateTime True)]\<rparr>"

definition UsageEvent :: mapped_class where
  "UsageEvent = \<lparr>cls_tablename = ''usage_events'',
     cls_table_args = [ArgIndex ''ix_usage_org_metric_created'' [''organization_id'', ''metric'', ''created_at'']],
     cls_columns = UUIDPrimaryKey @
       [foreign_key ''organization_id'' ''organizations'' CASCADE,
        col ''metric'' (SqlString 80),
        col ''quantity'' SqlInteger,
        created_now ''created_at'']\<rparr>"

definition WebhookEvent :: mapped_class where
  "WebhookEvent = \<lparr>cls_tablename = ''webhook_events'',
     cls_table_args = [ArgUnique [''provider'', ''external_event_id''] ''uq_webhook_provider_event''],
     cls_columns = UUIDPrimaryKey @
       [col ''provider'' (SqlString 40),
        col ''external_event_id'' (SqlString 160),
        col ''event_type'' (SqlString 80),
        col ''payload'' SqlJSON,
        col ''status'' (SqlEnum [''PENDING'', ''PROCESSED'', ''FAILED''] ''webhookstatus''),
        created_now ''received_at'',
        nullable (col ''processed_at'' (SqlDateTime True))]\<rparr>"

definition AuditLog :: mapped_class where
  "AuditLog = \<lparr>cls_tablename = ''audit_logs'',
     cls_table_args = [ArgIndex ''ix_audit_org_created'' [''organization_id'', ''created_at'']],
     cls_columns = UUIDPrimaryKey @
       [foreign_key ''organization_id'' ''organizations'' CASCADE,
        nullable (foreign_key ''actor_user_id'' ''users'' SET_NULL),
        col ''action'' (SqlString 80),
        col ''resource_type'' (SqlString 80),
        col ''resource_id'' (SqlString 80),
        col ''metadata'' SqlJSON,
        nullable (col ''ip_address'' (SqlString 45)),
        created_now ''created_at'']\<rparr>"

text \<open>\<open>Base.metadata\<close> once \<^verbatim>\<open>app/models/__init__.py\<close> has imported every class.\<close>

definition metadata :: schema where
  "metadata =
     (let classes = [AuditLog, Subscription, UsageEvent, WebhookEvent, RefreshToken, User, ApiKey, Project,
                     Invitation, Membership, Organization]
      in \<lparr>sch_tables = map declared_table classes, sch_indexes = concat (map declared_indexes classes)\<rparr>)"

section \<open>Schemas up to order\<close>

definition same_table :: "table \<Rightarrow> table \<Rightarrow> bool" where
  "same_table t u = (tab_name t = tab_name u \<and> set (tab_columns t) = set (tab_columns u) \<and>
     set (tab_constraints t) = set (tab_constraints u))"

definition same_schema :: "schema \<Rightarrow> schema \<Rightarrow> bool" where
  "same_schema S T = (list_all (\<lambda>t. list_ex (same_table t) (sch_tables T)) (sch_tables S) \<and>
     list_all (\<lambda>t. list_ex (same_table t) (sch_tables S)) (sch_tables T) \<and>
     set (sch_indexes S) = set (sch_indexes T))"

definition migrated :: schema where
  "migrated = \<lparr>sch_tables = [users_table, organizations_table, refresh_tokens_table, memberships_table, invitations_table,
       api_keys_table, projects_table, subscriptions_table, usage_events_table, webhook_events_table, audit_logs_table],
     sch_indexes = [i. CreateIndex i \<leftarrow> upgrade]\<rparr>"

lemma upgrade_migrated: "run_ops upgrade empty_schema = Some migrated"
  by code_simp

lemma downgrade_migrated: "run_ops downgrade migrated = Some empty_schema"
  by code_simp

lemma migrated_metadata: "same_schema migrated metadata"
  by code_simp

end
