(* ===== verification/Constraints.thy ===== *)
theory Constraints
  imports Declarations
begin

text \<open>
  The rows of \<open>db\<close> as rows of the tables the migration creates: \<open>table_rows d n\<close> is the content of the
  table \<open>n\<close>, a value per column. \<open>satisfies\<close> reads the constraints of a schema as SQL does: keys are unique
  where they are not null, primary keys are not null, references that are not null exist. On
  the migrated schema this is \<open>wf_db\<close>, so \<open>IntegrityError\<close> in the model stands for exactly the
  violations the database server would report.
\<close>

section \<open>Rows of tables\<close>

datatype sql_value =
    Null
  | Text string
  | Boolean bool
  | Integer int
  | Uuid uuid
  | DateTime datetime
  | Json json

type_synonym row = "(string \<times> sql_value) list"

definition cell :: "row \<Rightarrow> string \<Rightarrow> sql_value" where
  "cell r c = (case map_of r c of None \<Rightarrow> Null | Some v \<Rightarrow> v)"

definition null_or :: "('a \<Rightarrow> sql_value) \<Rightarrow> 'a option \<Rightarrow> sql_value" where
  "null_or f v = (case v of None \<Rightarrow> Null | Some x \<Rightarrow> f x)"

primrec project_status_value :: "project_status \<Rightarrow> string" where
  "project_status_value ACTIVE_PROJECT = ''ACTIVE''"
| "project_status_value ARCHIVED = ''ARCHIVED''"

primrec webhook_status_value :: "webhook_status \<Rightarrow> string" where
  "webhook_status_value PENDING = ''PENDING''"
| "webhook_status_value PROCESSED = ''PROCESSED''"
| "webhook_status_value FAILED = ''FAILED''"

definition user_row :: "user \<Rightarrow> row" where
  "user_row u = [(''email'', Text (usr_email u)), (''password_hash'', Text (usr_password_hash u)),
     (''is_active'', Boolean (usr_is_active u)), (''is_verified'', Boolean (usr_is_verified u)), (''id'', Uuid (usr_id u)),
     (''created_at'', DateTime (usr_created_at u)), (''updated_at'', DateTime (usr_updated_at u))]"

definition organization_row :: "organization \<Rightarrow> row" where
  "organization_row r = [(''name'', Text (org_name r)), (''slug'', Text (org_slug r)), (''id'', Uuid (org_id r)),
     (''created_at'', DateTime (org_created_at r)), (''updated_at'', DateTime (org_updated_at r))]"

definition refresh_token_row :: "refresh_token \<Rightarrow> row" where
  "refresh_token_row r = [(''user_id'', Uuid (rft_user_id r)), (''token_hash'', Text (rft_token_hash r)),
     (''expires_at'', DateTime (rft_expires_at r)), (''revoked_at'', null_or DateTime (rft_revoked_at r)),
     (''created_at'', DateTime (rft_created_at r)), (''id'', Uuid (rft_id r))]"

definition membership_row :: "membership \<Rightarrow> row" where
  "membership_row r = [(''user_id'', Uuid (mem_user_id r)), (''organization_id'', Uuid (mem_organization_id r)),
     (''role'', Text (role_value (mem_role r))), (''joined_at'', DateTime (mem_joined_at r)), (''id'', Uuid (mem_id r))]"

definition invitation_row :: "invitation \<Rightarrow> row" where
  "invitation_row r = [(''organization_id'', Uuid (inv_organization_id r)), (''email'', Text (inv_email r)),
     (''role'', Text (role_value (inv_role r))), (''token_hash'', Text (inv_token_hash r)),
     (''expires_at'', DateTime (inv_expires_at r)), (''accepted_at'', null_or DateTime (inv_accepted_at r)),
     (''created_by'', Uuid (inv_created_by r)), (''created_at'', DateTime (inv_created_at r)), (''id'', Uuid (inv_id r))]"

definition api_key_row :: "api_key \<Rightarrow> row" where
  "api_key_row r = [(''organization_id'', Uuid (key_organization_id r)), (''name'', Text (key_name r)),
     (''key_hash'', Text (key_hash r)), (''prefix'', Text (key_prefix r)), (''created_by'', Uuid (key_created_by r)),
     (''last_used_at'', null_or DateTime (key_last_used_at r)), (''created_at'', DateTime (key_created_at r)),
     (''revoked_at'', null_or DateTime (key_revoked_at r)), (''id'', Uuid (key_id r))]"

definition project_row :: "project \<Rightarrow> row" where
  "project_row r = [(''organization_id'', Uuid (prj_organization_id r)), (''name'', Text (prj_name r)),
     (''description'', null_or Text (prj_description r)), (''status'', Text (project_status_value (prj_status r))),
     (''created_by'', Uuid (prj_created_by r)), (''id'', Uuid (prj_id r)),
     (''created_at'', DateTime (prj_created_at r)), (''updated_at'', DateTime (prj_updated_at r))]"

definition subscription_row :: "subscription \<Rightarrow> row" where
  "subscription_row r = [(''organization_id'', Uuid (sub_organization_id r)), (''plan'', Text (plan_value (sub_plan r))),
     (''status'', Text (subscription_status_value (sub_status r))),
     (''external_customer_id'', null_or Text (sub_external_customer_id r)),
     (''external_subscription_id'', null_or Text (sub_external_subscription_id r)),
     (''current_period_start'', DateTime (sub_current_period_start r)),
     (''current_period_end'', DateTime (sub_current_period_end r)), (''id'', Uuid (sub_id r)),
     (''created_at'', DateTime (sub_created_at r)), (''updated_at'', DateTime (sub_updated_at r))]"

definition usage_event_row :: "usage_event \<Rightarrow> row" where
  "usage_event_row r = [(''organization_id'', Uuid (use_organization_id r)), (''metric'', Text (use_metric r)),
     (''quantity'', Integer (use_quantity r)), (''created_at'', DateTime (use_created_at r)), (''id'', Uuid (use_id r))]"

definition webhook_event_row :: "webhook_event \<Rightarrow> row" where
  "webhook_event_row r = [(''provider'', Text (whk_provider r)), (''external_event_id'', Text (whk_external_event_id r)),
     (''event_type'', Text (whk_event_type r)), (''payload'', Json (JDict (whk_payload r))),
     (''status'', Text (webhook_status_value (whk_status r))), (''received_at'', DateTime (whk_received_at r)),
     (''processed_at'', null_or DateTime (whk_processed_at r)), (''id'', Uuid (whk_id r))]"

definition audit_log_row :: "audit_log \<Rightarrow> row" where
  "audit_log_row r = [(''organization_id'', Uuid (aud_organization_id r)), (''actor_user_id'', null_or Uuid (aud_actor_user_id r)),
     (''action'', Text (aud_action r)), (''resource_type'', Text (aud_resource_type r)), (''resource_id'', Text (aud_resource_id r)),
     (''metadata'', Json (JDict (aud_details r))), (''ip_address'', null_or Text (aud_ip_address r)),
     (''created_at'', DateTime (aud_created_at r)), (''id'', Uuid (aud_id r))]"

definition table_rows :: "db \<Rightarrow> string \<Rightarrow> row list" where
  "table_rows d n =
     (if n = ''users'' then map user_row (users d)
      else if n = ''organizations'' then map organization_row (organizations d)
      else if n = ''refresh_tokens'' then map refresh_token_row (refresh_tokens d)
      else if n = ''memberships'' then map membership_row (memberships d)
      else if n = ''invitations'' then map invitation_row (invitations d)
      else if n = ''api_keys'' then map api_key_row (api_keys d)
      else if n = ''projects'' then map project_row (projects d)
      else if n = ''subscriptions'' then map subscription_row (subscriptions d)
      else if n = ''usage_events'' then map usage_event_row (usage_events d)
      else if n = ''webhook_events'' then map webhook_event_row (webhook_events d)
      else if n = ''audit_logs'' then map audit_log_row (audit_logs d)
      else [])"

section \<open>Satisfaction of a schema\<close>

definition row_key :: "string list \<Rightarrow> row \<Rightarrow> sql_value list" where
  "row_key cs r = map (cell r) cs"

definition no_null :: "string list \<Rightarrow> row \<Rightarrow> bool" where
  "no_null cs r = (Null \<notin> set (row_key cs r))"

definition unique_key :: "string list \<Rightarrow> row list \<Rightarrow> bool" where
  "unique_key cs rows = distinct (map (row_key cs) (filter (no_null cs) rows))"

primrec holds :: "(string \<Rightarrow> row list) \<Rightarrow> row list \<Rightarrow> table_constraint \<Rightarrow> bool" where
  "holds R rows (PrimaryKeyConstraint cs) = (list_all (no_null cs) rows \<and> unique_key cs rows)"
| "holds R rows (UniqueConstraint cs n) = unique_key cs rows"
| "holds R rows (ForeignKeyConstraint cs t ks od) =
     list_all (\<lambda>r. no_null cs r \<longrightarrow> row_key cs r \<in> row_key ks ` set (R t)) rows"

definition satisfies :: "schema \<Rightarrow> (string \<Rightarrow> row list) \<Rightarrow> bool" where
  "satisfies S R =
     (list_all (\<lambda>t. list_all (holds R (R (tab_name t))) (tab_constraints t)) (sch_tables S) \<and>
      list_all (\<lambda>i. ix_unique i \<longrightarrow> unique_key (ix_columns i) (R (ix_table i))) (sch_indexes S))"

text \<open>The values a column admits; the length of a text is checked by the request schemas.\<close>

fun admits :: "sql_type \<Rightarrow> sql_value \<Rightarrow> bool" where
  "admits (SqlString n) (Text s) = True"
| "admits SqlText (Text s) = True"
| "admits SqlBoolean (Boolean b) = True"
| "admits SqlInteger (Integer i) = True"
| "admits SqlUuid (Uuid u) = True"
| "admits (SqlDateTime tz) (DateTime t) = True"
| "admits (SqlEnum vs n) (Text s) = (s \<in> set vs)"
| "admits SqlJSON (Json j) = True"
| "admits _ _ = False"

definition well_typed :: "table \<Rightarrow> row \<Rightarrow> bool" where
  "well_typed t r = (map fst r = column_names t \<and>
     list_all (\<lambda>c. admits (col_type c) (cell r (col_name c)) \<or> col_nullable c \<and> cell r (col_name c) = Null) (tab_columns t))"

section \<open>Keys of the rows\<close>

lemmas row_defs = user_row_def organization_row_def refresh_token_row_def membership_row_def invitation_row_def
  api_key_row_def project_row_def subscription_row_def usage_event_row_def webhook_event_row_def audit_log_row_def

lemmas table_defs = users_table_def organizations_table_def refresh_tokens_table_def memberships_table_def
  invitations_table_def api_keys_table_def projects_table_def subscriptions_table_def usage_events_table_def
  webhook_events_table_def audit_logs_table_def

lemma row_id:
  "row_key [''id''] (user_row u) = [Uuid (usr_id u)]"
  "row_key [''id''] (organization_row g) = [Uuid (org_id g)]"
  "row_key [''id''] (refresh_token_row t) = [Uuid (rft_id t)]"
  "row_key [''id''] (membership_row m) = [Uuid (mem_id m)]"
  "row_key [''id''] (invitation_row i) = [Uuid (inv_id i)]"
  "row_key [''id''] (api_key_row k) = [Uuid (key_id k)]"
  "row_key [''id''] (project_row p) = [Uuid (prj_id p)]"
  "row_key [''id''] (subscription_row s) = [Uuid (sub_id s)]"
  "row_key [''id''] (usage_event_row e) = [Uuid (use_id e)]"
  "row_key [''id''] (webhook_event_row w) = [Uuid (whk_id w)]"
  "row_key [''id''] (audit_log_row a) = [Uuid (aud_id a)]"
  by (simp_all add: row_key_def cell_def row_defs)

lemma row_organization:
  "row_key [''organization_id''] (membership_row m) = [Uuid (mem_organization_id m)]"
  "row_key [''organization_id''] (invitation_row i) = [Uuid (inv_organization_id i)]"
  "row_key [''organization_id''] (api_key_row k) = [Uuid (key_organization_id k)]"
  "row_key [''organization_id''] (project_row p) = [Uuid (prj_organization_id p)]"
  "row_key [''organization_id''] (subscription_row s) = [Uuid (sub_organization_id s)]"
  "row_key [''organization_id''] (usage_event_row e) = [Uuid (use_organization_id e)]"
  "row_key [''organization_id''] (audit_log_row a) = [Uuid (aud_organization_id a)]"
  by (simp_all add: row_key_def cell_def row_defs)

lemma row_user:
  "row_key [''user_id''] (refresh_token_row t) = [Uuid (rft_user_id t)]"
  "row_key [''user_id''] (membership_row m) = [Uuid (mem_user_id m)]"
  "row_key [''created_by''] (invitation_row i) = [Uuid (inv_created_by i)]"
  "row_key [''created_by''] (api_key_row k) = [Uuid (key_created_by k)]"
  "row_key [''created_by''] (project_row p) = [Uuid (prj_created_by p)]"
  "row_key [''actor_user_id''] (audit_log_row a) = [null_or Uuid (aud_actor_user_id a)]"
  by (simp_all add: row_key_def cell_def row_defs)

lemma row_unique:
  "row_key [''email''] (user_row u) = [Text (usr_email u)]"
  "row_key [''slug''] (organization_row g) = [Text (org_slug g)]"
  "row_key [''token_hash''] (refresh_token_row t) = [Text (rft_token_hash t)]"
  "row_key [''user_id'', ''organization_id''] (membership_row m) = [Uuid (fst (mem_pair m)), Uuid (snd (mem_pair m))]"
  "row_key [''token_hash''] (invitation_row i) = [Text (inv_token_hash i)]"
  "row_key [''key_hash''] (api_key_row k) = [Text (key_hash k)]"
  "row_key [''external_subscription_id''] (subscription_row s) = [null_or Text (sub_external_subscription_id s)]"
  "row_key [''provider'', ''external_event_id''] (webhook_event_row w) = [Text (fst (whk_pair w)), Text (snd (whk_pair w))]"
  by (simp_all add: row_key_def cell_def row_defs mem_pair_def whk_pair_def)

section \<open>Constraints as conditions on the records\<close>

text \<open>A key that is never null, as an injective function \<open>g\<close> of a field \<open>f\<close> of the record.\<close>

lemma key_present:
  assumes "\<And>x. row_key cs (row x) = g (f x)" "inj g" "\<And>y. Null \<notin> set (g y)"
  shows "unique_key cs (map row xs) = unique_on f xs" "list_all (no_null cs) (map row xs)"
proof -
  show nn: "list_all (no_null cs) (map row xs)" by (simp add: list_all_iff no_null_def assms)
  then have "filter (no_null cs) (map row xs) = map row xs" by (simp add: list_all_iff)
  then have "unique_key cs (map row xs) = distinct (map g (map f xs))"
    by (simp add: unique_key_def comp_def assms(1))
  also have "\<dots> = distinct (map f xs)" by (subst distinct_map) (simp add: inj_on_subset [OF assms(2)])
  finally show "unique_key cs (map row xs) = unique_on f xs" by (simp add: unique_on_def)
qed

lemma inj_values: "inj (\<lambda>x. [Uuid x])" "inj (\<lambda>x. [Text x])" "inj (\<lambda>p. map Uuid [fst p, snd p])" "inj (\<lambda>p. map Text [fst p, snd p])"
  by (auto intro!: injI prod_eqI)

lemmas uuid_key = key_present [where g = "\<lambda>x. [Uuid x]", OF _ inj_values(1), simplified]
  and text_key = key_present [where g = "\<lambda>x. [Text x]", OF _ inj_values(2), simplified]
  and uuid_pair_key = key_present [where g = "\<lambda>p. map Uuid [fst p, snd p]", OF _ inj_values(3), simplified]
  and text_pair_key = key_present [where g = "\<lambda>p. map Text [fst p, snd p]", OF _ inj_values(4), simplified]

lemma null_or_simps [simp]:
  "null_or Text v = Null \<longleftrightarrow> v = None" "null_or Uuid w = Null \<longleftrightarrow> w = None"
  "Null = null_or Text v \<longleftrightarrow> v = None" "Null = null_or Uuid w \<longleftrightarrow> w = None"
  "null_or Text v = null_or Text v' \<longleftrightarrow> v = v'"
  by (auto simp: null_or_def split: option.splits)

lemma optional_text_key:
  assumes "\<And>x. row_key cs (row x) = [null_or Text (f x)]"
  shows "unique_key cs (map row xs) = unique_opt f xs"
proof -
  have "no_null cs (row x) \<longleftrightarrow> f x \<noteq> None" for x by (auto simp: no_null_def assms)
  then have "filter (no_null cs) (map row xs) = map row (filter (\<lambda>x. f x \<noteq> None) xs)"
    by (simp add: filter_map comp_def)
  then have "unique_key cs (map row xs) = distinct (map (\<lambda>v. [null_or Text v]) (map f (filter (\<lambda>x. f x \<noteq> None) xs)))"
    by (simp add: unique_key_def comp_def assms)
  also have "\<dots> = distinct (map f (filter (\<lambda>x. f x \<noteq> None) xs))"
    by (subst distinct_map) (simp add: inj_on_def)
  finally show ?thesis by (simp add: unique_opt_def unique_on_def)
qed

lemma reference:
  assumes "\<And>x. row_key cs (row x) = [Uuid (f x)]" "\<And>y. row_key ks (row' y) = [Uuid (k y)]" "R t = map row' ys"
  shows "holds R (map row xs) (ForeignKeyConstraint cs t ks od) = fk f (k ` set ys) xs"
  using assms by (auto simp: list_all_iff fk_def no_null_def image_iff)

lemma optional_reference:
  assumes "\<And>x. row_key cs (row x) = [null_or Uuid (f x)]" "\<And>y. row_key ks (row' y) = [Uuid (k y)]" "R t = map row' ys"
  shows "holds R (map row xs) (ForeignKeyConstraint cs t ks od) = fk_opt f (k ` set ys) xs"
  using assms by (auto simp: list_all_iff fk_opt_def no_null_def image_iff null_or_def split: option.splits)

lemma table_rows_simps:
  "table_rows d ''users'' = map user_row (users d)"
  "table_rows d ''organizations'' = map organization_row (organizations d)"
  "table_rows d ''refresh_tokens'' = map refresh_token_row (refresh_tokens d)"
  "table_rows d ''memberships'' = map membership_row (memberships d)"
  "table_rows d ''invitations'' = map invitation_row (invitations d)"
  "table_rows d ''api_keys'' = map api_key_row (api_keys d)"
  "table_rows d ''projects'' = map project_row (projects d)"
  "table_rows d ''subscriptions'' = map subscription_row (subscriptions d)"
  "table_rows d ''usage_events'' = map usage_event_row (usage_events d)"
  "table_rows d ''webhook_events'' = map webhook_event_row (webhook_events d)"
  "table_rows d ''audit_logs'' = map audit_log_row (audit_logs d)"
  by (simp_all add: table_rows_def)

lemma user_reference:
  assumes "\<And>x. row_key cs (row x) = [Uuid (f x)]"
  shows "holds (table_rows d) (map row xs) (ForeignKeyConstraint cs ''users'' [''id''] od) = fk f (user_ids d) xs"
  unfolding user_ids_def using assms by (rule reference [where R = "table_rows d"]) (rule row_id table_rows_simps)+

lemma optional_user_reference:
  assumes "\<And>x. row_key cs (row x) = [null_or Uuid (f x)]"
  shows "holds (table_rows d) (map row xs) (ForeignKeyConstraint cs ''users'' [''id''] od) = fk_opt f (user_ids d) xs"
  unfolding user_ids_def using assms by (rule optional_reference [where R = "table_rows d"]) (rule row_id table_rows_simps)+

lemma organization_reference:
  assumes "\<And>x. row_key cs (row x) = [Uuid (f x)]"
  shows "holds (table_rows d) (map row xs) (ForeignKeyConstraint cs ''organizations'' [''id''] od) = fk f (org_ids d) xs"
  unfolding org_ids_def using assms by (rule reference [where R = "table_rows d"]) (rule row_id table_rows_simps)+

lemmas constraint_conditions =
  row_id [THEN uuid_key(1)] row_id [THEN uuid_key(2)]
  row_organization [THEN organization_reference] row_organization(5) [THEN uuid_key(1)]
  row_user(1-5) [THEN user_reference] row_user(6) [THEN optional_user_reference]
  row_unique(1,2,3,5,6) [THEN text_key(1)] row_unique(4) [THEN uuid_pair_key(1)]
  row_unique(7) [THEN optional_text_key] row_unique(8) [THEN text_pair_key(1)]

definition table_ok :: "db \<Rightarrow> table \<Rightarrow> bool" where
  "table_ok d t = list_all (holds (table_rows d) (table_rows d (tab_name t))) (tab_constraints t)"

lemma tables_ok:
  "table_ok d users_table = unique_on usr_id (users d)"
  "table_ok d organizations_table = unique_on org_id (organizations d)"
  "table_ok d refresh_tokens_table = (unique_on rft_id (refresh_tokens d) \<and> fk rft_user_id (user_ids d) (refresh_tokens d))"
  "table_ok d memberships_table = wf_memberships d"
  "table_ok d invitations_table = wf_invitations d"
  "table_ok d api_keys_table = (unique_on key_id (api_keys d) \<and> fk key_created_by (user_ids d) (api_keys d) \<and>
     fk key_organization_id (org_ids d) (api_keys d))"
  "table_ok d projects_table = wf_projects d"
  "table_ok d subscriptions_table = wf_subscriptions d"
  "table_ok d usage_events_table = wf_usage_events d"
  "table_ok d webhook_events_table = wf_webhook_events d"
  "table_ok d audit_logs_table = wf_audit_logs d"
  by (auto simp: table_ok_def table_defs organization_fk_def table_rows_simps constraint_conditions
      wf_memberships_def wf_invitations_def wf_projects_def wf_subscriptions_def wf_usage_events_def
      wf_webhook_events_def wf_audit_logs_def simp del: holds.simps(3))

lemma unique_indexes:
  "filter ix_unique (sch_indexes migrated) =
     map (\<lambda>(n, t, c). \<lparr>ix_name = n, ix_table = t, ix_columns = [c], ix_unique = True\<rparr>)
       [(''ix_users_email'', ''users'', ''email''), (''ix_organizations_slug'', ''organizations'', ''slug''),
        (''ix_refresh_tokens_token_hash'', ''refresh_tokens'', ''token_hash''), (''ix_api_keys_key_hash'', ''api_keys'', ''key_hash'')]"
  by code_simp

lemma satisfies_migrated: "satisfies migrated (table_rows d) \<longleftrightarrow> wf_db d"
proof -
  have "list_all (\<lambda>i. ix_unique i \<longrightarrow> unique_key (ix_columns i) (table_rows d (ix_table i))) (sch_indexes migrated) =
      list_all (\<lambda>i. unique_key (ix_columns i) (table_rows d (ix_table i))) (filter ix_unique (sch_indexes migrated))"
    by (auto simp: list_all_iff)
  also have "\<dots> = (unique_on usr_email (users d) \<and> unique_on org_slug (organizations d) \<and>
      unique_on rft_token_hash (refresh_tokens d) \<and> unique_on key_hash (api_keys d))"
    unfolding unique_indexes by (simp add: table_rows_simps constraint_conditions)
  moreover have "list_all (table_ok d) (sch_tables migrated) =
      (table_ok d users_table \<and> table_ok d organizations_table \<and> table_ok d refresh_tokens_table \<and> table_ok d memberships_table \<and>
       table_ok d invitations_table \<and> table_ok d api_keys_table \<and> table_ok d projects_table \<and> table_ok d subscriptions_table \<and>
       table_ok d usage_events_table \<and> table_ok d webhook_events_table \<and> table_ok d audit_logs_table)"
    by (simp add: migrated_def)
  ultimately show ?thesis
    unfolding satisfies_def wf_db_def wf_users_def wf_organizations_def wf_refresh_tokens_def wf_api_keys_def
      table_ok_def [symmetric] tables_ok by blast
qed


section \<open>Types of the stored values\<close>

lemma enum_values:
  "role_value r \<in> {''OWNER'', ''ADMIN'', ''MEMBER''}"
  "project_status_value p \<in> {''ACTIVE'', ''ARCHIVED''}"
  "plan_value q \<in> {''FREE'', ''PRO'', ''BUSINESS''}"
  "subscription_status_value s \<in> {''ACTIVE'', ''PAST_DUE'', ''CANCELED''}"
  "webhook_status_value w \<in> {''PENDING'', ''PROCESSED'', ''FAILED''}"
proof -
  show "role_value r \<in> {''OWNER'', ''ADMIN'', ''MEMBER''}" by (cases r) simp_all
  show "project_status_value p \<in> {''ACTIVE'', ''ARCHIVED''}" by (cases p) simp_all
  show "plan_value q \<in> {''FREE'', ''PRO'', ''BUSINESS''}" by (cases q) simp_all
  show "subscription_status_value s \<in> {''ACTIVE'', ''PAST_DUE'', ''CANCELED''}" by (cases s) simp_all
  show "webhook_status_value w \<in> {''PENDING'', ''PROCESSED'', ''FAILED''}" by (cases w) simp_all
qed

lemma admits_null_or [simp]:
  "admits (SqlString n) (null_or Text v) \<or> v = None"
  "admits SqlText (null_or Text v) \<or> v = None"
  "admits SqlUuid (null_or Uuid u) \<or> u = None"
  "admits (SqlDateTime tz) (null_or DateTime t) \<or> null_or DateTime t = Null"
  by (simp_all add: null_or_def split: option.splits)

lemma rows_typed:
  "well_typed users_table (user_row u)" "well_typed organizations_table (organization_row g)"
  "well_typed refresh_tokens_table (refresh_token_row t)" "well_typed memberships_table (membership_row m)"
  "well_typed invitations_table (invitation_row i)" "well_typed api_keys_table (api_key_row k)"
  "well_typed projects_table (project_row p)" "well_typed subscriptions_table (subscription_row s)"
  "well_typed usage_events_table (usage_event_row e)" "well_typed webhook_events_table (webhook_event_row w)"
  "well_typed audit_logs_table (audit_log_row a)"
  using enum_values
  by (simp_all add: well_typed_def table_defs row_defs column_names_def Column_def now_column_def role_type_def cell_def)

lemma all_typed: "list_all (\<lambda>t. list_all (well_typed t) (table_rows d (tab_name t))) (sch_tables migrated)"
proof -
  have n: "tab_name users_table = ''users''" "tab_name organizations_table = ''organizations''"
    "tab_name refresh_tokens_table = ''refresh_tokens''" "tab_name memberships_table = ''memberships''"
    "tab_name invitations_table = ''invitations''" "tab_name api_keys_table = ''api_keys''"
    "tab_name projects_table = ''projects''" "tab_name subscriptions_table = ''subscriptions''"
    "tab_name usage_events_table = ''usage_events''" "tab_name webhook_events_table = ''webhook_events''"
    "tab_name audit_logs_table = ''audit_logs''" by (simp_all add: table_defs)
  show ?thesis by (simp add: migrated_def n table_rows_simps rows_typed list_all_iff)
qed

section \<open>Deletion\<close>

text \<open>
  What SQL does to the row of a table when the row of \<open>target\<close> with the given primary key is deleted:
  it goes with it when a cascading reference of its table points there.
\<close>

definition refers_to :: "string \<Rightarrow> sql_value \<Rightarrow> row \<Rightarrow> ondelete \<Rightarrow> table_constraint \<Rightarrow> bool" where
  "refers_to target v r od c = (case c of
       ForeignKeyConstraint cs t ks od' \<Rightarrow> t = target \<and> od' = od \<and> row_key cs r = [v]
     | _ \<Rightarrow> False)"

definition rows_after_delete :: "string \<Rightarrow> sql_value \<Rightarrow> table \<Rightarrow> row list \<Rightarrow> row list" where
  "rows_after_delete target v t rows =
     filter (\<lambda>r. \<not> (tab_name t = target \<and> row_key [''id''] r = [v] \<or>
                     list_ex (refers_to target v r CASCADE) (tab_constraints t))) rows"

lemma delete_organization_cascades:
  "list_all (\<lambda>t. table_rows (delete_organization_row i d) (tab_name t) =
      rows_after_delete ''organizations'' (Uuid i) t (table_rows d (tab_name t))) (sch_tables migrated)"
  by (simp add: migrated_def table_defs table_rows_simps rows_after_delete_def refers_to_def organization_fk_def
      row_organization row_id delete_organization_row_def filter_map comp_def)

section \<open>The migration beside other tables\<close>

text \<open>
  A schema beside another, such as the version table of Alembic beside the tables of the service. An
  operation that runs on \<open>T\<close> and names nothing of \<open>S\<close> runs on both together and leaves \<open>S\<close> as it is.
\<close>

definition add_schema :: "schema \<Rightarrow> schema \<Rightarrow> schema" where
  "add_schema S T = \<lparr>sch_tables = sch_tables S @ sch_tables T, sch_indexes = sch_indexes S @ sch_indexes T\<rparr>"

definition table_names :: "schema \<Rightarrow> string set" where
  "table_names S = tab_name ` set (sch_tables S)"

definition index_names :: "schema \<Rightarrow> string set" where
  "index_names S = ix_name ` set (sch_indexes S)"

text \<open>Every reference and every index of the schema is to one of its tables.\<close>

definition closed_schema :: "schema \<Rightarrow> bool" where
  "closed_schema S \<longleftrightarrow> list_all (\<lambda>t. set (references t) \<subseteq> table_names S) (sch_tables S) \<and>
     ix_table ` set (sch_indexes S) \<subseteq> table_names S"

definition same_names :: "schema \<Rightarrow> schema \<Rightarrow> bool" where
  "same_names S T \<longleftrightarrow> table_names S \<inter> table_names T \<noteq> {} \<or> index_names S \<inter> index_names T \<noteq> {}"

text \<open>The tables and indexes an operation creates, and those it names.\<close>

primrec op_tables :: "schema_op \<Rightarrow> string set" where
  "op_tables (CreateTable t) = {tab_name t}"
| "op_tables (CreateIndex i) = {ix_table i}"
| "op_tables (DropIndex n tn) = {tn}"
| "op_tables (DropTable n) = {n}"

primrec op_indexes :: "schema_op \<Rightarrow> string set" where
  "op_indexes (CreateTable t) = {}"
| "op_indexes (CreateIndex i) = {ix_name i}"
| "op_indexes (DropIndex n tn) = {n}"
| "op_indexes (DropTable n) = {}"

lemma find_in_append: "find P (xs @ ys) = (case find P xs of None \<Rightarrow> find P ys | Some x \<Rightarrow> Some x)"
  by (induction xs) simp_all

lemma find_table_add:
  "find_table (add_schema S T) n = (case find_table S n of None \<Rightarrow> find_table T n | Some t \<Rightarrow> Some t)"
  by (auto simp: find_table_def add_schema_def find_in_append split: option.split)

lemma find_table_absent: "n \<notin> table_names S \<longleftrightarrow> find_table S n = None"
  by (auto simp: find_table_def table_names_def find_None_iff)

lemma find_table_present: "n \<in> table_names S \<longleftrightarrow> find_table S n \<noteq> None"
  by (simp flip: find_table_absent)

lemma run_op_frame:
  assumes "run_op op T = Some T'" "closed_schema S" "op_tables op \<inter> table_names S = {}" "op_indexes op \<inter> index_names S = {}"
  shows "run_op op (add_schema S T) = Some (add_schema S T')"
proof (cases op)
  case (CreateTable t)
  have n: "find_table S (tab_name t) = None" using assms(3) by (simp add: CreateTable flip: find_table_absent)
  have r: "find_table T r \<noteq> None \<Longrightarrow> find_table (add_schema S T) r \<noteq> None" for r by (auto simp: find_table_add split: option.split)
  have n': "find_table (add_schema S T) (tab_name t) = find_table T (tab_name t)" using n by (simp add: find_table_add)
  show ?thesis using assms(1) n' r by (auto simp: CreateTable list_all_iff split: if_splits) (simp add: add_schema_def)
next
  case (CreateIndex i)
  have n: "find_table S (ix_table i) = None" using assms(3) by (simp add: CreateIndex flip: find_table_absent)
  have x: "\<not> list_ex (\<lambda>j. ix_name j = ix_name i) (sch_indexes S)"
    using assms(4) by (auto simp: CreateIndex index_names_def list_ex_iff image_iff)
  show ?thesis using assms(1) n x
    by (auto simp: CreateIndex find_table_add split: option.splits if_splits) (simp_all add: add_schema_def)
next
  case (DropIndex n tn)
  have k: "filter (\<lambda>j. ix_name j = n \<longrightarrow> ix_table j \<noteq> tn) (sch_indexes S) = sch_indexes S"
    using assms(4) by (auto simp: DropIndex index_names_def filter_id_conv)
  show ?thesis using assms(1) k by (auto simp: DropIndex add_schema_def split: if_splits)
next
  case (DropTable n)
  have n: "n \<notin> table_names S" "find_table S n = None" using assms(3) by (simp_all add: DropTable flip: find_table_absent)
  have t: "filter (\<lambda>t. tab_name t \<noteq> n) (sch_tables S) = sch_tables S" "\<not> list_ex (\<lambda>t. tab_name t \<noteq> n \<and> List.member (references t) n) (sch_tables S)"
    "filter (\<lambda>j. ix_table j \<noteq> n) (sch_indexes S) = sch_indexes S"
    using n(1) assms(2) by (auto simp: table_names_def closed_schema_def filter_id_conv list_ex_iff list_all_iff)
  show ?thesis using assms(1) n t by (auto simp: DropTable find_table_add split: if_splits) (simp_all add: add_schema_def)
qed

lemma run_ops_frame:
  assumes "run_ops ops T = Some T'" "closed_schema S" "\<forall>op \<in> set ops. op_tables op \<inter> table_names S = {} \<and> op_indexes op \<inter> index_names S = {}"
  shows "run_ops ops (add_schema S T) = Some (add_schema S T')"
  using assms(1,3)
proof (induction ops arbitrary: T)
  case (Cons op ops)
  obtain U where u: "run_op op T = Some U" "run_ops ops U = Some T'" using Cons.prems(1) by (auto split: option.splits)
  show ?case using run_op_frame [OF u(1) assms(2)] Cons.IH [OF u(2)] Cons.prems(2) by simp
qed simp

text \<open>Operations that only create fail when one of their tables or indexes is there already.\<close>

definition creates :: "schema_op \<Rightarrow> bool" where
  "creates op = (case op of CreateTable _ \<Rightarrow> True | CreateIndex _ \<Rightarrow> True | _ \<Rightarrow> False)"

lemma run_op_creates:
  assumes "run_op op S = Some S'" "creates op"
  shows "table_names S \<subseteq> table_names S' \<and> index_names S \<subseteq> index_names S'"
  using assms by (cases op) (auto simp: creates_def table_names_def index_names_def split: if_splits option.splits)

lemma run_ops_clash:
  assumes "list_all creates ops" "(\<exists>t. CreateTable t \<in> set ops \<and> tab_name t \<in> table_names S) \<or> (\<exists>i. CreateIndex i \<in> set ops \<and> ix_name i \<in> index_names S)"
  shows "run_ops ops S = None"
  using assms
proof (induction ops arbitrary: S)
  case (Cons op ops)
  show ?case
  proof (cases "run_op op S")
    case (Some S')
    have s: "table_names S \<subseteq> table_names S'" "index_names S \<subseteq> index_names S'"
      using run_op_creates [OF Some] Cons.prems(1) by simp_all
    have "op \<noteq> CreateTable t" if "tab_name t \<in> table_names S" for t using Some that by (auto simp: find_table_present)
    moreover have "op \<noteq> CreateIndex i" if "ix_name i \<in> index_names S" for i
      using Some that by (auto simp: index_names_def list_ex_iff split: option.splits if_splits)
    ultimately have "run_ops ops S' = None" using Cons.prems s by (intro Cons.IH) auto
    then show ?thesis by (simp add: Some)
  qed simp
qed simp

lemma upgrade_creates: "list_all creates upgrade" by code_simp

lemma migrated_created:
  "sch_tables migrated = [t. CreateTable t \<leftarrow> upgrade]" "sch_indexes migrated = [i. CreateIndex i \<leftarrow> upgrade]"
  by code_simp+

lemma upgrade_named: "list_all (\<lambda>op. op_tables op \<subseteq> table_names migrated \<and> op_indexes op \<subseteq> index_names migrated) upgrade"
  by code_simp

lemma downgrade_named: "list_all (\<lambda>op. op_tables op \<subseteq> table_names migrated \<and> op_indexes op \<subseteq> index_names migrated) downgrade"
  by code_simp

lemma names_apart:
  assumes "\<not> same_names S N" "list_all (\<lambda>op. op_tables op \<subseteq> table_names N \<and> op_indexes op \<subseteq> index_names N) ops"
  shows "\<forall>op \<in> set ops. op_tables op \<inter> table_names S = {} \<and> op_indexes op \<inter> index_names S = {}"
  using assms unfolding same_names_def list_all_iff by blast

lemma upgrade_on:
  assumes "closed_schema S"
  shows "run_ops upgrade S = (if same_names S migrated then None else Some (add_schema S migrated))"
proof (cases "same_names S migrated")
  case True
  have "t \<in> set (sch_tables migrated) \<Longrightarrow> CreateTable t \<in> set upgrade" "i \<in> set (sch_indexes migrated) \<Longrightarrow> CreateIndex i \<in> set upgrade" for t i
    unfolding migrated_created by (auto split: schema_op.splits)
  then have "run_ops upgrade S = None" using True upgrade_creates
    by (intro run_ops_clash) (auto simp: same_names_def table_names_def [of migrated] index_names_def [of migrated])
  then show ?thesis using True by simp
next
  case False
  have e: "add_schema S empty_schema = S" by (simp add: add_schema_def empty_schema_def)
  have "run_ops upgrade (add_schema S empty_schema) = Some (add_schema S migrated)"
    using upgrade_migrated assms(1) names_apart [OF _ upgrade_named] False by (intro run_ops_frame) blast+
  then show ?thesis using False by (simp add: e)
qed

lemma downgrade_on:
  assumes "closed_schema S" "\<not> same_names S migrated"
  shows "run_ops downgrade (add_schema S migrated) = Some S"
proof -
  have e: "add_schema S empty_schema = S" by (simp add: add_schema_def empty_schema_def)
  have "run_ops downgrade (add_schema S migrated) = Some (add_schema S empty_schema)"
    using downgrade_migrated assms(1) names_apart [OF _ downgrade_named] assms(2) by (intro run_ops_frame) blast+
  then show ?thesis by (simp add: e)
qed

section \<open>Properties\<close>

text \<open>
  C18. The migration and the mapped classes describe the same database, whatever else is in it. On any
  schema the upgrade either adds exactly the tables, columns, constraints and indexes the classes
  declare and touches nothing that was there, or, when one of these tables or indexes exists
  already, it fails; and after a successful upgrade the downgrade restores the schema as it was.
\<close>

theorem migration_matches_models:
  assumes "closed_schema S"
  shows "\<exists>N. same_schema N metadata \<and>
    run_ops upgrade S = (if same_names S N then None else Some (add_schema S N)) \<and>
    (\<forall>S'. run_ops upgrade S = Some S' \<longrightarrow> run_ops downgrade S' = Some S)"
  using migrated_metadata upgrade_on [OF assms] downgrade_on [OF assms]
  by (intro exI [of _ migrated]) (auto split: if_splits)

definition version_schema :: schema where
  "version_schema = \<lparr>sch_tables = [\<lparr>tab_name = ''alembic_version'', tab_columns = [Column ''version_num'' (SqlString 32) False],
     tab_constraints = [PrimaryKeyConstraint [''version_num'']]\<rparr>], sch_indexes = []\<rparr>"

theorem migration_matches_models_witness:
  "\<exists>S'. run_ops upgrade version_schema = Some S' \<and> find_table S' ''alembic_version'' \<noteq> None \<and> run_ops downgrade S' = Some version_schema \<and>
     run_ops upgrade S' = None"
proof -
  have c: "closed_schema version_schema" by code_simp
  have n: "\<not> same_names version_schema migrated" by code_simp
  have s: "run_ops upgrade version_schema = Some (add_schema version_schema migrated)"
    using upgrade_on [OF c] n by simp
  moreover have "find_table (add_schema version_schema migrated) ''alembic_version'' \<noteq> None"
    "run_ops upgrade (add_schema version_schema migrated) = None"
    by code_simp+
  ultimately show ?thesis using migration_matches_models [OF c] by blast
qed

text \<open>
  C17. The well-formedness of the database record is the schema: on the tables the migration creates,
  every row has the columns and value types declared, and all primary key, unique and foreign key
  constraints and unique indexes hold if and only if the record is well-formed.
\<close>

theorem schema_is_well_formedness:
  "run_ops upgrade empty_schema = Some migrated \<and>
   list_all (\<lambda>t. list_all (well_typed t) (table_rows d (tab_name t))) (sch_tables migrated) \<and>
   (satisfies migrated (table_rows d) \<longleftrightarrow> wf_db d)"
  using upgrade_migrated all_typed satisfies_migrated by blast

text \<open>
  Deleting an organization removes exactly the rows that the \<open>ON DELETE\<close> clauses of the migration
  remove: in each table, the rows with a cascading reference to it; no table refers to any of these
  tables in turn, and no other kind of reference to organizations exists.
\<close>

lemma deletion_follows_schema:
  "list_all (\<lambda>t. table_rows (delete_organization_row i d) (tab_name t) =
      rows_after_delete ''organizations'' (Uuid i) t (table_rows d (tab_name t))) (sch_tables migrated) \<and>
   list_all (\<lambda>t. set (references t) \<subseteq> {''users'', ''organizations''} \<and>
      set [od. ForeignKeyConstraint cs r ks od \<leftarrow> tab_constraints t, r = ''organizations''] \<subseteq> {CASCADE}) (sch_tables migrated)"
  by (intro conjI delete_organization_cascades) (simp add: migrated_def table_defs references_def organization_fk_def)

end
