(* ===== verification/Column_Sizes.thy ===== *)
theory Column_Sizes
  imports System Constraints
begin

text \<open>
  The sizes of the columns. A text longer than its \<open>VARCHAR(n)\<close> column, or a number outside the range
  of an \<open>INTEGER\<close> column, would be a database error the services do not expect. It cannot occur:
  the limits of the request schemas and of the webhook validation keep every stored value within the
  sizes the migration declares. \<open>rows_fit\<close> states it on the migrated tables, \<open>sized\<close> on the records.
\<close>

section \<open>Sizes of stored values\<close>

fun value_fits :: "sql_type \<Rightarrow> sql_value \<Rightarrow> bool" where
  "value_fits (SqlString n) (Text s) = (length s \<le> n)"
| "value_fits SqlInteger (Integer i) = (- 2147483648 \<le> i \<and> i \<le> 2147483647)"
| "value_fits _ _ = True"

definition row_fits :: "table \<Rightarrow> row \<Rightarrow> bool" where
  "row_fits t r = list_all (\<lambda>c. value_fits (col_type c) (cell r (col_name c))) (tab_columns t)"

definition rows_fit :: "schema \<Rightarrow> (string \<Rightarrow> row list) \<Rightarrow> bool" where
  "rows_fit S R = list_all (\<lambda>t. list_all (row_fits t) (R (tab_name t))) (sch_tables S)"

definition opt_fits :: "nat \<Rightarrow> string option \<Rightarrow> bool" where
  "opt_fits n v = (case v of None \<Rightarrow> True | Some s \<Rightarrow> length s \<le> n)"

definition user_fits :: "user \<Rightarrow> bool" where
  "user_fits u = (length (usr_email u) \<le> 320 \<and> length (usr_password_hash u) \<le> 255)"

definition organization_fits :: "organization \<Rightarrow> bool" where
  "organization_fits g = (length (org_name g) \<le> 120 \<and> length (org_slug g) \<le> 80)"

definition refresh_token_fits :: "refresh_token \<Rightarrow> bool" where
  "refresh_token_fits t = (length (rft_token_hash t) \<le> 64)"

definition invitation_fits :: "invitation \<Rightarrow> bool" where
  "invitation_fits i = (length (inv_email i) \<le> 320 \<and> length (inv_token_hash i) \<le> 64)"

definition api_key_fits :: "api_key \<Rightarrow> bool" where
  "api_key_fits k = (length (key_name k) \<le> 100 \<and> length (key_hash k) \<le> 64 \<and> length (key_prefix k) \<le> 20)"

definition project_fits :: "project \<Rightarrow> bool" where
  "project_fits p = (length (prj_name p) \<le> 120)"

definition subscription_fits :: "subscription \<Rightarrow> bool" where
  "subscription_fits s = (opt_fits 120 (sub_external_customer_id s) \<and> opt_fits 120 (sub_external_subscription_id s))"

definition usage_event_fits :: "usage_event \<Rightarrow> bool" where
  "usage_event_fits e = (length (use_metric e) \<le> 80 \<and> - 2147483648 \<le> use_quantity e \<and> use_quantity e \<le> 2147483647)"

text \<open>A stored webhook also names the type its payload has: the payload was validated under that type.\<close>

definition webhook_event_fits :: "webhook_event \<Rightarrow> bool" where
  "webhook_event_fits w = (length (whk_provider w) \<le> 40 \<and> length (whk_external_event_id w) \<le> 160 \<and> length (whk_event_type w) \<le> 80 \<and>
     dict_get (whk_payload w) ''type'' = Some (JStr (whk_event_type w)))"

definition audit_log_fits :: "audit_log \<Rightarrow> bool" where
  "audit_log_fits a = (length (aud_action a) \<le> 80 \<and> length (aud_resource_type a) \<le> 80 \<and> length (aud_resource_id a) \<le> 80 \<and>
     opt_fits 45 (aud_ip_address a))"

lemmas fits_defs = user_fits_def organization_fits_def refresh_token_fits_def invitation_fits_def api_key_fits_def
  project_fits_def subscription_fits_def usage_event_fits_def webhook_event_fits_def audit_log_fits_def

definition sized :: "db \<Rightarrow> bool" where
  "sized d = (list_all user_fits (users d) \<and> list_all organization_fits (organizations d) \<and> list_all refresh_token_fits (refresh_tokens d) \<and>
     list_all invitation_fits (invitations d) \<and> list_all api_key_fits (api_keys d) \<and> list_all project_fits (projects d) \<and>
     list_all subscription_fits (subscriptions d) \<and> list_all usage_event_fits (usage_events d) \<and>
     list_all webhook_event_fits (webhook_events d) \<and> list_all audit_log_fits (audit_logs d))"

lemma value_fits_null_or [simp]:
  "value_fits (SqlString n) (null_or Text v) = opt_fits n v" "value_fits SqlText x" "value_fits (SqlDateTime z) x" "value_fits SqlUuid x"
  by (simp_all add: null_or_def opt_fits_def split: option.splits)

lemma row_fits_iff:
  "row_fits users_table (user_row u) = user_fits u" "row_fits organizations_table (organization_row g) = organization_fits g"
  "row_fits refresh_tokens_table (refresh_token_row t) = refresh_token_fits t" "row_fits memberships_table (membership_row m)"
  "row_fits invitations_table (invitation_row i) = invitation_fits i" "row_fits api_keys_table (api_key_row k) = api_key_fits k"
  "row_fits projects_table (project_row p) = project_fits p" "row_fits subscriptions_table (subscription_row s) = subscription_fits s"
  "row_fits usage_events_table (usage_event_row e) = usage_event_fits e" "webhook_event_fits w \<Longrightarrow> row_fits webhook_events_table (webhook_event_row w)"
  "row_fits audit_logs_table (audit_log_row a) = audit_log_fits a"
  by (auto simp: row_fits_def table_defs row_defs Column_def now_column_def role_type_def cell_def fits_defs)

lemma rows_fit_migrated:
  assumes "sized d"
  shows "rows_fit migrated (table_rows d)"
proof -
  have n: "tab_name users_table = ''users''" "tab_name organizations_table = ''organizations''"
    "tab_name refresh_tokens_table = ''refresh_tokens''" "tab_name memberships_table = ''memberships''"
    "tab_name invitations_table = ''invitations''" "tab_name api_keys_table = ''api_keys''"
    "tab_name projects_table = ''projects''" "tab_name subscriptions_table = ''subscriptions''"
    "tab_name usage_events_table = ''usage_events''" "tab_name webhook_events_table = ''webhook_events''"
    "tab_name audit_logs_table = ''audit_logs''" by (simp_all add: table_defs)
  show ?thesis
    using assms unfolding rows_fit_def sized_def
    by (auto simp: migrated_def n table_rows_simps list_all_iff row_fits_iff)
qed

section \<open>Flushes\<close>

lemma sized_add:
  "add_user u d = Inr d' \<Longrightarrow> sized d \<Longrightarrow> user_fits u \<Longrightarrow> sized d'"
  "add_organization g d = Inr d' \<Longrightarrow> sized d \<Longrightarrow> organization_fits g \<Longrightarrow> sized d'"
  "add_refresh_token t d = Inr d' \<Longrightarrow> sized d \<Longrightarrow> refresh_token_fits t \<Longrightarrow> sized d'"
  "add_membership m d = Inr d' \<Longrightarrow> sized d \<Longrightarrow> sized d'"
  "add_invitation i d = Inr d' \<Longrightarrow> sized d \<Longrightarrow> invitation_fits i \<Longrightarrow> sized d'"
  "add_api_key k d = Inr d' \<Longrightarrow> sized d \<Longrightarrow> api_key_fits k \<Longrightarrow> sized d'"
  "add_project p d = Inr d' \<Longrightarrow> sized d \<Longrightarrow> project_fits p \<Longrightarrow> sized d'"
  "add_subscription s d = Inr d' \<Longrightarrow> sized d \<Longrightarrow> subscription_fits s \<Longrightarrow> sized d'"
  "add_usage_event e d = Inr d' \<Longrightarrow> sized d \<Longrightarrow> usage_event_fits e \<Longrightarrow> sized d'"
  "add_webhook_event w d = Inr d' \<Longrightarrow> sized d \<Longrightarrow> webhook_event_fits w \<Longrightarrow> sized d'"
  "add_audit_log a d = Inr d' \<Longrightarrow> sized d \<Longrightarrow> audit_log_fits a \<Longrightarrow> sized d'"
  by (auto simp: add_defs sized_def split: if_splits option.splits)

lemma list_all_save_row: "list_all P rs \<Longrightarrow> P r \<Longrightarrow> list_all P (save_row k r rs)"
  by (auto simp: list_all_iff dest!: in_set_save_rowD)

lemma sized_save:
  "sized d \<Longrightarrow> refresh_token_fits t \<Longrightarrow> sized (save_refresh_token t d)"
  "sized d \<Longrightarrow> sized (save_membership m d)"
  "sized d \<Longrightarrow> invitation_fits i \<Longrightarrow> sized (save_invitation i d)"
  "sized d \<Longrightarrow> api_key_fits k \<Longrightarrow> sized (save_api_key k d)"
  "sized d \<Longrightarrow> project_fits p \<Longrightarrow> sized (save_project p d)"
  "sized d \<Longrightarrow> webhook_event_fits w \<Longrightarrow> sized (save_webhook_event w d)"
  "save_organization g d = Inr d' \<Longrightarrow> sized d \<Longrightarrow> organization_fits g \<Longrightarrow> sized d'"
  "save_subscription s d = Inr d' \<Longrightarrow> sized d \<Longrightarrow> subscription_fits s \<Longrightarrow> sized d'"
  by (auto simp: save_defs sized_def list_all_save_row split: if_splits)

lemma list_all_filter: "list_all P xs \<Longrightarrow> list_all P (filter Q xs)"
  by (simp add: list_all_iff)

lemma sized_delete:
  "sized d \<Longrightarrow> sized (delete_membership_row i d)" "sized d \<Longrightarrow> sized (delete_project_row i d)" "sized d \<Longrightarrow> sized (delete_organization_row i d)"
  by (simp_all add: delete_defs sized_def list_all_filter)

lemma sizedD:
  assumes "sized d"
  shows "t \<in> set (refresh_tokens d) \<Longrightarrow> refresh_token_fits t" "i \<in> set (invitations d) \<Longrightarrow> invitation_fits i" "k \<in> set (api_keys d) \<Longrightarrow> api_key_fits k"
    "p \<in> set (projects d) \<Longrightarrow> project_fits p" "g \<in> set (organizations d) \<Longrightarrow> organization_fits g"
    "s \<in> set (subscriptions d) \<Longrightarrow> subscription_fits s" "w \<in> set (webhook_events d) \<Longrightarrow> webhook_event_fits w"
  using assms by (auto simp: sized_def list_all_iff)

lemma sized_audit:
  assumes "write_audit E oid actor action rty rid meta ip d = Inr (a, d')" "sized d"
    "length action \<le> 80" "length rty \<le> 80" "length rid \<le> 80" "opt_fits 45 ip"
  shows "sized d'"
  by (rule sized_add(11) [OF write_audit_InrD(1) [OF assms(1)] assms(2)])
    (use assms in \<open>auto simp: write_audit_def audit_log_fits_def Let_def\<close>)

lemma opt_fits_None [simp]: "opt_fits n None"
  by (simp add: opt_fits_def)


section \<open>Services\<close>

text \<open>The sizes of what the libraries return: a SHA-256 digest in hexadecimal, an encoded password hash.\<close>

definition digests_fit :: "ext \<Rightarrow> bool" where
  "digests_fit X = ((\<forall>m. length (sha256_hex X m) = 64) \<and> (\<forall>salt p. length (pw_hash X salt p) \<le> 255))"

definition sized_kept :: "db \<Rightarrow> db \<Rightarrow> bool" where
  "sized_kept d d' = (sized d \<longrightarrow> sized d')"

interpretation sized: db_relation sized_kept
  by unfold_locales (simp_all add: sized_kept_def)

lemma keeps_sizedI: "(\<And>d x d'. op d = Inr (x, d') \<Longrightarrow> sized d \<Longrightarrow> sized d') \<Longrightarrow> keeps sized_kept op"
  by (simp add: keeps_def sized_kept_def)

lemma sized_audit_uuid:
  assumes "write_audit E oid actor action rty (uuid_str i) meta None d = Inr (a, d')" "sized d" "length action \<le> 80" "length rty \<le> 80"
  shows "sized d'"
  by (rule sized_audit [OF assms]) (simp_all add: length_uuid_str)

lemma length_py_strip: "length (py_strip s) \<le> length s"
  by (metis (no_types) py_strip_def length_dropWhile_le length_rev le_trans)

lemma register_user_sized:
  assumes "digests_fit X" "length email \<le> 320"
  shows "keeps sized_kept (register_user X E email pw)"
proof (rule keeps_sizedI)
  fix d u d'
  assume r: "register_user X E email pw d = Inr (u, d')" and d: "sized d"
  have "user_fits u"
    using assms register_user_InrD(2,4) [OF r] length_py_strip [of email]
    by (simp add: user_fits_def digests_fit_def hash_password_def)
  then show "sized d'" by (rule sized_add(1) [OF register_user_InrD(1) [OF r] d])
qed

lemma issue_tokens_sized: "digests_fit X \<Longrightarrow> keeps sized_kept (issue_tokens X S E u)"
  by (rule keeps_sizedI, erule issue_tokens_InrD, erule sized_add(3))
    (simp_all add: refresh_token_fits_def digests_fit_def hash_token_def)

lemma revoke_row_sized: "find_refresh_token X raw d = Some t \<Longrightarrow> sized d \<Longrightarrow> sized (save_refresh_token (t\<lparr>rft_revoked_at := r\<rparr>) d)"
  by (rule sized_save(1)) (auto simp: refresh_token_fits_def dest: find_refresh_tokenD sizedD(1))

lemma keeps_sizedD: "keeps sized_kept op \<Longrightarrow> op d = Inr (x, d') \<Longrightarrow> sized d \<Longrightarrow> sized d'"
  unfolding keeps_def sized_kept_def by blast

lemma rotate_refresh_token_sized: "digests_fit X \<Longrightarrow> keeps sized_kept (rotate_refresh_token X S E raw)"
  by (rule keeps_sizedI, erule rotate_refresh_token_InrD, erule keeps_sizedD [OF issue_tokens_sized], assumption)
    (erule revoke_row_sized)

lemma revoke_refresh_token_sized: "keeps sized_kept (revoke_refresh_token X E raw)"
  by (rule keeps_sizedI, erule revoke_refresh_token_InrD) (auto dest: revoke_row_sized)

lemma default_subscription_sized:
  assumes "create_default_subscription E oid now d = Inr (s, d')" "sized d"
  shows "sized d'" "subscription_fits s"
proof -
  show *: "subscription_fits s" using assms(1) by (auto simp: create_default_subscription_def Let_def subscription_fits_def)
  show "sized d'" by (rule sized_add(8) [OF create_default_subscription_InrD(1) [OF assms(1)] assms(2) *])
qed

lemma create_organization_sized:
  assumes "length (oc_name data) \<le> 120" "length (oc_slug data) \<le> 80"
  shows "keeps sized_kept (create_organization E actor data)"
proof (rule keeps_sizedI, erule create_organization_InrD)
  fix d o' d' m s d1 d2 d3 e
  assume d: "sized d" and o': "org_slug o' = py_lower (oc_slug data)" "org_name o' = oc_name data"
    and a: "add_organization o' d = Inr d1" "add_membership m d1 = Inr d2"
      "create_default_subscription (later_uuid 2 E) (org_id o') None d2 = Inr (s, d3)"
      "write_audit (later_uuid 3 E) (org_id o') (Some actor) ''organization.created'' ''organization'' (uuid_str (org_id o')) [] None d3 = Inr (e, d')"
  have "sized d1" by (rule sized_add(2) [OF a(1) d]) (simp add: organization_fits_def o' assms)
  then have "sized d3" by (rule default_subscription_sized(1) [OF a(3) sized_add(4) [OF a(2)]])
  then show "sized d'" by (rule sized_audit_uuid [OF a(4)]) simp_all
qed

lemma organization_changes_fits:
  assumes "organization_fits g" "\<And>n. ou_name data = Some n \<Longrightarrow> length n \<le> 120" "\<And>s. ou_slug data = Some s \<Longrightarrow> length s \<le> 80"
  shows "organization_fits (touch_organization E g (organization_changes data g))"
  using assms by (auto simp: organization_fits_def touch_organization_def organization_changes_def Let_def split: option.splits)

lemma update_organization_sized:
  assumes "\<And>n. ou_name data = Some n \<Longrightarrow> length n \<le> 120" "\<And>s. ou_slug data = Some s \<Longrightarrow> length s \<le> 80"
  shows "keeps sized_kept (update_organization E oid actor data)"
proof (rule keeps_sizedI, erule update_organization_InrD)
  fix d o' d' o0 d1 e meta
  assume d: "sized d" and o': "o' = touch_organization E o0 (organization_changes data o0)"
    and a: "select_organization d oid actor (\<lambda>r. r = OWNER \<or> r = ADMIN) = Some o0" "save_organization o' d = Inr d1"
      "write_audit E oid (Some actor) ''organization.updated'' ''organization'' (uuid_str oid) meta None d1 = Inr (e, d')"
  have "organization_fits o0" using select_organizationD [OF a(1)] sizedD(5) [OF d] by blast
  then have "sized d1" using sized_save(7) [OF a(2) d] organization_changes_fits [OF _ assms] o' by blast
  then show "sized d'" by (rule sized_audit_uuid [OF a(3)]) simp_all
qed

lemma member_services_sized:
  "keeps sized_kept (delete_organization E oid actor)"
  "keeps sized_kept (update_membership E oid mid actor ro)"
  "keeps sized_kept (remove_membership E oid mid actor)"
proof -
  show "keeps sized_kept (delete_organization E oid actor)"
    by (rule keeps_sizedI, erule delete_organization_InrD) (auto intro!: sized_delete elim: sized_audit_uuid)
  show "keeps sized_kept (update_membership E oid mid actor ro)"
    by (rule keeps_sizedI, erule update_membership_InrD, erule sized_audit_uuid) (simp_all add: sized_save)
  show "keeps sized_kept (remove_membership E oid mid actor)"
    by (rule keeps_sizedI, erule remove_membership_InrD) (auto intro!: sized_delete elim: sized_audit_uuid)
qed

lemma create_invitation_sized:
  assumes "digests_fit X" "length (ic_email data) \<le> 320"
  shows "keeps sized_kept (create_invitation X S E oid actor data)"
proof (rule keeps_sizedI)
  fix d x d'
  assume "create_invitation X S E oid actor data d = Inr (x, d')" and d: "sized d"
  then obtain i raw where "create_invitation X S E oid actor data d = Inr ((i, raw), d')" by (cases x) simp
  then show "sized d'"
    by (rule create_invitation_InrD, elim sized_audit_uuid sized_add(5) [OF _ d])
      (use assms in \<open>simp_all add: invitation_fits_def digests_fit_def hash_token_def\<close>)
qed

lemma accept_invitation_sized: "keeps sized_kept (accept_invitation X E raw u)"
proof (rule keeps_sizedI, erule accept_invitation_InrD, erule sized_audit_uuid, erule sized_add(4), rule sized_save(3))
  fix d i
  assume "find_invitation X raw d = Some i" "sized d"
  then have "invitation_fits i" by (metis find_invitationD sizedD(2))
  then show "invitation_fits (i\<lparr>inv_accepted_at := Some (rt_clock E 0)\<rparr>)" by (simp add: invitation_fits_def)
qed simp_all

lemma create_api_key_sized:
  assumes "digests_fit X" "length name \<le> 100"
  shows "keeps sized_kept (create_api_key X E oid actor name)"
proof (rule keeps_sizedI)
  fix d x d'
  assume c: "create_api_key X E oid actor name d = Inr (x, d')" and d: "sized d"
  obtain k raw where x: "x = (k, raw)" by (cases x)
  have "api_key_fits k"
    using c assms by (auto simp: x create_api_key_def Let_def generate_api_key_def api_key_fits_def digests_fit_def hash_token_def)
  then show "sized d'"
    using c [unfolded x] by (elim create_api_key_InrD) (erule sized_audit_uuid, erule sized_add(6) [OF _ d], simp_all)
qed

lemma touched_key_fits: "api_key_fits (k\<lparr>key_revoked_at := r\<rparr>) = api_key_fits k" "api_key_fits (k\<lparr>key_last_used_at := r\<rparr>) = api_key_fits k"
  by (simp_all add: api_key_fits_def)

lemma key_services_sized: "keeps sized_kept (revoke_api_key E oid kid actor)" "keeps sized_kept (authenticate_api_key X E raw)"
proof -
  show "keeps sized_kept (revoke_api_key E oid kid actor)"
  proof (rule keeps_sizedI, erule revoke_api_key_InrD)
    fix d x d' k
    assume k: "sized d" "k \<in> set (api_keys d)" and d': "d' = d \<and> key_revoked_at k \<noteq> None \<or> (\<exists>e. write_audit E oid (Some actor)
      ''api_key.revoked'' ''api_key'' (uuid_str kid) [] None (save_api_key (k\<lparr>key_revoked_at := Some (rt_clock E 0)\<rparr>) d) = Inr (e, d'))"
    have "sized (save_api_key (k\<lparr>key_revoked_at := Some (rt_clock E 0)\<rparr>) d)"
      using k by (simp add: sized_save(4) touched_key_fits sizedD(3))
    then show "sized d'" using d' k(1) by (auto dest: sized_audit_uuid)
  qed
  show "keeps sized_kept (authenticate_api_key X E raw)"
    by (rule keeps_sizedI, erule authenticate_api_key_InrD) (simp add: sized_save(4) touched_key_fits sizedD(3))
qed

lemma create_project_sized: "length (pc_name data) \<le> 120 \<Longrightarrow> keeps sized_kept (create_project E oid actor data)"
  by (rule keeps_sizedI, erule create_project_InrD, erule sized_audit_uuid, erule sized_add(7)) (simp_all add: project_fits_def)

lemma update_project_sized:
  assumes "\<And>n. pu_name data = Some n \<Longrightarrow> length n \<le> 120"
  shows "keeps sized_kept (update_project E oid pid actor data)"
proof (rule keeps_sizedI, erule update_project_InrD, erule sized_audit_uuid, rule sized_save(5))
  fix d p p'
  assume d: "sized d" "p \<in> set (projects d)" and p': "p' = touch_project E p (project_changes data p)"
  have "project_fits p" by (rule sizedD(4) [OF d])
  then show "project_fits p'"
    using assms by (auto simp: p' project_fits_def touch_project_def project_changes_def Let_def split: option.splits)
qed simp_all

lemma delete_project_sized: "keeps sized_kept (delete_project E oid pid actor)"
  by (rule keeps_sizedI, erule delete_project_InrD) (auto intro!: sized_delete elim: sized_audit_uuid)

lemma record_usage_sized:
  assumes "length metric \<le> 80" "q \<le> 2147483647"
  shows "keeps sized_kept (record_usage E oid metric q now)"
proof (rule keeps_sizedI)
  fix d ev d'
  assume r: "record_usage E oid metric q now d = Inr (ev, d')" and d: "sized d"
  have ev: "1 \<le> q" "use_metric ev = metric" "use_quantity ev = q" "add_usage_event ev d = Inr d'"
    using record_usage_InrD [OF r] by blast+
  show "sized d'" by (rule sized_add(9) [OF ev(4) d]) (use ev assms in \<open>simp add: usage_event_fits_def\<close>)
qed

lemma subscription_fits_cong:
  "sub_external_customer_id s = sub_external_customer_id s' \<Longrightarrow> sub_external_subscription_id s = sub_external_subscription_id s' \<Longrightarrow>
    subscription_fits s = subscription_fits s'"
  by (simp add: subscription_fits_def)

lemma touch_subscription_fits [simp]: "subscription_fits (touch_subscription E s s') = subscription_fits s'"
  by (simp add: touch_subscription_def subscription_fits_def)

lemma get_or_create_sized:
  assumes "get_or_create_subscription E oid now d = Inr (s, d')" "sized d"
  shows "sized d'" "subscription_fits s"
  using get_or_create_subscription_InrD [OF assms(1)] default_subscription_sized [OF _ assms(2)] assms(2)
    find_subscriptionD sizedD(6) [OF assms(2)] by blast+

lemma change_plan_sized:
  assumes "opt_fits 45 ip"
  shows "keeps sized_kept (change_plan E oid p actor ip now)"
proof (rule keeps_sizedI)
  fix d s d'
  assume c: "change_plan E oid p actor ip now d = Inr (s, d')" and d: "sized d"
  from c show "sized d'"
  proof (rule change_plan_InrD)
    fix s0 d1 d2
    assume g: "get_or_create_subscription E oid now d = Inr (s0, d1)" and a: "save_subscription s d1 = Inr d2"
      and d': "if sub_plan s0 = p then d' = d2 else \<exists>e. write_audit (later_uuid 1 E) oid (Some actor) ''subscription.changed''
        ''subscription'' (uuid_str (sub_id s0)) [(''from_plan'', JStr (plan_value (sub_plan s0))), (''to_plan'', JStr (plan_value p))] ip d2 = Inr (e, d')"
    have "subscription_fits s"
      using c get_or_create_sized(2) [OF g d] by (auto simp: change_plan_def Let_def g subscription_fits_def split: if_splits)
    then have d2: "sized d2" by (rule sized_save(8) [OF a get_or_create_sized(1) [OF g d]])
    show "sized d'" using d' sized_audit [OF _ d2 _ _ _ assms] d2 by (auto simp: length_uuid_str split: if_splits)
  qed
qed

section \<open>Webhooks\<close>

lemma BillingWebhook_sizes:
  assumes "BillingWebhook j = Inr ev"
  shows "length (bw_id ev) \<le> 160" "length (bw_type ev) \<le> 80" "\<exists>d. j = JDict d \<and> dict_get d ''type'' = Some (JStr (bw_type ev))"
  using assms by (auto simp: BillingWebhook_def str_field_def split: json.splits option.splits if_splits)

lemma parse_webhook_sizes:
  assumes "parse_webhook X S E raw sig = Inr ev"
  shows "length (bw_id ev) \<le> 160" "length (bw_type ev) \<le> 80"
proof -
  obtain j where "BillingWebhook j = Inr ev"
    using assms by (auto simp: parse_webhook_def split: sum.splits exc.splits option.splits)
  then show "length (bw_id ev) \<le> 160" "length (bw_type ev) \<le> 80" by (rule BillingWebhook_sizes)+
qed

lemma store_webhook_sized:
  assumes "length (bw_id ev) \<le> 160" "length (bw_type ev) \<le> 80"
  shows "keeps sized_kept (store_webhook_event E ev)"
proof (rule keeps_sizedI)
  fix d x d'
  assume s: "store_webhook_event E ev d = Inr (x, d')" and d: "sized d"
  obtain w c where x: "x = (w, c)" by (cases x)
  from store_webhook_event_InrD [OF s [unfolded x]] show "sized d'"
  proof (elim disjE conjE)
    assume a: "add_webhook_event w d = Inr d'" and w: "whk_provider w = PROVIDER" "whk_external_event_id w = bw_id ev"
      "whk_event_type w = bw_type ev" "whk_payload w = model_dump ev"
    show "sized d'"
      by (rule sized_add(10) [OF a d]) (simp add: webhook_event_fits_def w assms PROVIDER_def model_dump_def dict_get_def)
  qed (use d in simp)
qed

text \<open>The external identifiers of a validated event fit the columns of the subscription.\<close>

lemma check_external_id_fits:
  assumes "check_external_id obj field = Inr u" "dict_get obj field = Some v"
  shows "opt_fits 120 (json_str_opt v)"
  using assms by (auto simp: check_external_id_def json_str_opt_def opt_fits_def split: json.splits if_splits)

lemma apply_event_fits:
  assumes "validate_webhook X E ev = Inr obj" "apply_event X (bw_type ev) obj ps pe s = Inr s'" "subscription_fits s"
  shows "subscription_fits s'"
proof (cases "period_change (bw_type ev)")
  case True
  then have "check_external_id obj ''customer_id'' = Inr ()" "check_external_id obj ''subscription_id'' = Inr ()"
    using assms(1) by (auto simp: validate_webhook_def split: option.splits json.splits if_splits)
  note f = this [THEN check_external_id_fits]
  show ?thesis
    using assms(2,3) f True
    by (auto simp: apply_event_def apply_subscription_event_def Let_def subscription_fits_def split: option.splits)
next
  case False
  then show ?thesis using assms(2,3) by (auto simp: apply_event_def subscription_fits_def split: if_splits)
qed

lemma locked_subscription_sized:
  assumes "locked_subscription E oid d = Inr (s, d')" "sized d"
  shows "sized d'" "subscription_fits s"
  using locked_subscription_InrD [OF assms(1)] default_subscription_sized [OF _ assms(2)] assms(2)
    find_subscriptionD sizedD(6) [OF assms(2)] by blast+

lemma marked_webhook_fits: "webhook_event_fits (w\<lparr>whk_status := st, whk_processed_at := t\<rparr>) = webhook_event_fits w"
  "webhook_event_fits (w\<lparr>whk_status := st\<rparr>) = webhook_event_fits w"
  by (simp_all add: webhook_event_fits_def)

lemma process_webhook_sized: "keeps sized_kept (process_webhook_event X E i now)"
proof (rule keeps_sizedI)
  fix d x d'
  assume p: "process_webhook_event X E i now d = Inr (x, d')" and d: "sized d"
  obtain w' dn where x: "x = (w', dn)" by (cases x)
  from p [unfolded x] show "sized d'"
  proof (cases rule: process_webhook_event_InrD)
    case (first w ev obj oid s d1 ps pe s' d2 e meta d3)
    have w: "webhook_event_fits w" using find_webhook_by_idD [OF first(2)] sizedD(7) [OF d] by blast
    have "whk_event_type w = bw_type ev"
      using w BillingWebhook_sizes(3) [OF first(4)] by (simp add: webhook_event_fits_def)
    then have "subscription_fits s'"
      using apply_event_fits [OF first(5) _ locked_subscription_sized(2) [OF first(7) d]] first(9) by simp
    then have "sized d2" by (intro sized_save(8) [OF first(10) locked_subscription_sized(1) [OF first(7) d]]) simp
    then have "sized d3" by (rule sized_audit_uuid [OF first(11)]) simp_all
    then show ?thesis using sized_save(6) w by (simp add: first(12,13) marked_webhook_fits)
  qed (use d in simp)
qed

lemma mark_webhook_sized: "keeps sized_kept (mark_webhook_failed i)"
proof (rule keeps_sizedI, erule mark_webhook_failed_InrD)
  fix d d' w
  assume "sized d" "find_webhook_by_id i d = Inr (Some w)" "d' = save_webhook_event (w\<lparr>whk_status := FAILED\<rparr>) d"
  then show "sized d'" using find_webhook_by_idD sizedD(7) by (simp add: sized_save(6) marked_webhook_fits)
qed simp

section \<open>Requests\<close>

lemma sized_deps:
  "preserves sized_kept (get_current_user X S E c)" "preserves sized_kept (current_member X S E c oid roles)"
  "preserves sized_kept (get_api_key_principal X S E k)"
  unfolding get_current_user_def current_member_def get_api_key_principal_def get_current_membership_def require_roles_def
  by (intro sized.preserves_bind sized.preserves_structure key_services_sized)+

lemma request_sizes:
  "RegisterRequest email pw = Inr r \<Longrightarrow> length (reg_email r) \<le> 320"
  "OrganizationCreate name slug = Inr oc \<Longrightarrow> length (oc_name oc) \<le> 120 \<and> length (oc_slug oc) \<le> 80"
  "OrganizationUpdate oname oslug = Inr ou \<Longrightarrow>
    (\<forall>n. ou_name ou = Some n \<longrightarrow> length n \<le> 120) \<and> (\<forall>s. ou_slug ou = Some s \<longrightarrow> length s \<le> 80)"
  "ProjectCreate name de = Inr pc \<Longrightarrow> length (pc_name pc) \<le> 120"
  "ProjectUpdate oname ode st = Inr pu \<Longrightarrow> pu_name pu = Some n \<Longrightarrow> length n \<le> 120"
  "InvitationCreate email ro = Inr ic \<Longrightarrow> length (ic_email ic) \<le> 320"
  "ApiKeyCreate name = Inr k \<Longrightarrow> length k \<le> 100"
  using normalize_email_InrD [of email]
  by (auto simp: RegisterRequest_def OrganizationCreate_def OrganizationUpdate_def ProjectCreate_def ProjectUpdate_def InvitationCreate_def
      ApiKeyCreate_def update_field_def split: option.splits if_splits intro: le_trans [OF length_py_strip])

text \<open>The address of a client, as the server reports it, is an IPv4 or IPv6 address.\<close>

fun client_address_fits :: "request \<Rightarrow> bool" where
  "client_address_fits (BillingRequest (UpdatePlan c oid p ip)) = opt_fits 45 ip"
| "client_address_fits _ = True"

lemmas sized_routes = sized.preserves_session sized.preserves_split sized.preserves_if sized.preserves_simple sized.preserves_service
  sized.preserves_ready sized_deps

lemmas sized_binds = sized.preserves_validated sized.preserves_bind

lemma sized_auth: "digests_fit X \<Longrightarrow> preserves sized_kept (handle_auth X S dh E q)"
  by (cases q) (auto simp: route_defs intro!: sized_routes sized_binds register_user_sized
      issue_tokens_sized rotate_refresh_token_sized revoke_refresh_token_sized dest: request_sizes)

lemma sized_organization: "preserves sized_kept (handle_organization X S E q)"
  by (cases q) (auto simp: route_defs intro!: sized_routes sized_binds create_organization_sized
      update_organization_sized member_services_sized dest: request_sizes)

lemma sized_member: "digests_fit X \<Longrightarrow> preserves sized_kept (handle_member X S E q)"
  by (cases q) (auto simp: route_defs deliver_def intro!: sized_routes sized_binds create_invitation_sized
      accept_invitation_sized member_services_sized dest: request_sizes)

lemma sized_key: "digests_fit X \<Longrightarrow> preserves sized_kept (handle_key X S E q)"
  by (cases q) (auto simp: route_defs intro!: sized_routes sized_binds create_api_key_sized key_services_sized dest: request_sizes)

lemma sized_project: "preserves sized_kept (handle_project X S E q)"
  by (cases q) (auto simp: route_defs intro!: sized_routes sized_binds create_project_sized update_project_sized
      delete_project_sized dest: request_sizes)

lemma usage_quantity: "UsageEventCreate q = Inr n \<Longrightarrow> n \<le> 2147483647"
  by (auto simp: UsageEventCreate_def split: if_splits)

lemma sized_billing: "client_address_fits (BillingRequest q) \<Longrightarrow> preserves sized_kept (handle_billing X S E q)"
  by (cases q) (auto simp: route_defs API_REQUESTS_METRIC_def intro!: sized_routes sized_binds record_usage_sized change_plan_sized
      store_webhook_sized dest: usage_quantity parse_webhook_sizes)

lemma sized_handle: "digests_fit X \<Longrightarrow> client_address_fits req \<Longrightarrow> preserves sized_kept (handle X S dh E req)"
  by (cases req) (simp_all add: sized_auth sized_organization sized_member sized_key sized_project sized_billing live_route_def sized_routes)

section \<open>Runs\<close>

text \<open>The states of an installation whose clients have addresses of the usual form.\<close>

inductive served :: "ext \<Rightarrow> settings \<Rightarrow> string \<Rightarrow> app \<Rightarrow> bool" for X S dummy_hash where
  init: "served X S dummy_hash (empty_db, empty_redis)"
| api: "served X S dummy_hash s \<Longrightarrow> client_address_fits req \<Longrightarrow> handle X S dummy_hash E req s = (res, s') \<Longrightarrow> served X S dummy_hash s'"
| work: "served X S dummy_hash (d, r) \<Longrightarrow>
    run_once X E W Q (build_handlers X E) \<lparr>w_db = d, w_redis = r, w_sleeps = z\<rparr> = (res, w') \<Longrightarrow>
    served X S dummy_hash (w_db w', w_redis w')"
| redis_event: "served X S dummy_hash (d, r) \<Longrightarrow> served X S dummy_hash (d, r')"

lemma sized_empty: "sized empty_db"
  by (simp add: sized_def empty_db_def)

lemma served_sized:
  assumes "served X S dh s" "digests_fit X"
  shows "sized (fst s)"
  using assms(1)
proof induction
  case init
  then show ?case by (simp add: sized_empty)
next
  case (api s req E res s')
  then show ?case using sized_handle [OF assms(2) api(2), of S dh E] by (metis preserves_def sized_kept_def snd_conv)
next
  case (work d r E W Q z res w')
  then show ?case
    using sized.worker_turn_relation [OF work(2) process_webhook_sized mark_webhook_sized] by (simp add: sized_kept_def)
qed simp

lemma served_reachable: "served X S dh s \<Longrightarrow> reachable X S dh s"
  by (induction rule: served.induct) (blast intro: reachable.intros system_step.intros)+

section \<open>Property\<close>

text \<open>
  C19. The tables of an installation are always an instance of the migrated schema: all its constraints
  hold, no text is longer than its \<open>VARCHAR(n)\<close> and no number is outside \<open>INTEGER\<close>, in every state that
  requests, turns of the worker and failures of Redis lead to from the empty database, provided that
  SHA-256 digests have 64 hexadecimal digits, that encoded password hashes have at most 255 characters
  and that the address of a client has at most 45.
\<close>

theorem stored_values_fit:
  assumes "served X S dummy_hash (d, r)" "\<forall>m. length (sha256_hex X m) = 64" "\<forall>salt p. length (pw_hash X salt p) \<le> 255"
  shows "satisfies migrated (table_rows d) \<and> rows_fit migrated (table_rows d)"
  using served_sized [OF assms(1)] reachable_invariant [OF served_reachable [OF assms(1)]] assms(2,3)
  by (simp add: rows_fit_migrated digests_fit_def satisfies_migrated)

definition sized_ext :: ext where
  "sized_ext = plain_ext\<lparr>sha256_hex := (\<lambda>s. hex_digits 64 (length s)), pw_hash := (\<lambda>salt p. ''pw:'' @ take 100 p)\<rparr>"

definition registered_user :: user where
  "registered_user = \<lparr>usr_id = 1000, usr_email = ''ann@a.io'', usr_password_hash = ''pw:correct horse'', usr_is_active = True,
     usr_is_verified = False, usr_created_at = sample_now, usr_updated_at = sample_now\<rparr>"

theorem stored_values_fit_witness:
  "served sized_ext default_settings [] (empty_db\<lparr>users := [registered_user]\<rparr>, empty_redis) \<and>
   table_rows (empty_db\<lparr>users := [registered_user]\<rparr>) ''users'' = [user_row registered_user] \<and>
   satisfies migrated (table_rows (empty_db\<lparr>users := [registered_user]\<rparr>)) \<and>
   rows_fit migrated (table_rows (empty_db\<lparr>users := [registered_user]\<rparr>))"
proof -
  have v: "RegisterRequest ''Ann@a.io '' ''correct horse'' = Inr \<lparr>reg_email = ''ann@a.io'', reg_password = ''correct horse''\<rparr>"
    by code_simp
  have u: "register_user sized_ext sample_rt ''ann@a.io'' ''correct horse'' empty_db = Inr (registered_user, empty_db\<lparr>users := [registered_user]\<rparr>)"
  proof -
    have "py_lower (py_strip ''ann@a.io'') = ''ann@a.io''" by code_simp
    then show ?thesis
      by (simp add: register_user_def Let_def empty_db_def scalar_def add_user_def hash_password_def sized_ext_def sample_rt_def
          registered_user_def raise_if_def on_integrity_error_def user_ids_def)
  qed
  have "handle sized_ext default_settings [] sample_rt (AuthRequest (Register ''Ann@a.io '' ''correct horse'')) (empty_db, empty_redis) =
      (Inr (UserRead registered_user), (empty_db\<lparr>users := [registered_user]\<rparr>, empty_redis))"
    by (simp add: register_route_def session_def a_bind_def body_def checked_def service_def ret_def v u)
  then have s: "served sized_ext default_settings [] (empty_db\<lparr>users := [registered_user]\<rparr>, empty_redis)"
    by (rule served.api [OF served.init, rotated]) simp
  have "\<forall>m. length (sha256_hex sized_ext m) = 64" "\<forall>salt p. length (pw_hash sized_ext salt p) \<le> 255"
    by (simp_all add: sized_ext_def min.coboundedI2)
  from stored_values_fit [OF s this] s show ?thesis by (simp add: table_rows_simps)
qed

end
