(* ===== verification/Transactions.thy ===== *)
theory Transactions
  imports Models
begin

text \<open>
  Transactions that run at the same time. The other theories run one transaction after the other; here
  each is the sequence of its statements, as PostgreSQL executes them under \<open>READ COMMITTED\<close>, and the
  statements of any number of transactions interleave. A query sees what is committed when it runs;
  \<open>SELECT ... FOR UPDATE\<close> waits until no other transaction holds the rows it returns and locks them
  until the end; the changes of a transaction become visible at its commit, and no transaction changes
  a row another one has locked. A proof system in the manner of rely and guarantee reduces an
  invariant of all interleavings to one derivation per program.
\<close>

section \<open>Programs\<close>

text \<open>The rows a statement can lock.\<close>

datatype row_lock =
    TokenRow uuid
  | OrganizationRow uuid
  | MembershipRow uuid
  | InvitationRow uuid
  | WebhookRow uuid
  | SubscriptionRow uuid
  | ApiKeyRow uuid
  | ProjectRow uuid

fun same_row :: "row_lock \<Rightarrow> db \<Rightarrow> db \<Rightarrow> bool" where
  "same_row (TokenRow i) d d' =
     (filter (\<lambda>t. rft_id t = i) (refresh_tokens d) = filter (\<lambda>t. rft_id t = i) (refresh_tokens d'))"
| "same_row (OrganizationRow i) d d' =
     (filter (\<lambda>g. org_id g = i) (organizations d) = filter (\<lambda>g. org_id g = i) (organizations d'))"
| "same_row (MembershipRow i) d d' =
     (filter (\<lambda>m. mem_id m = i) (memberships d) = filter (\<lambda>m. mem_id m = i) (memberships d'))"
| "same_row (InvitationRow i) d d' =
     (filter (\<lambda>v. inv_id v = i) (invitations d) = filter (\<lambda>v. inv_id v = i) (invitations d'))"
| "same_row (WebhookRow i) d d' =
     (filter (\<lambda>w. whk_id w = i) (webhook_events d) = filter (\<lambda>w. whk_id w = i) (webhook_events d'))"
| "same_row (SubscriptionRow i) d d' =
     (filter (\<lambda>s. sub_id s = i) (subscriptions d) = filter (\<lambda>s. sub_id s = i) (subscriptions d'))"
| "same_row (ApiKeyRow i) d d' =
     (filter (\<lambda>k. key_id k = i) (api_keys d) = filter (\<lambda>k. key_id k = i) (api_keys d'))"
| "same_row (ProjectRow i) d d' =
     (filter (\<lambda>p. prj_id p = i) (projects d) = filter (\<lambda>p. prj_id p = i) (projects d'))"

text \<open>
  A program raises, reads, locks or commits. What follows a read depends on the database it saw; what
  follows a lock also on the rows it got: a row that no longer matches after the wait, or that did
  not match when the statement began, is not among them. \<open>Commit r w\<close> returns \<open>r\<close> and writes \<open>w\<close>, which
  fails when a constraint is violated.
\<close>

datatype 'r txn =
    Fail exc
  | Query "db \<Rightarrow> 'r txn"
  | ForUpdate "db \<Rightarrow> row_lock set" "db \<Rightarrow> row_lock set \<Rightarrow> 'r txn"
  | Commit 'r "db \<Rightarrow> exc + db"

text \<open>A program that runs alone.\<close>

primrec alone :: "'r txn \<Rightarrow> db \<Rightarrow> exc + 'r \<times> db" where
  "alone (Fail e) d = Inl e"
| "alone (Query f) d = alone (f d) d"
| "alone (ForUpdate sel k) d = alone (k d (sel d)) d"
| "alone (Commit r w) d = r_bind (w d) (\<lambda>d'. Inr (r, d'))"

section \<open>Interleavings\<close>

record 'r sys =
  committed :: db
  running :: "nat \<Rightarrow> (row_lock set \<times> 'r txn) option"
  history :: "'r list"

definition locks :: "'r sys \<Rightarrow> nat \<Rightarrow> row_lock set" where
  "locks s t = (case running s t of None \<Rightarrow> {} | Some (L, P) \<Rightarrow> L)"

inductive txn_step :: "'r txn set \<Rightarrow> 'r sys \<Rightarrow> 'r sys \<Rightarrow> bool" for Ps where
  begin_txn: "running s t = None \<Longrightarrow> P \<in> Ps \<Longrightarrow> txn_step Ps s (s\<lparr>running := (running s)(t \<mapsto> ({}, P))\<rparr>)"
| query: "running s t = Some (L, Query f) \<Longrightarrow> txn_step Ps s (s\<lparr>running := (running s)(t \<mapsto> (L, f (committed s)))\<rparr>)"
| for_update: "running s t = Some (L, ForUpdate sel k) \<Longrightarrow> S \<subseteq> sel (committed s) \<Longrightarrow> \<forall>u. u \<noteq> t \<longrightarrow> locks s u \<inter> S = {} \<Longrightarrow>
    txn_step Ps s (s\<lparr>running := (running s)(t \<mapsto> (L \<union> S, k (committed s) S))\<rparr>)"
| commit: "running s t = Some (L, Commit r w) \<Longrightarrow> w (committed s) = Inr d' \<Longrightarrow>
    \<forall>u. u \<noteq> t \<longrightarrow> (\<forall>l \<in> locks s u. same_row l (committed s) d') \<Longrightarrow>
    txn_step Ps s \<lparr>committed = d', running = (running s)(t := None), history = history s @ [r]\<rparr>"
| rollback: "txn_step Ps s (s\<lparr>running := (running s)(t := None)\<rparr>)"

text \<open>A transaction can be rolled back at any time: it raised, lost its connection or was the victim of a deadlock.\<close>

inductive interleaved :: "'r txn set \<Rightarrow> db \<Rightarrow> 'r sys \<Rightarrow> bool" for Ps d where
  idle: "interleaved Ps d \<lparr>committed = d, running = (\<lambda>t. None), history = []\<rparr>"
| step: "interleaved Ps d s \<Longrightarrow> txn_step Ps s s' \<Longrightarrow> interleaved Ps d s'"

section \<open>Proof system\<close>

text \<open>
  An assertion about the committed database may rely on what the locks of its transaction protect:
  \<open>guard l d d'\<close> holds for every commit of another transaction while the row \<open>l\<close> is locked.
\<close>

definition stable :: "(db \<Rightarrow> 'r list \<Rightarrow> bool) \<Rightarrow> (row_lock \<Rightarrow> db \<Rightarrow> db \<Rightarrow> bool) \<Rightarrow> row_lock set \<Rightarrow> (db \<Rightarrow> bool) \<Rightarrow> bool" where
  "stable I guard L A = (\<forall>d d' h. A d \<longrightarrow> (\<forall>l \<in> L. guard l d d') \<longrightarrow> I d' h \<longrightarrow> A d')"

inductive verified ::
  "(db \<Rightarrow> 'r list \<Rightarrow> bool) \<Rightarrow> (row_lock \<Rightarrow> db \<Rightarrow> db \<Rightarrow> bool) \<Rightarrow> row_lock set \<Rightarrow> (db \<Rightarrow> bool) \<Rightarrow> 'r txn \<Rightarrow> bool" for I guard where
  v_fail: "verified I guard L A (Fail e)"
| v_query: "(\<And>d h. I d h \<Longrightarrow> A d \<Longrightarrow> B d d \<and> stable I guard L (B d) \<and> verified I guard L (B d) (f d)) \<Longrightarrow>
    verified I guard L A (Query f)"
| v_lock: "(\<And>d h S. I d h \<Longrightarrow> A d \<Longrightarrow> S \<subseteq> sel d \<Longrightarrow>
      B d S d \<and> stable I guard (L \<union> S) (B d S) \<and> verified I guard (L \<union> S) (B d S) (k d S)) \<Longrightarrow>
    verified I guard L A (ForUpdate sel k)"
| v_commit: "(\<And>d h d'. I d h \<Longrightarrow> A d \<Longrightarrow> w d = Inr d' \<Longrightarrow>
      I d' (h @ [r]) \<and> (\<forall>l. l \<notin> L \<longrightarrow> same_row l d d' \<longrightarrow> guard l d d')) \<Longrightarrow>
    verified I guard L A (Commit r w)"

inductive_cases verified_QueryE: "verified I guard L A (Query f)"
inductive_cases verified_LockE: "verified I guard L A (ForUpdate sel k)"
inductive_cases verified_CommitE: "verified I guard L A (Commit r w)"

lemma stable_True [simp]: "stable I guard L (\<lambda>d. True)"
  by (simp add: stable_def)

lemma verified_conseq:
  assumes "verified I guard L A P" "\<And>d. B d \<Longrightarrow> A d"
  shows "verified I guard L B P"
  using assms(1)
proof cases
  case v_fail
  then show ?thesis by (simp add: verified.v_fail)
next
  case (v_query C f)
  show ?thesis unfolding v_query(1) by (rule verified.v_query [where B = C]) (rule v_query(2), assumption, rule assms(2))
next
  case (v_lock sel C k)
  show ?thesis unfolding v_lock(1) by (rule verified.v_lock [where B = C]) (rule v_lock(2), assumption, rule assms(2))
next
  case (v_commit w r)
  show ?thesis unfolding v_commit(1) by (rule verified.v_commit) (rule v_commit(2), assumption, rule assms(2))
qed

lemma locks_update [simp]:
  "locks (s\<lparr>running := (running s)(t \<mapsto> p)\<rparr>) u = (if u = t then fst p else locks s u)"
  "locks (s\<lparr>running := (running s)(t := None)\<rparr>) u = (if u = t then {} else locks s u)"
  "locks \<lparr>committed = d, running = (running s)(t := None), history = h\<rparr> u = (if u = t then {} else locks s u)"
  by (auto simp: locks_def split: prod.splits)

text \<open>A system of transactions, each verified, keeps the invariant in every interleaving.\<close>

definition safe_txn :: "(db \<Rightarrow> 'r list \<Rightarrow> bool) \<Rightarrow> (row_lock \<Rightarrow> db \<Rightarrow> db \<Rightarrow> bool) \<Rightarrow> db \<Rightarrow> row_lock set \<times> 'r txn \<Rightarrow> bool" where
  "safe_txn I guard d = (\<lambda>(L, P). \<exists>A. A d \<and> stable I guard L A \<and> verified I guard L A P)"

locale transactions =
  fixes Ps :: "'r txn set" and I :: "db \<Rightarrow> 'r list \<Rightarrow> bool" and guard :: "row_lock \<Rightarrow> db \<Rightarrow> db \<Rightarrow> bool"
  assumes programs: "P \<in> Ps \<Longrightarrow> verified I guard {} (\<lambda>d. True) P"
begin

definition sound :: "'r sys \<Rightarrow> bool" where
  "sound s = (I (committed s) (history s) \<and> (\<forall>t p. running s t = Some p \<longrightarrow> safe_txn I guard (committed s) p) \<and>
     (\<forall>t u. t \<noteq> u \<longrightarrow> locks s t \<inter> locks s u = {}))"

lemma sound_txn:
  assumes "sound s" "running s t = Some (L, P)"
  obtains A where "A (committed s)" "stable I guard L A" "verified I guard L A P"
proof -
  have "safe_txn I guard (committed s) (L, P)" using assms by (simp add: sound_def)
  then show thesis using that by (auto simp: safe_txn_def)
qed

lemma sound_locks:
  assumes "sound s" "running s t = Some (L, P)" "u \<noteq> t"
  shows "L \<inter> locks s u = {}"
proof -
  have "locks s t \<inter> locks s u = {}" using assms(1,3) unfolding sound_def by blast
  then show ?thesis using assms(2) by (simp add: locks_def)
qed

lemma sound_running:
  assumes "sound s" "safe_txn I guard (committed s) p" "\<And>u. u \<noteq> t \<Longrightarrow> fst p \<inter> locks s u = {}"
  shows "sound (s\<lparr>running := (running s)(t \<mapsto> p)\<rparr>)"
  using assms by (auto simp: sound_def disjoint_iff)

lemma step_sound:
  assumes "txn_step Ps s s'" "sound s"
  shows "sound s'"
  using assms(1)
proof cases
  case (begin_txn t P)
  then have "safe_txn I guard (committed s) ({}, P)"
    using programs [of P] by (auto simp: safe_txn_def intro!: exI [of _ "\<lambda>d. True"])
  then show ?thesis unfolding begin_txn by (intro sound_running [OF assms(2)]) simp_all
next
  case (query t L f)
  obtain A where "A (committed s)" "verified I guard L A (Query f)" by (rule sound_txn [OF assms(2) query(2)])
  then have "safe_txn I guard (committed s) (L, f (committed s))"
    using assms(2) by (auto simp: safe_txn_def sound_def elim!: verified_QueryE)
  then show ?thesis unfolding query(1) using sound_locks [OF assms(2) query(2)] by (intro sound_running [OF assms(2)]) simp_all
next
  case (for_update t L sel k S)
  obtain A where A: "A (committed s)" "verified I guard L A (ForUpdate sel k)" by (rule sound_txn [OF assms(2) for_update(2)])
  have i: "I (committed s) (history s)" using assms(2) by (simp add: sound_def)
  from A(2) have "safe_txn I guard (committed s) (L \<union> S, k (committed s) S)"
  proof (rule verified_LockE)
    fix B
    assume "\<And>d h S. I d h \<Longrightarrow> A d \<Longrightarrow> S \<subseteq> sel d \<Longrightarrow>
      B d S d \<and> stable I guard (L \<union> S) (B d S) \<and> verified I guard (L \<union> S) (B d S) (k d S)"
    from this [OF i A(1) for_update(3)] show ?thesis
      unfolding safe_txn_def case_prod_conv by (rule exI [of _ "B (committed s) S"])
  qed
  moreover have "(L \<union> S) \<inter> locks s u = {}" if "u \<noteq> t" for u
    using sound_locks [OF assms(2) for_update(2) that] for_update(4) that by blast
  ultimately show ?thesis unfolding for_update(1) by (intro sound_running [OF assms(2)]) simp_all
next
  case (commit t L r w d')
  obtain A where "A (committed s)" "verified I guard L A (Commit r w)" by (rule sound_txn [OF assms(2) commit(2)])
  then have c: "I d' (history s @ [r])" "\<And>l. l \<notin> L \<Longrightarrow> same_row l (committed s) d' \<Longrightarrow> guard l (committed s) d'"
    using assms(2) commit(3) by (auto simp: sound_def elim!: verified_CommitE)
  have "safe_txn I guard d' p" if r: "running s u = Some p" and n: "u \<noteq> t" for u p
  proof -
    obtain M Q where p: "p = (M, Q)" by (cases p)
    obtain B where B: "B (committed s)" "stable I guard M B" "verified I guard M B Q"
      by (rule sound_txn [OF assms(2) r [unfolded p]])
    have u: "locks s u = M" using r p by (simp add: locks_def)
    then have "L \<inter> M = {}" using sound_locks [OF assms(2) commit(2) n] by simp
    then have "\<forall>l \<in> M. guard l (committed s) d'" using c(2) commit(4) n u by blast
    then have "B d'" using B(1,2) c(1) unfolding stable_def by blast
    then show ?thesis using B p by (auto simp: safe_txn_def)
  qed
  then show ?thesis using assms(2) c(1) unfolding commit(1) by (auto simp: sound_def)
next
  case (rollback t)
  then show ?thesis using assms(2) by (auto simp: sound_def)
qed

lemma interleaved_sound:
  assumes "interleaved Ps d s" "I d []"
  shows "sound s"
  using assms(1)
proof induction
  case idle
  then show ?case using assms(2) by (simp add: sound_def locks_def)
qed (rule step_sound)

lemma interleaved_invariant: "interleaved Ps d s \<Longrightarrow> I d [] \<Longrightarrow> I (committed s) (history s)"
  using interleaved_sound by (simp add: sound_def)

end

end
