(* ===== verification/Concurrency.thy ===== *)
theory Concurrency
  imports Transactions Auth Invitations Organizations Usage Webhooks
begin

text \<open>
  The services as transactions: the statements of \<^verbatim>\<open>services/auth.py\<close>, \<^verbatim>\<open>services/usage.py\<close>, \<^verbatim>\<open>services/webhooks.py\<close>, the
  acceptance of invitations and the changes of \<^verbatim>\<open>services/organizations.py\<close> that concern memberships. Run alone each
  is the operation of its service theory.
\<close>

section \<open>Statements\<close>

definition raising :: "exc + 'a \<Rightarrow> ('a \<Rightarrow> 'r txn) \<Rightarrow> 'r txn" where
  "raising m f = (case m of Inl e \<Rightarrow> Fail e | Inr x \<Rightarrow> f x)"

text \<open>\<open>session.scalar(select(...).where(...).with_for_update())\<close> on one table.\<close>

definition scalar_for_update :: "(db \<Rightarrow> 'a list) \<Rightarrow> ('a \<Rightarrow> row_lock) \<Rightarrow> ('a \<Rightarrow> bool) \<Rightarrow> ('a option \<Rightarrow> 'r txn) \<Rightarrow> 'r txn" where
  "scalar_for_update rows lock Q k =
     ForUpdate (\<lambda>d. lock ` set (filter Q (rows d))) (\<lambda>d S. k (scalar (filter (\<lambda>x. Q x \<and> lock x \<in> S) (rows d))))"

datatype outcome =
    LoggedIn issued_tokens
  | Exchanged string issued_tokens
  | LoggedOut string
  | Accepted string membership
  | RoleChanged membership
  | MemberRemoved uuid
  | OrganizationCreated organization
  | OrganizationDeleted uuid
  | UsageRecorded usage_event
  | WebhookStored string
  | WebhookApplied uuid
  | WebhookSkipped uuid
  | WebhookMarked string
  | Registered user
  | Invited string invitation
  | KeyCreated api_key
  | KeyRevoked uuid bool
  | ProjectCreated project
  | ProjectUpdated project
  | ProjectDeleted uuid
  | OrganizationUpdated organization
  | PlanChanged uuid plan

section \<open>Tokens\<close>

definition issue_tokens_txn :: "ext \<Rightarrow> settings \<Rightarrow> runtime \<Rightarrow> user \<Rightarrow> (db \<Rightarrow> db) \<Rightarrow> (issued_tokens \<Rightarrow> outcome) \<Rightarrow> outcome txn" where
  "issue_tokens_txn X S E user pending result =
     raising (raise_if (\<not> usr_is_active user) (AuthenticationError ''inactive_user'' ''This account is inactive'')) (\<lambda>_.
     let now = rt_clock E 0;
         refresh_token = generate_opaque_token E in
     raising (add_days now (refresh_token_expire_days S)) (\<lambda>expires_at.
     raising (create_access_token X S (later_clock 1 E) (usr_id user)) (\<lambda>(access_token, expires_in).
     Commit (result \<lparr>access_token = access_token, refresh_token_value = refresh_token, expires_in = expires_in\<rparr>) (\<lambda>d.
       add_refresh_token \<lparr>rft_id = rt_uuid E 1, rft_user_id = usr_id user, rft_token_hash = hash_token X refresh_token,
         rft_expires_at = expires_at, rft_revoked_at = None, rft_created_at = now\<rparr> (pending d)))))"

definition login_txn :: "ext \<Rightarrow> settings \<Rightarrow> runtime \<Rightarrow> string \<Rightarrow> string \<Rightarrow> string \<Rightarrow> outcome txn" where
  "login_txn X S E dummy_hash email password =
     Query (\<lambda>d. raising (authenticate_user X dummy_hash email password d) (\<lambda>user. issue_tokens_txn X S E user (\<lambda>d. d) LoggedIn))"

definition token_for_update :: "ext \<Rightarrow> string \<Rightarrow> (refresh_token option \<Rightarrow> 'r txn) \<Rightarrow> 'r txn" where
  "token_for_update X raw_token =
     scalar_for_update refresh_tokens (\<lambda>t. TokenRow (rft_id t)) (\<lambda>t. rft_token_hash t = hash_token X raw_token)"

definition rotate_refresh_token_txn :: "ext \<Rightarrow> settings \<Rightarrow> runtime \<Rightarrow> string \<Rightarrow> outcome txn" where
  "rotate_refresh_token_txn X S E raw_token =
     (let now = rt_clock E 0 in
      token_for_update X raw_token (\<lambda>found.
      raising (require found (AuthenticationError ''invalid_refresh_token'' ''Invalid refresh token'')) (\<lambda>stored_token.
      raising (raise_if (rft_revoked_at stored_token \<noteq> None)
        (AuthenticationError ''refresh_token_reused'' ''Refresh token has already been used'')) (\<lambda>_.
      raising (raise_if (has_expired (rft_expires_at stored_token) now)
        (AuthenticationError ''refresh_token_expired'' ''Refresh token has expired'')) (\<lambda>_.
      Query (\<lambda>d.
      raising (require (case find_user (rft_user_id stored_token) d of Some u \<Rightarrow> if usr_is_active u then Some u else None | None \<Rightarrow> None)
        (AuthenticationError ''inactive_user'' ''This account is inactive'')) (\<lambda>user.
      issue_tokens_txn X S (later_clock 1 E) user (save_refresh_token (stored_token\<lparr>rft_revoked_at := Some now\<rparr>)) (Exchanged raw_token))))))))"

definition revoke_refresh_token_txn :: "ext \<Rightarrow> runtime \<Rightarrow> string \<Rightarrow> outcome txn" where
  "revoke_refresh_token_txn X E raw_token =
     token_for_update X raw_token (\<lambda>found.
     raising (require found (AuthenticationError ''invalid_refresh_token'' ''Invalid refresh token'')) (\<lambda>stored_token.
     Commit (LoggedOut raw_token) (\<lambda>d.
       if rft_revoked_at stored_token = None
       then Inr (save_refresh_token (stored_token\<lparr>rft_revoked_at := Some (rt_clock E 0)\<rparr>) d)
       else Inr d)))"

section \<open>Invitations\<close>

definition accept_invitation_txn :: "ext \<Rightarrow> runtime \<Rightarrow> string \<Rightarrow> user \<Rightarrow> outcome txn" where
  "accept_invitation_txn X E raw_token user =
     (let now = rt_clock E 0;
          already_member = ConflictError ''already_member'' ''This user is already a member'' in
      scalar_for_update invitations (\<lambda>i. InvitationRow (inv_id i)) (\<lambda>i. inv_token_hash i = hash_token X raw_token) (\<lambda>found.
      raising (require found (NotFoundError ''invitation_not_found'' ''Invitation not found'')) (\<lambda>invitation.
      raising (raise_if (inv_accepted_at invitation \<noteq> None)
        (ConflictError ''invitation_used'' ''Invitation has already been accepted'')) (\<lambda>_.
      raising (raise_if (invitation_has_expired (inv_expires_at invitation) now)
        (ConflictError ''invitation_expired'' ''Invitation has expired'')) (\<lambda>_.
      raising (raise_if (py_lower (inv_email invitation) \<noteq> py_lower (usr_email user))
        (ForbiddenError ''invitation_email_mismatch'' ''This invitation belongs to another account'')) (\<lambda>_.
      Query (\<lambda>d.
      raising (raise_if (select_membership d (inv_organization_id invitation) (usr_id user) \<noteq> None) already_member) (\<lambda>_.
      let membership = \<lparr>mem_id = rt_uuid E 0, mem_user_id = usr_id user, mem_organization_id = inv_organization_id invitation,
            mem_role = inv_role invitation, mem_joined_at = rt_db_now E\<rparr> in
      Commit (Accepted raw_token membership) (\<lambda>d.
        r_bind (on_integrity_error already_member
          (add_membership membership (save_invitation (invitation\<lparr>inv_accepted_at := Some now\<rparr>) d))) (\<lambda>d1.
        r_bind (write_audit (later_uuid 1 E) (inv_organization_id invitation) (Some (usr_id user)) ''invitation.accepted'' ''invitation''
          (uuid_str (inv_id invitation)) [(''membership_id'', JStr (uuid_str (mem_id membership)))] None d1) (\<lambda>(_, d2).
        Inr d2)))))))))))"

section \<open>Memberships\<close>

text \<open>
  The session of a request already holds the membership its dependencies loaded. A later select that
  returns the row of a loaded object returns the object as it is: SQLAlchemy overwrites its
  attributes only under \<open>populate_existing\<close>, which the code does not ask for. (The identity map goes
  by primary key; identifiers are not reused, so a row with that key has its user and organization.)
\<close>

definition in_session :: "membership list \<Rightarrow> membership \<Rightarrow> membership" where
  "in_session loaded row =
     (case filter (\<lambda>m. mem_id m = mem_id row \<and> mem_pair m = mem_pair row) loaded of [] \<Rightarrow> row | m # _ \<Rightarrow> m)"

definition membership_for_update :: "membership list \<Rightarrow> (membership \<Rightarrow> bool) \<Rightarrow> (membership option \<Rightarrow> 'r txn) \<Rightarrow> 'r txn" where
  "membership_for_update loaded Q k =
     scalar_for_update memberships (\<lambda>m. MembershipRow (mem_id m)) Q (\<lambda>found. k (map_option (in_session loaded) found))"

text \<open>\<open>get_current_membership\<close> and \<open>require_roles\<close>, run before the service in the same session.\<close>

definition current_membership_txn :: "uuid \<Rightarrow> uuid \<Rightarrow> role list \<Rightarrow> (membership \<Rightarrow> 'r txn) \<Rightarrow> 'r txn" where
  "current_membership_txn organization_id user_id allowed_roles k = Query (\<lambda>d.
     raising (require (select_membership d organization_id user_id) (NotFoundError ''organization_not_found'' ''Organization not found'')) (\<lambda>membership.
     raising (raise_if (mem_role membership \<notin> set allowed_roles) forbidden) (\<lambda>_.
     k membership)))"

definition lock_both :: "uuid \<Rightarrow> uuid \<Rightarrow> uuid \<Rightarrow> (membership \<Rightarrow> membership \<Rightarrow> 'r txn) \<Rightarrow> 'r txn" where
  "lock_both organization_id membership_id actor_id k =
     current_membership_txn organization_id actor_id [OWNER, ADMIN] (\<lambda>current.
     membership_for_update [current] (\<lambda>m. mem_organization_id m = organization_id \<and> mem_user_id m = actor_id) (\<lambda>found.
     raising (require found forbidden) (\<lambda>actor.
     membership_for_update [current, actor] (\<lambda>m. mem_id m = membership_id \<and> mem_organization_id m = organization_id) (\<lambda>found.
     raising (require found (NotFoundError ''membership_not_found'' ''Membership not found'')) (\<lambda>target.
     k actor target)))))"

text \<open>\<open>_ensure_another_owner\<close> selects identifiers, not objects, so it sees the rows as they are.\<close>

definition ensure_another_owner_txn :: "uuid \<Rightarrow> uuid \<Rightarrow> 'r txn \<Rightarrow> 'r txn" where
  "ensure_another_owner_txn organization_id excluded_membership_id k =
     ForUpdate (\<lambda>d. {MembershipRow (mem_id m) | m. m \<in> set (memberships d) \<and> mem_organization_id m = organization_id \<and> mem_role m = OWNER})
       (\<lambda>d S. if \<exists>m \<in> set (memberships d). MembershipRow (mem_id m) \<in> S \<and> mem_id m \<noteq> excluded_membership_id then k
              else Fail (ConflictError ''last_owner'' ''An organization must keep at least one owner''))"

text \<open>The \<open>UPDATE\<close> of a changed attribute sets that column of the row with the primary key.\<close>

definition set_role :: "uuid \<Rightarrow> role \<Rightarrow> db \<Rightarrow> db" where
  "set_role i r d = d\<lparr>memberships := update_where (\<lambda>m. mem_id m = i) (\<lambda>m. m\<lparr>mem_role := r\<rparr>) (memberships d)\<rparr>"

definition update_membership_txn :: "runtime \<Rightarrow> uuid \<Rightarrow> uuid \<Rightarrow> uuid \<Rightarrow> role \<Rightarrow> outcome txn" where
  "update_membership_txn E organization_id membership_id actor_id new_role =
     lock_both organization_id membership_id actor_id (\<lambda>actor target.
     raising (if mem_role actor = ADMIN then
               raise_if (mem_role target \<noteq> MEMBER \<or> new_role \<noteq> MEMBER)
                 (ForbiddenError ''membership_change_forbidden'' ''Administrators cannot grant roles or manage owners'')
             else raise_if (mem_role actor \<noteq> OWNER) forbidden) (\<lambda>_.
     let change = Commit (RoleChanged (target\<lparr>mem_role := new_role\<rparr>)) (\<lambda>d.
           r_bind (write_audit E organization_id (Some actor_id) ''member.role_changed'' ''membership'' (uuid_str (mem_id target))
             [(''old_role'', JStr (role_value (mem_role target))), (''new_role'', JStr (role_value new_role))] None
             (if new_role = mem_role target then d else set_role (mem_id target) new_role d)) (\<lambda>(_, d2). Inr d2)) in
     if mem_role target = OWNER \<and> new_role \<noteq> OWNER then ensure_another_owner_txn organization_id (mem_id target) change else change))"

definition remove_membership_txn :: "runtime \<Rightarrow> uuid \<Rightarrow> uuid \<Rightarrow> uuid \<Rightarrow> outcome txn" where
  "remove_membership_txn E organization_id membership_id actor_id =
     lock_both organization_id membership_id actor_id (\<lambda>actor target.
     raising (raise_if (mem_role actor = ADMIN \<and> mem_role target \<noteq> MEMBER)
       (ForbiddenError ''membership_remove_forbidden'' ''Administrators can remove members only'')) (\<lambda>_.
     raising (raise_if (mem_role actor \<notin> {OWNER, ADMIN}) forbidden) (\<lambda>_.
     let change = Commit (MemberRemoved (mem_id target)) (\<lambda>d.
           r_bind (write_audit E organization_id (Some actor_id) ''member.removed'' ''membership'' (uuid_str (mem_id target))
             [(''user_id'', JStr (uuid_str (mem_user_id target))), (''role'', JStr (role_value (mem_role target)))] None d) (\<lambda>(_, d1).
           Inr (delete_membership_row (mem_id target) d1))) in
     if mem_role target = OWNER then ensure_another_owner_txn organization_id (mem_id target) change else change)))"

section \<open>Organizations\<close>

definition create_organization_txn :: "runtime \<Rightarrow> uuid \<Rightarrow> organization_create \<Rightarrow> outcome txn" where
  "create_organization_txn E actor_id data =
     (let slug = py_lower (oc_slug data) in
      Query (\<lambda>d. raising (raise_if (scalar (filter (\<lambda>o'. org_slug o' = slug) (organizations d)) \<noteq> None) slug_taken) (\<lambda>_.
      let organization = \<lparr>org_id = rt_uuid E 0, org_name = oc_name data, org_slug = slug,
            org_created_at = rt_db_now E, org_updated_at = rt_db_now E\<rparr>;
          membership = \<lparr>mem_id = rt_uuid E 1, mem_user_id = actor_id, mem_organization_id = org_id organization,
            mem_role = OWNER, mem_joined_at = rt_db_now E\<rparr> in
      Commit (OrganizationCreated organization) (\<lambda>d.
        r_bind (on_integrity_error slug_taken
          (r_bind (add_organization organization d) (\<lambda>d1.
           r_bind (add_membership membership d1) (\<lambda>d2.
           create_default_subscription (later_uuid 2 E) (org_id organization) None d2)))) (\<lambda>(_, d3).
        r_bind (write_audit (later_uuid 3 E) (org_id organization) (Some actor_id) ''organization.created'' ''organization''
          (uuid_str (org_id organization)) [] None d3) (\<lambda>(_, d4).
        Inr d4))))))"

text \<open>The select joins two tables, so \<open>FOR UPDATE\<close> locks the organization and the membership.\<close>

definition delete_organization_txn :: "runtime \<Rightarrow> uuid \<Rightarrow> uuid \<Rightarrow> outcome txn" where
  "delete_organization_txn E organization_id actor_id =
     (let joined = (\<lambda>d m. m \<in> set (memberships d) \<and> mem_organization_id m = organization_id \<and> mem_user_id m = actor_id \<and>
            mem_role m = OWNER \<and> organization_id \<in> org_ids d) in
      ForUpdate (\<lambda>d. {l. \<exists>m. joined d m \<and> l \<in> {OrganizationRow organization_id, MembershipRow (mem_id m)}})
        (\<lambda>d S. if \<exists>m. joined d m \<and> {OrganizationRow organization_id, MembershipRow (mem_id m)} \<subseteq> S then
           Commit (OrganizationDeleted organization_id) (\<lambda>d.
             r_bind (write_audit E organization_id (Some actor_id) ''organization.deleted'' ''organization''
               (uuid_str organization_id) [] None d) (\<lambda>(_, d1).
             Inr (delete_organization_row organization_id d1)))
         else Fail (ForbiddenError ''owner_required'' ''Only an owner can delete the organization'')))"

section \<open>Usage\<close>

text \<open>\<open>pending\<close> is what the session has flushed before; it takes effect with the commit.\<close>

definition report_within_txn :: "(db \<Rightarrow> exc + db) \<Rightarrow> runtime \<Rightarrow> uuid \<Rightarrow> string \<Rightarrow> int \<Rightarrow> datetime option \<Rightarrow> int \<Rightarrow> datetime \<Rightarrow> datetime \<Rightarrow> outcome txn" where
  "report_within_txn pending E organization_id metric quantity now limit period_start period_end =
     Query (\<lambda>d. let used = usage_total d organization_id metric period_start period_end in
     if limit < used + quantity then
       raising (as_utc (now_or E 1 now)) (\<lambda>current.
       let retry_after = max 1 ((instant period_end - instant current) div 1000000) in
       Fail (AppError 429 ''quota_exceeded'' (''Monthly '' @ metric @ '' quota exceeded'') (Some [(''Retry-After'', int_str retry_after)])))
     else
       raising (as_utc (now_or E 1 now)) (\<lambda>created_at.
       let event = \<lparr>use_id = rt_uuid E 0, use_organization_id = organization_id, use_metric = metric,
                    use_quantity = quantity, use_created_at = created_at\<rparr> in
       Commit (UsageRecorded event) (\<lambda>d. r_bind (pending d) (add_usage_event event))))"

definition record_usage_txn :: "(db \<Rightarrow> exc + db) \<Rightarrow> runtime \<Rightarrow> uuid \<Rightarrow> string \<Rightarrow> int \<Rightarrow> datetime option \<Rightarrow> outcome txn" where
  "record_usage_txn pending E organization_id metric quantity now =
     raising (raise_if (quantity < 1) (ValueError ''quantity must be positive'')) (\<lambda>_.
     scalar_for_update organizations (\<lambda>g. OrganizationRow (org_id g)) (\<lambda>g. org_id g = organization_id) (\<lambda>found.
     raising (require found (NotFoundError ''organization_not_found'' ''Organization not found'')) (\<lambda>_.
     Query (\<lambda>d. let subscription = find_subscription d organization_id; plan = plan_of_subscription subscription in
     raising (subscription_period E subscription now) (\<lambda>(period_start, period_end).
     report_within_txn pending E organization_id metric quantity now (plan_quota plan) period_start period_end)))))"

section \<open>Webhooks\<close>

text \<open>The insert of \<open>store_webhook_event\<close> is in a savepoint; when it violates the uniqueness of event identifiers the event is looked up again.\<close>

definition store_webhook_event_txn :: "runtime \<Rightarrow> billing_webhook \<Rightarrow> outcome txn" where
  "store_webhook_event_txn E event =
     Query (\<lambda>d. case find_webhook (bw_id event) d of
       Some existing \<Rightarrow> Commit (WebhookStored (bw_id event)) Inr
     | None \<Rightarrow>
         let webhook = \<lparr>whk_id = rt_uuid E 0, whk_provider = PROVIDER, whk_external_event_id = bw_id event,
               whk_event_type = bw_type event, whk_payload = model_dump event, whk_status = PENDING,
               whk_received_at = rt_db_now E, whk_processed_at = None\<rparr> in
         Commit (WebhookStored (bw_id event)) (\<lambda>d.
           case add_webhook_event webhook d of
             Inl (IntegrityError m) \<Rightarrow> (case find_webhook (bw_id event) d of None \<Rightarrow> Inl (IntegrityError m) | Some existing \<Rightarrow> Inr d)
           | Inl e \<Rightarrow> Inl e
           | Inr d1 \<Rightarrow> Inr d1))"

definition webhook_for_update :: "string \<Rightarrow> (webhook_event option \<Rightarrow> 'r txn) \<Rightarrow> 'r txn" where
  "webhook_for_update webhook_event_id k =
     raising (require (parse_uuid webhook_event_id) (ValueError ''badly formed hexadecimal UUID string'')) (\<lambda>event_id.
     scalar_for_update webhook_events (\<lambda>w. WebhookRow (whk_id w)) (\<lambda>w. whk_id w = event_id) k)"

definition locked_subscription_txn :: "uuid \<Rightarrow> (subscription option \<Rightarrow> 'r txn) \<Rightarrow> 'r txn" where
  "locked_subscription_txn organization_id k =
     scalar_for_update organizations (\<lambda>g. OrganizationRow (org_id g)) (\<lambda>g. org_id g = organization_id) (\<lambda>found.
     raising (require found (ValueError ''webhook organization does not exist'')) (\<lambda>_.
     scalar_for_update subscriptions (\<lambda>s. SubscriptionRow (sub_id s)) (\<lambda>s. sub_organization_id s = organization_id) k))"

text \<open>
  What processing writes: \<open>locked\<close> is the locked subscription, none when the organization has none yet,
  and \<open>event\<close> the locked webhook.
\<close>

definition apply_webhook_txn ::
  "ext \<Rightarrow> runtime \<Rightarrow> datetime option \<Rightarrow> webhook_event \<Rightarrow> dict \<Rightarrow> uuid \<Rightarrow> subscription option \<Rightarrow> db \<Rightarrow> exc + db" where
  "apply_webhook_txn X E now event event_object organization_id locked d =
     r_bind (case locked of Some s \<Rightarrow> Inr (s, d) | None \<Rightarrow> create_default_subscription (later_clock 2 E) organization_id None d) (\<lambda>(subscription, d1).
     let previous_plan = sub_plan subscription; previous_status = sub_status subscription in
     r_bind (calendar_period (now_or E 3 now)) (\<lambda>(period_start, period_end).
     r_bind (apply_event X (whk_event_type event) event_object period_start period_end subscription) (\<lambda>changed0.
     let changed = touch_subscription E subscription changed0 in
     r_bind (save_subscription changed d1) (\<lambda>d2.
     r_bind (write_audit (later_uuid 1 E) organization_id None ''subscription.changed'' ''subscription'' (uuid_str (sub_id changed))
       [(''event_id'', JStr (whk_external_event_id event)), (''event_type'', JStr (whk_event_type event)),
        (''from_plan'', JStr (plan_value previous_plan)), (''to_plan'', JStr (plan_value (sub_plan changed))),
        (''from_status'', JStr (subscription_status_value previous_status)),
        (''to_status'', JStr (subscription_status_value (sub_status changed)))] None d2) (\<lambda>(_, d3).
     let event' = event\<lparr>whk_status := PROCESSED, whk_processed_at := Some (now_or E 4 now)\<rparr> in
     Inr (save_webhook_event event' d3))))))"

definition process_webhook_event_txn :: "ext \<Rightarrow> runtime \<Rightarrow> string \<Rightarrow> datetime option \<Rightarrow> outcome txn" where
  "process_webhook_event_txn X E webhook_event_id now =
     webhook_for_update webhook_event_id (\<lambda>found.
     raising (require found (NotFoundError ''webhook_event_not_found'' ''Webhook event not found'')) (\<lambda>event.
     if whk_status event = PROCESSED then Commit (WebhookSkipped (whk_id event)) Inr else
     raising (BillingWebhook (JDict (whk_payload event))) (\<lambda>parsed_event.
     raising (validate_webhook X E parsed_event) (\<lambda>event_object.
     raising (webhook_organization X event_object) (\<lambda>organization_id.
     locked_subscription_txn organization_id (\<lambda>locked.
     Commit (WebhookApplied (whk_id event)) (apply_webhook_txn X E now event event_object organization_id locked)))))))"

definition mark_webhook_failed_txn :: "string \<Rightarrow> outcome txn" where
  "mark_webhook_failed_txn webhook_event_id =
     webhook_for_update webhook_event_id (\<lambda>found. Commit (WebhookMarked webhook_event_id) (\<lambda>d.
       case found of
         None \<Rightarrow> Inr d
       | Some event \<Rightarrow> if whk_status event \<noteq> PROCESSED then Inr (save_webhook_event (event\<lparr>whk_status := FAILED\<rparr>) d) else Inr d))"

section \<open>Alone, a transaction is its service\<close>

lemma r_bind_assoc [simp]: "r_bind (r_bind m f) g = r_bind m (\<lambda>x. r_bind (f x) g)"
  by (cases m) simp_all

lemma alone_raising [simp]: "alone (raising m f) d = r_bind m (\<lambda>x. alone (f x) d)"
  by (cases m) (simp_all add: raising_def)

lemma alone_scalar_for_update [simp]: "alone (scalar_for_update rows lock Q k) d = alone (k (scalar (filter Q (rows d)))) d"
proof -
  have "filter (\<lambda>x. Q x \<and> lock x \<in> lock ` set (filter Q (rows d))) (rows d) = filter Q (rows d)" by (rule filter_cong) auto
  then show ?thesis by (simp add: scalar_for_update_def)
qed

definition returning :: "('a \<Rightarrow> outcome) \<Rightarrow> exc + 'a \<times> db \<Rightarrow> exc + outcome \<times> db" where
  "returning f m = r_bind m (\<lambda>(x, d). Inr (f x, d))"

lemma returning_simps [simp]:
  "returning f (Inl e) = Inl e" "returning f (Inr (x, d)) = Inr (f x, d)" "returning f (r_bind m g) = r_bind m (\<lambda>x. returning f (g x))"
  "returning f (if c then v else v') = (if c then returning f v else returning f v')"
  by (simp_all add: returning_def)

lemma alone_issue_tokens: "alone (issue_tokens_txn X S E u pending f) d = returning f (issue_tokens X S E u (pending d))"
  by (simp add: issue_tokens_txn_def issue_tokens_def Let_def split_def)

lemma alone_login:
  "alone (login_txn X S E dummy email pw) d = r_bind (authenticate_user X dummy email pw d) (\<lambda>u. returning LoggedIn (issue_tokens X S E u d))"
  by (simp add: login_txn_def alone_issue_tokens)

lemma alone_rotate: "alone (rotate_refresh_token_txn X S E raw) d = returning (Exchanged raw) (rotate_refresh_token X S E raw d)"
  by (simp add: rotate_refresh_token_txn_def rotate_refresh_token_def token_for_update_def find_refresh_token_def alone_issue_tokens Let_def)

lemma alone_revoke: "alone (revoke_refresh_token_txn X E raw) d = returning (\<lambda>_. LoggedOut raw) (revoke_refresh_token X E raw d)"
  by (auto simp: revoke_refresh_token_txn_def revoke_refresh_token_def token_for_update_def find_refresh_token_def require_def returning_def
      split: option.splits)

lemma alone_accept: "alone (accept_invitation_txn X E raw u) d = returning (Accepted raw) (accept_invitation X E raw u d)"
  by (simp add: accept_invitation_txn_def accept_invitation_def find_invitation_def Let_def split_def)

lemma in_session_current:
  assumes "wf_db d" "set loaded \<subseteq> set (memberships d)" "m \<in> set (memberships d)"
  shows "in_session loaded m = m"
proof (cases "filter (\<lambda>x. mem_id x = mem_id m \<and> mem_pair x = mem_pair m) loaded")
  case (Cons x xs)
  then have "x \<in> set loaded" "mem_id x = mem_id m" by (auto dest: filter_eq_ConsD)
  then have "x = m" using assms by (auto simp: wf_db_def wf_memberships_def dest: unique_onD)
  then show ?thesis using Cons by (simp add: in_session_def)
qed (simp add: in_session_def)

lemma alone_lock_both:
  assumes "wf_db d" "select_membership d oid uid = Some m" "mem_role m \<in> {OWNER, ADMIN}"
  shows "alone (lock_both oid mid uid k) d = r_bind (lock_membership oid mid d) (\<lambda>t. alone (k m t) d)"
proof -
  have m: "m \<in> set (memberships d)" using select_membershipD [OF assms(2)] by simp
  have i: "in_session [m] m = m" using m by (auto intro: in_session_current [OF assms(1)])
  have t: "map_option (in_session [m, m]) (scalar (filter P (memberships d))) = scalar (filter P (memberships d))" for P
    using m by (cases "scalar (filter P (memberships d))") (auto dest!: scalar_filter_SomeD intro: in_session_current [OF assms(1)])
  show ?thesis
    using assms(2,3) i
    by (auto simp: lock_both_def current_membership_txn_def membership_for_update_def lock_membership_def t select_membership_def [symmetric])
qed

lemma alone_ensure_another_owner:
  "alone (ensure_another_owner_txn oid mid k) d = r_bind (ensure_another_owner oid mid d) (\<lambda>_. alone k d)"
  by (auto simp: ensure_another_owner_txn_def ensure_another_owner_def raise_if_def Let_def)

lemma set_role_saved:
  assumes "wf_db d" "t \<in> set (memberships d)"
  shows "set_role (mem_id t) r d = save_membership (t\<lparr>mem_role := r\<rparr>) d" "save_membership t d = d"
proof -
  have "m = t" if "m \<in> set (memberships d)" "mem_id m = mem_id t" for m
    using assms that by (auto simp: wf_db_def wf_memberships_def dest: unique_onD)
  then show "set_role (mem_id t) r d = save_membership (t\<lparr>mem_role := r\<rparr>) d"
    unfolding set_role_def save_membership_def save_row_def update_where_def
    by (intro arg_cong [where f = "\<lambda>ms. d\<lparr>memberships := ms\<rparr>"] map_cong) auto
  have "map (\<lambda>m. if mem_id m = mem_id t then t else m) (memberships d) = memberships d"
    by (rule map_idI) (use \<open>\<And>m. m \<in> set (memberships d) \<Longrightarrow> mem_id m = mem_id t \<Longrightarrow> m = t\<close> in auto)
  then show "save_membership t d = d" by (simp add: save_membership_def save_row_def update_where_def)
qed

lemma alone_update:
  assumes "wf_db d" "select_membership d oid uid = Some m" "mem_role m \<in> {OWNER, ADMIN}"
  shows "alone (update_membership_txn E oid mid uid r) d = returning RoleChanged (update_membership E oid mid uid r d)"
proof -
  have c: "r_bind (lock_membership oid mid d) f = r_bind (lock_membership oid mid d) g"
    if "\<And>t. t \<in> set (memberships d) \<Longrightarrow> f t = g t" for f g :: "membership \<Rightarrow> exc + outcome \<times> db"
    using that lock_membershipD [of oid mid d] by (cases "lock_membership oid mid d") auto
  show ?thesis
    using assms(2)
    by (simp add: update_membership_txn_def update_membership_def alone_lock_both [OF assms] lock_actor_membership_def Let_def split_def)
      (rule c, auto simp: alone_ensure_another_owner set_role_saved [OF assms(1)] split_def)
qed

lemma alone_remove:
  assumes "wf_db d" "select_membership d oid uid = Some m" "mem_role m \<in> {OWNER, ADMIN}"
  shows "alone (remove_membership_txn E oid mid uid) d = returning (\<lambda>_. MemberRemoved mid) (remove_membership E oid mid uid d)"
proof -
  have c: "r_bind (lock_membership oid mid d) f = r_bind (lock_membership oid mid d) g"
    if "\<And>t. mem_id t = mid \<Longrightarrow> f t = g t" for f g :: "membership \<Rightarrow> exc + outcome \<times> db"
    using that lock_membershipD [of oid mid d] by (cases "lock_membership oid mid d") auto
  show ?thesis
    using assms(2)
    by (simp add: remove_membership_txn_def remove_membership_def alone_lock_both [OF assms] lock_actor_membership_def Let_def split_def)
      (rule c, simp add: alone_ensure_another_owner split_def)
qed

lemma alone_create_organization:
  "alone (create_organization_txn E actor data) d = returning OrganizationCreated (create_organization E actor data d)"
  by (simp add: create_organization_txn_def create_organization_def Let_def split_def)

lemma alone_delete_organization:
  "alone (delete_organization_txn E oid actor) d = returning (\<lambda>_. OrganizationDeleted oid) (delete_organization E oid actor d)"
proof (cases "select_organization d oid actor (\<lambda>r. r = OWNER)")
  case None
  then have "\<not> (m \<in> set (memberships d) \<and> mem_organization_id m = oid \<and> mem_user_id m = actor \<and> mem_role m = OWNER \<and> oid \<in> org_ids d)" for m
    by (auto simp: select_organization_def filter_empty_conv set_joined_organizations org_ids_def)
  then show ?thesis using None by (auto simp: delete_organization_txn_def delete_organization_def)
next
  case (Some o')
  note D = select_organizationD [OF Some]
  then obtain m where m: "m \<in> set (memberships d)" "mem_organization_id m = oid" "mem_user_id m = actor" "mem_role m = OWNER" by blast
  have "oid \<in> org_ids d" using D by (auto simp: org_ids_def)
  then show ?thesis using m Some D by (auto simp: delete_organization_txn_def delete_organization_def split_def)
qed

lemma alone_record_usage:
  "alone (record_usage_txn Inr E oid metric q now) d = returning UsageRecorded (record_usage E oid metric q now d)"
  by (simp add: record_usage_txn_def report_within_txn_def record_usage_def find_organization_def Let_def split_def if_distrib [of "\<lambda>p. alone p d"] cong: if_cong)

lemma alone_store_webhook:
  "alone (store_webhook_event_txn E event) d = returning (\<lambda>_. WebhookStored (bw_id event)) (store_webhook_event E event d)"
  by (simp add: store_webhook_event_txn_def store_webhook_event_def Let_def split: option.split sum.split exc.split)

lemma alone_webhook_for_update: "alone (webhook_for_update i k) d = r_bind (find_webhook_by_id i d) (\<lambda>found. alone (k found) d)"
  by (simp add: webhook_for_update_def find_webhook_by_id_def)

lemma alone_process_webhook:
  "alone (process_webhook_event_txn X E i now) d =
     returning (\<lambda>(event, processed). if processed then WebhookApplied (whk_id event) else WebhookSkipped (whk_id event))
       (process_webhook_event X E i now d)"
  by (simp add: process_webhook_event_txn_def apply_webhook_txn_def process_webhook_event_def alone_webhook_for_update locked_subscription_txn_def
      locked_subscription_def find_organization_def find_subscription_def Let_def split_def if_distrib [of "\<lambda>p. alone p d"] cong: if_cong)

lemma alone_mark_webhook:
  "alone (mark_webhook_failed_txn i) d = returning (\<lambda>_. WebhookMarked i) (mark_webhook_failed i d)"
  by (auto simp: mark_webhook_failed_txn_def mark_webhook_failed_def alone_webhook_for_update returning_def split: option.split
      intro!: arg_cong [where f = "r_bind (find_webhook_by_id i d)"])

end
