(* ===== verification/Concurrent_Safety.thy ===== *)
theory Concurrent_Safety
  imports Concurrency
begin

text \<open>
  What the transactions of \<open>Concurrency\<close> keep in every interleaving: \<open>sound_state\<close> (the database constraints,
  an owner and a subscription for every organization, tokens and webhooks used at most once, the count of
  invitations, keys and projects) with the rules that verify statements and commits, and a derivation
  for each transaction.
\<close>

section \<open>What the history tells\<close>

definition exchanges :: "string \<Rightarrow> outcome list \<Rightarrow> nat" where
  "exchanges raw h = length (filter (\<lambda>r. case r of Exchanged raw' _ \<Rightarrow> raw' = raw | _ \<Rightarrow> False) h)"

definition applications :: "uuid \<Rightarrow> outcome list \<Rightarrow> nat" where
  "applications i h = length (filter (\<lambda>r. r = WebhookApplied i) h)"

definition webhook_done :: "uuid \<Rightarrow> db \<Rightarrow> bool" where
  "webhook_done i d = (\<exists>w \<in> set (webhook_events d). whk_id w = i \<and> whk_status w = PROCESSED)"

text \<open>
  Invitations, API keys and projects are used up: accepted, revoked, deleted. \<open>remaining\<close> counts those the
  database still holds for use, \<open>spent\<close> and \<open>issued\<close> the uses and the creations of the history. Deleting an
  organization discards what is left.
\<close>

datatype ticket = InvitationTicket string | KeyTicket uuid | ProjectTicket uuid

primrec remaining :: "ticket \<Rightarrow> db \<Rightarrow> nat" where
  "remaining (InvitationTicket token_hash) d =
     length (filter (\<lambda>i. inv_token_hash i = token_hash \<and> inv_accepted_at i = None) (invitations d))"
| "remaining (KeyTicket i) d = length (filter (\<lambda>k. key_id k = i \<and> key_revoked_at k = None) (api_keys d))"
| "remaining (ProjectTicket i) d = length (filter (\<lambda>p. prj_id p = i) (projects d))"

fun spends :: "ext \<Rightarrow> outcome \<Rightarrow> ticket option" where
  "spends X (Accepted raw m) = Some (InvitationTicket (hash_token X raw))"
| "spends X (KeyRevoked i now) = (if now then Some (KeyTicket i) else None)"
| "spends X (ProjectDeleted i) = Some (ProjectTicket i)"
| "spends X r = None"

fun makes :: "ext \<Rightarrow> outcome \<Rightarrow> ticket option" where
  "makes X (Invited raw i) = Some (InvitationTicket (hash_token X raw))"
| "makes X (KeyCreated k) = Some (KeyTicket (key_id k))"
| "makes X (ProjectCreated p) = Some (ProjectTicket (prj_id p))"
| "makes X r = None"

definition spent :: "ext \<Rightarrow> ticket \<Rightarrow> outcome list \<Rightarrow> nat" where
  "spent X t h = length (filter (\<lambda>r. spends X r = Some t) h)"

definition issued :: "ext \<Rightarrow> ticket \<Rightarrow> outcome list \<Rightarrow> nat" where
  "issued X t h = length (filter (\<lambda>r. makes X r = Some t) h)"

text \<open>\<open>stock\<close> is what there was at the beginning.\<close>

definition sound_state :: "ext \<Rightarrow> (ticket \<Rightarrow> nat) \<Rightarrow> db \<Rightarrow> outcome list \<Rightarrow> bool" where
  "sound_state X stock d h = (wf_db d \<and> orgs_complete d \<and>
     (\<forall>raw. exchanges raw h \<le> 1 \<and> (exchanges raw h = 1 \<longrightarrow> refresh_spent X raw d)) \<and>
     (\<forall>t. spent X t h + remaining t d \<le> stock t + issued X t h) \<and>
     (\<forall>i. applications i h \<le> 1 \<and> (applications i h = 1 \<longrightarrow> webhook_done i d)))"

section \<open>Rules for statements\<close>

lemma verified_raising: "(\<And>x. m = Inr x \<Longrightarrow> verified I g L A (f x)) \<Longrightarrow> verified I g L A (raising m f)"
  by (cases m) (auto simp: raising_def intro: v_fail)

lemma verified_query: "stable I g L A \<Longrightarrow> (\<And>d h. I d h \<Longrightarrow> A d \<Longrightarrow> verified I g L A (f d)) \<Longrightarrow> verified I g L A (Query f)"
  by (rule v_query [where B = "\<lambda>_. A"]) simp

lemma stable_mono: "stable I g L A \<Longrightarrow> L \<subseteq> M \<Longrightarrow> stable I g M A"
  by (force simp: stable_def)

text \<open>
  What is known after a locking select: nothing new when it finds no row, else that the row is the one
  selected, for as long as it is locked.
\<close>

lemma verified_scalar_for_update:
  assumes "stable I g L A" "\<And>S. verified I g (L \<union> S) A (k None)"
    "\<And>d h S x. I d h \<Longrightarrow> A d \<Longrightarrow> x \<in> set (rows d) \<Longrightarrow> Q x \<Longrightarrow> lock x \<in> S \<Longrightarrow>
       B x d \<and> stable I g (L \<union> S) (B x) \<and> verified I g (L \<union> S) (B x) (k (Some x))"
  shows "verified I g L A (scalar_for_update rows lock Q k)"
  unfolding scalar_for_update_def
proof (rule v_lock [where B = "\<lambda>d S. case scalar (filter (\<lambda>x. Q x \<and> lock x \<in> S) (rows d)) of None \<Rightarrow> A | Some x \<Rightarrow> B x"])
  fix d h S
  assume a: "I d h" "A d"
  let ?r = "scalar (filter (\<lambda>x. Q x \<and> lock x \<in> S) (rows d))"
  let ?B = "case ?r of None \<Rightarrow> A | Some x \<Rightarrow> B x"
  show "?B d \<and> stable I g (L \<union> S) ?B \<and> verified I g (L \<union> S) ?B (k ?r)"
  proof (cases ?r)
    case None
    then show ?thesis using a assms(2) stable_mono [OF assms(1), of "L \<union> S"] by simp
  next
    case (Some x)
    have x: "x \<in> set (rows d)" "Q x" "lock x \<in> S" using scalar_filter_SomeD [OF Some] by auto
    show ?thesis using assms(3) [OF a x] by (simp add: Some)
  qed
qed

text \<open>The guard of the main invariant: a locked row does not change.\<close>

lemma filter_eq_in: "filter P xs = filter P ys \<Longrightarrow> x \<in> set xs \<Longrightarrow> P x \<Longrightarrow> x \<in> set ys"
  by (drule arg_cong [where f = set]) auto

lemma stable_locked: "l \<in> L \<Longrightarrow> (\<And>d d'. same_row l d d' \<Longrightarrow> A d \<Longrightarrow> A d') \<Longrightarrow> stable I same_row L A"
  unfolding stable_def by blast

lemma stable_row:
  "TokenRow (rft_id t) \<in> L \<Longrightarrow> stable I same_row L (\<lambda>d. t \<in> set (refresh_tokens d))"
  "MembershipRow (mem_id m) \<in> L \<Longrightarrow> stable I same_row L (\<lambda>d. m \<in> set (memberships d))"
  "InvitationRow (inv_id i) \<in> L \<Longrightarrow> stable I same_row L (\<lambda>d. i \<in> set (invitations d))"
  "WebhookRow (whk_id w) \<in> L \<Longrightarrow> stable I same_row L (\<lambda>d. w \<in> set (webhook_events d))"
  "OrganizationRow (org_id g) \<in> L \<Longrightarrow> stable I same_row L (\<lambda>d. g \<in> set (organizations d))"
  "SubscriptionRow (sub_id s) \<in> L \<Longrightarrow> stable I same_row L (\<lambda>d. s \<in> set (subscriptions d))"
  "ApiKeyRow (key_id k) \<in> L \<Longrightarrow> stable I same_row L (\<lambda>d. k \<in> set (api_keys d))"
  "ProjectRow (prj_id p) \<in> L \<Longrightarrow> stable I same_row L (\<lambda>d. p \<in> set (projects d))"
  by (erule stable_locked, simp, erule (1) filter_eq_in, simp)+

lemma stable_conj:
  assumes "stable I g L A" "stable I g L B"
  shows "stable I g L (\<lambda>d. A d \<and> B d)"
  using assms unfolding stable_def by blast

lemma stable_pure [simp]: "stable I g L (\<lambda>d. p)"
  by (simp add: stable_def)

section \<open>Commits\<close>

lemma verified_commit:
  "(\<And>d h d'. I d h \<Longrightarrow> A d \<Longrightarrow> w d = Inr d' \<Longrightarrow> I d' (h @ [r])) \<Longrightarrow> verified I same_row L A (Commit r w)"
  by (rule v_commit) simp

lemma exchanges_append [simp]:
  "exchanges raw (h @ [r]) = exchanges raw h + (case r of Exchanged raw' _ \<Rightarrow> of_bool (raw' = raw) | _ \<Rightarrow> 0)"
  by (simp add: exchanges_def split: outcome.splits)

lemma spent_append [simp]: "spent X t (h @ [r]) = spent X t h + of_bool (spends X r = Some t)"
  by (simp add: spent_def)

lemma issued_append [simp]: "issued X t (h @ [r]) = issued X t h + of_bool (makes X r = Some t)"
  by (simp add: issued_def)

lemma applications_append [simp]: "applications i (h @ [r]) = applications i h + of_bool (r = WebhookApplied i)"
  by (simp add: applications_def)

lemma counts_Nil [simp]: "exchanges raw [] = 0" "spent X t [] = 0" "issued X t [] = 0" "applications i [] = 0"
  by (simp_all add: exchanges_def spent_def issued_def applications_def)

lemma sound_state_commit:
  assumes "sound_state X stock d h" "wf_db d'" "orgs_complete d'"
    and s: "\<And>raw. refresh_spent X raw d \<Longrightarrow> refresh_spent X raw d'"
    and c: "\<And>t. of_bool (spends X r = Some t) + remaining t d' \<le> of_bool (makes X r = Some t) + remaining t d"
    and x: "\<And>raw k. r = Exchanged raw k \<Longrightarrow> \<not> refresh_spent X raw d \<and> refresh_spent X raw d'"
    and w: "\<And>i. webhook_done i d \<Longrightarrow> webhook_done i d'"
    and p: "\<And>i. r = WebhookApplied i \<Longrightarrow> \<not> webhook_done i d \<and> webhook_done i d'"
  shows "sound_state X stock d' (h @ [r])"
proof -
  have "applications i (h @ [r]) \<le> 1 \<and> (applications i (h @ [r]) = 1 \<longrightarrow> webhook_done i d')" for i
  proof -
    have "applications i h \<le> 1" "applications i h = 1 \<Longrightarrow> webhook_done i d" using assms(1) by (simp_all add: sound_state_def)
    then show ?thesis using w [of i] p [of i] by (cases "applications i h") (auto simp: of_bool_def)
  qed
  moreover have "exchanges raw (h @ [r]) \<le> 1 \<and> (exchanges raw (h @ [r]) = 1 \<longrightarrow> refresh_spent X raw d')" for raw
  proof -
    have "exchanges raw h \<le> 1" "exchanges raw h = 1 \<Longrightarrow> refresh_spent X raw d" using assms(1) by (simp_all add: sound_state_def)
    then show ?thesis using s [of raw] x [of raw] by (cases r; cases "exchanges raw h") (auto simp: of_bool_def)
  qed
  moreover have "spent X t (h @ [r]) + remaining t d' \<le> stock t + issued X t (h @ [r])" for t
  proof -
    have "spent X t h + remaining t d \<le> stock t + issued X t h" using assms(1) by (simp add: sound_state_def)
    then show ?thesis using c [of t] by simp
  qed
  ultimately show ?thesis using assms(2,3) unfolding sound_state_def by blast
qed

lemma sound_stateD: "sound_state X stock d h \<Longrightarrow> wf_db d" "sound_state X stock d h \<Longrightarrow> orgs_complete d"
  by (simp_all add: sound_state_def)

definition tickets :: "db \<Rightarrow> invitation list \<times> api_key list \<times> project list" where
  "tickets d = (invitations d, api_keys d, projects d)"

lemma remaining_cong: "tickets d' = tickets d \<Longrightarrow> remaining t d' = remaining t d"
  by (cases t) (simp_all add: tickets_def)

lemma kept_tickets:
  "tickets d' = tickets d \<Longrightarrow> spends X r = None \<Longrightarrow>
     of_bool (spends X r = Some t) + remaining t d' \<le> of_bool (makes X r = Some t) + remaining t d"
  by (drule remaining_cong [of d' d t]) simp

lemma webhook_done_cong: "webhook_events d' = webhook_events d \<Longrightarrow> webhook_done i d' = webhook_done i d"
  by (simp add: webhook_done_def)

lemma refresh_spent_cong: "refresh_tokens d' = refresh_tokens d \<Longrightarrow> refresh_spent X raw d' = refresh_spent X raw d"
  by (simp add: refresh_spent_def)

text \<open>Most commits keep what the invariant is about, and their results count for nothing.\<close>

definition harmless :: "db \<Rightarrow> db \<Rightarrow> bool" where
  "harmless d d' = ((wf_db d \<longrightarrow> wf_db d') \<and> (wf_db d \<longrightarrow> orgs_complete d \<longrightarrow> orgs_complete d') \<and>
     refresh_tokens d' = refresh_tokens d \<and> webhook_events d' = webhook_events d \<and> (\<forall>t. remaining t d' \<le> remaining t d))"

definition plain :: "ext \<Rightarrow> outcome \<Rightarrow> bool" where
  "plain X r = (spends X r = None \<and> (\<forall>raw k. r \<noteq> Exchanged raw k) \<and> (\<forall>i. r \<noteq> WebhookApplied i))"

lemma sound_state_harmless:
  assumes "sound_state X stock d h" "harmless d d'" "plain X r"
  shows "sound_state X stock d' (h @ [r])"
proof (rule sound_state_commit [OF assms(1)])
  show "of_bool (spends X r = Some t) + remaining t d' \<le> of_bool (makes X r = Some t) + remaining t d" for t
    using assms(2,3) by (simp add: harmless_def plain_def trans_le_add2)
  show "wf_db d'" "orgs_complete d'" using assms(2) sound_stateD [OF assms(1)] by (simp_all add: harmless_def)
qed (use assms(2,3) in \<open>simp_all add: harmless_def plain_def refresh_spent_def webhook_done_def\<close>)

lemma harmless_trans: "harmless d d1 \<Longrightarrow> harmless d1 d2 \<Longrightarrow> harmless d d2"
  unfolding harmless_def by (auto intro: le_trans)

lemma harmless_refl [simp]: "harmless d d"
  by (simp add: harmless_def)

lemma harmless_audit: "write_audit E oid actor act rty rid meta ip d = Inr (e, d') \<Longrightarrow> harmless d d'"
  using write_audit_wf [of E oid actor act rty rid meta ip d e d'] write_audit_complete [of E oid actor act rty rid meta ip d e d']
    write_audit_InrD(2) [of E oid actor act rty rid meta ip d e d'] remaining_cong [of d' d]
  by (simp add: harmless_def tickets_def)

lemma harmless_fields:
  assumes "wf_db d \<Longrightarrow> wf_db d'" "wf_db d \<Longrightarrow> orgs_complete d \<Longrightarrow> orgs_complete d'"
    "refresh_tokens d' = refresh_tokens d" "webhook_events d' = webhook_events d" "tickets d' = tickets d"
  shows "harmless d d'"
  using assms remaining_cong [OF assms(5)] by (simp add: harmless_def)

section \<open>Tokens\<close>

lemma verified_issue_tokens:
  assumes "\<And>d h t k d'. sound_state X stock d h \<Longrightarrow> A d \<Longrightarrow> rft_revoked_at t = None \<Longrightarrow> add_refresh_token t (pending d) = Inr d' \<Longrightarrow>
    sound_state X stock d' (h @ [result k])"
  shows "verified (sound_state X stock) same_row L A (issue_tokens_txn Y S E user pending result)"
  unfolding issue_tokens_txn_def Let_def
  by (intro verified_raising) (auto intro!: verified_commit verified_raising assms split: prod.splits)

lemma added_token_sound:
  assumes "sound_state X stock d h" "wf_db d1" "orgs_complete d1" "tickets d1 = tickets d"
    "\<And>raw. refresh_spent X raw d \<Longrightarrow> refresh_spent X raw d1" "add_refresh_token t d1 = Inr d'"
    "\<And>raw k. r = Exchanged raw k \<Longrightarrow> \<not> refresh_spent X raw d \<and> refresh_spent X raw d1" "spends X r = None"
    "webhook_events d1 = webhook_events d" "\<And>i. r \<noteq> WebhookApplied i"
  shows "sound_state X stock d' (h @ [r])"
proof (rule sound_state_commit [OF assms(1)])
  have d': "d' = d1\<lparr>refresh_tokens := refresh_tokens d1 @ [t]\<rparr>" using add_refresh_token_InrD [OF assms(6)] by simp
  then have s: "refresh_spent X raw d1 \<Longrightarrow> refresh_spent X raw d'" for raw by (auto simp: refresh_spent_def)
  show "wf_db d'" by (rule wf_add_refresh_token [OF assms(6,2)])
  show "orgs_complete d'" using assms(3) orgs_complete_cong [of d' d1] by (simp add: d')
  show "\<And>raw. refresh_spent X raw d \<Longrightarrow> refresh_spent X raw d'" using assms(5) s by blast
  have "tickets d' = tickets d" using assms(4) by (simp add: d' tickets_def)
  then show "\<And>t. of_bool (spends X r = Some t) + remaining t d' \<le> of_bool (makes X r = Some t) + remaining t d"
    by (rule kept_tickets [OF _ assms(8)])
  show "\<And>raw k. r = Exchanged raw k \<Longrightarrow> \<not> refresh_spent X raw d \<and> refresh_spent X raw d'" using assms(7) s by blast
  show "\<And>i. webhook_done i d \<Longrightarrow> webhook_done i d'" using webhook_done_cong [of d' d] assms(9) by (simp add: d')
qed (use assms(10) in blast)

lemma verified_login: "verified (sound_state X stock) same_row {} (\<lambda>d. True) (login_txn X S E dummy email pw)"
  unfolding login_txn_def
  by (intro verified_query verified_raising verified_issue_tokens)
    (auto intro: added_token_sound sound_stateD)

text \<open>Revoking a token spends it, and keeps all others as they are.\<close>

lemma revoked_token:
  assumes "wf_db d" "t \<in> set (refresh_tokens d)"
  shows "refresh_spent X raw d \<Longrightarrow> refresh_spent X raw (save_refresh_token (t\<lparr>rft_revoked_at := Some n\<rparr>) d)"
    "rft_token_hash t = hash_token X raw \<Longrightarrow> refresh_spent X raw (save_refresh_token (t\<lparr>rft_revoked_at := Some n\<rparr>) d)"
    "wf_db (save_refresh_token (t\<lparr>rft_revoked_at := Some n\<rparr>) d)"
    "orgs_complete (save_refresh_token (t\<lparr>rft_revoked_at := Some n\<rparr>) d) = orgs_complete d"
    "tickets (save_refresh_token (t\<lparr>rft_revoked_at := Some n\<rparr>) d) = tickets d"
    "webhook_events (save_refresh_token (t\<lparr>rft_revoked_at := Some n\<rparr>) d) = webhook_events d"
proof -
  let ?t = "t\<lparr>rft_revoked_at := Some n\<rparr>" and ?d = "save_refresh_token (t\<lparr>rft_revoked_at := Some n\<rparr>) d"
  have s: "r \<in> set (refresh_tokens ?d) \<longleftrightarrow> (r \<in> set (refresh_tokens d) \<and> rft_id r \<noteq> rft_id t) \<or> r = ?t" for r
    using in_set_save_row [of t "refresh_tokens d" rft_id ?t r] assms(2) by (simp add: save_refresh_token_def)
  show "refresh_spent X raw ?d" if sp: "refresh_spent X raw d"
  proof -
    obtain u where u: "u \<in> set (refresh_tokens d)" "rft_token_hash u = hash_token X raw" "rft_revoked_at u \<noteq> None"
      using sp by (auto simp: refresh_spent_def)
    show ?thesis
    proof (cases "rft_id u = rft_id t")
      case True
      then have "u = t" using unique_onD [OF wf_unique(3) [OF assms(1)] u(1) assms(2)] by simp
      then have "?t \<in> set (refresh_tokens ?d)" "rft_token_hash ?t = hash_token X raw" using s u(2) by simp_all
      then show ?thesis unfolding refresh_spent_def by (intro bexI [of _ ?t]) simp_all
    qed (use s u in \<open>auto simp: refresh_spent_def\<close>)
  qed
  show "refresh_spent X raw ?d" if "rft_token_hash t = hash_token X raw"
    using s [of ?t] that unfolding refresh_spent_def by (intro bexI [of _ ?t]) simp_all
  show "wf_db ?d" by (rule revoke_row_wf [OF assms])
  show "orgs_complete ?d = orgs_complete d" by (rule orgs_complete_cong) (simp_all add: save_refresh_token_def)
  show "tickets ?d = tickets d" "webhook_events ?d = webhook_events d" by (simp_all add: save_refresh_token_def tickets_def)
qed

lemma raising_simps [simp]: "raising (Inl e) f = Fail e" "raising (Inr x) f = f x"
  by (simp_all add: raising_def)

lemma unspent:
  assumes "wf_db d" "t \<in> set (refresh_tokens d)" "rft_token_hash t = hash_token X raw" "rft_revoked_at t = None"
  shows "\<not> refresh_spent X raw d"
  using unique_onD [OF wf_unique(4) [OF assms(1)] _ assms(2)] assms(3,4) by (auto simp: refresh_spent_def)

lemma verified_rotate: "verified (sound_state X stock) same_row {} (\<lambda>d. True) (rotate_refresh_token_txn X S E raw)"
  unfolding rotate_refresh_token_txn_def token_for_update_def Let_def
proof (rule verified_scalar_for_update [where B = "\<lambda>t d. t \<in> set (refresh_tokens d)"], goal_cases)
  case (3 d h L t)
  have st: "stable (sound_state X stock) same_row ({} \<union> L) (\<lambda>d. t \<in> set (refresh_tokens d))" by (rule stable_row(1)) (use 3(5) in simp)
  show ?case
  proof (intro conjI 3(3) st verified_raising verified_query verified_issue_tokens)
    fix stored u d h t' k d'
    assume a: "require (Some t) (AuthenticationError ''invalid_refresh_token'' ''Invalid refresh token'') = Inr stored"
      "raise_if (rft_revoked_at stored \<noteq> None) (AuthenticationError ''refresh_token_reused'' ''Refresh token has already been used'') = Inr u"
      "sound_state X stock d h" "t \<in> set (refresh_tokens d)"
      "add_refresh_token t' (save_refresh_token (stored\<lparr>rft_revoked_at := Some (rt_clock E 0)\<rparr>) d) = Inr d'"
    have t: "stored = t" "rft_revoked_at t = None" using a(1,2) by (auto simp: require_def raise_if_def split: if_splits)
    note w = sound_stateD [OF a(3)]
    note r = revoked_token [OF w(1) a(4), where n = "rt_clock E 0"]
    show "sound_state X stock d' (h @ [Exchanged raw k])"
      by (rule added_token_sound [OF a(3) r(3) _ r(5) r(1) a(5) [unfolded t(1)]])
        (use r(2) [OF 3(4)] r(4) w(2) r(6) unspent [OF w(1) a(4) 3(4) t(2)] 3(4) in \<open>auto simp: t(1)\<close>)
  qed
qed (simp_all add: v_fail)

lemma verified_revoke: "verified (sound_state X stock) same_row {} (\<lambda>d. True) (revoke_refresh_token_txn X E raw)"
  unfolding revoke_refresh_token_txn_def token_for_update_def
proof (rule verified_scalar_for_update [where B = "\<lambda>t d. t \<in> set (refresh_tokens d)"], goal_cases)
  case (3 d h L t)
  have st: "stable (sound_state X stock) same_row ({} \<union> L) (\<lambda>d. t \<in> set (refresh_tokens d))" by (rule stable_row(1)) (use 3(5) in simp)
  show ?case
  proof (intro conjI 3(3) st verified_raising verified_commit)
    fix stored d h d'
    assume a: "require (Some t) (AuthenticationError ''invalid_refresh_token'' ''Invalid refresh token'') = Inr stored"
      "sound_state X stock d h" "t \<in> set (refresh_tokens d)"
      "(if rft_revoked_at stored = None then Inr (save_refresh_token (stored\<lparr>rft_revoked_at := Some (rt_clock E 0)\<rparr>) d) else Inr d) = Inr d'"
    have t: "stored = t" using a(1) by (simp add: require_def)
    note w = sound_stateD [OF a(2)]
    note r = revoked_token [OF w(1) a(3), where n = "rt_clock E 0"]
    show "sound_state X stock d' (h @ [LoggedOut raw])"
      by (rule sound_state_commit [OF a(2)])
        (use a(4) t w r remaining_cong [OF r(5)] in \<open>auto split: if_splits simp: webhook_done_def\<close>)
  qed
qed (simp_all add: v_fail)

section \<open>Invitations\<close>

lemma count_save_row:
  assumes "unique_on k xs" "x \<in> set xs" "k x' = k x"
  shows "length (filter P (save_row k x' xs)) + of_bool (P x) = length (filter P xs) + of_bool (P x')"
  using assms
proof (induction xs)
  case (Cons y ys)
  have u: "unique_on k ys" "k y \<notin> k ` set ys" using Cons.prems(1) by (auto simp: unique_on_def)
  show ?case
  proof (cases "x = y")
    case True
    have "save_row k x' ys = ys"
      unfolding save_row_def update_where_def by (rule map_idI) (use u(2) True assms(3) in \<open>auto simp: image_iff\<close>)
    moreover have "save_row k x' (y # ys) = x' # save_row k x' ys" using True assms(3) by (simp add: save_row_def update_where_def)
    ultimately show ?thesis using True by simp
  next
    case False
    then have x: "x \<in> set ys" using Cons.prems(2) by simp
    then have "k y \<noteq> k x'" using u(2) assms(3) by force
    then have "save_row k x' (y # ys) = y # save_row k x' ys" by (simp add: save_row_def update_where_def)
    then show ?thesis using Cons.IH [OF u(1) x assms(3)] by simp
  qed
qed simp

lemma accepted_invitation:
  assumes "wf_db d" "i \<in> set (invitations d)" "inv_accepted_at i = None"
  shows "of_bool (t = InvitationTicket (inv_token_hash i)) + remaining t (save_invitation (i\<lparr>inv_accepted_at := Some n\<rparr>) d) = remaining t d"
proof (cases t)
  case (InvitationTicket h)
  then show ?thesis
    using count_save_row [OF wf_unique(9) [OF assms(1)] assms(2), of "i\<lparr>inv_accepted_at := Some n\<rparr>"
      "\<lambda>i. inv_token_hash i = h \<and> inv_accepted_at i = None"] assms(3)
    by (auto simp: save_invitation_def of_bool_def split: if_splits)
qed (simp_all add: save_invitation_def)

lemma verified_accept: "verified (sound_state X stock) same_row {} (\<lambda>d. True) (accept_invitation_txn X E raw u)"
  unfolding accept_invitation_txn_def Let_def
proof (rule verified_scalar_for_update [where B = "\<lambda>i d. i \<in> set (invitations d)"], goal_cases)
  case (3 d h L i)
  have st: "stable (sound_state X stock) same_row ({} \<union> L) (\<lambda>d. i \<in> set (invitations d))" by (rule stable_row(3)) (use 3(5) in simp)
  show ?case
  proof (intro conjI 3(3) st verified_raising verified_query verified_commit)
    fix found v d h d'
    let ?saved = "save_invitation (found\<lparr>inv_accepted_at := Some (rt_clock E 0)\<rparr>) d"
    let ?m = "\<lparr>mem_id = rt_uuid E 0, mem_user_id = usr_id u, mem_organization_id = inv_organization_id found,
      mem_role = inv_role found, mem_joined_at = rt_db_now E\<rparr>"
    assume a: "require (Some i) (NotFoundError ''invitation_not_found'' ''Invitation not found'') = Inr found"
      "raise_if (inv_accepted_at found \<noteq> None) (ConflictError ''invitation_used'' ''Invitation has already been accepted'') = Inr v"
      "sound_state X stock d h" "i \<in> set (invitations d)"
      "r_bind (on_integrity_error (ConflictError ''already_member'' ''This user is already a member'') (add_membership ?m ?saved)) (\<lambda>d1.
        r_bind (write_audit (later_uuid 1 E) (inv_organization_id found) (Some (usr_id u)) ''invitation.accepted'' ''invitation''
          (uuid_str (inv_id found)) [(''membership_id'', JStr (uuid_str (mem_id ?m)))] None d1) (\<lambda>(_, d2). Inr d2)) = Inr d'"
    have i: "found = i" "inv_accepted_at i = None" using a(1,2) by (auto simp: require_def raise_if_def split: if_splits)
    from a(5) obtain d1 e where m: "add_membership ?m ?saved = Inr d1"
      and e: "write_audit (later_uuid 1 E) (inv_organization_id found) (Some (usr_id u)) ''invitation.accepted'' ''invitation''
          (uuid_str (inv_id found)) [(''membership_id'', JStr (uuid_str (mem_id ?m)))] None d1 = Inr (e, d')" by auto
    note w = sound_stateD [OF a(3)] and acc = accepted_invitation [OF sound_stateD(1) [OF a(3)] a(4) i(2), where n = "rt_clock E 0"]
    have d': "tickets d' = tickets ?saved" "refresh_tokens d' = refresh_tokens d" "organizations d' = organizations d"
      "subscriptions d' = subscriptions d" "memberships d' = memberships d @ [?m]" "webhook_events d' = webhook_events d"
      using add_membership_InrD [OF m] write_audit_InrD(2) [OF e] by (simp_all add: save_invitation_def tickets_def)
    show "sound_state X stock d' (h @ [Accepted raw ?m])"
    proof (rule sound_state_commit [OF a(3)])
      show "wf_db d'" using write_audit_wf [OF e wf_add_membership [OF m]] accept_row_wf [OF w(1) a(4)] i(1) by simp
      show "orgs_complete d'" using orgs_complete_memberships [OF w(2) d'(3,4)] owned_mono [of d d'] d'(5) by auto
      show "refresh_spent X r d \<Longrightarrow> refresh_spent X r d'" for r by (simp add: refresh_spent_cong [OF d'(2)])
      show "of_bool (spends X (Accepted raw ?m) = Some t) + remaining t d' \<le> of_bool (makes X (Accepted raw ?m) = Some t) + remaining t d" for t
        using acc [of t] 3(4) by (simp add: remaining_cong [OF d'(1)] i(1) eq_commute [of _ t])
    qed (simp_all add: webhook_done_cong [OF d'(6)])
  qed
qed (simp_all add: v_fail)

section \<open>Memberships\<close>

text \<open>
  The rows of actor and target are locked and as they are stored; of the objects only that of the actor
  can be out of date, and then the target is another one or the same object.
\<close>

definition locked_pair :: "uuid \<Rightarrow> uuid \<Rightarrow> membership \<Rightarrow> membership \<Rightarrow> membership \<Rightarrow> bool" where
  "locked_pair oid mid actor target t =
     (mem_id t = mid \<and> mem_organization_id t = oid \<and>
      (target = t \<or> target = actor \<and> mem_role actor \<in> {OWNER, ADMIN} \<and> mem_id target = mem_id t))"

lemma in_session_pair:
  assumes "mem_pair c = (uid, oid)" "mem_role c \<in> {OWNER, ADMIN}" "mem_organization_id a = oid" "mem_user_id a = uid"
    "mem_id t = mid" "mem_organization_id t = oid" "wf_db d" "a \<in> set (memberships d)" "t \<in> set (memberships d)"
  shows "locked_pair oid mid (in_session [c] a) (in_session [c, in_session [c] a] t) t"
proof (cases "mem_id c = mem_id t \<and> mem_pair c = mem_pair t")
  case True
  then have "mem_pair a = mem_pair t" using assms(1,3,4) by (simp add: mem_pair_def)
  then have "a = t" using unique_onD [OF wf_unique(8) [OF assms(7)] assms(8,9)] by simp
  then show ?thesis using True assms(2,5,6) by (simp add: in_session_def locked_pair_def)
next
  case False
  let ?x = "in_session [c] a"
  have "?x = t" if "mem_id ?x = mem_id t" "mem_pair ?x = mem_pair t"
  proof -
    have x: "?x = c \<or> ?x = a" by (simp add: in_session_def)
    then have "?x = a" using that False by auto
    then show ?thesis using unique_onD [OF wf_unique(7) [OF assms(7)] assms(8,9)] that by simp
  qed
  then have "in_session [c, ?x] t = t" using False unfolding in_session_def [of "[c, ?x]"] by auto
  then show ?thesis using assms(5,6) by (simp add: locked_pair_def)
qed

lemma verified_lock_both:
  assumes "\<And>L actor target t. MembershipRow (mem_id t) \<in> L \<Longrightarrow> locked_pair oid mid actor target t \<Longrightarrow>
    verified (sound_state X stock) same_row L (\<lambda>d. t \<in> set (memberships d)) (k actor target)"
  shows "verified (sound_state X stock) same_row {} (\<lambda>d. True) (lock_both oid mid uid k)"
  unfolding lock_both_def current_membership_txn_def
proof (intro verified_query verified_raising stable_True)
  fix d h c u
  assume c: "require (select_membership d oid uid) (NotFoundError ''organization_not_found'' ''Organization not found'') = Inr c"
    "raise_if (mem_role c \<notin> set [OWNER, ADMIN]) forbidden = Inr u"
  then have "select_membership d oid uid = Some c" by (simp add: require_def split: option.splits)
  from select_membershipD [OF this] have pair: "mem_pair c = (uid, oid)" by (simp add: mem_pair_def)
  have ro: "mem_role c \<in> {OWNER, ADMIN}" using c(2) by (simp add: raise_if_def split: if_splits)
  show "verified (sound_state X stock) same_row {} (\<lambda>d. True)
    (membership_for_update [c] (\<lambda>m. mem_organization_id m = oid \<and> mem_user_id m = uid) (\<lambda>found.
     raising (require found forbidden) (\<lambda>actor.
     membership_for_update [c, actor] (\<lambda>m. mem_id m = mid \<and> mem_organization_id m = oid) (\<lambda>found.
     raising (require found (NotFoundError ''membership_not_found'' ''Membership not found'')) (\<lambda>target.
     k actor target)))))"
    unfolding membership_for_update_def
  proof (rule verified_scalar_for_update [where B = "\<lambda>a d. a \<in> set (memberships d)"], goal_cases)
    case (3 d h L a)
    have st: "stable (sound_state X stock) same_row ({} \<union> L) (\<lambda>d. a \<in> set (memberships d))" by (rule stable_row(2)) (use 3(5) in simp)
    show ?case
    proof (intro conjI 3(3) st, simp,
        rule verified_scalar_for_update [where B = "\<lambda>t d. t \<in> set (memberships d)"], goal_cases)
      case 1
      show ?case using st by simp
    next
      case (3 d' h' M t)
      have "locked_pair oid mid (in_session [c] a) (in_session [c, in_session [c] a] t) t"
        using in_session_pair [OF pair ro] \<open>mem_organization_id a = oid \<and> mem_user_id a = uid\<close> 3 sound_stateD(1) by blast
      then show ?case using 3 assms [of t "L \<union> M"] stable_row(2) [of t "L \<union> M"] by simp
    qed (simp add: v_fail)
  qed (simp_all add: v_fail)
qed

definition another_owner :: "uuid \<Rightarrow> uuid \<Rightarrow> db \<Rightarrow> bool" where
  "another_owner oid mid d = (\<exists>m \<in> set (memberships d). mem_organization_id m = oid \<and> mem_role m = OWNER \<and> mem_id m \<noteq> mid)"

definition owner_held :: "row_lock set \<Rightarrow> uuid \<Rightarrow> uuid \<Rightarrow> db \<Rightarrow> bool" where
  "owner_held S oid mid d = (\<exists>m \<in> set (memberships d). MembershipRow (mem_id m) \<in> S \<and> mem_organization_id m = oid \<and>
     mem_role m = OWNER \<and> mem_id m \<noteq> mid)"

lemma stable_owner_held: "stable I same_row (L \<union> S) (owner_held S oid mid)"
  unfolding stable_def
proof (intro allI impI)
  fix d d' h
  assume o: "owner_held S oid mid d" and s: "\<forall>l \<in> L \<union> S. same_row l d d'"
  from o obtain m where m: "m \<in> set (memberships d)" "MembershipRow (mem_id m) \<in> S" "mem_organization_id m = oid" "mem_role m = OWNER" "mem_id m \<noteq> mid"
    by (auto simp: owner_held_def)
  then have "same_row (MembershipRow (mem_id m)) d d'" using s by blast
  then have "m \<in> set (memberships d')" using filter_eq_in [OF _ m(1), of "\<lambda>x. mem_id x = mem_id m"] by simp
  then show "owner_held S oid mid d'" using m by (auto simp: owner_held_def)
qed

lemma verified_ensure_another_owner:
  assumes "MembershipRow (mem_id t) \<in> L"
    "\<And>M. verified (sound_state X stock) same_row M (\<lambda>d. t \<in> set (memberships d) \<and> another_owner oid mid d) k"
  shows "verified (sound_state X stock) same_row L (\<lambda>d. t \<in> set (memberships d)) (ensure_another_owner_txn oid mid k)"
  unfolding ensure_another_owner_txn_def
proof (rule v_lock [where B = "\<lambda>d0 S d. t \<in> set (memberships d) \<and>
    ((\<exists>m \<in> set (memberships d0). MembershipRow (mem_id m) \<in> S \<and> mem_id m \<noteq> mid) \<longrightarrow> owner_held S oid mid d)"])
  fix d0 :: db and h S
  let ?found = "\<exists>m \<in> set (memberships d0). MembershipRow (mem_id m) \<in> S \<and> mem_id m \<noteq> mid"
  let ?B = "\<lambda>d. t \<in> set (memberships d) \<and> (?found \<longrightarrow> owner_held S oid mid d)"
  let ?last = "Fail (ConflictError ''last_owner'' ''An organization must keep at least one owner'')"
  assume t: "t \<in> set (memberships d0)"
    and S: "S \<subseteq> {MembershipRow (mem_id m) | m. m \<in> set (memberships d0) \<and> mem_organization_id m = oid \<and> mem_role m = OWNER}"
  have st: "stable (sound_state X stock) same_row (L \<union> S) (\<lambda>d. t \<in> set (memberships d))"
    by (rule stable_row(2)) (use assms(1) in simp)
  show "?B d0 \<and> stable (sound_state X stock) same_row (L \<union> S) ?B \<and> verified (sound_state X stock) same_row (L \<union> S) ?B (if ?found then k else ?last)"
  proof (cases ?found)
    case True
    then obtain m where m: "m \<in> set (memberships d0)" "MembershipRow (mem_id m) \<in> S" "mem_id m \<noteq> mid" by blast
    then obtain m' where "m' \<in> set (memberships d0)" "mem_organization_id m' = oid" "mem_role m' = OWNER" "mem_id m' = mem_id m"
      using S by auto
    then have "owner_held S oid mid d0" using m(2,3) unfolding owner_held_def by metis
    moreover have "verified (sound_state X stock) same_row (L \<union> S) ?B k"
      by (rule verified_conseq [OF assms(2)]) (use True in \<open>auto simp: owner_held_def another_owner_def\<close>)
    moreover have "?B = (\<lambda>d. t \<in> set (memberships d) \<and> owner_held S oid mid d)" by (rule ext) (use True in simp)
    ultimately show ?thesis unfolding if_P [OF True] using t stable_conj [OF st stable_owner_held] by simp
  next
    case False
    have B: "?B = (\<lambda>d. t \<in> set (memberships d))" by (rule ext) (use False in blast)
    show ?thesis
      unfolding if_not_P [OF False]
    proof (intro conjI t v_fail)
      show "?found \<longrightarrow> owner_held S oid mid d0" using False by blast
      show "stable (sound_state X stock) same_row (L \<union> S) ?B" unfolding B by (rule st)
    qed
  qed
qed

lemma membership_commit:
  assumes "sound_state X stock d h" "wf_db d'" "organizations d' = organizations d" "subscriptions d' = subscriptions d"
    "refresh_tokens d' = refresh_tokens d" "tickets d' = tickets d" "\<And>oid. owned d oid \<Longrightarrow> owned d' oid"
    "\<And>raw k. r \<noteq> Exchanged raw k" "spends X r = None" "webhook_events d' = webhook_events d" "\<And>i. r \<noteq> WebhookApplied i"
  shows "sound_state X stock d' (h @ [r])"
  by (rule sound_state_harmless [OF assms(1) harmless_fields])
    (use assms orgs_complete_memberships [OF _ assms(3,4,7)] in \<open>auto simp: plain_def\<close>)

lemma role_commit:
  assumes "sound_state X stock d h" "t \<in> set (memberships d)" "mem_role t = OWNER \<and> r \<noteq> OWNER \<longrightarrow> c \<or> another_owner (mem_organization_id t) (mem_id t) d"
    "write_audit E oid actor act rty rid meta ip (if c then d else set_role (mem_id t) r d) = Inr (e, d')"
  shows "sound_state X stock d' (h @ [RoleChanged m])"
proof -
  note w = sound_stateD(1) [OF assms(1)]
  note s = set_role_saved(1) [OF w assms(2), of r]
  let ?d = "if c then d else set_role (mem_id t) r d"
  have "wf_db ?d" using save_role_wf [OF w assms(2), of r] w by (simp add: s)
  moreover have "owned ?d i" if "owned d i" for i
    using owned_save_role [OF w assms(2) that, of r] assms(3) that by (auto simp: s another_owner_def)
  ultimately show ?thesis
    using write_audit_InrD(2) [OF assms(4)]
    by (intro membership_commit [OF assms(1) write_audit_wf [OF assms(4)]]) (auto simp: set_role_def owned_def tickets_def)
qed

lemma removal_commit:
  assumes "sound_state X stock d h" "t \<in> set (memberships d)" "mem_role t = OWNER \<longrightarrow> another_owner (mem_organization_id t) (mem_id t) d"
    "write_audit E oid actor act rty rid meta ip d = Inr (e, d1)"
  shows "sound_state X stock (delete_membership_row (mem_id t) d1) (h @ [MemberRemoved mid])"
proof -
  note w = sound_stateD(1) [OF assms(1)] and a = write_audit_InrD(2) [OF assms(4)]
  have "owned (delete_membership_row (mem_id t) d1) i" if "owned d i" for i
    using owned_delete_membership [OF w assms(2) that] assms(3) by (simp add: a another_owner_def owned_def delete_membership_row_def)
  then show ?thesis
    by (intro membership_commit [OF assms(1) wf_delete_membership_row [OF write_audit_wf [OF assms(4) w]]])
      (simp_all add: a delete_membership_row_def tickets_def)
qed

lemma verified_update_membership:
  "verified (sound_state X stock) same_row {} (\<lambda>d. True) (update_membership_txn E oid mid uid r)"
  unfolding update_membership_txn_def
proof (intro verified_lock_both verified_raising, unfold Let_def)
  fix L u and actor target t :: membership
  let ?change = "Commit (RoleChanged (target\<lparr>mem_role := r\<rparr>)) (\<lambda>d.
    r_bind (write_audit E oid (Some uid) ''member.role_changed'' ''membership'' (uuid_str (mem_id target))
      [(''old_role'', JStr (role_value (mem_role target))), (''new_role'', JStr (role_value r))] None
      (if r = mem_role target then d else set_role (mem_id target) r d)) (\<lambda>(_, d2). Inr d2))"
  assume l: "MembershipRow (mem_id t) \<in> L" and p: "locked_pair oid mid actor target t"
    and c: "(if mem_role actor = ADMIN then raise_if (mem_role target \<noteq> MEMBER \<or> r \<noteq> MEMBER)
        (ForbiddenError ''membership_change_forbidden'' ''Administrators cannot grant roles or manage owners'')
      else raise_if (mem_role actor \<noteq> OWNER) forbidden) = Inr u"
  have i: "mem_id target = mem_id t" "mem_organization_id t = oid" using p by (auto simp: locked_pair_def)
  have o: "mem_role t = OWNER \<and> r \<noteq> OWNER \<Longrightarrow> mem_role target = OWNER"
    using p c by (auto simp: locked_pair_def raise_if_def split: if_splits)
  have change: "verified (sound_state X stock) same_row M (\<lambda>d. t \<in> set (memberships d) \<and>
      (mem_role target = OWNER \<and> r \<noteq> OWNER \<longrightarrow> another_owner oid (mem_id target) d)) ?change" for M
  proof (rule verified_commit, elim conjE)
    fix d h d'
    assume a: "sound_state X stock d h" "t \<in> set (memberships d)"
      "mem_role target = OWNER \<and> r \<noteq> OWNER \<longrightarrow> another_owner oid (mem_id target) d"
      "r_bind (write_audit E oid (Some uid) ''member.role_changed'' ''membership'' (uuid_str (mem_id target))
        [(''old_role'', JStr (role_value (mem_role target))), (''new_role'', JStr (role_value r))] None
        (if r = mem_role target then d else set_role (mem_id target) r d)) (\<lambda>(_, d2). Inr d2) = Inr d'"
    from a(4) obtain e where e: "write_audit E oid (Some uid) ''member.role_changed'' ''membership'' (uuid_str (mem_id target))
        [(''old_role'', JStr (role_value (mem_role target))), (''new_role'', JStr (role_value r))] None
        (if r = mem_role target then d else set_role (mem_id target) r d) = Inr (e, d')" by auto
    show "sound_state X stock d' (h @ [RoleChanged (target\<lparr>mem_role := r\<rparr>)])"
      by (rule role_commit [OF a(1,2) _ e [unfolded i]]) (use o a(3) in \<open>auto simp: i\<close>)
  qed
  show "verified (sound_state X stock) same_row L (\<lambda>d. t \<in> set (memberships d))
      (if mem_role target = OWNER \<and> r \<noteq> OWNER then ensure_another_owner_txn oid (mem_id target) ?change else ?change)"
  proof (cases "mem_role target = OWNER \<and> r \<noteq> OWNER")
    case True
    have "verified (sound_state X stock) same_row L (\<lambda>d. t \<in> set (memberships d)) (ensure_another_owner_txn oid (mem_id target) ?change)"
      by (rule verified_ensure_another_owner [OF l verified_conseq [OF change]]) simp
    then show ?thesis unfolding if_P [OF True] .
  next
    case False
    have "verified (sound_state X stock) same_row L (\<lambda>d. t \<in> set (memberships d)) ?change"
      by (rule verified_conseq [OF change]) (use False in auto)
    then show ?thesis unfolding if_not_P [OF False] .
  qed
qed

lemma verified_remove_membership:
  "verified (sound_state X stock) same_row {} (\<lambda>d. True) (remove_membership_txn E oid mid uid)"
  unfolding remove_membership_txn_def
proof (intro verified_lock_both verified_raising, unfold Let_def)
  fix L u v and actor target t :: membership
  let ?change = "Commit (MemberRemoved (mem_id target)) (\<lambda>d.
    r_bind (write_audit E oid (Some uid) ''member.removed'' ''membership'' (uuid_str (mem_id target))
      [(''user_id'', JStr (uuid_str (mem_user_id target))), (''role'', JStr (role_value (mem_role target)))] None d) (\<lambda>(_, d1).
    Inr (delete_membership_row (mem_id target) d1)))"
  assume l: "MembershipRow (mem_id t) \<in> L" and p: "locked_pair oid mid actor target t"
    and c: "raise_if (mem_role actor = ADMIN \<and> mem_role target \<noteq> MEMBER)
       (ForbiddenError ''membership_remove_forbidden'' ''Administrators can remove members only'') = Inr u"
  have i: "mem_id target = mem_id t" "mem_organization_id t = oid" using p by (auto simp: locked_pair_def)
  have o: "mem_role t = OWNER \<Longrightarrow> mem_role target = OWNER"
    using p c by (auto simp: locked_pair_def raise_if_def split: if_splits)
  have change: "verified (sound_state X stock) same_row M (\<lambda>d. t \<in> set (memberships d) \<and>
      (mem_role target = OWNER \<longrightarrow> another_owner oid (mem_id target) d)) ?change" for M
  proof (rule verified_commit, elim conjE)
    fix d h d'
    assume a: "sound_state X stock d h" "t \<in> set (memberships d)" "mem_role target = OWNER \<longrightarrow> another_owner oid (mem_id target) d"
      "r_bind (write_audit E oid (Some uid) ''member.removed'' ''membership'' (uuid_str (mem_id target))
        [(''user_id'', JStr (uuid_str (mem_user_id target))), (''role'', JStr (role_value (mem_role target)))] None d)
        (\<lambda>(_, d1). Inr (delete_membership_row (mem_id target) d1)) = Inr d'"
    from a(4) obtain e d1 where e: "write_audit E oid (Some uid) ''member.removed'' ''membership'' (uuid_str (mem_id target))
        [(''user_id'', JStr (uuid_str (mem_user_id target))), (''role'', JStr (role_value (mem_role target)))] None d = Inr (e, d1)"
      "d' = delete_membership_row (mem_id t) d1" by (auto simp: i)
    show "sound_state X stock d' (h @ [MemberRemoved (mem_id target)])"
      unfolding e(2) by (rule removal_commit [OF a(1,2) _ e(1)]) (use o a(3) in \<open>simp add: i\<close>)
  qed
  show "verified (sound_state X stock) same_row L (\<lambda>d. t \<in> set (memberships d))
      (if mem_role target = OWNER then ensure_another_owner_txn oid (mem_id target) ?change else ?change)"
  proof (cases "mem_role target = OWNER")
    case True
    have "verified (sound_state X stock) same_row L (\<lambda>d. t \<in> set (memberships d)) (ensure_another_owner_txn oid (mem_id target) ?change)"
      by (rule verified_ensure_another_owner [OF l verified_conseq [OF change]]) simp
    then show ?thesis unfolding if_P [OF True] .
  next
    case False
    have "verified (sound_state X stock) same_row L (\<lambda>d. t \<in> set (memberships d)) ?change"
      by (rule verified_conseq [OF change]) (use False in auto)
    then show ?thesis unfolding if_not_P [OF False] .
  qed
qed

section \<open>Organizations and usage\<close>

lemma verified_create_organization:
  "verified (sound_state X stock) same_row {} (\<lambda>d. True) (create_organization_txn E actor data)"
  unfolding create_organization_txn_def Let_def
proof (intro verified_query verified_raising verified_commit stable_True)
  fix d h d'
  let ?o = "\<lparr>org_id = rt_uuid E 0, org_name = oc_name data, org_slug = py_lower (oc_slug data),
    org_created_at = rt_db_now E, org_updated_at = rt_db_now E\<rparr>"
  let ?m = "\<lparr>mem_id = rt_uuid E 1, mem_user_id = actor, mem_organization_id = org_id ?o, mem_role = OWNER, mem_joined_at = rt_db_now E\<rparr>"
  assume i: "sound_state X stock d h" and w: "r_bind (on_integrity_error slug_taken (r_bind (add_organization ?o d) (\<lambda>d1.
      r_bind (add_membership ?m d1) (create_default_subscription (later_uuid 2 E) (org_id ?o) None)))) (\<lambda>(_, d3).
      r_bind (write_audit (later_uuid 3 E) (org_id ?o) (Some actor) ''organization.created'' ''organization''
        (uuid_str (org_id ?o)) [] None d3) (\<lambda>(_, d4). Inr d4)) = Inr d'"
  from w obtain d1 d2 s d3 e where a: "add_organization ?o d = Inr d1" "add_membership ?m d1 = Inr d2"
    "create_default_subscription (later_uuid 2 E) (org_id ?o) None d2 = Inr (s, d3)"
    "write_audit (later_uuid 3 E) (org_id ?o) (Some actor) ''organization.created'' ''organization'' (uuid_str (org_id ?o)) [] None d3 = Inr (e, d')"
    by auto
  note s = create_default_subscription_InrD(1,2) [OF a(3)]
  have d': "d' = d\<lparr>organizations := organizations d @ [?o], memberships := memberships d @ [?m],
      subscriptions := subscriptions d @ [s], audit_logs := audit_logs d' \<rparr>"
    using a(1,2) add_subscription_InrD [OF s(1)] write_audit_InrD(2) [OF a(4)]
    by (auto simp: add_organization_def add_membership_def split: if_splits)
  show "sound_state X stock d' (h @ [OrganizationCreated ?o])"
  proof (rule sound_state_harmless [OF i harmless_fields])
    show "wf_db d'"
      by (rule write_audit_wf [OF a(4) wf_add_subscription [OF s(1) wf_add_membership [OF a(2) wf_add_organization [OF a(1)
        sound_stateD(1) [OF i]]]]])
    have "owned d' (org_id ?o)" "subscribed d' (org_id ?o)" using s(2) by (subst d', simp add: owned_def subscribed_def)+
    moreover have "owned d x \<Longrightarrow> owned d' x" "subscribed d x \<Longrightarrow> subscribed d' x" for x
      by (subst d', auto simp: owned_def subscribed_def)+
    moreover have "organizations d' = organizations d @ [?o]" by (subst d') simp
    ultimately show "orgs_complete d'" using sound_stateD(2) [OF i] by (auto simp: orgs_complete_def)
    show "refresh_tokens d' = refresh_tokens d" "webhook_events d' = webhook_events d" "tickets d' = tickets d"
      by (subst d', simp add: tickets_def)+
  qed (simp add: plain_def)
qed

lemma length_filter_filter: "length (filter P (filter Q xs)) \<le> length (filter P xs)"
  by (induction xs) auto

lemma harmless_delete_organization: "harmless d (delete_organization_row oid d)"
proof -
  have "remaining t (delete_organization_row oid d) \<le> remaining t d" for t
    by (cases t) (simp_all add: delete_organization_row_def length_filter_filter del: filter_filter)
  then show ?thesis
    using wf_delete_organization_row [of d oid] orgs_complete_delete_organization_row [of d oid]
    by (simp add: harmless_def) (simp add: delete_organization_row_def)
qed

lemma verified_delete_organization:
  "verified (sound_state X stock) same_row {} (\<lambda>d. True) (delete_organization_txn E oid actor)"
  unfolding delete_organization_txn_def Let_def
proof (rule v_lock [where B = "\<lambda>_ _ _. True"])
  fix d0 :: db and S and found :: bool
  let ?delete = "Commit (OrganizationDeleted oid) (\<lambda>d. r_bind (write_audit E oid (Some actor) ''organization.deleted'' ''organization''
      (uuid_str oid) [] None d) (\<lambda>(_, d1). Inr (delete_organization_row oid d1)))"
  have "verified (sound_state X stock) same_row S (\<lambda>_. True) ?delete"
  proof (rule verified_commit)
    fix d h d'
    assume i: "sound_state X stock d h" and w: "r_bind (write_audit E oid (Some actor) ''organization.deleted'' ''organization''
      (uuid_str oid) [] None d) (\<lambda>(_, d1). Inr (delete_organization_row oid d1)) = Inr d'"
    from w obtain e d1 where e: "write_audit E oid (Some actor) ''organization.deleted'' ''organization'' (uuid_str oid) [] None d = Inr (e, d1)"
      "d' = delete_organization_row oid d1" by auto
    show "sound_state X stock d' (h @ [OrganizationDeleted oid])"
      unfolding e(2)
      by (rule sound_state_harmless [OF i harmless_trans [OF harmless_audit [OF e(1)] harmless_delete_organization]]) (simp add: plain_def)
  qed
  then show "True \<and> stable (sound_state X stock) same_row ({} \<union> S) (\<lambda>_. True) \<and> verified (sound_state X stock) same_row ({} \<union> S) (\<lambda>_. True)
    (if \<exists>m. (m \<in> set (memberships d0) \<and> mem_organization_id m = oid \<and> mem_user_id m = actor \<and> mem_role m = OWNER \<and> oid \<in> org_ids d0) \<and>
        {OrganizationRow oid, MembershipRow (mem_id m)} \<subseteq> S
     then ?delete else Fail (ForbiddenError ''owner_required'' ''Only an owner can delete the organization''))"
    by (simp add: v_fail)
qed

lemma harmless_usage: "add_usage_event ev d = Inr d' \<Longrightarrow> harmless d d'"
  using add_usage_event_InrD [of ev d d'] wf_add_usage_event [of ev d d'] orgs_complete_cong [of d' d]
  by (auto intro: harmless_fields simp: tickets_def)

lemma verified_record_usage:
  assumes "\<And>d d'. pending d = Inr d' \<Longrightarrow> harmless d d'"
  shows "verified (sound_state X stock) same_row L (\<lambda>d. True) (record_usage_txn pending E oid metric q now)"
proof -
  have "verified (sound_state X stock) same_row S (\<lambda>d. True) (Commit (UsageRecorded ev) (\<lambda>d. r_bind (pending d) (add_usage_event ev)))" for S ev
  proof (rule verified_commit)
    fix d h d'
    assume i: "sound_state X stock d h" and "r_bind (pending d) (add_usage_event ev) = Inr d'"
    then obtain d1 where p: "pending d = Inr d1" "add_usage_event ev d1 = Inr d'" by auto
    show "sound_state X stock d' (h @ [UsageRecorded ev])"
      by (rule sound_state_harmless [OF i harmless_trans [OF assms [OF p(1)] harmless_usage [OF p(2)]]]) (simp add: plain_def)
  qed
  then show ?thesis
    unfolding record_usage_txn_def report_within_txn_def Let_def
    by (intro verified_raising, intro verified_scalar_for_update [where B = "\<lambda>_ d. True"])
      (auto intro!: verified_query verified_raising v_fail split: prod.splits)
qed

section \<open>Webhooks\<close>

lemma verified_webhook_for_update:
  assumes "\<And>L. verified I same_row L (\<lambda>d. True) (k None)"
    "\<And>L w. WebhookRow (whk_id w) \<in> L \<Longrightarrow> parse_uuid i = Some (whk_id w) \<Longrightarrow>
       verified I same_row L (\<lambda>d. w \<in> set (webhook_events d)) (k (Some w))"
  shows "verified I same_row {} (\<lambda>d. True) (webhook_for_update i k)"
  unfolding webhook_for_update_def
proof (rule verified_raising)
  fix x
  assume x: "require (parse_uuid i) (ValueError ''badly formed hexadecimal UUID string'') = Inr x"
  show "verified I same_row {} (\<lambda>d. True) (scalar_for_update webhook_events (\<lambda>w. WebhookRow (whk_id w)) (\<lambda>w. whk_id w = x) k)"
  proof (rule verified_scalar_for_update [where B = "\<lambda>w d. w \<in> set (webhook_events d)"], goal_cases)
    case (3 d h L w)
    have l: "WebhookRow (whk_id w) \<in> {} \<union> L" "parse_uuid i = Some (whk_id w)"
      using 3(4,5) x by (auto simp: require_def split: option.splits)
    show ?case by (intro conjI 3(3) stable_row(4) assms(2) l)
  qed (simp_all add: assms(1))
qed

text \<open>A transaction that writes webhook rows only, and keeps the processed ones.\<close>

lemma webhook_rows_commit:
  assumes "sound_state X stock d h" "wf_db d'" "d' = d\<lparr>webhook_events := ws\<rparr>"
    "{w \<in> set (webhook_events d). whk_status w = PROCESSED} \<subseteq> set ws"
    "plain X r"
  shows "sound_state X stock d' (h @ [r])"
proof (rule sound_state_commit [OF assms(1,2)])
  show "orgs_complete d'" using sound_stateD(2) [OF assms(1)] orgs_complete_cong [of d' d] assms(3) by simp
  show "\<And>i. webhook_done i d \<Longrightarrow> webhook_done i d'" using assms(3,4) by (auto simp: webhook_done_def)
  show "of_bool (spends X r = Some t) + remaining t d' \<le> of_bool (makes X r = Some t) + remaining t d" for t
    by (rule kept_tickets) (use assms(3,5) in \<open>simp_all add: tickets_def plain_def\<close>)
qed (use assms(3,5) in \<open>simp_all add: refresh_spent_def plain_def\<close>)

lemma verified_store_webhook: "verified (sound_state X stock) same_row {} (\<lambda>d. True) (store_webhook_event_txn E event)"
  unfolding store_webhook_event_txn_def
proof (rule verified_query [OF stable_True])
  fix d0 :: db and h0
  let ?w = "\<lparr>whk_id = rt_uuid E 0, whk_provider = PROVIDER, whk_external_event_id = bw_id event,
    whk_event_type = bw_type event, whk_payload = model_dump event, whk_status = PENDING,
    whk_received_at = rt_db_now E, whk_processed_at = None\<rparr>"
  have same: "sound_state X stock d h \<Longrightarrow> sound_state X stock d (h @ [WebhookStored i])" for d h i
    by (rule webhook_rows_commit [where ws = "webhook_events d"]) (auto intro: sound_stateD simp: plain_def)
  have add: "sound_state X stock d h \<Longrightarrow> add_webhook_event ?w d = Inr d' \<Longrightarrow> sound_state X stock d' (h @ [WebhookStored i])" for d h d' i
    by (rule webhook_rows_commit [where ws = "webhook_events d @ [?w]"])
      (auto dest: add_webhook_event_InrD intro: wf_add_webhook_event sound_stateD simp: plain_def)
  show "verified (sound_state X stock) same_row {} (\<lambda>d. True) (case find_webhook (bw_id event) d0 of
      Some existing \<Rightarrow> Commit (WebhookStored (bw_id event)) Inr
    | None \<Rightarrow> let webhook = ?w in Commit (WebhookStored (bw_id event)) (\<lambda>d.
        case add_webhook_event webhook d of
          Inl (IntegrityError m) \<Rightarrow> (case find_webhook (bw_id event) d of None \<Rightarrow> Inl (IntegrityError m) | Some existing \<Rightarrow> Inr d)
        | Inl e \<Rightarrow> Inl e
        | Inr d1 \<Rightarrow> Inr d1))"
    unfolding Let_def
    by (auto intro!: verified_commit intro: same add split: option.splits sum.splits exc.splits)
qed

lemma verified_mark_webhook: "verified (sound_state X stock) same_row {} (\<lambda>d. True) (mark_webhook_failed_txn i)"
  unfolding mark_webhook_failed_txn_def
proof (rule verified_webhook_for_update)
  have same: "sound_state X stock d h \<Longrightarrow> sound_state X stock d (h @ [WebhookMarked i])" for d h
    by (rule webhook_rows_commit [where ws = "webhook_events d"]) (auto intro: sound_stateD simp: plain_def)
  then show "verified (sound_state X stock) same_row L (\<lambda>d. True) (Commit (WebhookMarked i) (\<lambda>d. case None of
      None \<Rightarrow> Inr d
    | Some event \<Rightarrow> if whk_status event \<noteq> PROCESSED then Inr (save_webhook_event (event\<lparr>whk_status := FAILED\<rparr>) d) else Inr d))" for L
    by (auto intro!: verified_commit)
  show "verified (sound_state X stock) same_row L (\<lambda>d. w \<in> set (webhook_events d)) (Commit (WebhookMarked i) (\<lambda>d. case Some w of
      None \<Rightarrow> Inr d
    | Some event \<Rightarrow> if whk_status event \<noteq> PROCESSED then Inr (save_webhook_event (event\<lparr>whk_status := FAILED\<rparr>) d) else Inr d))"
    if "parse_uuid i = Some (whk_id w)" for L w
  proof (rule verified_commit)
    fix d h d'
    assume a: "sound_state X stock d h" "w \<in> set (webhook_events d)"
      "(case Some w of None \<Rightarrow> Inr d
        | Some event \<Rightarrow> if whk_status event \<noteq> PROCESSED then Inr (save_webhook_event (event\<lparr>whk_status := FAILED\<rparr>) d) else Inr d) = Inr d'"
    note wf = sound_stateD(1) [OF a(1)]
    have m: "mark_webhook_failed i d = Inr ((), d')"
      using find_webhook_by_id_unique [OF wf a(2) that] a(3) by (simp add: mark_webhook_failed_def split: if_splits)
    show "sound_state X stock d' (h @ [WebhookMarked i])"
    proof (rule webhook_rows_commit [OF a(1) mark_webhook_failed_wf [OF m wf]])
      show "d' = d\<lparr>webhook_events := webhook_events d'\<rparr>" using a(3) by (auto simp: save_webhook_event_def split: if_splits)
    qed (use processed_stays_processed [OF m wf] in \<open>auto simp: plain_def\<close>)
  qed
qed

text \<open>
  The rows the transaction holds are still there when it commits, and a subscription that was missing
  is missing still or the insert fails: what it writes is what the service does on the stored rows.
\<close>

lemma locked_subscription_current:
  assumes "wf_db d" "g \<in> set (organizations d)" "\<And>s. locked = Some s \<Longrightarrow> s \<in> set (subscriptions d) \<and> sub_organization_id s = org_id g"
    "(case locked of Some s \<Rightarrow> Inr (s, d) | None \<Rightarrow> create_default_subscription E (org_id g) None d) = Inr p"
  shows "locked_subscription E (org_id g) d = Inr p"
proof -
  have g: "find_organization d (org_id g) = Some g"
    unfolding find_organization_def by (rule scalar_filter_unique [OF wf_unique(5) [OF assms(1)] assms(2)]) simp_all
  show ?thesis
  proof (cases locked)
    case (Some s)
    then have "find_subscription d (org_id g) = Some s"
      unfolding find_subscription_def using assms(3) [OF Some] by (intro scalar_filter_unique [OF wf_unique(15) [OF assms(1)]]) simp_all
    then show ?thesis using assms(4) Some g by (simp add: locked_subscription_def)
  next
    case None
    then have c: "create_default_subscription E (org_id g) None d = Inr p" using assms(4) by simp
    obtain s d1 where p: "p = (s, d1)" by (cases p)
    note a = create_default_subscription_InrD(1,2) [OF c [unfolded p]]
    have "find_subscription d (org_id g) = None"
    proof (cases "find_subscription d (org_id g)")
      case (Some s')
      then have "s' \<in> set (subscriptions d)" "sub_organization_id s' = org_id g"
        unfolding find_subscription_def by (auto dest: scalar_filter_SomeD)
      then have "sub_organization_id s \<in> sub_organization_id ` set (subscriptions d)" using a(2) by (intro image_eqI [of _ _ s']) simp_all
      then show ?thesis using a(1) by (simp add: add_subscription_def)
    qed
    then show ?thesis using c g by (simp add: locked_subscription_def)
  qed
qed

lemma process_webhook_event_kept:
  assumes "process_webhook_event X E i now d = Inr ((w, True), d')"
  shows "refresh_tokens d' = refresh_tokens d" "tickets d' = tickets d"
  using assms
proof (atomize (full), cases rule: process_webhook_event_InrD)
  case (first w ev obj oid s d1 ps pe s' d2 e meta d3)
  have "refresh_tokens d1 = refresh_tokens d \<and> tickets d1 = tickets d"
    using locked_subscription_InrD [OF first(7)] by (auto dest!: create_default_subscription_InrD(1) add_subscription_InrD simp: tickets_def)
  then show "refresh_tokens d' = refresh_tokens d \<and> tickets d' = tickets d"
    using save_subscription_InrD [OF first(10)] write_audit_InrD(2) [OF first(11)] first(13)
    by (simp add: save_webhook_event_def tickets_def)
qed simp

lemma processed_commit:
  assumes "sound_state X stock d h" "process_webhook_event X E i now d = Inr ((w', True), d')" "w \<in> set (webhook_events d)"
    "whk_id w' = whk_id w" "whk_status w \<noteq> PROCESSED"
  shows "sound_state X stock d' (h @ [WebhookApplied (whk_id w)])"
proof (rule sound_state_commit [OF assms(1)])
  note wf = sound_stateD(1) [OF assms(1)]
  note k = process_webhook_event_kept [OF assms(2)]
  have e: "wf_db d'" "orgs_complete d \<longrightarrow> orgs_complete d'" "w' \<in> set (webhook_events d')" "whk_status w' = PROCESSED"
    "\<forall>v \<in> set (webhook_events d). whk_id v \<noteq> whk_id w' \<longrightarrow> v \<in> set (webhook_events d')"
    using process_webhook_event_effect [OF assms(2) wf] by simp_all
  have n: "\<not> webhook_done (whk_id w) d"
    using unique_onD [OF wf_unique(17) [OF wf] _ assms(3)] assms(5) by (auto simp: webhook_done_def)
  have p: "webhook_done (whk_id w) d'" using e(3,4) assms(4) by (auto simp: webhook_done_def)
  show "wf_db d'" "orgs_complete d'" using e(1,2) sound_stateD(2) [OF assms(1)] by simp_all
  show "webhook_done i d \<Longrightarrow> webhook_done i d'" for i
    using e(5) p assms(4) by (cases "i = whk_id w") (auto simp: webhook_done_def)
  show "\<And>i. WebhookApplied (whk_id w) = WebhookApplied i \<Longrightarrow> \<not> webhook_done i d \<and> webhook_done i d'" using n p by simp
  show "\<And>raw. refresh_spent X raw d \<Longrightarrow> refresh_spent X raw d'" by (simp add: refresh_spent_cong [OF k(1)])
  show "of_bool (spends X (WebhookApplied (whk_id w)) = Some t) + remaining t d' \<le> of_bool (makes X (WebhookApplied (whk_id w)) = Some t) + remaining t d" for t
    by (rule kept_tickets [OF k(2)]) simp
qed simp_all

lemma apply_webhook_current:
  assumes "wf_db d" "w \<in> set (webhook_events d)" "parse_uuid i = Some (whk_id w)" "whk_status w \<noteq> PROCESSED"
    "BillingWebhook (JDict (whk_payload w)) = Inr ev" "validate_webhook X E ev = Inr obj" "webhook_organization X obj = Inr (org_id g)"
    "g \<in> set (organizations d)" "\<And>s. locked = Some s \<Longrightarrow> s \<in> set (subscriptions d) \<and> sub_organization_id s = org_id g"
    "apply_webhook_txn X E now w obj (org_id g) locked d = Inr d'"
  shows "process_webhook_event X E i now d =
    Inr ((w\<lparr>whk_status := PROCESSED, whk_processed_at := Some (now_or E 4 now)\<rparr>, True), d')"
proof -
  obtain s d1 where p: "(case locked of Some s \<Rightarrow> Inr (s, d) | None \<Rightarrow> create_default_subscription (later_clock 2 E) (org_id g) None d) = Inr (s, d1)"
    using assms(10) unfolding apply_webhook_txn_def r_bind_Inr by auto
  have l: "locked_subscription (later_clock 2 E) (org_id g) d = Inr (s, d1)" by (rule locked_subscription_current [OF assms(1,8,9) p])
  have f: "find_webhook_by_id i d = Inr (Some w)" by (rule find_webhook_by_id_unique [OF assms(1-3)])
  show ?thesis using assms(4-7,10) unfolding apply_webhook_txn_def p process_webhook_event_def f by (auto simp: l Let_def)
qed

lemma verified_process_webhook: "verified (sound_state X stock) same_row {} (\<lambda>d. True) (process_webhook_event_txn X E i now)"
  unfolding process_webhook_event_txn_def
proof (rule verified_webhook_for_update, goal_cases)
  case (2 L w)
  let ?A = "\<lambda>d. w \<in> set (webhook_events d)"
  note st = stable_row(4) [OF 2(1), of "sound_state X stock"]
  have same: "sound_state X stock d h \<Longrightarrow> sound_state X stock d (h @ [WebhookSkipped j])" for d h j
    by (rule webhook_rows_commit [where ws = "webhook_events d"]) (auto intro: sound_stateD simp: plain_def)
  have commit: "verified (sound_state X stock) same_row M A (Commit (WebhookApplied (whk_id w)) (apply_webhook_txn X E now w obj (org_id g) locked))"
    if "whk_status w \<noteq> PROCESSED" "BillingWebhook (JDict (whk_payload w)) = Inr ev" "validate_webhook X E ev = Inr obj"
      "webhook_organization X obj = Inr (org_id g)"
      "\<And>d. A d \<Longrightarrow> ?A d \<and> g \<in> set (organizations d) \<and> (\<forall>s. locked = Some s \<longrightarrow> s \<in> set (subscriptions d) \<and> sub_organization_id s = org_id g)"
    for M A g locked ev obj
  proof (rule verified_commit)
    fix d h d'
    assume c: "sound_state X stock d h" "A d" "apply_webhook_txn X E now w obj (org_id g) locked d = Inr d'"
    have k: "?A d" "g \<in> set (organizations d)" "\<And>s. locked = Some s \<Longrightarrow> s \<in> set (subscriptions d) \<and> sub_organization_id s = org_id g"
      using that(5) [OF c(2)] by blast+
    note e = apply_webhook_current [OF sound_stateD(1) [OF c(1)] k(1) 2(2) that(1-4) k(2,3) c(3)]
    show "sound_state X stock d' (h @ [WebhookApplied (whk_id w)])" by (rule processed_commit [OF c(1) e k(1) _ that(1)]) simp_all
  qed
  have locked: "verified (sound_state X stock) same_row L ?A (locked_subscription_txn oid (\<lambda>locked.
      Commit (WebhookApplied (whk_id w)) (apply_webhook_txn X E now w obj oid locked)))"
    if v: "whk_status w \<noteq> PROCESSED" "BillingWebhook (JDict (whk_payload w)) = Inr ev" "validate_webhook X E ev = Inr obj"
      "webhook_organization X obj = Inr oid" for ev obj oid
    unfolding locked_subscription_txn_def
  proof (rule verified_scalar_for_update [where B = "\<lambda>g d. ?A d \<and> g \<in> set (organizations d)", OF st], goal_cases)
    case (2 d h S g)
    have st2: "stable (sound_state X stock) same_row (L \<union> S) (\<lambda>d. ?A d \<and> g \<in> set (organizations d))"
      by (intro stable_conj stable_row(5) stable_mono [OF st]) (use 2(5) in auto)
    have vg: "webhook_organization X obj = Inr (org_id g)" using v(4) 2(4) by simp
    have "verified (sound_state X stock) same_row (L \<union> S) (\<lambda>d. ?A d \<and> g \<in> set (organizations d))
      (scalar_for_update subscriptions (\<lambda>s. SubscriptionRow (sub_id s)) (\<lambda>s. sub_organization_id s = org_id g) (\<lambda>locked.
        Commit (WebhookApplied (whk_id w)) (apply_webhook_txn X E now w obj (org_id g) locked)))"
    proof (rule verified_scalar_for_update [where B = "\<lambda>s d. (?A d \<and> g \<in> set (organizations d)) \<and> s \<in> set (subscriptions d)", OF st2], goal_cases)
      case (2 d h T s)
      have st3: "stable (sound_state X stock) same_row (L \<union> S \<union> T) (\<lambda>d. (?A d \<and> g \<in> set (organizations d)) \<and> s \<in> set (subscriptions d))"
        by (intro stable_conj [OF stable_mono [OF st2]] stable_row(6)) (use 2(5) in auto)
      show ?case by (intro conjI 2(2) [THEN conjunct1] 2(2) [THEN conjunct2] 2(3) st3 commit [OF v(1-3) vg]) (use 2(4) in auto)
    qed (intro commit [OF v(1-3) vg], simp)
    then show ?case using 2(2,3,4) st2 by (simp add: require_def)
  qed (simp add: require_def v_fail)
  show ?case
    by (auto simp: require_def intro!: verified_raising verified_commit same locked)
qed (simp add: require_def v_fail)

end
