(* ===== verification/Resource_Transactions.thy ===== *)
theory Resource_Transactions
  imports Concurrency Projects Api_Keys Billing
begin

text \<open>
  The other services that write, as transactions: registration, changes of an organization
  (\<^verbatim>\<open>services/organizations.py\<close>), invitations, API keys, projects, plan changes, and the usage report of an
  API key with the dependency that authenticates it. Run alone each is the operation of its service
  theory.
\<close>

section \<open>Accounts and organizations\<close>

definition register_user_txn :: "ext \<Rightarrow> runtime \<Rightarrow> string \<Rightarrow> string \<Rightarrow> outcome txn" where
  "register_user_txn X E email0 password =
     (let email = py_lower (py_strip email0);
          email_taken = ConflictError ''email_taken'' ''An account with this email already exists'' in
      Query (\<lambda>d. raising (raise_if (scalar (filter (\<lambda>u. usr_email u = email) (users d)) \<noteq> None) email_taken) (\<lambda>_.
      let user = \<lparr>usr_id = rt_uuid E 0, usr_email = email, usr_password_hash = hash_password X E password,
            usr_is_active = True, usr_is_verified = False, usr_created_at = rt_db_now E, usr_updated_at = rt_db_now E\<rparr> in
      Commit (Registered user) (\<lambda>d. on_integrity_error email_taken (add_user user d)))))"

text \<open>The select joins the organization with the actor's membership and locks both rows.\<close>

definition update_organization_txn :: "runtime \<Rightarrow> uuid \<Rightarrow> uuid \<Rightarrow> organization_update \<Rightarrow> outcome txn" where
  "update_organization_txn E organization_id actor_id data =
     (let joined = (\<lambda>d g m. g \<in> set (organizations d) \<and> m \<in> set (memberships d) \<and> org_id g = organization_id \<and>
            mem_organization_id m = org_id g \<and> mem_user_id m = actor_id \<and> mem_role m \<in> {OWNER, ADMIN}) in
      ForUpdate (\<lambda>d. {l. \<exists>g m. joined d g m \<and> l \<in> {OrganizationRow (org_id g), MembershipRow (mem_id m)}})
        (\<lambda>d S. raising (require (scalar (filter (\<lambda>g. \<exists>m. joined d g m \<and> {OrganizationRow (org_id g), MembershipRow (mem_id m)} \<subseteq> S)
             (organizations d))) forbidden) (\<lambda>organization.
         let changed = touch_organization E organization (organization_changes data organization) in
         Commit (OrganizationUpdated changed) (\<lambda>d.
           r_bind (on_integrity_error slug_taken (save_organization changed d)) (\<lambda>d1.
           r_bind (write_audit E organization_id (Some actor_id) ''organization.updated'' ''organization'' (uuid_str organization_id)
             [(''fields'', changed_fields [(''name'', ou_name data \<noteq> None), (''slug'', ou_slug data \<noteq> None)])] None d1) (\<lambda>(_, d2).
           Inr d2))))))"

section \<open>Invitations\<close>

text \<open>
  The route's dependency has loaded the actor's membership, so the role that decides which roles may be
  given is the one it read, although the row is selected again and locked.
\<close>

definition create_invitation_txn :: "ext \<Rightarrow> settings \<Rightarrow> runtime \<Rightarrow> uuid \<Rightarrow> uuid \<Rightarrow> invitation_create \<Rightarrow> outcome txn" where
  "create_invitation_txn X S E organization_id actor_id data =
     current_membership_txn organization_id actor_id [OWNER, ADMIN] (\<lambda>current.
     scalar_for_update organizations (\<lambda>g. OrganizationRow (org_id g)) (\<lambda>g. org_id g = organization_id) (\<lambda>organization.
     raising (raise_if (organization = None) forbidden) (\<lambda>_.
     membership_for_update [current] (\<lambda>m. mem_organization_id m = organization_id \<and> mem_user_id m = actor_id \<and>
       mem_role m \<in> {OWNER, ADMIN}) (\<lambda>found.
     raising (require found forbidden) (\<lambda>actor_membership.
     raising (ensure_invitation_role (mem_role actor_membership) (ic_role data)) (\<lambda>_.
     let now = rt_clock E 0 in
     Query (\<lambda>d. let member_exists = scalar [mem_id m. m \<leftarrow> memberships d, u \<leftarrow> users d, usr_id u = mem_user_id m \<and>
           mem_organization_id m = organization_id \<and> py_lower (usr_email u) = ic_email data] in
     raising (raise_if (member_exists \<noteq> None) (ConflictError ''already_member'' ''This user is already a member'')) (\<lambda>_.
     Query (\<lambda>d. let active_invitation = scalar (filter (\<lambda>i. inv_organization_id i = organization_id \<and>
           py_lower (inv_email i) = ic_email data \<and> inv_accepted_at i = None \<and> dt_lt now (inv_expires_at i)) (invitations d)) in
     raising (raise_if (active_invitation \<noteq> None) (ConflictError ''invitation_exists'' ''An active invitation already exists'')) (\<lambda>_.
     let raw_token = generate_opaque_token E in
     raising (add_days now (invitation_expire_days S)) (\<lambda>expires_at.
     let invitation = \<lparr>inv_id = rt_uuid E 0, inv_organization_id = organization_id, inv_email = ic_email data,
           inv_role = ic_role data, inv_token_hash = hash_token X raw_token, inv_expires_at = expires_at,
           inv_accepted_at = None, inv_created_by = actor_id, inv_created_at = now\<rparr> in
     Commit (Invited raw_token invitation) (\<lambda>d.
       r_bind (add_invitation invitation d) (\<lambda>d1.
       r_bind (write_audit (later_uuid 1 E) organization_id (Some actor_id) ''member.invited'' ''invitation''
         (uuid_str (inv_id invitation))
         [(''email'', JStr (ic_email data)), (''role'', JStr (role_value (ic_role data)))] None d1) (\<lambda>(_, d2).
       Inr d2))))))))))))))"

section \<open>API keys\<close>

text \<open>\<open>_lock_owner\<close>: the membership is only tested, so the object the session holds does not matter.\<close>

definition lock_owner_txn :: "uuid \<Rightarrow> uuid \<Rightarrow> 'r txn \<Rightarrow> 'r txn" where
  "lock_owner_txn organization_id user_id k =
     scalar_for_update memberships (\<lambda>m. MembershipRow (mem_id m))
       (\<lambda>m. mem_organization_id m = organization_id \<and> mem_user_id m = user_id \<and> mem_role m = OWNER) (\<lambda>membership.
     raising (require membership (ForbiddenError ''owner_required'' ''Only an owner can manage API keys'')) (\<lambda>_. k))"

definition create_api_key_txn :: "ext \<Rightarrow> runtime \<Rightarrow> uuid \<Rightarrow> uuid \<Rightarrow> string \<Rightarrow> outcome txn" where
  "create_api_key_txn X E organization_id actor_id name =
     lock_owner_txn organization_id actor_id (
     let (raw_key, prefix) = generate_api_key E;
         api_key = \<lparr>key_id = rt_uuid E 0, key_organization_id = organization_id, key_name = name,
           key_hash = hash_token X raw_key, key_prefix = prefix, key_created_by = actor_id,
           key_last_used_at = None, key_created_at = rt_db_now E, key_revoked_at = None\<rparr> in
     Commit (KeyCreated api_key) (\<lambda>d.
       r_bind (add_api_key api_key d) (\<lambda>d1.
       r_bind (write_audit (later_uuid 1 E) organization_id (Some actor_id) ''api_key.created'' ''api_key''
         (uuid_str (key_id api_key)) [(''name'', JStr name), (''prefix'', JStr prefix)] None d1) (\<lambda>(_, d2).
       Inr d2))))"

definition revoke_api_key_txn :: "runtime \<Rightarrow> uuid \<Rightarrow> uuid \<Rightarrow> uuid \<Rightarrow> outcome txn" where
  "revoke_api_key_txn E organization_id key_id' actor_id =
     lock_owner_txn organization_id actor_id (
     scalar_for_update api_keys (\<lambda>k. ApiKeyRow (key_id k)) (\<lambda>k. key_id k = key_id' \<and> key_organization_id k = organization_id) (\<lambda>found.
     raising (require found (NotFoundError ''api_key_not_found'' ''API key not found'')) (\<lambda>api_key.
     if key_revoked_at api_key = None then
       Commit (KeyRevoked (key_id api_key) True) (\<lambda>d.
         r_bind (write_audit E organization_id (Some actor_id) ''api_key.revoked'' ''api_key'' (uuid_str (key_id api_key)) [] None
           (save_api_key (api_key\<lparr>key_revoked_at := Some (rt_clock E 0)\<rparr>) d)) (\<lambda>(_, d1). Inr d1))
     else Commit (KeyRevoked (key_id api_key) False) Inr)))"

text \<open>
  A usage report: the dependency selects the key without locking it and sets only \<open>last_used_at\<close>; if the row is
  gone when the \<open>UPDATE\<close> is flushed, SQLAlchemy raises. The report is recorded in the same transaction.
\<close>

definition touch_api_key :: "api_key \<Rightarrow> datetime \<Rightarrow> db \<Rightarrow> exc + db" where
  "touch_api_key api_key now d =
     (if key_last_used_at api_key = Some now then Inr d
      else if key_id api_key \<in> key_id ` set (api_keys d)
      then Inr (d\<lparr>api_keys := update_where (\<lambda>k. key_id k = key_id api_key) (\<lambda>k. k\<lparr>key_last_used_at := Some now\<rparr>) (api_keys d)\<rparr>)
      else Inl (StaleDataError ''api_keys''))"

definition report_usage_txn :: "ext \<Rightarrow> runtime \<Rightarrow> string \<Rightarrow> uuid \<Rightarrow> int \<Rightarrow> outcome txn" where
  "report_usage_txn X E raw_key organization_id quantity =
     (let invalid = AuthenticationError ''invalid_api_key'' ''Invalid API key'' in
      raising (raise_if (\<not> startswith raw_key ''tf_live_'') invalid) (\<lambda>_.
      Query (\<lambda>d. raising (require (scalar (filter (\<lambda>k. key_hash k = hash_token X raw_key \<and> key_revoked_at k = None) (api_keys d))) invalid)
        (\<lambda>api_key.
      raising (raise_if (key_organization_id api_key \<noteq> organization_id)
        (NotFoundError ''organization_not_found'' ''Organization not found'')) (\<lambda>_.
      record_usage_txn (touch_api_key api_key (rt_clock E 0)) (later_clock 2 E) organization_id API_REQUESTS_METRIC quantity None)))))"

section \<open>Projects\<close>

definition create_project_txn :: "runtime \<Rightarrow> uuid \<Rightarrow> uuid \<Rightarrow> project_create \<Rightarrow> outcome txn" where
  "create_project_txn E organization_id actor_id data =
     Query (\<lambda>d. raising (raise_if (\<not> is_member organization_id actor_id d) forbidden) (\<lambda>_.
     let project = \<lparr>prj_id = rt_uuid E 0, prj_organization_id = organization_id, prj_name = pc_name data,
           prj_description = pc_description data, prj_status = ACTIVE_PROJECT, prj_created_by = actor_id,
           prj_created_at = rt_db_now E, prj_updated_at = rt_db_now E\<rparr> in
     Commit (ProjectCreated project) (\<lambda>d.
       r_bind (add_project project d) (\<lambda>d1.
       r_bind (write_audit (later_uuid 1 E) organization_id (Some actor_id) ''project.created'' ''project''
         (uuid_str (prj_id project)) [] None d1) (\<lambda>(_, d2).
       Inr d2)))))"

definition project_for_update :: "uuid \<Rightarrow> uuid \<Rightarrow> uuid \<Rightarrow> (project \<Rightarrow> 'r txn) \<Rightarrow> 'r txn" where
  "project_for_update organization_id project_id actor_id k =
     scalar_for_update (\<lambda>d. filter (\<lambda>_. is_member organization_id actor_id d) (projects d)) (\<lambda>p. ProjectRow (prj_id p))
       (\<lambda>p. prj_id p = project_id \<and> prj_organization_id p = organization_id) (\<lambda>found.
     raising (require found (NotFoundError ''project_not_found'' ''Project not found'')) k)"

definition update_project_txn :: "runtime \<Rightarrow> uuid \<Rightarrow> uuid \<Rightarrow> uuid \<Rightarrow> project_update \<Rightarrow> outcome txn" where
  "update_project_txn E organization_id project_id actor_id data =
     project_for_update organization_id project_id actor_id (\<lambda>project.
     let changed = touch_project E project (project_changes data project) in
     Commit (ProjectUpdated changed) (\<lambda>d.
       r_bind (write_audit E organization_id (Some actor_id) ''project.updated'' ''project'' (uuid_str (prj_id project))
         [(''fields'', changed_fields [(''description'', pu_description data \<noteq> None), (''name'', pu_name data \<noteq> None),
            (''status'', pu_status data \<noteq> None)])] None (save_project changed d)) (\<lambda>(_, d2).
       Inr d2)))"

definition delete_project_txn :: "runtime \<Rightarrow> uuid \<Rightarrow> uuid \<Rightarrow> uuid \<Rightarrow> outcome txn" where
  "delete_project_txn E organization_id project_id actor_id =
     project_for_update organization_id project_id actor_id (\<lambda>project.
     Commit (ProjectDeleted (prj_id project)) (\<lambda>d.
       r_bind (write_audit E organization_id (Some actor_id) ''project.deleted'' ''project'' (uuid_str (prj_id project))
         [] None d) (\<lambda>(_, d1).
       Inr (delete_project_row (prj_id project) d1))))"

section \<open>Plans\<close>

text \<open>
  The subscription is read, not locked; the flush sets the columns whose value changed.
\<close>

definition changed_columns :: "subscription \<Rightarrow> subscription \<Rightarrow> subscription \<Rightarrow> subscription" where
  "changed_columns old new s = s\<lparr>
     sub_plan := if sub_plan new = sub_plan old then sub_plan s else sub_plan new,
     sub_status := if sub_status new = sub_status old then sub_status s else sub_status new,
     sub_current_period_start := if sub_current_period_start new = sub_current_period_start old then sub_current_period_start s
       else sub_current_period_start new,
     sub_current_period_end := if sub_current_period_end new = sub_current_period_end old then sub_current_period_end s
       else sub_current_period_end new,
     sub_updated_at := sub_updated_at new\<rparr>"

definition update_subscription :: "subscription \<Rightarrow> subscription \<Rightarrow> db \<Rightarrow> exc + db" where
  "update_subscription old new d =
     (if new = old then Inr d
      else if sub_id old \<in> sub_id ` set (subscriptions d)
      then Inr (d\<lparr>subscriptions := update_where (\<lambda>s. sub_id s = sub_id old) (changed_columns old new) (subscriptions d)\<rparr>)
      else Inl (StaleDataError ''subscriptions''))"

definition apply_plan_txn ::
  "runtime \<Rightarrow> uuid \<Rightarrow> plan \<Rightarrow> uuid \<Rightarrow> string option \<Rightarrow> datetime option \<Rightarrow> subscription option \<Rightarrow> db \<Rightarrow> exc + db" where
  "apply_plan_txn E organization_id plan actor_user_id ip_address now loaded d =
     r_bind (case loaded of Some s \<Rightarrow> Inr (s, d) | None \<Rightarrow> create_default_subscription E organization_id now d) (\<lambda>(subscription, d1).
     let previous_plan = sub_plan subscription in
     r_bind (subscription_period (later_clock 1 E) (Some subscription) now) (\<lambda>(period_start, period_end).
     let changed = touch_subscription E subscription (subscription\<lparr>sub_plan := plan, sub_status := ACTIVE,
           sub_current_period_start := period_start, sub_current_period_end := period_end\<rparr>) in
     r_bind (update_subscription subscription changed d1) (\<lambda>d2.
     if previous_plan \<noteq> plan then
       r_bind (write_audit (later_uuid 1 E) organization_id (Some actor_user_id) ''subscription.changed'' ''subscription''
          (uuid_str (sub_id subscription))
          [(''from_plan'', JStr (plan_value previous_plan)), (''to_plan'', JStr (plan_value plan))] ip_address d2)
         (\<lambda>(_, d3). Inr d3)
     else Inr d2)))"

definition change_plan_txn :: "runtime \<Rightarrow> uuid \<Rightarrow> plan \<Rightarrow> uuid \<Rightarrow> string option \<Rightarrow> datetime option \<Rightarrow> outcome txn" where
  "change_plan_txn E organization_id plan actor_user_id ip_address now =
     scalar_for_update organizations (\<lambda>g. OrganizationRow (org_id g)) (\<lambda>g. org_id g = organization_id) (\<lambda>organization.
     raising (require organization (NotFoundError ''organization_not_found'' ''Organization not found'')) (\<lambda>_.
     Query (\<lambda>d. Commit (PlanChanged organization_id plan)
       (apply_plan_txn E organization_id plan actor_user_id ip_address now (find_subscription d organization_id)))))"

section \<open>Alone, a transaction is its service\<close>

lemma alone_register: "alone (register_user_txn X E email pw) d = returning Registered (register_user X E email pw d)"
  by (simp add: register_user_txn_def register_user_def Let_def)

lemma alone_create_project: "alone (create_project_txn E oid actor data) d = returning ProjectCreated (create_project E oid actor data d)"
  by (simp add: create_project_txn_def create_project_def Let_def split_def)

lemma alone_project_for_update:
  "alone (project_for_update oid pid actor k) d = r_bind (get_project oid pid actor d) (\<lambda>p. alone (k p) d)"
  by (simp add: project_for_update_def get_project_def conj_ac)

lemma alone_update_project:
  "alone (update_project_txn E oid pid actor data) d = returning ProjectUpdated (update_project E oid pid actor data d)"
  by (simp add: update_project_txn_def update_project_def alone_project_for_update Let_def split_def)

lemma alone_delete_project:
  "alone (delete_project_txn E oid pid actor) d = returning (\<lambda>_. ProjectDeleted pid) (delete_project E oid pid actor d)"
proof -
  have p: "prj_id p = pid" if "get_project oid pid actor d = Inr p" for p
    using that by (auto simp: get_project_def dest!: scalar_filter_SomeD)
  show ?thesis
    unfolding delete_project_txn_def delete_project_def alone_project_for_update
    by (cases "get_project oid pid actor d") (simp_all add: p split_def)
qed

lemma alone_lock_owner: "alone (lock_owner_txn oid uid k) d = r_bind (lock_owner oid uid d) (\<lambda>_. alone k d)"
  by (simp add: lock_owner_txn_def lock_owner_def)

lemma alone_create_api_key:
  "alone (create_api_key_txn X E oid actor name) d = returning (\<lambda>(k, raw). KeyCreated k) (create_api_key X E oid actor name d)"
  by (simp add: create_api_key_txn_def create_api_key_def alone_lock_owner Let_def split_def)

lemma alone_revoke_api_key:
  "alone (revoke_api_key_txn E oid kid actor) d =
     returning (\<lambda>_. KeyRevoked kid (\<exists>k \<in> set (api_keys d). key_id k = kid \<and> key_organization_id k = oid \<and> key_revoked_at k = None))
       (revoke_api_key E oid kid actor d)"
  if "wf_db d"
proof -
  let ?open = "\<exists>k \<in> set (api_keys d). key_id k = kid \<and> key_organization_id k = oid \<and> key_revoked_at k = None"
  let ?r = "scalar (filter (\<lambda>k. key_id k = kid \<and> key_organization_id k = oid) (api_keys d))"
  show ?thesis
  proof (cases ?r)
    case None
    then show ?thesis by (simp add: revoke_api_key_txn_def revoke_api_key_def alone_lock_owner)
  next
    case (Some k)
    have k: "k \<in> set (api_keys d)" "key_id k = kid" "key_organization_id k = oid" using scalar_filter_SomeD [OF Some] by auto
    have "k' = k" if "k' \<in> set (api_keys d)" "key_id k' = kid" for k'
      by (rule unique_onD [OF wf_unique(11) [OF \<open>wf_db d\<close>] that(1) k(1)]) (simp add: that(2) k(2))
    then have o: "?open = (key_revoked_at k = None)" using k by blast
    note defs = revoke_api_key_txn_def revoke_api_key_def alone_lock_owner alone_scalar_for_update Some
    show ?thesis
    proof (cases "key_revoked_at k = None")
      case True
      then show ?thesis unfolding defs o by (simp add: k(2) split_def)
    next
      case False
      then obtain r where "key_revoked_at k = Some r" by blast
      then show ?thesis unfolding defs o by (simp add: k(2) split_def)
    qed
  qed
qed

lemma alone_update_organization:
  "alone (update_organization_txn E oid actor data) d = returning OrganizationUpdated (update_organization E oid actor data d)"
  if "wf_db d"
proof -
  let ?joined = "\<lambda>g m. g \<in> set (organizations d) \<and> m \<in> set (memberships d) \<and> org_id g = oid \<and>
     mem_organization_id m = org_id g \<and> mem_user_id m = actor \<and> mem_role m \<in> {OWNER, ADMIN}"
  let ?S = "{l. \<exists>g m. ?joined g m \<and> l \<in> {OrganizationRow (org_id g), MembershipRow (mem_id m)}}"
  let ?P = "\<lambda>g. \<exists>m. ?joined g m \<and> {OrganizationRow (org_id g), MembershipRow (mem_id m)} \<subseteq> ?S"
  have P: "?P g \<longleftrightarrow> (\<exists>m. ?joined g m)" for g by blast
  have "scalar (filter ?P (organizations d)) = select_organization d oid actor (\<lambda>r. r = OWNER \<or> r = ADMIN)"
  proof (cases "select_organization d oid actor (\<lambda>r. r = OWNER \<or> r = ADMIN)")
    case None
    then have "\<not> ?joined g m" for g m
      by (auto simp: select_organization_def filter_empty_conv set_joined_organizations)
    then have "filter ?P (organizations d) = []" unfolding P filter_empty_conv by blast
    then show ?thesis using None by simp
  next
    case (Some g)
    note D = select_organizationD [OF Some]
    have "scalar (filter ?P (organizations d)) = Some g"
      unfolding P by (rule scalar_filter_unique [OF wf_unique(5) [OF that]]) (use D in auto)
    then show ?thesis using Some by simp
  qed
  then show ?thesis by (simp add: update_organization_txn_def update_organization_def Let_def split_def)
qed

lemma alone_create_invitation:
  assumes "wf_db d" "select_membership d oid actor = Some m" "mem_role m \<in> {OWNER, ADMIN}"
  shows "alone (create_invitation_txn X S E oid actor data) d = returning (\<lambda>(i, raw). Invited raw i) (create_invitation X S E oid actor data d)"
proof -
  have m: "m \<in> set (memberships d)" "mem_organization_id m = oid" "mem_user_id m = actor" using select_membershipD [OF assms(2)] by auto
  have s: "scalar (filter (\<lambda>m. mem_organization_id m = oid \<and> mem_user_id m = actor \<and> mem_role m \<in> {OWNER, ADMIN}) (memberships d)) = Some m"
    by (rule scalar_filter_unique [OF wf_unique(8) [OF assms(1)] m(1)]) (use m assms(3) in \<open>auto simp: mem_pair_def\<close>)
  have l: "lock_actor oid actor d = Inr m" unfolding lock_actor_def s by simp
  have a: "alone (membership_for_update [m] (\<lambda>m. mem_organization_id m = oid \<and> mem_user_id m = actor \<and> mem_role m \<in> {OWNER, ADMIN}) k) d =
      alone (k (Some m)) d" for k :: "membership option \<Rightarrow> outcome txn"
    unfolding membership_for_update_def alone_scalar_for_update s by (simp add: in_session_def)
  have c: "alone (current_membership_txn oid actor [OWNER, ADMIN] k) d = alone (k m) d" for k :: "membership \<Rightarrow> outcome txn"
    using assms(2,3) by (auto simp: current_membership_txn_def)
  show ?thesis
    unfolding create_invitation_txn_def create_invitation_def c alone_scalar_for_update alone_raising a l
    by (simp add: lock_organization_def find_organization_def Let_def split_def)
qed

text \<open>The fields the report reads are the same before and after the key is touched.\<close>

lemma touch_api_key_saved:
  assumes "wf_db d" "k \<in> set (api_keys d)"
  shows "touch_api_key k n d = Inr (save_api_key (k\<lparr>key_last_used_at := Some n\<rparr>) d)"
proof -
  have u: "k' = k" if "k' \<in> set (api_keys d)" "key_id k' = key_id k" for k'
    by (rule unique_onD [OF wf_unique(11) [OF assms(1)] that(1) assms(2) that(2)])
  have "update_where (\<lambda>x. key_id x = key_id k) (\<lambda>x. x\<lparr>key_last_used_at := Some n\<rparr>) (api_keys d) =
      save_row key_id (k\<lparr>key_last_used_at := Some n\<rparr>) (api_keys d)"
    unfolding save_row_def update_where_def by (rule map_cong) (use u in auto)
  moreover have "save_row key_id k (api_keys d) = api_keys d"
    unfolding save_row_def update_where_def by (rule map_idI) (use u in auto)
  ultimately show ?thesis
  proof (cases "key_last_used_at k = Some n")
    case True
    then have "k\<lparr>key_last_used_at := Some n\<rparr> = k" by simp
    then show ?thesis using \<open>save_row key_id k (api_keys d) = api_keys d\<close> True by (simp only: touch_api_key_def save_api_key_def) simp
  qed (use assms(2) in \<open>simp add: touch_api_key_def save_api_key_def\<close>)
qed

lemma record_usage_touched:
  "alone (record_usage_txn p E oid metric q now) d = returning UsageRecorded (record_usage E oid metric q now d1)"
  if "p d = Inr d1" "organizations d1 = organizations d" "subscriptions d1 = subscriptions d" "usage_events d1 = usage_events d"
  using that
  by (simp add: record_usage_txn_def report_within_txn_def record_usage_def find_organization_def find_subscription_def usage_total_def
      Let_def split_def if_distrib [of "\<lambda>p. alone p d"] cong: if_cong)

lemma alone_report_usage:
  "alone (report_usage_txn X E raw oid q) d = r_bind (authenticate_api_key X E raw d) (\<lambda>(principal, d1).
     r_bind (raise_if (principal_organization_id principal \<noteq> oid) (NotFoundError ''organization_not_found'' ''Organization not found'')) (\<lambda>_.
     returning UsageRecorded (record_usage (later_clock 2 E) oid API_REQUESTS_METRIC q None d1)))"
  if "wf_db d"
proof -
  let ?r = "scalar (filter (\<lambda>k. key_hash k = hash_token X raw \<and> key_revoked_at k = None) (api_keys d))"
  have "alone (record_usage_txn (touch_api_key k (rt_clock E 0)) (later_clock 2 E) oid API_REQUESTS_METRIC q None) d =
      returning UsageRecorded (record_usage (later_clock 2 E) oid API_REQUESTS_METRIC q None
        (save_api_key (k\<lparr>key_last_used_at := Some (rt_clock E 0)\<rparr>) d))" if "?r = Some k" for k
  proof (rule record_usage_touched)
    show "touch_api_key k (rt_clock E 0) d = Inr (save_api_key (k\<lparr>key_last_used_at := Some (rt_clock E 0)\<rparr>) d)"
      by (rule touch_api_key_saved [OF \<open>wf_db d\<close>]) (use scalar_filter_SomeD [OF that] in simp)
  qed (simp_all add: save_api_key_def)
  then show ?thesis
    by (cases ?r) (simp_all add: report_usage_txn_def authenticate_api_key_def Let_def)
qed

text \<open>The columns that changed are all that tells the new row from the old one.\<close>

lemma update_subscription_saved:
  assumes "wf_db d" "s \<in> set (subscriptions d)" "sub_id s' = sub_id s" "sub_organization_id s' = sub_organization_id s"
    "sub_external_customer_id s' = sub_external_customer_id s" "sub_external_subscription_id s' = sub_external_subscription_id s"
    "sub_created_at s' = sub_created_at s"
  shows "update_subscription s s' d = save_subscription s' d"
proof -
  have u: "x = s" if "x \<in> set (subscriptions d)" "sub_id x = sub_id s" for x
    by (rule unique_onD [OF wf_unique(14) [OF assms(1)] that(1) assms(2) that(2)])
  have f: "changed_columns s s' s = s'"
    by (rule subscription.equality) (use assms(3-7) in \<open>simp_all add: changed_columns_def\<close>)
  have e: "sub_external_subscription_id x \<noteq> sub_external_subscription_id s \<or> sub_external_subscription_id s = None"
    if "x \<in> set (subscriptions d)" "sub_id x \<noteq> sub_id s" for x
  proof (rule ccontr)
    assume n: "\<not> ?thesis"
    have "unique_on sub_external_subscription_id (filter (\<lambda>r. sub_external_subscription_id r \<noteq> None) (subscriptions d))"
      using assms(1) by (simp add: wf_defs unique_opt_def)
    from unique_onD [OF this, of x s] have "x = s" using n that(1) assms(2) by simp
    then show False using that(2) by simp
  qed
  have g: "update_where (\<lambda>x. sub_id x = sub_id s) (changed_columns s s') (subscriptions d) = save_row sub_id s' (subscriptions d)"
    unfolding save_row_def update_where_def by (rule map_cong) (use u assms(3) f in auto)
  have n: "save_row sub_id s (subscriptions d) = subscriptions d"
    unfolding save_row_def update_where_def by (rule map_idI) (use u in auto)
  show ?thesis
    using e n assms(2,3,6) by (auto simp: update_subscription_def save_subscription_def g)
qed

lemma apply_plan_service:
  assumes "wf_db d" "find_organization d oid \<noteq> None"
  shows "r_bind (change_plan E oid plan actor ip now d) (\<lambda>(_, d'). Inr d') = apply_plan_txn E oid plan actor ip now (find_subscription d oid) d"
proof -
  have g: "get_or_create_subscription E oid now d =
      (case find_subscription d oid of Some s \<Rightarrow> Inr (s, d) | None \<Rightarrow> create_default_subscription E oid now d)"
    using assms(2) by (auto simp: get_or_create_subscription_def)
  show ?thesis
  proof (cases "get_or_create_subscription E oid now d")
    case (Inl e)
    then show ?thesis unfolding change_plan_def apply_plan_txn_def g [symmetric] by simp
  next
    case (Inr p)
    obtain s d1 where p: "p = (s, d1)" by (cases p)
    have s: "wf_db d1" "s \<in> set (subscriptions d1)"
      using get_or_create_subscription_wf [OF Inr [unfolded p] assms(1)] get_or_create_subscription_stored [OF Inr [unfolded p]] by simp_all
    have u: "update_subscription s (touch_subscription E s (s\<lparr>sub_plan := plan, sub_status := ACTIVE,
        sub_current_period_start := ps, sub_current_period_end := pe\<rparr>)) d1 =
      save_subscription (touch_subscription E s (s\<lparr>sub_plan := plan, sub_status := ACTIVE,
        sub_current_period_start := ps, sub_current_period_end := pe\<rparr>)) d1" for ps pe
      using s by (intro update_subscription_saved) (simp_all add: touch_subscription_def)
    show ?thesis
      unfolding change_plan_def apply_plan_txn_def g [symmetric] Inr p
      by (simp add: Let_def split_def u if_distrib [of "\<lambda>m. r_bind m k" for k] cong: if_cong)
  qed
qed

lemma alone_change_plan:
  "alone (change_plan_txn E oid plan actor ip now) d = returning (\<lambda>_. PlanChanged oid plan) (change_plan E oid plan actor ip now d)"
  if "wf_db d"
proof (cases "find_organization d oid")
  case None
  then show ?thesis
    by (simp add: change_plan_txn_def change_plan_def get_or_create_subscription_def find_organization_def)
next
  case (Some g)
  then have "alone (change_plan_txn E oid plan actor ip now) d =
      r_bind (apply_plan_txn E oid plan actor ip now (find_subscription d oid) d) (\<lambda>d'. Inr (PlanChanged oid plan, d'))"
    by (simp add: change_plan_txn_def find_organization_def)
  also have "\<dots> = returning (\<lambda>_. PlanChanged oid plan) (change_plan E oid plan actor ip now d)"
    using apply_plan_service [OF that, of oid E plan actor ip now, symmetric] Some by (simp add: returning_def split_def)
  finally show ?thesis .
qed

end
