(* ===== verification/Resource_Safety.thy ===== *)
theory Resource_Safety
  imports Concurrent_Safety Resource_Transactions
begin

text \<open>
  The transactions of \<open>Resource_Transactions\<close> keep \<open>sound_state\<close> in every interleaving: what they create is
  counted as issued, what they revoke or delete as spent.
\<close>

section \<open>Commits\<close>

lemma verified_harmless:
  assumes "\<And>d d'. A d \<Longrightarrow> w d = Inr d' \<Longrightarrow> wf_db d \<Longrightarrow> harmless d d'" "plain X r"
  shows "verified (sound_state X stock) same_row L A (Commit r w)"
  by (rule verified_commit) (rule sound_state_harmless, assumption, rule assms(1), assumption+, erule sound_stateD(1), rule assms(2))

text \<open>A commit that issues or spends a ticket, and writes its audit entry.\<close>

lemma ticket_commit:
  assumes "sound_state X stock d h" "wf_db d1" "orgs_complete d1 = orgs_complete d" "refresh_tokens d1 = refresh_tokens d"
    "webhook_events d1 = webhook_events d" "harmless d1 d'" "\<And>raw k. r \<noteq> Exchanged raw k" "\<And>i. r \<noteq> WebhookApplied i"
    "\<And>t. of_bool (spends X r = Some t) + remaining t d1 \<le> of_bool (makes X r = Some t) + remaining t d"
  shows "sound_state X stock d' (h @ [r])"
proof (rule sound_state_commit [OF assms(1)])
  show "of_bool (spends X r = Some t) + remaining t d' \<le> of_bool (makes X r = Some t) + remaining t d" for t
  proof -
    have "remaining t d' \<le> remaining t d1" using assms(6) by (simp add: harmless_def)
    then show ?thesis using assms(9) [of t] by linarith
  qed
qed (use assms sound_stateD(2) [OF assms(1)] in \<open>simp_all add: harmless_def refresh_spent_def webhook_done_def\<close>)

section \<open>Accounts and organizations\<close>

lemma harmless_user: "add_user u d = Inr d' \<Longrightarrow> harmless d d'"
  using add_user_InrD [of u d d'] wf_add_user [of u d d'] orgs_complete_cong [of d' d]
  by (auto intro: harmless_fields simp: tickets_def)

lemma verified_register: "verified (sound_state X stock) same_row {} (\<lambda>d. True) (register_user_txn Y E email pw)"
  unfolding register_user_txn_def Let_def
  by (intro verified_query verified_raising verified_harmless)
    (auto simp: plain_def on_integrity_error_def intro: harmless_user split: sum.splits exc.splits)

lemma harmless_save_organization:
  assumes "save_organization g' d = Inr d'" "wf_db d" "g \<in> set (organizations d)" "org_id g' = org_id g"
  shows "harmless d d'"
proof -
  have "d' = d\<lparr>organizations := save_row org_id g' (organizations d)\<rparr>"
    using assms(1) by (auto simp: save_organization_def split: if_splits)
  then show ?thesis
    using wf_save_organization [OF assms(1)] orgs_complete_save_organization [OF assms(1) _ assms(3,4)]
    by (intro harmless_fields) (auto simp: tickets_def)
qed

lemma changed_organization_id: "org_id (touch_organization E g (organization_changes data g)) = org_id g"
  by (auto simp: touch_organization_def organization_changes_def Let_def split: option.splits)

lemma verified_update_organization:
  "verified (sound_state X stock) same_row {} (\<lambda>d. True) (update_organization_txn E oid actor data)"
  unfolding update_organization_txn_def Let_def
proof (rule v_lock [where B = "\<lambda>d0 S d. \<forall>g. OrganizationRow (org_id g) \<in> S \<and> g \<in> set (organizations d0) \<longrightarrow> g \<in> set (organizations d)"])
  fix d0 :: db and h S
  let ?joined = "\<lambda>g m. g \<in> set (organizations d0) \<and> m \<in> set (memberships d0) \<and> org_id g = oid \<and>
            mem_organization_id m = org_id g \<and> mem_user_id m = actor \<and> mem_role m \<in> {OWNER, ADMIN}"
  let ?found = "scalar (filter (\<lambda>g. \<exists>m. ?joined g m \<and> {OrganizationRow (org_id g), MembershipRow (mem_id m)} \<subseteq> S) (organizations d0))"
  let ?B = "\<lambda>d. \<forall>g. OrganizationRow (org_id g) \<in> S \<and> g \<in> set (organizations d0) \<longrightarrow> g \<in> set (organizations d)"
  let ?commit = "\<lambda>organization. Commit (OrganizationUpdated (touch_organization E organization (organization_changes data organization))) (\<lambda>d.
      r_bind (on_integrity_error slug_taken (save_organization (touch_organization E organization (organization_changes data organization)) d)) (\<lambda>d1.
      r_bind (write_audit E oid (Some actor) ''organization.updated'' ''organization'' (uuid_str oid)
        [(''fields'', changed_fields [(''name'', ou_name data \<noteq> None), (''slug'', ou_slug data \<noteq> None)])] None d1) (\<lambda>(_, d2). Inr d2)))"
  have st: "stable (sound_state X stock) same_row ({} \<union> S) ?B"
    unfolding stable_def
  proof (intro allI impI, elim conjE)
    fix d d' h g
    assume a: "?B d" "\<forall>l \<in> {} \<union> S. same_row l d d'" "OrganizationRow (org_id g) \<in> S" "g \<in> set (organizations d0)"
    then have "g \<in> set (organizations d)" "same_row (OrganizationRow (org_id g)) d d'" by blast+
    then show "g \<in> set (organizations d')" using filter_eq_in [of "\<lambda>x. org_id x = org_id g" "organizations d" "organizations d'" g] by simp
  qed
  have "verified (sound_state X stock) same_row ({} \<union> S) ?B (raising (require ?found forbidden) ?commit)"
  proof (rule verified_raising, rule verified_harmless)
    fix organization d d'
    assume o: "require ?found forbidden = Inr organization" and b: "?B d" and w: "wf_db d"
      and c: "r_bind (on_integrity_error slug_taken (save_organization (touch_organization E organization (organization_changes data organization)) d)) (\<lambda>d1.
        r_bind (write_audit E oid (Some actor) ''organization.updated'' ''organization'' (uuid_str oid)
          [(''fields'', changed_fields [(''name'', ou_name data \<noteq> None), (''slug'', ou_slug data \<noteq> None)])] None d1) (\<lambda>(_, d2). Inr d2)) = Inr d'"
    have "?found = Some organization" using o by (auto simp: require_def split: option.splits)
    from scalar_filter_SomeD [OF this] have g: "organization \<in> set (organizations d)" using b by auto
    from c obtain d1 e where "save_organization (touch_organization E organization (organization_changes data organization)) d = Inr d1"
      "write_audit E oid (Some actor) ''organization.updated'' ''organization'' (uuid_str oid)
          [(''fields'', changed_fields [(''name'', ou_name data \<noteq> None), (''slug'', ou_slug data \<noteq> None)])] None d1 = Inr (e, d')"
      by (auto simp: on_integrity_error_def split: sum.splits exc.splits)
    then show "harmless d d'"
      using harmless_trans [OF harmless_save_organization [OF _ w g changed_organization_id] harmless_audit] by blast
  qed (simp add: plain_def)
  then show "?B d0 \<and> stable (sound_state X stock) same_row ({} \<union> S) ?B \<and>
    verified (sound_state X stock) same_row ({} \<union> S) ?B (raising (require ?found forbidden) ?commit)"
    using st by simp
qed

section \<open>Invitations\<close>

lemma verified_create_invitation:
  "verified (sound_state X stock) same_row {} (\<lambda>d. True) (create_invitation_txn X S E oid actor data)"
  unfolding create_invitation_txn_def current_membership_txn_def membership_for_update_def Let_def
proof (intro verified_query verified_raising stable_True, rule verified_scalar_for_update [where B = "\<lambda>_ d. True"],
    goal_cases)
  let ?commit = "\<lambda>expires_at. let invitation = \<lparr>inv_id = rt_uuid E 0, inv_organization_id = oid, inv_email = ic_email data,
           inv_role = ic_role data, inv_token_hash = hash_token X (generate_opaque_token E), inv_expires_at = expires_at,
           inv_accepted_at = None, inv_created_by = actor, inv_created_at = rt_clock E 0\<rparr> in
     Commit (Invited (generate_opaque_token E) invitation) (\<lambda>d.
       r_bind (add_invitation invitation d) (\<lambda>d1.
       r_bind (write_audit (later_uuid 1 E) oid (Some actor) ''member.invited'' ''invitation'' (uuid_str (inv_id invitation))
         [(''email'', JStr (ic_email data)), (''role'', JStr (role_value (ic_role data)))] None d1) (\<lambda>(_, d2). Inr d2)))"
  have commit: "verified (sound_state X stock) same_row L (\<lambda>d. True) (?commit expires_at)" for L expires_at
    unfolding Let_def
  proof (rule verified_commit)
    fix d h d'
    let ?i = "\<lparr>inv_id = rt_uuid E 0, inv_organization_id = oid, inv_email = ic_email data,
       inv_role = ic_role data, inv_token_hash = hash_token X (generate_opaque_token E), inv_expires_at = expires_at,
       inv_accepted_at = None, inv_created_by = actor, inv_created_at = rt_clock E 0\<rparr>"
    assume i: "sound_state X stock d h" and w: "r_bind (add_invitation ?i d) (\<lambda>d1.
       r_bind (write_audit (later_uuid 1 E) oid (Some actor) ''member.invited'' ''invitation'' (uuid_str (inv_id ?i))
         [(''email'', JStr (ic_email data)), (''role'', JStr (role_value (ic_role data)))] None d1) (\<lambda>(_, d2). Inr d2)) = Inr d'"
    from w obtain d1 e where a: "add_invitation ?i d = Inr d1" "write_audit (later_uuid 1 E) oid (Some actor) ''member.invited'' ''invitation''
         (uuid_str (inv_id ?i)) [(''email'', JStr (ic_email data)), (''role'', JStr (role_value (ic_role data)))] None d1 = Inr (e, d')" by auto
    have d1: "d1 = d\<lparr>invitations := invitations d @ [?i]\<rparr>" using add_invitation_InrD [OF a(1)] by simp
    show "sound_state X stock d' (h @ [Invited (generate_opaque_token E) ?i])"
    proof (rule ticket_commit [OF i wf_add_invitation [OF a(1) sound_stateD(1) [OF i]]])
      show "orgs_complete d1 = orgs_complete d" by (rule orgs_complete_cong) (simp_all add: d1)
      show "of_bool (spends X (Invited (generate_opaque_token E) ?i) = Some t) + remaining t d1
          \<le> of_bool (makes X (Invited (generate_opaque_token E) ?i) = Some t) + remaining t d" for t
        by (cases t) (simp_all add: d1)
    qed (use harmless_audit [OF a(2)] in \<open>simp_all add: d1\<close>)
  qed
  case (3 d u v d' h' L g)
  show ?case
  proof (intro conjI TrueI stable_True verified_raising, rule verified_scalar_for_update [where B = "\<lambda>_ d. True"], goal_cases)
    case (3 w d h S a)
    show ?case by (intro conjI TrueI stable_True verified_raising verified_query) (rule commit [unfolded Let_def])
  qed (simp_all add: v_fail)
qed (simp_all add: v_fail)

section \<open>API keys\<close>

lemma verified_lock_owner:
  assumes "\<And>M. verified (sound_state X stock) same_row M (\<lambda>d. True) k"
  shows "verified (sound_state X stock) same_row L (\<lambda>d. True) (lock_owner_txn oid uid k)"
  unfolding lock_owner_txn_def
  by (rule verified_scalar_for_update [where B = "\<lambda>_ d. True"]) (auto intro!: verified_raising assms v_fail)

lemma verified_create_api_key:
  "verified (sound_state X stock) same_row {} (\<lambda>d. True) (create_api_key_txn Y E oid actor name)"
proof -
  obtain raw_key prefix where g: "generate_api_key E = (raw_key, prefix)" by (cases "generate_api_key E")
  show ?thesis
    unfolding create_api_key_txn_def g prod.case Let_def
  proof (intro verified_lock_owner verified_commit)
    fix d h d'
    let ?k = "\<lparr>key_id = rt_uuid E 0, key_organization_id = oid, key_name = name,
           key_hash = hash_token Y raw_key, key_prefix = prefix, key_created_by = actor,
           key_last_used_at = None, key_created_at = rt_db_now E, key_revoked_at = None\<rparr>"
    assume i: "sound_state X stock d h" and w: "r_bind (add_api_key ?k d) (\<lambda>d1.
       r_bind (write_audit (later_uuid 1 E) oid (Some actor) ''api_key.created'' ''api_key''
         (uuid_str (key_id ?k)) [(''name'', JStr name), (''prefix'', JStr prefix)] None d1) (\<lambda>(_, d2). Inr d2)) = Inr d'"
    from w obtain d1 e where a: "add_api_key ?k d = Inr d1" "write_audit (later_uuid 1 E) oid (Some actor) ''api_key.created'' ''api_key''
         (uuid_str (key_id ?k)) [(''name'', JStr name), (''prefix'', JStr prefix)] None d1 = Inr (e, d')" by auto
    have d1: "d1 = d\<lparr>api_keys := api_keys d @ [?k]\<rparr>" using add_api_key_InrD [OF a(1)] by simp
    show "sound_state X stock d' (h @ [KeyCreated ?k])"
    proof (rule ticket_commit [OF i wf_add_api_key [OF a(1) sound_stateD(1) [OF i]]])
      show "orgs_complete d1 = orgs_complete d" by (rule orgs_complete_cong) (simp_all add: d1)
      show "of_bool (spends X (KeyCreated ?k) = Some t) + remaining t d1 \<le> of_bool (makes X (KeyCreated ?k) = Some t) + remaining t d" for t
        by (cases t) (simp_all add: d1)
    qed (use harmless_audit [OF a(2)] in \<open>simp_all add: d1\<close>)
  qed
qed

lemma revoked_key:
  assumes "wf_db d" "k \<in> set (api_keys d)" "key_revoked_at k = None"
  shows "of_bool (t = KeyTicket (key_id k)) + remaining t (save_api_key (k\<lparr>key_revoked_at := Some n\<rparr>) d) = remaining t d"
proof (cases t)
  case (KeyTicket i)
  then show ?thesis
    using count_save_row [OF wf_unique(11) [OF assms(1)] assms(2), of "k\<lparr>key_revoked_at := Some n\<rparr>"
      "\<lambda>k. key_id k = i \<and> key_revoked_at k = None"] assms(3)
    by (auto simp: save_api_key_def of_bool_def split: if_splits)
qed (simp_all add: save_api_key_def)

lemma verified_revoke_api_key:
  "verified (sound_state X stock) same_row {} (\<lambda>d. True) (revoke_api_key_txn E oid kid actor)"
  unfolding revoke_api_key_txn_def
proof (rule verified_lock_owner, rule verified_scalar_for_update [where B = "\<lambda>k d. k \<in> set (api_keys d)"], goal_cases)
  case (3 M d h L k)
  have st: "stable (sound_state X stock) same_row (M \<union> L) (\<lambda>d. k \<in> set (api_keys d))" by (rule stable_row(7)) (use 3(5) in simp)
  have revoke: "verified (sound_state X stock) same_row (M \<union> L) (\<lambda>d. k \<in> set (api_keys d))
      (Commit (KeyRevoked (key_id k) True) (\<lambda>d. r_bind (write_audit E oid (Some actor) ''api_key.revoked'' ''api_key'' (uuid_str (key_id k)) [] None
           (save_api_key (k\<lparr>key_revoked_at := Some (rt_clock E 0)\<rparr>) d)) (\<lambda>(_, d1). Inr d1)))" if r: "key_revoked_at k = None"
  proof (rule verified_commit)
    fix d h d'
    let ?d = "save_api_key (k\<lparr>key_revoked_at := Some (rt_clock E 0)\<rparr>) d"
    assume i: "sound_state X stock d h" "k \<in> set (api_keys d)" and w: "r_bind (write_audit E oid (Some actor) ''api_key.revoked'' ''api_key''
        (uuid_str (key_id k)) [] None ?d) (\<lambda>(_, d1). Inr d1) = Inr d'"
    from w obtain e where a: "write_audit E oid (Some actor) ''api_key.revoked'' ''api_key'' (uuid_str (key_id k)) [] None ?d = Inr (e, d')" by auto
    show "sound_state X stock d' (h @ [KeyRevoked (key_id k) True])"
    proof (rule ticket_commit [OF i(1)])
      show "wf_db ?d" by (rule wf_save_api_key [OF sound_stateD(1) [OF i(1)] i(2)]) simp_all
      show "orgs_complete ?d = orgs_complete d" by (rule orgs_complete_cong) (simp_all add: save_api_key_def)
      show "of_bool (spends X (KeyRevoked (key_id k) True) = Some t) + remaining t ?d
          \<le> of_bool (makes X (KeyRevoked (key_id k) True) = Some t) + remaining t d" for t
        using revoked_key [OF sound_stateD(1) [OF i(1)] i(2) r, of t "rt_clock E 0"] by (simp add: eq_commute [of _ t])
    qed (use harmless_audit [OF a] in \<open>simp_all add: save_api_key_def\<close>)
  qed
  have again: "verified (sound_state X stock) same_row (M \<union> L) (\<lambda>d. k \<in> set (api_keys d)) (Commit (KeyRevoked (key_id k) False) Inr)"
    by (rule verified_harmless) (simp_all add: plain_def)
  show ?case using 3(3) st revoke again by simp
qed (simp_all add: v_fail)

text \<open>An \<open>UPDATE\<close> that leaves the columns of a constraint alone keeps the constraint.\<close>

lemma constraints_map:
  assumes "\<And>x. k (f x) = k x"
  shows "unique_on k (map f xs) = unique_on k xs" "fk k ids (map f xs) = fk k ids xs"
  using assms by (simp_all add: unique_on_def fk_def comp_def)

lemma unique_opt_map: "(\<And>x. k (f x) = k x) \<Longrightarrow> unique_opt k (map f xs) = unique_opt k xs"
  by (simp add: unique_opt_def unique_on_def filter_map comp_def)

text \<open>Touching a key changes the date of its last use only, whatever other transactions did to the row.\<close>

lemma harmless_touch: "touch_api_key k n d = Inr d' \<Longrightarrow> harmless d d'"
proof -
  assume t: "touch_api_key k n d = Inr d'"
  define f where "f x = (if key_id x = key_id k then x\<lparr>key_last_used_at := Some n\<rparr> else x)" for x :: api_key
  have f: "key_id (f x) = key_id x" "key_hash (f x) = key_hash x" "key_created_by (f x) = key_created_by x"
    "key_organization_id (f x) = key_organization_id x" "key_revoked_at (f x) = key_revoked_at x" for x by (simp_all add: f_def)
  consider "d' = d" | "d' = d\<lparr>api_keys := map f (api_keys d)\<rparr>"
    using t by (auto simp: touch_api_key_def update_where_def f_def split: if_splits)
  then show ?thesis
  proof cases
    case 2
    have w: "wf_db d' = wf_db d"
      unfolding 2 using constraints_map [of key_id f, OF f(1)] constraints_map [of key_hash f, OF f(2)]
        constraints_map [of key_created_by f, OF f(3)] constraints_map [of key_organization_id f, OF f(4)]
      by (simp add: wf_defs user_ids_def org_ids_def)
    have "remaining t d' = remaining t d" for t
      by (cases t) (simp_all add: 2 filter_map comp_def f(1,5))
    moreover have "orgs_complete d' = orgs_complete d" by (rule orgs_complete_cong) (simp_all add: 2)
    ultimately show ?thesis using w by (simp add: harmless_def) (simp add: 2)
  qed simp
qed

lemma verified_report_usage:
  "verified (sound_state X stock) same_row {} (\<lambda>d. True) (report_usage_txn Y E raw oid q)"
  unfolding report_usage_txn_def Let_def
  by (intro verified_raising verified_query stable_True verified_record_usage) (rule harmless_touch)

section \<open>Projects\<close>

lemma verified_create_project:
  "verified (sound_state X stock) same_row {} (\<lambda>d. True) (create_project_txn E oid actor data)"
  unfolding create_project_txn_def Let_def
proof (intro verified_query verified_raising verified_commit stable_True)
  fix d h d'
  let ?p = "\<lparr>prj_id = rt_uuid E 0, prj_organization_id = oid, prj_name = pc_name data,
           prj_description = pc_description data, prj_status = ACTIVE_PROJECT, prj_created_by = actor,
           prj_created_at = rt_db_now E, prj_updated_at = rt_db_now E\<rparr>"
  assume i: "sound_state X stock d h" and w: "r_bind (add_project ?p d) (\<lambda>d1.
       r_bind (write_audit (later_uuid 1 E) oid (Some actor) ''project.created'' ''project'' (uuid_str (prj_id ?p)) [] None d1)
         (\<lambda>(_, d2). Inr d2)) = Inr d'"
  from w obtain d1 e where a: "add_project ?p d = Inr d1"
    "write_audit (later_uuid 1 E) oid (Some actor) ''project.created'' ''project'' (uuid_str (prj_id ?p)) [] None d1 = Inr (e, d')" by auto
  have d1: "d1 = d\<lparr>projects := projects d @ [?p]\<rparr>" using add_project_InrD [OF a(1)] by simp
  show "sound_state X stock d' (h @ [ProjectCreated ?p])"
  proof (rule ticket_commit [OF i wf_add_project [OF a(1) sound_stateD(1) [OF i]]])
    show "orgs_complete d1 = orgs_complete d" by (rule orgs_complete_cong) (simp_all add: d1)
    show "of_bool (spends X (ProjectCreated ?p) = Some t) + remaining t d1 \<le> of_bool (makes X (ProjectCreated ?p) = Some t) + remaining t d" for t
      by (cases t) (simp_all add: d1)
  qed (use harmless_audit [OF a(2)] in \<open>simp_all add: d1\<close>)
qed

lemma verified_project_for_update:
  assumes "\<And>L p. ProjectRow (prj_id p) \<in> L \<Longrightarrow> verified (sound_state X stock) same_row L (\<lambda>d. p \<in> set (projects d)) (k p)"
  shows "verified (sound_state X stock) same_row {} (\<lambda>d. True) (project_for_update oid pid actor k)"
  unfolding project_for_update_def
proof (rule verified_scalar_for_update [where B = "\<lambda>p d. p \<in> set (projects d)"], goal_cases)
  case (3 d h L p)
  then show ?case using stable_row(8) [of p "{} \<union> L"] assms [of p "{} \<union> L"] by simp
qed (simp_all add: v_fail)

lemma verified_update_project:
  "verified (sound_state X stock) same_row {} (\<lambda>d. True) (update_project_txn E oid pid actor data)"
  unfolding update_project_txn_def Let_def
proof (intro verified_project_for_update verified_harmless)
  fix p d d'
  let ?p = "touch_project E p (project_changes data p)"
  let ?meta = "[(''fields'', changed_fields [(''description'', pu_description data \<noteq> None), (''name'', pu_name data \<noteq> None),
            (''status'', pu_status data \<noteq> None)])]"
  assume p: "p \<in> set (projects d)" and w: "wf_db d" and c: "r_bind (write_audit E oid (Some actor) ''project.updated'' ''project''
      (uuid_str (prj_id p)) ?meta None (save_project ?p d)) (\<lambda>(_, d2). Inr d2) = Inr d'"
  from c obtain e where a: "write_audit E oid (Some actor) ''project.updated'' ''project'' (uuid_str (prj_id p)) ?meta None (save_project ?p d) = Inr (e, d')"
    by auto
  have k: "prj_id ?p = prj_id p" "prj_created_by ?p = prj_created_by p" "prj_organization_id ?p = prj_organization_id p"
    by (auto simp: touch_project_def project_changes_def Let_def split: option.splits)
  have "remaining t (save_project ?p d) = remaining t d" for t
  proof (cases t)
    case (ProjectTicket i)
    then show ?thesis
      using count_save_row [OF wf_unique(13) [OF w] p, of ?p "\<lambda>p. prj_id p = i"] k(1) by (simp add: save_project_def)
  qed (simp_all add: save_project_def)
  moreover have "orgs_complete (save_project ?p d) = orgs_complete d" by (rule orgs_complete_cong) (simp_all add: save_project_def)
  ultimately have "harmless d (save_project ?p d)"
    using wf_save_project [OF w p k] by (simp add: harmless_def) (simp add: save_project_def)
  then show "harmless d d'" by (rule harmless_trans [OF _ harmless_audit [OF a]])
qed (simp add: plain_def)

lemma verified_delete_project:
  "verified (sound_state X stock) same_row {} (\<lambda>d. True) (delete_project_txn E oid pid actor)"
  unfolding delete_project_txn_def
proof (intro verified_project_for_update verified_commit)
  fix p d h d'
  assume i: "sound_state X stock d h" "p \<in> set (projects d)" and w: "r_bind (write_audit E oid (Some actor) ''project.deleted'' ''project''
      (uuid_str (prj_id p)) [] None d) (\<lambda>(_, d1). Inr (delete_project_row (prj_id p) d1)) = Inr d'"
  from w obtain e d1 where a: "write_audit E oid (Some actor) ''project.deleted'' ''project'' (uuid_str (prj_id p)) [] None d = Inr (e, d1)"
    "d' = delete_project_row (prj_id p) d1" by auto
  note d1 = write_audit_InrD(2) [OF a(1)]
  note wf = write_audit_wf [OF a(1) sound_stateD(1) [OF i(1)]]
  show "sound_state X stock d' (h @ [ProjectDeleted (prj_id p)])"
  proof (rule ticket_commit [OF i(1) wf_delete_project_row [OF wf, of "prj_id p"]])
    show "orgs_complete (delete_project_row (prj_id p) d1) = orgs_complete d"
      by (rule orgs_complete_cong) (simp_all add: delete_project_row_def d1)
    show "of_bool (spends X (ProjectDeleted (prj_id p)) = Some t) + remaining t (delete_project_row (prj_id p) d1)
        \<le> of_bool (makes X (ProjectDeleted (prj_id p)) = Some t) + remaining t d" for t
    proof (cases "t = ProjectTicket (prj_id p)")
      case True
      have "length (filter (\<lambda>x. prj_id x = prj_id p) (projects d)) \<noteq> 0" using i(2) by (auto simp: filter_empty_conv)
      then show ?thesis using True by (simp add: delete_project_row_def d1 Suc_le_eq)
    next
      case False
      then show ?thesis
        by (cases t) (simp_all add: delete_project_row_def d1 length_filter_filter del: filter_filter)
    qed
  qed (simp_all add: delete_project_row_def d1 a(2))
qed

section \<open>Plans\<close>

lemma harmless_subscription: "add_subscription s d = Inr d' \<Longrightarrow> harmless d d'"
  using add_subscription_InrD [of s d d'] wf_add_subscription [of s d d'] orgs_complete_add_subscription [of s d d']
  by (auto intro: harmless_fields simp: tickets_def)

lemma harmless_update_subscription: "update_subscription s s' d = Inr d' \<Longrightarrow> harmless d d'"
proof -
  assume u: "update_subscription s s' d = Inr d'"
  let ?f = "\<lambda>x. if sub_id x = sub_id s then changed_columns s s' x else x"
  consider "d' = d" | "d' = d\<lparr>subscriptions := map ?f (subscriptions d)\<rparr>"
    using u by (auto simp: update_subscription_def update_where_def split: if_splits)
  then show ?thesis
  proof cases
    case 2
    have k: "sub_id (?f x) = sub_id x" "sub_organization_id (?f x) = sub_organization_id x"
      "sub_external_subscription_id (?f x) = sub_external_subscription_id x" for x
      by (simp_all add: changed_columns_def)
    have w: "wf_db d' = wf_db d"
      unfolding 2 using constraints_map [of sub_id ?f, OF k(1)] constraints_map [of sub_organization_id ?f, OF k(2)]
        unique_opt_map [of sub_external_subscription_id ?f, OF k(3)]
      by (simp add: wf_defs user_ids_def org_ids_def del: if_split)
    have m: "map sub_organization_id (map ?f (subscriptions d)) = map sub_organization_id (subscriptions d)" using k(2) by simp
    have "subscribed d' o' = subscribed d o'" "owned d' o' = owned d o'" for o'
      unfolding subscribed_iff using m by (simp_all add: 2 owned_def)
    then have "orgs_complete d' = orgs_complete d" by (simp add: orgs_complete_def 2)
    then show ?thesis using w by (intro harmless_fields) (simp_all add: 2 tickets_def)
  qed simp
qed

lemma harmless_apply_plan: "apply_plan_txn E oid plan actor ip now loaded d = Inr d' \<Longrightarrow> harmless d d'"
proof -
  assume "apply_plan_txn E oid plan actor ip now loaded d = Inr d'"
  then obtain s d1 ps pe d2 where a: "(case loaded of Some s \<Rightarrow> Inr (s, d) | None \<Rightarrow> create_default_subscription E oid now d) = Inr (s, d1)"
    "update_subscription s (touch_subscription E s (s\<lparr>sub_plan := plan, sub_status := ACTIVE,
      sub_current_period_start := ps, sub_current_period_end := pe\<rparr>)) d1 = Inr d2"
    "(if sub_plan s \<noteq> plan then r_bind (write_audit (later_uuid 1 E) oid (Some actor) ''subscription.changed'' ''subscription''
        (uuid_str (sub_id s)) [(''from_plan'', JStr (plan_value (sub_plan s))), (''to_plan'', JStr (plan_value plan))] ip d2) (\<lambda>(_, d3). Inr d3)
      else Inr d2) = Inr d'"
    by (auto simp: apply_plan_txn_def Let_def simp del: One_nat_def split del: if_split)
  have "harmless d d1"
    using a(1) create_default_subscription_InrD(1) [of E oid now d s d1] harmless_subscription [of s d d1] by (auto split: option.splits)
  then have "harmless d d2" by (rule harmless_trans [OF _ harmless_update_subscription [OF a(2)]])
  then show ?thesis using a(3) harmless_trans [OF _ harmless_audit] by (auto split: if_splits)
qed

lemma verified_change_plan:
  "verified (sound_state X stock) same_row {} (\<lambda>d. True) (change_plan_txn E oid plan actor ip now)"
  unfolding change_plan_txn_def
  by (rule verified_scalar_for_update [where B = "\<lambda>_ d. True"])
    (auto intro!: verified_raising verified_query verified_harmless v_fail intro: harmless_apply_plan simp: plain_def)

end
