(* ===== verification/Concurrent_System.thy ===== *)
theory Concurrent_System
  imports Resource_Safety
begin

text \<open>
  \<open>concurrent\<close>, the system of all transactions of the services, with the invariant \<open>sound_state\<close> as an
  interpretation of \<open>transactions\<close>.
\<close>

section \<open>The system\<close>

datatype operation =
    LoginOp runtime string string string
  | RefreshOp runtime string
  | LogoutOp runtime string
  | AcceptInvitationOp runtime string user
  | UpdateMembershipOp runtime uuid uuid uuid role
  | RemoveMembershipOp runtime uuid uuid uuid
  | CreateOrganizationOp runtime uuid organization_create
  | DeleteOrganizationOp runtime uuid uuid
  | RecordUsageOp runtime uuid string int "datetime option"
  | StoreWebhookOp runtime billing_webhook
  | ProcessWebhookOp runtime string "datetime option"
  | FailWebhookOp string
  | RegisterOp runtime string string
  | UpdateOrganizationOp runtime uuid uuid organization_update
  | CreateInvitationOp runtime uuid uuid invitation_create
  | CreateApiKeyOp runtime uuid uuid string
  | RevokeApiKeyOp runtime uuid uuid uuid
  | ReportUsageOp runtime string uuid int
  | CreateProjectOp runtime uuid uuid project_create
  | UpdateProjectOp runtime uuid uuid uuid project_update
  | DeleteProjectOp runtime uuid uuid uuid
  | ChangePlanOp runtime uuid plan uuid "string option" "datetime option"

primrec txn_of :: "ext \<Rightarrow> settings \<Rightarrow> operation \<Rightarrow> outcome txn" where
  "txn_of X S (LoginOp E dummy_hash email password) = login_txn X S E dummy_hash email password"
| "txn_of X S (RefreshOp E raw) = rotate_refresh_token_txn X S E raw"
| "txn_of X S (LogoutOp E raw) = revoke_refresh_token_txn X E raw"
| "txn_of X S (AcceptInvitationOp E raw user) = accept_invitation_txn X E raw user"
| "txn_of X S (UpdateMembershipOp E oid mid actor r) = update_membership_txn E oid mid actor r"
| "txn_of X S (RemoveMembershipOp E oid mid actor) = remove_membership_txn E oid mid actor"
| "txn_of X S (CreateOrganizationOp E actor data) = create_organization_txn E actor data"
| "txn_of X S (DeleteOrganizationOp E oid actor) = delete_organization_txn E oid actor"
| "txn_of X S (RecordUsageOp E oid metric q now) = record_usage_txn Inr E oid metric q now"
| "txn_of X S (StoreWebhookOp E event) = store_webhook_event_txn E event"
| "txn_of X S (ProcessWebhookOp E i now) = process_webhook_event_txn X E i now"
| "txn_of X S (FailWebhookOp i) = mark_webhook_failed_txn i"
| "txn_of X S (RegisterOp E email password) = register_user_txn X E email password"
| "txn_of X S (UpdateOrganizationOp E oid actor data) = update_organization_txn E oid actor data"
| "txn_of X S (CreateInvitationOp E oid actor data) = create_invitation_txn X S E oid actor data"
| "txn_of X S (CreateApiKeyOp E oid actor name) = create_api_key_txn X E oid actor name"
| "txn_of X S (RevokeApiKeyOp E oid kid actor) = revoke_api_key_txn E oid kid actor"
| "txn_of X S (ReportUsageOp E raw_key oid q) = report_usage_txn X E raw_key oid q"
| "txn_of X S (CreateProjectOp E oid actor data) = create_project_txn E oid actor data"
| "txn_of X S (UpdateProjectOp E oid pid actor data) = update_project_txn E oid pid actor data"
| "txn_of X S (DeleteProjectOp E oid pid actor) = delete_project_txn E oid pid actor"
| "txn_of X S (ChangePlanOp E oid plan actor ip now) = change_plan_txn E oid plan actor ip now"

text \<open>The service of each operation, and when the route's dependency admits the actor.\<close>

primrec service_of :: "ext \<Rightarrow> settings \<Rightarrow> operation \<Rightarrow> db \<Rightarrow> exc + outcome \<times> db" where
  "service_of X S (LoginOp E dummy_hash email password) d =
     r_bind (authenticate_user X dummy_hash email password d) (\<lambda>user. returning LoggedIn (issue_tokens X S E user d))"
| "service_of X S (RefreshOp E raw) d = returning (Exchanged raw) (rotate_refresh_token X S E raw d)"
| "service_of X S (LogoutOp E raw) d = returning (\<lambda>_. LoggedOut raw) (revoke_refresh_token X E raw d)"
| "service_of X S (AcceptInvitationOp E raw user) d = returning (Accepted raw) (accept_invitation X E raw user d)"
| "service_of X S (UpdateMembershipOp E oid mid actor r) d = returning RoleChanged (update_membership E oid mid actor r d)"
| "service_of X S (RemoveMembershipOp E oid mid actor) d = returning (\<lambda>_. MemberRemoved mid) (remove_membership E oid mid actor d)"
| "service_of X S (CreateOrganizationOp E actor data) d = returning OrganizationCreated (create_organization E actor data d)"
| "service_of X S (DeleteOrganizationOp E oid actor) d = returning (\<lambda>_. OrganizationDeleted oid) (delete_organization E oid actor d)"
| "service_of X S (RecordUsageOp E oid metric q now) d = returning UsageRecorded (record_usage E oid metric q now d)"
| "service_of X S (StoreWebhookOp E event) d = returning (\<lambda>_. WebhookStored (bw_id event)) (store_webhook_event E event d)"
| "service_of X S (ProcessWebhookOp E i now) d =
     returning (\<lambda>(event, processed). if processed then WebhookApplied (whk_id event) else WebhookSkipped (whk_id event))
       (process_webhook_event X E i now d)"
| "service_of X S (FailWebhookOp i) d = returning (\<lambda>_. WebhookMarked i) (mark_webhook_failed i d)"
| "service_of X S (RegisterOp E email password) d = returning Registered (register_user X E email password d)"
| "service_of X S (UpdateOrganizationOp E oid actor data) d = returning OrganizationUpdated (update_organization E oid actor data d)"
| "service_of X S (CreateInvitationOp E oid actor data) d = returning (\<lambda>(i, raw). Invited raw i) (create_invitation X S E oid actor data d)"
| "service_of X S (CreateApiKeyOp E oid actor name) d = returning (\<lambda>(k, raw). KeyCreated k) (create_api_key X E oid actor name d)"
| "service_of X S (RevokeApiKeyOp E oid kid actor) d =
     returning (\<lambda>_. KeyRevoked kid (\<exists>k \<in> set (api_keys d). key_id k = kid \<and> key_organization_id k = oid \<and> key_revoked_at k = None))
       (revoke_api_key E oid kid actor d)"
| "service_of X S (ReportUsageOp E raw_key oid q) d =
     r_bind (authenticate_api_key X E raw_key d) (\<lambda>(principal, d1).
     r_bind (raise_if (principal_organization_id principal \<noteq> oid) (NotFoundError ''organization_not_found'' ''Organization not found'')) (\<lambda>_.
     returning UsageRecorded (record_usage (later_clock 2 E) oid API_REQUESTS_METRIC q None d1)))"
| "service_of X S (CreateProjectOp E oid actor data) d = returning ProjectCreated (create_project E oid actor data d)"
| "service_of X S (UpdateProjectOp E oid pid actor data) d = returning ProjectUpdated (update_project E oid pid actor data d)"
| "service_of X S (DeleteProjectOp E oid pid actor) d = returning (\<lambda>_. ProjectDeleted pid) (delete_project E oid pid actor d)"
| "service_of X S (ChangePlanOp E oid plan actor ip now) d = returning (\<lambda>_. PlanChanged oid plan) (change_plan E oid plan actor ip now d)"

definition admin_of :: "uuid \<Rightarrow> uuid \<Rightarrow> db \<Rightarrow> bool" where
  "admin_of oid actor d = (case select_membership d oid actor of Some m \<Rightarrow> mem_role m \<in> {OWNER, ADMIN} | None \<Rightarrow> False)"

fun admitted :: "operation \<Rightarrow> db \<Rightarrow> bool" where
  "admitted (UpdateMembershipOp E oid mid actor r) d = admin_of oid actor d"
| "admitted (RemoveMembershipOp E oid mid actor) d = admin_of oid actor d"
| "admitted (CreateInvitationOp E oid actor data) d = admin_of oid actor d"
| "admitted q d = True"

lemma admin_ofD: "admin_of oid actor d \<Longrightarrow> \<exists>m. select_membership d oid actor = Some m \<and> mem_role m \<in> {OWNER, ADMIN}"
  by (auto simp: admin_of_def split: option.splits)

definition concurrent :: "ext \<Rightarrow> settings \<Rightarrow> outcome txn set" where
  "concurrent X S = range (txn_of X S)"

lemma verified_record_alone: "verified (sound_state X stock) same_row {} (\<lambda>d. True) (record_usage_txn Inr E oid metric q now)"
  by (rule verified_record_usage) simp

lemma verified_concurrent: "P \<in> concurrent X S \<Longrightarrow> verified (sound_state X stock) same_row {} (\<lambda>d. True) P"
proof -
  assume "P \<in> concurrent X S"
  then obtain q where "P = txn_of X S q" by (auto simp: concurrent_def)
  then show ?thesis
    by (cases q) (simp_all add: verified_login verified_rotate verified_revoke verified_accept verified_update_membership
        verified_remove_membership verified_create_organization verified_delete_organization verified_record_alone
        verified_store_webhook verified_process_webhook verified_mark_webhook verified_register verified_update_organization
        verified_create_invitation verified_create_api_key verified_revoke_api_key verified_report_usage verified_create_project
        verified_update_project verified_delete_project verified_change_plan)
qed

interpretation services: transactions "concurrent X S" "sound_state X stock" same_row for X S stock
  by unfold_locales (rule verified_concurrent)

lemma sound_initial: "wf_db d \<Longrightarrow> orgs_complete d \<Longrightarrow> sound_state X (\<lambda>t. remaining t d) d []"
  by (simp add: sound_state_def)

end
