(* ===== verification/Concurrent_Quota.thy ===== *)
theory Concurrent_Quota
  imports Concurrent_System
begin

text \<open>
  Usage reports that run at the same time as any other requests: \<open>quota_kept\<close> is the invariant of all
  transactions, in a second interpretation of \<open>transactions\<close> whose guard says what the lock on the row of
  an organization protects, its subscription and its usage. Every program that changes one of these, a
  change of plan and the processing of a webhook among them, holds that lock.
\<close>

section \<open>Programs that write nothing relevant\<close>

primrec only_writes :: "('r \<Rightarrow> db \<Rightarrow> db \<Rightarrow> bool) \<Rightarrow> 'r txn \<Rightarrow> bool" where
  "only_writes W (Fail e) = True"
| "only_writes W (Query f) = (\<forall>d. only_writes W (f d))"
| "only_writes W (ForUpdate sel k) = (\<forall>d S. only_writes W (k d S))"
| "only_writes W (Commit r w) = (\<forall>d d'. w d = Inr d' \<longrightarrow> W r d d')"

lemma only_writes_raising: "(\<And>x. only_writes W (f x)) \<Longrightarrow> only_writes W (raising m f)"
  by (simp add: raising_def split: sum.splits)

lemma only_writes_scalar: "(\<And>x. only_writes W (k x)) \<Longrightarrow> only_writes W (scalar_for_update rows lock Q k)"
  by (simp add: scalar_for_update_def)

lemma verified_only_writes:
  assumes "only_writes W P" "\<And>r d d' h. W r d d' \<Longrightarrow> I d h \<Longrightarrow> I d' (h @ [r]) \<and> (\<forall>l. guard l d d')"
  shows "verified I guard L (\<lambda>d. True) P"
  using assms(1)
proof (induction P arbitrary: L)
  case (Query f)
  then show ?case by (intro verified_query) auto
next
  case (ForUpdate sel k)
  have "verified I guard (L \<union> S) (\<lambda>d. True) (k d S)" for d S
    using ForUpdate.IH [of "k d" "k d S"] ForUpdate.prems by simp
  then show ?case by (intro v_lock [where B = "\<lambda>_ _ _. True"]) simp
next
  case (Commit r w)
  show ?case
  proof (rule v_commit)
    fix d h d'
    assume "I d h" "w d = Inr d'"
    then show "I d' (h @ [r]) \<and> (\<forall>l. l \<notin> L \<longrightarrow> same_row l d d' \<longrightarrow> guard l d d')"
      using assms(2) [of r d d' h] Commit.prems by simp
  qed
qed (rule v_fail)

lemma only_writes_split: "(\<And>a b. only_writes W (f a b)) \<Longrightarrow> only_writes W (case p of (a, b) \<Rightarrow> f a b)"
  by (cases p) simp

lemma only_writes_commit: "(\<And>d d'. w d = Inr d' \<Longrightarrow> W r d d') \<Longrightarrow> only_writes W (Commit r w)"
  by simp

lemma only_writes_query: "(\<And>d. only_writes W (f d)) \<Longrightarrow> only_writes W (Query f)"
  by simp

lemma only_writes_if: "only_writes W P \<Longrightarrow> only_writes W Q \<Longrightarrow> only_writes W (if c then P else Q)"
  by simp

section \<open>Quotas\<close>

definition usage_of :: "uuid \<Rightarrow> db \<Rightarrow> usage_event list" where
  "usage_of oid d = filter (\<lambda>e. use_organization_id e = oid) (usage_events d)"

text \<open>The report an operation makes: its environment, organization, metric, quantity and time.\<close>

fun usage_report :: "operation \<Rightarrow> (runtime \<times> uuid \<times> string \<times> int \<times> datetime option) option" where
  "usage_report (RecordUsageOp E oid metric q now) = Some (E, oid, metric, q, now)"
| "usage_report (ReportUsageOp E raw_key oid q) = Some (later_clock 2 E, oid, API_REQUESTS_METRIC, q, None)"
| "usage_report _ = None"

text \<open>
  The event is stored, it comes from a report, and in the billing period of this report, as the
  subscription of the organization has it, the usage with the event is within the quota of the plan.
\<close>

definition within_quota :: "operation set \<Rightarrow> db \<Rightarrow> usage_event \<Rightarrow> bool" where
  "within_quota Q d ev \<longleftrightarrow> (\<exists>q \<in> Q. \<exists>E now ps pe.
     usage_report q = Some (E, use_organization_id ev, use_metric ev, use_quantity ev, now) \<and> use_id ev = rt_uuid E 0 \<and>
     as_utc (now_or E 1 now) = Inr (use_created_at ev) \<and> ev \<in> set (usage_events d) \<and>
     subscription_period E (find_subscription d (use_organization_id ev)) now = Inr (ps, pe) \<and>
     usage_total d (use_organization_id ev) (use_metric ev) ps pe
       \<le> plan_quota (plan_of_subscription (find_subscription d (use_organization_id ev))))"

definition one_subscription :: "db \<Rightarrow> bool" where
  "one_subscription d \<longleftrightarrow> unique_on sub_id (subscriptions d) \<and> unique_on sub_organization_id (subscriptions d)"

definition quota_kept :: "operation set \<Rightarrow> db \<Rightarrow> outcome list \<Rightarrow> bool" where
  "quota_kept Q d h \<longleftrightarrow> one_subscription d \<and> (\<forall>h' ev. h = h' @ [UsageRecorded ev] \<longrightarrow> within_quota Q d ev)"

text \<open>Who holds the row of the organization may rely on its subscription and its usage.\<close>

definition metered_same :: "uuid \<Rightarrow> db \<Rightarrow> db \<Rightarrow> bool" where
  "metered_same oid d d' = (find_subscription d' oid = find_subscription d oid \<and> usage_of oid d' = usage_of oid d)"

definition usage_guard :: "row_lock \<Rightarrow> db \<Rightarrow> db \<Rightarrow> bool" where
  "usage_guard l d d' = (\<forall>oid. l = OrganizationRow oid \<longrightarrow> metered_same oid d d')"

text \<open>Most programs leave both tables alone, and none of them reports usage.\<close>

definition same_tables :: "db \<Rightarrow> db \<Rightarrow> bool" where
  "same_tables d d' \<longleftrightarrow> subscriptions d' = subscriptions d \<and> usage_events d' = usage_events d"

definition unmetered :: "outcome \<Rightarrow> db \<Rightarrow> db \<Rightarrow> bool" where
  "unmetered r d d' \<longleftrightarrow> (\<forall>ev. r \<noteq> UsageRecorded ev) \<and> same_tables d d'"

lemma usage_total_usage_of: "usage_of oid d' = usage_of oid d \<Longrightarrow> usage_total d' oid metric s e = usage_total d oid metric s e"
proof -
  have u: "usage_total d oid metric s e = sum_list (map use_quantity (filter (\<lambda>x. use_metric x = metric \<and>
      dt_le s (use_created_at x) \<and> dt_lt (use_created_at x) e) (usage_of oid d)))" for d
    by (simp add: usage_total_def usage_of_def conj_ac)
  show "usage_of oid d' = usage_of oid d \<Longrightarrow> ?thesis" by (simp add: u)
qed

lemma metered_same_refl: "metered_same oid d d"
  by (simp add: metered_same_def)

lemma metered_same_trans: "metered_same oid d d1 \<Longrightarrow> metered_same oid d1 d2 \<Longrightarrow> metered_same oid d d2"
  by (simp add: metered_same_def)

lemma same_tables_metered: "same_tables d d' \<Longrightarrow> metered_same oid d d'" "same_tables d d' \<Longrightarrow> one_subscription d' = one_subscription d"
  by (simp_all add: same_tables_def metered_same_def find_subscription_def usage_of_def one_subscription_def)

lemma same_tables_refl: "same_tables d d"
  by (simp add: same_tables_def)

lemma same_tables_trans: "same_tables d d1 \<Longrightarrow> same_tables d1 d2 \<Longrightarrow> same_tables d d2"
  by (simp add: same_tables_def)

lemma verified_unmetered: "only_writes unmetered P \<Longrightarrow> verified (quota_kept Q) usage_guard L (\<lambda>d. True) P"
  by (erule verified_only_writes) (auto simp: unmetered_def quota_kept_def usage_guard_def same_tables_metered)

lemma same_tables_audit: "write_audit E o' actor act rty rid meta ip d = Inr (a, d') \<Longrightarrow> same_tables d d'"
  by (drule write_audit_InrD(2)) (simp add: same_tables_def)

lemma same_tables_token: "add_refresh_token t d1 = Inr d' \<Longrightarrow> same_tables d d1 \<Longrightarrow> same_tables d d'"
  using add_refresh_token_InrD [of t d1 d'] by (simp add: same_tables_def)

section \<open>Tokens, invitations and memberships\<close>

lemma only_writes_issue_tokens:
  assumes "\<And>d. same_tables d (pending d)" "\<And>x ev. f x \<noteq> UsageRecorded ev"
  shows "only_writes unmetered (issue_tokens_txn X S E u pending f)"
  unfolding issue_tokens_txn_def Let_def
  by (intro only_writes_raising only_writes_split only_writes_commit) (simp add: unmetered_def assms(2) same_tables_token [OF _ assms(1)])

lemma saved_token_same: "same_tables d (save_refresh_token t d)"
  by (simp add: same_tables_def save_refresh_token_def)

lemma only_writes_tokens:
  "only_writes unmetered (login_txn X S E dummy email pw)"
  "only_writes unmetered (rotate_refresh_token_txn X S E raw)"
  "only_writes unmetered (revoke_refresh_token_txn X E raw)"
proof -
  show "only_writes unmetered (login_txn X S E dummy email pw)"
    by (simp add: login_txn_def only_writes_raising only_writes_issue_tokens same_tables_refl)
  show "only_writes unmetered (rotate_refresh_token_txn X S E raw)"
    unfolding rotate_refresh_token_txn_def token_for_update_def Let_def
    by (intro only_writes_scalar only_writes_raising) (simp add: only_writes_raising only_writes_issue_tokens saved_token_same)
  show "only_writes unmetered (revoke_refresh_token_txn X E raw)"
    unfolding revoke_refresh_token_txn_def token_for_update_def
    by (intro only_writes_scalar only_writes_raising) (auto simp: unmetered_def saved_token_same same_tables_refl split: if_splits)
qed

lemma only_writes_accept: "only_writes unmetered (accept_invitation_txn X E raw u)"
  unfolding accept_invitation_txn_def Let_def
  by (intro only_writes_scalar only_writes_raising)
    (auto intro!: only_writes_raising dest!: add_membership_InrD write_audit_InrD(2) simp: unmetered_def same_tables_def save_invitation_def)

lemma only_writes_lock_both: "(\<And>a t. only_writes W (k a t)) \<Longrightarrow> only_writes W (lock_both o' mid uid k)"
  by (simp add: lock_both_def current_membership_txn_def membership_for_update_def only_writes_raising only_writes_scalar)

lemma only_writes_ensure: "only_writes W k \<Longrightarrow> only_writes W (ensure_another_owner_txn o' mid k)"
  by (simp add: ensure_another_owner_txn_def)

lemma same_tables_role: "same_tables d (if c then d else set_role i r d)"
  by (simp add: same_tables_def set_role_def)

lemma only_writes_audited:
  assumes "\<And>d. same_tables d (f d)" "\<And>d. same_tables d (g d)" "\<And>ev. x \<noteq> UsageRecorded ev"
  shows "only_writes unmetered (Commit x (\<lambda>d. r_bind (write_audit E o' a act rty rid meta ip (f d)) (\<lambda>(_, d1). Inr (g d1))))"
proof (rule only_writes_commit)
  fix d d'
  assume "r_bind (write_audit E o' a act rty rid meta ip (f d)) (\<lambda>(_, d1). Inr (g d1)) = Inr d'"
  then obtain e d1 where e: "write_audit E o' a act rty rid meta ip (f d) = Inr (e, d1)" "d' = g d1" by auto
  show "unmetered x d d'"
    unfolding e(2) unmetered_def
    by (intro conjI allI assms(3) same_tables_trans [OF same_tables_trans [OF assms(1) same_tables_audit [OF e(1)]] assms(2)])
qed

lemma same_tables_delete: "same_tables d (delete_membership_row i d)"
  by (simp add: same_tables_def delete_membership_row_def)

lemma only_writes_members:
  "only_writes unmetered (update_membership_txn E o' mid uid r)"
  "only_writes unmetered (remove_membership_txn E o' mid uid)"
  unfolding update_membership_txn_def remove_membership_txn_def Let_def
  by (intro only_writes_lock_both only_writes_raising,
      simp only: if_split only_writes_ensure simp_thms outcome.distinct
        only_writes_audited [OF same_tables_role, where g = "\<lambda>d. d", OF same_tables_refl]
        only_writes_audited [OF same_tables_refl, where g = "delete_membership_row _", OF same_tables_delete])+

section \<open>Webhooks that are stored and marked\<close>

lemma same_tables_webhook: "same_tables d (save_webhook_event w d)"
  by (simp add: same_tables_def save_webhook_event_def)

lemma same_tables_stored: "add_webhook_event w d = Inr d' \<Longrightarrow> same_tables d d'"
  by (drule add_webhook_event_InrD) (simp add: same_tables_def)

lemma only_writes_webhooks:
  "only_writes unmetered (store_webhook_event_txn E event)"
  "only_writes unmetered (mark_webhook_failed_txn i)"
proof -
  show "only_writes unmetered (store_webhook_event_txn E event)"
    by (auto simp: store_webhook_event_txn_def Let_def unmetered_def same_tables_refl same_tables_stored split: option.splits sum.splits exc.splits)
  show "only_writes unmetered (mark_webhook_failed_txn i)"
    unfolding mark_webhook_failed_txn_def webhook_for_update_def
    by (intro only_writes_raising only_writes_scalar)
      (auto simp: unmetered_def same_tables_refl same_tables_webhook split: option.splits if_splits)
qed

section \<open>Accounts, keys and projects\<close>

text \<open>A commit that writes another table and its audit entry.\<close>

lemma only_writes_added:
  assumes "\<And>d d1. add d = Inr d1 \<Longrightarrow> same_tables d d1" "\<And>ev. x \<noteq> UsageRecorded ev"
  shows "only_writes unmetered (Commit x (\<lambda>d. r_bind (add d) (\<lambda>d1.
    r_bind (write_audit E o' act a rty rid meta ip d1) (\<lambda>(_, d2). Inr d2))))"
  by (rule only_writes_commit) (auto intro: same_tables_trans [OF assms(1) same_tables_audit] simp: unmetered_def assms(2))

lemma same_tables_added:
  "add_user u d = Inr d' \<Longrightarrow> same_tables d d'"
  "save_organization g d = Inr d' \<Longrightarrow> same_tables d d'"
  "add_invitation i d = Inr d' \<Longrightarrow> same_tables d d'"
  "add_api_key k d = Inr d' \<Longrightarrow> same_tables d d'"
  "touch_api_key k n d = Inr d' \<Longrightarrow> same_tables d d'"
  "add_project p d = Inr d' \<Longrightarrow> same_tables d d'"
  by (auto simp: add_user_def save_organization_def add_invitation_def add_api_key_def touch_api_key_def add_project_def
      same_tables_def split: if_splits)

lemma same_tables_rows:
  "same_tables d (save_api_key k d)" "same_tables d (save_project p d)" "same_tables d (delete_project_row i d)"
  by (simp_all add: same_tables_def save_api_key_def save_project_def delete_project_row_def)

lemma only_writes_register: "only_writes unmetered (register_user_txn X E email pw)"
  unfolding register_user_txn_def Let_def
  by (intro only_writes_query only_writes_raising only_writes_commit) (simp add: unmetered_def on_integrity_error_Inr same_tables_added(1))

lemma only_writes_update_organization: "only_writes unmetered (update_organization_txn E o' actor data)"
  unfolding update_organization_txn_def Let_def only_writes.simps(3)
  by (intro allI only_writes_raising only_writes_added) (simp_all add: on_integrity_error_Inr same_tables_added(2))

lemma only_writes_create_invitation: "only_writes unmetered (create_invitation_txn X S E o' actor data)"
  unfolding create_invitation_txn_def current_membership_txn_def membership_for_update_def Let_def
  by (intro only_writes_query only_writes_raising only_writes_scalar only_writes_added) (erule same_tables_added(3), simp)

lemma only_writes_keys:
  "only_writes unmetered (create_api_key_txn X E o' actor name)"
  "only_writes unmetered (revoke_api_key_txn E o' kid actor)"
proof -
  show "only_writes unmetered (create_api_key_txn X E o' actor name)"
    unfolding create_api_key_txn_def lock_owner_txn_def Let_def
    by (intro only_writes_scalar only_writes_raising only_writes_split only_writes_added) (erule same_tables_added(4), simp)
  show "only_writes unmetered (revoke_api_key_txn E o' kid actor)"
    unfolding revoke_api_key_txn_def lock_owner_txn_def
    by (intro only_writes_scalar only_writes_raising only_writes_if
        only_writes_audited [where g = "\<lambda>d. d", OF same_tables_rows(1) same_tables_refl])
      (simp_all add: unmetered_def same_tables_refl)
qed

lemma only_writes_projects:
  "only_writes unmetered (create_project_txn E o' actor data)"
  "only_writes unmetered (update_project_txn E o' pid actor data')"
  "only_writes unmetered (delete_project_txn E o' pid actor)"
proof -
  show "only_writes unmetered (create_project_txn E o' actor data)"
    unfolding create_project_txn_def Let_def
    by (intro only_writes_query only_writes_raising only_writes_added) (erule same_tables_added(6), simp)
  show "only_writes unmetered (update_project_txn E o' pid actor data')"
    unfolding update_project_txn_def project_for_update_def Let_def
    by (intro only_writes_scalar only_writes_raising only_writes_audited [where g = "\<lambda>d. d", OF same_tables_rows(2) same_tables_refl]) simp
  show "only_writes unmetered (delete_project_txn E o' pid actor)"
    unfolding delete_project_txn_def project_for_update_def
    by (intro only_writes_scalar only_writes_raising only_writes_audited [where f = "\<lambda>d. d", OF same_tables_refl same_tables_rows(3)]) simp
qed

section \<open>Programs that hold the lock\<close>

lemma guard_others:
  assumes "OrganizationRow o' \<in> L" "\<forall>oid. oid \<noteq> o' \<longrightarrow> metered_same oid d d'" "l \<notin> L"
  shows "usage_guard l d d'"
  unfolding usage_guard_def
proof (intro allI impI)
  fix oid
  assume "l = OrganizationRow oid"
  then have "oid \<noteq> o'" using assms(1,3) by auto
  then show "metered_same oid d d'" using assms(2) by simp
qed

text \<open>
  A commit under the lock on the organization \<open>o'\<close> that reports no usage keeps the invariant and every
  guard when it keeps subscriptions unique and leaves the other organizations alone.
\<close>

lemma verified_locked_commit:
  assumes "OrganizationRow o' \<in> L" "\<And>ev. r \<noteq> UsageRecorded ev"
    "\<And>d d'. one_subscription d \<Longrightarrow> A d \<Longrightarrow> w d = Inr d' \<Longrightarrow> one_subscription d' \<and> (\<forall>oid. oid \<noteq> o' \<longrightarrow> metered_same oid d d')"
  shows "verified (quota_kept Q) usage_guard L A (Commit r w)"
proof (rule v_commit)
  fix d h d'
  assume i: "quota_kept Q d h" and a: "A d" "w d = Inr d'"
  have c: "one_subscription d'" "\<forall>oid. oid \<noteq> o' \<longrightarrow> metered_same oid d d'"
    using assms(3) [OF _ a] i by (simp_all add: quota_kept_def)
  have "quota_kept Q d' (h @ [r])" using c(1) assms(2) by (simp add: quota_kept_def)
  moreover have "\<forall>l. l \<notin> L \<longrightarrow> usage_guard l d d'" using guard_others [OF assms(1) c(2)] by blast
  ultimately show "quota_kept Q d' (h @ [r]) \<and> (\<forall>l. l \<notin> L \<longrightarrow> same_row l d d' \<longrightarrow> usage_guard l d d')" by blast
qed

lemma stable_metered:
  assumes "OrganizationRow o' \<in> L" "\<And>d d'. metered_same o' d d' \<Longrightarrow> A d \<Longrightarrow> A d'"
  shows "stable (quota_kept Q) usage_guard L A"
  using assms by (auto simp: stable_def usage_guard_def)

lemma filter_update_where:
  "\<forall>x \<in> set xs. P x \<longrightarrow> \<not> R x \<and> \<not> R (f x) \<Longrightarrow> filter R (update_where P f xs) = filter R xs"
  by (induction xs) (auto simp: update_where_def)

text \<open>Changing the row of one subscription leaves those of other organizations alone.\<close>

lemma subscription_row_changed:
  assumes "one_subscription d" "s \<in> set (subscriptions d)" "sub_organization_id s = o'"
    "\<And>x. sub_id x = sub_id s \<Longrightarrow> sub_id (f x) = sub_id s"
    "\<And>x. x \<in> set (subscriptions d) \<Longrightarrow> sub_id x = sub_id s \<Longrightarrow> sub_organization_id (f x) = o'"
    "subscriptions d' = update_where (\<lambda>x. sub_id x = sub_id s) f (subscriptions d)" "usage_events d' = usage_events d"
  shows "one_subscription d' \<and> (\<forall>oid. oid \<noteq> o' \<longrightarrow> metered_same oid d d')"
proof -
  have u: "x = s" if "x \<in> set (subscriptions d)" "sub_id x = sub_id s" for x
    by (rule unique_onD [OF _ that(1) assms(2) that(2)]) (use assms(1) in \<open>simp add: one_subscription_def\<close>)
  have "map sub_id (subscriptions d') = map sub_id (subscriptions d)"
    unfolding assms(6) update_where_def using assms(4) by auto
  moreover have "map sub_organization_id (subscriptions d') = map sub_organization_id (subscriptions d)"
    unfolding assms(6) update_where_def using assms(3,5) u by auto
  moreover have "metered_same oid d d'" if "oid \<noteq> o'" for oid
  proof -
    have "filter (\<lambda>x. sub_organization_id x = oid) (subscriptions d') = filter (\<lambda>x. sub_organization_id x = oid) (subscriptions d)"
      unfolding assms(6) using u assms(3,5) that by (intro filter_update_where) auto
    then show ?thesis by (simp add: metered_same_def find_subscription_def usage_of_def assms(7))
  qed
  ultimately show ?thesis using assms(1) by (simp add: one_subscription_def unique_on_def)
qed

lemma add_subscription_metered:
  assumes "add_subscription s d = Inr d'" "one_subscription d"
  shows "one_subscription d'" "s \<in> set (subscriptions d')" "oid \<noteq> sub_organization_id s \<Longrightarrow> metered_same oid d d'"
  using assms by (auto simp: add_subscription_def one_subscription_def unique_on_def metered_same_def find_subscription_def usage_of_def
      split: if_splits)

lemma find_subscription_unique:
  "one_subscription d \<Longrightarrow> s \<in> set (subscriptions d) \<Longrightarrow> find_subscription d (sub_organization_id s) = Some s"
  unfolding find_subscription_def one_subscription_def by (rule scalar_filter_unique [of sub_organization_id]) auto

text \<open>The subscription a change of plan or a webhook works on: the one read under the lock, or a new one.\<close>

lemma subscription_for_change:
  assumes "(case loaded of Some s \<Rightarrow> Inr (s, d) | None \<Rightarrow> create_default_subscription E o' now d) = Inr (s, d1)"
    "one_subscription d" "\<forall>s. loaded = Some s \<longrightarrow> find_subscription d o' = Some s"
  shows "one_subscription d1 \<and> s \<in> set (subscriptions d1) \<and> sub_organization_id s = o' \<and> (\<forall>oid. oid \<noteq> o' \<longrightarrow> metered_same oid d d1)"
proof (cases loaded)
  case None
  note c = create_default_subscription_InrD(1,2) [of E o' now d s d1]
  have a: "add_subscription s d = Inr d1" "sub_organization_id s = o'" using assms(1) None c by simp_all
  show ?thesis using add_subscription_metered [OF a(1) assms(2)] a(2) by auto
next
  case (Some x)
  then show ?thesis using assms find_subscriptionD [of d o' s] by (simp add: metered_same_refl)
qed

lemma apply_plan_metered:
  assumes "apply_plan_txn E o' plan actor ip now loaded d = Inr d'" "one_subscription d" "\<forall>s. loaded = Some s \<longrightarrow> find_subscription d o' = Some s"
  shows "one_subscription d' \<and> (\<forall>oid. oid \<noteq> o' \<longrightarrow> metered_same oid d d')"
proof -
  obtain s d1 ps pe d2 where a: "(case loaded of Some s \<Rightarrow> Inr (s, d) | None \<Rightarrow> create_default_subscription E o' now d) = Inr (s, d1)"
    "update_subscription s (touch_subscription E s (s\<lparr>sub_plan := plan, sub_status := ACTIVE,
      sub_current_period_start := ps, sub_current_period_end := pe\<rparr>)) d1 = Inr d2"
    "(if sub_plan s \<noteq> plan then r_bind (write_audit (later_uuid 1 E) o' (Some actor) ''subscription.changed'' ''subscription''
        (uuid_str (sub_id s)) [(''from_plan'', JStr (plan_value (sub_plan s))), (''to_plan'', JStr (plan_value plan))] ip d2) (\<lambda>(_, d3). Inr d3)
      else Inr d2) = Inr d'"
    using assms(1) by (auto simp: apply_plan_txn_def Let_def simp del: One_nat_def split del: if_split)
  note s = subscription_for_change [OF a(1) assms(2,3)]
  let ?new = "touch_subscription E s (s\<lparr>sub_plan := plan, sub_status := ACTIVE, sub_current_period_start := ps, sub_current_period_end := pe\<rparr>)"
  have c: "sub_id (changed_columns s n x) = sub_id x" "sub_organization_id (changed_columns s n x) = sub_organization_id x" for n x
    by (simp_all add: changed_columns_def)
  have u: "x = s" if "x \<in> set (subscriptions d1)" "sub_id x = sub_id s" for x
    by (rule unique_onD [OF _ that(1) _ that(2)]) (use s in \<open>simp_all add: one_subscription_def\<close>)
  have "d2 = d1 \<or> (subscriptions d2 = update_where (\<lambda>x. sub_id x = sub_id s) (changed_columns s ?new) (subscriptions d1) \<and>
      usage_events d2 = usage_events d1)"
    using a(2) by (auto simp: update_subscription_def split: if_splits)
  then have d2: "one_subscription d2 \<and> (\<forall>oid. oid \<noteq> o' \<longrightarrow> metered_same oid d1 d2)"
  proof
    assume "d2 = d1"
    then show ?thesis using s by (simp add: metered_same_refl)
  next
    assume d2: "subscriptions d2 = update_where (\<lambda>x. sub_id x = sub_id s) (changed_columns s ?new) (subscriptions d1) \<and>
      usage_events d2 = usage_events d1"
    show ?thesis
    proof (rule subscription_row_changed [of d1 s o' "changed_columns s ?new" d2])
      fix x
      assume "x \<in> set (subscriptions d1)" "sub_id x = sub_id s"
      then have "x = s" by (rule u)
      then show "sub_organization_id (changed_columns s ?new x) = o'" using s c(2) by simp
    qed (use s d2 c(1) in simp_all)
  qed
  have "same_tables d2 d'" using a(3) by (auto simp: same_tables_refl intro: same_tables_audit split: if_splits)
  note t = this
  show ?thesis using s d2 same_tables_metered(2) [OF t] same_tables_metered(1) [OF t] by (auto simp: metered_same_def)
qed

lemma verified_change_plan_quota: "verified (quota_kept Q) usage_guard {} (\<lambda>d. True) (change_plan_txn E o' plan actor ip now)"
  unfolding change_plan_txn_def
proof (rule verified_scalar_for_update [where B = "\<lambda>_ d. True"], goal_cases)
  case (3 d h L g)
  then have l: "OrganizationRow o' \<in> {} \<union> L" by simp
  have "verified (quota_kept Q) usage_guard ({} \<union> L) (\<lambda>d. True) (Query (\<lambda>d. Commit (PlanChanged o' plan)
      (apply_plan_txn E o' plan actor ip now (find_subscription d o'))))"
  proof (rule v_query [where B = "\<lambda>d1 d. find_subscription d o' = find_subscription d1 o'"], intro conjI)
    fix d1
    show "stable (quota_kept Q) usage_guard ({} \<union> L) (\<lambda>d. find_subscription d o' = find_subscription d1 o')"
      by (rule stable_metered [OF l]) (simp add: metered_same_def)
    show "verified (quota_kept Q) usage_guard ({} \<union> L) (\<lambda>d. find_subscription d o' = find_subscription d1 o')
        (Commit (PlanChanged o' plan) (apply_plan_txn E o' plan actor ip now (find_subscription d1 o')))"
      by (rule verified_locked_commit [OF l]) (simp, erule (1) apply_plan_metered, simp)
  qed simp
  then show ?case by (auto intro!: verified_raising)
qed (simp_all add: verified_raising v_fail require_def)

lemma apply_webhook_metered:
  assumes "apply_webhook_txn X E now w obj o' locked d = Inr d'" "one_subscription d" "\<forall>s. locked = Some s \<longrightarrow> find_subscription d o' = Some s"
  shows "one_subscription d' \<and> (\<forall>oid. oid \<noteq> o' \<longrightarrow> metered_same oid d d')"
proof -
  obtain s d1 ps pe s' d2 a d3 rid meta w' where a: "(case locked of Some s \<Rightarrow> Inr (s, d) | None \<Rightarrow> create_default_subscription (later_clock 2 E) o' None d) = Inr (s, d1)"
    "apply_event X (whk_event_type w) obj ps pe s = Inr s'" "save_subscription (touch_subscription E s s') d1 = Inr d2"
    and f: "write_audit (later_uuid 1 E) o' None ''subscription.changed'' ''subscription'' rid meta None d2 = Inr (a, d3)"
    "d' = save_webhook_event w' d3"
    using assms(1) by (auto simp: apply_webhook_txn_def Let_def simp del: One_nat_def)
  note s = subscription_for_change [OF a(1) assms(2,3)]
  note k = apply_event_keys [OF a(2)]
  let ?new = "touch_subscription E s s'"
  have n: "sub_id ?new = sub_id s" "sub_organization_id ?new = o'" using s k by (simp_all add: touch_subscription_def)
  have "subscriptions d2 = update_where (\<lambda>x. sub_id x = sub_id s) (\<lambda>_. ?new) (subscriptions d1)" "usage_events d2 = usage_events d1"
    using save_subscription_InrD [OF a(3)] n by (simp_all add: save_row_def)
  then have d2: "one_subscription d2 \<and> (\<forall>oid. oid \<noteq> o' \<longrightarrow> metered_same oid d1 d2)"
    using s n by (intro subscription_row_changed [of d1 s o' "\<lambda>_. ?new" d2]) auto
  have "same_tables d2 d'" using same_tables_trans [OF same_tables_audit [OF f(1)] same_tables_webhook] by (simp add: f(2))
  note t = this
  show ?thesis using s d2 same_tables_metered(2) [OF t] same_tables_metered(1) [OF t] by (auto simp: metered_same_def)
qed

lemma verified_process_webhook_quota: "verified (quota_kept Q) usage_guard {} (\<lambda>d. True) (process_webhook_event_txn X E i now)"
proof -
  have locked: "verified (quota_kept Q) usage_guard L (\<lambda>d. True) (locked_subscription_txn o' (\<lambda>locked.
      Commit (WebhookApplied j) (apply_webhook_txn X E now w obj o' locked)))" for L j w obj o'
    unfolding locked_subscription_txn_def
  proof (rule verified_scalar_for_update [where B = "\<lambda>_ d. True"], goal_cases)
    case (3 d h S g)
    then have l: "OrganizationRow o' \<in> L \<union> S" by simp
    have "verified (quota_kept Q) usage_guard (L \<union> S) (\<lambda>d. True) (scalar_for_update subscriptions (\<lambda>s. SubscriptionRow (sub_id s))
        (\<lambda>s. sub_organization_id s = o') (\<lambda>locked. Commit (WebhookApplied j) (apply_webhook_txn X E now w obj o' locked)))"
    proof (rule verified_scalar_for_update [where B = "\<lambda>s d. find_subscription d o' = Some s"], goal_cases)
      case (2 T)
      show ?case using l by (intro verified_locked_commit [where o' = o']) (simp, simp, erule (1) apply_webhook_metered, simp)
    next
      case (3 d h T s)
      have f: "find_subscription d o' = Some s" using find_subscription_unique [of d s] 3(1,3,4) by (simp add: quota_kept_def)
      have m: "OrganizationRow o' \<in> L \<union> S \<union> T" using l by simp
      show ?case
      proof (intro conjI f)
        show "stable (quota_kept Q) usage_guard (L \<union> S \<union> T) (\<lambda>d. find_subscription d o' = Some s)"
          by (rule stable_metered [OF m]) (simp add: metered_same_def)
        show "verified (quota_kept Q) usage_guard (L \<union> S \<union> T) (\<lambda>d. find_subscription d o' = Some s)
            (Commit (WebhookApplied j) (apply_webhook_txn X E now w obj o' (Some s)))"
          by (rule verified_locked_commit [OF m]) (simp, erule (1) apply_webhook_metered, simp)
      qed
    qed simp
    then show ?case by (auto simp: require_def)
  qed (simp_all add: require_def v_fail)
  have skipped: "verified (quota_kept Q) usage_guard L (\<lambda>d. True) (Commit (WebhookSkipped j) Inr)" for L j
    by (rule verified_unmetered) (simp add: unmetered_def same_tables_refl)
  show ?thesis
    unfolding process_webhook_event_txn_def webhook_for_update_def
    by (intro verified_raising verified_scalar_for_update [where B = "\<lambda>_ d. True"])
      (auto simp: require_def v_fail intro!: verified_raising locked skipped)
qed

lemma verified_delete_quota: "verified (quota_kept Q) usage_guard {} (\<lambda>d. True) (delete_organization_txn E o' actor)"
  unfolding delete_organization_txn_def Let_def
proof (rule v_lock [where B = "\<lambda>_ _ _. True"], intro conjI TrueI stable_True)
  fix d0 :: db and S
  let ?delete = "Commit (OrganizationDeleted o') (\<lambda>d. r_bind (write_audit E o' (Some actor) ''organization.deleted'' ''organization''
      (uuid_str o') [] None d) (\<lambda>(_, d1). Inr (delete_organization_row o' d1)))"
  have "verified (quota_kept Q) usage_guard ({} \<union> S) (\<lambda>_. True) ?delete" if l: "OrganizationRow o' \<in> {} \<union> S"
  proof (rule verified_locked_commit [OF l])
    fix d d'
    assume u: "one_subscription d" and "r_bind (write_audit E o' (Some actor) ''organization.deleted'' ''organization''
      (uuid_str o') [] None d) (\<lambda>(_, d1). Inr (delete_organization_row o' d1)) = Inr d'"
    then obtain a d1 where d1: "write_audit E o' (Some actor) ''organization.deleted'' ''organization'' (uuid_str o') [] None d = Inr (a, d1)"
      "d' = delete_organization_row o' d1" by auto
    note t = same_tables_audit [OF d1(1)]
    have "distinct (map k xs) \<Longrightarrow> distinct (map k (filter R xs))" for k :: "subscription \<Rightarrow> uuid" and R xs
      by (simp add: distinct_map_filter)
    then have "one_subscription d'" using u t by (simp add: d1(2) one_subscription_def unique_on_def delete_organization_row_def same_tables_def)
    moreover have "metered_same oid d d'" if "oid \<noteq> o'" for oid
    proof -
      have "filter (\<lambda>x. sub_organization_id x \<noteq> o' \<and> sub_organization_id x = oid) (subscriptions d) = filter (\<lambda>x. sub_organization_id x = oid) (subscriptions d)"
        "filter (\<lambda>x. use_organization_id x \<noteq> o' \<and> use_organization_id x = oid) (usage_events d) = filter (\<lambda>x. use_organization_id x = oid) (usage_events d)"
        using that by (auto intro: filter_cong)
      then show ?thesis using t
        by (simp add: d1(2) metered_same_def find_subscription_def usage_of_def delete_organization_row_def same_tables_def)
    qed
    ultimately show "one_subscription d' \<and> (\<forall>oid. oid \<noteq> o' \<longrightarrow> metered_same oid d d')" by blast
  qed simp
  then show "verified (quota_kept Q) usage_guard ({} \<union> S) (\<lambda>_. True)
    (if \<exists>m. (m \<in> set (memberships d0) \<and> mem_organization_id m = o' \<and> mem_user_id m = actor \<and> mem_role m = OWNER \<and> o' \<in> org_ids d0) \<and>
        {OrganizationRow o', MembershipRow (mem_id m)} \<subseteq> S
     then ?delete else Fail (ForbiddenError ''owner_required'' ''Only an owner can delete the organization''))"
    by (auto simp: v_fail)
qed

text \<open>A new organization was locked by nobody: its row is not the same before and after.\<close>

lemma verified_create_quota: "verified (quota_kept Q) usage_guard {} (\<lambda>d. True) (create_organization_txn E actor data)"
  unfolding create_organization_txn_def Let_def
proof (intro verified_query verified_raising stable_True, rule v_commit)
  fix d h d'
  let ?o = "\<lparr>org_id = rt_uuid E 0, org_name = oc_name data, org_slug = py_lower (oc_slug data),
    org_created_at = rt_db_now E, org_updated_at = rt_db_now E\<rparr>"
  let ?m = "\<lparr>mem_id = rt_uuid E 1, mem_user_id = actor, mem_organization_id = org_id ?o, mem_role = OWNER, mem_joined_at = rt_db_now E\<rparr>"
  assume i: "quota_kept Q d h" and "r_bind (on_integrity_error slug_taken (r_bind (add_organization ?o d) (\<lambda>d1.
      r_bind (add_membership ?m d1) (create_default_subscription (later_uuid 2 E) (org_id ?o) None)))) (\<lambda>(_, d3).
      r_bind (write_audit (later_uuid 3 E) (org_id ?o) (Some actor) ''organization.created'' ''organization''
        (uuid_str (org_id ?o)) [] None d3) (\<lambda>(_, d4). Inr d4)) = Inr d'"
  then obtain d1 d2 s d3 e where a: "add_organization ?o d = Inr d1" "add_membership ?m d1 = Inr d2"
    "create_default_subscription (later_uuid 2 E) (org_id ?o) None d2 = Inr (s, d3)"
    "write_audit (later_uuid 3 E) (org_id ?o) (Some actor) ''organization.created'' ''organization'' (uuid_str (org_id ?o)) [] None d3 = Inr (e, d')"
    by auto
  note s = create_default_subscription_InrD(1,2) [OF a(3)]
  have t: "same_tables d d2" using a(1,2) by (auto simp: add_organization_def add_membership_def same_tables_def split: if_splits)
  note t' = same_tables_audit [OF a(4)]
  have u: "one_subscription d2" using i same_tables_metered(2) [OF t] by (simp add: quota_kept_def)
  have m: "metered_same oid d d'" if "oid \<noteq> rt_uuid E 0" for oid
    using add_subscription_metered(3) [OF s(1) u, of oid] s(2) that
    by (intro metered_same_trans [OF same_tables_metered(1) [OF t] metered_same_trans [OF _ same_tables_metered(1) [OF t']]]) simp
  have g: "\<not> same_row (OrganizationRow (rt_uuid E 0)) d d'"
    using a(1,2) add_subscription_InrD [OF s(1)] write_audit_InrD(2) [OF a(4)]
    by (auto simp: add_organization_def add_membership_def split: if_splits)
  have "usage_guard l d d'" if "same_row l d d'" for l
    unfolding usage_guard_def
  proof (intro allI impI m)
    fix oid
    assume "l = OrganizationRow oid"
    then show "oid \<noteq> rt_uuid E 0" using g that by metis
  qed
  moreover have "quota_kept Q d' (h @ [OrganizationCreated ?o])"
    using add_subscription_metered(1) [OF s(1) u] same_tables_metered(2) [OF t'] by (simp add: quota_kept_def)
  ultimately show "quota_kept Q d' (h @ [OrganizationCreated ?o]) \<and> (\<forall>l. l \<notin> {} \<longrightarrow> same_row l d d' \<longrightarrow> usage_guard l d d')" by blast
qed

section \<open>Reports\<close>

text \<open>A report reads the usage after it locked the organization, so it still holds when the event is stored.\<close>

lemma report_commit:
  assumes "q \<in> Q" "usage_report q = Some (E, o', metric, n, now)" "as_utc (now_or E 1 now) = Inr created" "0 < n"
    "ev = \<lparr>use_id = rt_uuid E 0, use_organization_id = o', use_metric = metric, use_quantity = n, use_created_at = created\<rparr>"
    "add_usage_event ev d = Inr d'" "subscription_period E (find_subscription d o') now = Inr (ps, pe)"
    "usage_total d o' metric ps pe + n \<le> plan_quota (plan_of_subscription (find_subscription d o'))" "one_subscription d"
  shows "quota_kept Q d' (h @ [UsageRecorded ev])" "oid \<noteq> o' \<Longrightarrow> metered_same oid d d'"
proof -
  have d': "d' = d\<lparr>usage_events := usage_events d @ [ev]\<rparr>" using add_usage_event_InrD [OF assms(6)] by simp
  have f: "find_subscription d' oid = find_subscription d oid" for oid by (simp add: d' find_subscription_def)
  have "usage_total d' o' metric ps pe \<le> usage_total d o' metric ps pe + n"
    using assms(4) by (simp add: d' usage_total_append assms(5))
  then have "usage_total d' o' metric ps pe \<le> plan_quota (plan_of_subscription (find_subscription d' o'))" using assms(8) f by simp
  then have "within_quota Q d' ev"
    using assms(1-3,7) unfolding within_quota_def f
    by (intro bexI [of _ q] exI [of _ E] exI [of _ now] exI [of _ ps] exI [of _ pe] conjI) (simp_all add: assms(5) d')
  then show "quota_kept Q d' (h @ [UsageRecorded ev])" using assms(9) by (simp add: quota_kept_def d' one_subscription_def)
  show "oid \<noteq> o' \<Longrightarrow> metered_same oid d d'" by (simp add: metered_same_def find_subscription_def d' usage_of_def assms(5))
qed

lemma verified_report:
  assumes "\<And>d d'. pending d = Inr d' \<Longrightarrow> same_tables d d'" "OrganizationRow o' \<in> L" "q \<in> Q"
    "usage_report q = Some (E, o', metric, n, now)" "subscription_period E sub now = Inr (ps, pe)" "0 < n"
  shows "verified (quota_kept Q) usage_guard L (\<lambda>d. find_subscription d o' = sub)
    (report_within_txn pending E o' metric n now (plan_quota (plan_of_subscription sub)) ps pe)"
  unfolding report_within_txn_def Let_def
proof (rule v_query [where B = "\<lambda>d1 d. find_subscription d o' = sub \<and> usage_of o' d = usage_of o' d1"], intro conjI)
  fix d1 :: db and h1
  let ?limit = "plan_quota (plan_of_subscription sub)"
  let ?A = "\<lambda>d. find_subscription d o' = sub \<and> usage_of o' d = usage_of o' d1"
  assume "find_subscription d1 o' = sub"
  then show "find_subscription d1 o' = sub" .
  show "stable (quota_kept Q) usage_guard L ?A" by (rule stable_metered [OF assms(2)]) (simp add: metered_same_def)
  have commit: "verified (quota_kept Q) usage_guard L ?A (Commit (UsageRecorded ev) (\<lambda>d. r_bind (pending d) (add_usage_event ev)))"
    if ev: "\<not> ?limit < usage_total d1 o' metric ps pe + n" "as_utc (now_or E 1 now) = Inr created"
      "ev = \<lparr>use_id = rt_uuid E 0, use_organization_id = o', use_metric = metric, use_quantity = n, use_created_at = created\<rparr>" for ev created
  proof (rule v_commit)
    fix d h d'
    assume i: "quota_kept Q d h" and a: "?A d" and "r_bind (pending d) (add_usage_event ev) = Inr d'"
    then obtain d2 where p: "pending d = Inr d2" and w: "add_usage_event ev d2 = Inr d'" by auto
    note t = assms(1) [OF p]
    have d2: "find_subscription d2 o' = sub" "one_subscription d2" "usage_total d2 o' metric ps pe = usage_total d1 o' metric ps pe"
      using same_tables_metered [OF t] a i usage_total_usage_of [of o' d2 d1] by (auto simp: metered_same_def quota_kept_def)
    note c = report_commit [OF assms(3,4) ev(2) assms(6) ev(3) w, of ps pe]
    have k: "subscription_period E (find_subscription d2 o') now = Inr (ps, pe)"
      "usage_total d2 o' metric ps pe + n \<le> plan_quota (plan_of_subscription (find_subscription d2 o'))"
      using d2 assms(5) ev(1) by simp_all
    have "\<forall>oid. oid \<noteq> o' \<longrightarrow> metered_same oid d d'"
      using metered_same_trans [OF same_tables_metered(1) [OF t] c(2) [OF k d2(2)]] by blast
    then show "quota_kept Q d' (h @ [UsageRecorded ev]) \<and> (\<forall>l. l \<notin> L \<longrightarrow> same_row l d d' \<longrightarrow> usage_guard l d d')"
      using c(1) [OF k d2(2)] guard_others [OF assms(2)] by blast
  qed
  show "verified (quota_kept Q) usage_guard L ?A
    (if ?limit < usage_total d1 o' metric ps pe + n then raising (as_utc (now_or E 1 now)) (\<lambda>current.
       Fail (AppError 429 ''quota_exceeded'' (''Monthly '' @ metric @ '' quota exceeded'')
         (Some [(''Retry-After'', int_str (max 1 ((instant pe - instant current) div 1000000)))])))
     else raising (as_utc (now_or E 1 now)) (\<lambda>created_at.
       Commit (UsageRecorded \<lparr>use_id = rt_uuid E 0, use_organization_id = o', use_metric = metric, use_quantity = n, use_created_at = created_at\<rparr>)
         (\<lambda>d. r_bind (pending d) (add_usage_event \<lparr>use_id = rt_uuid E 0, use_organization_id = o', use_metric = metric, use_quantity = n, use_created_at = created_at\<rparr>))))"
  proof (cases "?limit < usage_total d1 o' metric ps pe + n")
    case True
    then show ?thesis by (simp add: verified_raising v_fail)
  next
    case False
    show ?thesis unfolding if_not_P [OF False] by (intro verified_raising commit [OF False _ refl])
  qed
qed simp_all

lemma verified_record_quota:
  assumes "\<And>d d'. pending d = Inr d' \<Longrightarrow> same_tables d d'" "q \<in> Q" "usage_report q = Some (E, o', metric, n, now)"
  shows "verified (quota_kept Q) usage_guard {} (\<lambda>d. True) (record_usage_txn pending E o' metric n now)"
  unfolding record_usage_txn_def Let_def
proof (intro verified_raising, rule verified_scalar_for_update [where B = "\<lambda>_ d. True"], goal_cases)
  case (3 u d h L g)
  then have l: "OrganizationRow o' \<in> {} \<union> L" and n: "0 < n" by (simp_all add: raise_if_def split: if_splits)
  have "verified (quota_kept Q) usage_guard ({} \<union> L) (\<lambda>d. True) (Query (\<lambda>d. raising (subscription_period E (find_subscription d o') now)
      (\<lambda>(ps, pe). report_within_txn pending E o' metric n now (plan_quota (plan_of_subscription (find_subscription d o'))) ps pe)))"
  proof (rule v_query [where B = "\<lambda>d1 d. find_subscription d o' = find_subscription d1 o'"], intro conjI)
    fix d1
    show "stable (quota_kept Q) usage_guard ({} \<union> L) (\<lambda>d. find_subscription d o' = find_subscription d1 o')"
      by (rule stable_metered [OF l]) (simp add: metered_same_def)
    show "verified (quota_kept Q) usage_guard ({} \<union> L) (\<lambda>d. find_subscription d o' = find_subscription d1 o')
        (raising (subscription_period E (find_subscription d1 o') now) (\<lambda>(ps, pe).
          report_within_txn pending E o' metric n now (plan_quota (plan_of_subscription (find_subscription d1 o'))) ps pe))"
    proof (rule verified_raising)
      fix p
      assume p: "subscription_period E (find_subscription d1 o') now = Inr p"
      show "verified (quota_kept Q) usage_guard ({} \<union> L) (\<lambda>d. find_subscription d o' = find_subscription d1 o') (case p of (ps, pe) \<Rightarrow>
          report_within_txn pending E o' metric n now (plan_quota (plan_of_subscription (find_subscription d1 o'))) ps pe)"
        using verified_report [OF assms(1) l assms(2,3) _ n] p by (cases p) simp
    qed
  qed simp
  then show ?case by (auto intro!: verified_raising)
qed (simp_all add: verified_raising v_fail require_def)

lemma verified_report_quota:
  assumes "ReportUsageOp E raw o' n \<in> Q"
  shows "verified (quota_kept Q) usage_guard {} (\<lambda>d. True) (report_usage_txn X E raw o' n)"
  unfolding report_usage_txn_def Let_def
  by (intro verified_raising verified_query stable_True verified_record_quota [OF _ assms] same_tables_added(5)) simp_all

lemma verified_record_only:
  assumes "RecordUsageOp E o' metric n now \<in> Q"
  shows "verified (quota_kept Q) usage_guard {} (\<lambda>d. True) (record_usage_txn Inr E o' metric n now)"
  by (rule verified_record_quota [OF _ assms]) (simp_all add: same_tables_refl)

text \<open>All transactions, whatever is reported and changed.\<close>

interpretation metering: transactions "txn_of X S ` Q" "quota_kept Q" usage_guard
  for X S Q
proof
  fix P
  assume "P \<in> txn_of X S ` Q"
  then obtain q where "P = txn_of X S q" "q \<in> Q" by blast
  then show "verified (quota_kept Q) usage_guard {} (\<lambda>d. True) P"
    by (cases q) (simp_all add: verified_unmetered only_writes_tokens only_writes_accept only_writes_members verified_create_quota
        verified_delete_quota verified_change_plan_quota verified_process_webhook_quota only_writes_webhooks only_writes_register
        only_writes_update_organization only_writes_create_invitation only_writes_keys only_writes_projects verified_report_quota
        verified_record_only)
qed

end
