(* ===== verification/Interleavings.thy ===== *)
theory Interleavings
  imports Concurrent_Quota Samples
begin

text \<open>
  The properties of requests that run at the same time, with a run in which they interleave: the session
  of one request loads a membership, another request demotes its account, and the first goes on with
  the role it loaded.
\<close>

section \<open>Serial runs are interleavings\<close>

lemma run_alone:
  assumes "interleaved Ps d s" "running s t = Some (L, P)" "\<forall>u. u \<noteq> t \<longrightarrow> locks s u = {}" "alone P (committed s) = Inr (r, d')"
  shows "interleaved Ps d \<lparr>committed = d', running = (running s)(t := None), history = history s @ [r]\<rparr>"
  using assms
proof (induction P arbitrary: L s)
  case (Query f)
  let ?s = "s\<lparr>running := (running s)(t \<mapsto> (L, f (committed s)))\<rparr>"
  have i: "interleaved Ps d ?s" by (rule interleaved.step [OF Query.prems(1) txn_step.query [OF Query.prems(2)]])
  have "running ?s t = Some (L, f (committed s))" by simp
  from Query.IH [OF rangeI i this] Query.prems(3,4) show ?case by (simp del: fun_upd_apply)
next
  case (ForUpdate sel k)
  let ?S = "sel (committed s)"
  let ?s = "s\<lparr>running := (running s)(t \<mapsto> (L \<union> ?S, k (committed s) ?S))\<rparr>"
  have i: "interleaved Ps d ?s"
    by (rule interleaved.step [OF ForUpdate.prems(1) txn_step.for_update [OF ForUpdate.prems(2) subset_refl]]) (use ForUpdate.prems(3) in simp)
  have "running ?s t = Some (L \<union> ?S, k (committed s) ?S)" by simp
  from ForUpdate.IH [OF rangeI rangeI i this] ForUpdate.prems(3,4) show ?case by (simp del: fun_upd_apply)
next
  case (Commit x w)
  then have "w (committed s) = Inr d'" "x = r" by auto
  then show ?case using interleaved.step [OF Commit.prems(1) txn_step.commit [OF Commit.prems(2)]] Commit.prems(3)
    by (simp del: fun_upd_apply)
qed simp

lemma run_new:
  assumes "interleaved Ps d s" "running s t = None" "P \<in> Ps" "\<forall>u. u \<noteq> t \<longrightarrow> locks s u = {}" "alone P (committed s) = Inr (r, d')"
  shows "interleaved Ps d \<lparr>committed = d', running = running s, history = history s @ [r]\<rparr>"
proof -
  have "(running s)(t := None) = running s" using assms(2) by (simp add: fun_upd_idem)
  then show ?thesis
    using run_alone [OF interleaved.step [OF assms(1) begin_txn [OF assms(2,3)]], of t "{}" P r d'] assms(4,5) by simp
qed

section \<open>A run\<close>

text \<open>
  Bob, an administrator, removes Cat; Ann, the owner, takes his role away after his request loaded it
  and before it locks anything.
\<close>

definition demoted_bob :: membership where
  "demoted_bob = sample_member 12 2 10 MEMBER"

definition demotion_audit :: audit_log where
  "demotion_audit = \<lparr>aud_id = 1000, aud_organization_id = 10, aud_actor_user_id = Some 1, aud_action = ''member.role_changed'',
     aud_resource_type = ''membership'', aud_resource_id = uuid_str 12,
     aud_details = [(''old_role'', JStr ''ADMIN''), (''new_role'', JStr ''MEMBER'')], aud_ip_address = None, aud_created_at = sample_now\<rparr>"

definition demoted_db :: db where
  "demoted_db = sample_db\<lparr>memberships := [sample_member 11 1 10 OWNER, demoted_bob, sample_member 13 3 10 MEMBER, sample_member 14 4 20 OWNER],
     audit_logs := [demotion_audit]\<rparr>"

lemma demotion: "update_membership sample_rt 10 12 1 MEMBER sample_db = Inr (demoted_bob, demoted_db)"
  by (simp add: service_defs sample_defs demoted_db_def demoted_bob_def demotion_audit_def cong: r_bind_weak_cong)

text \<open>What is left of the removal after its first statement, as Bob's request runs it.\<close>

definition stale_removal :: "outcome txn" where
  "stale_removal = (case remove_membership_txn (later_uuid 1 sample_rt) 10 13 2 of Query f \<Rightarrow> f sample_db | P \<Rightarrow> P)"

definition removal_audit :: audit_log where
  "removal_audit = \<lparr>aud_id = 1001, aud_organization_id = 10, aud_actor_user_id = Some 2, aud_action = ''member.removed'',
     aud_resource_type = ''membership'', aud_resource_id = uuid_str 13,
     aud_details = [(''user_id'', JStr (uuid_str 3)), (''role'', JStr ''MEMBER'')], aud_ip_address = None, aud_created_at = sample_now\<rparr>"

definition stale_db :: db where
  "stale_db = demoted_db\<lparr>memberships := [sample_member 11 1 10 OWNER, demoted_bob, sample_member 14 4 20 OWNER],
     audit_logs := [demotion_audit, removal_audit]\<rparr>"

lemma stale_removal_alone: "alone stale_removal demoted_db = Inr (MemberRemoved 13, stale_db)"
  by (simp add: stale_removal_def remove_membership_txn_def lock_both_def current_membership_txn_def membership_for_update_def
      in_session_def mem_pair_def service_defs sample_defs demoted_db_def demoted_bob_def demotion_audit_def removal_audit_def stale_db_def
      cong: r_bind_weak_cong)

lemma removal_refused: "remove_membership E 10 13 2 demoted_db = Inl forbidden"
  by (simp add: service_defs sample_defs demoted_db_def demoted_bob_def cong: r_bind_weak_cong)

lemma initially_alone: "alone (update_membership_txn sample_rt 10 12 1 MEMBER) sample_db = Inr (RoleChanged demoted_bob, demoted_db)"
proof -
  have "select_membership sample_db 10 1 = Some (sample_member 11 1 10 OWNER)" by (simp add: service_defs sample_defs)
  from alone_update [OF sample_wf this] show ?thesis by (simp add: sample_member_def demotion)
qed

text \<open>
  The removal commits although Bob is no administrator any more; the same request is refused when it
  starts after the demotion. Locking the membership again does not refresh the object the session
  loaded, so the role checked under the lock is the one read before it.
\<close>

theorem stale_role_honoured:
  "interleaved (concurrent X S) sample_db
     \<lparr>committed = stale_db, running = (\<lambda>t. None), history = [RoleChanged demoted_bob, MemberRemoved 13]\<rparr> \<and>
   remove_membership E 10 13 2 demoted_db = Inl forbidden"
proof
  let ?P = "concurrent X S"
  let ?u = "remove_membership_txn (later_uuid 1 sample_rt) 10 13 2"
  let ?s = "\<lparr>committed = sample_db, running = (\<lambda>t. None)(2 \<mapsto> ({}, stale_removal)), history = []\<rparr>"
  have P: "?u \<in> ?P" "update_membership_txn sample_rt 10 12 1 MEMBER \<in> ?P"
    unfolding concurrent_def using rangeI [of "txn_of X S" "RemoveMembershipOp (later_uuid 1 sample_rt) 10 13 2"]
      rangeI [of "txn_of X S" "UpdateMembershipOp sample_rt 10 12 1 MEMBER"] by simp_all
  obtain f where f: "?u = Query f" "f sample_db = stale_removal"
    by (simp add: stale_removal_def remove_membership_txn_def lock_both_def current_membership_txn_def)
  have "interleaved ?P sample_db \<lparr>committed = sample_db, running = (\<lambda>t. None)(2 \<mapsto> ({}, ?u)), history = []\<rparr>"
    using interleaved.step [OF interleaved.idle begin_txn, of _ 2 ?u] P(1) by (simp del: fun_upd_apply)
  from interleaved.step [OF this [unfolded f(1)] query, of 2 "{}" f] have "interleaved ?P sample_db ?s"
    by (simp add: f(2) fun_upd_upd del: fun_upd_apply) simp
  from run_new [OF this, of 1, OF _ P(2)] initially_alone
  have "interleaved ?P sample_db (?s\<lparr>committed := demoted_db, history := [RoleChanged demoted_bob]\<rparr>)"
    by (simp add: locks_def)
  from run_alone [OF this, of 2 "{}" stale_removal] stale_removal_alone
  show "interleaved ?P sample_db
     \<lparr>committed = stale_db, running = (\<lambda>t. None), history = [RoleChanged demoted_bob, MemberRemoved 13]\<rparr>"
    by (simp add: locks_def fun_upd_idem)
qed (rule removal_refused)

section \<open>Properties\<close>

text \<open>
  C4. However the statements of all requests that write and of the processing of webhooks interleave,
  and whichever of them are rolled back, the constraints of the database hold, every organization keeps an
  owner and a subscription, and a refresh token is exchanged and a webhook applied at most once. Every
  acceptance of an invitation, revocation of a key and deletion of a project uses up one that was there
  at the beginning or was created since, and what is used up is not there any more.
\<close>

theorem concurrent_requests_sound:
  assumes "interleaved (concurrent X S) d s" "wf_db d" "orgs_complete d"
  shows "wf_db (committed s) \<and> orgs_complete (committed s) \<and>
    (\<forall>raw. exchanges raw (history s) \<le> 1) \<and> (\<forall>i. applications i (history s) \<le> 1) \<and>
    (\<forall>t. spent X t (history s) + remaining t (committed s) \<le> remaining t d + issued X t (history s))"
  using services.interleaved_invariant [OF assms(1) sound_initial [OF assms(2,3)]] unfolding sound_state_def by blast

theorem concurrent_requests_sound_witness:
  "wf_db stale_db \<and> orgs_complete stale_db \<and>
   (\<forall>raw. exchanges raw [RoleChanged demoted_bob, MemberRemoved 13] \<le> 1) \<and>
   (\<forall>i. applications i [RoleChanged demoted_bob, MemberRemoved 13] \<le> 1) \<and>
   (\<forall>t. spent sample_ext t [RoleChanged demoted_bob, MemberRemoved 13] + remaining t stale_db
      \<le> remaining t sample_db + issued sample_ext t [RoleChanged demoted_bob, MemberRemoved 13])"
  using concurrent_requests_sound [OF conjunct1 [OF stale_role_honoured] sample_wf sample_complete, of sample_ext] by simp

text \<open>
  C5. Reports of usage keep the quota however they interleave, with each other and with any other
  requests, changes of plan, webhooks and deletions included: at the moment a report commits, the usage
  of its billing period with the new event is within the quota, where period and plan are those the
  subscription of the organization has at that moment. (A later change of plan can lower the quota below
  what was used. The period is that of the report's first clock reading; \<open>straddling_report\<close> below is the
  case that the event itself belongs to the next period.)
\<close>

theorem concurrent_quota:
  assumes "interleaved (txn_of X S ` Q) d s" "wf_db d" "history s = h @ [UsageRecorded ev]"
  shows "\<exists>q \<in> Q. \<exists>E now ps pe.
    usage_report q = Some (E, use_organization_id ev, use_metric ev, use_quantity ev, now) \<and> use_id ev = rt_uuid E 0 \<and>
    as_utc (now_or E 1 now) = Inr (use_created_at ev) \<and> ev \<in> set (usage_events (committed s)) \<and>
    subscription_period E (find_subscription (committed s) (use_organization_id ev)) now = Inr (ps, pe) \<and>
    usage_total (committed s) (use_organization_id ev) (use_metric ev) ps pe
      \<le> plan_quota (plan_of_subscription (find_subscription (committed s) (use_organization_id ev)))"
proof -
  have "quota_kept Q d []" using wf_unique(14,15) [OF assms(2)] by (simp add: quota_kept_def one_subscription_def)
  from metering.interleaved_invariant [OF assms(1) this] have "within_quota Q (committed s) ev"
    using assms(3) by (simp add: quota_kept_def)
  then show ?thesis unfolding within_quota_def .
qed

definition reported :: "int \<Rightarrow> usage_event" where
  "reported n = \<lparr>use_id = 1000, use_organization_id = 10, use_metric = ''api_requests'', use_quantity = n, use_created_at = sample_now\<rparr>"

lemma sample_report_alone:
  assumes "n \<le> 995" "1 \<le> n"
  shows "alone (record_usage_txn Inr sample_rt 10 ''api_requests'' n None) sample_db =
    Inr (UsageRecorded (reported n), sample_db\<lparr>usage_events := usage_events sample_db @ [reported n]\<rparr>)"
proof -
  let ?s = "sample_now\<lparr>day := 1, hour := 0\<rparr>" and ?e = "sample_now\<lparr>month := 6, day := 1, hour := 0\<rparr>"
  let ?sub = "Some (sample_sub 21 10 FREE)"
  have f: "find_subscription sample_db 10 = ?sub" "find_organization sample_db 10 \<noteq> None" "10 \<in> org_ids sample_db"
    "rt_uuid sample_rt 0 \<notin> use_id ` set (usage_events sample_db)" "rt_uuid sample_rt 0 = 1000"
    by (simp_all add: service_defs org_ids_def)
  have p: "subscription_period sample_rt ?sub None = Inr (?s, ?e)" by code_simp
  have u: "as_utc (now_or sample_rt 1 None) = Inr sample_now" by code_simp
  have t: "usage_total sample_db 10 ''api_requests'' ?s ?e = 5" by code_simp
  have q: "plan_quota (plan_of_subscription ?sub) = 1000" by (simp add: plan_of_subscription_def sample_sub_def)
  have "record_usage sample_rt 10 ''api_requests'' n None sample_db =
      Inr (reported n, sample_db\<lparr>usage_events := usage_events sample_db @ [reported n]\<rparr>)"
    using f p u t q assms by (auto simp: reported_def record_usage_def add_usage_event_def Let_def)
  then show ?thesis using alone_record_usage by simp
qed

theorem concurrent_quota_witness:
  "\<exists>ps pe. subscription_period sample_rt (find_subscription (sample_db\<lparr>usage_events := usage_events sample_db @ [reported 995]\<rparr>) 10) None = Inr (ps, pe) \<and>
     usage_total (sample_db\<lparr>usage_events := usage_events sample_db @ [reported 995]\<rparr>) 10 ''api_requests'' ps pe
       \<le> plan_quota (plan_of_subscription (find_subscription (sample_db\<lparr>usage_events := usage_events sample_db @ [reported 995]\<rparr>) 10))"
proof -
  let ?q = "RecordUsageOp sample_rt 10 ''api_requests'' 995 None"
  have "interleaved (txn_of sample_ext default_settings ` {?q}) sample_db
      \<lparr>committed = sample_db\<lparr>usage_events := usage_events sample_db @ [reported 995]\<rparr>, running = (\<lambda>t. None), history = [UsageRecorded (reported 995)]\<rparr>"
    using run_new [OF interleaved.idle [of "txn_of sample_ext default_settings ` {?q}" sample_db], of 0 "txn_of sample_ext default_settings ?q"]
      sample_report_alone [of 995] by (simp add: locks_def)
  from concurrent_quota [OF this sample_wf, of "[]" "reported 995"] show ?thesis by (auto simp: reported_def)
qed

text \<open>
  What the quota check misses: a report whose first clock reading is the last second of May and whose
  second is the first of June is checked against May and stored in June, where nothing was left.
\<close>

definition turn_of_month :: runtime where
  "turn_of_month = sample_rt\<lparr>rt_clock := (\<lambda>k. if k = 0 then sample_now\<lparr>day := 31, hour := 23, minute := 59, second := 59\<rparr>
     else sample_now\<lparr>month := 6, day := 1, hour := 0\<rparr>)\<rparr>"

definition used_up_db :: db where
  "used_up_db = sample_db\<lparr>usage_events := [\<lparr>use_id = 70, use_organization_id = 10, use_metric = ''api_requests'', use_quantity = 1000,
     use_created_at = sample_now\<lparr>month := 6, day := 1, hour := 0\<rparr>\<rparr>]\<rparr>"

lemma straddling_report:
  "subscription_period turn_of_month (find_subscription used_up_db 10) (Some (rt_clock turn_of_month 1)) =
     Inr (sample_now\<lparr>month := 6, day := 1, hour := 0\<rparr>, sample_now\<lparr>month := 7, day := 1, hour := 0\<rparr>) \<and>
   usage_total used_up_db 10 ''api_requests'' (sample_now\<lparr>month := 6, day := 1, hour := 0\<rparr>) (sample_now\<lparr>month := 7, day := 1, hour := 0\<rparr>) = 1000 \<and>
   plan_quota (plan_of_subscription (find_subscription used_up_db 10)) = 1000 \<and>
   (case record_usage turn_of_month 10 ''api_requests'' 500 None used_up_db of
      Inl e \<Rightarrow> False
    | Inr (ev, d) \<Rightarrow> usage_total d 10 ''api_requests'' (sample_now\<lparr>month := 6, day := 1, hour := 0\<rparr>) (sample_now\<lparr>month := 7, day := 1, hour := 0\<rparr>) = 1500)"
  by code_simp

text \<open>
  A transaction that no other one interrupts is its service: the sequences of statements read, check,
  lock and write what the operations of the services do, with the same results and the same errors.
\<close>

lemma transactions_are_services:
  assumes "wf_db d" "admitted q d"
  shows "alone (txn_of X S q) d = service_of X S q d"
proof (cases q)
  case (UpdateMembershipOp E oid mid actor r)
  then show ?thesis using admin_ofD assms(2) alone_update [OF assms(1)] by fastforce
next
  case (RemoveMembershipOp E oid mid actor)
  then show ?thesis using admin_ofD assms(2) alone_remove [OF assms(1)] by fastforce
next
  case (CreateInvitationOp E oid actor data)
  then show ?thesis using admin_ofD assms(2) alone_create_invitation [OF assms(1)] by fastforce
qed (simp_all add: alone_login alone_rotate alone_revoke alone_accept alone_create_organization alone_delete_organization
    alone_record_usage alone_store_webhook alone_process_webhook alone_mark_webhook alone_register alone_create_project
    alone_update_project alone_delete_project alone_create_api_key alone_update_organization [OF assms(1)]
    alone_revoke_api_key [OF assms(1)] alone_report_usage [OF assms(1)] alone_change_plan [OF assms(1)] split_def)

end
