(* ===== verification/Routing.thy ===== *)
theory Routing
  imports Routes
begin

text \<open>
  From an HTTP request to an endpoint: the routers declared in \<^verbatim>\<open>app/api/routes\<close>, their inclusion by
  \<^verbatim>\<open>app/api/router.py\<close>, the matching of methods and paths, and the typed parameters of the endpoint
  functions. Matching is the framework's: a parameter of a path template stands for one or more
  characters other than a slash, the first route that matches is taken, a path that matches only with
  another method is answered with 405, and a path that would match with or without a final slash is
  redirected.
\<close>

section \<open>Routers\<close>

datatype endpoint =
    AuthRegister | AuthLogin | AuthRefresh | AuthLogout | AuthMe
  | OrganizationsCreate | OrganizationsList | OrganizationsGet | OrganizationsUpdate | OrganizationsDelete
  | MembersList | MembersUpdate | MembersDelete
  | InvitationsCreate | InvitationsAccept
  | ApiKeysCreate | ApiKeysList | ApiKeysDelete
  | ProjectsCreate | ProjectsList | ProjectsGet | ProjectsUpdate | ProjectsDelete
  | UsageRead | UsageCreateEvent
  | BillingRead | BillingChangePlan
  | WebhooksBilling
  | AuditRead
  | HealthLive | HealthReady
  | MetricsGet

record api_route =
  route_method :: string
  route_path :: string
  route_endpoint :: endpoint

definition APIRouter :: "string \<Rightarrow> (string \<times> string \<times> endpoint) list \<Rightarrow> api_route list" where
  "APIRouter prefix rs = map (\<lambda>(m, p, e). \<lparr>route_method = m, route_path = prefix @ p, route_endpoint = e\<rparr>) rs"

definition auth_router :: "api_route list" where
  "auth_router = APIRouter ''/auth''
     [(''POST'', ''/register'', AuthRegister), (''POST'', ''/login'', AuthLogin), (''POST'', ''/refresh'', AuthRefresh),
      (''POST'', ''/logout'', AuthLogout), (''GET'', ''/me'', AuthMe)]"

definition organizations_router :: "api_route list" where
  "organizations_router = APIRouter ''/organizations''
     [(''POST'', '''', OrganizationsCreate), (''GET'', '''', OrganizationsList), (''GET'', ''/{organization_id}'', OrganizationsGet),
      (''PATCH'', ''/{organization_id}'', OrganizationsUpdate), (''DELETE'', ''/{organization_id}'', OrganizationsDelete)]"

definition members_router :: "api_route list" where
  "members_router = APIRouter ''/organizations/{organization_id}/members''
     [(''GET'', '''', MembersList), (''PATCH'', ''/{membership_id}'', MembersUpdate), (''DELETE'', ''/{membership_id}'', MembersDelete)]"

definition invitations_router :: "api_route list" where
  "invitations_router = APIRouter ''''
     [(''POST'', ''/organizations/{organization_id}/invitations'', InvitationsCreate),
      (''POST'', ''/invitations/{token}/accept'', InvitationsAccept)]"

definition api_keys_router :: "api_route list" where
  "api_keys_router = APIRouter ''/organizations/{organization_id}/api-keys''
     [(''POST'', '''', ApiKeysCreate), (''GET'', '''', ApiKeysList), (''DELETE'', ''/{key_id}'', ApiKeysDelete)]"

definition projects_router :: "api_route list" where
  "projects_router = APIRouter ''/organizations/{organization_id}/projects''
     [(''POST'', '''', ProjectsCreate), (''GET'', '''', ProjectsList), (''GET'', ''/{project_id}'', ProjectsGet),
      (''PATCH'', ''/{project_id}'', ProjectsUpdate), (''DELETE'', ''/{project_id}'', ProjectsDelete)]"

definition usage_router :: "api_route list" where
  "usage_router = APIRouter ''/organizations/{organization_id}/usage''
     [(''GET'', '''', UsageRead), (''POST'', ''/events'', UsageCreateEvent)]"

definition billing_router :: "api_route list" where
  "billing_router = APIRouter ''/organizations/{organization_id}/subscription''
     [(''GET'', '''', BillingRead), (''POST'', ''/change-plan'', BillingChangePlan)]"

definition webhooks_router :: "api_route list" where
  "webhooks_router = APIRouter ''/webhooks'' [(''POST'', ''/billing'', WebhooksBilling)]"

definition audit_router :: "api_route list" where
  "audit_router = APIRouter ''/organizations/{organization_id}/audit-log'' [(''GET'', '''', AuditRead)]"

definition health_router :: "api_route list" where
  "health_router = APIRouter ''/health'' [(''GET'', ''/live'', HealthLive), (''GET'', ''/ready'', HealthReady)]"

definition metrics_router :: "api_route list" where
  "metrics_router = APIRouter '''' [(''GET'', ''/metrics'', MetricsGet)]"

definition api_router :: "api_route list" where
  "api_router = concat [auth_router, organizations_router, members_router, invitations_router, api_keys_router, projects_router,
     usage_router, billing_router, webhooks_router, audit_router, health_router, metrics_router]"

lemmas router_defs = APIRouter_def auth_router_def organizations_router_def members_router_def invitations_router_def
  api_keys_router_def projects_router_def usage_router_def billing_router_def webhooks_router_def audit_router_def
  health_router_def metrics_router_def api_router_def

section \<open>Matching\<close>

datatype segment = Literal string | Param string

definition segment :: "string \<Rightarrow> segment" where
  "segment s = (case s of [] \<Rightarrow> Literal [] | c # cs \<Rightarrow> if c = CHR ''{'' then Param (butlast cs) else Literal s)"

definition template :: "string \<Rightarrow> segment list" where
  "template path = map segment (py_split (CHR ''/'') path)"

fun match_segments :: "segment list \<Rightarrow> string list \<Rightarrow> (string \<times> string) list option" where
  "match_segments [] [] = Some []"
| "match_segments (Literal l # ts) (s # ss) = (if s = l then match_segments ts ss else None)"
| "match_segments (Param n # ts) (s # ss) =
     (if s = [] then None else case match_segments ts ss of None \<Rightarrow> None | Some ps \<Rightarrow> Some ((n, s) # ps))"
| "match_segments _ _ = None"

definition path_match :: "api_route \<Rightarrow> string \<Rightarrow> (string \<times> string) list option" where
  "path_match r path = match_segments (template (route_path r)) (py_split (CHR ''/'') path)"

definition toggle_slash :: "string \<Rightarrow> string" where
  "toggle_slash path =
     (if path \<noteq> [] \<and> last path = CHR ''/'' then rev (dropWhile (\<lambda>c. c = CHR ''/'') (rev path)) else path @ ''/'')"

datatype resolution =
    Matched api_route "(string \<times> string) list"
  | MethodNotAllowed api_route
  | SlashRedirect string
  | Unmatched

definition resolve :: "string \<Rightarrow> string \<Rightarrow> resolution" where
  "resolve method path =
     (case find (\<lambda>r. path_match r path \<noteq> None \<and> route_method r = method) api_router of
        Some r \<Rightarrow> Matched r (the (path_match r path))
      | None \<Rightarrow>
          (case find (\<lambda>r. path_match r path \<noteq> None) api_router of
             Some r \<Rightarrow> MethodNotAllowed r
           | None \<Rightarrow>
               if path \<noteq> ''/'' \<and> (\<exists>r \<in> set api_router. path_match r (toggle_slash path) \<noteq> None)
               then SlashRedirect (toggle_slash path) else Unmatched))"

section \<open>Lemmas on matching\<close>

text \<open>Two templates that some path matches agree wherever both are literal.\<close>

fun overlap :: "segment list \<Rightarrow> segment list \<Rightarrow> bool" where
  "overlap [] [] = True"
| "overlap (Literal l # ts) (Literal k # us) = (l = k \<and> overlap ts us)"
| "overlap (Param n # ts) (u # us) = overlap ts us"
| "overlap (Literal l # ts) (Param n # us) = overlap ts us"
| "overlap _ _ = False"

lemma match_overlap: "match_segments ts ss = Some ps \<Longrightarrow> match_segments us ss = Some qs \<Longrightarrow> overlap ts us"
proof (induction ts us arbitrary: ss ps qs rule: overlap.induct)
  case (2 l ts k us)
  then show ?case by (cases ss) (auto split: if_splits)
next
  case (3 n ts u us)
  then show ?case by (cases ss; cases u) (auto split: if_splits option.splits)
next
  case (4 l ts n us)
  then show ?case by (cases ss) (auto split: if_splits option.splits)
qed (auto elim!: match_segments.elims)

definition route_keys :: "(string \<times> segment list \<times> endpoint) list" where
  "route_keys = map (\<lambda>r. (route_method r, template (route_path r), route_endpoint r)) api_router"

fun keys_distinct :: "(string \<times> segment list \<times> endpoint) list \<Rightarrow> bool" where
  "keys_distinct [] = True"
| "keys_distinct ((m, t, e) # ks) = ((\<forall>(m', t', e') \<in> set ks. m = m' \<longrightarrow> \<not> overlap t t') \<and> keys_distinct ks)"

lemma keys_distinct: "keys_distinct route_keys"
  by code_simp

lemma keys_distinctD:
  assumes "keys_distinct (map (\<lambda>r. (route_method r, template (route_path r), route_endpoint r)) rs)" "r \<in> set rs" "r' \<in> set rs"
    "route_method r = route_method r'" "path_match r p = Some ps" "path_match r' p = Some qs"
  shows "r = r'"
proof -
  have o: "overlap (template (route_path r)) (template (route_path r'))" "overlap (template (route_path r')) (template (route_path r))"
    using match_overlap [OF assms(5,6) [unfolded path_match_def]] match_overlap [OF assms(6,5) [unfolded path_match_def]] by simp_all
  show ?thesis
    using assms(1-4) o by (induction rs) auto
qed

lemma find_unique:
  assumes "x \<in> set xs" "P x" "\<And>y. y \<in> set xs \<Longrightarrow> P y \<Longrightarrow> y = x"
  shows "find P xs = Some x"
proof -
  have "find P xs \<noteq> None" using assms(1,2) by (auto simp: find_None_iff)
  then obtain y where y: "find P xs = Some y" by blast
  then have "y \<in> set xs \<and> P y" by (auto simp: find_Some_iff)
  then show ?thesis using assms(3) y by simp
qed

text \<open>\<open>path_for\<close> is the URL of a route with values for its parameters.\<close>

fun fill :: "segment list \<Rightarrow> string list \<Rightarrow> string list" where
  "fill (Literal l # ts) vs = l # fill ts vs"
| "fill (Param n # ts) (v # vs) = v # fill ts vs"
| "fill (Param n # ts) [] = []"
| "fill [] vs = []"

fun joined :: "string list \<Rightarrow> string" where
  "joined [] = []"
| "joined [s] = s"
| "joined (s # ss) = s @ ''/'' @ joined ss"

fun param_names :: "segment list \<Rightarrow> string list" where
  "param_names [] = []"
| "param_names (Literal l # ts) = param_names ts"
| "param_names (Param n # ts) = n # param_names ts"

definition path_for :: "api_route \<Rightarrow> string list \<Rightarrow> string" where
  "path_for r vs = joined (fill (template (route_path r)) vs)"

lemma py_split_word: "sep \<notin> set w \<Longrightarrow> py_split sep w = [w]"
  by (induction w) auto

lemma py_split_append: "sep \<notin> set w \<Longrightarrow> py_split sep (w @ sep # rest) = w # py_split sep rest"
  by (induction w) auto

lemma py_split_joined: "ss \<noteq> [] \<Longrightarrow> \<forall>w \<in> set ss. CHR ''/'' \<notin> set w \<Longrightarrow> py_split (CHR ''/'') (joined ss) = ss"
  by (induction ss rule: joined.induct) (auto simp: py_split_word py_split_append)

lemma py_split_parts: "w \<in> set (py_split sep s) \<Longrightarrow> sep \<notin> set w"
  by (induction sep s arbitrary: w rule: py_split.induct) (auto split: if_splits list.splits)

lemma py_split_nonempty: "py_split sep s \<noteq> []"
  by (cases s) (auto split: list.splits)

lemma template_literal: "Literal l \<in> set (template path) \<Longrightarrow> CHR ''/'' \<notin> set l"
  unfolding template_def segment_def by (auto split: list.splits if_splits dest: py_split_parts)

lemma match_fill:
  assumes "length vs = length (param_names ts)" "\<forall>v \<in> set vs. v \<noteq> []"
  shows "match_segments ts (fill ts vs) = Some (zip (param_names ts) vs)"
  using assms by (induction ts vs rule: fill.induct) auto

lemma fill_parts:
  assumes "\<forall>l. Literal l \<in> set ts \<longrightarrow> CHR ''/'' \<notin> set l" "\<forall>v \<in> set vs. CHR ''/'' \<notin> set v"
  shows "\<forall>w \<in> set (fill ts vs). CHR ''/'' \<notin> set w"
  using assms by (induction ts vs rule: fill.induct) auto

lemma fill_nonempty: "length vs = length (param_names ts) \<Longrightarrow> ts \<noteq> [] \<Longrightarrow> fill ts vs \<noteq> []"
  by (induction ts vs rule: fill.induct) auto

lemma path_match_for:
  assumes "length vs = length (param_names (template (route_path r)))" "\<forall>v \<in> set vs. v \<noteq> [] \<and> CHR ''/'' \<notin> set v"
  shows "path_match r (path_for r vs) = Some (zip (param_names (template (route_path r))) vs)"
proof -
  let ?t = "template (route_path r)"
  have "?t \<noteq> []" by (simp add: template_def py_split_nonempty)
  then have "fill ?t vs \<noteq> []" using assms(1) by (rule fill_nonempty [rotated])
  moreover have "\<forall>w \<in> set (fill ?t vs). CHR ''/'' \<notin> set w" using assms(2) template_literal by (intro fill_parts) auto
  ultimately have "py_split (CHR ''/'') (path_for r vs) = fill ?t vs" unfolding path_for_def by (rule py_split_joined)
  then show ?thesis using assms unfolding path_match_def by (simp add: match_fill)
qed

section \<open>Properties\<close>

text \<open>
  C36. Requests are dispatched by method and path alone, not by the order in which the routers are
  included: no path matches two routes with one method, and the URL of a route with any values for its
  parameters (not empty, without slashes) reaches that route with those values.
\<close>

theorem routes_exact:
  assumes "r \<in> set api_router" "length vs = length (param_names (template (route_path r)))"
    "\<forall>v \<in> set vs. v \<noteq> [] \<and> CHR ''/'' \<notin> set v"
  shows "resolve (route_method r) (path_for r vs) = Matched r (zip (param_names (template (route_path r))) vs) \<and>
    (\<forall>r' path ps qs. r' \<in> set api_router \<and> route_method r' = route_method r \<and> path_match r path = Some ps \<and>
       path_match r' path = Some qs \<longrightarrow> r' = r)"
proof -
  note u = keys_distinctD [OF keys_distinct [unfolded route_keys_def]]
  note m = path_match_for [OF assms(2,3)]
  have "find (\<lambda>x. path_match x (path_for r vs) \<noteq> None \<and> route_method x = route_method r) api_router = Some r"
    using assms(1) m by (intro find_unique) (auto intro: u)
  then show ?thesis using assms(1) m u by (auto simp: resolve_def)
qed

theorem routes_exact_witness:
  "resolve ''DELETE'' ''/organizations/7/projects/8'' = Matched \<lparr>route_method = ''DELETE'',
     route_path = ''/organizations/{organization_id}/projects/{project_id}'', route_endpoint = ProjectsDelete\<rparr>
     [(''organization_id'', ''7''), (''project_id'', ''8'')]"
proof -
  let ?r = "\<lparr>route_method = ''DELETE'', route_path = ''/organizations/{organization_id}/projects/{project_id}'', route_endpoint = ProjectsDelete\<rparr>"
  have "?r \<in> set projects_router" by (simp add: projects_router_def APIRouter_def)
  then have r: "?r \<in> set api_router" by (simp add: api_router_def)
  have t: "param_names (template ''/organizations/{organization_id}/projects/{project_id}'') = [''organization_id'', ''project_id'']" "path_for ?r [''7'', ''8''] = ''/organizations/7/projects/8''"
    by code_simp+
  show ?thesis using routes_exact [OF r, of "[''7'', ''8'']"] by (simp add: t)
qed

end
