(* ===== verification/Http.thy ===== *)
theory Http
  imports Routes Constraints
begin

text \<open>
  The answers of the application, \<^verbatim>\<open>app/main.py\<close>: what a client receives for a well-formed request. A result
  is presented by the response schema of its endpoint (\<^verbatim>\<open>app/schemas\<close>) with the endpoint's status
  code, an exception by the exception handlers of \<^verbatim>\<open>app/core/errors.py\<close>. The request context middleware of
  \<^verbatim>\<open>app/core/logging.py\<close> wraps both: it chooses the request identifier and sets the \<open>X-Request-ID\<close>
  header of the response. The handler for unexpected exceptions is outside the middleware (the framework
  puts the handler of \<open>Exception\<close> around all middleware), so its response has no such header.
  How pydantic writes a timestamp is the parameter \<open>enc\<close>.
\<close>

section \<open>Response schemas\<close>

type_synonym timestamps = "datetime \<Rightarrow> string"

definition json_uuid :: "uuid \<Rightarrow> json" where
  "json_uuid u = JStr (uuid_str u)"

definition json_time :: "timestamps \<Rightarrow> datetime \<Rightarrow> json" where
  "json_time enc t = JStr (enc t)"

definition json_opt :: "('a \<Rightarrow> json) \<Rightarrow> 'a option \<Rightarrow> json" where
  "json_opt f v = (case v of None \<Rightarrow> JNull | Some x \<Rightarrow> f x)"

definition user_read :: "timestamps \<Rightarrow> user \<Rightarrow> json" where
  "user_read enc u = JDict [(''id'', json_uuid (usr_id u)), (''email'', JStr (usr_email u)),
     (''is_active'', JBool (usr_is_active u)), (''is_verified'', JBool (usr_is_verified u)),
     (''created_at'', json_time enc (usr_created_at u)), (''updated_at'', json_time enc (usr_updated_at u))]"

definition token_pair :: "issued_tokens \<Rightarrow> json" where
  "token_pair t = JDict [(''access_token'', JStr (access_token t)), (''refresh_token'', JStr (refresh_token_value t)),
     (''token_type'', JStr ''bearer''), (''expires_in'', JInt (expires_in t))]"

definition organization_read :: "timestamps \<Rightarrow> organization \<Rightarrow> json" where
  "organization_read enc g = JDict [(''id'', json_uuid (org_id g)), (''name'', JStr (org_name g)), (''slug'', JStr (org_slug g)),
     (''created_at'', json_time enc (org_created_at g)), (''updated_at'', json_time enc (org_updated_at g))]"

definition membership_fields :: "timestamps \<Rightarrow> membership \<Rightarrow> dict" where
  "membership_fields enc m = [(''id'', json_uuid (mem_id m)), (''user_id'', json_uuid (mem_user_id m)),
     (''organization_id'', json_uuid (mem_organization_id m)), (''role'', JStr (role_value (mem_role m))),
     (''joined_at'', json_time enc (mem_joined_at m))]"

definition membership_read :: "timestamps \<Rightarrow> membership \<Rightarrow> json" where
  "membership_read enc m = JDict (membership_fields enc m)"

definition member_read :: "timestamps \<Rightarrow> membership \<times> string \<Rightarrow> json" where
  "member_read enc p = JDict (membership_fields enc (fst p) @ [(''email'', JStr (snd p))])"

definition invitation_created :: "timestamps \<Rightarrow> invitation \<Rightarrow> string \<Rightarrow> json" where
  "invitation_created enc i token = JDict [(''id'', json_uuid (inv_id i)), (''organization_id'', json_uuid (inv_organization_id i)),
     (''email'', JStr (inv_email i)), (''role'', JStr (role_value (inv_role i))), (''token'', JStr token),
     (''expires_at'', json_time enc (inv_expires_at i)), (''created_at'', json_time enc (inv_created_at i))]"

definition api_key_fields :: "timestamps \<Rightarrow> api_key \<Rightarrow> dict" where
  "api_key_fields enc k = [(''id'', json_uuid (key_id k)), (''organization_id'', json_uuid (key_organization_id k)),
     (''name'', JStr (key_name k)), (''prefix'', JStr (key_prefix k)), (''created_by'', json_uuid (key_created_by k)),
     (''last_used_at'', json_opt (json_time enc) (key_last_used_at k)), (''created_at'', json_time enc (key_created_at k)),
     (''revoked_at'', json_opt (json_time enc) (key_revoked_at k))]"

definition api_key_read :: "timestamps \<Rightarrow> api_key \<Rightarrow> json" where
  "api_key_read enc k = JDict (api_key_fields enc k)"

definition api_key_created :: "timestamps \<Rightarrow> api_key \<Rightarrow> string \<Rightarrow> json" where
  "api_key_created enc k raw_key = JDict (api_key_fields enc k @ [(''key'', JStr raw_key)])"

definition project_read :: "timestamps \<Rightarrow> project \<Rightarrow> json" where
  "project_read enc p = JDict [(''id'', json_uuid (prj_id p)), (''organization_id'', json_uuid (prj_organization_id p)),
     (''name'', JStr (prj_name p)), (''description'', json_opt JStr (prj_description p)),
     (''status'', JStr (project_status_value (prj_status p))), (''created_by'', json_uuid (prj_created_by p)),
     (''created_at'', json_time enc (prj_created_at p)), (''updated_at'', json_time enc (prj_updated_at p))]"

definition usage_summary :: "timestamps \<Rightarrow> usage_snapshot \<Rightarrow> json" where
  "usage_summary enc u = JDict [(''plan'', JStr (plan_value (snap_plan u))), (''used'', JInt (snap_used u)),
     (''limit'', JInt (snap_limit u)), (''remaining'', JInt (snap_remaining u)),
     (''period_start'', json_time enc (snap_period_start u)), (''period_end'', json_time enc (snap_period_end u))]"

definition usage_event_read :: "timestamps \<Rightarrow> usage_event \<Rightarrow> json" where
  "usage_event_read enc e = JDict [(''id'', json_uuid (use_id e)), (''organization_id'', json_uuid (use_organization_id e)),
     (''metric'', JStr (use_metric e)), (''quantity'', JInt (use_quantity e)), (''created_at'', json_time enc (use_created_at e))]"

definition subscription_read :: "timestamps \<Rightarrow> subscription \<Rightarrow> json" where
  "subscription_read enc s = JDict [(''id'', json_uuid (sub_id s)), (''organization_id'', json_uuid (sub_organization_id s)),
     (''plan'', JStr (plan_value (sub_plan s))), (''status'', JStr (subscription_status_value (sub_status s))),
     (''external_customer_id'', json_opt JStr (sub_external_customer_id s)),
     (''external_subscription_id'', json_opt JStr (sub_external_subscription_id s)),
     (''current_period_start'', json_time enc (sub_current_period_start s)),
     (''current_period_end'', json_time enc (sub_current_period_end s)),
     (''created_at'', json_time enc (sub_created_at s)), (''updated_at'', json_time enc (sub_updated_at s))]"

definition webhook_receipt :: "uuid \<Rightarrow> webhook_status \<Rightarrow> bool \<Rightarrow> json" where
  "webhook_receipt event_id status duplicate = JDict [(''event_id'', json_uuid event_id),
     (''status'', JStr (webhook_status_value status)), (''duplicate'', JBool duplicate)]"

definition audit_log_read :: "timestamps \<Rightarrow> audit_log \<Rightarrow> json" where
  "audit_log_read enc a = JDict [(''id'', json_uuid (aud_id a)), (''organization_id'', json_uuid (aud_organization_id a)),
     (''actor_user_id'', json_opt json_uuid (aud_actor_user_id a)), (''action'', JStr (aud_action a)),
     (''resource_type'', JStr (aud_resource_type a)), (''resource_id'', JStr (aud_resource_id a)),
     (''metadata'', JDict (aud_details a)), (''ip_address'', json_opt JStr (aud_ip_address a)),
     (''created_at'', json_time enc (aud_created_at a))]"

text \<open>The outcome of the readiness checks.\<close>

definition health_value :: "bool \<Rightarrow> json" where
  "health_value up = JStr (if up then ''ok'' else ''unavailable'')"

fun response_body :: "timestamps \<Rightarrow> response \<Rightarrow> json option" where
  "response_body enc (UserRead u) = Some (user_read enc u)"
| "response_body enc (TokenPair t) = Some (token_pair t)"
| "response_body enc NoContent = None"
| "response_body enc (OrganizationRead g) = Some (organization_read enc g)"
| "response_body enc (OrganizationList gs) = Some (JList (map (organization_read enc) gs))"
| "response_body enc (MemberList ms) = Some (JList (map (member_read enc) ms))"
| "response_body enc (MembershipRead m) = Some (membership_read enc m)"
| "response_body enc (InvitationCreated i token) = Some (invitation_created enc i token)"
| "response_body enc (ApiKeyCreated k raw) = Some (api_key_created enc k raw)"
| "response_body enc (ApiKeyList ks) = Some (JList (map (api_key_read enc) ks))"
| "response_body enc (ProjectRead p) = Some (project_read enc p)"
| "response_body enc (ProjectList ps) = Some (JList (map (project_read enc) ps))"
| "response_body enc (UsageSummary u) = Some (usage_summary enc u)"
| "response_body enc (UsageEventRead e) = Some (usage_event_read enc e)"
| "response_body enc (SubscriptionRead s) = Some (subscription_read enc s)"
| "response_body enc (WebhookReceipt i st dup) = Some (webhook_receipt i st dup)"
| "response_body enc (AuditLogList as) = Some (JList (map (audit_log_read enc) as))"
| "response_body enc Live = Some (JDict [(''status'', JStr ''ok'')])"
| "response_body enc (Health pg rd) =
     Some (JDict [(''status'', health_value (pg \<and> rd)), (''postgres'', health_value pg), (''redis'', health_value rd)])"

section \<open>Status codes\<close>

fun created_status :: "request \<Rightarrow> int" where
  "created_status (AuthRequest (Register _ _)) = 201"
| "created_status (OrganizationRequest (CreateOrganization _ _ _)) = 201"
| "created_status (MemberRequest (CreateInvitation _ _ _ _)) = 201"
| "created_status (KeyRequest (CreateApiKey _ _ _)) = 201"
| "created_status (ProjectRequest (CreateProject _ _ _ _)) = 201"
| "created_status (BillingRequest (CreateUsageEvent _ _ _)) = 201"
| "created_status (BillingRequest (BillingWebhookPost _ _)) = 202"
| "created_status _ = 200"

fun success_status :: "request \<Rightarrow> response \<Rightarrow> int" where
  "success_status req NoContent = 204"
| "success_status req (Health pg rd) = (if pg \<and> rd then 200 else 503)"
| "success_status req _ = created_status req"

section \<open>Requests and responses\<close>

record http_response =
  resp_status :: int
  resp_headers :: "(string \<times> string) list"
  resp_body :: "json option"

text \<open>The list of error items of a validation error is represented by one text.\<close>

definition error_body :: "http_error \<Rightarrow> json" where
  "error_body h = JDict [(''error'', JDict ([(''code'', JStr (err_code h)), (''message'', JStr (err_message h)),
     (''request_id'', json_opt JStr (err_request_id h))] @
     (case err_details h of None \<Rightarrow> [] | Some de \<Rightarrow> [(''details'', JStr de)])))]"

definition error_response :: "http_error \<Rightarrow> http_response" where
  "error_response h = \<lparr>resp_status = status_code h, resp_headers = (case err_headers h of None \<Rightarrow> [] | Some hs \<Rightarrow> hs),
     resp_body = Some (error_body h)\<rparr>"

text \<open>The exceptions whose handlers run inside the middleware.\<close>

fun expected_error :: "exc \<Rightarrow> bool" where
  "expected_error (AppError _ _ _ _) = True"
| "expected_error (RequestValidationError _) = True"
| "expected_error (HTTPException _ _ _) = True"
| "expected_error _ = False"

definition with_request_id :: "string \<Rightarrow> http_response \<Rightarrow> http_response" where
  "with_request_id rid resp = resp\<lparr>resp_headers := (''X-Request-ID'', rid) # filter (\<lambda>h. fst h \<noteq> ''X-Request-ID'') (resp_headers resp)\<rparr>"

definition http_respond :: "timestamps \<Rightarrow> string \<Rightarrow> request \<Rightarrow> exc + response \<Rightarrow> http_response" where
  "http_respond enc rid req result =
     (case result of
        Inr resp \<Rightarrow> with_request_id rid \<lparr>resp_status = success_status req resp, resp_headers = [], resp_body = response_body enc resp\<rparr>
      | Inl e \<Rightarrow>
          let answer = error_response (render_error (Some rid) e)
          in if expected_error e then with_request_id rid answer else answer)"

definition serve_request ::
  "timestamps \<Rightarrow> ext \<Rightarrow> settings \<Rightarrow> string \<Rightarrow> runtime \<Rightarrow> string \<Rightarrow> request \<Rightarrow> app \<Rightarrow> http_response \<times> app" where
  "serve_request enc X S dummy_hash E supplied_id req s =
     (let rid = request_id E supplied_id in
      case handle X S dummy_hash (later_uuid 1 E) req s of (result, s') \<Rightarrow> (http_respond enc rid req result, s'))"

section \<open>Failed requests are rolled back\<close>

text \<open>The two endpoints that commit before they talk to Redis.\<close>

fun two_phase :: "request \<Rightarrow> bool" where
  "two_phase (MemberRequest (CreateInvitation _ _ _ _)) = True"
| "two_phase (BillingRequest (BillingWebhookPost _ _)) = True"
| "two_phase _ = False"

definition atomic :: "'a action \<Rightarrow> bool" where
  "atomic m = (\<forall>s e s'. m s = (Inl e, s') \<longrightarrow> fst s' = fst s)"

lemma atomic_session: "atomic (session m)"
  using session_Inl by (auto simp: atomic_def)

lemma atomic_ret: "atomic (ret x)"
  by (simp add: atomic_def)

lemma atomic_handle: "\<not> two_phase req \<Longrightarrow> atomic (handle X S dh E req)"
proof (cases req)
  case (AuthRequest q)
  then show ?thesis by (cases q) (simp_all add: route_defs atomic_session)
next
  case (OrganizationRequest q)
  then show ?thesis by (cases q) (simp_all add: route_defs atomic_session)
next
  case (MemberRequest q)
  assume "\<not> two_phase req"
  with MemberRequest show ?thesis by (cases q) (simp_all add: route_defs atomic_session)
next
  case (KeyRequest q)
  then show ?thesis by (cases q) (simp_all add: route_defs atomic_session)
next
  case (ProjectRequest q)
  then show ?thesis by (cases q) (simp_all add: route_defs atomic_session)
next
  case (BillingRequest q)
  assume "\<not> two_phase req"
  with BillingRequest show ?thesis by (cases q) (simp_all add: route_defs atomic_session)
qed (simp_all add: route_defs atomic_session atomic_ret)

text \<open>Only the readiness probe answers a success with a status of 400 or more, and it changes nothing.\<close>

lemma created_status_less: "created_status req < 400"
  by (induction req rule: created_status.induct) simp_all

lemma success_status_less: "400 \<le> success_status req resp \<Longrightarrow> \<exists>pg rd. resp = Health pg rd"
  using created_status_less [of req] by (cases resp) simp_all

text \<open>No route but the readiness probe answers with its outcome.\<close>

definition no_health :: "response action \<Rightarrow> bool" where
  "no_health m = (\<forall>s pg rd s'. m s \<noteq> (Inr (Health pg rd), s'))"

lemma no_health_bind: "(\<And>x. no_health (f x)) \<Longrightarrow> no_health (a_bind m f)"
  by (auto simp: no_health_def a_bind_Inr)

lemma no_health_case: "(\<And>x y. no_health (f x y)) \<Longrightarrow> no_health (case p of (x, y) \<Rightarrow> f x y)"
  by (cases p) simp

lemma no_health_session: "no_health m \<Longrightarrow> no_health (session m)"
  by (simp add: no_health_def)

lemma no_health_ret: "(\<And>pg rd. resp \<noteq> Health pg rd) \<Longrightarrow> no_health (ret resp)"
  by (auto simp: no_health_def)

lemmas no_health_intros = no_health_bind no_health_case no_health_session no_health_ret

lemma no_health_handle: "req \<noteq> GetReady \<Longrightarrow> no_health (handle X S dh E req)"
proof (cases req)
  case (AuthRequest q)
  then show ?thesis by (cases q) (auto simp: route_defs intro!: no_health_intros)
next
  case (OrganizationRequest q)
  then show ?thesis by (cases q) (auto simp: route_defs intro!: no_health_intros)
next
  case (MemberRequest q)
  then show ?thesis by (cases q) (auto simp: route_defs intro!: no_health_intros)
next
  case (KeyRequest q)
  then show ?thesis by (cases q) (auto simp: route_defs intro!: no_health_intros)
next
  case (ProjectRequest q)
  then show ?thesis by (cases q) (auto simp: route_defs intro!: no_health_intros)
next
  case (BillingRequest q)
  then show ?thesis by (cases q) (auto simp: route_defs intro!: no_health_intros)
qed (auto simp: route_defs intro!: no_health_intros)

lemma render_error_rid: "err_request_id (render_error rid e) = rid"
  by (auto simp: render_error_def app_error_handler_def validation_error_handler_def http_error_handler_def unexpected_error_handler_def
      error_payload_def split: exc.splits)

section \<open>Deliveries of webhooks\<close>

definition webhook_job :: "runtime \<Rightarrow> webhook_event \<Rightarrow> job" where
  "webhook_job E w = \<lparr>job_id = uuid_str (rt_uuid E 1), job_type = ''process_billing_webhook'',
     job_payload = [(''webhook_event_id'', JStr (uuid_str (whk_id w)))], job_attempt = 0, job_created_at = isoformat (rt_clock E 3)\<rparr>"

lemma enqueue_webhook:
  "enqueue X (later_uuid 1 (later_clock 3 E)) default_queue ''process_billing_webhook'' [(''webhook_event_id'', JStr (uuid_str (whk_id w)))] None r =
     (if r_up r then (Inr (webhook_job E w), lpush (queue_name default_queue) (to_json X (webhook_job E w)) r)
      else (Inl (RedisError ''Connection refused''), r))"
  by (simp add: enqueue_def create_job_def webhook_job_def command_def)

lemma billing_webhook_route_eq:
  assumes "parse_webhook X S E raw sig = Inr event"
  shows "billing_webhook_route X S E raw sig (d, r) =
    (case store_webhook_event E event d of
       Inl e \<Rightarrow> (Inl e, (d, r))
     | Inr ((w, created), d1) \<Rightarrow>
         let receipt = WebhookReceipt (whk_id w) (whk_status w) (\<not> created) in
         if created \<or> whk_status w \<noteq> PROCESSED then
           if r_up r then (Inr receipt, (d1, lpush (queue_name default_queue) (to_json X (webhook_job E w)) r))
           else (Inl (RedisError ''Connection refused''), (d1, r))
         else (Inr receipt, (d1, r)))"
  using assms
  by (auto simp: billing_webhook_route_def session_def a_bind_def checked_def service_def on_redis_def enqueue_webhook ret_def Let_def
      split: sum.splits prod.splits simp del: One_nat_def)

lemma store_webhook_event_no_redis: "store_webhook_event E event d \<noteq> Inl (RedisError m)"
  by (auto simp: store_webhook_event_def add_webhook_event_def Let_def split: option.splits sum.splits exc.splits)

text \<open>
  C16. A webhook is not lost when the queue is down: if its delivery was answered with an error because
  Redis failed, the event is stored and unprocessed, and the provider's repeated delivery, once Redis
  is back, is accepted as a duplicate, changes no row and enqueues the job that processes the event.
\<close>

theorem webhook_delivery_retried:
  assumes "parse_webhook X S E raw sig = Inr event" "wf_db d"
    "billing_webhook_route X S E raw sig (d, r) = (Inl (RedisError m), (d1, r1))"
    "parse_webhook X S E' raw sig' = Inr event" "r_up r2"
  shows "\<exists>w. find_webhook (bw_id event) d1 = Some w \<and> whk_status w \<noteq> PROCESSED \<and>
    billing_webhook_route X S E' raw sig' (d1, r2) =
      (Inr (WebhookReceipt (whk_id w) (whk_status w) True),
       (d1, lpush (queue_name default_queue) (to_json X (webhook_job E' w)) r2))"
proof -
  obtain w created where s: "store_webhook_event E event d = Inr ((w, created), d1)" "created \<or> whk_status w \<noteq> PROCESSED"
    using assms(3) store_webhook_event_no_redis [of E event d m]
    by (auto simp: billing_webhook_route_eq [OF assms(1)] Let_def split: sum.splits prod.splits if_splits)
  then have p: "whk_status w \<noteq> PROCESSED" using store_webhook_event_InrD [OF s(1)] by auto
  note st = store_webhook_event_stored [OF s(1)]
  have f: "find_webhook (bw_id event) d1 = Some w"
    using find_webhook_unique [OF store_webhook_event_wf [OF s(1) assms(2)], of w] st by simp
  then have "store_webhook_event E' event d1 = Inr ((w, False), d1)" by (simp add: store_webhook_event_def)
  then show ?thesis using p f assms(5) by (simp add: billing_webhook_route_eq [OF assms(4)] Let_def)
qed

definition sample_delivery :: string where
  "sample_delivery = dumps sample_ext (JDict (model_dump sample_webhook))"

definition sample_signature :: string where
  "sample_signature = build_webhook_signature sample_ext sample_delivery (billing_webhook_secret default_settings) 1715774400"

lemma sample_delivery_parsed:
  "parse_webhook sample_ext default_settings sample_rt sample_delivery (Some sample_signature) = Inr sample_webhook"
proof -
  have t: "unix_time (rt_clock sample_rt 0) = 1715774400"
    unfolding unix_time_def sample_rt_def runtime.simps by code_simp
  have v: "verify_webhook_signature sample_ext sample_delivery (Some sample_signature) (billing_webhook_secret default_settings)
      (unix_time (rt_clock sample_rt 0)) SIGNATURE_TOLERANCE_SECONDS = Inr ()"
    unfolding sample_signature_def t
    by (rule verify_built_signature) (simp_all add: hex_hmac_def digit_str_hex_digits SIGNATURE_TOLERANCE_SECONDS_def flip: length_0_conv)
  have l: "loads sample_ext sample_delivery = Some (JDict (model_dump sample_webhook))"
    unfolding sample_delivery_def by (rule loads_dumps) (simp add: model_dump_def sample_webhook_def)
  have b: "BillingWebhook (JDict (model_dump sample_webhook)) = Inr sample_webhook"
    by (simp add: BillingWebhook_def model_dump_def sample_webhook_def str_field_def dict_get_def length_between_def)
  have w: "validate_webhook sample_ext F sample_webhook = Inr [(''organization_id'', JStr (uuid_str 10))]" for F
    by (simp add: validate_webhook_def sample_webhook_def SUPPORTED_EVENTS_def dict_get_def on_error_def webhook_organization_def
        py_str_def period_change_def)
  show ?thesis unfolding parse_webhook_def using v l b w by simp
qed

theorem webhook_delivery_retried_witness:
  "\<exists>w d1. billing_webhook_route sample_ext default_settings sample_rt sample_delivery (Some sample_signature) (sample_db, empty_redis\<lparr>r_up := False\<rparr>) =
     (Inl (RedisError ''Connection refused''), (d1, empty_redis\<lparr>r_up := False\<rparr>)) \<and>
   billing_webhook_route sample_ext default_settings sample_rt sample_delivery (Some sample_signature) (d1, empty_redis) =
     (Inr (WebhookReceipt (whk_id w) (whk_status w) True),
      (d1, lpush (queue_name default_queue) (to_json sample_ext (webhook_job sample_rt w)) empty_redis))"
proof -
  obtain w d1 where "store_webhook_event sample_rt sample_webhook sample_db = Inr ((w, True), d1)"
    by (simp add: service_defs sample_webhook_def Let_def)
  then have s: "billing_webhook_route sample_ext default_settings sample_rt sample_delivery (Some sample_signature) (sample_db, empty_redis\<lparr>r_up := False\<rparr>) =
      (Inl (RedisError ''Connection refused''), (d1, empty_redis\<lparr>r_up := False\<rparr>))"
    by (simp add: billing_webhook_route_eq [OF sample_delivery_parsed] Let_def)
  have "r_up empty_redis" by (simp add: empty_redis_def)
  from webhook_delivery_retried [OF sample_delivery_parsed sample_wf s sample_delivery_parsed this] s show ?thesis by blast
qed

end
