(* ===== verification/Telemetry.thy ===== *)
theory Telemetry
  imports Core
begin

text \<open>
  Metrics and log lines: the counters and the histogram of \<^verbatim>\<open>app/core/metrics.py\<close> and the events that
  \<^verbatim>\<open>structlog\<close> writes. They are state the program only adds to; \<^verbatim>\<open>prometheus_client\<close> renders the
  counters, and the processors of \<^verbatim>\<open>configure_logging\<close> add a level and a time to every event.
\<close>

text \<open>
  A counter has a value for every list of label values; a histogram is the list of its observations. A
  log line is an event with its fields, \<open>request_id\<close> among them while it is bound.
\<close>

type_synonym metric = "string \<times> string list"

definition HTTP_REQUESTS :: metric where
  "HTTP_REQUESTS = (''http_requests_total'', [''method'', ''route'', ''status''])"

definition HTTP_DURATION :: metric where
  "HTTP_DURATION = (''http_request_duration_seconds'', [''method'', ''route''])"

definition BACKGROUND_JOBS :: metric where
  "BACKGROUND_JOBS = (''background_jobs_total'', [''job_type'', ''outcome''])"

definition BACKGROUND_JOB_FAILURES :: metric where
  "BACKGROUND_JOB_FAILURES = (''background_job_failures_total'', [''job_type''])"

definition WEBHOOK_EVENTS :: metric where
  "WEBHOOK_EVENTS = (''webhook_events_total'', [''event_type'', ''outcome''])"

lemmas metric_defs = HTTP_REQUESTS_def HTTP_DURATION_def BACKGROUND_JOBS_def BACKGROUND_JOB_FAILURES_def WEBHOOK_EVENTS_def

record telemetry =
  counts :: "metric \<Rightarrow> string list \<Rightarrow> nat"
  observed :: "(metric \<times> string list \<times> rat) list"
  logged :: "(string \<times> dict) list"

definition no_telemetry :: telemetry where
  "no_telemetry = \<lparr>counts = (\<lambda>_ _. 0), observed = [], logged = []\<rparr>"

definition inc :: "metric \<Rightarrow> string list \<Rightarrow> telemetry \<Rightarrow> telemetry" where
  "inc m labels t = t\<lparr>counts := (counts t)(m := (counts t m)(labels := counts t m labels + 1))\<rparr>"

definition observe :: "metric \<Rightarrow> string list \<Rightarrow> rat \<Rightarrow> telemetry \<Rightarrow> telemetry" where
  "observe m labels v t = t\<lparr>observed := observed t @ [(m, labels, v)]\<rparr>"

definition log_event :: "string \<Rightarrow> dict \<Rightarrow> telemetry \<Rightarrow> telemetry" where
  "log_event event entry t = t\<lparr>logged := logged t @ [(event, entry)]\<rparr>"

section \<open>Rounding\<close>

text \<open>Python's \<open>round\<close>: to the nearest multiple of one hundredth, ties to the even one.\<close>

definition round2 :: "rat \<Rightarrow> rat" where
  "round2 x =
     (let y = x * 100; n = \<lfloor>y\<rfloor>; f = y - of_int n in
      of_int (if f < 1 / 2 \<or> f = 1 / 2 \<and> even n then n else n + 1) / 100)"

end
