(* ===== verification/Application.thy ===== *)
theory Application
  imports Routing Http Telemetry
begin

text \<open>
  The application as a whole, \<^verbatim>\<open>app/main.py\<close>: the typed parameters of every endpoint function (path,
  query, header and body fields), the dependencies that run before a validation error is reported, the
  answers to requests that match no route, and the request context middleware (\<^verbatim>\<open>app/core/logging.py\<close>)
  with the metrics it counts and the line it logs.
\<close>

section \<open>Requests\<close>

text \<open>
  The body as FastAPI decodes it for an endpoint with a body model: \<open>Malformed\<close> is a body that is not
  JSON, which is refused before any dependency runs. Header names are in lower case.
\<close>

datatype content = Absent | Malformed | Content json

record raw_request =
  rq_method :: string
  rq_path :: string
  rq_query :: "string \<Rightarrow> string option"
  rq_headers :: "string \<Rightarrow> string option"
  rq_content :: content
  rq_body :: string
  rq_client :: "string option"

text \<open>What the framework's parsers return: pydantic's UUID and integer parsers and FastAPI's \<open>HTTPBearer\<close>.\<close>

record parsers =
  uuid_param :: "string \<Rightarrow> uuid option"
  int_param :: "string \<Rightarrow> int option"
  lax_int :: "json \<Rightarrow> int option"
  http_bearer :: "string \<Rightarrow> credentials"

definition bearer_scheme :: "parsers \<Rightarrow> raw_request \<Rightarrow> credentials" where
  "bearer_scheme P rq = (case rq_headers rq ''authorization'' of None \<Rightarrow> None | Some v \<Rightarrow> http_bearer P v)"

definition api_key_header :: "raw_request \<Rightarrow> string option" where
  "api_key_header rq = rq_headers rq ''x-api-key''"

section \<open>Parameters\<close>

definition path_uuid :: "parsers \<Rightarrow> (string \<times> string) list \<Rightarrow> string \<Rightarrow> exc + uuid" where
  "path_uuid P ps name = require (case map_of ps name of None \<Rightarrow> None | Some v \<Rightarrow> uuid_param P v) (ValidationError ''uuid_parsing'')"

definition query_int :: "parsers \<Rightarrow> raw_request \<Rightarrow> string \<Rightarrow> int \<Rightarrow> exc + int" where
  "query_int P rq name fallback = (case rq_query rq name of
       None \<Rightarrow> Inr fallback | Some v \<Rightarrow> require (int_param P v) (ValidationError ''int_parsing''))"

definition body_fields :: "raw_request \<Rightarrow> exc + dict" where
  "body_fields rq = (case rq_content rq of
       Content (JDict d) \<Rightarrow> Inr d
     | Absent \<Rightarrow> Inl (ValidationError ''missing'')
     | _ \<Rightarrow> Inl (ValidationError ''model_attributes_type''))"

definition string_value :: "json \<Rightarrow> exc + string" where
  "string_value j = (case j of JStr s \<Rightarrow> Inr s | _ \<Rightarrow> Inl (ValidationError ''string_type''))"

definition enum_value :: "(string \<Rightarrow> 'a option) \<Rightarrow> json \<Rightarrow> exc + 'a" where
  "enum_value member j = (case j of JStr s \<Rightarrow> require (member s) (ValidationError ''enum'') | _ \<Rightarrow> Inl (ValidationError ''enum''))"

definition required_field :: "(json \<Rightarrow> exc + 'a) \<Rightarrow> dict \<Rightarrow> string \<Rightarrow> exc + 'a" where
  "required_field conv d k = (case dict_get d k of None \<Rightarrow> Inl (ValidationError ''missing'') | Some j \<Rightarrow> conv j)"

text \<open>A field that may be left out, and one that may also be null.\<close>

definition optional_field :: "(json \<Rightarrow> exc + 'a) \<Rightarrow> dict \<Rightarrow> string \<Rightarrow> exc + 'a option" where
  "optional_field conv d k = (case dict_get d k of None \<Rightarrow> Inr None | Some j \<Rightarrow> r_bind (conv j) (\<lambda>x. Inr (Some x)))"

definition nullable :: "(json \<Rightarrow> exc + 'a) \<Rightarrow> json \<Rightarrow> exc + 'a option" where
  "nullable conv j = (if j = JNull then Inr None else r_bind (conv j) (\<lambda>x. Inr (Some x)))"

definition role_of :: "string \<Rightarrow> role option" where
  "role_of s = (if s = ''OWNER'' then Some OWNER else if s = ''ADMIN'' then Some ADMIN else if s = ''MEMBER'' then Some MEMBER else None)"

definition project_status_of :: "string \<Rightarrow> project_status option" where
  "project_status_of s = (if s = ''ACTIVE'' then Some ACTIVE_PROJECT else if s = ''ARCHIVED'' then Some ARCHIVED else None)"

datatype call = Call request | Metrics

definition with_org :: "parsers \<Rightarrow> (string \<times> string) list \<Rightarrow> (uuid \<Rightarrow> exc + 'a) \<Rightarrow> exc + 'a" where
  "with_org P ps f = r_bind (path_uuid P ps ''organization_id'') f"

text \<open>
  What FastAPI makes of a request from the signature of each endpoint function: the path, query, header
  and body parameters with their types, in the order of the errors, and the call they amount to.
\<close>

definition auth_register_call :: "parsers \<Rightarrow> (string \<times> string) list \<Rightarrow> raw_request \<Rightarrow> exc + call" where
  [simp]: "auth_register_call P ps rq = r_bind (body_fields rq) (\<lambda>d.
     r_bind (required_field string_value d ''email'') (\<lambda>email. r_bind (required_field string_value d ''password'') (\<lambda>pw.
     Inr (Call (AuthRequest (Register email pw))))))"

definition auth_login_call :: "parsers \<Rightarrow> (string \<times> string) list \<Rightarrow> raw_request \<Rightarrow> exc + call" where
  [simp]: "auth_login_call P ps rq = r_bind (body_fields rq) (\<lambda>d.
     r_bind (required_field string_value d ''email'') (\<lambda>email. r_bind (required_field string_value d ''password'') (\<lambda>pw.
     Inr (Call (AuthRequest (Login email pw))))))"

definition auth_refresh_call :: "parsers \<Rightarrow> (string \<times> string) list \<Rightarrow> raw_request \<Rightarrow> exc + call" where
  [simp]: "auth_refresh_call P ps rq = r_bind (body_fields rq) (\<lambda>d.
     r_bind (required_field string_value d ''refresh_token'') (\<lambda>t. Inr (Call (AuthRequest (Refresh t)))))"

definition auth_logout_call :: "parsers \<Rightarrow> (string \<times> string) list \<Rightarrow> raw_request \<Rightarrow> exc + call" where
  [simp]: "auth_logout_call P ps rq = r_bind (body_fields rq) (\<lambda>d.
     r_bind (required_field string_value d ''refresh_token'') (\<lambda>t. Inr (Call (AuthRequest (Logout t)))))"

definition auth_me_call :: "parsers \<Rightarrow> (string \<times> string) list \<Rightarrow> raw_request \<Rightarrow> exc + call" where
  [simp]: "auth_me_call P ps rq = Inr (Call (AuthRequest (Me (bearer_scheme P rq))))"

definition organizations_create_call :: "parsers \<Rightarrow> (string \<times> string) list \<Rightarrow> raw_request \<Rightarrow> exc + call" where
  [simp]: "organizations_create_call P ps rq = r_bind (body_fields rq) (\<lambda>d.
     r_bind (required_field string_value d ''name'') (\<lambda>name. r_bind (required_field string_value d ''slug'') (\<lambda>slug.
     Inr (Call (OrganizationRequest (CreateOrganization (bearer_scheme P rq) name slug))))))"

definition organizations_list_call :: "parsers \<Rightarrow> (string \<times> string) list \<Rightarrow> raw_request \<Rightarrow> exc + call" where
  [simp]: "organizations_list_call P ps rq = Inr (Call (OrganizationRequest (ListOrganizations (bearer_scheme P rq))))"

definition organizations_get_call :: "parsers \<Rightarrow> (string \<times> string) list \<Rightarrow> raw_request \<Rightarrow> exc + call" where
  [simp]: "organizations_get_call P ps rq = with_org P ps (\<lambda>oid. Inr (Call (OrganizationRequest (GetOrganization (bearer_scheme P rq) oid))))"

definition organizations_update_call :: "parsers \<Rightarrow> (string \<times> string) list \<Rightarrow> raw_request \<Rightarrow> exc + call" where
  [simp]: "organizations_update_call P ps rq = with_org P ps (\<lambda>oid. r_bind (body_fields rq) (\<lambda>d.
     r_bind (optional_field (nullable string_value) d ''name'') (\<lambda>name. r_bind (optional_field (nullable string_value) d ''slug'') (\<lambda>slug.
     Inr (Call (OrganizationRequest (UpdateOrganization (bearer_scheme P rq) oid name slug)))))))"

definition organizations_delete_call :: "parsers \<Rightarrow> (string \<times> string) list \<Rightarrow> raw_request \<Rightarrow> exc + call" where
  [simp]: "organizations_delete_call P ps rq = with_org P ps (\<lambda>oid. Inr (Call (OrganizationRequest (DeleteOrganization (bearer_scheme P rq) oid))))"

definition members_list_call :: "parsers \<Rightarrow> (string \<times> string) list \<Rightarrow> raw_request \<Rightarrow> exc + call" where
  [simp]: "members_list_call P ps rq = with_org P ps (\<lambda>oid. Inr (Call (MemberRequest (ListMembers (bearer_scheme P rq) oid))))"

definition members_update_call :: "parsers \<Rightarrow> (string \<times> string) list \<Rightarrow> raw_request \<Rightarrow> exc + call" where
  [simp]: "members_update_call P ps rq = with_org P ps (\<lambda>oid. r_bind (path_uuid P ps ''membership_id'') (\<lambda>mid.
     r_bind (body_fields rq) (\<lambda>d. r_bind (required_field (enum_value role_of) d ''role'') (\<lambda>r.
     Inr (Call (MemberRequest (UpdateMember (bearer_scheme P rq) oid mid r)))))))"

definition members_delete_call :: "parsers \<Rightarrow> (string \<times> string) list \<Rightarrow> raw_request \<Rightarrow> exc + call" where
  [simp]: "members_delete_call P ps rq = with_org P ps (\<lambda>oid. r_bind (path_uuid P ps ''membership_id'') (\<lambda>mid.
     Inr (Call (MemberRequest (DeleteMember (bearer_scheme P rq) oid mid)))))"

definition invitations_create_call :: "parsers \<Rightarrow> (string \<times> string) list \<Rightarrow> raw_request \<Rightarrow> exc + call" where
  [simp]: "invitations_create_call P ps rq = with_org P ps (\<lambda>oid. r_bind (body_fields rq) (\<lambda>d.
     r_bind (required_field string_value d ''email'') (\<lambda>email. r_bind (optional_field (enum_value role_of) d ''role'') (\<lambda>r.
     Inr (Call (MemberRequest (CreateInvitation (bearer_scheme P rq) oid email r)))))))"

definition invitations_accept_call :: "parsers \<Rightarrow> (string \<times> string) list \<Rightarrow> raw_request \<Rightarrow> exc + call" where
  [simp]: "invitations_accept_call P ps rq = r_bind (require (map_of ps ''token'') (ValidationError ''missing'')) (\<lambda>token.
     Inr (Call (MemberRequest (AcceptInvitation (bearer_scheme P rq) token))))"

definition api_keys_create_call :: "parsers \<Rightarrow> (string \<times> string) list \<Rightarrow> raw_request \<Rightarrow> exc + call" where
  [simp]: "api_keys_create_call P ps rq = with_org P ps (\<lambda>oid. r_bind (body_fields rq) (\<lambda>d.
     r_bind (required_field string_value d ''name'') (\<lambda>name.
     Inr (Call (KeyRequest (CreateApiKey (bearer_scheme P rq) oid name))))))"

definition api_keys_list_call :: "parsers \<Rightarrow> (string \<times> string) list \<Rightarrow> raw_request \<Rightarrow> exc + call" where
  [simp]: "api_keys_list_call P ps rq = with_org P ps (\<lambda>oid. Inr (Call (KeyRequest (ListApiKeys (bearer_scheme P rq) oid))))"

definition api_keys_delete_call :: "parsers \<Rightarrow> (string \<times> string) list \<Rightarrow> raw_request \<Rightarrow> exc + call" where
  [simp]: "api_keys_delete_call P ps rq = with_org P ps (\<lambda>oid. r_bind (path_uuid P ps ''key_id'') (\<lambda>kid.
     Inr (Call (KeyRequest (DeleteApiKey (bearer_scheme P rq) oid kid)))))"

definition projects_create_call :: "parsers \<Rightarrow> (string \<times> string) list \<Rightarrow> raw_request \<Rightarrow> exc + call" where
  [simp]: "projects_create_call P ps rq = with_org P ps (\<lambda>oid. r_bind (body_fields rq) (\<lambda>d.
     r_bind (required_field string_value d ''name'') (\<lambda>name. r_bind (optional_field (nullable string_value) d ''description'') (\<lambda>de.
     Inr (Call (ProjectRequest (CreateProject (bearer_scheme P rq) oid name (case de of None \<Rightarrow> None | Some v \<Rightarrow> v))))))))"

definition projects_list_call :: "parsers \<Rightarrow> (string \<times> string) list \<Rightarrow> raw_request \<Rightarrow> exc + call" where
  [simp]: "projects_list_call P ps rq = with_org P ps (\<lambda>oid. Inr (Call (ProjectRequest (ListProjects (bearer_scheme P rq) oid))))"

definition projects_get_call :: "parsers \<Rightarrow> (string \<times> string) list \<Rightarrow> raw_request \<Rightarrow> exc + call" where
  [simp]: "projects_get_call P ps rq = with_org P ps (\<lambda>oid. r_bind (path_uuid P ps ''project_id'') (\<lambda>pid.
     Inr (Call (ProjectRequest (GetProject (bearer_scheme P rq) oid pid)))))"

definition projects_update_call :: "parsers \<Rightarrow> (string \<times> string) list \<Rightarrow> raw_request \<Rightarrow> exc + call" where
  [simp]: "projects_update_call P ps rq = with_org P ps (\<lambda>oid. r_bind (path_uuid P ps ''project_id'') (\<lambda>pid.
     r_bind (body_fields rq) (\<lambda>d. r_bind (optional_field (nullable string_value) d ''name'') (\<lambda>name.
     r_bind (optional_field (nullable string_value) d ''description'') (\<lambda>de.
     r_bind (optional_field (nullable (enum_value project_status_of)) d ''status'') (\<lambda>st.
     Inr (Call (ProjectRequest (UpdateProject (bearer_scheme P rq) oid pid name de st)))))))))"

definition projects_delete_call :: "parsers \<Rightarrow> (string \<times> string) list \<Rightarrow> raw_request \<Rightarrow> exc + call" where
  [simp]: "projects_delete_call P ps rq = with_org P ps (\<lambda>oid. r_bind (path_uuid P ps ''project_id'') (\<lambda>pid.
     Inr (Call (ProjectRequest (DeleteProject (bearer_scheme P rq) oid pid)))))"

definition usage_read_call :: "parsers \<Rightarrow> (string \<times> string) list \<Rightarrow> raw_request \<Rightarrow> exc + call" where
  [simp]: "usage_read_call P ps rq = with_org P ps (\<lambda>oid. Inr (Call (BillingRequest (ReadUsage (bearer_scheme P rq) oid))))"

definition usage_create_event_call :: "parsers \<Rightarrow> (string \<times> string) list \<Rightarrow> raw_request \<Rightarrow> exc + call" where
  [simp]: "usage_create_event_call P ps rq = with_org P ps (\<lambda>oid. r_bind (body_fields rq) (\<lambda>d.
     r_bind (required_field (\<lambda>j. require (lax_int P j) (ValidationError ''int_type'')) d ''quantity'') (\<lambda>q.
     Inr (Call (BillingRequest (CreateUsageEvent (api_key_header rq) oid q))))))"

definition billing_read_call :: "parsers \<Rightarrow> (string \<times> string) list \<Rightarrow> raw_request \<Rightarrow> exc + call" where
  [simp]: "billing_read_call P ps rq = with_org P ps (\<lambda>oid. Inr (Call (BillingRequest (ReadSubscription (bearer_scheme P rq) oid))))"

definition billing_change_plan_call :: "parsers \<Rightarrow> (string \<times> string) list \<Rightarrow> raw_request \<Rightarrow> exc + call" where
  [simp]: "billing_change_plan_call P ps rq = with_org P ps (\<lambda>oid. r_bind (body_fields rq) (\<lambda>d.
     r_bind (required_field (enum_value plan_of) d ''plan'') (\<lambda>plan.
     Inr (Call (BillingRequest (UpdatePlan (bearer_scheme P rq) oid plan (rq_client rq)))))))"

definition webhooks_billing_call :: "parsers \<Rightarrow> (string \<times> string) list \<Rightarrow> raw_request \<Rightarrow> exc + call" where
  [simp]: "webhooks_billing_call P ps rq = Inr (Call (BillingRequest (BillingWebhookPost (rq_body rq) (rq_headers rq ''stripe-signature''))))"

definition audit_read_call :: "parsers \<Rightarrow> (string \<times> string) list \<Rightarrow> raw_request \<Rightarrow> exc + call" where
  [simp]: "audit_read_call P ps rq = with_org P ps (\<lambda>oid. r_bind (query_int P rq ''limit'' 50) (\<lambda>limit.
     r_bind (query_int P rq ''offset'' 0) (\<lambda>offset.
     Inr (Call (BillingRequest (ReadAuditLog (bearer_scheme P rq) oid limit offset))))))"

definition health_live_call :: "parsers \<Rightarrow> (string \<times> string) list \<Rightarrow> raw_request \<Rightarrow> exc + call" where
  [simp]: "health_live_call P ps rq = Inr (Call GetLive)"

definition health_ready_call :: "parsers \<Rightarrow> (string \<times> string) list \<Rightarrow> raw_request \<Rightarrow> exc + call" where
  [simp]: "health_ready_call P ps rq = Inr (Call GetReady)"

definition metrics_get_call :: "parsers \<Rightarrow> (string \<times> string) list \<Rightarrow> raw_request \<Rightarrow> exc + call" where
  [simp]: "metrics_get_call P ps rq = Inr Metrics"

fun parse_call :: "parsers \<Rightarrow> endpoint \<Rightarrow> (string \<times> string) list \<Rightarrow> raw_request \<Rightarrow> exc + call" where
  "parse_call P AuthRegister ps rq = auth_register_call P ps rq"
| "parse_call P AuthLogin ps rq = auth_login_call P ps rq"
| "parse_call P AuthRefresh ps rq = auth_refresh_call P ps rq"
| "parse_call P AuthLogout ps rq = auth_logout_call P ps rq"
| "parse_call P AuthMe ps rq = auth_me_call P ps rq"
| "parse_call P OrganizationsCreate ps rq = organizations_create_call P ps rq"
| "parse_call P OrganizationsList ps rq = organizations_list_call P ps rq"
| "parse_call P OrganizationsGet ps rq = organizations_get_call P ps rq"
| "parse_call P OrganizationsUpdate ps rq = organizations_update_call P ps rq"
| "parse_call P OrganizationsDelete ps rq = organizations_delete_call P ps rq"
| "parse_call P MembersList ps rq = members_list_call P ps rq"
| "parse_call P MembersUpdate ps rq = members_update_call P ps rq"
| "parse_call P MembersDelete ps rq = members_delete_call P ps rq"
| "parse_call P InvitationsCreate ps rq = invitations_create_call P ps rq"
| "parse_call P InvitationsAccept ps rq = invitations_accept_call P ps rq"
| "parse_call P ApiKeysCreate ps rq = api_keys_create_call P ps rq"
| "parse_call P ApiKeysList ps rq = api_keys_list_call P ps rq"
| "parse_call P ApiKeysDelete ps rq = api_keys_delete_call P ps rq"
| "parse_call P ProjectsCreate ps rq = projects_create_call P ps rq"
| "parse_call P ProjectsList ps rq = projects_list_call P ps rq"
| "parse_call P ProjectsGet ps rq = projects_get_call P ps rq"
| "parse_call P ProjectsUpdate ps rq = projects_update_call P ps rq"
| "parse_call P ProjectsDelete ps rq = projects_delete_call P ps rq"
| "parse_call P UsageRead ps rq = usage_read_call P ps rq"
| "parse_call P UsageCreateEvent ps rq = usage_create_event_call P ps rq"
| "parse_call P BillingRead ps rq = billing_read_call P ps rq"
| "parse_call P BillingChangePlan ps rq = billing_change_plan_call P ps rq"
| "parse_call P WebhooksBilling ps rq = webhooks_billing_call P ps rq"
| "parse_call P AuditRead ps rq = audit_read_call P ps rq"
| "parse_call P HealthLive ps rq = health_live_call P ps rq"
| "parse_call P HealthReady ps rq = health_ready_call P ps rq"
| "parse_call P MetricsGet ps rq = metrics_get_call P ps rq"

section \<open>Dependencies\<close>

text \<open>Who an endpoint admits, as the dependencies in its signature say.\<close>

datatype admission = Public | LoggedIn | Members "role list" | KeyHolder

fun access :: "endpoint \<Rightarrow> admission" where
  "access AuthMe = LoggedIn"
| "access OrganizationsCreate = LoggedIn"
| "access OrganizationsList = LoggedIn"
| "access OrganizationsGet = Members everyone"
| "access OrganizationsUpdate = Members [OWNER, ADMIN]"
| "access OrganizationsDelete = Members [OWNER]"
| "access MembersList = Members everyone"
| "access MembersUpdate = Members [OWNER, ADMIN]"
| "access MembersDelete = Members [OWNER, ADMIN]"
| "access InvitationsCreate = Members [OWNER, ADMIN]"
| "access InvitationsAccept = LoggedIn"
| "access ApiKeysCreate = Members [OWNER]"
| "access ApiKeysList = Members [OWNER]"
| "access ApiKeysDelete = Members [OWNER]"
| "access ProjectsCreate = Members everyone"
| "access ProjectsList = Members everyone"
| "access ProjectsGet = Members everyone"
| "access ProjectsUpdate = Members everyone"
| "access ProjectsDelete = Members everyone"
| "access UsageRead = Members everyone"
| "access UsageCreateEvent = KeyHolder"
| "access BillingRead = Members [OWNER]"
| "access BillingChangePlan = Members [OWNER]"
| "access AuditRead = Members [OWNER, ADMIN]"
| "access _ = Public"

text \<open>
  What runs before a validation error is reported: FastAPI resolves every dependency whose own
  parameters are valid, so an organization identifier that is no UUID is reported to users only.
\<close>

definition dependencies ::
  "ext \<Rightarrow> settings \<Rightarrow> parsers \<Rightarrow> runtime \<Rightarrow> endpoint \<Rightarrow> (string \<times> string) list \<Rightarrow> raw_request \<Rightarrow> unit action" where
  "dependencies X S P E e ps rq =
     a_bind (case access e of
         Public \<Rightarrow> ret ()
       | LoggedIn \<Rightarrow> a_bind (get_current_user X S E (bearer_scheme P rq)) (\<lambda>_. ret ())
       | Members allowed_roles \<Rightarrow>
           (case path_uuid P ps ''organization_id'' of
              Inr organization_id \<Rightarrow> a_bind (current_member X S E (bearer_scheme P rq) organization_id allowed_roles) (\<lambda>_. ret ())
            | Inl _ \<Rightarrow> a_bind (get_current_user X S E (bearer_scheme P rq)) (\<lambda>_. ret ()))
       | KeyHolder \<Rightarrow> a_bind (get_api_key_principal X S E (api_key_header rq)) (\<lambda>_. ret ())) (\<lambda>_.
     if e = BillingChangePlan then a_bind (checked (require_development_billing S)) (\<lambda>_. ret ()) else ret ())"

text \<open>The endpoints whose function has a body model.\<close>

fun has_body :: "endpoint \<Rightarrow> bool" where
  "has_body AuthRegister = True"
| "has_body AuthLogin = True"
| "has_body AuthRefresh = True"
| "has_body AuthLogout = True"
| "has_body OrganizationsCreate = True"
| "has_body OrganizationsUpdate = True"
| "has_body MembersUpdate = True"
| "has_body InvitationsCreate = True"
| "has_body ApiKeysCreate = True"
| "has_body ProjectsCreate = True"
| "has_body ProjectsUpdate = True"
| "has_body UsageCreateEvent = True"
| "has_body BillingChangePlan = True"
| "has_body _ = False"

section \<open>Answers\<close>

definition success_response :: "timestamps \<Rightarrow> request \<Rightarrow> response \<Rightarrow> http_response" where
  "success_response enc req x = \<lparr>resp_status = success_status req x, resp_headers = [], resp_body = response_body enc x\<rparr>"

text \<open>The text of \<^verbatim>\<open>/metrics\<close> is represented as a string.\<close>

definition metrics_response :: "string \<Rightarrow> http_response" where
  "metrics_response metrics_text = \<lparr>resp_status = 200, resp_headers = [(''Content-Type'', ''text/plain; version=0.0.4; charset=utf-8'')],
     resp_body = Some (JStr metrics_text)\<rparr>"

definition call_endpoint ::
  "timestamps \<Rightarrow> ext \<Rightarrow> settings \<Rightarrow> string \<Rightarrow> parsers \<Rightarrow> string \<Rightarrow> runtime \<Rightarrow> endpoint \<Rightarrow> (string \<times> string) list \<Rightarrow>
     raw_request \<Rightarrow> http_response action" where
  "call_endpoint enc X S dummy_hash P metrics_text E e ps rq =
     (if has_body e \<and> rq_content rq = Malformed then checked (Inl (RequestValidationError ''json_invalid''))
      else case parse_call P e ps rq of
          Inr Metrics \<Rightarrow> ret (metrics_response metrics_text)
        | Inr (Call req) \<Rightarrow> a_bind (handle X S dummy_hash E req) (\<lambda>x. ret (success_response enc req x))
        | Inl err \<Rightarrow> session (a_bind (dependencies X S P E e ps rq) (\<lambda>_. body (Inl err))))"

definition call_next ::
  "timestamps \<Rightarrow> ext \<Rightarrow> settings \<Rightarrow> string \<Rightarrow> parsers \<Rightarrow> string \<Rightarrow> runtime \<Rightarrow> raw_request \<Rightarrow> http_response action" where
  "call_next enc X S dummy_hash P metrics_text E rq =
     (case resolve (rq_method rq) (rq_path rq) of
        Matched r ps \<Rightarrow> call_endpoint enc X S dummy_hash P metrics_text E (route_endpoint r) ps rq
      | MethodNotAllowed r \<Rightarrow> checked (Inl (HTTPException 405 (Some ''Method Not Allowed'') (Some [(''Allow'', route_method r)])))
      | SlashRedirect path \<Rightarrow> ret \<lparr>resp_status = 307, resp_headers = [(''location'', path)], resp_body = None\<rparr>
      | Unmatched \<Rightarrow> checked (Inl (HTTPException 404 (Some ''Not Found'') None)))"

section \<open>What a request leaves in metrics and logs\<close>

definition route_label :: "resolution \<Rightarrow> string" where
  "route_label res = (case res of Matched r ps \<Rightarrow> route_path r | MethodNotAllowed r \<Rightarrow> route_path r | _ \<Rightarrow> ''unmatched'')"

definition observe_request :: "string \<Rightarrow> string \<Rightarrow> int \<Rightarrow> string \<Rightarrow> rat \<Rightarrow> telemetry \<Rightarrow> telemetry" where
  "observe_request method path status rid duration_seconds t =
     log_event ''http_request'' [(''request_id'', JStr rid), (''method'', JStr method), (''path'', JStr path),
       (''status_code'', JInt status), (''duration_ms'', JFloat (round2 (duration_seconds * 1000)))]
     (observe HTTP_DURATION [method, path] duration_seconds
     (inc HTTP_REQUESTS [method, path, int_str status] t))"

text \<open>
  What the webhook endpoint counts: a delivery refused for its signature or content, an accepted one or
  a duplicate; nothing when another exception leaves it.
\<close>

definition count_webhook :: "exc + billing_webhook \<Rightarrow> exc + response \<Rightarrow> telemetry \<Rightarrow> telemetry" where
  "count_webhook parsed result t =
     (case parsed of
        Inl (AppError _ _ _ _) \<Rightarrow> inc WEBHOOK_EVENTS [''invalid'', ''rejected''] t
      | Inl _ \<Rightarrow> t
      | Inr event \<Rightarrow>
          (case result of
             Inr (WebhookReceipt _ _ duplicate) \<Rightarrow> inc WEBHOOK_EVENTS [bw_type event, if duplicate then ''duplicate'' else ''accepted''] t
           | _ \<Rightarrow> t))"

text \<open>
  What the invitation endpoint logs when the mail cannot be queued: \<open>stored_invitation\<close> is the endpoint up to its
  commit.
\<close>

definition stored_invitation ::
  "ext \<Rightarrow> settings \<Rightarrow> runtime \<Rightarrow> credentials \<Rightarrow> uuid \<Rightarrow> string \<Rightarrow> role option \<Rightarrow> (invitation \<times> string) action" where
  "stored_invitation X S E c organization_id email role = session (
     a_bind (current_member X S E c organization_id [OWNER, ADMIN]) (\<lambda>(user, _).
     a_bind (body (InvitationCreate email role)) (\<lambda>payload.
     service (create_invitation X S (later_clock 2 E) organization_id (usr_id user) payload))))"

definition undelivered_line :: "string \<Rightarrow> uuid \<Rightarrow> uuid \<Rightarrow> string \<times> dict" where
  "undelivered_line rid invitation_id organization_id =
     (''invitation_email_delivery_failed'',
      [(''request_id'', JStr rid), (''invitation_id'', JStr (uuid_str invitation_id)), (''organization_id'', JStr (uuid_str organization_id))])"

definition log_undelivered ::
  "ext \<Rightarrow> settings \<Rightarrow> runtime \<Rightarrow> string \<Rightarrow> credentials \<Rightarrow> uuid \<Rightarrow> string \<Rightarrow> role option \<Rightarrow> app \<Rightarrow> telemetry \<Rightarrow> telemetry" where
  "log_undelivered X S E rid c organization_id email role s t =
     (case stored_invitation X S E c organization_id email role s of
        (Inr (invitation, raw_token), (d, r)) \<Rightarrow>
          (case fst (send_invitation X (later_uuid 2 (later_clock 3 E)) (inv_email invitation)
              (inv_organization_id invitation) (inv_id invitation) raw_token r) of
             Inl (InvitationDeliveryError _) \<Rightarrow>
               case_prod log_event (undelivered_line rid (inv_id invitation) (inv_organization_id invitation)) t
           | _ \<Rightarrow> t)
      | _ \<Rightarrow> t)"

text \<open>What the endpoint itself adds to metrics and log, before the line of the middleware.\<close>

definition endpoint_telemetry ::
  "ext \<Rightarrow> settings \<Rightarrow> parsers \<Rightarrow> runtime \<Rightarrow> string \<Rightarrow> raw_request \<Rightarrow> app \<Rightarrow> telemetry \<Rightarrow> telemetry" where
  "endpoint_telemetry X S P E rid rq s t =
     (case resolve (rq_method rq) (rq_path rq) of
        Matched r ps \<Rightarrow>
          if route_endpoint r = WebhooksBilling then
            let signature = rq_headers rq ''stripe-signature'' in
            count_webhook (parse_webhook X S E (rq_body rq) signature) (fst (billing_webhook_route X S E (rq_body rq) signature s)) t
          else if route_endpoint r = InvitationsCreate \<and> rq_content rq \<noteq> Malformed then
            (case parse_call P InvitationsCreate ps rq of
               Inr (Call (MemberRequest (CreateInvitation c organization_id email role))) \<Rightarrow>
                 log_undelivered X S E rid c organization_id email role s t
             | _ \<Rightarrow> t)
          else t
      | _ \<Rightarrow> t)"

section \<open>The middleware\<close>

text \<open>
  \<open>dispatch\<close> and the exception handlers around it; \<open>elapsed\<close> is the difference of the two readings of
  \<open>time.perf_counter()\<close>. The handler of unexpected exceptions runs after \<open>dispatch\<close> has unbound the
  request identifier from the log context.
\<close>

definition supplied_id :: "raw_request \<Rightarrow> string" where
  "supplied_id rq = (case rq_headers rq ''x-request-id'' of None \<Rightarrow> [] | Some v \<Rightarrow> v)"

definition answer :: "string \<Rightarrow> exc + http_response \<Rightarrow> http_response" where
  "answer rid result = (case result of
       Inr resp \<Rightarrow> with_request_id rid resp
     | Inl e \<Rightarrow>
         let resp = error_response (render_error (Some rid) e)
         in if expected_error e then with_request_id rid resp else resp)"

text \<open>The variable \<open>status_code\<close> of \<open>dispatch\<close>: it keeps its initial value when \<open>call_next\<close> raises.\<close>

definition counted_status :: "string \<Rightarrow> exc + http_response \<Rightarrow> int" where
  "counted_status rid result = (case result of Inl e \<Rightarrow> if expected_error e then resp_status (answer rid result) else 500
     | Inr resp \<Rightarrow> resp_status resp)"

definition dispatch ::
  "timestamps \<Rightarrow> ext \<Rightarrow> settings \<Rightarrow> string \<Rightarrow> parsers \<Rightarrow> (telemetry \<Rightarrow> string) \<Rightarrow> runtime \<Rightarrow> rat \<Rightarrow> raw_request \<Rightarrow>
     app \<times> telemetry \<Rightarrow> http_response \<times> app \<times> telemetry" where
  "dispatch enc X S dummy_hash P generate_latest E elapsed rq st =
     (let (s, t) = st;
          rid = request_id E (supplied_id rq);
          (result, s') = call_next enc X S dummy_hash P (generate_latest t) (later_uuid 1 E) rq s;
          t' = observe_request (rq_method rq) (route_label (resolve (rq_method rq) (rq_path rq))) (counted_status rid result) rid elapsed
                 (endpoint_telemetry X S P (later_uuid 1 E) rid rq s t) in
      (answer rid result, s',
       case result of
         Inl e \<Rightarrow> if expected_error e then t' else log_event ''unhandled_error'' [(''error_type'', JStr (exc_name e))] t'
       | Inr _ \<Rightarrow> t'))"

end
