(* ===== verification/Surface.thy ===== *)
theory Surface
  imports Application
begin

text \<open>
  What a client and an operator can rely on whatever is sent to the application: who is refused, which
  answers leave no trace in the database, how an answer is identified, and what metrics and logs say.
\<close>

section \<open>Well-formed calls\<close>

lemma malformed_body: "has_body e \<Longrightarrow> rq_content rq = Malformed \<Longrightarrow> parse_call P e ps rq \<noteq> Inr c"
  by (cases e) (auto simp: with_org_def body_fields_def)

lemma call_endpoint_valid:
  assumes "parse_call P e ps rq = Inr c"
  shows "call_endpoint enc X S dh P mt E e ps rq = (case c of
      Call req \<Rightarrow> a_bind (handle X S dh E req) (\<lambda>x. ret (success_response enc req x)) | Metrics \<Rightarrow> ret (metrics_response mt))"
proof -
  have "\<not> (has_body e \<and> rq_content rq = Malformed)" using assms malformed_body [of e rq] by blast
  then show ?thesis using assms unfolding call_endpoint_def by (simp only: if_False sum.case)
qed

lemma call_endpoint_call:
  "parse_call P e ps rq = Inr (Call req) \<Longrightarrow>
   call_endpoint enc X S dh P mt E e ps rq = a_bind (handle X S dh E req) (\<lambda>x. ret (success_response enc req x))"
  by (simp add: call_endpoint_valid)

text \<open>A well-formed request is served as in \<open>Http\<close>.\<close>

lemma dispatch_serves:
  assumes "resolve (rq_method rq) (rq_path rq) = Matched r ps" "parse_call P (route_endpoint r) ps rq = Inr (Call req)"
  shows "(fst (dispatch enc X S dh P gl E elapsed rq (s, t)), fst (snd (dispatch enc X S dh P gl E elapsed rq (s, t)))) =
    serve_request enc X S dh E (supplied_id rq) req s"
  using assms
  by (auto simp: dispatch_def call_next_def call_endpoint_call serve_request_def http_respond_def answer_def a_bind_def ret_def
      success_response_def Let_def split: prod.splits sum.splits)

lemma parse_two_phase:
  assumes "parse_call P e ps rq = Inr (Call req)" "e \<notin> {InvitationsCreate, WebhooksBilling}"
  shows "\<not> two_phase req"
  using assms by (cases e) (auto simp: with_org_def)

lemma parse_ready: "parse_call P e ps rq = Inr (Call GetReady) \<Longrightarrow> e = HealthReady"
  by (cases e) (auto simp: with_org_def)

section \<open>Errors leave no trace\<close>

lemma atomic_checked: "atomic (checked m)"
  by (auto simp: atomic_def checked_def)

lemma atomic_bind_ret: "atomic m \<Longrightarrow> atomic (a_bind m (\<lambda>x. ret (f x)))"
  unfolding atomic_def a_bind_def ret_def by (fastforce split: sum.splits prod.splits)

lemma atomic_call_endpoint:
  assumes "e \<notin> {InvitationsCreate, WebhooksBilling}"
  shows "atomic (call_endpoint enc X S dh P mt E e ps rq)"
proof (cases "parse_call P e ps rq")
  case (Inl err)
  then show ?thesis by (simp add: call_endpoint_def atomic_checked atomic_session)
next
  case (Inr c)
  show ?thesis
  proof (cases c)
    case (Call req)
    then show ?thesis using Inr assms parse_two_phase [of P e ps rq req] by (simp add: call_endpoint_call atomic_bind_ret atomic_handle)
  next
    case Metrics
    then show ?thesis using Inr by (simp add: call_endpoint_valid atomic_ret)
  qed
qed

definition two_phase_route :: "raw_request \<Rightarrow> bool" where
  "two_phase_route rq = (case resolve (rq_method rq) (rq_path rq) of
     Matched r ps \<Rightarrow> route_endpoint r \<in> {InvitationsCreate, WebhooksBilling} | _ \<Rightarrow> False)"

lemma atomic_call_next: "\<not> two_phase_route rq \<Longrightarrow> atomic (call_next enc X S dh P mt E rq)"
  unfolding call_next_def two_phase_route_def
  by (cases "resolve (rq_method rq) (rq_path rq)") (simp_all add: atomic_call_endpoint atomic_checked atomic_ret)

lemma call_endpoint_failed_success:
  assumes "call_endpoint enc X S dh P mt E e ps rq (d, r) = (Inr resp, (d', r'))" "400 \<le> resp_status resp"
  shows "d' = d"
proof -
  have b: "has_body e \<and> rq_content rq = Malformed \<Longrightarrow> False" using assms(1) by (simp add: call_endpoint_def checked_def)
  show ?thesis
  proof (cases "parse_call P e ps rq")
    case (Inl err)
    then show ?thesis using assms(1) b
      by (auto simp: call_endpoint_def session_def a_bind_def body_def checked_def split: sum.splits prod.splits if_splits exc.splits)
  next
    case (Inr c)
    show ?thesis
    proof (cases c)
      case (Call req)
      then have "call_endpoint enc X S dh P mt E e ps rq = a_bind (handle X S dh E req) (\<lambda>x. ret (success_response enc req x))"
        using Inr call_endpoint_call by blast
      then obtain x where h: "handle X S dh E req (d, r) = (Inr x, (d', r'))" "resp = success_response enc req x"
        using assms(1) by (auto simp: a_bind_def ret_def split: sum.splits prod.splits)
      then obtain pg rd where x: "x = Health pg rd" using assms(2) success_status_less [of req x] by (auto simp: success_response_def)
      then have "req = GetReady" using h no_health_handle unfolding no_health_def by blast
      then show ?thesis using h by (auto simp: ready_route_def session_def)
    next
      case Metrics
      then show ?thesis using Inr assms by (simp add: call_endpoint_valid metrics_response_def ret_def)
    qed
  qed
qed

lemma dispatchE:
  assumes "dispatch enc X S dh P gl E elapsed rq (s, t) = (resp, s', t')"
  obtains result where "call_next enc X S dh P (gl t) (later_uuid 1 E) rq s = (result, s')" "resp = answer (request_id E (supplied_id rq)) result"
  using assms by (auto simp: dispatch_def Let_def split: prod.splits)

lemma answer_status: "resp_status (answer rid result) = counted_status rid result"
  by (auto simp: answer_def counted_status_def with_request_id_def Let_def render_error_def unexpected_error_handler_def error_payload_def
      error_response_def split: sum.splits exc.splits)

section \<open>Requests without credentials\<close>

definition no_credentials :: "raw_request \<Rightarrow> bool" where
  "no_credentials rq = (rq_headers rq ''authorization'' = None \<and> rq_headers rq ''x-api-key'' = None)"

text \<open>An action that refuses with a 401 and does nothing else.\<close>

definition refuses :: "'a action \<Rightarrow> bool" where
  "refuses m = (\<forall>s. \<exists>code message. m s = (Inl (AuthenticationError code message), s))"

lemma refuses_bind: "refuses m \<Longrightarrow> refuses (a_bind m f)"
  unfolding refuses_def
proof
  fix s
  assume "\<forall>s. \<exists>code message. m s = (Inl (AuthenticationError code message), s)"
  then obtain code message where "m s = (Inl (AuthenticationError code message), s)" by blast
  then show "\<exists>code message. a_bind m f s = (Inl (AuthenticationError code message), s)" by (auto simp: a_bind_def)
qed

lemma refuses_session: "refuses m \<Longrightarrow> refuses (session m)"
  unfolding refuses_def
proof
  fix s
  assume "\<forall>s. \<exists>code message. m s = (Inl (AuthenticationError code message), s)"
  then obtain code message where "m s = (Inl (AuthenticationError code message), s)" by blast
  then show "\<exists>code message. session m s = (Inl (AuthenticationError code message), s)" by (auto simp: session_def)
qed

lemma refuses_user: "refuses (get_current_user X S E None)"
  by (auto simp: refuses_def get_current_user_def a_bind_def checked_def)

lemma refuses_member: "refuses (current_member X S E None oid roles)"
  unfolding current_member_def by (intro refuses_bind refuses_user)

lemma refuses_key: "refuses (get_api_key_principal X S E None)"
  by (auto simp: refuses_def get_api_key_principal_def a_bind_def checked_def)

lemmas refuses_intros = refuses_session refuses_bind refuses_user refuses_member refuses_key

lemma refuses_handle:
  assumes "parse_call P e ps rq = Inr (Call req)" "access e \<noteq> Public" "no_credentials rq"
  shows "refuses (handle X S dh E req)"
proof -
  have h: "bearer_scheme P rq = None" "api_key_header rq = None" using assms(3) by (simp_all add: no_credentials_def bearer_scheme_def api_key_header_def)
  show ?thesis
    using assms(1,2) by (cases e) (auto simp: h with_org_def route_defs intro!: refuses_intros)
qed

lemma refuses_dependencies:
  assumes "access e \<noteq> Public" "no_credentials rq"
  shows "refuses (dependencies X S P E e ps rq)"
proof -
  have h: "bearer_scheme P rq = None" "api_key_header rq = None" using assms(2) by (simp_all add: no_credentials_def bearer_scheme_def api_key_header_def)
  show ?thesis
    using assms(1) unfolding dependencies_def h
    by (cases "access e"; cases "path_uuid P ps ''organization_id''") (auto intro!: refuses_intros)
qed

lemma parse_metrics: "parse_call P e ps rq = Inr Metrics \<Longrightarrow> access e = Public"
  by (cases e) (auto simp: with_org_def)

lemma refuses_call_endpoint:
  assumes "access e \<noteq> Public" "no_credentials rq" "\<not> (has_body e \<and> rq_content rq = Malformed)"
  shows "refuses (call_endpoint enc X S dh P mt E e ps rq)"
proof (cases "parse_call P e ps rq")
  case (Inl err)
  then show ?thesis using assms(1,2) unfolding call_endpoint_def if_not_P [OF assms(3)] by (simp add: refuses_session refuses_bind refuses_dependencies)
next
  case (Inr c)
  then show ?thesis
    using assms refuses_handle [of P e ps rq] parse_metrics [of P e ps rq]
    by (cases c) (simp_all add: call_endpoint_call refuses_bind)
qed

section \<open>Labels\<close>

lemma resolve_Matched: "resolve m p = Matched r ps \<Longrightarrow> r \<in> set api_router \<and> path_match r p = Some ps \<and> route_method r = m"
  by (auto simp: resolve_def find_Some_iff split: option.splits if_splits)

lemma resolve_MethodNotAllowed: "resolve m p = MethodNotAllowed r \<Longrightarrow> r \<in> set api_router"
  by (auto simp: resolve_def find_Some_iff split: option.splits if_splits)

definition route_labels :: "string set" where
  "route_labels = insert ''unmatched'' (route_path ` set api_router)"

lemma route_label_known: "route_label (resolve m p) \<in> route_labels"
  by (cases "resolve m p") (auto simp: route_label_def route_labels_def dest: resolve_Matched resolve_MethodNotAllowed)

lemma webhook_route: "r \<in> set api_router \<Longrightarrow> route_endpoint r = WebhooksBilling \<Longrightarrow> route_path r = ''/webhooks/billing''"
  by (auto simp: router_defs)

lemma invitation_route:
  "r \<in> set api_router \<Longrightarrow> route_endpoint r = InvitationsCreate \<Longrightarrow> route_path r = ''/organizations/{organization_id}/invitations''"
  by (auto simp: router_defs)

text \<open>What an endpoint other than the one for webhooks adds: nothing but lines on invitations that were not delivered.\<close>

definition adds_undelivered :: "string \<Rightarrow> telemetry \<Rightarrow> telemetry \<Rightarrow> bool" where
  "adds_undelivered rid t t' \<longleftrightarrow> (\<exists>lost. t' = t\<lparr>logged := logged t @ lost\<rparr> \<and>
     (\<forall>x \<in> set lost. \<exists>invitation organization. x = undelivered_line rid invitation organization))"

lemma adds_undelivered_nothing: "adds_undelivered rid t t"
  unfolding adds_undelivered_def by (rule exI [of _ "[]"]) simp

lemma adds_undelivered_line: "undelivered_line rid i k = (event, entry) \<Longrightarrow> adds_undelivered rid t (log_event event entry t)"
  unfolding adds_undelivered_def
  by (rule exI [of _ "[(event, entry)]"]) (auto simp: log_event_def intro: sym)

lemma adds_undelivered_log: "adds_undelivered rid t (log_undelivered X S E rid c oid email role s t)"
  by (auto simp: log_undelivered_def adds_undelivered_nothing intro: adds_undelivered_line split: sum.split prod.split exc.split)

lemma endpoint_telemetry_other:
  assumes "route_label (resolve (rq_method rq) (rq_path rq)) \<noteq> ''/webhooks/billing''"
  shows "adds_undelivered rid t (endpoint_telemetry X S P E rid rq s t)"
    "route_label (resolve (rq_method rq) (rq_path rq)) \<noteq> ''/organizations/{organization_id}/invitations'' \<Longrightarrow>
      endpoint_telemetry X S P E rid rq s t = t"
proof -
  have "adds_undelivered rid t (endpoint_telemetry X S P E rid rq s t) \<and>
    (route_label (resolve (rq_method rq) (rq_path rq)) \<noteq> ''/organizations/{organization_id}/invitations'' \<longrightarrow>
      endpoint_telemetry X S P E rid rq s t = t)"
  proof (cases "resolve (rq_method rq) (rq_path rq)")
    case (Matched r ps)
    have "route_endpoint r \<noteq> WebhooksBilling"
      using assms webhook_route [of r] resolve_Matched [OF Matched] by (auto simp: Matched route_label_def)
    moreover have "route_endpoint r = InvitationsCreate \<Longrightarrow> route_label (resolve (rq_method rq) (rq_path rq)) = ''/organizations/{organization_id}/invitations''"
      using invitation_route [of r] resolve_Matched [OF Matched] by (simp add: Matched route_label_def)
    ultimately show ?thesis
      by (auto simp: endpoint_telemetry_def Matched adds_undelivered_nothing adds_undelivered_log
          split: sum.split call.split request.split member_request.split)
  qed (simp_all add: endpoint_telemetry_def adds_undelivered_nothing)
  then show "adds_undelivered rid t (endpoint_telemetry X S P E rid rq s t)"
    "route_label (resolve (rq_method rq) (rq_path rq)) \<noteq> ''/organizations/{organization_id}/invitations'' \<Longrightarrow>
      endpoint_telemetry X S P E rid rq s t = t"
    by blast+
qed

lemma endpoint_telemetry_kept:
  "counts (endpoint_telemetry X S P E rid rq s t) HTTP_REQUESTS = counts t HTTP_REQUESTS \<and>
   (\<exists>lost. logged (endpoint_telemetry X S P E rid rq s t) = logged t @ lost \<and>
     (\<forall>x \<in> set lost. \<exists>invitation organization. x = undelivered_line rid invitation organization))"
proof (cases "route_label (resolve (rq_method rq) (rq_path rq)) = ''/webhooks/billing''")
  case True
  have "counts (count_webhook parsed result t) HTTP_REQUESTS = counts t HTTP_REQUESTS \<and> logged (count_webhook parsed result t) = logged t"
    for parsed result by (auto simp: count_webhook_def inc_def metric_defs split: sum.splits exc.splits response.splits)
  moreover have "r \<in> set api_router \<Longrightarrow> route_endpoint r = InvitationsCreate \<Longrightarrow> route_path r \<noteq> ''/webhooks/billing''" for r
    using invitation_route [of r] by simp
  ultimately show ?thesis using True
    by (auto simp: endpoint_telemetry_def Let_def route_label_def dest: resolve_Matched split: resolution.splits)
next
  case False
  then show ?thesis using endpoint_telemetry_other(1) [of rq rid t X S P E s] by (auto simp: adds_undelivered_def)
qed

lemma observe_request_counts:
  "counts (observe_request m p st rid el t) HTTP_REQUESTS = (counts t HTTP_REQUESTS)([m, p, int_str st] := counts t HTTP_REQUESTS [m, p, int_str st] + 1)"
  by (simp add: observe_request_def log_event_def observe_def inc_def)

lemma observe_request_logged:
  "logged (observe_request m p st rid el t) = logged t @ [(''http_request'', [(''request_id'', JStr rid), (''method'', JStr m), (''path'', JStr p),
     (''status_code'', JInt st), (''duration_ms'', JFloat (round2 (el * 1000)))])]"
  by (simp add: observe_request_def log_event_def observe_def inc_def)

section \<open>Requests in sequence\<close>

text \<open>The state after a sequence of requests, and the labels of each answer: method, route and status.\<close>

fun serve_all ::
  "timestamps \<Rightarrow> ext \<Rightarrow> settings \<Rightarrow> string \<Rightarrow> parsers \<Rightarrow> (telemetry \<Rightarrow> string) \<Rightarrow> (runtime \<times> rat \<times> raw_request) list \<Rightarrow>
     app \<times> telemetry \<Rightarrow> string list list \<times> app \<times> telemetry" where
  "serve_all enc X S dh P gl [] st = ([], st)"
| "serve_all enc X S dh P gl ((E, elapsed, rq) # rqs) st =
     (let (resp, st1) = dispatch enc X S dh P gl E elapsed rq st;
          (answers, st2) = serve_all enc X S dh P gl rqs st1 in
      ([rq_method rq, route_label (resolve (rq_method rq) (rq_path rq)), int_str (resp_status resp)] # answers, st2))"

lemma dispatch_counts:
  assumes "dispatch enc X S dh P gl E elapsed rq (s, t) = (resp, s', t')"
  shows "counts t' HTTP_REQUESTS = (counts t HTTP_REQUESTS)
    ([rq_method rq, route_label (resolve (rq_method rq) (rq_path rq)), int_str (resp_status resp)] :=
       counts t HTTP_REQUESTS [rq_method rq, route_label (resolve (rq_method rq) (rq_path rq)), int_str (resp_status resp)] + 1)"
  using assms
  by (auto simp: dispatch_def Let_def answer_status observe_request_counts endpoint_telemetry_kept log_event_def split: prod.splits sum.splits if_splits)

lemma refused_401:
  assumes "resolve (rq_method rq) (rq_path rq) = Matched r ps" "access (route_endpoint r) \<noteq> Public"
    "no_credentials rq" "\<not> (has_body (route_endpoint r) \<and> rq_content rq = Malformed)"
  shows "\<exists>resp t'. dispatch enc X S dummy_hash P generate_latest E elapsed rq (s, t) = (resp, s, t') \<and> resp_status resp = 401"
proof -
  have "refuses (call_next enc X S dummy_hash P (generate_latest t) (later_uuid 1 E) rq)"
    using refuses_call_endpoint [OF assms(2-4)] assms(1) by (simp add: call_next_def)
  then obtain code message where
    c: "call_next enc X S dummy_hash P (generate_latest t) (later_uuid 1 E) rq s = (Inl (AuthenticationError code message), s)"
    unfolding refuses_def by blast
  have "counted_status rid (Inl (AuthenticationError code message)) = 401" for rid
    by (simp add: counted_status_def answer_def AuthenticationError_def render_error_def app_error_handler_def error_payload_def
        error_response_def with_request_id_def)
  then show ?thesis unfolding dispatch_def Let_def prod.case c by (simp add: answer_status)
qed

lemma malformed_422:
  assumes "resolve (rq_method rq) (rq_path rq) = Matched r ps" "has_body (route_endpoint r)" "rq_content rq = Malformed"
  shows "\<exists>resp t'. dispatch enc X S dummy_hash P generate_latest E elapsed rq (s, t) = (resp, s, t') \<and> resp_status resp = 422"
proof -
  have c: "call_next enc X S dummy_hash P (generate_latest t) (later_uuid 1 E) rq s = (Inl (RequestValidationError ''json_invalid''), s)"
    using assms by (simp add: call_next_def call_endpoint_def checked_def)
  have "counted_status rid (Inl (RequestValidationError ''json_invalid'')) = 422" for rid
    by (simp add: counted_status_def answer_def render_error_def validation_error_handler_def error_payload_def
        error_response_def with_request_id_def)
  then show ?thesis unfolding dispatch_def Let_def prod.case c by (simp add: answer_status)
qed

lemma dispatch_observed:
  assumes "dispatch enc X S dh P gl E elapsed q (z, t) = (resp, z', t')" "resp_status resp \<noteq> 500"
  shows "t' = observe_request (rq_method q) (route_label (resolve (rq_method q) (rq_path q))) (resp_status resp) (request_id E (supplied_id q)) elapsed
    (endpoint_telemetry X S P (later_uuid 1 E) (request_id E (supplied_id q)) q z t)"
proof -
  let ?rid = "request_id E (supplied_id q)"
  let ?t = "\<lambda>st. observe_request (rq_method q) (route_label (resolve (rq_method q) (rq_path q))) st ?rid elapsed
    (endpoint_telemetry X S P (later_uuid 1 E) ?rid q z t)"
  obtain result z1 where c: "call_next enc X S dh P (gl t) (later_uuid 1 E) q z = (result, z1)" by (metis surj_pair)
  have d: "resp = answer ?rid result" "t' = (case result of
      Inl e \<Rightarrow> if expected_error e then ?t (counted_status ?rid result)
        else log_event ''unhandled_error'' [(''error_type'', JStr (exc_name e))] (?t (counted_status ?rid result))
    | Inr _ \<Rightarrow> ?t (counted_status ?rid result))"
    using assms(1) unfolding dispatch_def Let_def prod.case c by auto
  show ?thesis
  proof (cases result)
    case (Inl e)
    have "expected_error e"
    proof (rule ccontr)
      assume "\<not> expected_error e"
      then have "counted_status ?rid result = 500" unfolding counted_status_def Inl sum.case by (rule if_not_P)
      then show False using assms(2) d(1) answer_status by simp
    qed
    then show ?thesis using d Inl by (simp add: answer_status)
  next
    case (Inr x)
    then show ?thesis using d by (simp add: answer_status)
  qed
qed

section \<open>Sample requests\<close>

definition sample_parsers :: parsers where
  "sample_parsers = \<lparr>uuid_param = parse_uuid, int_param = py_int, lax_int = (\<lambda>j. case j of JInt i \<Rightarrow> Some i | _ \<Rightarrow> None),
     http_bearer = (\<lambda>v. case py_partition (CHR '' '') v of (scheme, _, token) \<Rightarrow> if token = [] then None else Some (scheme, token))\<rparr>"

definition sample_request :: "string \<Rightarrow> string \<Rightarrow> raw_request" where
  "sample_request method path = \<lparr>rq_method = method, rq_path = path, rq_query = (\<lambda>_. None), rq_headers = (\<lambda>_. None),
     rq_content = Absent, rq_body = [], rq_client = None\<rparr>"

lemma me_route_resolved: "resolve ''GET'' ''/auth/me'' = Matched \<lparr>route_method = ''GET'', route_path = ''/auth/me'', route_endpoint = AuthMe\<rparr> []"
  by code_simp

section \<open>Properties\<close>

text \<open>
  C9. A request that is answered with an error leaves the database as it was, whatever was sent and
  wherever the error arose: an unknown path, a malformed parameter or body, a refused dependency or a
  failure of the service. The two endpoints that commit before they use Redis are the only exceptions.
\<close>

theorem error_answers_change_nothing:
  assumes "dispatch enc X S dummy_hash P generate_latest E elapsed rq ((d, r), t) = (resp, (d', r'), t')"
    "400 \<le> resp_status resp" "\<not> two_phase_route rq"
  shows "d' = d"
proof -
  obtain result where c: "call_next enc X S dummy_hash P (generate_latest t) (later_uuid 1 E) rq (d, r) = (result, (d', r'))"
    and resp: "resp = answer (request_id E (supplied_id rq)) result"
    using assms(1) by (rule dispatchE)
  show ?thesis
  proof (cases result)
    case (Inl e)
    then show ?thesis using c atomic_call_next [OF assms(3)] unfolding atomic_def by fastforce
  next
    case (Inr x)
    then have "400 \<le> resp_status x" using assms(2) resp by (simp add: answer_def with_request_id_def)
    then show ?thesis using c call_endpoint_failed_success unfolding call_next_def Inr
      by (auto simp: checked_def ret_def split: resolution.splits)
  qed
qed

theorem error_answers_change_nothing_witness:
  "fst (fst (snd (dispatch isoformat sample_ext default_settings [] sample_parsers (\<lambda>_. []) sample_rt 0
     (sample_request ''GET'' ''/nowhere'') ((sample_db, empty_redis), no_telemetry)))) = sample_db"
proof -
  let ?rq = "sample_request ''GET'' ''/nowhere''"
  obtain resp d' r' t' where d: "dispatch isoformat sample_ext default_settings [] sample_parsers (\<lambda>_. []) sample_rt 0 ?rq
      ((sample_db, empty_redis), no_telemetry) = (resp, (d', r'), t')" by (metis surj_pair)
  have r: "resolve (rq_method ?rq) (rq_path ?rq) = Unmatched" unfolding sample_request_def by code_simp
  have "resp_status resp = 404"
    using d by (auto simp: dispatch_def call_next_def r checked_def Let_def answer_def render_error_def http_error_handler_def error_payload_def
        error_response_def with_request_id_def)
  then have "d' = sample_db" using error_answers_change_nothing [OF d] by (simp add: two_phase_route_def r)
  then show ?thesis by (simp add: d)
qed

text \<open>
  C8. Without credentials nobody gets past the public endpoints: whatever its path parameters, query and
  body, a request with neither an \<open>Authorization\<close> nor an \<open>X-API-Key\<close> header to an endpoint that demands a
  user, a member or a key changes neither the database nor Redis. It is answered with 401, unless the
  endpoint takes a body and the one sent is not JSON at all: FastAPI decodes the body before it looks at
  the credentials, and the answer is 422.
\<close>

theorem unauthenticated_refused:
  assumes "resolve (rq_method rq) (rq_path rq) = Matched r ps" "access (route_endpoint r) \<noteq> Public" "no_credentials rq"
  shows "\<exists>resp t'. dispatch enc X S dummy_hash P generate_latest E elapsed rq (s, t) = (resp, s, t') \<and>
    resp_status resp = (if has_body (route_endpoint r) \<and> rq_content rq = Malformed then 422 else 401)"
proof (cases "has_body (route_endpoint r) \<and> rq_content rq = Malformed")
  case True
  then show ?thesis using malformed_422 [OF assms(1)] by simp
next
  case False
  then show ?thesis using refused_401 [OF assms False] unfolding if_not_P [OF False] by blast
qed

theorem unauthenticated_refused_witness:
  "resp_status (fst (dispatch isoformat sample_ext default_settings [] sample_parsers (\<lambda>_. []) sample_rt 0
     (sample_request ''GET'' ''/auth/me'') ((sample_db, empty_redis), no_telemetry))) = 401"
proof -
  have r: "resolve (rq_method (sample_request ''GET'' ''/auth/me'')) (rq_path (sample_request ''GET'' ''/auth/me'')) =
      Matched \<lparr>route_method = ''GET'', route_path = ''/auth/me'', route_endpoint = AuthMe\<rparr> []"
    using me_route_resolved by (simp add: sample_request_def)
  obtain resp t' where "dispatch isoformat sample_ext default_settings [] sample_parsers (\<lambda>_. []) sample_rt 0
      (sample_request ''GET'' ''/auth/me'') ((sample_db, empty_redis), no_telemetry) = (resp, (sample_db, empty_redis), t')" "resp_status resp = 401"
    using unauthenticated_refused [OF r] by (fastforce simp: no_credentials_def sample_request_def)
  then show ?thesis by simp
qed

text \<open>
  C37. The metrics are exact: after any sequence of requests, \<open>http_requests_total\<close> has grown, for every
  method, route and status, by the number of answers with them; and its labels are taken from the
  route templates of the application, never from the path a client sent.
\<close>

theorem requests_counted:
  "counts (snd (snd (serve_all enc X S dummy_hash P generate_latest rqs st))) HTTP_REQUESTS labels =
     counts (snd st) HTTP_REQUESTS labels + count_list (fst (serve_all enc X S dummy_hash P generate_latest rqs st)) labels \<and>
   set (fst (serve_all enc X S dummy_hash P generate_latest rqs st)) \<subseteq> {[method, route, status] | method route status. route \<in> route_labels}"
proof (induction rqs arbitrary: st)
  case (Cons a rqs)
  obtain E el rq where a: "a = (E, el, rq)" by (metis surj_pair)
  obtain s t where st: "st = (s, t)" by (metis surj_pair)
  obtain resp s1 t1 where d: "dispatch enc X S dummy_hash P generate_latest E el rq (s, t) = (resp, s1, t1)" by (metis surj_pair)
  obtain as st2 where r: "serve_all enc X S dummy_hash P generate_latest rqs (s1, t1) = (as, st2)" by (metis surj_pair)
  show ?case
    using Cons.IH [of "(s1, t1)"] dispatch_counts [OF d] route_label_known [of "rq_method rq" "rq_path rq"]
    by (auto simp: a st d r)
qed simp

text \<open>
  C39. Every answer can be traced: there is one well-formed identifier per request, the client's own if
  it is well-formed, which is the \<open>X-Request-ID\<close> header of every response other than an internal
  error, the identifier in the body of every error, and a field of the request's log line and of every
  other line written for the request, except the one on an internal error.
\<close>

theorem every_answer_identified:
  assumes "dispatch enc X S dummy_hash P generate_latest E elapsed rq (s, t) = (resp, s', t')"
  shows "\<exists>rid. request_id_pattern rid \<and> (request_id_pattern (supplied_id rq) \<longrightarrow> rid = supplied_id rq) \<and>
    (resp_status resp \<noteq> 500 \<longrightarrow> map_of (resp_headers resp) ''X-Request-ID'' = Some rid) \<and>
    (\<forall>e. fst (call_next enc X S dummy_hash P (generate_latest t) (later_uuid 1 E) rq s) = Inl e \<longrightarrow>
       (\<exists>fields. resp_body resp = Some (JDict [(''error'', JDict fields)]) \<and> dict_get fields ''request_id'' = Some (JStr rid))) \<and>
    (\<exists>lines. logged t' = logged t @ lines \<and> ''http_request'' \<in> fst ` set lines \<and>
       (\<forall>(event, entry) \<in> set lines. event \<noteq> ''unhandled_error'' \<longrightarrow> dict_get entry ''request_id'' = Some (JStr rid)))"
proof (intro exI [of _ "request_id E (supplied_id rq)"] conjI impI allI)
  let ?rid = "request_id E (supplied_id rq)"
  obtain result where c: "call_next enc X S dummy_hash P (generate_latest t) (later_uuid 1 E) rq s = (result, s')"
    and resp: "resp = answer ?rid result"
    using assms by (rule dispatchE)
  show "request_id_pattern ?rid" by (rule request_id_ok)
  show "?rid = supplied_id rq" if "request_id_pattern (supplied_id rq)" using that by (simp add: request_id_def)
  show "map_of (resp_headers resp) ''X-Request-ID'' = Some ?rid" if "resp_status resp \<noteq> 500"
    using that resp by (cases result rule: sum.exhaust)
      (auto simp: answer_def with_request_id_def Let_def render_error_def unexpected_error_handler_def error_payload_def error_response_def
        split: exc.splits if_splits)
  show "\<exists>fields. resp_body resp = Some (JDict [(''error'', JDict fields)]) \<and> dict_get fields ''request_id'' = Some (JStr ?rid)"
    if "fst (call_next enc X S dummy_hash P (generate_latest t) (later_uuid 1 E) rq s) = Inl e" for e
    using that c resp by (auto simp: answer_def with_request_id_def Let_def error_response_def error_body_def render_error_rid json_opt_def dict_get_def)
  obtain lost where lost: "logged (endpoint_telemetry X S P (later_uuid 1 E) ?rid rq s t) = logged t @ lost"
    "\<forall>x \<in> set lost. \<exists>invitation organization. x = undelivered_line ?rid invitation organization"
    using endpoint_telemetry_kept by blast
  have "\<forall>(event, entry) \<in> set lost. dict_get entry ''request_id'' = Some (JStr ?rid)"
    using lost(2) by (auto simp: undelivered_line_def dict_get_def)
  then show "\<exists>lines. logged t' = logged t @ lines \<and> ''http_request'' \<in> fst ` set lines \<and>
       (\<forall>(event, entry) \<in> set lines. event \<noteq> ''unhandled_error'' \<longrightarrow> dict_get entry ''request_id'' = Some (JStr ?rid))"
    using assms lost(1) by (auto simp: dispatch_def Let_def observe_request_logged log_event_def dict_get_def
        split: prod.splits sum.splits if_splits)
qed

theorem every_answer_identified_witness:
  "map_of (resp_headers (fst (dispatch isoformat sample_ext default_settings [] sample_parsers (\<lambda>_. []) sample_rt 0
     ((sample_request ''GET'' ''/auth/me'')\<lparr>rq_headers := [''x-request-id'' \<mapsto> ''client-7'']\<rparr>) ((sample_db, empty_redis), no_telemetry))))
     ''X-Request-ID'' = Some ''client-7''"
proof -
  let ?rq = "((sample_request ''GET'' ''/auth/me'')\<lparr>rq_headers := [''x-request-id'' \<mapsto> ''client-7'']\<rparr>)"
  obtain resp s' t' where d: "dispatch isoformat sample_ext default_settings [] sample_parsers (\<lambda>_. []) sample_rt 0 ?rq
      ((sample_db, empty_redis), no_telemetry) = (resp, s', t')" by (metis surj_pair)
  have r: "resolve (rq_method ?rq) (rq_path ?rq) = Matched \<lparr>route_method = ''GET'', route_path = ''/auth/me'', route_endpoint = AuthMe\<rparr> []"
    using me_route_resolved by (simp add: sample_request_def)
  have "resp_status resp = 401"
    using refused_401 [OF r, of isoformat sample_ext default_settings "[]" sample_parsers "\<lambda>_. []" sample_rt 0 "(sample_db, empty_redis)" no_telemetry] d
    by (simp add: no_credentials_def sample_request_def)
  moreover have "request_id_pattern ''client-7''" by code_simp
  moreover have "supplied_id ?rq = ''client-7''" by (simp add: supplied_id_def)
  ultimately show ?thesis using every_answer_identified [OF d] d by auto
qed

text \<open>
  C10. Metrics and logs are confidential: what a request leaves in them is determined by its method, the
  template of its route, its request identifier, the status of its answer and its duration. Nothing
  else of the request can be learned from them, neither its credentials, body and path parameters (an
  invitation token among them) nor the data it read or wrote. The only other thing logged is, when the
  mail of a new invitation cannot be queued, the identifiers of the invitation and its organization.
  (Internal errors add the type of the exception, and webhooks are counted by the type of their event.)
\<close>

theorem observability_confidential:
  assumes "dispatch enc X S dummy_hash P generate_latest E elapsed rq (s, t) = (resp, s1, t1)"
    "dispatch enc X S dummy_hash P generate_latest E elapsed rq' (s', t) = (resp', s1', t1')"
    "rq_method rq = rq_method rq'" "supplied_id rq = supplied_id rq'"
    "route_label (resolve (rq_method rq) (rq_path rq)) = route_label (resolve (rq_method rq') (rq_path rq'))"
    "route_label (resolve (rq_method rq) (rq_path rq)) \<noteq> ''/webhooks/billing''"
    "resp_status resp = resp_status resp'" "resp_status resp \<noteq> 500"
  shows "counts t1 = counts t1' \<and> observed t1 = observed t1' \<and>
    (\<exists>line lost lost'. logged t1 = logged t @ lost @ [line] \<and> logged t1' = logged t @ lost' @ [line] \<and>
       (\<forall>x \<in> set (lost @ lost'). \<exists>invitation organization. x = undelivered_line (request_id E (supplied_id rq)) invitation organization) \<and>
       (route_label (resolve (rq_method rq) (rq_path rq)) \<noteq> ''/organizations/{organization_id}/invitations'' \<longrightarrow> lost = [] \<and> lost' = []))"
proof -
  let ?label = "route_label (resolve (rq_method rq) (rq_path rq))" and ?rid = "request_id E (supplied_id rq)"
  have one: "\<exists>lost. t' = observe_request (rq_method rq) ?label (resp_status resp) ?rid elapsed (t\<lparr>logged := logged t @ lost\<rparr>) \<and>
      (\<forall>x \<in> set lost. \<exists>invitation organization. x = undelivered_line ?rid invitation organization) \<and>
      (?label \<noteq> ''/organizations/{organization_id}/invitations'' \<longrightarrow> lost = [])"
    if "t' = observe_request (rq_method rq) ?label (resp_status resp) ?rid elapsed (endpoint_telemetry X S P (later_uuid 1 E) ?rid q z t)"
      "route_label (resolve (rq_method q) (rq_path q)) = ?label" for t' q z
  proof (cases "?label = ''/organizations/{organization_id}/invitations''")
    case True
    then show ?thesis using that endpoint_telemetry_other(1) [of q ?rid t X S P "later_uuid 1 E" z] assms(6) by (auto simp: adds_undelivered_def)
  next
    case False
    then have "endpoint_telemetry X S P (later_uuid 1 E) ?rid q z t = t" using that(2) assms(6) by (intro endpoint_telemetry_other(2)) simp_all
    then show ?thesis using that(1) by (intro exI [of _ "[]"]) simp
  qed
  obtain lost where 1: "t1 = observe_request (rq_method rq) ?label (resp_status resp) ?rid elapsed (t\<lparr>logged := logged t @ lost\<rparr>)"
    "\<forall>x \<in> set lost. \<exists>invitation organization. x = undelivered_line ?rid invitation organization"
    "?label \<noteq> ''/organizations/{organization_id}/invitations'' \<Longrightarrow> lost = []"
    using one [OF dispatch_observed [OF assms(1,8)]] by blast
  obtain lost' where 2: "t1' = observe_request (rq_method rq) ?label (resp_status resp) ?rid elapsed (t\<lparr>logged := logged t @ lost'\<rparr>)"
    "\<forall>x \<in> set lost'. \<exists>invitation organization. x = undelivered_line ?rid invitation organization"
    "?label \<noteq> ''/organizations/{organization_id}/invitations'' \<Longrightarrow> lost' = []"
    using one [OF dispatch_observed [OF assms(2) assms(8) [unfolded assms(7)], folded assms(3,4,5,7)]] assms(5) by auto
  have "counts t1 = counts t1' \<and> observed t1 = observed t1'"
    unfolding 1(1) 2(1) by (simp add: observe_request_def log_event_def observe_def inc_def)
  moreover note 1(2,3) 2(2,3)
  ultimately show ?thesis unfolding 1(1) 2(1) observe_request_logged by auto
qed

theorem observability_confidential_witness:
  "snd (snd (dispatch isoformat sample_ext default_settings [] sample_parsers (\<lambda>_. []) sample_rt 0
     (sample_request ''POST'' ''/invitations/secret-1/accept'') ((sample_db, empty_redis), no_telemetry))) =
   snd (snd (dispatch isoformat sample_ext default_settings [] sample_parsers (\<lambda>_. []) sample_rt 0
     (sample_request ''POST'' ''/invitations/secret-2/accept'') ((empty_db, empty_redis), no_telemetry)))"
proof -
  let ?q1 = "sample_request ''POST'' ''/invitations/secret-1/accept''" and ?q2 = "sample_request ''POST'' ''/invitations/secret-2/accept''"
  let ?r = "\<lparr>route_method = ''POST'', route_path = ''/invitations/{token}/accept'', route_endpoint = InvitationsAccept\<rparr>"
  have r: "resolve (rq_method ?q1) (rq_path ?q1) = Matched ?r [(''token'', ''secret-1'')]"
    "resolve (rq_method ?q2) (rq_path ?q2) = Matched ?r [(''token'', ''secret-2'')]"
    unfolding sample_request_def by code_simp+
  have c: "no_credentials ?q1" "no_credentials ?q2" "rq_content ?q1 \<noteq> Malformed" "rq_content ?q2 \<noteq> Malformed" "access (route_endpoint ?r) \<noteq> Public"
    by (simp_all add: no_credentials_def sample_request_def)
  obtain resp1 t1 where d1: "dispatch isoformat sample_ext default_settings [] sample_parsers (\<lambda>_. []) sample_rt 0 ?q1
      ((sample_db, empty_redis), no_telemetry) = (resp1, (sample_db, empty_redis), t1)" "resp_status resp1 = 401"
    using refused_401 [OF r(1) c(5,1)] c(3) by blast
  obtain resp2 t2 where d2: "dispatch isoformat sample_ext default_settings [] sample_parsers (\<lambda>_. []) sample_rt 0 ?q2
      ((empty_db, empty_redis), no_telemetry) = (resp2, (empty_db, empty_redis), t2)" "resp_status resp2 = 401"
    using refused_401 [OF r(2) c(5,2)] c(4) by blast
  have label: "route_label (resolve (rq_method ?q1) (rq_path ?q1)) = route_label (resolve (rq_method ?q2) (rq_path ?q2))"
      "route_label (resolve (rq_method ?q1) (rq_path ?q1)) \<noteq> ''/webhooks/billing''"
      "route_label (resolve (rq_method ?q1) (rq_path ?q1)) \<noteq> ''/organizations/{organization_id}/invitations''"
      unfolding r by (simp_all add: route_label_def)
  have "t1 = t2"
    using observability_confidential [OF d1(1) d2(1) _ _ label(1,2)] label(3)
    by (auto simp: d1(2) d2(2) sample_request_def supplied_id_def)
  then show ?thesis by (simp add: d1 d2)
qed

end
