(* ===== verification/Worker_Telemetry.thy ===== *)
theory Worker_Telemetry
  imports Workers Telemetry
begin

text \<open>
  The metrics and log lines of the background worker, \<^verbatim>\<open>app/workers/worker.py\<close> and
  \<^verbatim>\<open>app/workers/jobs.py\<close>. They follow the control flow of \<open>run_once\<close> and of the job handlers and have
  no influence on it, so they are functions beside the operations of \<open>Workers\<close>.
\<close>

section \<open>Handlers\<close>

text \<open>
  The line of a sent invitation names the recipient, the organization and the invitation, the line of a
  rollup its result. A webhook that failed is counted after it was marked, so not when marking raises.
\<close>

definition sent_entry :: "string \<times> string \<times> string \<Rightarrow> dict" where
  "sent_entry = (\<lambda>(recipient, organization_id, invitation_id).
     [(''recipient'', JStr recipient), (''organization_id'', JStr organization_id), (''invitation_id'', JStr invitation_id)])"

definition rollup_entry :: "usage_rollup \<Rightarrow> dict" where
  "rollup_entry u = [(''organization_id'', JStr (ru_organization_id u)), (''metric'', JStr (ru_metric u)), (''quantity'', JInt (ru_quantity u)),
     (''period_start'', JStr (ru_period_start u)), (''period_end'', JStr (ru_period_end u))]"

definition log_result :: "string \<Rightarrow> ('a \<Rightarrow> dict) \<Rightarrow> exc + 'a \<Rightarrow> telemetry \<Rightarrow> telemetry" where
  "log_result event entry m t = (case m of Inl _ \<Rightarrow> t | Inr x \<Rightarrow> log_event event (entry x) t)"

definition webhook_job_telemetry :: "ext \<Rightarrow> runtime \<Rightarrow> dict \<Rightarrow> db \<Rightarrow> telemetry \<Rightarrow> telemetry" where
  "webhook_job_telemetry X E payload d t =
     (case required payload ''webhook_event_id'' of
        Inl _ \<Rightarrow> t
      | Inr v \<Rightarrow>
          let event_id = py_str X v in
          (case process_webhook_event X E event_id None d of
             Inr ((event, processed), _) \<Rightarrow>
               inc WEBHOOK_EVENTS [whk_event_type event, if processed then ''processed'' else ''already_processed''] t
           | Inl _ \<Rightarrow>
               (case mark_webhook_failed event_id d of
                  Inl _ \<Rightarrow> t
                | Inr _ \<Rightarrow> inc WEBHOOK_EVENTS [''processing'', ''failed''] t)))"

definition handler_telemetry :: "ext \<Rightarrow> runtime \<Rightarrow> job \<Rightarrow> db \<Rightarrow> telemetry \<Rightarrow> telemetry" where
  "handler_telemetry X E job d t =
     (if job_type job = ''send_invitation_email'' then
        log_result ''invitation_email_sent'' sent_entry (send_invitation_email X (job_payload job)) t
      else if job_type job = ''process_billing_webhook'' then webhook_job_telemetry X E (job_payload job) d t
      else if job_type job = ''write_usage_rollup'' then
        log_result ''usage_rollup_calculated'' rollup_entry (write_usage_rollup X E (job_payload job) d) t
      else t)"

section \<open>The worker\<close>

definition job_entry :: "job \<Rightarrow> dict" where
  "job_entry job = [(''job_id'', JStr (job_id job)), (''job_type'', JStr (job_type job)), (''attempt'', JInt (job_attempt job))]"

definition run_once_telemetry :: "ext \<Rightarrow> runtime \<Rightarrow> worker \<Rightarrow> job_queue \<Rightarrow> world \<Rightarrow> telemetry \<Rightarrow> telemetry" where
  "run_once_telemetry X E W Q w t =
     (case dequeue X E Q (w_redis w) of
        (Inr (Some job), r1) \<Rightarrow>
          let ty = job_type job; th = handler_telemetry X E job (w_db w) t in
          (case handle_job (build_handlers X E) job (w_db w) of
             (Inr _, d1) \<Rightarrow>
               let t1 = inc BACKGROUND_JOBS [ty, ''success''] th in
               (case acknowledge X Q job r1 of
                  (Inl _, _) \<Rightarrow> t1
                | (Inr _, _) \<Rightarrow> log_event ''background_job_completed'' (job_entry job) t1)
           | (Inl exc, d1) \<Rightarrow>
               let t1 = inc BACKGROUND_JOB_FAILURES [ty] th in
               if max_attempts W \<le> job_attempt job then
                 (case move_to_dead_letter X E Q job exc r1 of
                    (Inl _, _) \<Rightarrow> t1
                  | (Inr _, _) \<Rightarrow> log_event ''background_job_dead_lettered'' (job_entry job @ [(''error_type'', JStr (exc_name exc))])
                      (inc BACKGROUND_JOBS [ty, ''dead_letter''] t1))
               else
                 (case py_index (retry_delays W) (min (job_attempt job) (int (length (retry_delays W)) - 1)) of
                    Inl _ \<Rightarrow> t1
                  | Inr delay \<Rightarrow>
                      let t2 = log_event ''background_job_retrying''
                        (job_entry job @ [(''retry_in'', JInt delay), (''error_type'', JStr (exc_name exc))]) t1 in
                      (case retry X Q job r1 of
                         (Inl _, _) \<Rightarrow> t2
                       | (Inr _, _) \<Rightarrow> inc BACKGROUND_JOBS [ty, ''retry''] t2)))
      | _ \<Rightarrow> t)"

text \<open>A poll that raises is logged with the type of the exception, before the worker sleeps.\<close>

fun poll_telemetry :: "ext \<Rightarrow> worker \<Rightarrow> job_queue \<Rightarrow> runtime list \<Rightarrow> world \<Rightarrow> telemetry \<Rightarrow> telemetry" where
  "poll_telemetry X W Q [] w t = t"
| "poll_telemetry X W Q (E # Es) w t =
     (let t1 = run_once_telemetry X E W Q w t in
      case run_once X E W Q (build_handlers X E) w of
        (Inr _, w1) \<Rightarrow> poll_telemetry X W Q Es w1 t1
      | (Inl e, w1) \<Rightarrow> poll_telemetry X W Q Es (w1\<lparr>w_sleeps := w_sleeps w1 @ [1]\<rparr>)
          (log_event ''worker_poll_failed'' [(''error_type'', JStr (exc_name e))] t1))"

text \<open>The start of the worker; the recovery always ends, so the case \<open>None\<close> does not arise.\<close>

definition run_forever_telemetry :: "ext \<Rightarrow> worker \<Rightarrow> job_queue \<Rightarrow> runtime list \<Rightarrow> world \<Rightarrow> telemetry \<Rightarrow> telemetry" where
  "run_forever_telemetry X W Q Es w t =
     (case recover_in_flight Q (w_redis w) of
        (Some (Inr recovered), r1) \<Rightarrow> poll_telemetry X W Q Es (w\<lparr>w_redis := r1\<rparr>)
          (log_event ''worker_started'' [(''queue'', JStr (queue_name Q)), (''recovered_jobs'', JInt recovered)] t)
      | _ \<Rightarrow> t)"

text \<open>The types of the jobs that a worker takes, from the start of the loop and from the start of the worker.\<close>

fun jobs_taken :: "ext \<Rightarrow> worker \<Rightarrow> job_queue \<Rightarrow> runtime list \<Rightarrow> world \<Rightarrow> string list" where
  "jobs_taken X W Q [] w = []"
| "jobs_taken X W Q (E # Es) w =
     (case fst (dequeue X E Q (w_redis w)) of Inr (Some job) \<Rightarrow> [job_type job] | _ \<Rightarrow> []) @
     (case run_once X E W Q (build_handlers X E) w of
        (Inr _, w1) \<Rightarrow> jobs_taken X W Q Es w1
      | (Inl _, w1) \<Rightarrow> jobs_taken X W Q Es (w1\<lparr>w_sleeps := w_sleeps w1 @ [1]\<rparr>))"

definition jobs_run :: "ext \<Rightarrow> worker \<Rightarrow> job_queue \<Rightarrow> runtime list \<Rightarrow> world \<Rightarrow> string list" where
  "jobs_run X W Q Es w =
     (case recover_in_flight Q (w_redis w) of
        (Some (Inr recovered), r1) \<Rightarrow> jobs_taken X W Q Es (w\<lparr>w_redis := r1\<rparr>)
      | _ \<Rightarrow> [])"

section \<open>Lemmas\<close>

definition job_counts :: "telemetry \<Rightarrow> string \<Rightarrow> nat \<times> nat \<times> nat \<times> nat" where
  "job_counts t ty = (counts t BACKGROUND_JOBS [ty, ''success''], counts t BACKGROUND_JOB_FAILURES [ty],
     counts t BACKGROUND_JOBS [ty, ''retry''], counts t BACKGROUND_JOBS [ty, ''dead_letter''])"

lemma job_counts_log [simp]: "job_counts (log_event e x t) = job_counts t"
  by (simp add: job_counts_def log_event_def fun_eq_iff)

lemma job_counts_webhook [simp]: "job_counts (inc WEBHOOK_EVENTS l t) = job_counts t"
  by (simp add: job_counts_def inc_def metric_defs fun_eq_iff)

lemma job_counts_inc:
  "job_counts (inc BACKGROUND_JOBS [ty', ''success''] t) ty = (case job_counts t ty of (s, f, r, l) \<Rightarrow> (s + of_bool (ty' = ty), f, r, l))"
  "job_counts (inc BACKGROUND_JOB_FAILURES [ty'] t) ty = (case job_counts t ty of (s, f, r, l) \<Rightarrow> (s, f + of_bool (ty' = ty), r, l))"
  "job_counts (inc BACKGROUND_JOBS [ty', ''retry''] t) ty = (case job_counts t ty of (s, f, r, l) \<Rightarrow> (s, f, r + of_bool (ty' = ty), l))"
  "job_counts (inc BACKGROUND_JOBS [ty', ''dead_letter''] t) ty = (case job_counts t ty of (s, f, r, l) \<Rightarrow> (s, f, r, l + of_bool (ty' = ty)))"
  by (auto simp: job_counts_def inc_def metric_defs)

lemma job_counts_handler: "job_counts (handler_telemetry X E job d t) = job_counts t"
  by (simp add: handler_telemetry_def log_result_def webhook_job_telemetry_def Let_def split: sum.split prod.split)

text \<open>What one turn adds: nothing without a job, else one success or one failure, and at most as many retries and dead letters as failures.\<close>

lemma run_once_counts:
  assumes "job_counts t ty = (s, f, r, l)"
  shows "\<exists>s' f' r' l'. job_counts (run_once_telemetry X E W Q w t) ty = (s + s', f + f', r + r', l + l') \<and> r' + l' \<le> f' \<and>
    s' + f' = (case fst (dequeue X E Q (w_redis w)) of Inr (Some job) \<Rightarrow> of_bool (job_type job = ty) | _ \<Rightarrow> 0)"
proof -
  obtain q r1 where d: "dequeue X E Q (w_redis w) = (q, r1)" by (metis surj_pair)
  show ?thesis
  proof (cases "\<exists>job. q = Inr (Some job)")
    case False
    then have "run_once_telemetry X E W Q w t = t" "(case q of Inr (Some job) \<Rightarrow> of_bool (job_type job = ty) | _ \<Rightarrow> 0) = (0 :: nat)"
      by (auto simp: run_once_telemetry_def d split: sum.split option.split)
    then show ?thesis using assms d by simp
  next
    case True
    then obtain job where q: "q = Inr (Some job)" by blast
    let ?b = "of_bool (job_type job = ty) :: nat"
    have h: "job_counts (handler_telemetry X E job (w_db w) t) ty = (s, f, r, l)" by (simp add: assms job_counts_handler)
    have "job_counts (run_once_telemetry X E W Q w t) ty \<in> {(s + ?b, f, r, l), (s, f + ?b, r, l), (s, f + ?b, r + ?b, l), (s, f + ?b, r, l + ?b)}"
      by (simp add: run_once_telemetry_def d q Let_def h job_counts_inc split: sum.split prod.split)
    then show ?thesis by (elim insertE emptyE) (auto simp: d q)
  qed
qed

lemma polls_counts:
  assumes "job_counts t ty = (s, f, r, l)"
  shows "\<exists>s' f' r' l'. job_counts (poll_telemetry X W Q Es w t) ty = (s + s', f + f', r + r', l + l') \<and> r' + l' \<le> f' \<and>
    s' + f' = count_list (jobs_taken X W Q Es w) ty"
  using assms
proof (induction Es arbitrary: w t s f r l)
  case (Cons E Es)
  obtain res w1 where w1: "run_once X E W Q (build_handlers X E) w = (res, w1)" by (metis surj_pair)
  let ?w = "case res of Inr _ \<Rightarrow> w1 | Inl _ \<Rightarrow> w1\<lparr>w_sleeps := w_sleeps w1 @ [1]\<rparr>"
  let ?t = "run_once_telemetry X E W Q w t"
  let ?t' = "case res of Inr _ \<Rightarrow> ?t | Inl e \<Rightarrow> log_event ''worker_poll_failed'' [(''error_type'', JStr (exc_name e))] ?t"
  obtain s1 f1 r1 l1 where o: "job_counts ?t ty = (s + s1, f + f1, r + r1, l + l1)" "r1 + l1 \<le> f1"
    "s1 + f1 = (case fst (dequeue X E Q (w_redis w)) of Inr (Some job) \<Rightarrow> of_bool (job_type job = ty) | _ \<Rightarrow> 0)"
    using run_once_counts [OF Cons.prems] by blast
  have "job_counts ?t' ty = (s + s1, f + f1, r + r1, l + l1)" using o(1) by (cases res) simp_all
  from Cons.IH [OF this, of ?w] obtain s2 f2 r2 l2 where
    "job_counts (poll_telemetry X W Q Es ?w ?t') ty = (s + s1 + s2, f + f1 + f2, r + r1 + r2, l + l1 + l2)" "r2 + l2 \<le> f2"
    "s2 + f2 = count_list (jobs_taken X W Q Es ?w) ty" by blast
  moreover have "poll_telemetry X W Q (E # Es) w t = poll_telemetry X W Q Es ?w ?t'" by (cases res) (simp_all add: w1 Let_def)
  moreover have "count_list (jobs_taken X W Q (E # Es) w) ty = s1 + f1 + count_list (jobs_taken X W Q Es ?w) ty"
    unfolding o(3) by (cases res) (auto simp: w1 split: sum.split option.split)
  ultimately show ?case using o(2)
    by (intro exI [of _ "s1 + s2"] exI [of _ "f1 + f2"] exI [of _ "r1 + r2"] exI [of _ "l1 + l2"]) (simp add: add.assoc)
qed simp

section \<open>Property\<close>

text \<open>
  C38. The worker's metrics account for every job: after its start and any number of polls, for every
  type of job, the jobs counted as successes and as failures are together exactly those taken from the
  queue, and no retry or dead letter is counted without a failure.
\<close>

theorem job_metrics_exact:
  "let n = counts (run_forever_telemetry X W Q Es w no_telemetry) in
   n BACKGROUND_JOBS [ty, ''success''] + n BACKGROUND_JOB_FAILURES [ty] = count_list (jobs_run X W Q Es w) ty \<and>
   n BACKGROUND_JOBS [ty, ''retry''] + n BACKGROUND_JOBS [ty, ''dead_letter''] \<le> n BACKGROUND_JOB_FAILURES [ty]"
proof -
  have none: "job_counts no_telemetry ty = (0, 0, 0, 0)" by (simp add: job_counts_def no_telemetry_def)
  then have "job_counts (log_event event entry no_telemetry) ty = (0, 0, 0, 0)" for event entry by simp
  from polls_counts [OF this] none show ?thesis
    by (auto simp: job_counts_def run_forever_telemetry_def jobs_run_def Let_def split: prod.split option.split sum.split)
qed

end
