(* ===== verification/Invitation_Delivery.thy ===== *)
theory Invitation_Delivery
  imports Application
begin

text \<open>
  The contract of the adapters that send invitations, \<open>InvitationEmailSender\<close> in \<^verbatim>\<open>app/services/email.py\<close>: an
  adapter delivers or raises \<open>InvitationDeliveryError\<close>. The endpoint for invitations relies on nothing else, and
  the adapter of the program keeps the contract. The main result is that an invitation, once stored, is
  answered with its token, whatever becomes of the mail.
\<close>

type_synonym email_sender = "string \<Rightarrow> uuid \<Rightarrow> uuid \<Rightarrow> string \<Rightarrow> redis \<Rightarrow> (exc + unit) \<times> redis"

locale invitation_email_sender =
  fixes send :: email_sender
  assumes delivers_or_raises:
    "token \<noteq> [] \<Longrightarrow> send email organization_id invitation_id token r = (result, r') \<Longrightarrow>
       result = Inr () \<or> (\<exists>m. result = Inl (InvitationDeliveryError m))"
begin

lemma deliver_succeeds:
  assumes "token \<noteq> []"
  shows "\<exists>r'. deliver (send email organization_id invitation_id token) (d, r) = (Inr (), (d, r'))"
proof -
  obtain result r' where s: "send email organization_id invitation_id token r = (result, r')" by (metis surj_pair)
  from delivers_or_raises [OF assms s] show ?thesis by (auto simp: deliver_def on_redis_def s)
qed

end

interpretation development_email_sender: invitation_email_sender "send_invitation X E" for X E
proof
  fix token email organization_id invitation_id r result r'
  assume "token \<noteq> []" "send_invitation X E email organization_id invitation_id token r = (result, r')"
  then show "result = Inr () \<or> (\<exists>m. result = Inl (InvitationDeliveryError m))"
    by (auto simp: send_invitation_def enqueue_def create_job_def raise_if_def command_def split: if_splits)
qed

lemma create_invitation_route_stored:
  "create_invitation_route X S E c oid email role =
     a_bind (stored_invitation X S E c oid email role) (\<lambda>(invitation, raw_token).
       session (a_bind (deliver (send_invitation X (later_uuid 2 (later_clock 3 E)) (inv_email invitation)
         (inv_organization_id invitation) (inv_id invitation) raw_token)) (\<lambda>_. ret (InvitationCreated invitation raw_token))))"
  by (simp add: create_invitation_route_def stored_invitation_def)

lemma stored_invitation_answered:
  assumes "stored_invitation X S E c oid email role s = (Inr (invitation, raw_token), (d, r))" "raw_token \<noteq> []"
  shows "\<exists>r'. create_invitation_route X S E c oid email role s = (Inr (InvitationCreated invitation raw_token), (d, r'))"
proof -
  obtain r' where "deliver (send_invitation X (later_uuid 2 (later_clock 3 E)) (inv_email invitation)
      (inv_organization_id invitation) (inv_id invitation) raw_token) (d, r) = (Inr (), (d, r'))"
    using development_email_sender.deliver_succeeds [OF assms(2)] by blast
  then show ?thesis
    by (simp add: create_invitation_route_stored a_bind_def assms(1) session_def ret_def)
qed

end
