(* ===== verification/Spec2Isabelle.thy ===== *)
theory Spec2Isabelle
  imports Isolation Metering Seed Column_Sizes Interleavings Surface Worker_Telemetry Migration_Environment Invitation_Delivery
    "HOL-Library.Multiset"
begin

text \<open>
  TenantForge: a multi-tenant service (FastAPI on PostgreSQL and Redis) with accounts, organizations,
  roles, invitations, API keys, projects, usage quotas, billing webhooks, rate limits and a job
  worker. This development models its own code and proves what its users rely on: tenants cannot
  write or read each other's data, one-time tokens work once, quotas and rate limits hold, webhooks
  are authentic and applied once, and jobs are not lost.

  \<^bold>\<open>How the parts fit together.\<close> A request (\<^verbatim>\<open>app/api/routes\<close>) runs its dependencies
  (\<^verbatim>\<open>app/api/deps.py\<close>: access token, rate limit, membership and role, or API key), validates its
  body (\<^verbatim>\<open>app/schemas\<close>), calls one service operation (\<^verbatim>\<open>app/services\<close>) on the tables of
  \<^verbatim>\<open>app/models\<close> and commits, or rolls back when an exception leaves the handler
  (\<^verbatim>\<open>app/database.py\<close>). Invitations and webhooks put jobs on the Redis queue
  (\<^verbatim>\<open>app/infrastructure/queue.py\<close>), which the worker (\<^verbatim>\<open>app/workers\<close>) takes, runs, retries and finally
  puts aside.

  \<^bold>\<open>The model.\<close> The database is the record \<open>db\<close>, one list of rows per table; a row is a record with
  the columns of the SQLAlchemy class. An SQL statement is a function on these lists, a flush is
  an \<open>add_\<close>, \<open>save_\<close> or \<open>delete_\<close> operation that raises \<open>IntegrityError\<close> exactly when a unique or
  foreign key constraint is violated and cascades deletions. A service operation takes the
  database and returns \<open>Inl e\<close>, the exception raised, or \<open>Inr (x, d)\<close>, its result and the new
  database. A route is an action on the pair of database and Redis, of type \<open>app\<close>. UUIDs are
  128-bit words; \<open>int\<close>, \<open>str\<close> and \<open>datetime\<close> follow Python's semantics (unbounded integers,
  characters of code points below 256, years 1 to 9999 with an \<open>OverflowError\<close> beyond). Clock
  readings, \<open>uuid4()\<close> and random tokens come from the environment \<open>rt\<close> of a request, without any
  assumption but the freshness hypotheses a theorem names. PyJWT, pwdlib, the digests and what the
  interpreter's number parser returns are the fields of the record \<open>ext\<close>, a parameter of
  every definition that uses them; \<open>jwt_library\<close> states what PyJWT documents, and \<open>password_library\<close>
  what pwdlib does.

  \<^bold>\<open>The theories\<close>, in the order in which they build on each other.
  \<^item> \<open>Prelude\<close>: exceptions and results, query helpers, lemma collections. \<open>Py_Text\<close>,
    \<open>Py_Datetime\<close>, \<open>Py_Isoformat\<close>, \<open>Py_Json\<close>, \<open>Py_Json_Text\<close>: what the code uses of Python's strings,
    integers, UUIDs, calendar, ISO 8601 time stamps, JSON values and JSON text.
  \<^item> \<open>Core\<close>: errors and their handlers (\<^verbatim>\<open>core/errors.py\<close>), enumerations, quotas, settings
    (\<^verbatim>\<open>config.py\<close>), request identifiers (\<^verbatim>\<open>core/logging.py\<close>), role checks (\<^verbatim>\<open>security/permissions.py\<close>).
    \<open>Security\<close>: passwords, opaque tokens, access tokens (\<^verbatim>\<open>app/security\<close>). \<open>Schemas\<close>: request bodies.
  \<^item> \<open>Models\<close>: tables, flushes and \<open>wf_db\<close>, the database constraints, which every flush keeps.
    \<open>Tenancy\<close>: sessions, the audit service, \<open>tenant_view\<close> (all rows of one organization) and the
    contracts of services as locales: \<open>db_service\<close> (keeps \<open>wf_db\<close>), \<open>tenant_service\<close> (touches one
    tenant), \<open>complete_service\<close> (no organization loses its last owner or its subscription) and
    \<open>one_time_token\<close> (a token that is spent stays spent). Each is interpreted on the service
    operations in the theory that defines them. \<open>Samples\<close> is a concrete installation.
  \<^item> The services of \<^verbatim>\<open>app/services\<close>: \<open>Organizations\<close>, \<open>Auth\<close>, \<open>Invitations\<close>, \<open>Api_Keys\<close>, \<open>Projects\<close>,
    \<open>Usage\<close> and \<open>Billing\<close> (with the guarantees of both in \<open>Metering\<close>) and \<open>Webhooks\<close>.
  \<^item> The infrastructure: \<open>Redis\<close>, \<open>Rate_Limit\<close>, \<open>Job_Queue\<close> (whose locale \<open>fifo_queue\<close> is the abstract
    queue that the Redis lists implement) and \<open>Workers\<close>.
  \<^item> The database schema: \<open>Migration\<close> (\<^verbatim>\<open>alembic/versions\<close>), \<open>Declarations\<close> (the mapped classes of
    \<^verbatim>\<open>app/models\<close>), \<open>Constraints\<close> (the rows of \<open>db\<close> as rows of these tables) and \<open>Column_Sizes\<close> (every
    stored value fits its column).
  \<^item> Requests at the same time: \<open>Transactions\<close> (transactions as sequences of statements under
    \<open>READ COMMITTED\<close>, row locks, their interleavings, and a rely/guarantee proof system as the locale
    \<open>transactions\<close>), \<open>Concurrency\<close> and \<open>Resource_Transactions\<close> (every service that writes as such a
    transaction, each equal to its service when it runs alone), \<open>Concurrent_Safety\<close> and \<open>Resource_Safety\<close> (what
    the transactions keep; creations and uses of invitations, API keys and projects are counted),
    \<open>Concurrent_System\<close> (the system of all of them as an interpretation of the locale), \<open>Concurrent_Quota\<close> (a second
    interpretation: the lock on an organization protects its subscription and its usage) and \<open>Interleavings\<close> (what holds in every run, and a
    run in which a role is honoured that was revoked meanwhile, and that transactions run alone are the services).
  \<^item> \<open>Seed\<close>: the demo data script, \<^verbatim>\<open>scripts/seed_demo.py\<close>.
  \<^item> The service as a whole: \<open>Deps\<close>, \<open>Routes\<close> (one definition per endpoint and \<open>handle\<close>, the router),
    \<open>System\<close> (steps and reachable states; its locale \<open>db_relation\<close> carries a relation of databases
    through the structure of actions), \<open>Authorization\<close> (what a request may write), \<open>Isolation\<close>
    (what a request may see) and this theory.
  \<^item> The HTTP surface: \<open>Http\<close> (response schemas, status codes and error answers of \<open>handle\<close>), \<open>Routing\<close>
    (the routers and the matching of methods and paths), \<open>Application\<close> (parameters of the endpoints,
    the dependencies that run before a validation error, \<open>dispatch\<close>, the request context middleware),
    \<open>Surface\<close> (what holds of every request, whatever is sent). \<open>Telemetry\<close> (\<^verbatim>\<open>core/metrics.py\<close>: counters,
    histogram, log lines) and \<open>Worker_Telemetry\<close> (those of the worker). \<open>Invitation_Delivery\<close>: the contract of
    the adapters that send invitations as a locale, kept by the program's own, and what the endpoint gets from it.
  \<^item> The processes: \<open>Startup\<close> (cached settings, logger configuration, Redis client, the application object with its
    exception handlers, shutdown, the main function of the worker) and \<open>Migration_Environment\<close> (\<^verbatim>\<open>alembic/env.py\<close>: the
    address of the database on its way through the configuration of the migrations).

  \<^bold>\<open>What is shown.\<close> Here: every reachable state satisfies the database constraints, and every
  organization in it has an owner and a subscription; a request changes an organization only with
  the authority demanded; reads depend on the organization's own rows; the pages of the audit log fit
  together in whatever order the database returns its rows. In the component theories: effects and error conditions of the operations, at-most-once
  use of refresh tokens, invitations and webhooks, the exact number of requests the rate limiter
  admits, quotas, billing periods and calendar arithmetic, authenticity of webhooks, round trips of
  jobs, time stamps and rollups, access tokens, API keys, signatures and accounts, the queue as a first-in first-out queue,
  recovery, retries, and a dead letter list without credentials after any sequence of queue operations. Of the schema:
  on any database the migration adds what the mapped classes declare or fails, and the downgrade takes back only that,
  \<open>wf_db\<close> is the conjunction of the constraints the migration creates, and no request or worker turn
  stores a value its column cannot hold. Of the HTTP surface: requests
  reach the endpoint of their URL, without credentials only public endpoints answer, error answers leave no
  trace in the database, every answer is identified, metrics are exact, metrics and logs
  keep no secrets, and a webhook whose delivery failed is not lost. Of
  requests at the same time: in every interleaving of their statements organizations keep an owner, refresh tokens
  and webhooks are used once, invitations, keys and projects at most as often as they were created, and every report of usage keeps the quota
  at the moment it commits, whatever plans, webhooks and periods change meanwhile; a refused request can however succeed with a stale role.

  \<^bold>\<open>Loops and bounds.\<close> The month loop of \<open>subscription_period\<close> is a terminating function: each turn
  moves a date forward until the year 9999 raises. The recovery loop of the queue has a bound of
  the length of the processing list plus one, and \<open>recover_in_flight_complete\<close> shows that it is
  enough. The JSON parser recurses at most as often as the text has characters; every call
  consumes one. The worker's \<open>while True\<close> is the recursion over the list of its polls' environments.

  \<^bold>\<open>Not modelled.\<close> The rendering of metrics and log lines, the reading of the environment into settings, the
  framework's own documentation pages, the execution of migrations by the migration tool, the database engine, its
  outages (of which only the readiness check takes notice)   and the connections of the Redis client are outside
  the program's own code. Requests interleave
  statement by statement in \<open>Transactions\<close> and the theories on it; everywhere else a request is one
  step. There the changes of a transaction take effect together at its commit, reads of a statement are
  of one committed state. Indexes that are not unique have no
  effect in the model, and a flush does not check the lengths of text columns, which \<open>Column_Sizes\<close>
  shows are never exceeded.
\<close>

section \<open>Reachable states\<close>

text \<open>
  C3. In every state the service can reach from an empty installation, by any requests and worker
  turns at any times and with Redis failing or losing data at will, the database satisfies all its
  constraints, and every organization has an owner and a subscription.
\<close>

theorem reachable_states_sound:
  assumes "reachable X S dummy_hash s"
  shows "wf_db (fst s) \<and> orgs_complete (fst s)"
  using assms by (rule reachable_invariant)

theorem reachable_states_sound_witness:
  "\<exists>d r. reachable sample_ext default_settings [] (d, r) \<and> users d \<noteq> [] \<and> wf_db d \<and> orgs_complete d"
proof -
  have e: "normalize_email ''new@c.io'' = Inr ''new@c.io''" "py_lower (py_strip ''new@c.io'') = ''new@c.io''"
    "length_between 8 128 ''password1'' = Inr ''password1''" by code_simp+
  obtain d u where h: "handle sample_ext default_settings [] sample_rt (AuthRequest (Register ''new@c.io'' ''password1'')) (empty_db, empty_redis) =
      (Inr (UserRead u), (d, empty_redis))" "users d = [u]"
    by (simp add: register_route_def session_def a_bind_def body_def checked_def RegisterRequest_def e service_def service_defs
        ret_def empty_db_def on_integrity_error_def)
  have "reachable sample_ext default_settings [] (d, empty_redis)"
    using reachable.step [OF reachable.init system_step.api [OF h(1)]] .
  from reachable_states_sound [OF this] this h(2) show ?thesis by auto
qed

section \<open>Authorization\<close>

text \<open>An owner's token on a fresh Redis, for the requests below.\<close>

definition owner_ext :: ext where
  "owner_ext = plain_ext\<lparr>jwt_decode := \<lambda>token k t. Inr [(''sub'', JStr (uuid_str 1)), (''type'', JStr ''access'')]\<rparr>"

lemma enforce_first: "1 \<le> limit \<Longrightarrow> 1 \<le> w \<Longrightarrow> \<exists>res r'. enforce p i limit w t empty_redis = (Inr res, r')"
  by (simp add: enforce_def check_def empty_redis_def increment_window_def live_count_def Let_def)

lemma owner_admitted:
  "\<exists>r'. current_member owner_ext default_settings sample_rt (Some (''Bearer'', [])) 10 everyone (sample_db, empty_redis) =
     (Inr (sample_user 1 ''ann@a.io'', sample_member 11 1 10 OWNER), (sample_db, r'))"
proof -
  have b: "py_lower ''Bearer'' = ''bearer''" by code_simp
  have t: "decode_access_token owner_ext default_settings sample_rt [] = Inr 1"
    by (simp add: decode_access_token_Inr owner_ext_def dict_get_def)
  have u: "filter (\<lambda>u. usr_id u = 1 \<and> usr_is_active u) (users sample_db) = [sample_user 1 ''ann@a.io'']" by (simp add: sample_defs)
  have m: "select_membership sample_db 10 1 = Some (sample_member 11 1 10 OWNER)" by (simp add: select_membership_def sample_defs)
  have "1 \<le> user_rate_limit_per_minute default_settings" by (simp add: default_settings_def)
  then obtain res r' where "enforce rate_prefix (''user:'' @ uuid_str 1) (user_rate_limit_per_minute default_settings) 60
      (unix_time (rt_clock sample_rt 1)) empty_redis = (Inr res, r')" using enforce_first by (meson one_le_numeral)
  then have "get_current_user owner_ext default_settings sample_rt (Some (''Bearer'', [])) (sample_db, empty_redis) =
      (Inr (sample_user 1 ''ann@a.io''), (sample_db, r'))"
    by (simp add: get_current_user_def a_bind_def checked_def query_def on_redis_def ret_def b t u) (simp add: sample_user_def)
  then show ?thesis
    using m by (simp add: current_member_def get_current_membership_def require_roles_def a_bind_def query_def checked_def ret_def)
      (simp add: sample_user_def sample_member_def a_bind_def checked_def ret_def)
qed

text \<open>
  C1. No request changes anything of an organization without the authority the service demands for
  it: a valid access token of an active account with a membership of sufficient role in that very
  organization, an unrevoked API key of it, or an open invitation to it for the account's address;
  logins, reads, webhooks and requests for other organizations change nothing.
\<close>

theorem only_authorized_writes:
  assumes "handle X S dummy_hash E req (d, r) = (res, (d', r'))" "wf_db d" "tenant_view oid d' \<noteq> tenant_view oid d"
  shows "may_write X S E req oid d"
  using assms by (rule handle_write)

theorem only_authorized_writes_witness:
  "\<exists>s'. handle owner_ext default_settings [] sample_rt (ProjectRequest (DeleteProject (Some (''Bearer'', [])) 10 50)) (sample_db, empty_redis) =
       (Inr NoContent, s') \<and>
     may_write owner_ext default_settings sample_rt (ProjectRequest (DeleteProject (Some (''Bearer'', [])) 10 50)) 10 sample_db"
proof -
  let ?req = "ProjectRequest (DeleteProject (Some (''Bearer'', [])) 10 50)"
  obtain r1 where c: "current_member owner_ext default_settings sample_rt (Some (''Bearer'', [])) 10 everyone (sample_db, empty_redis) =
     (Inr (sample_user 1 ''ann@a.io'', sample_member 11 1 10 OWNER), (sample_db, r1))" using owner_admitted by blast
  obtain d' where d: "delete_project sample_rt 10 50 1 sample_db = Inr ((), d')" "projects d' = []"
    by (simp add: service_defs cong: r_bind_weak_cong)
  have h: "handle owner_ext default_settings [] sample_rt ?req (sample_db, empty_redis) = (Inr NoContent, (d', r1))"
    using c d(1) by (simp add: delete_project_route_def session_def a_bind_def service_def ret_def) (simp add: sample_user_def ret_def)
  have "tv_projects (tenant_view 10 d') \<noteq> tv_projects (tenant_view 10 sample_db)" using d(2) by (simp add: sample_defs)
  then have "tenant_view 10 d' \<noteq> tenant_view 10 sample_db" by metis
  from only_authorized_writes [OF h sample_wf this] h show ?thesis by blast
qed

text \<open>
  C2. What a request that reads an organization answers is determined by that organization's own
  rows and the accounts: two installations that agree on them give the same answer, whatever the
  other tenants have stored.
\<close>

theorem reads_isolated:
  assumes "read_of req = Some oid" "tenant_view oid d1 = tenant_view oid d2" "users d1 = users d2"
  shows "fst (handle X S dummy_hash E req (d1, r)) = fst (handle X S dummy_hash E req (d2, r))"
proof -
  have "agree_on oid d1 d2" using assms(2,3) by (simp add: agree_on_def)
  then show ?thesis using agreeingE [OF handle_agreeing [OF assms(1)]] by (metis fst_conv)
qed

theorem reads_isolated_witness:
  "fst (handle owner_ext default_settings [] sample_rt (ProjectRequest (ListProjects (Some (''Bearer'', [])) 10)) (sample_db, empty_redis)) =
   fst (handle owner_ext default_settings [] sample_rt (ProjectRequest (ListProjects (Some (''Bearer'', [])) 10))
     (sample_db\<lparr>memberships := filter (\<lambda>m. mem_organization_id m = 10) (memberships sample_db), subscriptions := [sample_sub 21 10 FREE]\<rparr>, empty_redis))"
  by (rule reads_isolated [where oid = 10]) (simp_all add: read_of_def tenant_view_def sample_sub_def sample_db_def)

section \<open>The audit trail\<close>

lemma lex_key_less:
  fixes s t m n K :: int
  assumes "0 \<le> m" "m < K" "0 \<le> n" "n < K"
  shows "s * K + m < t * K + n \<longleftrightarrow> s < t \<or> s = t \<and> m < n"
proof -
  have less: "s * K + m < t * K + n" if "s < t" "m < K" "0 \<le> n" for s t m n :: int
  proof -
    have "(s + 1) * K \<le> t * K" using that assms(1,2) by (intro mult_right_mono) auto
    then show ?thesis using that by (simp add: distrib_right)
  qed
  show ?thesis using less [of s t m n] less [of t s n m] assms by (cases s t rule: linorder_cases) auto
qed

text \<open>The query orders by time and then by identifier.\<close>

lemma audit_key_less:
  "instant (aud_created_at a) * 2 ^ 128 + uint (aud_id a) < instant (aud_created_at b) * 2 ^ 128 + uint (aud_id b) \<longleftrightarrow>
     instant (aud_created_at a) < instant (aud_created_at b) \<or>
     instant (aud_created_at a) = instant (aud_created_at b) \<and> aud_id a < aud_id b"
  unfolding word_less_alt using uint_lt2p [of "aud_id a"] uint_lt2p [of "aud_id b"] by (intro lex_key_less) simp_all

lemma audit_key_inj: "unique_on aud_id as \<Longrightarrow> inj_on (\<lambda>a. instant (aud_created_at a) * 2 ^ 128 + uint (aud_id a)) (set as)"
proof (rule inj_onI)
  fix a b
  assume u: "unique_on aud_id as" "a \<in> set as" "b \<in> set as"
    and "instant (aud_created_at a) * 2 ^ 128 + uint (aud_id a) = instant (aud_created_at b) * 2 ^ 128 + uint (aud_id b)"
  then have "aud_id a = aud_id b"
    using audit_key_less [of a b] audit_key_less [of b a] by (metis less_irrefl linorder_less_linear)
  then show "a = b" using u by (simp add: unique_on_def distinct_map inj_on_def)
qed

text \<open>Two entries of the same moment, stored in one order and in the other.\<close>

definition logged_db :: "uuid list \<Rightarrow> db" where
  "logged_db ids = sample_db\<lparr>audit_logs := map (\<lambda>i. \<lparr>aud_id = i, aud_organization_id = 10, aud_actor_user_id = Some 1, aud_action = ''project.created'',
     aud_resource_type = ''project'', aud_resource_id = ''p'', aud_details = [], aud_ip_address = None, aud_created_at = sample_now\<rparr>) ids\<rparr>"

text \<open>
  C40. The pages of the audit log fit together although the database returns rows in no particular
  order: of two databases with the same entries stored in any two orders, a page of one and the following
  page of the other are the page of their joint length. Every page is strictly ordered from the
  newest entry to the oldest, entries of the same moment by their identifier, and together the pages are
  exactly the entries of the organization.
\<close>

theorem audit_log_pages:
  assumes "wf_db d" "mset (audit_logs d') = mset (audit_logs d)"
  shows "list_audit_logs oid l k d @ list_audit_logs oid l' (k + l) d' = list_audit_logs oid (l + l') k d \<and>
    sorted_wrt (\<lambda>a b. instant (aud_created_at b) < instant (aud_created_at a) \<or>
      instant (aud_created_at b) = instant (aud_created_at a) \<and> aud_id b < aud_id a) (list_audit_logs oid l k d) \<and>
    set (list_audit_logs oid (length (audit_logs d)) 0 d) = {a \<in> set (audit_logs d). aud_organization_id a = oid}"
proof (intro conjI)
  let ?key = "\<lambda>a. instant (aud_created_at a) * 2 ^ 128 + uint (aud_id a)"
  let ?sel = "\<lambda>d. filter (\<lambda>a. aud_organization_id a = oid) (audit_logs d)"
  let ?xs = "rev (sort_key ?key (?sel d))"
  have inj: "inj_on ?key (set (?sel d))"
    using audit_key_inj [OF wf_unique(19) [OF assms(1)]] by (rule inj_on_subset) auto
  have "mset (?sel d') = mset (?sel d)" using assms(2) by simp
  moreover from this have "set (?sel d') = set (?sel d)" by (rule mset_eq_setD)
  ultimately have "sort_key ?key (?sel d') = sort_key ?key (?sel d)"
    using inj by (intro sort_key_inj_key_eq [OF _ _ sorted_sort_key]) simp_all
  then show "list_audit_logs oid l k d @ list_audit_logs oid l' (k + l) d' = list_audit_logs oid (l + l') k d"
    unfolding list_audit_logs_def by (simp only: take_add drop_drop add.commute [of k l])
  have "distinct (?sel d)" using wf_unique(19) [OF assms(1)] by (simp add: unique_on_def distinct_map)
  then have "distinct (map ?key (sort_key ?key (?sel d)))" using inj by (simp add: distinct_map)
  moreover have "sorted (map ?key (sort_key ?key (?sel d)))" by simp
  ultimately have "sorted_wrt (<) (map ?key (sort_key ?key (?sel d)))" using strict_sorted_iff by blast
  then have "sorted_wrt (\<lambda>a b. ?key b < ?key a) ?xs" by (simp add: sorted_wrt_map sorted_wrt_rev)
  then show "sorted_wrt (\<lambda>a b. instant (aud_created_at b) < instant (aud_created_at a) \<or>
      instant (aud_created_at b) = instant (aud_created_at a) \<and> aud_id b < aud_id a) (list_audit_logs oid l k d)"
    unfolding list_audit_logs_def audit_key_less by (intro sorted_wrt_take sorted_wrt_drop)
  have "length ?xs \<le> length (audit_logs d)" by simp
  then show "set (list_audit_logs oid (length (audit_logs d)) 0 d) = {a \<in> set (audit_logs d). aud_organization_id a = oid}"
    unfolding list_audit_logs_def by simp
qed

theorem audit_log_pages_witness:
  "list_audit_logs 10 1 0 (logged_db [90, 91]) @ list_audit_logs 10 1 1 (logged_db [91, 90]) = list_audit_logs 10 2 0 (logged_db [90, 91])"
proof -
  have "wf_db (logged_db [90, 91])"
    by code_simp
  moreover have "mset (audit_logs (logged_db [91, 90])) = mset (audit_logs (logged_db [90, 91]))" by (simp add: logged_db_def)
  ultimately show ?thesis using audit_log_pages [of "logged_db [90, 91]" "logged_db [91, 90]" 10 1 0 1] by (simp add: numeral_2_eq_2)
qed

end
